(* ===== verification/Prelude.thy ===== *)
theory Prelude
  imports
    Complex_Main
    "HOL-Library.Word"
    "HOL-Library.AList"
    "HOL-Library.Multiset"
    "HOL-Library.List_Lexorder"
    "HOL-Library.Char_ord"
begin

text \<open>
  What every theory of the development shares: the Go data that the program is written
  with (strings as byte lists, maps as association lists in iteration order, errors as
  values), the functions of Go's standard library the source calls on them
  (\<open>strings.Join\<close>, \<open>strings.Contains\<close>, \<open>strings.ReplaceAll\<close>, \<open>%d\<close> of \<open>fmt\<close>,
  \<open>slices.Sort\<close>), and the lemmas on them that the components use.
\<close>

named_theorems go_string \<open>rewriting of the string functions\<close>
named_theorems go_map \<open>rewriting of the map functions\<close>

section \<open>Types\<close>

text \<open>A Go string is its bytes; a \<open>map[string]V\<close> is an association list whose order is
  the order in which one \<open>range\<close> over the map happens to visit the entries.\<close>

type_synonym 'v gomap = "(string \<times> 'v) list"
type_synonym u64 = "64 word"

text \<open>An error built by \<open>fmt.Errorf\<close> is kept as its format and its arguments; wrapping
  with \<open>%w\<close> keeps the wrapped error, so \<open>errors.Is\<close> can look for it.\<close>

datatype GoArg = AStr string | ANat nat | AMap "(string \<times> string) list" | AStrs "string list"

datatype GoErr =
    Errorf string "GoArg list"
  | Wrapf string "GoArg list" GoErr
  | ErrCursorNotFound
  | SystemTableError GoErr
  | ExternalErr string

type_synonym 'a res = "GoErr + 'a"

fun errors_Is :: "GoErr \<Rightarrow> GoErr \<Rightarrow> bool" where
  "errors_Is (Wrapf f as e) t = (Wrapf f as e = t \<or> errors_Is e t)"
| "errors_Is e t = (e = t)"

fun res_bind :: "'a res \<Rightarrow> ('a \<Rightarrow> 'b res) \<Rightarrow> 'b res" where
  "res_bind (Inl e) f = Inl e"
| "res_bind (Inr x) f = f x"

fun is_ok :: "'a res \<Rightarrow> bool" where
  "is_ok (Inr _) = True"
| "is_ok (Inl _) = False"

text \<open>The errors of a call are wrapped in the caller's message.\<close>

fun wrap_err :: "string \<Rightarrow> GoArg list \<Rightarrow> 'a res \<Rightarrow> 'a res" where
  "wrap_err f as (Inl e) = Inl (Wrapf f as e)"
| "wrap_err f as (Inr x) = Inr x"

text \<open>A loop whose body can fail stops at the first error.\<close>

fun traverse :: "('a \<Rightarrow> 'b res) \<Rightarrow> 'a list \<Rightarrow> 'b list res" where
  "traverse f [] = Inr []"
| "traverse f (x # xs) =
     (case f x of Inl e \<Rightarrow> Inl e
      | Inr y \<Rightarrow> (case traverse f xs of Inl e \<Rightarrow> Inl e | Inr ys \<Rightarrow> Inr (y # ys)))"

lemma traverse_Inr_length: "traverse f xs = Inr ys \<Longrightarrow> length ys = length xs"
  by (induction xs arbitrary: ys) (auto split: sum.splits)

lemma traverse_Inr_iff:
  "traverse f xs = Inr ys \<longleftrightarrow> list_all2 (\<lambda>x y. f x = Inr y) xs ys"
proof (induction xs arbitrary: ys)
  case Nil
  show ?case by auto
next
  case (Cons x xs)
  show ?case
  proof (cases ys)
    case Nil
    then show ?thesis by (auto split: sum.splits)
  next
    case (Cons y zs)
    then show ?thesis using Cons.IH [of zs]
      by (cases "f x"; cases "traverse f xs") simp_all
  qed
qed

lemma traverse_all_ok: "(\<And>x. x \<in> set xs \<Longrightarrow> f x = Inr (g x)) \<Longrightarrow> traverse f xs = Inr (map g xs)"
  by (induction xs) auto

lemma traverse_append:
  "traverse f (xs @ ys) = (case traverse f xs of Inl e \<Rightarrow> Inl e
     | Inr as \<Rightarrow> (case traverse f ys of Inl e \<Rightarrow> Inl e | Inr bs \<Rightarrow> Inr (as @ bs)))"
  by (induction xs) (auto split: sum.splits)

section \<open>Strings\<close>

text \<open>\<open>strings.Join(xs, sep)\<close>\<close>

fun joinS :: "string \<Rightarrow> string list \<Rightarrow> string" where
  "joinS sep [] = []"
| "joinS sep [x] = x"
| "joinS sep (x # y # zs) = x @ sep @ joinS sep (y # zs)"

lemma joinS_Cons: "zs \<noteq> [] \<Longrightarrow> joinS sep (z # zs) = z @ sep @ joinS sep zs"
  by (cases zs) auto

text \<open>\<open>strings.HasPrefix(s, p)\<close> and the remainder after the prefix\<close>

fun hasPrefix :: "string \<Rightarrow> string \<Rightarrow> bool" where
  "hasPrefix [] s = True"
| "hasPrefix (p # ps) [] = False"
| "hasPrefix (p # ps) (c # cs) = (p = c \<and> hasPrefix ps cs)"

lemma hasPrefix_append [simp]: "hasPrefix p (p @ s)"
  by (induction p) auto

lemma hasPrefix_iff: "hasPrefix p s \<longleftrightarrow> (\<exists>r. s = p @ r)"
  by (induction p s rule: hasPrefix.induct) auto

definition hasSuffix :: "string \<Rightarrow> string \<Rightarrow> bool" where
  "hasSuffix p s = hasPrefix (rev p) (rev s)"

text \<open>\<open>strings.Contains(s, sub)\<close>\<close>

fun containsS :: "string \<Rightarrow> string \<Rightarrow> bool" where
  "containsS sub [] = (sub = [])"
| "containsS sub (c # cs) = (hasPrefix sub (c # cs) \<or> containsS sub cs)"

text \<open>\<open>strings.ReplaceAll(s, old, new)\<close> with a non-empty \<open>old\<close>: leftmost, non-overlapping\<close>

function replaceAll :: "string \<Rightarrow> string \<Rightarrow> string \<Rightarrow> string" where
  "replaceAll old new [] = []"
| "replaceAll old new (c # cs) =
     (if old \<noteq> [] \<and> hasPrefix old (c # cs)
      then new @ replaceAll old new (drop (length old) (c # cs))
      else c # replaceAll old new cs)"
  by pat_completeness auto
termination
  by (relation "measure (\<lambda>(_, _, s). length s)") (auto simp: length_Cons le_imp_less_Suc)

lemma containsS_char [go_string]: "containsS [q] s \<longleftrightarrow> q \<in> set s"
  by (induction s) auto

lemma replaceAll_char [go_string]:
  "replaceAll [q] new s = concat (map (\<lambda>c. if c = q then new else [c]) s)"
  by (induction s) auto

text \<open>\<open>%d\<close> of a non-negative number\<close>

definition digit :: "nat \<Rightarrow> char" where
  "digit n = char_of (48 + n)"

fun dec :: "nat \<Rightarrow> string" where
  "dec n = (if n < 10 then [digit n] else dec (n div 10) @ [digit (n mod 10)])"

declare dec.simps [simp del]

definition digit_val :: "char \<Rightarrow> nat" where
  "digit_val c = of_char c - 48"

definition is_digit :: "char \<Rightarrow> bool" where
  "is_digit c \<longleftrightarrow> 48 \<le> (of_char c :: nat) \<and> (of_char c :: nat) \<le> 57"

definition undec :: "string \<Rightarrow> nat" where
  "undec s = foldl (\<lambda>a c. 10 * a + digit_val c) 0 s"

lemma of_char_digit: "n < 10 \<Longrightarrow> of_char (digit n) = (48 + n :: nat)"
  by (simp add: digit_def take_bit_eq_mod)

lemma is_digit_digit [simp]: "n < 10 \<Longrightarrow> is_digit (digit n)"
  by (simp add: is_digit_def of_char_digit)

lemma digit_val_digit [simp]: "n < 10 \<Longrightarrow> digit_val (digit n) = n"
  by (simp add: digit_val_def of_char_digit)

lemma dec_digits: "\<forall>c \<in> set (dec n). is_digit c"
  by (induction n rule: dec.induct) (subst dec.simps, auto)

lemma dec_nonempty [simp]: "dec n \<noteq> []"
  by (subst dec.simps) simp

lemma undec_dec [simp]: "undec (dec n) = n"
proof (induction n rule: dec.induct)
  case (1 n)
  show ?case
  proof (cases "n < 10")
    case True
    then show ?thesis by (subst dec.simps) (simp add: undec_def)
  next
    case False
    then have "undec (dec n) = 10 * undec (dec (n div 10)) + n mod 10"
      by (subst dec.simps) (simp add: undec_def)
    with 1 False show ?thesis by simp
  qed
qed

lemma dec_inj: "dec m = dec n \<Longrightarrow> m = n"
  by (metis undec_dec)

text \<open>The least digit of \<open>dec\<close> is never zero-padded.\<close>

lemma digit_not_quote: "c \<in> set (dec n) \<Longrightarrow> is_digit c"
  using dec_digits by blast

section \<open>Maps\<close>

definition wf_map :: "'v gomap \<Rightarrow> bool" where
  "wf_map m \<longleftrightarrow> distinct (map fst m)"

definition keys :: "'v gomap \<Rightarrow> string list" where
  "keys m = map fst m"

text \<open>\<open>m[k]\<close> on a \<open>map[string]string\<close>: the zero value when the key is absent\<close>

definition getS :: "string gomap \<Rightarrow> string \<Rightarrow> string" where
  "getS m k = (case map_of m k of Some v \<Rightarrow> v | None \<Rightarrow> [])"

text \<open>\<open>for k, v := range new { data[k] = v }\<close>\<close>

definition copyInto :: "'v gomap \<Rightarrow> 'v gomap \<Rightarrow> 'v gomap" where
  "copyInto dst src = fold (\<lambda>(k, v) d. AList.update k v d) src dst"

text \<open>Two lists that are iteration orders of the same map\<close>

definition same_map :: "'v gomap \<Rightarrow> 'v gomap \<Rightarrow> bool" where
  "same_map m m' \<longleftrightarrow> mset m = mset m'"

lemma wf_map_update [simp, intro]: "wf_map m \<Longrightarrow> wf_map (AList.update k v m)"
  by (simp add: wf_map_def distinct_update)

lemma wf_map_Nil [simp]: "wf_map []"
  by (simp add: wf_map_def)

lemma wf_map_distinct: "wf_map m \<Longrightarrow> distinct m"
  by (auto simp: wf_map_def distinct_map)

lemma wf_map_copyInto [simp, intro]: "wf_map dst \<Longrightarrow> wf_map (copyInto dst src)"
  unfolding copyInto_def by (induction src arbitrary: dst) auto

lemma map_of_copyInto [go_map]: "map_of (copyInto dst src) = map_of dst ++ map_of (rev src)"
  unfolding copyInto_def
  by (induction src arbitrary: dst) (auto simp: update_conv' map_add_def fun_eq_iff split: option.split)

lemma wf_map_rev_map_of: "wf_map m \<Longrightarrow> map_of (rev m) = map_of m"
  unfolding wf_map_def by (metis distinct_map map_of_inject_set rev_map set_rev distinct_rev)

lemma map_of_copyInto_wf [go_map]:
  "wf_map src \<Longrightarrow> map_of (copyInto dst src) = map_of dst ++ map_of src"
  by (simp add: map_of_copyInto wf_map_rev_map_of)

lemma same_map_map_of: "wf_map m \<Longrightarrow> same_map m m' \<Longrightarrow> map_of m' = map_of m"
  unfolding wf_map_def same_map_def
  by (metis map_of_inject_set mset_eq_setD mset_map mset_eq_imp_distinct_iff)

lemma same_map_wf: "wf_map m \<Longrightarrow> same_map m m' \<Longrightarrow> wf_map m'"
  unfolding wf_map_def same_map_def by (metis mset_eq_imp_distinct_iff mset_map)

lemma same_map_length: "same_map m m' \<Longrightarrow> length m = length m'"
  unfolding same_map_def by (metis mset_eq_length)

lemma same_map_refl [simp]: "same_map m m"
  by (simp add: same_map_def)

lemma map_of_eqI_set:
  "distinct (map fst m) \<Longrightarrow> distinct (map fst m') \<Longrightarrow> map_of m = map_of m' \<Longrightarrow> set m = set m'"
  by (metis map_of_eq_Some_iff surj_pair subsetI subset_antisym)

lemma map_of_same_map:
  "wf_map m \<Longrightarrow> wf_map m' \<Longrightarrow> map_of m = map_of m' \<Longrightarrow> same_map m m'"
  unfolding same_map_def wf_map_def
  by (metis distinct_map map_of_eqI_set set_eq_iff_mset_eq_distinct)

text \<open>\<open>slices.Sort\<close> forgets the iteration order it started from.\<close>

lemma sort_same_map: "same_map m m' \<Longrightarrow> sort (map f m) = sort (map f m')" for f :: "_ \<Rightarrow> 'a::linorder"
  unfolding same_map_def by (metis mset_map properties_for_sort sorted_sort mset_sort)

text \<open>An arrangement of the images is the image of an arrangement.\<close>

lemma mset_map_arrange:
  "mset ys = mset (map f xs) \<Longrightarrow> \<exists>us. mset us = mset xs \<and> map f us = ys"
proof (induction ys arbitrary: xs)
  case (Cons y ys)
  then have "y \<in> set (map f xs)" by (metis list.set_intros(1) mset_eq_setD)
  then obtain x where x: "x \<in> set xs" "f x = y" by auto
  then obtain a b where xs: "xs = a @ x # b" by (meson split_list)
  have "mset ys = mset (map f (a @ b))" using Cons.prems x(2) by (simp add: xs)
  from Cons.IH [OF this] obtain us where "mset us = mset (a @ b)" "map f us = ys" by blast
  then show ?case using x(2) by (intro exI [of _ "x # us"]) (simp add: xs)
qed auto

end
