(* ===== verification/SqlText.thy ===== *)
theory SqlText
  imports Prelude
begin

text \<open>
  The quoting of identifiers and string literals (\<open>EscapeIdentifier\<close> and
  \<open>escapeStringValue\<close> of \<open>src/db_changes/db/operations.go\<close>), and a reader of quoted SQL
  tokens as the SQL standard defines them (a doubled quote inside a quoted token stands for
  one quote; PostgreSQL with \<open>standard_conforming_strings\<close>). The lemmas show that the reader
  takes back exactly the text that was quoted and stops exactly at the end of the token, so
  no value can leave the quotes it was put in.
\<close>

definition EscapeIdentifier :: "string \<Rightarrow> string" where
  "EscapeIdentifier v =
     (let v' = (if containsS [CHR 0x22] v
                then replaceAll [CHR 0x22] [CHR 0x22, CHR 0x22] v else v)
      in [CHR 0x22] @ v' @ [CHR 0x22])"

definition escapeStringValue :: "string \<Rightarrow> string" where
  "escapeStringValue v =
     (let v' = (if containsS [CHR 0x27] v
                then replaceAll [CHR 0x27] [CHR 0x27, CHR 0x27] v else v)
      in [CHR 0x27] @ v' @ [CHR 0x27])"

section \<open>Reading a quoted token\<close>

text \<open>\<open>read_quoted q s\<close> reads the inside of a token after its opening quote \<open>q\<close>: the text
  of the token and what follows its closing quote, \<open>None\<close> when the token is not closed.\<close>

fun read_quoted :: "char \<Rightarrow> string \<Rightarrow> (string \<times> string) option" where
  "read_quoted q [] = None"
| "read_quoted q [c] = (if c = q then Some ([], []) else None)"
| "read_quoted q (c # d # cs) =
     (if c = q
      then (if d = q then map_option (\<lambda>(t, r). (q # t, r)) (read_quoted q cs) else Some ([], d # cs))
      else map_option (\<lambda>(t, r). (c # t, r)) (read_quoted q (d # cs)))"

fun sql_token :: "char \<Rightarrow> string \<Rightarrow> (string \<times> string) option" where
  "sql_token q [] = None"
| "sql_token q (c # cs) = (if c = q then read_quoted q cs else None)"

definition double_quote :: "char \<Rightarrow> string \<Rightarrow> string" where
  "double_quote q v = concat (map (\<lambda>c. if c = q then [q, q] else [c]) v)"

lemma double_quote_Nil [simp]: "double_quote q [] = []"
  and double_quote_Cons [simp]:
    "double_quote q (c # v) = (if c = q then q # q # double_quote q v else c # double_quote q v)"
  by (auto simp: double_quote_def)

lemma double_quote_id: "q \<notin> set v \<Longrightarrow> double_quote q v = v"
  by (induction v) auto

lemma replaceAll_double: "replaceAll [q] [q, q] v = double_quote q v"
  by (simp add: go_string double_quote_def)

lemma EscapeIdentifier_eq: "EscapeIdentifier v = CHR 0x22 # double_quote CHR 0x22 v @ [CHR 0x22]"
  unfolding EscapeIdentifier_def Let_def replaceAll_double
  by (simp add: containsS_char double_quote_id)

lemma escapeStringValue_eq: "escapeStringValue v = CHR 0x27 # double_quote CHR 0x27 v @ [CHR 0x27]"
  unfolding escapeStringValue_def Let_def replaceAll_double
  by (simp add: containsS_char double_quote_id)

lemma read_quoted_other:
  "c \<noteq> q \<Longrightarrow> s \<noteq> [] \<Longrightarrow> read_quoted q (c # s) = map_option (\<lambda>(t, r). (c # t, r)) (read_quoted q s)"
  by (cases s) auto

lemma read_quoted_double:
  "rest = [] \<or> hd rest \<noteq> q \<Longrightarrow> read_quoted q (double_quote q v @ q # rest) = Some (v, rest)"
proof (induction v)
  case Nil
  then show ?case by (cases rest) auto
next
  case (Cons c v)
  then show ?case by (simp add: read_quoted_other)
qed

lemma sql_token_EscapeIdentifier:
  "rest = [] \<or> hd rest \<noteq> CHR 0x22 \<Longrightarrow>
   sql_token CHR 0x22 (EscapeIdentifier v @ rest) = Some (v, rest)"
  by (simp add: EscapeIdentifier_eq read_quoted_double)

lemma sql_token_escapeStringValue:
  "rest = [] \<or> hd rest \<noteq> CHR 0x27 \<Longrightarrow>
   sql_token CHR 0x27 (escapeStringValue v @ rest) = Some (v, rest)"
  by (simp add: escapeStringValue_eq read_quoted_double)

lemma EscapeIdentifier_inj: "EscapeIdentifier a = EscapeIdentifier b \<longleftrightarrow> a = b"
  by (metis append.right_neutral option.inject prod.inject sql_token_EscapeIdentifier)

lemma escapeStringValue_inj: "escapeStringValue a = escapeStringValue b \<longleftrightarrow> a = b"
  by (metis append.right_neutral option.inject prod.inject sql_token_escapeStringValue)

lemma inj_EscapeIdentifier: "inj EscapeIdentifier"
  by (simp add: inj_def EscapeIdentifier_inj)

text \<open>
  Two quoted tokens with a separator between them are read one after the other: this is what
  makes \<open>column = value\<close> clauses and value lists unambiguous.
\<close>

fun sql_tokens :: "char \<Rightarrow> string \<Rightarrow> nat \<Rightarrow> string \<Rightarrow> (string list \<times> string) option" where
  "sql_tokens q sep 0 s = None"
| "sql_tokens q sep (Suc n) s =
     (case sql_token q s of None \<Rightarrow> None
      | Some (t, r) \<Rightarrow>
          if sep \<noteq> [] \<and> hasPrefix sep r
          then map_option (\<lambda>(ts, r'). (t # ts, r')) (sql_tokens q sep n (drop (length sep) r))
          else Some ([t], r))"

lemma drop_length_append: "drop (length p) (p @ s) = s"
  by simp

lemma sql_tokens_join:
  assumes "sep \<noteq> []" "hd sep \<noteq> CHR 0x27" "vs \<noteq> []" "length vs \<le> n"
    "rest = [] \<or> hd rest \<noteq> CHR 0x27" "\<not> hasPrefix sep rest"
  shows "sql_tokens CHR 0x27 sep n (joinS sep (map escapeStringValue vs) @ rest) = Some (vs, rest)"
  using assms
proof (induction vs arbitrary: n)
  case (Cons v vs)
  then obtain m where n: "n = Suc m" by (cases n) auto
  show ?case
  proof (cases "vs = []")
    case True
    then show ?thesis using Cons.prems n by (simp add: sql_token_escapeStringValue)
  next
    case False
    let ?r = "joinS sep (map escapeStringValue vs) @ rest"
    have "hd (sep @ ?r) \<noteq> CHR 0x27" using Cons.prems by simp
    then have tok: "sql_token CHR 0x27 (escapeStringValue v @ sep @ ?r) = Some (v, sep @ ?r)"
      by (simp add: sql_token_escapeStringValue)
    have join: "joinS sep (map escapeStringValue (v # vs)) @ rest = escapeStringValue v @ sep @ ?r"
      using False by (simp add: joinS_Cons)
    show ?thesis
      unfolding join n using Cons.IH [of m] Cons.prems False n by (simp add: tok)
  qed
qed simp

end
