(* ===== verification/Json.thy ===== *)
theory Json
  imports Prelude
begin

text \<open>
  The part of \<open>encoding/json\<close> the sink relies on to keep a primary key in the history table
  (\<open>primaryKeyToJSON\<close>, \<open>jsonToPrimaryKey\<close> of \<open>src/db_changes/db/operations.go\<close>) and to read
  it and the previous row back in a revert: UTF-8 runes as \<open>unicode/utf8\<close> decodes them, the
  string encoder with Go's HTML-safe escapes, a parser of JSON texts, and the decoding into a
  \<open>map[string]string\<close>. Not modelled of the parser: its limit of 10,000 nested values.
\<close>

abbreviation byte :: "char \<Rightarrow> nat" where
  "byte c \<equiv> of_char c"

section \<open>Runes\<close>

definition cont :: "nat \<Rightarrow> nat \<Rightarrow> char \<Rightarrow> bool" where
  "cont lo hi c \<longleftrightarrow> lo \<le> byte c \<and> byte c \<le> hi"

text \<open>\<open>utf8.DecodeRuneInString\<close>: the rune and its width; an invalid byte is \<open>(RuneError, 1)\<close>\<close>

definition decode2 :: "nat \<Rightarrow> string \<Rightarrow> (nat \<times> nat) option" where
  "decode2 b0 cs = (case cs of c1 # _ \<Rightarrow>
     if cont 0x80 0xBF c1 then Some ((b0 - 0xC0) * 64 + (byte c1 - 0x80), 2) else None
   | _ \<Rightarrow> None)"

definition decode3 :: "nat \<Rightarrow> string \<Rightarrow> (nat \<times> nat) option" where
  "decode3 b0 cs = (case cs of c1 # c2 # _ \<Rightarrow>
     if cont (if b0 = 0xE0 then 0xA0 else 0x80) (if b0 = 0xED then 0x9F else 0xBF) c1 \<and> cont 0x80 0xBF c2
     then Some ((b0 - 0xE0) * 4096 + (byte c1 - 0x80) * 64 + (byte c2 - 0x80), 3) else None
   | _ \<Rightarrow> None)"

definition decode4 :: "nat \<Rightarrow> string \<Rightarrow> (nat \<times> nat) option" where
  "decode4 b0 cs = (case cs of c1 # c2 # c3 # _ \<Rightarrow>
     if cont (if b0 = 0xF0 then 0x90 else 0x80) (if b0 = 0xF4 then 0x8F else 0xBF) c1
        \<and> cont 0x80 0xBF c2 \<and> cont 0x80 0xBF c3
     then Some ((b0 - 0xF0) * 262144 + (byte c1 - 0x80) * 4096 + (byte c2 - 0x80) * 64 + (byte c3 - 0x80), 4)
     else None
   | _ \<Rightarrow> None)"

fun decode_rune :: "string \<Rightarrow> nat \<times> nat" where
  "decode_rune [] = (0xFFFD, 0)"
| "decode_rune (c # cs) =
     (let b0 = byte c in
      if b0 < 0x80 then (b0, 1)
      else case (if b0 < 0xC2 then None
                 else if b0 < 0xE0 then decode2 b0 cs
                 else if b0 < 0xF0 then decode3 b0 cs
                 else if b0 < 0xF5 then decode4 b0 cs else None)
           of Some rs \<Rightarrow> rs | None \<Rightarrow> (0xFFFD, 1))"

text \<open>\<open>utf8.EncodeRune\<close>\<close>

definition encode_rune :: "nat \<Rightarrow> string" where
  "encode_rune r =
     (if r < 0x80 then [char_of r]
      else if r < 0x800 then [char_of (0xC0 + r div 64), char_of (0x80 + r mod 64)]
      else if (0xD800 \<le> r \<and> r \<le> 0xDFFF) \<or> 0x10FFFF < r
           then [char_of (0xEF::nat), char_of (0xBF::nat), char_of (0xBD::nat)]
      else if r < 0x10000
           then [char_of (0xE0 + r div 4096), char_of (0x80 + r div 64 mod 64), char_of (0x80 + r mod 64)]
      else [char_of (0xF0 + r div 262144), char_of (0x80 + r div 4096 mod 64),
            char_of (0x80 + r div 64 mod 64), char_of (0x80 + r mod 64)])"

lemma decode_rune_size: "s \<noteq> [] \<Longrightarrow> 0 < snd (decode_rune s)"
  by (cases s)
     (auto simp: Let_def decode2_def decode3_def decode4_def split: option.splits list.splits if_splits)

lemma decode_rune_size_Cons [simp]: "0 < snd (decode_rune (c # cs))"
  by (rule decode_rune_size) simp

lemma byte_eqI: "char_of (byte c) = c"
  by simp

lemma char_of_byte_plus: "byte c = k + a \<Longrightarrow> char_of (k + a) = c"
  by (metis char_of_char)

lemma base64:
  fixes q y :: nat
  assumes "y < 64"
  shows "(q * 64 + y) div 64 = q" "(q * 64 + y) mod 64 = y"
  using assms by auto

lemma digits64:
  fixes a x y z :: nat
  assumes "x < 64" "y < 64"
  shows "(a * 4096 + x * 64 + y) div 4096 = a" "(a * 4096 + x * 64 + y) div 64 mod 64 = x"
    "(a * 4096 + x * 64 + y) mod 64 = y"
proof -
  have r: "a * 4096 + x * 64 + y = (a * 64 + x) * 64 + y" by simp
  have q: "(a * 4096 + x * 64 + y) div 64 = a * 64 + x" unfolding r using assms(2) by (rule base64)
  have "(a * 4096 + x * 64 + y) div 4096 = (a * 4096 + x * 64 + y) div 64 div 64"
    by (simp add: div_mult2_eq [of _ 64 64, simplified])
  then show "(a * 4096 + x * 64 + y) div 4096 = a" using q base64(1) [OF assms(1)] by (simp only:)
  show "(a * 4096 + x * 64 + y) div 64 mod 64 = x" using q base64(2) [OF assms(1)] by (simp only:)
  show "(a * 4096 + x * 64 + y) mod 64 = y" unfolding r using assms(2) by (rule base64)
qed

lemma digits64_4:
  fixes a x y z :: nat
  assumes "x < 64" "y < 64" "z < 64"
  shows "(a * 262144 + x * 4096 + y * 64 + z) div 262144 = a"
    "(a * 262144 + x * 4096 + y * 64 + z) div 4096 mod 64 = x"
    "(a * 262144 + x * 4096 + y * 64 + z) div 64 mod 64 = y"
    "(a * 262144 + x * 4096 + y * 64 + z) mod 64 = z"
proof -
  let ?r = "a * 262144 + x * 4096 + y * 64 + z"
  have r: "?r = (a * 4096 + x * 64 + y) * 64 + z" by simp
  have q: "?r div 64 = a * 4096 + x * 64 + y" unfolding r using assms(3) by (rule base64)
  have d: "?r div 4096 = ?r div 64 div 64" "?r div 262144 = ?r div 64 div 4096"
    by (simp_all add: div_mult2_eq [of _ 64 64, simplified] div_mult2_eq [of _ 64 4096, simplified])
  show "?r div 262144 = a" using d(2) q digits64(1) [OF assms(1,2)] by (simp only:)
  show "?r div 4096 mod 64 = x" using d(1) q digits64(2) [OF assms(1,2)] by (simp only:)
  show "?r div 64 mod 64 = y" using q digits64(3) [OF assms(1,2)] by (simp only:)
  show "?r mod 64 = z" unfolding r using assms(3) by (rule base64)
qed

text \<open>A well-formed sequence is encoded back to itself and is not read beyond its bytes.\<close>

lemma decode2_encode:
  assumes "0xC2 \<le> byte c" "byte c < 0xE0" "decode2 (byte c) cs = Some (r, n)"
  shows "encode_rune r = take n (c # cs) \<and> n = 2 \<and> n \<le> length (c # cs)
         \<and> decode2 (byte c) (take (n - 1) cs @ t) = Some (r, n)"
proof -
  obtain c1 cs' where cs: "cs = c1 # cs'" and c1: "cont 0x80 0xBF c1"
    and r: "r = (byte c - 0xC0) * 64 + (byte c1 - 0x80)" and n: "n = 2"
    using assms(3) by (auto simp: decode2_def split: list.splits if_splits)
  obtain a where a: "byte c = 0xC0 + a" using assms(1) le_Suc_ex [of "0xC0" "byte c"] by auto
  obtain x where x: "byte c1 = 0x80 + x" using c1 le_Suc_ex [of "0x80" "byte c1"] by (auto simp: cont_def)
  have lt: "x < 64" "2 \<le> a" "a < 32" using a x assms(1,2) c1 by (auto simp: cont_def)
  have r': "r = a * 64 + x" using r a x by simp
  have "r div 64 = a" "r mod 64 = x" "0x80 \<le> r" "r < 0x800" using lt by (auto simp: r')
  then have "encode_rune r = [char_of (0xC0 + a), char_of (0x80 + x)]"
    by (simp add: encode_rune_def)
  then have "encode_rune r = [c, c1]"
    using char_of_byte_plus [OF a] char_of_byte_plus [OF x] by (simp only:)
  then show ?thesis using cs n c1 r by (simp add: decode2_def)
qed

lemma decode3_encode:
  assumes "0xE0 \<le> byte c" "byte c < 0xF0" "decode3 (byte c) cs = Some (r, n)"
  shows "encode_rune r = take n (c # cs) \<and> n = 3 \<and> n \<le> length (c # cs)
         \<and> decode3 (byte c) (take (n - 1) cs @ t) = Some (r, n)"
proof -
  obtain c1 c2 cs' where cs: "cs = c1 # c2 # cs'"
    and c1: "cont (if byte c = 0xE0 then 0xA0 else 0x80) (if byte c = 0xED then 0x9F else 0xBF) c1"
    and c2: "cont 0x80 0xBF c2"
    and r: "r = (byte c - 0xE0) * 4096 + (byte c1 - 0x80) * 64 + (byte c2 - 0x80)" and n: "n = 3"
    using assms(3) unfolding decode3_def by (auto split: list.splits if_splits)
  obtain a where a: "byte c = 0xE0 + a" using assms(1) le_Suc_ex [of "0xE0" "byte c"] by auto
  obtain x where x: "byte c1 = 0x80 + x"
    using c1 le_Suc_ex [of "0x80" "byte c1"] by (auto simp: cont_def split: if_splits)
  obtain y where y: "byte c2 = 0x80 + y" using c2 le_Suc_ex [of "0x80" "byte c2"] by (auto simp: cont_def)
  have lt: "x < 64" "y < 64" "a < 16" using a x y assms(1,2) c1 c2 by (auto simp: cont_def split: if_splits)
  have r': "r = a * 4096 + x * 64 + y" using r a x y by simp
  have lo: "a = 0 \<longrightarrow> 32 \<le> x" and sur: "a = 13 \<longrightarrow> x < 32"
    using a x c1 by (auto simp: cont_def)
  have d: "r div 4096 = a" "r div 64 mod 64 = x" "r mod 64 = y"
    unfolding r' using lt by (simp_all only: digits64)
  have b1: "0x800 \<le> r" using lo lt by (cases "a = 0") (auto simp: r')
  have b2: "\<not> (0xD800 \<le> r \<and> r \<le> 0xDFFF)"
  proof (cases "a = 13")
    case False
    then have "a \<le> 12 \<or> 14 \<le> a" by linarith
    with lt show ?thesis unfolding r' by linarith
  qed (use sur lt in \<open>simp add: r'\<close>)
  have b3: "r < 0x10000" using lt unfolding r' by simp
  have "encode_rune r = [char_of (0xE0 + a), char_of (0x80 + x), char_of (0x80 + y)]"
    using d b1 b2 b3 by (auto simp: encode_rune_def)
  then have "encode_rune r = [c, c1, c2]"
    using char_of_byte_plus [OF a] char_of_byte_plus [OF x] char_of_byte_plus [OF y] by (simp only:)
  then show ?thesis using cs n c1 c2 r by (simp add: decode3_def)
qed

lemma decode4_encode:
  assumes "0xF0 \<le> byte c" "byte c < 0xF5" "decode4 (byte c) cs = Some (r, n)"
  shows "encode_rune r = take n (c # cs) \<and> n = 4 \<and> n \<le> length (c # cs)
         \<and> decode4 (byte c) (take (n - 1) cs @ t) = Some (r, n)"
proof -
  obtain c1 c2 c3 cs' where cs: "cs = c1 # c2 # c3 # cs'"
    and c1: "cont (if byte c = 0xF0 then 0x90 else 0x80) (if byte c = 0xF4 then 0x8F else 0xBF) c1"
    and c2: "cont 0x80 0xBF c2" and c3: "cont 0x80 0xBF c3"
    and r: "r = (byte c - 0xF0) * 262144 + (byte c1 - 0x80) * 4096 + (byte c2 - 0x80) * 64
                + (byte c3 - 0x80)" and n: "n = 4"
    using assms(3) unfolding decode4_def by (auto split: list.splits if_splits)
  obtain a where a: "byte c = 0xF0 + a" using assms(1) le_Suc_ex [of "0xF0" "byte c"] by auto
  obtain x where x: "byte c1 = 0x80 + x"
    using c1 le_Suc_ex [of "0x80" "byte c1"] by (auto simp: cont_def split: if_splits)
  obtain y where y: "byte c2 = 0x80 + y" using c2 le_Suc_ex [of "0x80" "byte c2"] by (auto simp: cont_def)
  obtain z where z: "byte c3 = 0x80 + z" using c3 le_Suc_ex [of "0x80" "byte c3"] by (auto simp: cont_def)
  have lt: "x < 64" "y < 64" "z < 64" "a < 5"
    using a x y z assms(1,2) c1 c2 c3 by (auto simp: cont_def split: if_splits)
  have r': "r = a * 262144 + x * 4096 + y * 64 + z" using r a x y z by simp
  have lo: "a = 0 \<longrightarrow> 16 \<le> x" and hi: "a = 4 \<longrightarrow> x < 16" using a x c1 by (auto simp: cont_def)
  have d: "r div 262144 = a" "r div 4096 mod 64 = x" "r div 64 mod 64 = y" "r mod 64 = z"
    unfolding r' using lt by (simp_all only: digits64_4)
  have b1: "0x10000 \<le> r" using lo lt by (cases "a = 0") (auto simp: r')
  have b2: "r \<le> 0x10FFFF" using hi lt by (cases "a = 4") (auto simp: r')
  have "encode_rune r = [char_of (0xF0 + a), char_of (0x80 + x), char_of (0x80 + y), char_of (0x80 + z)]"
    using d b1 b2 by (simp add: encode_rune_def)
  then have "encode_rune r = [c, c1, c2, c3]"
    using char_of_byte_plus [OF a] char_of_byte_plus [OF x] char_of_byte_plus [OF y]
      char_of_byte_plus [OF z] by (simp only:)
  then show ?thesis using cs n c1 c2 c3 r by (simp add: decode4_def)
qed

lemma decode_rune_encode:
  assumes "decode_rune (c # cs) = (r, n)" "0x80 \<le> byte c" "n \<noteq> 1"
  shows "encode_rune r = take n (c # cs) \<and> n \<le> length (c # cs) \<and> 0 < n
         \<and> decode_rune (take n (c # cs) @ t) = (r, n)"
proof -
  have ge: "\<not> byte c < 0x80" using assms(2) by simp
  consider "byte c < 0xC2" | "0xC2 \<le> byte c" "byte c < 0xE0" | "0xE0 \<le> byte c" "byte c < 0xF0"
    | "0xF0 \<le> byte c" "byte c < 0xF5" | "0xF5 \<le> byte c" by linarith
  then show ?thesis
  proof cases
    case 2
    then have "decode2 (byte c) cs = Some (r, n)"
      using assms ge by (auto simp: Let_def split: option.splits)
    with 2 show ?thesis using decode2_encode [of c cs r n t] ge by (auto simp: Let_def take_Cons')
  next
    case 3
    then have "decode3 (byte c) cs = Some (r, n)"
      using assms ge by (auto simp: Let_def split: option.splits)
    with 3 show ?thesis using decode3_encode [of c cs r n t] ge by (auto simp: Let_def take_Cons')
  next
    case 4
    then have "decode4 (byte c) cs = Some (r, n)"
      using assms ge by (auto simp: Let_def split: option.splits)
    with 4 show ?thesis using decode4_encode [of c cs r n t] ge by (auto simp: Let_def take_Cons')
  qed (use assms ge in \<open>auto simp: Let_def\<close>)
qed

declare decode_rune.simps [simp del]

lemma drop_rune_less: "length (drop (snd (decode_rune (c # cs))) (c # cs)) < length (c # cs)"
proof -
  have "0 < snd (decode_rune (c # cs))" by simp
  then show ?thesis by (simp only: length_drop) simp
qed

section \<open>Writing strings and maps\<close>

definition hexdigit :: "nat \<Rightarrow> char" where
  "hexdigit n = (if n < 10 then char_of (48 + n) else char_of (87 + n))"

text \<open>Go's escape of one ASCII byte in \<open>json.Marshal\<close> (HTML-safe)\<close>

definition json_escape_byte :: "char \<Rightarrow> string" where
  "json_escape_byte c =
     (let b = byte c in
      if b = 0x5C \<or> b = 0x22 then [CHR 0x5C, c]
      else if b = 8 then [CHR 0x5C, CHR ''b'']
      else if b = 12 then [CHR 0x5C, CHR ''f'']
      else if b = 10 then [CHR 0x5C, CHR ''n'']
      else if b = 13 then [CHR 0x5C, CHR ''r'']
      else if b = 9 then [CHR 0x5C, CHR ''t'']
      else if b < 0x20 \<or> b = 0x3C \<or> b = 0x3E \<or> b = 0x26
           then [CHR 0x5C, CHR ''u'', CHR ''0'', CHR ''0'', hexdigit (b div 16), hexdigit (b mod 16)]
      else [c])"

function json_escape :: "string \<Rightarrow> string" where
  "json_escape [] = []"
| "json_escape (c # cs) =
     (if byte c < 0x80 then json_escape_byte c @ json_escape cs
      else (if snd (decode_rune (c # cs)) = 1 then CHR 0x5C # ''ufffd''
            else if fst (decode_rune (c # cs)) = 0x2028 then CHR 0x5C # ''u2028''
            else if fst (decode_rune (c # cs)) = 0x2029 then CHR 0x5C # ''u2029''
            else take (snd (decode_rune (c # cs))) (c # cs))
           @ json_escape (drop (snd (decode_rune (c # cs))) (c # cs)))"
  by pat_completeness auto
termination
  by (relation "measure length") (use drop_rune_less in auto)

definition json_quote :: "string \<Rightarrow> string" where
  "json_quote s = [CHR 0x22] @ json_escape s @ [CHR 0x22]"

text \<open>\<open>json.Marshal\<close> of a non-nil \<open>map[string]string\<close>: the entries by increasing key\<close>

definition json_Marshal_map :: "string gomap \<Rightarrow> string" where
  "json_Marshal_map m =
     ''{'' @ joinS '','' (map (\<lambda>k. json_quote k @ '':'' @ json_quote (getS m k)) (sort (keys m))) @ ''}''"

text \<open>Text whose bytes are well-formed UTF-8\<close>

function valid_utf8 :: "string \<Rightarrow> bool" where
  "valid_utf8 [] = True"
| "valid_utf8 (c # cs) =
     (if byte c < 0x80 then valid_utf8 cs
      else snd (decode_rune (c # cs)) \<noteq> 1
           \<and> valid_utf8 (drop (snd (decode_rune (c # cs))) (c # cs)))"
  by pat_completeness auto
termination
  by (relation "measure length") (use drop_rune_less in auto)

section \<open>Reading strings\<close>

definition hexval :: "char \<Rightarrow> nat option" where
  "hexval c = (let b = byte c in
     if 48 \<le> b \<and> b \<le> 57 then Some (b - 48)
     else if 97 \<le> b \<and> b \<le> 102 then Some (b - 87)
     else if 65 \<le> b \<and> b \<le> 70 then Some (b - 55) else None)"

fun hex4 :: "string \<Rightarrow> nat option" where
  "hex4 (a # b # c # d # _) =
     (case (hexval a, hexval b, hexval c, hexval d) of
        (Some x, Some y, Some z, Some w) \<Rightarrow> Some (((x * 16 + y) * 16 + z) * 16 + w)
      | _ \<Rightarrow> None)"
| "hex4 _ = None"

text \<open>The low half of a surrogate pair, when the text goes on with one (\<open>utf16.DecodeRune\<close>)\<close>

fun low_surrogate :: "nat \<Rightarrow> string \<Rightarrow> nat option" where
  "low_surrogate hi (a # b # s) =
     (if a = CHR 0x5C \<and> b = CHR ''u''
      then case hex4 s of
          Some lo \<Rightarrow> if 0xD800 \<le> hi \<and> hi < 0xDC00 \<and> 0xDC00 \<le> lo \<and> lo < 0xE000
                     then Some ((hi - 0xD800) * 1024 + (lo - 0xDC00) + 0x10000) else None
        | None \<Rightarrow> None
      else None)"
| "low_surrogate hi _ = None"

definition simple_escape :: "char \<Rightarrow> char option" where
  "simple_escape e =
     (if e = CHR 0x22 \<or> e = CHR 0x5C \<or> e = CHR ''/'' then Some e
      else if e = CHR ''b'' then Some (CHR 0x08)
      else if e = CHR ''f'' then Some (CHR 0x0C)
      else if e = CHR ''n'' then Some (CHR 0x0A)
      else if e = CHR ''r'' then Some (CHR 0x0D)
      else if e = CHR ''t'' then Some (CHR 0x09) else None)"

definition emit :: "string \<Rightarrow> (string \<times> string) option \<Rightarrow> (string \<times> string) option" where
  "emit p r = map_option (\<lambda>(t, rest). (p @ t, rest)) r"

lemma emit_Some [simp]: "emit p (Some (t, r)) = Some (p @ t, r)"
  by (simp add: emit_def)

text \<open>The inside of a string after its opening quote: its decoded text and what follows\<close>

function json_string :: "string \<Rightarrow> (string \<times> string) option" where
  "json_string [] = None"
| "json_string (c # cs) =
     (if c = CHR 0x22 then Some ([], cs)
      else if c = CHR 0x5C then
        (case cs of [] \<Rightarrow> None
         | e # r \<Rightarrow>
             if e = CHR ''u'' then
               (case hex4 r of None \<Rightarrow> None
                | Some n \<Rightarrow>
                    if 0xD800 \<le> n \<and> n < 0xE000
                    then (case low_surrogate n (drop 4 r) of
                            Some d \<Rightarrow> emit (encode_rune d) (json_string (drop 10 r))
                          | None \<Rightarrow> emit (encode_rune 0xFFFD) (json_string (drop 4 r)))
                    else emit (encode_rune n) (json_string (drop 4 r)))
             else (case simple_escape e of None \<Rightarrow> None | Some b \<Rightarrow> emit [b] (json_string r)))
      else if byte c < 0x20 then None
      else if byte c < 0x80 then emit [c] (json_string cs)
      else emit (encode_rune (fst (decode_rune (c # cs))))
             (json_string (drop (snd (decode_rune (c # cs))) (c # cs))))"
  by pat_completeness auto
termination
  by (relation "measure length") (use drop_rune_less in auto)

declare json_escape.simps(2) [simp del] valid_utf8.simps(2) [simp del] json_string.simps(2) [simp del]

section \<open>A written string is read back\<close>

lemma byte_eq_iff: "n < 256 \<Longrightarrow> byte c = n \<longleftrightarrow> c = char_of n"
  by (auto simp: take_bit_eq_mod)

lemma hexval_hexdigit: "n < 16 \<Longrightarrow> hexval (hexdigit n) = Some n"
  by (auto simp: hexval_def hexdigit_def Let_def take_bit_eq_mod)

lemma json_string_plain:
  "c \<noteq> CHR 0x22 \<Longrightarrow> c \<noteq> CHR 0x5C \<Longrightarrow> 0x20 \<le> byte c \<Longrightarrow> byte c < 0x80 \<Longrightarrow>
   json_string (c # t) = emit [c] (json_string t)"
  by (simp add: json_string.simps(2))

lemma json_string_simple_escape:
  "simple_escape e = Some b \<Longrightarrow> json_string (CHR 0x5C # e # t) = emit [b] (json_string t)"
  by (auto simp: json_string.simps(2) simple_escape_def split: if_splits)

lemma json_string_u:
  "hex4 (a # b # c # d # t) = Some n \<Longrightarrow> n < 0xD800 \<Longrightarrow>
   json_string (CHR 0x5C # CHR ''u'' # a # b # c # d # t) = emit (encode_rune n) (json_string t)"
  by (simp add: json_string.simps(2))

lemma json_string_escape_byte:
  assumes "byte c < 0x80"
  shows "json_string (json_escape_byte c @ t) = emit [c] (json_string t)"
proof -
  let ?b = "byte c"
  have special: "?b = n \<longleftrightarrow> c = char_of n" if "n < 256" for n using that by (rule byte_eq_iff)
  consider (esc) "?b = 0x5C \<or> ?b = 0x22 \<or> ?b = 8 \<or> ?b = 12 \<or> ?b = 10 \<or> ?b = 13 \<or> ?b = 9"
    | (u) "\<not> (?b = 0x5C \<or> ?b = 0x22 \<or> ?b = 8 \<or> ?b = 12 \<or> ?b = 10 \<or> ?b = 13 \<or> ?b = 9)"
          "?b < 0x20 \<or> ?b = 0x3C \<or> ?b = 0x3E \<or> ?b = 0x26"
    | (plain) "\<not> (?b = 0x5C \<or> ?b = 0x22 \<or> ?b = 8 \<or> ?b = 12 \<or> ?b = 10 \<or> ?b = 13 \<or> ?b = 9)"
          "\<not> (?b < 0x20 \<or> ?b = 0x3C \<or> ?b = 0x3E \<or> ?b = 0x26)" by blast
  then show ?thesis
  proof cases
    case esc
    then have "c = CHR 0x5C \<or> c = CHR 0x22 \<or> c = CHR 0x08 \<or> c = CHR 0x0C \<or> c = CHR 0x0A
               \<or> c = CHR 0x0D \<or> c = CHR 0x09"
      by (simp add: special char_of_def bit_0)
    then show ?thesis
      by (elim disjE; simp add: json_escape_byte_def json_string_simple_escape simple_escape_def)
  next
    case u
    have d: "?b div 16 < 16" "?b mod 16 < 16" using assms by auto
    have h: "hex4 (CHR ''0'' # CHR ''0'' # hexdigit (?b div 16) # hexdigit (?b mod 16) # t) = Some ?b"
      using hexval_hexdigit [OF d(1)] hexval_hexdigit [OF d(2)] by (simp add: hexval_def)
    have "encode_rune ?b = [c]" using assms by (simp add: encode_rune_def)
    moreover have "json_string (CHR 0x5C # CHR ''u'' # CHR ''0'' # CHR ''0'' # hexdigit (?b div 16)
        # hexdigit (?b mod 16) # t) = emit (encode_rune ?b) (json_string t)"
      using json_string_u [OF h] assms by simp
    ultimately show ?thesis using u by (simp add: json_escape_byte_def Let_def)
  next
    case plain
    then have "json_escape_byte c = [c]" by (simp add: json_escape_byte_def Let_def)
    moreover have "c \<noteq> CHR 0x22" "c \<noteq> CHR 0x5C" using plain by auto
    ultimately show ?thesis using plain assms by (simp add: json_string_plain)
  qed
qed

lemma json_string_rune:
  assumes "\<not> byte c < 0x80" "snd (decode_rune (c # cs)) \<noteq> 1"
  defines "n \<equiv> snd (decode_rune (c # cs))"
  shows "json_string ((if fst (decode_rune (c # cs)) = 0x2028 then CHR 0x5C # ''u2028''
            else if fst (decode_rune (c # cs)) = 0x2029 then CHR 0x5C # ''u2029''
            else take n (c # cs)) @ t) = emit (take n (c # cs)) (json_string t)"
proof -
  obtain r where r: "decode_rune (c # cs) = (r, n)" unfolding n_def by (metis prod.collapse)
  have ge: "0x80 \<le> byte c" using assms(1) by simp
  have enc: "encode_rune r = take n (c # cs)" and len: "n \<le> length (c # cs)" "0 < n"
    and dec: "decode_rune (take n (c # cs) @ t) = (r, n)"
    using decode_rune_encode [OF r ge, of t] assms(2) unfolding n_def by blast+
  obtain cs' where cs': "take n (c # cs) = c # cs'" using len(2) by (cases n) auto
  have drop: "drop n (take n (c # cs) @ t) = t" using len by simp
  have "json_string (take n (c # cs) @ t) = emit (take n (c # cs)) (json_string t)"
  proof -
    have "c \<noteq> CHR 0x22" "c \<noteq> CHR 0x5C" using assms(1) by auto
    then have "json_string (c # cs' @ t)
        = emit (encode_rune (fst (decode_rune (c # cs' @ t))))
               (json_string (drop (snd (decode_rune (c # cs' @ t))) (c # cs' @ t)))"
      using assms(1) by (subst json_string.simps(2)) simp
    moreover have "decode_rune (c # cs' @ t) = (r, n)" "drop n (c # cs' @ t) = t"
      using dec drop unfolding cs' by simp_all
    ultimately show ?thesis by (simp add: cs' enc)
  qed
  moreover have "hex4 (CHR ''2'' # CHR ''0'' # CHR ''2'' # CHR ''8'' # t) = Some 0x2028"
    "hex4 (CHR ''2'' # CHR ''0'' # CHR ''2'' # CHR ''9'' # t) = Some 0x2029"
    by (simp_all add: hexval_def)
  ultimately show ?thesis unfolding r fst_conv snd_conv enc [symmetric] by (simp add: json_string_u)
qed

lemma json_string_escape:
  "valid_utf8 s \<Longrightarrow> json_string (json_escape s @ CHR 0x22 # rest) = Some (s, rest)"
proof (induction s rule: json_escape.induct)
  case 1
  show ?case by (simp add: json_string.simps(2))
next
  case (2 c cs)
  show ?case
  proof (cases "byte c < 0x80")
    case True
    with 2 have "json_string (json_escape cs @ CHR 0x22 # rest) = Some (cs, rest)"
      by (simp add: valid_utf8.simps(2))
    then show ?thesis using True by (simp add: json_escape.simps(2) json_string_escape_byte)
  next
    case False
    let ?n = "snd (decode_rune (c # cs))"
    have "?n \<noteq> 1" "valid_utf8 (drop ?n (c # cs))" using 2 False by (simp_all add: valid_utf8.simps(2))
    with 2 False have "json_string (json_escape (drop ?n (c # cs)) @ CHR 0x22 # rest)
        = Some (drop ?n (c # cs), rest)" by blast
    then show ?thesis using False \<open>?n \<noteq> 1\<close> json_string_rune [OF False \<open>?n \<noteq> 1\<close>]
      by (simp add: json_escape.simps(2))
  qed
qed

section \<open>Values\<close>

datatype Json =
    JNull | JBool bool | JNum string | JStr string
  | JArr "Json list" | JObj "(string \<times> Json) list"

definition is_ws :: "char \<Rightarrow> bool" where
  "is_ws c \<longleftrightarrow> c = CHR '' '' \<or> c = CHR 0x09 \<or> c = CHR 0x0A \<or> c = CHR 0x0D"

definition skip_ws :: "string \<Rightarrow> string" where
  "skip_ws s = dropWhile is_ws s"

text \<open>A number: an integer part without leading zeros, a fraction and an exponent\<close>

fun num_digits1 :: "string \<Rightarrow> string option" where
  "num_digits1 (c # cs) = (if is_digit c then Some (dropWhile is_digit cs) else None)"
| "num_digits1 [] = None"

fun num_int :: "string \<Rightarrow> string option" where
  "num_int (c # cs) =
     (if c = CHR ''0'' then Some cs else if is_digit c then Some (dropWhile is_digit cs) else None)"
| "num_int [] = None"

fun num_frac :: "string \<Rightarrow> string option" where
  "num_frac (c # cs) = (if c = CHR ''.'' then num_digits1 cs else Some (c # cs))"
| "num_frac [] = Some []"

fun num_exp :: "string \<Rightarrow> string option" where
  "num_exp (c # cs) =
     (if c = CHR ''e'' \<or> c = CHR ''E''
      then num_digits1 (case cs of d # ds \<Rightarrow> if d = CHR ''+'' \<or> d = CHR ''-'' then ds else cs | [] \<Rightarrow> [])
      else Some (c # cs))"
| "num_exp [] = Some []"

definition json_number :: "string \<Rightarrow> (Json \<times> string) option" where
  "json_number s =
     (case num_int (case s of c # cs \<Rightarrow> if c = CHR ''-'' then cs else s | [] \<Rightarrow> []) of None \<Rightarrow> None
      | Some a \<Rightarrow> case num_frac a of None \<Rightarrow> None
      | Some b \<Rightarrow> case num_exp b of None \<Rightarrow> None
      | Some r \<Rightarrow> Some (JNum (take (length s - length r) s), r))"

fun json_value :: "nat \<Rightarrow> string \<Rightarrow> (Json \<times> string) option"
and json_elems :: "nat \<Rightarrow> string \<Rightarrow> (Json list \<times> string) option"
and json_members :: "nat \<Rightarrow> string \<Rightarrow> ((string \<times> Json) list \<times> string) option" where
  "json_value 0 s = None"
| "json_value (Suc k) s =
     (case skip_ws s of [] \<Rightarrow> None
      | c # r \<Rightarrow>
          if c = CHR 0x22 then map_option (\<lambda>(t, u). (JStr t, u)) (json_string r)
          else if c = CHR ''{'' then
            (case skip_ws r of [] \<Rightarrow> None
             | d # u \<Rightarrow> if d = CHR ''}'' then Some (JObj [], u)
                       else map_option (\<lambda>(ms, v). (JObj ms, v)) (json_members k r))
          else if c = CHR ''['' then
            (case skip_ws r of [] \<Rightarrow> None
             | d # u \<Rightarrow> if d = CHR '']'' then Some (JArr [], u)
                       else map_option (\<lambda>(es, v). (JArr es, v)) (json_elems k r))
          else if hasPrefix ''true'' (c # r) then Some (JBool True, drop 4 (c # r))
          else if hasPrefix ''false'' (c # r) then Some (JBool False, drop 5 (c # r))
          else if hasPrefix ''null'' (c # r) then Some (JNull, drop 4 (c # r))
          else json_number (c # r))"
| "json_elems 0 s = None"
| "json_elems (Suc k) s =
     (case json_value k s of None \<Rightarrow> None
      | Some (x, r) \<Rightarrow>
          (case skip_ws r of [] \<Rightarrow> None
           | c # u \<Rightarrow> if c = CHR '']'' then Some ([x], u)
                     else if c = CHR '','' then map_option (\<lambda>(xs, v). (x # xs, v)) (json_elems k u)
                     else None))"
| "json_members 0 s = None"
| "json_members (Suc k) s =
     (case skip_ws s of [] \<Rightarrow> None
      | c # r \<Rightarrow>
          if c \<noteq> CHR 0x22 then None
          else case json_string r of None \<Rightarrow> None
          | Some (key, u) \<Rightarrow>
              (case skip_ws u of [] \<Rightarrow> None
               | d # v \<Rightarrow>
                   if d \<noteq> CHR '':'' then None
                   else case json_value k v of None \<Rightarrow> None
                   | Some (x, w) \<Rightarrow>
                       (case skip_ws w of [] \<Rightarrow> None
                        | e # y \<Rightarrow>
                            if e = CHR ''}'' then Some ([(key, x)], y)
                            else if e = CHR '','' then
                              map_option (\<lambda>(ms, z). ((key, x) # ms, z)) (json_members k y)
                            else None)))"

text \<open>A whole text: one value and nothing but white space after it. Every call of the parser
  but the one from \<open>json_elems\<close> to \<open>json_value\<close> consumes a byte, so twice the length is
  enough fuel.\<close>

definition parse_json :: "string \<Rightarrow> Json res" where
  "parse_json s =
     (case json_value (2 * length s + 2) s of
        Some (v, r) \<Rightarrow> if skip_ws r = [] then Inr v else Inl (Errorf ''invalid character after top-level value'' [])
      | None \<Rightarrow> Inl (Errorf ''invalid JSON'' []))"

section \<open>Decoding into Go maps\<close>

text \<open>A value stored into a string: \<open>null\<close> leaves the zero value\<close>

fun json_as_string :: "Json \<Rightarrow> string res" where
  "json_as_string (JStr s) = Inr s"
| "json_as_string JNull = Inr []"
| "json_as_string _ = Inl (Errorf ''json: cannot unmarshal into Go value of type string'' [])"

text \<open>\<open>json.Unmarshal\<close> into an empty \<open>map[string]string\<close>: a key given twice keeps its last value\<close>

definition unmarshal_string_map :: "string \<Rightarrow> string gomap res" where
  "unmarshal_string_map s =
     (case parse_json s of Inl e \<Rightarrow> Inl e
      | Inr JNull \<Rightarrow> Inr []
      | Inr (JObj kvs) \<Rightarrow>
          (case traverse (\<lambda>(k, v). case json_as_string v of Inl e \<Rightarrow> Inl e | Inr t \<Rightarrow> Inr (k, t)) kvs of
             Inl e \<Rightarrow> Inl e | Inr m \<Rightarrow> Inr (copyInto [] m))
      | Inr _ \<Rightarrow> Inl (Errorf ''json: cannot unmarshal into Go value of type map'' []))"

text \<open>A number becomes a \<open>float64\<close>: it must not round to infinity. \<open>num_split\<close> gives the
  digits as an integer and the power of ten they are to be multiplied with.\<close>

definition num_split :: "string \<Rightarrow> nat \<times> int" where
  "num_split t =
     (let body = (case t of c # cs \<Rightarrow> if c = CHR ''-'' then cs else t | [] \<Rightarrow> []);
          mant = takeWhile (\<lambda>c. c \<noteq> CHR ''e'' \<and> c \<noteq> CHR ''E'') body;
          ex = drop 1 (dropWhile (\<lambda>c. c \<noteq> CHR ''e'' \<and> c \<noteq> CHR ''E'') body);
          ip = takeWhile (\<lambda>c. c \<noteq> CHR ''.'') mant;
          fp = drop 1 (dropWhile (\<lambda>c. c \<noteq> CHR ''.'') mant);
          e = (case ex of [] \<Rightarrow> 0
               | c # cs \<Rightarrow> if c = CHR ''-'' then - int (undec cs)
                           else if c = CHR ''+'' then int (undec cs) else int (undec ex))
      in (undec (ip @ fp), e - int (length fp)))"

definition float64_fits :: "string \<Rightarrow> bool" where
  "float64_fits t =
     (let (m, e) = num_split t; lim = 2 ^ 1024 - 2 ^ 970
      in if m = 0 then True
         else if 0 \<le> e then m * 10 ^ nat e < lim else m < lim * 10 ^ nat (- e))"

fun numbers_fit :: "Json \<Rightarrow> bool" where
  "numbers_fit (JNum t) = float64_fits t"
| "numbers_fit (JArr xs) = (\<forall>x \<in> set xs. numbers_fit x)"
| "numbers_fit (JObj kvs) = (\<forall>kv \<in> set kvs. numbers_fit (snd kv))"
| "numbers_fit _ = True"

text \<open>\<open>json.Unmarshal\<close> into an empty \<open>map[string]interface\<close>; only the keys are used\<close>

definition unmarshal_any_map :: "string \<Rightarrow> Json gomap res" where
  "unmarshal_any_map s =
     (case parse_json s of Inl e \<Rightarrow> Inl e
      | Inr JNull \<Rightarrow> Inr []
      | Inr (JObj kvs) \<Rightarrow>
          if numbers_fit (JObj kvs) then Inr (copyInto [] kvs)
          else Inl (Errorf ''json: cannot unmarshal number into Go value of type float64'' [])
      | Inr _ \<Rightarrow> Inl (Errorf ''json: cannot unmarshal into Go value of type map'' []))"

section \<open>Primary keys in the history table\<close>

text \<open>The model's maps are non-nil: the error branch of \<open>json.Marshal\<close> and its panic cannot
  happen for strings.\<close>

definition primaryKeyToJSON :: "string gomap \<Rightarrow> string" where
  "primaryKeyToJSON primaryKey = json_Marshal_map primaryKey"

definition jsonToPrimaryKey :: "string \<Rightarrow> string gomap res" where
  "jsonToPrimaryKey s = unmarshal_string_map s"

definition json_entry :: "string \<times> string \<Rightarrow> string" where
  "json_entry kv = json_quote (fst kv) @ '':'' @ json_quote (snd kv)"

definition utf8_entry :: "string \<times> string \<Rightarrow> bool" where
  "utf8_entry kv \<longleftrightarrow> valid_utf8 (fst kv) \<and> valid_utf8 (snd kv)"

declare json_value.simps(2) [simp del] json_elems.simps(2) [simp del] json_members.simps(2) [simp del]

lemma skip_ws_quote [simp]: "skip_ws (CHR 0x22 # s) = CHR 0x22 # s"
  and skip_ws_colon [simp]: "skip_ws (CHR '':'' # s) = CHR '':'' # s"
  and skip_ws_comma [simp]: "skip_ws (CHR '','' # s) = CHR '','' # s"
  and skip_ws_brace [simp]: "skip_ws (CHR ''}'' # s) = CHR ''}'' # s"
  and skip_ws_open [simp]: "skip_ws (CHR ''{'' # s) = CHR ''{'' # s"
  and skip_ws_Nil [simp]: "skip_ws [] = []"
  by (simp_all add: skip_ws_def is_ws_def)

lemma json_value_quote:
  "valid_utf8 v \<Longrightarrow> json_value (Suc k) (json_quote v @ rest) = Some (JStr v, rest)"
  by (simp add: json_quote_def json_string_escape json_value.simps(2))

lemma json_quote_hd: "json_quote v @ rest = CHR 0x22 # json_escape v @ CHR 0x22 # rest"
  by (simp add: json_quote_def)

lemma json_members_entry:
  assumes "utf8_entry kv"
  shows "json_members (Suc (Suc k)) (json_entry kv @ CHR ''}'' # y) = Some ([(fst kv, JStr (snd kv))], y)"
    and "json_members (Suc (Suc k)) (json_entry kv @ CHR '','' # y)
      = map_option (\<lambda>(ms, z). ((fst kv, JStr (snd kv)) # ms, z)) (json_members (Suc k) y)"
proof -
  have v: "json_value (Suc k) (json_quote (snd kv) @ r) = Some (JStr (snd kv), r)" for r
    using assms by (simp only: json_value_quote utf8_entry_def)
  have k: "json_string (json_escape (fst kv) @ CHR 0x22 # r) = Some (fst kv, r)" for r
    using assms by (simp only: json_string_escape utf8_entry_def)
  have split: "json_entry kv @ r
      = CHR 0x22 # json_escape (fst kv) @ CHR 0x22 # CHR '':'' # json_quote (snd kv) @ r" for r
    by (simp add: json_entry_def json_quote_def)
  show "json_members (Suc (Suc k)) (json_entry kv @ CHR ''}'' # y) = Some ([(fst kv, JStr (snd kv))], y)"
    "json_members (Suc (Suc k)) (json_entry kv @ CHR '','' # y)
      = map_option (\<lambda>(ms, z). ((fst kv, JStr (snd kv)) # ms, z)) (json_members (Suc k) y)"
    unfolding split by (simp_all add: k v json_members.simps(2))
qed

lemma json_members_map:
  assumes "kvs \<noteq> []" "\<forall>kv \<in> set kvs. utf8_entry kv" "length kvs < k"
  shows "json_members k (joinS '','' (map json_entry kvs) @ CHR ''}'' # rest)
     = Some (map (\<lambda>(a, b). (a, JStr b)) kvs, rest)"
  using assms
proof (induction kvs arbitrary: k)
  case (Cons kv kvs)
  obtain j where k: "k = Suc (Suc j)" using Cons.prems(3) by (cases k; cases "k - 1") auto
  show ?case
  proof (cases "kvs = []")
    case True
    then show ?thesis using Cons.prems k by (simp add: json_members_entry case_prod_beta)
  next
    case False
    let ?r = "joinS '','' (map json_entry kvs) @ CHR ''}'' # rest"
    have "json_members (Suc j) ?r = Some (map (\<lambda>(a, b). (a, JStr b)) kvs, rest)"
      using Cons False k by simp
    moreover have "joinS '','' (map json_entry (kv # kvs)) @ CHR ''}'' # rest
        = json_entry kv @ CHR '','' # ?r" using False by (simp add: joinS_Cons)
    ultimately show ?thesis unfolding k using Cons.prems(2)
      by (simp add: json_members_entry case_prod_beta)
  qed
qed simp

lemma joinS_entries_length: "length kvs \<le> length (joinS '','' (map json_entry kvs))"
proof (induction kvs)
  case (Cons kv kvs)
  then show ?case by (cases kvs) (auto simp: json_entry_def json_quote_def)
qed simp

lemma parse_json_object:
  assumes "\<forall>kv \<in> set kvs. utf8_entry kv"
  shows "parse_json (''{'' @ joinS '','' (map json_entry kvs) @ ''}'')
     = Inr (JObj (map (\<lambda>(a, b). (a, JStr b)) kvs))"
proof (cases "kvs = []")
  case True
  then show ?thesis by (simp add: parse_json_def eval_nat_numeral json_value.simps(2))
next
  case False
  let ?body = "joinS '','' (map json_entry kvs) @ ''}''"
  obtain kv kvs' where kvs: "kvs = kv # kvs'" using False by (cases kvs) auto
  have hd: "\<exists>t. ?body = CHR 0x22 # t"
    by (cases kvs') (auto simp: kvs json_entry_def json_quote_def)
  then obtain t where t: "?body = CHR 0x22 # t" by blast
  have "length kvs < 2 * length (''{'' @ ?body) + 1"
    using joinS_entries_length [of kvs] by simp
  then have m: "json_members (2 * length (''{'' @ ?body) + 1) (CHR 0x22 # t)
      = Some (map (\<lambda>(a, b). (a, JStr b)) kvs, [])"
    using json_members_map [OF False assms, of _ "[]"] t by simp
  then have "json_value (Suc (2 * length (''{'' @ ?body) + 1)) (''{'' @ ?body)
      = Some (JObj (map (\<lambda>(a, b). (a, JStr b)) kvs), [])"
    unfolding t by (simp add: json_value.simps(2))
  then show ?thesis unfolding parse_json_def by simp
qed

lemma traverse_json_strings:
  "traverse (\<lambda>(k, v). case json_as_string v of Inl e \<Rightarrow> Inl e | Inr t \<Rightarrow> Inr (k, t))
     (map (\<lambda>(a, b). (a, JStr b)) kvs) = Inr kvs"
  by (induction kvs) auto

lemma json_Marshal_map_entries:
  "wf_map m \<Longrightarrow> json_Marshal_map m
     = ''{'' @ joinS '','' (map json_entry (map (\<lambda>k. (k, getS m k)) (sort (keys m)))) @ ''}''"
  by (simp add: json_Marshal_map_def json_entry_def comp_def)

lemma map_of_sorted_entries:
  "map_of (map (\<lambda>k. (k, getS m k)) (sort (keys m))) = map_of m"
proof
  fix k
  show "map_of (map (\<lambda>k. (k, getS m k)) (sort (keys m))) k = map_of m k"
    using map_of_eq_None_iff [of m k]
    by (cases "map_of m k") (auto simp: map_of_map_restrict restrict_map_def keys_def getS_def)
qed

lemma entries_utf8:
  assumes "wf_map m" "\<forall>kv \<in> set m. utf8_entry kv"
  shows "\<forall>kv \<in> set (map (\<lambda>k. (k, getS m k)) (sort (keys m))). utf8_entry kv"
proof
  fix kv assume "kv \<in> set (map (\<lambda>k. (k, getS m k)) (sort (keys m)))"
  then obtain k where k: "kv = (k, getS m k)" "k \<in> fst ` set m" by (auto simp: keys_def)
  then obtain v where "map_of m k = Some v" by (metis map_of_eq_None_iff not_None_eq)
  then have "(k, getS m k) \<in> set m" by (simp add: getS_def map_of_SomeD)
  with k assms(2) show "utf8_entry kv" by blast
qed

lemma jsonToPrimaryKey_primaryKeyToJSON:
  assumes "wf_map m" "\<forall>kv \<in> set m. utf8_entry kv"
  shows "\<exists>m'. jsonToPrimaryKey (primaryKeyToJSON m) = Inr m' \<and> wf_map m' \<and> map_of m' = map_of m"
proof -
  let ?kvs = "map (\<lambda>k. (k, getS m k)) (sort (keys m))"
  have "\<forall>kv \<in> set ?kvs. utf8_entry kv" by (rule entries_utf8 [OF assms])
  then have "jsonToPrimaryKey (primaryKeyToJSON m) = Inr (copyInto [] ?kvs)"
    unfolding jsonToPrimaryKey_def primaryKeyToJSON_def unmarshal_string_map_def
      json_Marshal_map_entries [OF assms(1)]
    by (simp only: parse_json_object traverse_json_strings sum.case Json.case)
  moreover have "wf_map ?kvs"
    using assms(1) by (simp add: wf_map_def comp_def keys_def)
  ultimately show ?thesis using map_of_sorted_entries [of m] by (auto simp: map_of_copyInto_wf)
qed

lemma primaryKeyToJSON_same_map:
  "wf_map m \<Longrightarrow> same_map m m' \<Longrightarrow> primaryKeyToJSON m = primaryKeyToJSON m'"
  unfolding primaryKeyToJSON_def json_Marshal_map_def keys_def getS_def
  by (simp add: sort_same_map [of m m'] same_map_map_of [of m m'])

end
