(* ===== verification/Tables.thy ===== *)
theory Tables
  imports SqlText Json
begin

text \<open>
  \<open>src/db_changes/db/types.go\<close> and \<open>types_enum.go\<close>: the tables and columns the loader knows,
  the mode for a module hash mismatch, and the dialects of \<open>dialect.go\<close> as a datatype whose
  cases are the three implementations of the interface.
\<close>

section \<open>Columns and tables\<close>

text \<open>\<open>reflect.Type\<close>: the types database drivers give for a column. \<open>RNamed n t\<close> is a defined type (\<open>uuid.UUID\<close> is
  \<open>RNamed ''uuid.UUID'' (RArray 16 RUint8)\<close>), with the kind of its underlying type; structures are named by themselves, and
  \<open>ROther k\<close> is a type of one of the remaining kinds (\<open>chan\<close>, \<open>func\<close>, \<open>complex64\<close>, ...).\<close>

datatype RType =
    RBool | RInt | RInt8 | RInt16 | RInt32 | RInt64
  | RUint | RUint8 | RUint16 | RUint32 | RUint64 | RFloat32 | RFloat64
  | RString | RTime | RStruct string | RSlice RType | RPtr RType | RInterface
  | RArray nat RType | RMap RType RType | RNamed string RType | ROther string

text \<open>\<open>scanType.Kind().String()\<close>\<close>

fun kind_string :: "RType \<Rightarrow> string" where
  "kind_string RBool = ''bool''"
| "kind_string RInt = ''int''" | "kind_string RInt8 = ''int8''" | "kind_string RInt16 = ''int16''"
| "kind_string RInt32 = ''int32''" | "kind_string RInt64 = ''int64''"
| "kind_string RUint = ''uint''" | "kind_string RUint8 = ''uint8''" | "kind_string RUint16 = ''uint16''"
| "kind_string RUint32 = ''uint32''" | "kind_string RUint64 = ''uint64''"
| "kind_string RFloat32 = ''float32''" | "kind_string RFloat64 = ''float64''"
| "kind_string RString = ''string''"
| "kind_string RTime = ''struct''" | "kind_string (RStruct n) = ''struct''"
| "kind_string (RSlice t) = ''slice''" | "kind_string (RPtr t) = ''ptr''"
| "kind_string RInterface = ''interface''" | "kind_string (RArray n t) = ''array''"
| "kind_string (RMap k t) = ''map''" | "kind_string (RNamed n t) = kind_string t" | "kind_string (ROther k) = k"

record ColumnInfo =
  cname :: string
  escapedName :: string
  databaseTypeName :: string
  scanType :: RType

definition NewColumnInfo :: "string \<Rightarrow> string \<Rightarrow> RType \<Rightarrow> ColumnInfo" where
  "NewColumnInfo name dbTypeName scan =
     \<lparr>cname = name, escapedName = EscapeIdentifier name, databaseTypeName = dbTypeName, scanType = scan\<rparr>"

record TableInfo =
  tschema :: string
  schemaEscaped :: string
  tname :: string
  nameEscaped :: string
  columnsByName :: "ColumnInfo gomap"
  primaryColumns :: "ColumnInfo list"
  tidentifier :: string

definition NewTableInfo ::
    "string \<Rightarrow> string \<Rightarrow> string list \<Rightarrow> ColumnInfo gomap \<Rightarrow> TableInfo res" where
  "NewTableInfo schema name pkList columns =
     (let schemaEsc = EscapeIdentifier schema; nameEsc = EscapeIdentifier name in
      case traverse (\<lambda>pk. case map_of columns pk of
             Some c \<Rightarrow> Inr c
           | None \<Rightarrow> Inl (Errorf ''primary key column %q not found'' [AStr pk])) pkList of
        Inl e \<Rightarrow> Inl e
      | Inr primary \<Rightarrow>
          if length primary = 0
          then Inl (Errorf ''sql sink requires a primary key in every table, none was found in table %s.%s''
                      [AStr schema, AStr name])
          else Inr \<lparr>tschema = schema, schemaEscaped = schemaEsc, tname = name, nameEscaped = nameEsc,
                    columnsByName = columns, primaryColumns = primary,
                    tidentifier = (if schema = [] then nameEsc else schemaEsc @ ''.'' @ nameEsc)\<rparr>)"

text \<open>What every table made by \<open>NewTableInfo\<close> from columns made by \<open>NewColumnInfo\<close> satisfies.\<close>

definition wf_columns :: "ColumnInfo gomap \<Rightarrow> bool" where
  "wf_columns cols \<longleftrightarrow> wf_map cols \<and>
     (\<forall>(k, c) \<in> set cols. cname c = k \<and> escapedName c = EscapeIdentifier k)"

definition wf_table :: "TableInfo \<Rightarrow> bool" where
  "wf_table t \<longleftrightarrow> wf_columns (columnsByName t)
     \<and> schemaEscaped t = EscapeIdentifier (tschema t) \<and> nameEscaped t = EscapeIdentifier (tname t)
     \<and> primaryColumns t \<noteq> []
     \<and> (\<forall>c \<in> set (primaryColumns t). map_of (columnsByName t) (cname c) = Some c)
     \<and> tidentifier t = (if tschema t = [] then nameEscaped t else schemaEscaped t @ ''.'' @ nameEscaped t)"

lemma NewTableInfo_wf:
  assumes "wf_columns cols" "NewTableInfo schema name pks cols = Inr t"
  shows "wf_table t" "map cname (primaryColumns t) = pks" "columnsByName t = cols"
    "tname t = name" "tschema t = schema"
proof -
  let ?f = "\<lambda>pk. case map_of cols pk of
             Some c \<Rightarrow> Inr c
           | None \<Rightarrow> Inl (Errorf ''primary key column %q not found'' [AStr pk])"
  obtain ps where ps: "traverse ?f pks = Inr ps" and ne: "ps \<noteq> []"
    and t: "t = \<lparr>tschema = schema, schemaEscaped = EscapeIdentifier schema, tname = name,
                 nameEscaped = EscapeIdentifier name, columnsByName = cols, primaryColumns = ps,
                 tidentifier = (if schema = [] then EscapeIdentifier name
                               else EscapeIdentifier schema @ ''.'' @ EscapeIdentifier name)\<rparr>"
    using assms(2) by (auto simp: NewTableInfo_def Let_def split: sum.splits if_splits)
  have all: "list_all2 (\<lambda>pk c. map_of cols pk = Some c) pks ps"
    using ps [unfolded traverse_Inr_iff] by (rule list_all2_mono) (auto split: option.splits)
  have name: "cname c = k" if "map_of cols k = Some c" for k c
    using assms(1) that by (auto simp: wf_columns_def dest: map_of_SomeD)
  have names: "map cname ps = pks"
    using all by (induction pks ps rule: list_all2_induct) (auto simp: name)
  have "\<forall>c \<in> set ps. map_of cols (cname c) = Some c"
    using all by (induction pks ps rule: list_all2_induct) (auto simp: name)
  then show "wf_table t" using t ne assms(1) by (simp add: wf_table_def)
  show "map cname (primaryColumns t) = pks" "columnsByName t = cols" "tname t = name"
    "tschema t = schema" using names by (simp_all add: t)
qed

section \<open>The mode for a module hash mismatch\<close>

text \<open>A Go \<open>uint\<close> with three named values\<close>

type_synonym OnModuleHashMismatch = nat

definition OnModuleHashMismatchIgnore :: OnModuleHashMismatch where "OnModuleHashMismatchIgnore = 0"
definition OnModuleHashMismatchWarn :: OnModuleHashMismatch where "OnModuleHashMismatchWarn = 1"
definition OnModuleHashMismatchError :: OnModuleHashMismatch where "OnModuleHashMismatchError = 2"

definition OnModuleHashMismatchName :: string where
  "OnModuleHashMismatchName = ''IgnoreWarnError''"

definition slice :: "nat \<Rightarrow> nat \<Rightarrow> string \<Rightarrow> string" where
  "slice a b s = take (b - a) (drop a s)"

definition OnModuleHashMismatchMap :: "(OnModuleHashMismatch \<times> string) list" where
  "OnModuleHashMismatchMap =
     [(OnModuleHashMismatchIgnore, slice 0 6 OnModuleHashMismatchName),
      (OnModuleHashMismatchWarn, slice 6 10 OnModuleHashMismatchName),
      (OnModuleHashMismatchError, slice 10 15 OnModuleHashMismatchName)]"

text \<open>\<open>strings.ToLower\<close>, exact for comparing with ASCII text: besides the capital letters only
  U+0130 and the Kelvin sign U+212A are mapped to an ASCII letter.\<close>

definition lower_rune :: "nat \<Rightarrow> nat" where
  "lower_rune r = (if 65 \<le> r \<and> r \<le> 90 then r + 32 else if r = 0x130 then 105
                   else if r = 0x212A then 107 else r)"

function toLower :: "string \<Rightarrow> string" where
  "toLower [] = []"
| "toLower (c # cs) = encode_rune (lower_rune (fst (decode_rune (c # cs))))
                      @ toLower (drop (snd (decode_rune (c # cs))) (c # cs))"
  by pat_completeness auto
termination
  by (relation "measure length") (use drop_rune_less in auto)

declare toLower.simps(2) [simp del]

definition OnModuleHashMismatch_String :: "OnModuleHashMismatch \<Rightarrow> string" where
  "OnModuleHashMismatch_String x =
     (case map_of OnModuleHashMismatchMap x of
        Some s \<Rightarrow> s | None \<Rightarrow> ''OnModuleHashMismatch('' @ dec x @ '')'')"

definition OnModuleHashMismatch_IsValid :: "OnModuleHashMismatch \<Rightarrow> bool" where
  "OnModuleHashMismatch_IsValid x = (map_of OnModuleHashMismatchMap x \<noteq> None)"

definition OnModuleHashMismatchValue :: "OnModuleHashMismatch gomap" where
  "OnModuleHashMismatchValue =
     [(slice 0 6 OnModuleHashMismatchName, OnModuleHashMismatchIgnore),
      (toLower (slice 0 6 OnModuleHashMismatchName), OnModuleHashMismatchIgnore),
      (slice 6 10 OnModuleHashMismatchName, OnModuleHashMismatchWarn),
      (toLower (slice 6 10 OnModuleHashMismatchName), OnModuleHashMismatchWarn),
      (slice 10 15 OnModuleHashMismatchName, OnModuleHashMismatchError),
      (toLower (slice 10 15 OnModuleHashMismatchName), OnModuleHashMismatchError)]"

definition ParseOnModuleHashMismatch :: "string \<Rightarrow> OnModuleHashMismatch res" where
  "ParseOnModuleHashMismatch name =
     (case map_of OnModuleHashMismatchValue name of
        Some x \<Rightarrow> Inr x
      | None \<Rightarrow>
          (case map_of OnModuleHashMismatchValue (toLower name) of
             Some x \<Rightarrow> Inr x
           | None \<Rightarrow> Inl (Errorf ''%s is not a valid OnModuleHashMismatch'' [AStr name])))"

lemma toLower_ascii:
  "byte c < 0x80 \<Longrightarrow> toLower (c # cs) = encode_rune (lower_rune (byte c)) @ toLower cs"
  by (simp add: toLower.simps(2) decode_rune.simps)

lemma OnModuleHashMismatchValue_eq:
  "OnModuleHashMismatchValue =
     [(''Ignore'', 0), (''ignore'', 0), (''Warn'', 1), (''warn'', 1), (''Error'', 2), (''error'', 2)]"
  by (simp add: OnModuleHashMismatchValue_def OnModuleHashMismatchName_def slice_def toLower_ascii
      lower_rune_def encode_rune_def OnModuleHashMismatchIgnore_def OnModuleHashMismatchWarn_def
      OnModuleHashMismatchError_def char_of_def bit_0)

lemmas mismatch_modes = OnModuleHashMismatchIgnore_def OnModuleHashMismatchWarn_def OnModuleHashMismatchError_def

lemma mismatch_parse_string:
  "(ParseOnModuleHashMismatch (OnModuleHashMismatch_String x) = Inr x) = OnModuleHashMismatch_IsValid x"
proof
  assume "ParseOnModuleHashMismatch (OnModuleHashMismatch_String x) = Inr x"
  then have "x \<in> {0, 1, 2}"
    by (auto simp: ParseOnModuleHashMismatch_def OnModuleHashMismatchValue_eq split: option.splits if_splits)
  then show "OnModuleHashMismatch_IsValid x"
    by (auto simp: OnModuleHashMismatch_IsValid_def OnModuleHashMismatchMap_def mismatch_modes)
next
  assume "OnModuleHashMismatch_IsValid x"
  then have "x = 0 \<or> x = 1 \<or> x = 2"
    by (auto simp: OnModuleHashMismatch_IsValid_def OnModuleHashMismatchMap_def mismatch_modes split: if_splits)
  then show "ParseOnModuleHashMismatch (OnModuleHashMismatch_String x) = Inr x"
    by (auto simp: ParseOnModuleHashMismatch_def OnModuleHashMismatchValue_eq OnModuleHashMismatch_String_def
        OnModuleHashMismatchMap_def mismatch_modes OnModuleHashMismatchName_def slice_def)
qed

lemma hd_encode_lower:
  "\<exists>c cs. encode_rune (lower_rune r) = c # cs \<and> \<not> (65 \<le> byte c \<and> byte c \<le> 90)"
proof (cases "lower_rune r < 0x80")
  case True
  moreover have "\<not> (65 \<le> lower_rune r \<and> lower_rune r \<le> 90)" by (simp add: lower_rune_def)
  ultimately show ?thesis by (simp add: encode_rune_def)
next
  case False
  then show ?thesis by (auto simp: encode_rune_def Let_def)
qed

lemma toLower_no_capital: "\<not> (65 \<le> byte (hd (toLower (c # cs))) \<and> byte (hd (toLower (c # cs))) \<le> 90)"
  using hd_encode_lower [of "fst (decode_rune (c # cs))"] unfolding toLower.simps(2) by auto

lemma toLower_modes: "toLower s \<noteq> ''Ignore'' \<and> toLower s \<noteq> ''Warn'' \<and> toLower s \<noteq> ''Error''"
proof (cases s)
  case (Cons c cs)
  have no: "toLower s \<noteq> x # xs" if "65 \<le> byte x \<and> byte x \<le> 90" for x xs
    using toLower_no_capital [of c cs] that unfolding Cons by (cases "toLower (c # cs)") auto
  show ?thesis by (intro conjI no) simp_all
qed simp

lemma mismatch_parse_accepts:
  "(\<exists>m. ParseOnModuleHashMismatch name = Inr m) = (toLower name \<in> {''ignore'', ''warn'', ''error''})"
proof -
  have low: "toLower ''Ignore'' = ''ignore''" "toLower ''ignore'' = ''ignore''" "toLower ''Warn'' = ''warn''"
    "toLower ''warn'' = ''warn''" "toLower ''Error'' = ''error''" "toLower ''error'' = ''error''"
    by (simp_all add: toLower_ascii lower_rune_def encode_rune_def char_of_def bit_0)
  have "(\<exists>m. ParseOnModuleHashMismatch name = Inr m) =
     (name \<in> {''Ignore'', ''ignore'', ''Warn'', ''warn'', ''Error'', ''error''}
      \<or> toLower name \<in> {''Ignore'', ''ignore'', ''Warn'', ''warn'', ''Error'', ''error''})"
    by (auto simp: ParseOnModuleHashMismatch_def OnModuleHashMismatchValue_eq split: if_splits)
  then show ?thesis using toLower_modes [of name] low by auto
qed

section \<open>Dialects\<close>

datatype Dialect =
    PostgresDialect (cursorTableName: string) (historyTableName: string) (schemaName: string)
  | RisingwaveDialect (cursorTableName: string) (historyTableName: string) (schemaName: string)
  | ClickhouseDialect (cursorTableName: string) (cluster: string) (schemaName: string)

definition NewPostgresDialect :: "string \<Rightarrow> string \<Rightarrow> string \<Rightarrow> Dialect" where
  "NewPostgresDialect schema cursorTable historyTable = PostgresDialect cursorTable historyTable schema"

definition NewRisingwaveDialect :: "string \<Rightarrow> string \<Rightarrow> string \<Rightarrow> Dialect" where
  "NewRisingwaveDialect schema cursorTable historyTable = RisingwaveDialect cursorTable historyTable schema"

definition NewClickhouseDialect :: "string \<Rightarrow> string \<Rightarrow> string \<Rightarrow> Dialect" where
  "NewClickhouseDialect schema cursorTable cl = ClickhouseDialect cursorTable cl schema"

fun OnlyInserts :: "Dialect \<Rightarrow> bool" where
  "OnlyInserts (PostgresDialect _ _ _) = False"
| "OnlyInserts (RisingwaveDialect _ _ _) = False"
| "OnlyInserts (ClickhouseDialect _ _ _) = True"

fun AllowPkDuplicates :: "Dialect \<Rightarrow> bool" where
  "AllowPkDuplicates (PostgresDialect _ _ _) = False"
| "AllowPkDuplicates (RisingwaveDialect _ _ _) = False"
| "AllowPkDuplicates (ClickhouseDialect _ _ _) = True"

fun DriverSupportRowsAffected :: "Dialect \<Rightarrow> bool" where
  "DriverSupportRowsAffected (PostgresDialect _ _ _) = True"
| "DriverSupportRowsAffected (RisingwaveDialect _ _ _) = True"
| "DriverSupportRowsAffected (ClickhouseDialect _ _ _) = False"

text \<open>\<open>newDialect\<close> of \<open>db.go\<close>: the driver of the connection string decides, and for one it does
  not know the type of the SQL driver does (\<open>%T\<close> of the driver is a parameter).\<close>

definition newDialect ::
    "string \<Rightarrow> string \<Rightarrow> string \<Rightarrow> string \<Rightarrow> string \<Rightarrow> string \<Rightarrow> Dialect res" where
  "newDialect dsnDriver driverType schema cursorTable historyTable clusterName =
     (if dsnDriver = ''postgres'' then Inr (NewPostgresDialect schema cursorTable historyTable)
      else if dsnDriver = ''risingwave'' then Inr (NewRisingwaveDialect schema cursorTable historyTable)
      else if dsnDriver = ''clickhouse'' then Inr (NewClickhouseDialect schema cursorTable clusterName)
      else if driverType = ''*pq.Driver'' then Inr (NewPostgresDialect schema cursorTable historyTable)
      else if driverType = ''*clickhouse.stdDriver'' then Inr (NewClickhouseDialect schema cursorTable clusterName)
      else Inl (Errorf ''unsupported driver: %s (dsn: %s)'' [AStr driverType, AStr dsnDriver]))"

end
