(* ===== verification/OrderedMaps.thy ===== *)
theory OrderedMaps
  imports Prelude
begin

text \<open>
  The insertion-ordered maps of \<open>src/db_changes/db/db.go\<close> (\<open>OrderedMap\<close>, \<open>NewOrderedMap\<close>),
  which wrap the third-party package \<open>wk8/go-ordered-map\<close>. Its documented behaviour is the
  locale \<open>ordered_map\<close>: a lookup returns what was last set; iterating from \<open>Oldest\<close> by \<open>Next\<close>
  gives the pairs in the order their keys were first set; setting a key that is present keeps
  its place. The clients' lemmas are proved from these laws, and the laws are discharged for
  association lists, the concrete map of the model.
\<close>

locale ordered_map =
  fixes new :: "'m"
    and inv :: "'m \<Rightarrow> bool"
    and get :: "'m \<Rightarrow> string \<Rightarrow> 'v option"
    and set_key :: "string \<Rightarrow> 'v \<Rightarrow> 'm \<Rightarrow> 'm"
    and pairs :: "'m \<Rightarrow> (string \<times> 'v) list"
  assumes inv_new: "inv new"
    and inv_set: "inv m \<Longrightarrow> inv (set_key k v m)"
    and pairs_new: "pairs new = []"
    and pairs_distinct: "inv m \<Longrightarrow> distinct (map fst (pairs m))"
    and pairs_get: "inv m \<Longrightarrow> map_of (pairs m) = get m"
    and get_set: "inv m \<Longrightarrow> get (set_key k v m) = (get m)(k \<mapsto> v)"
    and set_absent: "inv m \<Longrightarrow> get m k = None \<Longrightarrow> pairs (set_key k v m) = pairs m @ [(k, v)]"
    and set_present: "inv m \<Longrightarrow> get m k \<noteq> None \<Longrightarrow>
          pairs (set_key k v m) = map (\<lambda>(j, w). (j, if j = k then v else w)) (pairs m)"
begin

definition order :: "'m \<Rightarrow> string list" where
  "order m = map fst (pairs m)"

lemma get_new: "get new k = None"
  using pairs_get [OF inv_new] pairs_new by (metis map_of.simps(1))

lemma dom_order: "inv m \<Longrightarrow> dom (get m) = set (order m)"
  by (metis dom_map_of_conv_image_fst list.set_map order_def pairs_get)

lemma order_distinct: "inv m \<Longrightarrow> distinct (order m)"
  by (simp add: order_def pairs_distinct)

lemma order_set:
  "inv m \<Longrightarrow> order (set_key k v m) = (if k \<in> set (order m) then order m else order m @ [k])"
  using set_absent [of m k v] set_present [of m k v] dom_order [of m]
  by (cases "get m k = None") (auto simp: order_def case_prod_beta comp_def domIff [symmetric])

text \<open>Setting every present key to the same value, in order: the keys stay, the values are that value.\<close>

definition set_all :: "'v \<Rightarrow> 'm \<Rightarrow> 'm" where
  "set_all v m = fold (\<lambda>(k, _) acc. set_key k v acc) (pairs m) m"

lemma fold_set:
  assumes "inv m" "fst ` set ps \<subseteq> set (order m)"
  shows "inv (fold (\<lambda>(k, _) acc. set_key k v acc) ps m) \<and>
     order (fold (\<lambda>(k, _) acc. set_key k v acc) ps m) = order m \<and>
     get (fold (\<lambda>(k, _) acc. set_key k v acc) ps m) k
       = (if k \<in> fst ` set ps then Some v else get m k)"
  using assms
proof (induction ps arbitrary: m)
  case (Cons p ps)
  then show ?case using inv_set [of m "fst p" v] order_set [of m "fst p" v] get_set [of m "fst p" v]
    by (auto simp: case_prod_beta)
qed simp

lemma set_all_laws:
  assumes "inv m"
  shows "inv (set_all v m)" "order (set_all v m) = order m"
    "get (set_all v m) k = (if get m k = None then None else Some v)"
proof -
  have sub: "fst ` set (pairs m) \<subseteq> set (order m)" by (auto simp: order_def)
  note f = fold_set [OF assms sub, of v]
  show "inv (set_all v m)" "order (set_all v m) = order m" using f by (auto simp: set_all_def)
  have "k \<in> fst ` set (pairs m) \<longleftrightarrow> get m k \<noteq> None"
    using dom_order [OF assms] by (auto simp: order_def)
  then show "get (set_all v m) k = (if get m k = None then None else Some v)"
    using f [of k] by (auto simp: set_all_def)
qed

end

section \<open>Association lists\<close>

type_synonym 'v omap = "(string \<times> 'v) list"

definition NewOrderedMap :: "'v omap" where
  "NewOrderedMap = []"

definition om_set :: "string \<Rightarrow> 'v \<Rightarrow> 'v omap \<Rightarrow> 'v omap" where
  "om_set k v m = AList.update k v m"

lemma om_update_absent: "map_of m k = None \<Longrightarrow> AList.update k v m = m @ [(k, v)]"
  by (induction m) (auto split: if_splits)

lemma om_update_present:
  "distinct (map fst m) \<Longrightarrow> map_of m k \<noteq> None \<Longrightarrow>
   AList.update k v m = map (\<lambda>(j, w). (j, if j = k then v else w)) m"
proof (induction m)
  case (Cons p m)
  show ?case
  proof (cases "fst p = k")
    case True
    then have "k \<notin> fst ` set m" using Cons.prems by auto
    then have "map (\<lambda>(j, w). (j, if j = k then v else w)) m = m"
      by (intro map_idI) (auto simp: rev_image_eqI)
    then show ?thesis using True by (cases p) simp
  next
    case False
    then show ?thesis using Cons by (cases p) simp
  qed
qed simp

interpretation om: ordered_map NewOrderedMap wf_map map_of om_set id
proof unfold_locales
  fix m :: "'a omap" and k v
  show "wf_map NewOrderedMap" by (simp add: NewOrderedMap_def)
  show "wf_map m \<Longrightarrow> wf_map (om_set k v m)" by (simp add: om_set_def)
  show "id NewOrderedMap = []" by (simp add: NewOrderedMap_def)
  show "wf_map m \<Longrightarrow> distinct (map fst (id m))" by (simp add: wf_map_def)
  show "wf_map m \<Longrightarrow> map_of (id m) = map_of m" by simp
  show "wf_map m \<Longrightarrow> map_of (om_set k v m) = (map_of m)(k \<mapsto> v)" by (simp add: om_set_def update_conv')
  show "wf_map m \<Longrightarrow> map_of m k = None \<Longrightarrow> id (om_set k v m) = id m @ [(k, v)]"
    by (simp add: om_set_def om_update_absent)
  show "wf_map m \<Longrightarrow> map_of m k \<noteq> None \<Longrightarrow>
      id (om_set k v m) = map (\<lambda>(j, w). (j, if j = k then v else w)) (id m)"
    unfolding wf_map_def om_set_def id_apply by (rule om_update_present)
qed

lemma om_get_set [go_map]: "map_of (om_set k v m) = (map_of m)(k \<mapsto> v)"
  by (simp add: om_set_def update_conv')

lemma om_set_absent: "map_of m k = None \<Longrightarrow> om_set k v m = m @ [(k, v)]"
  by (simp add: om_set_def om_update_absent)

lemma om_set_keys: "keys (om_set k v m) = (if k \<in> set (keys m) then keys m else keys m @ [k])"
  by (simp add: om_set_def keys_def update_keys)

lemma wf_map_om_set [simp, intro]: "wf_map m \<Longrightarrow> wf_map (om_set k v m)"
  by (simp add: om_set_def)

lemma set_om_set: "wf_map m \<Longrightarrow> set (om_set k v m) = insert (k, v) {p \<in> set m. fst p \<noteq> k}"
proof -
  assume wf: "wf_map m"
  have mem: "(a, b) \<in> set m' \<longleftrightarrow> map_of m' a = Some b" if "wf_map m'" for m' :: "'a omap" and a b
    using that by (simp add: wf_map_def)
  have "(a, b) \<in> set (om_set k v m) \<longleftrightarrow> (a, b) \<in> insert (k, v) {p \<in> set m. fst p \<noteq> k}" for a b
    using mem [OF wf_map_om_set [OF wf, of k v], of a b] mem [OF wf, of a b] by (auto simp: om_get_set)
  then show ?thesis by auto
qed

end
