(* ===== verification/Operations.thy ===== *)
theory Operations
  imports Tables OrderedMaps
begin

text \<open>
  \<open>src/db_changes/db/operations.go\<close> and the row identifiers of \<open>ops.go\<close>: an operation is one
  pending change of one row; several changes of a row in a batch are merged into one operation.
\<close>

datatype OperationType = OperationTypeInsert | OperationTypeUpsert | OperationTypeUpdate | OperationTypeDelete

fun opType_string :: "OperationType \<Rightarrow> string" where
  "opType_string OperationTypeInsert = ''INSERT''"
| "opType_string OperationTypeUpsert = ''UPSERT''"
| "opType_string OperationTypeUpdate = ''UPDATE''"
| "opType_string OperationTypeDelete = ''DELETE''"

record Operation =
  op_table :: TableInfo
  op_type :: OperationType
  op_primaryKey :: "string gomap"
  op_data :: "string gomap"
  op_ordinal :: u64
  op_reversibleBlockNum :: "u64 option"

definition newInsertOperation ::
    "TableInfo \<Rightarrow> string gomap \<Rightarrow> string gomap \<Rightarrow> u64 \<Rightarrow> u64 option \<Rightarrow> Operation" where
  "newInsertOperation table primaryKey data ordinal reversible =
     \<lparr>op_table = table, op_type = OperationTypeInsert, op_primaryKey = primaryKey, op_data = data,
      op_ordinal = ordinal, op_reversibleBlockNum = reversible\<rparr>"

definition newUpsertOperation ::
    "TableInfo \<Rightarrow> string gomap \<Rightarrow> string gomap \<Rightarrow> u64 \<Rightarrow> u64 option \<Rightarrow> Operation" where
  "newUpsertOperation table primaryKey data ordinal reversible =
     \<lparr>op_table = table, op_type = OperationTypeUpsert, op_primaryKey = primaryKey, op_data = data,
      op_ordinal = ordinal, op_reversibleBlockNum = reversible\<rparr>"

definition newUpdateOperation ::
    "TableInfo \<Rightarrow> string gomap \<Rightarrow> string gomap \<Rightarrow> u64 \<Rightarrow> u64 option \<Rightarrow> Operation" where
  "newUpdateOperation table primaryKey data ordinal reversible =
     \<lparr>op_table = table, op_type = OperationTypeUpdate, op_primaryKey = primaryKey, op_data = data,
      op_ordinal = ordinal, op_reversibleBlockNum = reversible\<rparr>"

definition newDeleteOperation ::
    "TableInfo \<Rightarrow> string gomap \<Rightarrow> u64 \<Rightarrow> u64 option \<Rightarrow> Operation" where
  "newDeleteOperation table primaryKey ordinal reversible =
     \<lparr>op_table = table, op_type = OperationTypeDelete, op_primaryKey = primaryKey, op_data = [],
      op_ordinal = ordinal, op_reversibleBlockNum = reversible\<rparr>"

text \<open>Both change the receiver and return an error: the error, if any, and the receiver after.\<close>

definition mergeData :: "Operation \<Rightarrow> string gomap \<Rightarrow> GoErr option \<times> Operation" where
  "mergeData oper newData =
     (if op_type oper = OperationTypeDelete
      then (Some (Errorf ''unable to merge data for a delete operation'' []), oper)
      else (None, oper\<lparr>op_data := copyInto (op_data oper) newData\<rparr>))"

definition mergeOperation :: "Operation \<Rightarrow> string gomap \<Rightarrow> GoErr option \<times> Operation" where
  "mergeOperation oper otherData =
     (if op_type oper = OperationTypeDelete
      then (Some (Errorf ''unable to merge operation for a delete operation'' []), oper)
      else mergeData oper otherData)"

section \<open>Row identifiers\<close>

definition createRowUniqueID :: "string gomap \<Rightarrow> string" where
  "createRowUniqueID m =
     (if length m = 1 then snd (hd m)
      else joinS ''/'' (map (getS m) (sort (keys m))))"

definition Operation_String :: "Operation \<Rightarrow> string" where
  "Operation_String oper = tidentifier (op_table oper) @ ''/'' @ createRowUniqueID (op_primaryKey oper)
     @ '' ('' @ toLower (opType_string (op_type oper)) @ '')''"

text \<open>The identifier does not depend on the order in which Go visits the map.\<close>

lemma createRowUniqueID_join:
  "wf_map m \<Longrightarrow> createRowUniqueID m = joinS ''/'' (map (getS m) (sort (keys m)))"
  by (cases m) (auto simp: createRowUniqueID_def keys_def getS_def)

lemma createRowUniqueID_same_map:
  assumes "wf_map m" "same_map m m'"
  shows "createRowUniqueID m = createRowUniqueID m'"
proof -
  have "getS m = getS m'" by (simp add: fun_eq_iff getS_def same_map_map_of [OF assms])
  then show ?thesis using assms same_map_wf [OF assms]
    by (simp add: createRowUniqueID_join keys_def sort_same_map [of m m'])
qed

text \<open>Values without the separator: the joined text determines them.\<close>

fun splitS :: "char \<Rightarrow> string \<Rightarrow> string list" where
  "splitS q [] = [[]]"
| "splitS q (c # cs) =
     (if c = q then [] # splitS q cs
      else case splitS q cs of t # ts \<Rightarrow> (c # t) # ts | [] \<Rightarrow> [[c]])"

lemma splitS_nonempty: "splitS q s \<noteq> []"
  by (induction s) (auto split: list.splits)

lemma splitS_append:
  "q \<notin> set v \<Longrightarrow> splitS q (v @ s) = (v @ hd (splitS q s)) # tl (splitS q s)"
proof (induction v)
  case Nil
  then show ?case using splitS_nonempty [of q s] by simp
next
  case (Cons c v)
  then show ?case by auto
qed

lemma splitS_join:
  "vs \<noteq> [] \<Longrightarrow> \<forall>v \<in> set vs. q \<notin> set v \<Longrightarrow> splitS q (joinS [q] vs) = vs"
proof (induction vs)
  case (Cons v vs)
  then have v: "q \<notin> set v" by simp
  show ?case
  proof (cases "vs = []")
    case True
    then show ?thesis using splitS_append [OF v, of "[]"] by simp
  next
    case False
    then have "splitS q (joinS [q] (v # vs)) = v # splitS q (joinS [q] vs)"
      using splitS_append [OF v, of "q # joinS [q] vs"] by (simp add: joinS_Cons)
    then show ?thesis using Cons False by simp
  qed
qed simp

text \<open>Two primary keys over the same columns with values free of the separator \<open>/\<close> get the
  same identifier exactly when they are the same key.\<close>

lemma createRowUniqueID_inj:
  assumes "wf_map m" "wf_map m'" "set (keys m) = set (keys m')"
    "\<forall>v \<in> snd ` set m. CHR ''/'' \<notin> set v" "\<forall>v \<in> snd ` set m'. CHR ''/'' \<notin> set v"
    "createRowUniqueID m = createRowUniqueID m'"
  shows "map_of m = map_of m'"
proof -
  have val: "CHR ''/'' \<notin> set (getS n k)" if "\<forall>v \<in> snd ` set n. CHR ''/'' \<notin> set v" for n k
  proof (cases "map_of n k")
    case (Some v)
    then have "(k, v) \<in> set n" by (rule map_of_SomeD)
    then have "v \<in> snd ` set n" by (metis image_eqI snd_conv)
    with that have "CHR ''/'' \<notin> set v" by (rule bspec)
    with Some show ?thesis by (simp add: getS_def)
  qed (simp add: getS_def)
  have ks: "sort (keys m) = sort (keys m')"
  proof (rule sorted_distinct_set_unique)
    show "distinct (sort (keys m))" "distinct (sort (keys m'))"
      using assms(1,2) by (simp_all add: wf_map_def keys_def)
  qed (use assms(3) in simp_all)
  show ?thesis
  proof (cases "keys m = []")
    case True
    then have "m = []" "m' = []" using assms(3) by (auto simp: keys_def)
    then show ?thesis by simp
  next
    case False
    then have ne: "map (getS n) (sort (keys m)) \<noteq> []" for n
      by (metis length_0_conv length_map length_sort)
    have "joinS ''/'' (map (getS m) (sort (keys m))) = joinS ''/'' (map (getS m') (sort (keys m)))"
      using assms(1,2,6) ks by (simp add: createRowUniqueID_join)
    then have "map (getS m) (sort (keys m)) = map (getS m') (sort (keys m))"
      using splitS_join [OF ne [of m], of "CHR ''/''"] splitS_join [OF ne [of m'], of "CHR ''/''"]
        val [OF assms(4)] val [OF assms(5)] by simp
    then have eq: "\<forall>k \<in> set (keys m). getS m k = getS m' k" by simp
    have dom: "map_of m k = None \<longleftrightarrow> map_of m' k = None" for k
      using assms(3) by (simp add: map_of_eq_None_iff keys_def)
    show ?thesis
    proof
      fix k
      show "map_of m k = map_of m' k"
      proof (cases "k \<in> set (keys m)")
        case True
        then have "map_of m k \<noteq> None" by (simp add: map_of_eq_None_iff keys_def)
        with dom [of k] eq True show ?thesis by (auto simp: getS_def)
      next
        case False
        then have "map_of m k = None" by (simp add: map_of_eq_None_iff keys_def)
        with dom [of k] show ?thesis by simp
      qed
    qed
  qed
qed

end
