(* ===== verification/Strconv.thy ===== *)
theory Strconv
  imports Prelude
begin

text \<open>
  Decimal \<open>strconv.ParseUint\<close>, \<open>ParseInt\<close> and \<open>Atoi\<close> at a given width: the value is the one
  Go returns beside an error (0 for a syntax error, the nearest bound for a range error).
\<close>

definition ErrSyntax :: GoErr where "ErrSyntax = Errorf ''invalid syntax'' []"
definition ErrRange :: GoErr where "ErrRange = Errorf ''value out of range'' []"

fun parse_digits :: "nat \<Rightarrow> nat \<Rightarrow> string \<Rightarrow> nat \<times> GoErr option" where
  "parse_digits maxv n [] = (n, None)"
| "parse_digits maxv n (c # cs) =
     (if \<not> is_digit c then (0, Some ErrSyntax)
      else if maxv < n * 10 + digit_val c then (maxv, Some ErrRange)
      else parse_digits maxv (n * 10 + digit_val c) cs)"

definition ParseUint :: "nat \<Rightarrow> string \<Rightarrow> nat \<times> GoErr option" where
  "ParseUint bits s = (if s = [] then (0, Some ErrSyntax) else parse_digits (2 ^ bits - 1) 0 s)"

definition ParseInt :: "nat \<Rightarrow> string \<Rightarrow> int \<times> GoErr option" where
  "ParseInt bits s =
     (case s of [] \<Rightarrow> (0, Some ErrSyntax)
      | c # cs \<Rightarrow>
          let neg = (c = CHR ''-''); body = (if c = CHR ''-'' \<or> c = CHR ''+'' then cs else s);
              cutoff = (2::nat) ^ (bits - 1) in
          (case ParseUint bits body of (un, e) \<Rightarrow>
             if e \<noteq> None \<and> e \<noteq> Some ErrRange then (0, e)
             else if \<not> neg \<and> cutoff \<le> un then (int cutoff - 1, Some ErrRange)
             else if neg \<and> cutoff < un then (- int cutoff, Some ErrRange)
             else (if neg then - int un else int un, None)))"

definition Atoi :: "string \<Rightarrow> int \<times> GoErr option" where
  "Atoi s = ParseInt 64 s"

lemma parse_digits_append:
  "\<forall>c \<in> set s. is_digit c \<Longrightarrow> foldl (\<lambda>a c. 10 * a + digit_val c) n s \<le> maxv \<Longrightarrow>
   parse_digits maxv n s = (foldl (\<lambda>a c. 10 * a + digit_val c) n s, None)"
proof (induction s arbitrary: n)
  case (Cons c s)
  have mono: "m \<le> foldl (\<lambda>a c. 10 * a + digit_val c) m t" for m t
  proof (induction t arbitrary: m)
    case (Cons a t)
    show ?case using Cons [of "10 * m + digit_val a"] by simp
  qed simp
  from Cons mono [of "10 * n + digit_val c" s] show ?case by (simp add: mult.commute)
qed simp

lemma ParseUint_dec: "n < 2 ^ bits \<Longrightarrow> ParseUint bits (dec n) = (n, None)"
  unfolding ParseUint_def using parse_digits_append [of "dec n" 0 "2 ^ bits - 1"] undec_dec [of n] dec_digits [of n]
  by (simp add: undec_def less_eq_Suc_le [symmetric] less_Suc_eq_le [symmetric])

lemma ParseInt_dec:
  assumes "n < 2 ^ (bits - 1)"
  shows "ParseInt bits (dec n) = (int n, None)"
proof -
  obtain c cs where d: "dec n = c # cs" by (cases "dec n") auto
  then have "is_digit c" using dec_digits [of n] by simp
  then have nc: "c \<noteq> CHR ''-''" "c \<noteq> CHR ''+''" by (auto simp: is_digit_def)
  have "n < 2 ^ bits" using assms by (meson diff_le_self less_le_trans one_le_numeral power_increasing)
  from ParseUint_dec [OF this] show ?thesis using d nc assms by (simp add: ParseInt_def)
qed

end
