(* ===== verification/Dsn.thy ===== *)
theory Dsn
  imports Strconv Tables
begin

text \<open>
  \<open>src/db_changes/db/dsn.go\<close>: the connection string. The expansion of environment variables
  (\<open>envsubst\<close>) and the URL parser are arguments of \<open>ParseDSN\<close>: a parsed URL is the record of
  the accessors the code reads.
\<close>

record DSN =
  driver :: string
  original :: string
  Host :: string
  Port :: int
  Username :: string
  Password :: string
  Database :: string
  dsn_schema :: string
  Options :: "string list"

definition driverMap :: "string gomap" where
  "driverMap = [(''psql'', ''postgres''), (''postgres'', ''postgres''),
                (''clickhouse'', ''clickhouse''), (''risingwave'', ''risingwave'')]"

record URL =
  url_Scheme :: string
  url_Host :: string
  url_Hostname :: string
  url_Port :: string
  url_Username :: string
  url_Password :: string
  url_EscapedPath :: string
  url_Query :: "string list gomap"

definition trimPrefix :: "string \<Rightarrow> string \<Rightarrow> string" where
  "trimPrefix p s = (if hasPrefix p s then drop (length p) s else s)"

text \<open>The options of a URL: one slot per query key in increasing order; the slot of the key
  \<open>schemaName\<close> keeps its zero value.\<close>

definition dsn_options :: "string list gomap \<Rightarrow> string list" where
  "dsn_options query =
     map (\<lambda>k. if k = ''schemaName'' then []
              else k @ ''='' @ joinS '','' (case map_of query k of Some vs \<Rightarrow> vs | None \<Rightarrow> []))
         (sort (keys query))"

definition ParseDSN :: "(string \<Rightarrow> string res) \<Rightarrow> (string \<Rightarrow> URL res) \<Rightarrow> string \<Rightarrow> DSN res" where
  "ParseDSN envsubst url_Parse dsn =
     (case envsubst dsn of
        Inl e \<Rightarrow> Inl (Wrapf ''variables expansion failed'' [] e)
      | Inr expanded \<Rightarrow>
          (case url_Parse expanded of
             Inl e \<Rightarrow> Inl (Wrapf ''invalid url'' [] e)
           | Inr u \<Rightarrow>
               (case map_of driverMap (url_Scheme u) of
                  None \<Rightarrow> Inl (Errorf ''invalid scheme %s, allowed schemes: [%s]''
                                 [AStr (url_Scheme u), AStr (joinS '','' (keys driverMap))])
                | Some drv \<Rightarrow>
                    let port = (if containsS '':'' (url_Host u) then fst (ParseInt 32 (url_Port u)) else 5432);
                        database = trimPrefix ''/'' (url_EscapedPath u);
                        schema0 = (if drv = ''clickhouse'' then database else ''public'');
                        schema = (case map_of (url_Query u) ''schemaName'' of
                                    Some (v # _) \<Rightarrow> v | _ \<Rightarrow> schema0)
                    in Inr \<lparr>driver = drv, original = dsn, Host = url_Hostname u, Port = port,
                           Username = url_Username u, Password = url_Password u, Database = database,
                           dsn_schema = schema, Options = dsn_options (url_Query u)\<rparr>)))"

definition SqlDriver :: "DSN \<Rightarrow> string" where
  "SqlDriver c = (if driver c = ''risingwave'' then ''postgres'' else driver c)"

text \<open>\<open>strings.Replace(s, old, new, 1)\<close>\<close>

function replaceFirst :: "string \<Rightarrow> string \<Rightarrow> string \<Rightarrow> string" where
  "replaceFirst old new [] = []"
| "replaceFirst old new (c # cs) =
     (if hasPrefix old (c # cs) then new @ drop (length old) (c # cs)
      else c # replaceFirst old new cs)"
  by pat_completeness auto
termination by lexicographic_order

definition decZ :: "int \<Rightarrow> string" where
  "decZ i = (if i < 0 then ''-'' @ dec (nat (- i)) else dec (nat i))"

text \<open>The receiver is a pointer: looking at the first option of a ClickHouse connection to
  \<open>localhost\<close> rewrites the host, so the second component is the connection string's new state.\<close>

definition ConnString :: "DSN \<Rightarrow> string \<times> DSN" where
  "ConnString c =
     (if driver c = ''clickhouse'' then
        (case Options c of
           option # _ \<Rightarrow>
             if Host c = ''localhost''
             then (replaceFirst ''clickhouse://'' ((if option = ''secure=true'' then ''https'' else ''http'') @ ''://'')
                     (original c), c\<lparr>Host := ''127.0.0.1''\<rparr>)
             else (original c, c)
         | [] \<Rightarrow> (original c, c))
      else
        (''host='' @ Host c @ '' port='' @ decZ (Port c) @ '' dbname='' @ Database c @ '' ''
           @ joinS '' '' (Options c)
           @ (if Username c \<noteq> [] then '' user='' @ Username c else [])
           @ (if Password c \<noteq> [] then '' password='' @ Password c else []), c))"

lemma driverMap_cases:
  "map_of driverMap s = Some d \<Longrightarrow> d = ''postgres'' \<or> d = ''clickhouse'' \<or> d = ''risingwave''"
  by (auto simp: driverMap_def split: if_splits)

text \<open>What \<open>ParseDSN\<close> accepts has one of the three drivers, keeps the text it was given, and
  takes its schema from the query, the database (ClickHouse) or \<open>public\<close>.\<close>

lemma ParseDSN_ok:
  assumes "ParseDSN envsubst url_Parse dsn = Inr d"
  shows "driver d \<in> {''postgres'', ''clickhouse'', ''risingwave''}" "original d = dsn"
    "\<exists>s u. envsubst dsn = Inr s \<and> url_Parse s = Inr u \<and> map_of driverMap (url_Scheme u) = Some (driver d)
       \<and> Options d = dsn_options (url_Query u)
       \<and> dsn_schema d = (case map_of (url_Query u) ''schemaName'' of Some (v # _) \<Rightarrow> v
            | _ \<Rightarrow> if driver d = ''clickhouse'' then Database d else ''public'')"
proof -
  obtain s u drv where ok: "envsubst dsn = Inr s" "url_Parse s = Inr u" "map_of driverMap (url_Scheme u) = Some drv"
    using assms by (auto simp: ParseDSN_def split: sum.splits option.splits)
  then have d: "driver d = drv" "original d = dsn" "Options d = dsn_options (url_Query u)"
    "Database d = trimPrefix ''/'' (url_EscapedPath u)"
    "dsn_schema d = (case map_of (url_Query u) ''schemaName'' of Some (v # _) \<Rightarrow> v
       | _ \<Rightarrow> if drv = ''clickhouse'' then trimPrefix ''/'' (url_EscapedPath u) else ''public'')"
    using assms by (auto simp: ParseDSN_def Let_def)
  show "driver d \<in> {''postgres'', ''clickhouse'', ''risingwave''}"
    using driverMap_cases [OF ok(3)] unfolding d(1) by blast
  show "original d = dsn" by (fact d(2))
  show "\<exists>s u. envsubst dsn = Inr s \<and> url_Parse s = Inr u \<and> map_of driverMap (url_Scheme u) = Some (driver d)
       \<and> Options d = dsn_options (url_Query u)
       \<and> dsn_schema d = (case map_of (url_Query u) ''schemaName'' of Some (v # _) \<Rightarrow> v
            | _ \<Rightarrow> if driver d = ''clickhouse'' then Database d else ''public'')"
    using ok d by (intro exI [of _ s] exI [of _ u]) (simp only: simp_thms)
qed

lemma dsn_options_length: "length (dsn_options q) = length q"
  by (simp add: dsn_options_def keys_def)

text \<open>The dialect that serves an accepted connection string: its driver alone decides.\<close>

lemma newDialect_driver:
  assumes "ParseDSN envsubst url_Parse dsn = Inr d"
  shows "\<exists>dia. newDialect (driver d) driverType schema cursorTable historyTable cl = Inr dia
     \<and> schemaName dia = schema \<and> cursorTableName dia = cursorTable
     \<and> (OnlyInserts dia \<longleftrightarrow> driver d = ''clickhouse'')"
  using ParseDSN_ok(1) [OF assms]
  by (auto simp: newDialect_def NewPostgresDialect_def NewRisingwaveDialect_def NewClickhouseDialect_def)

end
