(* ===== verification/Loader.thy ===== *)
theory Loader
  imports Operations Dsn
begin

text \<open>
  The loader of \<open>src/db_changes/db/db.go\<close> and its batch (\<open>ops.go\<close>, \<open>reset\<close> of \<open>flush.go\<close>):
  the pending operations of each table by row identifier, in the order they were first seen,
  and the counter that orders them. A method that changes the loader and returns an error is a
  function to the error and the loader after: the entry of a table is created before some of
  the checks fail.
\<close>

named_theorems loader_defs \<open>unfolding of the loader's operations\<close>

record Loader =
  entries :: "Operation omap omap"
  entriesCount :: u64
  tables :: "TableInfo gomap"
  cursorTable :: "TableInfo option"
  handleReorgs :: bool
  batchBlockFlushInterval :: int
  batchRowFlushInterval :: int
  liveBlockFlushInterval :: int
  moduleMismatchMode :: OnModuleHashMismatch
  dialect :: Dialect
  ldsn :: DSN
  batchOrdinal :: u64

section \<open>Construction\<close>

text \<open>\<open>sql.Open\<close> of the driver's connection (its error, or the type of its driver, and its
  state) is an argument. The connection string may rewrite the DSN's host.\<close>

definition NewLoader ::
    "(string \<Rightarrow> string \<Rightarrow> string res) \<Rightarrow> DSN \<Rightarrow> string \<Rightarrow> string \<Rightarrow> string \<Rightarrow> int \<Rightarrow> int \<Rightarrow> int \<Rightarrow>
     string \<Rightarrow> bool option \<Rightarrow> Loader res" where
  "NewLoader sql_Open dsn cursorTableNam historyTableNam clickhouseCluster
     batchBlock batchRow liveBlock onMismatch handleReorg =
     (case sql_Open (SqlDriver dsn) (fst (ConnString dsn)) of
        Inl e \<Rightarrow> Inl (Wrapf ''open db connection'' [] e)
      | Inr driverType \<Rightarrow>
        (let dsn' = snd (ConnString dsn) in
         case newDialect (driver dsn') driverType (dsn_schema dsn') cursorTableNam historyTableNam clickhouseCluster of
           Inl e \<Rightarrow> Inl (Wrapf ''get dialect'' [] e)
         | Inr dia \<Rightarrow>
           (case ParseOnModuleHashMismatch onMismatch of
              Inl e \<Rightarrow> Inl (Wrapf ''parse on module hash mismatch'' [] e)
            | Inr mode \<Rightarrow>
                let reorgs = (case handleReorg of None \<Rightarrow> \<not> OnlyInserts dia | Some b \<Rightarrow> b) in
                if reorgs \<and> OnlyInserts dia
                then Inl (Errorf ''driver %s does not support reorg handling. You must use set a non-zero undo-buffer-size'' [AStr driverType])
                else Inr \<lparr>entries = NewOrderedMap, entriesCount = 0, tables = [], cursorTable = None,
                          handleReorgs = reorgs, batchBlockFlushInterval = batchBlock,
                          batchRowFlushInterval = batchRow, liveBlockFlushInterval = liveBlock,
                          moduleMismatchMode = mode, dialect = dia, ldsn = dsn', batchOrdinal = 0\<rparr>)))"

section \<open>Reading the loader\<close>

definition FlushNeeded :: "Loader \<Rightarrow> bool" where
  "FlushNeeded l =
     (let totalRows = fold (\<lambda>(_, ops) n. n + length ops) (entries l) (0::nat)
      in int totalRows > batchRowFlushInterval l)"

definition HasTable :: "Loader \<Rightarrow> string \<Rightarrow> bool" where
  "HasTable l tableName = (map_of (tables l) tableName \<noteq> None)"

definition GetAvailableTablesInSchema :: "Loader \<Rightarrow> string list" where
  "GetAvailableTablesInSchema l = keys (tables l)"

text \<open>A table that is not known is a nil dereference here: \<open>None\<close>.\<close>

definition GetColumnsForTable :: "Loader \<Rightarrow> string \<Rightarrow> string list option" where
  "GetColumnsForTable l name =
     map_option (\<lambda>t. [c \<leftarrow> keys (columnsByName t). length c > 0]) (map_of (tables l) name)"

definition GetIdentifier :: "Loader \<Rightarrow> string" where
  "GetIdentifier l = dsn_schema (ldsn l) @ ''/'' @ dsn_schema (ldsn l)"

definition NextBatchOrdinal :: "Loader \<Rightarrow> u64 \<times> Loader" where
  "NextBatchOrdinal l = (batchOrdinal l, l\<lparr>batchOrdinal := batchOrdinal l + 1\<rparr>)"

definition reset :: "Loader \<Rightarrow> Loader" where
  "reset l = l\<lparr>entries := fold (\<lambda>(k, _) m. om_set k NewOrderedMap m) (entries l) (entries l),
               batchOrdinal := 0\<rparr>"

text \<open>A nil table is a nil dereference (a panic): the callers check \<open>HasTable\<close> first.\<close>

definition GetPrimaryKey :: "Loader \<Rightarrow> string \<Rightarrow> string \<Rightarrow> (string gomap res) option" where
  "GetPrimaryKey l tableName pk =
     (case map_of (tables l) tableName of
        None \<Rightarrow> None
      | Some t \<Rightarrow> Some
          (case primaryColumns t of
             [] \<Rightarrow> Inl (Errorf ''substreams sent a single primary key, but our sql table has none, this is unsupported'' [])
           | [c] \<Rightarrow> Inr [(cname c, pk)]
           | cols \<Rightarrow> Inl (Errorf ''substreams sent a single primary key, but our sql table has a composite primary key (columns: %s), this is unsupported''
                            [AStr (joinS '','' (map cname cols))])))"

section \<open>Changing the batch\<close>

text \<open>The primary key columns of the table are added to the data of a new row.\<close>

definition addPrimaryKeyData :: "ColumnInfo list \<Rightarrow> string gomap \<Rightarrow> string gomap \<Rightarrow> string gomap" where
  "addPrimaryKeyData cols primaryKey data =
     fold (\<lambda>c d. case map_of primaryKey (cname c) of Some v \<Rightarrow> AList.update (cname c) v d | None \<Rightarrow> d) cols data"

text \<open>The entry of a table, created when the table is seen for the first time\<close>

definition tableEntry :: "Loader \<Rightarrow> string \<Rightarrow> Operation omap \<times> Loader" where
  "tableEntry l tableName =
     (case map_of (entries l) tableName of
        Some entry \<Rightarrow> (entry, l)
      | None \<Rightarrow> (NewOrderedMap, l\<lparr>entries := om_set tableName NewOrderedMap (entries l)\<rparr>))"

text \<open>\<open>entry.Set(uniqueID, op)\<close>: the entry is shared with the loader\<close>

definition setEntry :: "string \<Rightarrow> Operation omap \<Rightarrow> string \<Rightarrow> Operation \<Rightarrow> Loader \<Rightarrow> Loader" where
  "setEntry tableName entry uniqueID oper l =
     l\<lparr>entries := om_set tableName (om_set uniqueID oper entry) (entries l)\<rparr>"

definition Insert ::
    "Loader \<Rightarrow> string \<Rightarrow> string gomap \<Rightarrow> string gomap \<Rightarrow> u64 option \<Rightarrow> GoErr option \<times> Loader" where
  "Insert l tableName primaryKey data reversibleBlockNum =
     (let uniqueID = createRowUniqueID primaryKey in
      case map_of (tables l) tableName of
        None \<Rightarrow> (Some (Errorf ''unknown table %q'' [AStr tableName]), l)
      | Some table \<Rightarrow>
        (let (entry, l1) = tableEntry l tableName;
             clash = (case map_of entry uniqueID of
                None \<Rightarrow> None
              | Some operation \<Rightarrow>
                  (case op_type operation of
                     OperationTypeInsert \<Rightarrow>
                       if \<not> AllowPkDuplicates (dialect l1)
                       then Some (Errorf ''attempting to insert in table %q a primary key %q, that is already scheduled for insertion, insert should only be called once for a given primary key'' [AStr tableName, AMap primaryKey])
                       else None
                   | OperationTypeDelete \<Rightarrow> Some (Errorf ''attempting to insert an object with primary key %q, that is scheduled to be deleted'' [AMap primaryKey])
                   | OperationTypeUpdate \<Rightarrow> Some (Errorf ''attempting to insert an object with primary key %q, that is scheduled to be updated'' [AMap primaryKey])
                   | OperationTypeUpsert \<Rightarrow> Some (Errorf ''attempting to insert an object with primary key %q, that is scheduled to be upserted'' [AMap primaryKey])))
         in case clash of
              Some e \<Rightarrow> (Some e, l1)
            | None \<Rightarrow>
                let data' = addPrimaryKeyData (primaryColumns table) primaryKey data;
                    (ordinal, l2) = NextBatchOrdinal l1;
                    l3 = setEntry tableName entry uniqueID
                           (newInsertOperation table primaryKey data' ordinal reversibleBlockNum) l2
                in (None, l3\<lparr>entriesCount := entriesCount l3 + 1\<rparr>)))"

definition Upsert ::
    "Loader \<Rightarrow> string \<Rightarrow> string gomap \<Rightarrow> string gomap \<Rightarrow> u64 option \<Rightarrow> GoErr option \<times> Loader" where
  "Upsert l tableName primaryKey data reversibleBlockNum =
     (if OnlyInserts (dialect l)
      then (Some (Errorf ''update operation is not supported by the current database'' []), l)
      else let uniqueID = createRowUniqueID primaryKey in
      case map_of (tables l) tableName of
        None \<Rightarrow> (Some (Errorf ''unknown table %q'' [AStr tableName]), l)
      | Some table \<Rightarrow>
        if length (primaryColumns table) = 0
        then (Some (Errorf ''trying to perform an UPSERT operation but table %q don't have a primary key(s) set, this is not accepted'' [AStr tableName]), l)
        else
        (let (entry, l1) = tableEntry l tableName in
         case map_of entry uniqueID of
           Some oper \<Rightarrow>
             (case op_type oper of
                OperationTypeInsert \<Rightarrow> (Some (Errorf ''attempting to upsert an object with primary key %q, that is scheduled to be inserted, insert and upsert are exclusive'' [AMap primaryKey]), l1)
              | OperationTypeDelete \<Rightarrow> (Some (Errorf ''attempting to upsert an object with primary key %q, that is scheduled to be deleted'' [AMap primaryKey]), l1)
              | _ \<Rightarrow>
                  let oper1 = (if op_type oper = OperationTypeUpdate
                               then oper\<lparr>op_type := OperationTypeUpsert\<rparr> else oper)
                  in (None, setEntry tableName entry uniqueID (snd (mergeOperation oper1 data)) l1))
         | None \<Rightarrow>
             let l2 = l1\<lparr>entriesCount := entriesCount l1 + 1\<rparr>;
                 data' = addPrimaryKeyData (primaryColumns table) primaryKey data;
                 (ordinal, l3) = NextBatchOrdinal l2
             in (None, setEntry tableName entry uniqueID
                         (newUpsertOperation table primaryKey data' ordinal reversibleBlockNum) l3)))"

definition Update ::
    "Loader \<Rightarrow> string \<Rightarrow> string gomap \<Rightarrow> string gomap \<Rightarrow> u64 option \<Rightarrow> GoErr option \<times> Loader" where
  "Update l tableName primaryKey data reversibleBlockNum =
     (if OnlyInserts (dialect l)
      then (Some (Errorf ''update operation is not supported by the current database'' []), l)
      else let uniqueID = createRowUniqueID primaryKey in
      case map_of (tables l) tableName of
        None \<Rightarrow> (Some (Errorf ''unknown table %q'' [AStr tableName]), l)
      | Some table \<Rightarrow>
        if length (primaryColumns table) = 0
        then (Some (Errorf ''trying to perform an UPDATE operation but table %q don't have a primary key(s) set, this is not accepted'' [AStr tableName]), l)
        else
        (let (entry, l1) = tableEntry l tableName in
         case map_of entry uniqueID of
           Some oper \<Rightarrow>
             (if op_type oper = OperationTypeDelete
              then (Some (Errorf ''attempting to update an object with primary key %q, that is scheduled to be deleted'' [AMap primaryKey]), l1)
              else (None, setEntry tableName entry uniqueID (snd (mergeOperation oper data)) l1))
         | None \<Rightarrow>
             let l2 = l1\<lparr>entriesCount := entriesCount l1 + 1\<rparr>;
                 (ordinal, l3) = NextBatchOrdinal l2
             in (None, setEntry tableName entry uniqueID
                         (newUpdateOperation table primaryKey data ordinal reversibleBlockNum) l3)))"

definition Delete ::
    "Loader \<Rightarrow> string \<Rightarrow> string gomap \<Rightarrow> u64 option \<Rightarrow> GoErr option \<times> Loader" where
  "Delete l tableName primaryKey reversibleBlockNum =
     (if OnlyInserts (dialect l)
      then (Some (Errorf ''delete operation is not supported by the current database'' []), l)
      else let uniqueID = createRowUniqueID primaryKey in
      case map_of (tables l) tableName of
        None \<Rightarrow> (Some (Errorf ''unknown table %q'' [AStr tableName]), l)
      | Some table \<Rightarrow>
        if length (primaryColumns table) = 0
        then (Some (Errorf ''trying to perform a DELETE operation but table %q don't have a primary key(s) set, this is not accepted'' [AStr tableName]), l)
        else
        (let (entry, l1) = tableEntry l tableName;
             l2 = (if map_of entry uniqueID = None
                   then l1\<lparr>entriesCount := entriesCount l1 + 1\<rparr> else l1);
             (ordinal, l3) = NextBatchOrdinal l2
         in (None, setEntry tableName entry uniqueID
                     (newDeleteOperation table primaryKey ordinal reversibleBlockNum) l3)))"

end
