(* ===== verification/Batch.thy ===== *)
theory Batch
  imports Loader
begin

text \<open>
  The batch of the loader (\<open>src/db_changes/db/ops.go\<close>) as an abstract machine. Its state is the
  pending operation of each row (a map from table and row identifier) and the next ordinal. The
  specification of \<open>Insert\<close>, \<open>Upsert\<close>, \<open>Update\<close> and \<open>Delete\<close> is one function of the
  pending operation of the row; the loader's methods implement it (\<open>*_refines\<close>). The
  invariant of the batch and its preservation are proved on top of the refinement.
\<close>

section \<open>The pending operation of a row\<close>

definition pending :: "Loader \<Rightarrow> string \<times> string \<Rightarrow> Operation option" where
  "pending l = (\<lambda>(t, u). case map_of (entries l) t of None \<Rightarrow> None | Some entry \<Rightarrow> map_of entry u)"

definition known :: "Loader \<Rightarrow> string \<Rightarrow> TableInfo option" where
  "known l t = map_of (tables l) t"

lemma map_of_tableEntry: "map_of (fst (tableEntry l t)) u = pending l (t, u)"
  by (simp add: tableEntry_def pending_def NewOrderedMap_def split: option.splits)

lemma pending_tableEntry [simp]: "pending (snd (tableEntry l t)) = pending l"
  by (auto simp: tableEntry_def pending_def om_get_set NewOrderedMap_def fun_eq_iff split: option.splits)

lemma tableEntry_fields [simp]:
  "tables (snd (tableEntry l t)) = tables l" "dialect (snd (tableEntry l t)) = dialect l"
  "batchOrdinal (snd (tableEntry l t)) = batchOrdinal l"
  "entriesCount (snd (tableEntry l t)) = entriesCount l"
  by (simp_all add: tableEntry_def split: option.splits)

lemma pending_setEntry:
  "pending (setEntry t (fst (tableEntry l t)) u oper l') =
     (\<lambda>(t', u'). if t' = t then (if u' = u then Some oper else pending l (t, u')) else pending l' (t', u'))"
  by (auto simp: pending_def setEntry_def om_get_set fun_eq_iff map_of_tableEntry [unfolded pending_def]
      split: option.splits)

lemma setEntry_fields [simp]:
  "tables (setEntry t e u oper l) = tables l" "dialect (setEntry t e u oper l) = dialect l"
  "batchOrdinal (setEntry t e u oper l) = batchOrdinal l"
  "entriesCount (setEntry t e u oper l) = entriesCount l"
  by (simp_all add: setEntry_def)

lemma pending_update_fields [simp]:
  "pending (l\<lparr>entriesCount := n\<rparr>) = pending l" "pending (l\<lparr>batchOrdinal := b\<rparr>) = pending l"
  by (simp_all add: pending_def)

section \<open>The specification\<close>

datatype Change =
    CInsert "string gomap" "string gomap" "u64 option"
  | CUpsert "string gomap" "string gomap" "u64 option"
  | CUpdate "string gomap" "string gomap" "u64 option"
  | CDelete "string gomap" "u64 option"

fun change_key :: "Change \<Rightarrow> string gomap" where
  "change_key (CInsert pk _ _) = pk"
| "change_key (CUpsert pk _ _) = pk"
| "change_key (CUpdate pk _ _) = pk"
| "change_key (CDelete pk _) = pk"

text \<open>The loader's method for a change\<close>

fun apply_change :: "Loader \<Rightarrow> string \<Rightarrow> Change \<Rightarrow> GoErr option \<times> Loader" where
  "apply_change l t (CInsert pk d r) = Insert l t pk d r"
| "apply_change l t (CUpsert pk d r) = Upsert l t pk d r"
| "apply_change l t (CUpdate pk d r) = Update l t pk d r"
| "apply_change l t (CDelete pk r) = Delete l t pk r"

text \<open>The operation a change of a row makes out of the pending operation of the row: \<open>None\<close> when
  it is refused. \<open>dup\<close> and \<open>ins_only\<close> are the dialect's \<open>AllowPkDuplicates\<close> and
  \<open>OnlyInserts\<close>; \<open>ord\<close> is the next ordinal.\<close>

definition fresh_op :: "TableInfo \<Rightarrow> u64 \<Rightarrow> Change \<Rightarrow> Operation" where
  "fresh_op tab ord c =
     (case c of
        CInsert pk d r \<Rightarrow> newInsertOperation tab pk (addPrimaryKeyData (primaryColumns tab) pk d) ord r
      | CUpsert pk d r \<Rightarrow> newUpsertOperation tab pk (addPrimaryKeyData (primaryColumns tab) pk d) ord r
      | CUpdate pk d r \<Rightarrow> newUpdateOperation tab pk d ord r
      | CDelete pk r \<Rightarrow> newDeleteOperation tab pk ord r)"

definition merged_op :: "Operation \<Rightarrow> Change \<Rightarrow> Operation" where
  "merged_op p c =
     (case c of
        CUpsert pk d r \<Rightarrow> p\<lparr>op_type := OperationTypeUpsert, op_data := copyInto (op_data p) d\<rparr>
      | CUpdate pk d r \<Rightarrow> p\<lparr>op_data := copyInto (op_data p) d\<rparr>
      | _ \<Rightarrow> p)"

definition accepts :: "bool \<Rightarrow> bool \<Rightarrow> Operation option \<Rightarrow> Change \<Rightarrow> bool" where
  "accepts dup ins_only p c =
     (case c of
        CInsert _ _ _ \<Rightarrow> (case p of None \<Rightarrow> True | Some q \<Rightarrow> op_type q = OperationTypeInsert \<and> dup)
      | CUpsert _ _ _ \<Rightarrow> \<not> ins_only \<and> (case p of None \<Rightarrow> True
           | Some q \<Rightarrow> op_type q = OperationTypeUpdate \<or> op_type q = OperationTypeUpsert)
      | CUpdate _ _ _ \<Rightarrow> \<not> ins_only \<and> (case p of None \<Rightarrow> True | Some q \<Rightarrow> op_type q \<noteq> OperationTypeDelete)
      | CDelete _ _ \<Rightarrow> \<not> ins_only)"

definition merges :: "Operation option \<Rightarrow> Change \<Rightarrow> bool" where
  "merges p c = (p \<noteq> None \<and> (case c of CUpsert _ _ _ \<Rightarrow> True | CUpdate _ _ _ \<Rightarrow> True | _ \<Rightarrow> False))"

definition next_op :: "TableInfo \<Rightarrow> u64 \<Rightarrow> Operation option \<Rightarrow> Change \<Rightarrow> Operation" where
  "next_op tab ord p c = (if merges p c then merged_op (the p) c else fresh_op tab ord c)"

text \<open>One step of the abstract batch\<close>

record Abs =
  a_pending :: "string \<times> string \<Rightarrow> Operation option"
  a_next :: u64

definition abs_loader :: "Loader \<Rightarrow> Abs" where
  "abs_loader l = \<lparr>a_pending = pending l, a_next = batchOrdinal l\<rparr>"

definition spec_change :: "bool \<Rightarrow> bool \<Rightarrow> TableInfo option \<Rightarrow> string \<Rightarrow> Change \<Rightarrow> Abs \<Rightarrow> Abs option" where
  "spec_change dup ins_only tab t c a =
     (let key = (t, createRowUniqueID (change_key c)); p = a_pending a key in
      case tab of None \<Rightarrow> None
      | Some tb \<Rightarrow>
          if accepts dup ins_only p c
          then Some \<lparr>a_pending = (a_pending a)(key := Some (next_op tb (a_next a) p c)),
                    a_next = (if merges p c then a_next a else a_next a + 1)\<rparr>
          else None)"

text \<open>What an implementation of the specification does: it succeeds exactly when the step
  exists, and then its abstract state is the step's; when it refuses, its abstract state stays.\<close>

definition implements :: "Abs option \<Rightarrow> Loader \<Rightarrow> GoErr option \<times> Loader \<Rightarrow> bool" where
  "implements st l r \<longleftrightarrow>
     (fst r = None \<longleftrightarrow> st \<noteq> None) \<and> abs_loader (snd r) = (case st of Some a \<Rightarrow> a | None \<Rightarrow> abs_loader l)
     \<and> tables (snd r) = tables l \<and> dialect (snd r) = dialect l"

abbreviation spec_of :: "Loader \<Rightarrow> string \<Rightarrow> Change \<Rightarrow> Abs option" where
  "spec_of l t c \<equiv> spec_change (AllowPkDuplicates (dialect l)) (OnlyInserts (dialect l)) (known l t) t c (abs_loader l)"

section \<open>The methods implement the specification\<close>

text \<open>All that the methods use of the entry of a table\<close>

lemma tableEntry_obtain:
  obtains e l1 where "tableEntry l t = (e, l1)" "\<And>u. map_of e u = pending l (t, u)"
    "pending l1 = pending l" "tables l1 = tables l" "dialect l1 = dialect l"
    "batchOrdinal l1 = batchOrdinal l"
    "\<And>u oper l'. pending l' = pending l \<Longrightarrow>
       pending (setEntry t e u oper l') = (pending l)((t, u) \<mapsto> oper)"
proof -
  obtain e l1 where e: "tableEntry l t = (e, l1)" by fastforce
  have "pending (setEntry t e u oper l') = (pending l)((t, u) \<mapsto> oper)"
    if "pending l' = pending l" for u oper l'
    using that pending_setEntry [of t l u oper l'] by (auto simp: e fun_eq_iff)
  with e show ?thesis
    using that [of e l1] map_of_tableEntry [of l t] pending_tableEntry [of l t] tableEntry_fields [of l t]
    by simp
qed

lemmas implements_defs = implements_def spec_change_def accepts_def merges_def next_op_def
  fresh_op_def merged_op_def known_def abs_loader_def NextBatchOrdinal_def Let_def

lemma Insert_refines: "implements (spec_of l t (CInsert pk d r)) l (Insert l t pk d r)"
proof (cases "map_of (tables l) t")
  case None
  then show ?thesis by (simp add: Insert_def implements_defs)
next
  case (Some tb)
  show ?thesis
  proof (rule tableEntry_obtain [of l t])
    fix e l1
    assume "tableEntry l t = (e, l1)" and p: "\<And>u. map_of e u = pending l (t, u)"
      and "pending l1 = pending l" "tables l1 = tables l" "dialect l1 = dialect l"
        "batchOrdinal l1 = batchOrdinal l"
      and "\<And>u oper l'. pending l' = pending l \<Longrightarrow>
             pending (setEntry t e u oper l') = (pending l)((t, u) \<mapsto> oper)"
    note e = this
    show ?thesis
    proof (cases "pending l (t, createRowUniqueID pk)")
      case None
      then show ?thesis by (simp add: Insert_def Some e implements_defs)
    next
      case q: (Some q)
      then show ?thesis
        by (cases "op_type q") (simp_all add: Insert_def Some e implements_defs)
    qed
  qed
qed

lemma op_type_same: "op_type q = ty \<Longrightarrow> q\<lparr>op_type := ty, op_data := d\<rparr> = q\<lparr>op_data := d\<rparr>"
  by (cases q) simp

lemma Upsert_refines:
  assumes "\<And>tb. known l t = Some tb \<Longrightarrow> primaryColumns tb \<noteq> []"
  shows "implements (spec_of l t (CUpsert pk d r)) l (Upsert l t pk d r)"
proof (cases "map_of (tables l) t")
  case None
  then show ?thesis by (simp add: Upsert_def implements_defs)
next
  case (Some tb)
  then have ne: "primaryColumns tb \<noteq> []" using assms by (simp add: known_def)
  show ?thesis
  proof (rule tableEntry_obtain [of l t])
    fix e l1
    assume e: "tableEntry l t = (e, l1)" "\<And>u. map_of e u = pending l (t, u)"
      "pending l1 = pending l" "tables l1 = tables l" "dialect l1 = dialect l"
      "batchOrdinal l1 = batchOrdinal l"
      "\<And>u oper l'. pending l' = pending l \<Longrightarrow>
         pending (setEntry t e u oper l') = (pending l)((t, u) \<mapsto> oper)"
    show ?thesis
    proof (cases "pending l (t, createRowUniqueID pk)")
      case None
      then show ?thesis by (simp add: Upsert_def Some ne e implements_defs)
    next
      case q: (Some q)
      then show ?thesis
        by (cases "op_type q")
           (simp_all add: Upsert_def Some ne e implements_defs mergeOperation_def mergeData_def op_type_same)
    qed
  qed
qed

lemma Update_refines:
  assumes "\<And>tb. known l t = Some tb \<Longrightarrow> primaryColumns tb \<noteq> []"
  shows "implements (spec_of l t (CUpdate pk d r)) l (Update l t pk d r)"
proof (cases "map_of (tables l) t")
  case None
  then show ?thesis by (simp add: Update_def implements_defs)
next
  case (Some tb)
  then have ne: "primaryColumns tb \<noteq> []" using assms by (simp add: known_def)
  show ?thesis
  proof (rule tableEntry_obtain [of l t])
    fix e l1
    assume e: "tableEntry l t = (e, l1)" "\<And>u. map_of e u = pending l (t, u)"
      "pending l1 = pending l" "tables l1 = tables l" "dialect l1 = dialect l"
      "batchOrdinal l1 = batchOrdinal l"
      "\<And>u oper l'. pending l' = pending l \<Longrightarrow>
         pending (setEntry t e u oper l') = (pending l)((t, u) \<mapsto> oper)"
    show ?thesis
    proof (cases "pending l (t, createRowUniqueID pk)")
      case None
      then show ?thesis by (simp add: Update_def Some ne e implements_defs)
    next
      case q: (Some q)
      then show ?thesis
        by (cases "op_type q")
           (simp_all add: Update_def Some ne e implements_defs mergeOperation_def mergeData_def)
    qed
  qed
qed

lemma Delete_refines:
  assumes "\<And>tb. known l t = Some tb \<Longrightarrow> primaryColumns tb \<noteq> []"
  shows "implements (spec_of l t (CDelete pk r)) l (Delete l t pk r)"
proof (cases "map_of (tables l) t")
  case None
  then show ?thesis by (simp add: Delete_def implements_defs)
next
  case (Some tb)
  then have ne: "primaryColumns tb \<noteq> []" using assms by (simp add: known_def)
  show ?thesis
  proof (rule tableEntry_obtain [of l t])
    fix e l1
    assume e: "tableEntry l t = (e, l1)" "\<And>u. map_of e u = pending l (t, u)"
      "pending l1 = pending l" "tables l1 = tables l" "dialect l1 = dialect l"
      "batchOrdinal l1 = batchOrdinal l"
      "\<And>u oper l'. pending l' = pending l \<Longrightarrow>
         pending (setEntry t e u oper l') = (pending l)((t, u) \<mapsto> oper)"
    show ?thesis
      by (cases "pending l (t, createRowUniqueID pk)")
         (simp_all add: Delete_def Some ne e implements_defs)
  qed
qed

lemma apply_change_refines:
  assumes "\<And>tb. known l t = Some tb \<Longrightarrow> primaryColumns tb \<noteq> []"
  shows "implements (spec_of l t c) l (apply_change l t c)"
  using Insert_refines Upsert_refines [OF assms] Update_refines [OF assms] Delete_refines [OF assms]
  by (cases c) simp_all

section \<open>The invariant of the batch\<close>

text \<open>The maps have no key twice and only known tables have an entry.\<close>

definition entries_ok :: "Loader \<Rightarrow> bool" where
  "entries_ok l \<longleftrightarrow> wf_map (entries l)
     \<and> (\<forall>(t, e) \<in> set (entries l). wf_map e \<and> known l t \<noteq> None)"

text \<open>Every pending operation is stored under the identifier of its row and the name of its
  table, its data is a map, and its ordinal is below the counter and its own.\<close>

definition op_ok :: "Loader \<Rightarrow> string \<times> string \<Rightarrow> Operation \<Rightarrow> bool" where
  "op_ok l k oper \<longleftrightarrow> known l (fst k) = Some (op_table oper)
     \<and> snd k = createRowUniqueID (op_primaryKey oper) \<and> wf_map (op_data oper)
     \<and> unat (op_ordinal oper) < unat (batchOrdinal l)
     \<and> (OnlyInserts (dialect l) \<longrightarrow> op_type oper = OperationTypeInsert)"

definition pending_ok :: "Loader \<Rightarrow> bool" where
  "pending_ok l \<longleftrightarrow> (\<forall>k oper. pending l k = Some oper \<longrightarrow> op_ok l k oper)
     \<and> (\<forall>k k' oper oper'. pending l k = Some oper \<longrightarrow> pending l k' = Some oper' \<longrightarrow>
          op_ordinal oper = op_ordinal oper' \<longrightarrow> k = k')"

definition tables_ok :: "Loader \<Rightarrow> bool" where
  "tables_ok l \<longleftrightarrow> (\<forall>t tb. known l t = Some tb \<longrightarrow> wf_table tb)"

definition batch_ok :: "Loader \<Rightarrow> bool" where
  "batch_ok l \<longleftrightarrow> entries_ok l \<and> pending_ok l \<and> tables_ok l"

fun change_wf :: "Change \<Rightarrow> bool" where
  "change_wf (CInsert pk d _) = (wf_map pk \<and> wf_map d)"
| "change_wf (CUpsert pk d _) = (wf_map pk \<and> wf_map d)"
| "change_wf (CUpdate pk d _) = (wf_map pk \<and> wf_map d)"
| "change_wf (CDelete pk _) = wf_map pk"

lemma wf_map_addPrimaryKeyData [simp, intro]: "wf_map d \<Longrightarrow> wf_map (addPrimaryKeyData cols pk d)"
  unfolding addPrimaryKeyData_def by (induction cols arbitrary: d) (auto split: option.split)

lemma tables_ok_primary: "tables_ok l \<Longrightarrow> known l t = Some tb \<Longrightarrow> primaryColumns tb \<noteq> []"
  by (auto simp: tables_ok_def wf_table_def)

subsection \<open>The entries\<close>

lemma entries_ok_cong: "entries l' = entries l \<Longrightarrow> tables l' = tables l \<Longrightarrow> entries_ok l' = entries_ok l"
  by (simp add: entries_ok_def known_def)

lemma entries_ok_fields [simp]:
  "entries_ok (l\<lparr>entriesCount := n\<rparr>) = entries_ok l" "entries_ok (l\<lparr>batchOrdinal := b\<rparr>) = entries_ok l"
  by (simp_all add: entries_ok_def known_def)

lemma entries_ok_set:
  "entries_ok l \<Longrightarrow> wf_map e \<Longrightarrow> known l t \<noteq> None \<Longrightarrow> entries_ok (l\<lparr>entries := om_set t e (entries l)\<rparr>)"
  by (auto simp: entries_ok_def set_om_set known_def)

lemma entries_ok_tableEntry:
  assumes "entries_ok l" "known l t \<noteq> None"
  shows "entries_ok (snd (tableEntry l t))" "wf_map (fst (tableEntry l t))"
  using assms entries_ok_set [of l NewOrderedMap t] map_of_SomeD [of "entries l" t]
  by (auto simp: tableEntry_def NewOrderedMap_def entries_ok_def split: option.split)

lemma entries_ok_setEntry:
  "entries_ok l \<Longrightarrow> wf_map e \<Longrightarrow> known l t \<noteq> None \<Longrightarrow> entries_ok (setEntry t e u oper l)"
  by (simp add: setEntry_def entries_ok_set)

lemma entries_ok_change:
  assumes "entries_ok l"
  shows "entries_ok (snd (apply_change l t c))"
proof (cases "map_of (tables l) t")
  case None
  with assms show ?thesis by (cases c) (simp_all add: Insert_def Upsert_def Update_def Delete_def Let_def)
next
  case (Some tb)
  obtain e l1 where e: "tableEntry l t = (e, l1)" by fastforce
  have k: "known l t \<noteq> None" using Some by (simp add: known_def)
  have wf: "wf_map e" "entries_ok l1" "tables l1 = tables l"
    using entries_ok_tableEntry [OF assms k] tableEntry_fields(1) [of l t] by (simp_all add: e)
  have set: "entries_ok (setEntry t e u oper l')" if "entries l' = entries l1" "tables l' = tables l" for u oper l'
    using that wf k entries_ok_cong [of l' l1] by (simp add: entries_ok_setEntry known_def)
  show ?thesis
    by (cases c)
       (simp_all add: Insert_def Upsert_def Update_def Delete_def Let_def Some e NextBatchOrdinal_def
         assms wf set split: option.split OperationType.split)
qed

subsection \<open>The operations\<close>

lemma merged_op_fields [simp]:
  "op_table (merged_op p c) = op_table p" "op_primaryKey (merged_op p c) = op_primaryKey p"
  "op_ordinal (merged_op p c) = op_ordinal p" "op_reversibleBlockNum (merged_op p c) = op_reversibleBlockNum p"
  by (cases c; simp add: merged_op_def)+

lemma fresh_op_fields [simp]:
  "op_table (fresh_op tb n c) = tb" "op_primaryKey (fresh_op tb n c) = change_key c"
  "op_ordinal (fresh_op tb n c) = n"
  by (cases c; simp add: fresh_op_def newInsertOperation_def newUpsertOperation_def
      newUpdateOperation_def newDeleteOperation_def)+

lemma fresh_op_wf: "change_wf c \<Longrightarrow> wf_map (op_data (fresh_op tb n c))"
  by (cases c) (simp_all add: fresh_op_def newInsertOperation_def newUpsertOperation_def
      newUpdateOperation_def newDeleteOperation_def wf_map_addPrimaryKeyData)

lemma merged_op_wf: "wf_map (op_data p) \<Longrightarrow> wf_map (op_data (merged_op p c))"
  by (cases c) (simp_all add: merged_op_def)

lemma fresh_op_insert_only:
  "accepts dup True p c \<Longrightarrow> op_type (fresh_op tb n c) = OperationTypeInsert \<and> \<not> merges p c"
  by (cases c) (simp_all add: accepts_def fresh_op_def newInsertOperation_def merges_def)

lemma unat_Suc_lt:
  fixes n :: u64
  assumes "unat n < 2 ^ 64 - 1"
  shows "unat (n + 1) = unat n + 1"
proof -
  have "n + 1 \<noteq> 0"
  proof
    assume "n + 1 = 0"
    then have "n = - 1" by (simp add: eq_neg_iff_add_eq_0)
    then have "unat n = 2 ^ 64 - 1" by (simp add: unsigned_minus_1_eq_mask mask_eq_exp_minus_1)
    with assms show False by simp
  qed
  then show ?thesis using unatSuc [of n] by (simp add: add.commute)
qed

lemma pending_ok_step:
  assumes ok: "pending_ok l" and wf: "change_wf c" and room: "unat (batchOrdinal l) < 2 ^ 64 - 1"
    and st: "spec_of l t c = Some a" and l': "abs_loader l' = a" "tables l' = tables l" "dialect l' = dialect l"
  shows "pending_ok l'"
proof -
  let ?k = "(t, createRowUniqueID (change_key c))"
  obtain tb where tb: "known l t = Some tb"
    and acc: "accepts (AllowPkDuplicates (dialect l)) (OnlyInserts (dialect l)) (pending l ?k) c"
    using st by (auto simp: spec_change_def Let_def abs_loader_def split: option.splits if_splits)
  let ?o = "next_op tb (batchOrdinal l) (pending l ?k) c"
  have p': "pending l' = (pending l)(?k \<mapsto> ?o)"
    and n': "batchOrdinal l' = (if merges (pending l ?k) c then batchOrdinal l else batchOrdinal l + 1)"
    using st l'(1) tb acc by (auto simp: spec_change_def Let_def abs_loader_def)
  have le: "unat (batchOrdinal l) \<le> unat (batchOrdinal l')"
    using n' unat_Suc_lt [OF room] by simp
  have old: "op_ok l' k oper" if "pending l k = Some oper" for k oper
  proof -
    have "op_ok l k oper" using ok that unfolding pending_ok_def by blast
    then show ?thesis using le l'(2,3) by (simp add: op_ok_def known_def)
  qed
  have new: "op_ok l' ?k ?o"
  proof (cases "merges (pending l ?k) c")
    case True
    then obtain p where p: "pending l ?k = Some p" by (auto simp: merges_def)
    then have "op_ok l' ?k p" by (rule old)
    moreover have "OnlyInserts (dialect l) \<longrightarrow> False"
      using acc True fresh_op_insert_only by (cases "OnlyInserts (dialect l)") auto
    ultimately show ?thesis using True p l'(3) by (auto simp: next_op_def op_ok_def merged_op_wf)
  next
    case False
    then have "unat (batchOrdinal l) < unat (batchOrdinal l')" using n' unat_Suc_lt [OF room] by simp
    then show ?thesis using False tb wf acc fresh_op_insert_only [of _ "pending l ?k" c tb "batchOrdinal l"] l'
      by (auto simp: next_op_def op_ok_def fresh_op_wf known_def)
  qed
  have uniq: "k = ?k" if "pending l k = Some oper" "op_ordinal oper = op_ordinal ?o" for k oper
  proof (cases "merges (pending l ?k) c")
    case True
    then obtain p where p: "pending l ?k = Some p" by (auto simp: merges_def)
    then have "op_ordinal oper = op_ordinal p" using that(2) True by (simp add: next_op_def)
    then show ?thesis using ok that(1) p unfolding pending_ok_def by blast
  next
    case False
    then have "op_ordinal oper = batchOrdinal l" using that(2) by (simp add: next_op_def)
    moreover have "op_ok l k oper" using ok that(1) unfolding pending_ok_def by blast
    then have "unat (op_ordinal oper) < unat (batchOrdinal l)" by (simp add: op_ok_def)
    ultimately show ?thesis by simp
  qed
  show ?thesis unfolding pending_ok_def p'
  proof (intro conjI allI impI)
    fix k oper assume "((pending l)(?k \<mapsto> ?o)) k = Some oper"
    then show "op_ok l' k oper" using old new by (auto split: if_splits)
  next
    fix k k' oper oper'
    assume "((pending l)(?k \<mapsto> ?o)) k = Some oper" "((pending l)(?k \<mapsto> ?o)) k' = Some oper'"
      and eq: "op_ordinal oper = op_ordinal oper'"
    moreover have "k = k'" if "pending l k = Some oper" "pending l k' = Some oper'"
      using ok that eq unfolding pending_ok_def by blast
    ultimately show "k = k'" using uniq [of k oper] uniq [of k' oper'] by (auto split: if_splits)
  qed
qed

lemma batch_ok_change:
  assumes "batch_ok l" "change_wf c" "unat (batchOrdinal l) < 2 ^ 64 - 1"
  shows "batch_ok (snd (apply_change l t c))"
proof -
  have tok: "tables_ok l" using assms(1) by (simp add: batch_ok_def)
  then have "\<And>tb. known l t = Some tb \<Longrightarrow> primaryColumns tb \<noteq> []" by (rule tables_ok_primary)
  then have impl: "implements (spec_of l t c) l (apply_change l t c)" by (rule apply_change_refines)
  let ?l' = "snd (apply_change l t c)"
  have fields: "tables ?l' = tables l" "dialect ?l' = dialect l" using impl by (simp_all add: implements_def)
  have "pending_ok ?l'"
  proof (cases "spec_of l t c")
    case None
    then have "pending ?l' = pending l" "batchOrdinal ?l' = batchOrdinal l"
      using impl by (simp_all add: implements_def abs_loader_def)
    then show ?thesis using assms(1) fields by (simp add: batch_ok_def pending_ok_def op_ok_def known_def)
  next
    case (Some a)
    then show ?thesis using assms pending_ok_step [OF _ assms(2,3) Some _ fields] impl
      by (simp add: batch_ok_def implements_def)
  qed
  then show ?thesis using assms(1) fields entries_ok_change [of l t c]
    by (simp add: batch_ok_def tables_ok_def known_def)
qed

text \<open>Every loader reached from one with an empty batch by changes, accepted or refused, and by
  emptying the batch\<close>

inductive batch_reach :: "Loader \<Rightarrow> Loader \<Rightarrow> bool" for l0 where
  batch_start: "batch_reach l0 l0"
| batch_change: "batch_reach l0 l \<Longrightarrow> change_wf c \<Longrightarrow> unat (batchOrdinal l) < 2 ^ 64 - 1 \<Longrightarrow>
    batch_reach l0 (snd (apply_change l t c))"
| batch_reset: "batch_reach l0 l \<Longrightarrow> batch_reach l0 (reset l)"

inductive_cases batch_reachE: "batch_reach l0 l"

section \<open>The operations of a batch in one list\<close>

text \<open>The rows with a pending operation, by table and then by first change\<close>

definition entry_rows :: "string \<times> Operation omap \<Rightarrow> ((string \<times> string) \<times> Operation) list" where
  "entry_rows te = map (\<lambda>uo. ((fst te, fst uo), snd uo)) (snd te)"

definition rows :: "Loader \<Rightarrow> ((string \<times> string) \<times> Operation) list" where
  "rows l = concat (map entry_rows (entries l))"

lemma entry_rows_keys: "map fst (entry_rows te) = map (Pair (fst te)) (map fst (snd te))"
  by (simp add: entry_rows_def)

lemma rows_keys_distinct:
  assumes "wf_map es" "\<forall>te \<in> set es. wf_map (snd te)"
  shows "distinct (map fst (concat (map entry_rows es)))"
  using assms
proof (induction es)
  case (Cons te es)
  let ?A = "map fst (entry_rows te)" and ?B = "map fst (concat (map entry_rows es))"
  have "distinct ?A"
    using Cons.prems unfolding entry_rows_keys distinct_map [of "Pair (fst te)"]
    by (simp add: wf_map_def inj_on_def)
  moreover have "distinct ?B" using Cons by (simp add: wf_map_def)
  moreover have "set ?A \<inter> set ?B = {}"
  proof (rule ccontr)
    assume "set ?A \<inter> set ?B \<noteq> {}"
    then obtain k where a: "k \<in> set ?A" and b: "k \<in> set ?B" by blast
    from a have "fst k = fst te" by (auto simp: entry_rows_def)
    moreover from b obtain ue where "ue \<in> set es" "fst k = fst ue" by (auto simp: entry_rows_def)
    ultimately have "fst te \<in> fst ` set es" by (metis imageI)
    then show False using Cons.prems(1) by (simp add: wf_map_def)
  qed
  ultimately show ?case by (simp only: list.map concat.simps map_append distinct_append)
qed simp

lemma in_rows:
  assumes "entries_ok l"
  shows "(k, oper) \<in> set (rows l) \<longleftrightarrow> pending l k = Some oper"
proof -
  obtain t u where k: "k = (t, u)" by fastforce
  have wf: "wf_map (entries l)" and we: "\<And>e. (t, e) \<in> set (entries l) \<Longrightarrow> wf_map e"
    using assms by (auto simp: entries_ok_def)
  have "(k, oper) \<in> set (rows l) \<longleftrightarrow> (\<exists>e. (t, e) \<in> set (entries l) \<and> (u, oper) \<in> set e)"
    by (force simp: rows_def entry_rows_def k)
  also have "\<dots> \<longleftrightarrow> (\<exists>e. map_of (entries l) t = Some e \<and> map_of e u = Some oper)"
  proof -
    have "(u, oper) \<in> set e \<longleftrightarrow> map_of e u = Some oper" if "(t, e) \<in> set (entries l)" for e
      using we [OF that] by (simp add: wf_map_def)
    moreover have "(t, e) \<in> set (entries l) \<longleftrightarrow> map_of (entries l) t = Some e" for e
      using wf by (simp add: wf_map_def)
    ultimately show ?thesis by blast
  qed
  also have "\<dots> \<longleftrightarrow> pending l k = Some oper"
    by (auto simp: pending_def k split: option.splits)
  finally show ?thesis .
qed

lemma distinct_rows: "entries_ok l \<Longrightarrow> distinct (map fst (rows l))"
  unfolding rows_def by (rule rows_keys_distinct) (auto simp: entries_ok_def)

lemma distinct_ordinals:
  assumes "batch_ok l"
  shows "distinct (map op_ordinal (map snd (rows l)))"
proof -
  have ok: "entries_ok l" "pending_ok l" using assms by (simp_all add: batch_ok_def)
  have "inj_on (\<lambda>p. op_ordinal (snd p)) (set (rows l))"
  proof (rule inj_onI)
    fix p q assume p: "p \<in> set (rows l)" and q: "q \<in> set (rows l)"
      and eq: "op_ordinal (snd p) = op_ordinal (snd q)"
    have "pending l (fst p) = Some (snd p)" "pending l (fst q) = Some (snd q)"
      using p q in_rows [OF ok(1)] by (metis prod.collapse)+
    moreover from this have "fst p = fst q" using ok(2) eq unfolding pending_ok_def by blast
    ultimately show "p = q" by (simp add: prod_eq_iff)
  qed
  moreover have "distinct (rows l)" using distinct_rows [OF ok(1)] by (simp add: distinct_map)
  ultimately show ?thesis by (simp add: distinct_map comp_def)
qed

section \<open>Counting and resetting\<close>

lemma fold_length: "fold (\<lambda>(_, ops) n. n + length ops) es n = n + length (concat (map snd es))"
  by (induction es arbitrary: n) auto

lemma FlushNeeded_rows: "FlushNeeded l \<longleftrightarrow> int (length (rows l)) > batchRowFlushInterval l"
proof -
  have "length (concat (map snd es)) = length (concat (map entry_rows es))"
    for es :: "Operation omap omap" by (induction es) (auto simp: entry_rows_def)
  then show ?thesis unfolding FlushNeeded_def rows_def fold_length by simp
qed

lemma reset_entries: "entries (reset l) = om.set_all NewOrderedMap (entries l)"
  by (simp add: reset_def om.set_all_def)

lemma reset_fields [simp]:
  "batchOrdinal (reset l) = 0" "tables (reset l) = tables l" "dialect (reset l) = dialect l"
  "entriesCount (reset l) = entriesCount l"
  by (simp_all add: reset_def)

lemma pending_reset: "entries_ok l \<Longrightarrow> pending (reset l) k = None"
  unfolding pending_def reset_entries entries_ok_def
  by (cases k) (auto simp: om.set_all_laws NewOrderedMap_def split: option.splits)

lemma keys_reset: "entries_ok l \<Longrightarrow> keys (entries (reset l)) = keys (entries l)"
  unfolding reset_entries entries_ok_def using om.set_all_laws(2) [of "entries l" NewOrderedMap]
  by (simp add: om.order_def keys_def)

lemma batch_ok_reset:
  assumes "batch_ok l"
  shows "batch_ok (reset l)"
proof -
  have ok: "entries_ok l" using assms by (simp add: batch_ok_def)
  then have wf: "wf_map (entries l)" by (simp add: entries_ok_def)
  have wf': "wf_map (entries (reset l))" unfolding reset_entries by (rule om.set_all_laws(1) [OF wf])
  have "wf_map e \<and> known (reset l) t \<noteq> None" if "(t, e) \<in> set (entries (reset l))" for t e
  proof -
    have "map_of (entries (reset l)) t = Some e" using that wf' by (simp add: wf_map_def)
    then have "e = NewOrderedMap" "map_of (entries l) t \<noteq> None"
      using om.set_all_laws(3) [OF wf, of NewOrderedMap t] unfolding reset_entries
      by (auto split: if_splits)
    then show ?thesis using ok by (auto simp: entries_ok_def known_def NewOrderedMap_def dest: map_of_SomeD)
  qed
  with wf' have "entries_ok (reset l)" by (auto simp: entries_ok_def)
  moreover have "pending_ok (reset l)" using pending_reset [OF ok] by (auto simp: pending_ok_def)
  moreover have "tables_ok (reset l)" using assms by (simp add: batch_ok_def tables_ok_def known_def)
  ultimately show ?thesis by (simp add: batch_ok_def)
qed

lemma batch_ok_start: "entries l = [] \<Longrightarrow> tables_ok l \<Longrightarrow> batch_ok l"
  by (simp add: batch_ok_def entries_ok_def pending_ok_def pending_def wf_map_def)

lemma batch_reach_ok: "batch_reach l0 l \<Longrightarrow> batch_ok l0 \<Longrightarrow> batch_ok l"
  by (induction rule: batch_reach.induct) (simp_all add: batch_ok_change batch_ok_reset)

section \<open>What an operation does to a row\<close>

type_synonym row = "string \<rightharpoonup> string"

text \<open>The columns of an operation on a row that is not there, or of one that is\<close>

definition row_base :: "row option \<Rightarrow> row" where
  "row_base r = (case r of Some m \<Rightarrow> m | None \<Rightarrow> Map.empty)"

lemma row_base_simps [simp]: "row_base None = Map.empty" "row_base (Some m) = m"
  by (simp_all add: row_base_def)

text \<open>The statements that the databases refuse whatever the row is: a statement without columns or without a key does not
  parse, and the row that an \<open>INSERT\<close> proposes, the one of an upsert included, must have the columns of the key: they are not
  null, which is checked before a conflict is looked for. (A column of the key with a default value is not described, nor are
  constraints on other columns.)\<close>

definition lacks_key :: "Operation \<Rightarrow> bool" where
  "lacks_key oper \<longleftrightarrow> (\<exists>col \<in> set (primaryColumns (op_table oper)). map_of (op_data oper) (cname col) = None)"

definition refused :: "Operation \<Rightarrow> bool" where
  "refused oper =
     (case op_type oper of
        OperationTypeInsert \<Rightarrow> op_data oper = [] \<or> lacks_key oper
      | OperationTypeUpsert \<Rightarrow> op_data oper = [] \<or> op_primaryKey oper = [] \<or> lacks_key oper
      | OperationTypeUpdate \<Rightarrow> op_data oper = [] \<or> op_primaryKey oper = []
      | OperationTypeDelete \<Rightarrow> op_primaryKey oper = [])"

text \<open>The effect of the statement of an operation on the row of its key, as the databases
  document it; \<open>None\<close> when the statement is refused, as an insert of a row that exists is. An update of a row
  that does not exist changes nothing.\<close>

definition row_effect :: "Operation \<Rightarrow> row option \<Rightarrow> row option option" where
  "row_effect oper r =
     (if refused oper then None
      else case op_type oper of
        OperationTypeInsert \<Rightarrow> (case r of None \<Rightarrow> Some (Some (map_of (op_data oper))) | Some m \<Rightarrow> None)
      | OperationTypeUpsert \<Rightarrow> Some (Some (row_base r ++ map_of (op_data oper)))
      | OperationTypeUpdate \<Rightarrow> Some (map_option (\<lambda>m. m ++ map_of (op_data oper)) r)
      | OperationTypeDelete \<Rightarrow> Some None)"

fun change_data :: "Change \<Rightarrow> string gomap" where
  "change_data (CInsert _ d _) = d"
| "change_data (CUpsert _ d _) = d"
| "change_data (CUpdate _ d _) = d"
| "change_data (CDelete _ _) = []"

text \<open>The data of a change does not move the row to another key.\<close>

definition keeps_key :: "TableInfo \<Rightarrow> Change \<Rightarrow> bool" where
  "keeps_key tb c \<longleftrightarrow> (\<forall>col \<in> set (primaryColumns tb).
     map_of (change_data c) (cname col) = None
     \<or> map_of (change_data c) (cname col) = map_of (change_key c) (cname col))"

lemma map_of_addPrimaryKeyData:
  "map_of (addPrimaryKeyData cols pk d) k =
     (if k \<in> cname ` set cols \<and> map_of pk k \<noteq> None then map_of pk k else map_of d k)"
  unfolding addPrimaryKeyData_def
proof (induction cols arbitrary: d)
  case (Cons c cols)
  show ?case unfolding fold_Cons comp_apply Cons.IH
    by (auto simp: update_conv' split: option.split)
qed simp

lemma map_add_keeps:
  assumes "\<And>k v. b k = Some v \<Longrightarrow> b' k = Some v" "\<And>k v. b' k = Some v \<Longrightarrow> b k = None \<Longrightarrow> a k = Some v"
  shows "a ++ b' = a ++ b"
proof
  fix k
  show "(a ++ b') k = (a ++ b) k"
    using assms(1) [of k] assms(2) [of k] by (cases "b k"; cases "b' k") (auto simp: map_add_def)
qed

lemma copyInto_Nil: "wf_map d \<Longrightarrow> copyInto m d = [] \<longleftrightarrow> m = [] \<and> d = []"
  using map_of_copyInto_wf [of d m] by (metis map_add_None map_of_eq_empty_iff)

end
