(* ===== verification/GoTime.thy ===== *)
theory GoTime
  imports Strconv
begin

text \<open>
  The part of package \<open>time\<close> the dialects use to write instants: the civil date of a number of
  days since 1970-01-01 (proleptic Gregorian calendar), the layouts \<open>time.RFC3339\<close> and
  \<open>2006-01-02 15:04:05\<close>, and \<open>FormatRisingWave\<close> of \<open>src/internal/timefmt\<close>. An instant is a
  number of seconds since the epoch within the range of \<open>time.Time\<close>, with nanoseconds.
\<close>

definition civil :: "int \<Rightarrow> int \<times> int \<times> int" where
  "civil days =
     (let z = days + 719468; era = z div 146097; doe = z mod 146097;
          yoe = (doe - doe div 1460 + doe div 36524 - doe div 146096) div 365;
          doy = doe - (365 * yoe + yoe div 4 - yoe div 100);
          mp = (5 * doy + 2) div 153;
          d = doy - (153 * mp + 2) div 5 + 1;
          m = (if mp < 10 then mp + 3 else mp - 9)
      in (yoe + era * 400 + (if m \<le> 2 then 1 else 0), m, d))"

text \<open>The days of a civil date, the inverse\<close>

definition days_of :: "int \<times> int \<times> int \<Rightarrow> int" where
  "days_of ymd =
     (case ymd of (y0, m, d) \<Rightarrow>
        let y = (if m \<le> 2 then y0 - 1 else y0); era = y div 400; yoe = y mod 400;
            doy = (153 * (if m > 2 then m - 3 else m + 9) + 2) div 5 + d - 1;
            doe = yoe * 365 + yoe div 4 - yoe div 100 + doy
        in era * 146097 + doe - 719468)"

text \<open>A number padded with zeros to a width, as in \<open>%02d\<close>\<close>

definition padded :: "nat \<Rightarrow> int \<Rightarrow> string" where
  "padded w n = (let s = dec (nat \<bar>n\<bar>) in
     (if n < 0 then ''-'' else []) @ replicate (w - length s) (CHR ''0'') @ s)"

definition format_date :: "int \<Rightarrow> string" where
  "format_date days = (case civil days of (y, m, d) \<Rightarrow> padded 4 y @ ''-'' @ padded 2 m @ ''-'' @ padded 2 d)"

definition format_clock :: "int \<Rightarrow> string" where
  "format_clock sod = padded 2 (sod div 3600) @ '':'' @ padded 2 (sod div 60 mod 60) @ '':'' @ padded 2 (sod mod 60)"

text \<open>\<open>time.Unix(i, 0).Format(time.RFC3339)\<close> in a zone that is \<open>off\<close> seconds east of UTC at
  that instant\<close>

definition format_RFC3339 :: "int \<Rightarrow> int \<Rightarrow> string" where
  "format_RFC3339 off i =
     (let t = i + off; zone = (if off < 0 then - ((- off) div 60) else off div 60); az = \<bar>zone\<bar> in
      format_date (t div 86400) @ ''T'' @ format_clock (t mod 86400) @
      (if off = 0 then ''Z''
       else (if zone < 0 then ''-'' else ''+'') @ padded 2 (az div 60) @ '':'' @ padded 2 (az mod 60)))"

definition format_RisingWave :: "int \<Rightarrow> int \<Rightarrow> string" where
  "format_RisingWave i ns =
     format_date (i div 86400) @ '' '' @ format_clock (i mod 86400)
     @ (if ns \<noteq> 0 then ''.'' @ padded 6 (ns div 1000) else []) @ ''+00:00''"

section \<open>Parsing instants\<close>

text \<open>\<open>time.Parse\<close> for the layouts the source uses: a date, a separator, a clock with an optional
  fraction of a second, and a zone. \<open>time.RFC3339\<close> and \<open>time.RFC3339Nano\<close> accept the same texts
  (a fraction is read after the seconds under both), with \<open>T\<close> as separator and \<open>Z\<close> allowed as zone;
  the layouts of RisingWave have a space and need a numeric zone. As in Go, the hour may have a
  single digit, the fraction may start with a comma and only its first nine digits count, the
  offset may be up to 24:60, and nothing may follow.\<close>

definition is_dig :: "char \<Rightarrow> bool" where
  "is_dig c \<longleftrightarrow> CHR ''0'' \<le> c \<and> c \<le> CHR ''9''"

definition dig :: "char \<Rightarrow> int" where
  "dig c = int (of_char c) - 48"

text \<open>\<open>getnum\<close>: two digits, or one when that is allowed\<close>

fun getnum :: "bool \<Rightarrow> string \<Rightarrow> (int \<times> string) option" where
  "getnum fixed (a # b # s) =
     (if is_dig a then
        (if is_dig b then Some (dig a * 10 + dig b, s) else if fixed then None else Some (dig a, b # s))
      else None)"
| "getnum fixed [a] = (if is_dig a \<and> \<not> fixed then Some (dig a, []) else None)"
| "getnum fixed [] = None"

fun get_year :: "string \<Rightarrow> (int \<times> string) option" where
  "get_year (a # b # c # d # s) =
     (if is_dig a \<and> is_dig b \<and> is_dig c \<and> is_dig d
      then Some (dig a * 1000 + dig b * 100 + dig c * 10 + dig d, s) else None)"
| "get_year _ = None"

definition skip_char :: "char \<Rightarrow> string \<Rightarrow> string option" where
  "skip_char q s = (case s of c # t \<Rightarrow> if c = q then Some t else None | [] \<Rightarrow> None)"

text \<open>A space of the layout stands for any spaces, also for none at the end of the text.\<close>

definition skip_sep :: "char \<Rightarrow> string \<Rightarrow> string option" where
  "skip_sep q s = (if q = CHR '' '' then (case s of [] \<Rightarrow> Some [] | c # _ \<Rightarrow>
     if c = CHR '' '' then Some (dropWhile (\<lambda>c. c = CHR '' '') s) else None) else skip_char q s)"

definition in_range :: "int \<Rightarrow> int \<Rightarrow> int \<Rightarrow> bool" where
  "in_range lo hi n \<longleftrightarrow> lo \<le> n \<and> n \<le> hi"

text \<open>The fraction of a second in nanoseconds\<close>

definition fraction :: "string \<Rightarrow> int \<times> string" where
  "fraction s =
     (case s of
        p # d # t \<Rightarrow>
          if (p = CHR ''.'' \<or> p = CHR '','') \<and> is_dig d
          then (let ds = takeWhile is_dig (d # t); ds9 = take 9 ds in
                (fold (\<lambda>c n. n * 10 + dig c) ds9 0 * 10 ^ (9 - length ds9), dropWhile is_dig (d # t)))
          else (0, s)
      | _ \<Rightarrow> (0, s))"

definition zone_offset :: "bool \<Rightarrow> string \<Rightarrow> (int \<times> string) option" where
  "zone_offset zulu s =
     (case s of
        [] \<Rightarrow> None
      | sign # t \<Rightarrow>
          if zulu \<and> sign = CHR ''Z'' then Some (0, t)
          else if sign \<noteq> CHR ''+'' \<and> sign \<noteq> CHR ''-'' then None
          else (case getnum True t of
             Some (hh, colon # t2) \<Rightarrow>
               if colon \<noteq> CHR '':'' then None
               else (case getnum True t2 of
                  Some (mm, t3) \<Rightarrow>
                    if hh > 24 \<or> mm > 60 then None
                    else Some ((if sign = CHR ''-'' then - 1 else 1) * (hh * 60 + mm) * 60, t3)
                | None \<Rightarrow> None)
           | _ \<Rightarrow> None))"

definition leap_year :: "int \<Rightarrow> bool" where
  "leap_year y \<longleftrightarrow> y mod 4 = 0 \<and> (y mod 100 \<noteq> 0 \<or> y mod 400 = 0)"

definition days_in :: "int \<Rightarrow> int \<Rightarrow> int" where
  "days_in m y = (if m = 2 then (if leap_year y then 29 else 28) else if m \<in> {4, 6, 9, 11} then 30 else 31)"

definition opt_bind :: "'a option \<Rightarrow> ('a \<Rightarrow> 'b option) \<Rightarrow> 'b option" where
  "opt_bind x f = (case x of None \<Rightarrow> None | Some a \<Rightarrow> f a)"

definition parse_layout :: "char \<Rightarrow> (string \<Rightarrow> (int \<times> string) option) \<Rightarrow> string \<Rightarrow> (int \<times> int) option" where
  "parse_layout sep zone s =
     opt_bind (get_year s) (\<lambda>(y, s).
     opt_bind (skip_char (CHR ''-'') s) (\<lambda>s.
     opt_bind (getnum True s) (\<lambda>(mo, s).
     if \<not> in_range 1 12 mo then None else
     opt_bind (skip_char (CHR ''-'') s) (\<lambda>s.
     opt_bind (getnum True s) (\<lambda>(d, s).
     opt_bind (skip_sep sep s) (\<lambda>s.
     opt_bind (getnum False s) (\<lambda>(h, s).
     if \<not> in_range 0 23 h then None else
     opt_bind (skip_char (CHR '':'') s) (\<lambda>s.
     opt_bind (getnum True s) (\<lambda>(mi, s).
     if \<not> in_range 0 59 mi then None else
     opt_bind (skip_char (CHR '':'') s) (\<lambda>s.
     opt_bind (getnum True s) (\<lambda>(sec, s).
     if \<not> in_range 0 59 sec then None else
     (let (ns, s) = fraction s in
     opt_bind (zone s) (\<lambda>(off, s).
     if s \<noteq> [] \<or> \<not> in_range 1 (days_in mo y) d then None
     else Some (days_of (y, mo, d) * 86400 + h * 3600 + mi * 60 + sec - off, ns))))))))))))))"

definition parse_time :: "char \<Rightarrow> bool \<Rightarrow> string \<Rightarrow> (int \<times> int) option" where
  "parse_time sep zulu = parse_layout sep (zone_offset zulu)"

text \<open>The layout \<open>2006-01-02\<close>: the days since the epoch\<close>

definition parse_date :: "string \<Rightarrow> int option" where
  "parse_date s =
     opt_bind (get_year s) (\<lambda>(y, s).
     opt_bind (skip_char (CHR ''-'') s) (\<lambda>s.
     opt_bind (getnum True s) (\<lambda>(mo, s).
     if \<not> in_range 1 12 mo then None else
     opt_bind (skip_char (CHR ''-'') s) (\<lambda>s.
     opt_bind (getnum True s) (\<lambda>(d, s).
     if s \<noteq> [] \<or> \<not> in_range 1 (days_in mo y) d then None else Some (days_of (y, mo, d)))))))"

definition parse_RFC3339 :: "string \<Rightarrow> (int \<times> int) option" where
  "parse_RFC3339 = parse_time (CHR ''T'') True"

text \<open>\<open>timefmt.ParseTimestamp\<close>: the layouts are tried one after the other.\<close>

definition ParseTimestamp :: "(string \<Rightarrow> string) \<Rightarrow> string \<Rightarrow> (int \<times> int) res" where
  "ParseTimestamp trim value =
     (let trimmed = trim value in
      if trimmed = [] then Inl (Errorf ''parse timestamp: empty input'' [])
      else case parse_RFC3339 trimmed of
        Some ts \<Rightarrow> Inr ts
      | None \<Rightarrow>
          (case parse_time (CHR '' '') False trimmed of
             Some ts \<Rightarrow> Inr ts
           | None \<Rightarrow> Inl (Errorf ''parse timestamp: unsupported layout %q'' [AStr value])))"

end
