(* ===== verification/PgDialect.thy ===== *)
theory PgDialect
  imports Batch GoTime
begin

text \<open>
  The SQL text of the PostgreSQL dialect (\<open>src/db_changes/db/dialect_postgres.go\<close>): the value
  of a column by its type, the clauses of a primary key, the rows of the history table, the
  statement of an operation, and the statement that undoes one row of the history. Where a
  function ranges over a map, the list order is the order of that iteration.
\<close>

section \<open>Names and primary key clauses\<close>

definition dec64 :: "u64 \<Rightarrow> string" where
  "dec64 n = dec (unat n)"

definition historyTable :: "Dialect \<Rightarrow> string \<Rightarrow> string" where
  "historyTable d schema = EscapeIdentifier schema @ ''.'' @ EscapeIdentifier (historyTableName d)"

definition getPrimaryKeyFakeEmptyValues :: "string gomap \<Rightarrow> string" where
  "getPrimaryKeyFakeEmptyValues primaryKey =
     (if length primaryKey = 1 then [CHR 0x27, CHR 0x27] @ '' '' @ EscapeIdentifier (fst (hd primaryKey))
      else joinS '','' (sort (map (\<lambda>kv. [CHR 0x27, CHR 0x27] @ '' '' @ EscapeIdentifier (fst kv)) primaryKey)))"

definition getPrimaryKeyFakeEmptyValuesAssertion :: "string gomap \<Rightarrow> string \<Rightarrow> string" where
  "getPrimaryKeyFakeEmptyValuesAssertion primaryKey escapedTableName =
     (if length primaryKey = 1
      then escapedTableName @ ''.'' @ EscapeIdentifier (fst (hd primaryKey)) @ '' IS NULL''
      else joinS '' AND '' (sort (map (\<lambda>kv. escapedTableName @ ''.'' @ EscapeIdentifier (fst kv) @ '' IS NULL'') primaryKey)))"

definition where_item :: "string \<Rightarrow> string \<times> string \<Rightarrow> string" where
  "where_item escapedTableName kv =
     (if escapedTableName = [] then EscapeIdentifier (fst kv) @ '' = '' @ escapeStringValue (snd kv)
      else escapedTableName @ ''.'' @ EscapeIdentifier (fst kv) @ '' = '' @ escapeStringValue (snd kv))"

definition getPrimaryKeyWhereClause :: "string gomap \<Rightarrow> string \<Rightarrow> string" where
  "getPrimaryKeyWhereClause primaryKey escapedTableName =
     (if length primaryKey = 1 then where_item escapedTableName (hd primaryKey)
      else joinS '' AND '' (sort (map (where_item escapedTableName) primaryKey)))"

section \<open>Column values\<close>

definition integerRegex :: "string \<Rightarrow> bool" where
  "integerRegex s \<longleftrightarrow> s \<noteq> [] \<and> list_all is_digit s"

text \<open>\<open>ParseDatetimeNormalization\<close> of this dialect\<close>

definition pg_ParseDatetimeNormalization :: "string \<Rightarrow> string" where
  "pg_ParseDatetimeNormalization value = escapeStringValue value"

text \<open>\<open>zone\<close> gives the offset of the local time zone at an instant.\<close>

fun normalizeValueType :: "(int \<Rightarrow> int) \<Rightarrow> string \<Rightarrow> RType \<Rightarrow> string res" where
  "normalizeValueType zone value RString = Inr (escapeStringValue (replaceAll [CHR 0x00] [] value))"
| "normalizeValueType zone value (RSlice _) = Inr (escapeStringValue value)"
| "normalizeValueType zone value RBool = Inr ([CHR 0x27] @ value @ [CHR 0x27])"
| "normalizeValueType zone value RTime =
     (if integerRegex value
      then (case Atoi value of
              (i, Some e) \<Rightarrow> Inl (Wrapf ''could not convert %s to int'' [AStr value] e)
            | (i, None) \<Rightarrow> Inr (escapeStringValue (format_RFC3339 (zone i) i)))
      else Inr (pg_ParseDatetimeNormalization value))"
| "normalizeValueType zone value (RStruct n) = Inl (Errorf ''unsupported struct type %s'' [AStr n])"
| "normalizeValueType zone value (RNamed n t) = normalizeValueType zone value t"
| "normalizeValueType zone value _ = Inr value"

definition columnValue :: "(int \<Rightarrow> int) \<Rightarrow> TableInfo \<Rightarrow> string gomap \<Rightarrow> string \<Rightarrow> (string \<times> string) res" where
  "columnValue zone table colValues columnName =
     (case map_of (columnsByName table) columnName of
        None \<Rightarrow> Inl (Errorf ''cannot find column %q for table %q (valid columns are %q)''
                  [AStr columnName, AStr (tidentifier table), AStr (joinS '', '' (keys (columnsByName table)))])
      | Some info \<Rightarrow>
          (case normalizeValueType zone (getS colValues columnName) (scanType info) of
             Inl e \<Rightarrow> Inl (Wrapf ''getting sql value from table %s for column %q raw value %q''
                        [AStr (tidentifier table), AStr columnName, AStr (getS colValues columnName)] e)
           | Inr v \<Rightarrow> Inr (escapedName info, v)))"

text \<open>The escaped columns and their values, by increasing column name\<close>

definition prepareColValues ::
    "(int \<Rightarrow> int) \<Rightarrow> TableInfo \<Rightarrow> string gomap \<Rightarrow> (string list \<times> string list) res" where
  "prepareColValues zone table colValues =
     (if length colValues = 0 then Inr ([], [])
      else (case traverse (columnValue zone table colValues) (sort (keys colValues)) of
              Inl e \<Rightarrow> Inl e
            | Inr cvs \<Rightarrow> Inr (map fst cvs, map snd cvs)))"

section \<open>The history table\<close>

definition saveInsert :: "Dialect \<Rightarrow> string \<Rightarrow> string \<Rightarrow> string gomap \<Rightarrow> u64 \<Rightarrow> string" where
  "saveInsert d schema table primaryKey blockNum =
     ''INSERT INTO '' @ historyTable d schema @ '' (op,table_name,pk,block_num) values (''
     @ escapeStringValue ''I'' @ '','' @ escapeStringValue table @ '',''
     @ escapeStringValue (primaryKeyToJSON primaryKey) @ '','' @ dec64 blockNum @ '');''"

definition saveUpsert :: "Dialect \<Rightarrow> string \<Rightarrow> string \<Rightarrow> string gomap \<Rightarrow> u64 \<Rightarrow> string" where
  "saveUpsert d schema escapedTableName primaryKey blockNum =
     (let schemaAndTable = EscapeIdentifier schema @ ''.'' @ escapedTableName;
          nl = [CHR 0x0A, CHR 0x09, CHR 0x09] in
      nl @ ''WITH t as (select '' @ getPrimaryKeyFakeEmptyValues primaryKey @ '')''
      @ nl @ ''INSERT INTO '' @ historyTable d schema @ '' (op,table_name,pk,prev_value,block_num)''
      @ nl @ ''SELECT CASE WHEN '' @ getPrimaryKeyFakeEmptyValuesAssertion primaryKey escapedTableName
      @ '' THEN '' @ [CHR 0x27] @ ''I'' @ [CHR 0x27] @ '' ELSE '' @ [CHR 0x27] @ ''U'' @ [CHR 0x27] @ '' END AS op, ''
      @ escapeStringValue schemaAndTable @ '', '' @ escapeStringValue (primaryKeyToJSON primaryKey)
      @ '', row_to_json('' @ escapedTableName @ ''),'' @ dec64 blockNum @ '' from t left join ''
      @ EscapeIdentifier schema @ ''.'' @ escapedTableName @ '' on ''
      @ getPrimaryKeyWhereClause primaryKey escapedTableName @ '';'')"

definition saveRow :: "Dialect \<Rightarrow> string \<Rightarrow> string \<Rightarrow> string \<Rightarrow> string gomap \<Rightarrow> u64 \<Rightarrow> string" where
  "saveRow d op schema escapedTableName primaryKey blockNum =
     (let schemaAndTable = EscapeIdentifier schema @ ''.'' @ escapedTableName in
      ''INSERT INTO '' @ historyTable d schema @ '' (op,table_name,pk,prev_value,block_num) SELECT ''
      @ escapeStringValue op @ '','' @ escapeStringValue schemaAndTable @ '',''
      @ escapeStringValue (primaryKeyToJSON primaryKey) @ '',row_to_json('' @ escapedTableName @ ''),''
      @ dec64 blockNum @ '' FROM '' @ EscapeIdentifier schema @ ''.'' @ escapedTableName
      @ '' WHERE '' @ getPrimaryKeyWhereClause primaryKey [] @ '';'')"

definition saveUpdate :: "Dialect \<Rightarrow> string \<Rightarrow> string \<Rightarrow> string gomap \<Rightarrow> u64 \<Rightarrow> string" where
  "saveUpdate d schema escapedTableName primaryKey blockNum =
     saveRow d ''U'' schema escapedTableName primaryKey blockNum"

definition saveDelete :: "Dialect \<Rightarrow> string \<Rightarrow> string \<Rightarrow> string gomap \<Rightarrow> u64 \<Rightarrow> string" where
  "saveDelete d schema escapedTableName primaryKey blockNum =
     saveRow d ''D'' schema escapedTableName primaryKey blockNum"

section \<open>The statement of an operation\<close>

definition has_columns :: "OperationType \<Rightarrow> bool" where
  "has_columns t \<longleftrightarrow> t = OperationTypeInsert \<or> t = OperationTypeUpsert \<or> t = OperationTypeUpdate"

definition prepareStatement :: "Dialect \<Rightarrow> (int \<Rightarrow> int) \<Rightarrow> string \<Rightarrow> Operation \<Rightarrow> string res" where
  "prepareStatement d zone schema oper =
     (let table = op_table oper; ident = tidentifier table; pk = op_primaryKey oper in
      case (if has_columns (op_type oper)
            then wrap_err ''preparing column & values'' [] (prepareColValues zone table (op_data oper))
            else Inr ([], [])) of
        Inl e \<Rightarrow> Inl e
      | Inr (columns, vals) \<Rightarrow>
        if op_type oper \<noteq> OperationTypeInsert \<and> map_of pk [] \<noteq> None
        then Inl (Errorf ''trying to perform %s operation but table %q don't have a primary key set, this is not accepted''
                    [AStr (opType_string (op_type oper)), AStr (tname table)])
        else
        (case op_type oper of
           OperationTypeInsert \<Rightarrow>
             let insertQuery = ''INSERT INTO '' @ ident @ '' ('' @ joinS '','' columns @ '') VALUES (''
                               @ joinS '','' vals @ '');'' in
             (case op_reversibleBlockNum oper of
                Some b \<Rightarrow> Inr (saveInsert d schema ident pk b @ insertQuery)
              | None \<Rightarrow> Inr insertQuery)
         | OperationTypeUpsert \<Rightarrow>
             let updates = map (\<lambda>c. c @ ''=EXCLUDED.'' @ c) columns;
                 insertQuery = ''INSERT INTO '' @ ident @ '' ('' @ joinS '','' columns @ '') VALUES (''
                               @ joinS '','' vals @ '') ON CONFLICT ('' @ joinS '','' (keys pk)
                               @ '') DO UPDATE SET '' @ joinS '', '' updates @ '';'' in
             (case op_reversibleBlockNum oper of
                Some b \<Rightarrow> Inr (saveUpsert d schema (nameEscaped table) pk b @ insertQuery)
              | None \<Rightarrow> Inr insertQuery)
         | OperationTypeUpdate \<Rightarrow>
             let updates = map (\<lambda>(c, v). c @ ''='' @ v) (zip columns vals);
                 updateQuery = ''UPDATE '' @ ident @ '' SET '' @ joinS '', '' updates @ '' WHERE ''
                               @ getPrimaryKeyWhereClause pk [] in
             (case op_reversibleBlockNum oper of
                Some b \<Rightarrow> Inr (saveUpdate d schema (nameEscaped table) pk b @ updateQuery)
              | None \<Rightarrow> Inr updateQuery)
         | OperationTypeDelete \<Rightarrow>
             let deleteQuery = ''DELETE FROM '' @ ident @ '' WHERE '' @ getPrimaryKeyWhereClause pk [] in
             (case op_reversibleBlockNum oper of
                Some b \<Rightarrow> Inr (saveDelete d schema (nameEscaped table) pk b @ deleteQuery)
              | None \<Rightarrow> Inr deleteQuery)))"

section \<open>Undoing a row of the history\<close>

definition sqlColumnNamesFromJSON :: "string \<Rightarrow> string res" where
  "sqlColumnNamesFromJSON s =
     (case unmarshal_any_map s of
        Inl e \<Rightarrow> Inl (Wrapf ''unmarshalling %q into valueMap'' [AStr s] e)
      | Inr valueMap \<Rightarrow> Inr (joinS '','' (sort (map EscapeIdentifier (keys valueMap)))))"

text \<open>The query of \<open>revertOp\<close>: \<open>None\<close> is its panic for an unknown operation letter. The JSON
  function that reads a row back is the one difference between PostgreSQL and RisingWave.\<close>

definition revertQuery ::
    "string \<Rightarrow> string \<Rightarrow> string \<Rightarrow> string \<Rightarrow> string \<Rightarrow> (string res) option" where
  "revertQuery populate op escaped_table_name pk prev_value =
     (case unmarshal_string_map pk of
        Inl e \<Rightarrow> Some (Inl (Wrapf ''revertOp: unmarshalling %q'' [AStr pk] e))
      | Inr pkmap \<Rightarrow>
        if op = ''I'' then
          Some (Inr (''DELETE FROM '' @ escaped_table_name @ '' WHERE ''
                     @ getPrimaryKeyWhereClause pkmap [] @ '';''))
        else if op = ''D'' then
          Some (Inr (''INSERT INTO '' @ escaped_table_name @ '' SELECT * FROM '' @ populate @ ''(null::''
                     @ escaped_table_name @ '','' @ escapeStringValue prev_value @ '');''))
        else if op = ''U'' then
          (case sqlColumnNamesFromJSON prev_value of
             Inl e \<Rightarrow> Some (Inl e)
           | Inr columns \<Rightarrow>
               Some (Inr (''UPDATE '' @ escaped_table_name @ '' SET('' @ columns @ '')=((SELECT '' @ columns
                          @ '' FROM '' @ populate @ ''(null::'' @ escaped_table_name @ '',''
                          @ escapeStringValue prev_value @ ''))) WHERE ''
                          @ getPrimaryKeyWhereClause pkmap [] @ '';'')))
        else None)"

definition pg_revertQuery :: "string \<Rightarrow> string \<Rightarrow> string \<Rightarrow> string \<Rightarrow> (string res) option" where
  "pg_revertQuery = revertQuery ''json_populate_record''"

definition historyQuery :: "Dialect \<Rightarrow> u64 \<Rightarrow> string" where
  "historyQuery d lastValid =
     ''SELECT op,table_name,pk,prev_value,block_num FROM '' @ historyTable d (schemaName d)
     @ '' WHERE '' @ [CHR 0x22] @ ''block_num'' @ [CHR 0x22] @ '' > '' @ dec64 lastValid
     @ '' ORDER BY '' @ [CHR 0x22] @ ''block_num'' @ [CHR 0x22] @ '' DESC''"

definition pruneHistoryQuery :: "Dialect \<Rightarrow> u64 \<Rightarrow> string" where
  "pruneHistoryQuery d lastValid =
     ''DELETE FROM '' @ historyTable d (schemaName d) @ '' WHERE '' @ [CHR 0x22] @ ''block_num'' @ [CHR 0x22]
     @ '' > '' @ dec64 lastValid @ '';''"

definition pruneReversibleQuery :: "Dialect \<Rightarrow> string \<Rightarrow> u64 \<Rightarrow> string" where
  "pruneReversibleQuery d schema highestFinalBlock =
     ''DELETE FROM '' @ historyTable d schema @ '' WHERE block_num <= '' @ dec64 highestFinalBlock @ '';''"

section \<open>Reading a key clause back\<close>

text \<open>The columns and values of a conjunction of equations between a quoted column and a quoted
  literal, read with SQL's quoting rules, and what follows it\<close>

fun read_where :: "nat \<Rightarrow> string \<Rightarrow> ((string \<times> string) list \<times> string) option" where
  "read_where 0 s = None"
| "read_where (Suc n) s =
     (case sql_token (CHR 0x22) s of None \<Rightarrow> None
      | Some (k, r) \<Rightarrow>
          if hasPrefix '' = '' r then
            (case sql_token (CHR 0x27) (drop 3 r) of None \<Rightarrow> None
             | Some (v, r2) \<Rightarrow>
                 if hasPrefix '' AND '' r2
                 then map_option (\<lambda>(kvs, r3). ((k, v) # kvs, r3)) (read_where n (drop 5 r2))
                 else Some ([(k, v)], r2))
          else None)"

lemma read_where_item:
  assumes "r2 = [] \<or> hd r2 \<noteq> CHR 0x27"
  shows "read_where (Suc n) (where_item [] kv @ r2) =
     (if hasPrefix '' AND '' r2
      then map_option (\<lambda>(kvs, r3). (kv # kvs, r3)) (read_where n (drop 5 r2))
      else Some ([kv], r2))"
proof -
  have "sql_token (CHR 0x22) (EscapeIdentifier (fst kv) @ '' = '' @ escapeStringValue (snd kv) @ r2)
      = Some (fst kv, '' = '' @ escapeStringValue (snd kv) @ r2)"
    by (rule sql_token_EscapeIdentifier) simp
  moreover have "sql_token (CHR 0x27) (escapeStringValue (snd kv) @ r2) = Some (snd kv, r2)"
    using assms by (rule sql_token_escapeStringValue)
  ultimately show ?thesis by (simp add: where_item_def)
qed

lemma read_where_join:
  assumes "kvs \<noteq> []" "length kvs \<le> n" "rest = [] \<or> hd rest \<noteq> CHR 0x27" "\<not> hasPrefix '' AND '' rest"
  shows "read_where n (joinS '' AND '' (map (where_item []) kvs) @ rest) = Some (kvs, rest)"
  using assms
proof (induction kvs arbitrary: n)
  case (Cons kv kvs)
  then obtain m where n: "n = Suc m" by (cases n) auto
  show ?case
  proof (cases "kvs = []")
    case True
    then show ?thesis using Cons.prems n by (simp add: read_where_item del: read_where.simps)
  next
    case False
    let ?r = "joinS '' AND '' (map (where_item []) kvs) @ rest"
    have join: "joinS '' AND '' (map (where_item []) (kv # kvs)) @ rest = where_item [] kv @ '' AND '' @ ?r"
      using False by (simp add: joinS_Cons)
    have "read_where m ?r = Some (kvs, rest)" using Cons False n by simp
    then show ?thesis unfolding join n by (subst read_where_item) simp_all
  qed
qed simp

lemma getPrimaryKeyWhereClause_join:
  "getPrimaryKeyWhereClause pk tab = joinS '' AND '' (sort (map (where_item tab) pk))"
  by (cases pk) (auto simp: getPrimaryKeyWhereClause_def)

lemma getPrimaryKeyWhereClause_reads:
  assumes "pk \<noteq> []" "rest = [] \<or> hd rest \<noteq> CHR 0x27" "\<not> hasPrefix '' AND '' rest"
  shows "\<exists>kvs. mset kvs = mset pk
     \<and> read_where (length pk) (getPrimaryKeyWhereClause pk [] @ rest) = Some (kvs, rest)"
proof -
  have "mset (sort (map (where_item []) pk)) = mset (map (where_item []) pk)" by simp
  then obtain kvs where kvs: "mset kvs = mset pk" "map (where_item []) kvs = sort (map (where_item []) pk)"
    using mset_map_arrange by metis
  have "kvs \<noteq> []" "length kvs \<le> length pk" using kvs(1) assms(1) by (auto dest: mset_eq_length)
  then show ?thesis
    using read_where_join [of kvs "length pk" rest] assms(2,3) kvs
    unfolding getPrimaryKeyWhereClause_join by (metis kvs(2))
qed

lemma getPrimaryKeyWhereClause_same_map:
  "same_map pk pk' \<Longrightarrow> getPrimaryKeyWhereClause pk tab = getPrimaryKeyWhereClause pk' tab"
  unfolding getPrimaryKeyWhereClause_join by (simp add: sort_same_map [of pk pk'])

end
