(* ===== verification/Tx.thy ===== *)
theory Tx
  imports PgDialect
begin

text \<open>
  Transactions (\<open>Tx\<close> and \<open>RisingWaveAutocommitTx\<close> of \<open>src/db_changes/db/db.go\<close>, \<open>TestTx\<close> of
  \<open>testing.go\<close>). The database itself is not under \<open>src/\<close>: a connection or a transaction is a
  record of its methods over an arbitrary state \<open>'s\<close>, as the Go interface is, and everything
  that uses one takes it as an argument. The locale \<open>tx_log\<close> is the contract of a
  transaction that keeps the statements it was sent; \<open>TestTx\<close> provides it.
\<close>

section \<open>Interfaces\<close>

text \<open>A row of the history table as it is scanned\<close>

record HistRow =
  h_op :: string
  h_table :: string
  h_pk :: string
  h_prev :: "string option"
  h_block :: u64

text \<open>The rows of a query: each is scanned or fails to scan; \<open>rows.Err()\<close> after the last one\<close>

record 'r Rows =
  r_rows :: "'r res list"
  r_err :: "GoErr option"

text \<open>A row of the cursor table\<close>

record CursorRow =
  cr_ID :: string
  cr_Cursor :: string
  cr_BlockNum :: u64
  cr_BlockID :: string

text \<open>\<open>sql.Result\<close>: what \<open>RowsAffected\<close> returns\<close>

type_synonym ExecResult = "int res"

text \<open>The interface \<open>Tx\<close>. A query may give nil rows without an error.\<close>

record 's Tx =
  tx_Rollback :: "'s \<Rightarrow> GoErr option \<times> 's"
  tx_Commit :: "'s \<Rightarrow> GoErr option \<times> 's"
  tx_Exec :: "string \<Rightarrow> 's \<Rightarrow> ExecResult res \<times> 's"
  tx_Query :: "string \<Rightarrow> 's \<Rightarrow> (HistRow Rows option) res \<times> 's"

text \<open>What the loader uses of \<open>*sql.DB\<close>\<close>

record 's Db =
  db_Begin :: "'s \<Rightarrow> ('s Tx) res \<times> 's"
  db_Exec :: "string \<Rightarrow> 's \<Rightarrow> ExecResult res \<times> 's"
  db_Query :: "string \<Rightarrow> 's \<Rightarrow> (HistRow Rows option) res \<times> 's"
  db_QueryCursors :: "string \<Rightarrow> 's \<Rightarrow> (CursorRow Rows) res \<times> 's"

section \<open>Autocommit\<close>

text \<open>RisingWave has no read-write transactions: statements go to the connection directly.\<close>

definition RisingWaveAutocommitTx :: "'s Db \<Rightarrow> 's Tx" where
  "RisingWaveAutocommitTx conn =
     \<lparr>tx_Rollback = (\<lambda>s. (None, s)), tx_Commit = (\<lambda>s. (None, s)),
      tx_Exec = db_Exec conn, tx_Query = db_Query conn\<rparr>"

definition BeginTx :: "'s Db \<Rightarrow> 's Tx option \<Rightarrow> Loader \<Rightarrow> 's \<Rightarrow> ('s Tx) res \<times> 's" where
  "BeginTx db testTx l s =
     (case testTx of
        Some tx \<Rightarrow> (Inr tx, s)
      | None \<Rightarrow>
          if driver (ldsn l) = ''risingwave'' then (Inr (RisingWaveAutocommitTx db), s)
          else db_Begin db s)"

section \<open>The contract of a transaction that keeps its statements\<close>

definition execs :: "'s Tx \<Rightarrow> string list \<Rightarrow> 's \<Rightarrow> 's" where
  "execs tx qs s = fold (\<lambda>q s. snd (tx_Exec tx q s)) qs s"

locale tx_log =
  fixes tx :: "'s Tx" and log :: "'s \<Rightarrow> string list"
  assumes log_exec: "log (snd (tx_Exec tx q s)) = log s @ [q]"
    and log_query: "log (snd (tx_Query tx q s)) = log s @ [q]"
    and log_commit: "log (snd (tx_Commit tx s)) = log s @ [''COMMIT'']"
    and log_rollback: "log (snd (tx_Rollback tx s)) = log s @ [''ROLLBACK'']"
begin

lemma log_execs: "log (execs tx qs s) = log s @ qs"
  unfolding execs_def by (induction qs arbitrary: s) (simp_all add: log_exec)

end

section \<open>The transaction of the tests\<close>

record TestTx =
  queries :: "string list"

definition test_Tx :: "TestTx Tx" where
  "test_Tx =
     \<lparr>tx_Rollback = (\<lambda>t. (None, t\<lparr>queries := queries t @ [''ROLLBACK'']\<rparr>)),
      tx_Commit = (\<lambda>t. (None, t\<lparr>queries := queries t @ [''COMMIT'']\<rparr>)),
      tx_Exec = (\<lambda>q t. (Inr (Inr 1), t\<lparr>queries := queries t @ [q]\<rparr>)),
      tx_Query = (\<lambda>q t. (Inr None, t\<lparr>queries := queries t @ [q]\<rparr>))\<rparr>"

interpretation test_tx: tx_log test_Tx queries
  by unfold_locales (simp_all add: test_Tx_def)

text \<open>A transaction watched from outside: the statements it is sent are kept beside its state.\<close>

definition logged :: "'s Tx \<Rightarrow> ('s \<times> string list) Tx" where
  "logged tx =
     \<lparr>tx_Rollback = (\<lambda>(s, g). let (r, s') = tx_Rollback tx s in (r, (s', g @ [''ROLLBACK'']))),
      tx_Commit = (\<lambda>(s, g). let (r, s') = tx_Commit tx s in (r, (s', g @ [''COMMIT'']))),
      tx_Exec = (\<lambda>q (s, g). let (r, s') = tx_Exec tx q s in (r, (s', g @ [q]))),
      tx_Query = (\<lambda>q (s, g). let (r, s') = tx_Query tx q s in (r, (s', g @ [q])))\<rparr>"

interpretation logged_tx: tx_log "logged tx" snd for tx
  by unfold_locales (auto simp: logged_def Let_def split: prod.splits)

section \<open>Formatting with a template\<close>

text \<open>\<open>fmt.Sprintf\<close> with the verbs \<open>%s\<close> and \<open>%d\<close>: the arguments are already rendered.\<close>

fun sprintf :: "string \<Rightarrow> string list \<Rightarrow> string" where
  "sprintf [] args = []"
| "sprintf [c] args = [c]"
| "sprintf (c # v # t) args =
     (if c = CHR ''%'' \<and> (v = CHR ''s'' \<or> v = CHR ''d'')
      then (case args of a # as \<Rightarrow> a @ sprintf t as | [] \<Rightarrow> c # v # sprintf t args)
      else c # sprintf (v # t) args)"

definition is_space :: "char \<Rightarrow> bool" where
  "is_space c \<longleftrightarrow> c \<in> {CHR '' '', CHR 0x09, CHR 0x0A, CHR 0x0B, CHR 0x0C, CHR 0x0D}"

definition trimSpace :: "string \<Rightarrow> string" where
  "trimSpace s = rev (dropWhile is_space (rev (dropWhile is_space s)))"

lemma dropWhile_all_append: "list_all is_space a \<Longrightarrow> dropWhile is_space (a @ s) = dropWhile is_space s"
  by (induction a) auto

lemma trimSpace_body:
  assumes "list_all is_space a" "list_all is_space b" "s \<noteq> []" "\<not> is_space (hd s)" "\<not> is_space (last s)"
  shows "trimSpace (a @ s @ b) = s"
proof -
  have "dropWhile is_space (s @ b) = s @ b" using assms(3,4) by (cases s) auto
  moreover have "dropWhile is_space (rev s) = rev s" using assms(3,5) by (cases "rev s") (auto simp: last_rev hd_rev simp flip: rev_rev_ident)
  ultimately show ?thesis unfolding trimSpace_def dropWhile_all_append [OF assms(1)]
    using dropWhile_all_append [of "rev b" "rev s"] assms(2) by simp
qed

end
