(* ===== verification/Flush.thy ===== *)
theory Flush
  imports Tx
begin

text \<open>
  Flushing a batch and reverting blocks: the \<open>Flush\<close> and \<open>Revert\<close> of the PostgreSQL dialect
  (\<open>dialect_postgres.go\<close>), the cursor queries (\<open>cursor.go\<close>), and the loader's \<open>Flush\<close>,
  \<open>Revert\<close> and \<open>CreateUser\<close> (\<open>flush.go\<close>, \<open>user.go\<close>) over any dialect and any database.
\<close>

section \<open>The dialect interface\<close>

text \<open>How a method that may panic ends\<close>

datatype Outcome = Done | Fail GoErr | Panicked

text \<open>A cursor of the sink library: its text and its block\<close>

record Cursor =
  c_string :: string
  c_num :: u64
  c_id :: string

text \<open>What the loader calls of its \<open>Dialect\<close> during a flush and a revert\<close>

record 's DialectI =
  di_Flush :: "'s Tx \<Rightarrow> Loader \<Rightarrow> u64 \<Rightarrow> 's \<Rightarrow> int res \<times> 's"
  di_Revert :: "'s Tx \<Rightarrow> u64 \<Rightarrow> 's \<Rightarrow> Outcome \<times> 's"
  di_GetUpdateCursorQuery :: "string \<Rightarrow> string \<Rightarrow> Cursor \<Rightarrow> string"
  di_GetAllCursorsQuery :: "string \<Rightarrow> string"
  di_CreateUser :: "'s Tx \<Rightarrow> string \<Rightarrow> string \<Rightarrow> string \<Rightarrow> bool \<Rightarrow> 's \<Rightarrow> GoErr option \<times> 's"
  di_DriverSupportRowsAffected :: bool
  di_OnlyInserts :: bool

section \<open>Statements in a transaction\<close>

text \<open>The operations of a batch: table by table, then by their ordinals. \<open>slices.SortFunc\<close> is not
  stable, but no two operations of a batch have the same ordinal (\<open>distinct_ordinals\<close>).\<close>

definition allOperations :: "Loader \<Rightarrow> Operation list" where
  "allOperations l = concat (map (\<lambda>(_, es). map snd es) (entries l))"

definition sortedOperations :: "Loader \<Rightarrow> Operation list" where
  "sortedOperations l = sort_key op_ordinal (allOperations l)"

fun flush_ops :: "string \<Rightarrow> 's Tx \<Rightarrow> (Operation \<Rightarrow> string res) \<Rightarrow> Operation list \<Rightarrow> nat \<Rightarrow> 's \<Rightarrow> nat res \<times> 's" where
  "flush_ops msg tx prep [] n s = (Inr n, s)"
| "flush_ops msg tx prep (oper # ops) n s =
     (case prep oper of
        Inl e \<Rightarrow> (Inl (Wrapf ''failed to prepare statement'' [] e), s)
      | Inr query \<Rightarrow>
          (case tx_Exec tx query s of
             (Inl e, s') \<Rightarrow> (Inl (Wrapf msg [AStr query] e), s')
           | (Inr _, s') \<Rightarrow> flush_ops msg tx prep ops (n + 1) s'))"

definition pruneReversibleSegment ::
    "Dialect \<Rightarrow> 's Tx \<Rightarrow> string \<Rightarrow> u64 \<Rightarrow> 's \<Rightarrow> GoErr option \<times> 's" where
  "pruneReversibleSegment d tx schema highestFinalBlock s =
     (let query = pruneReversibleQuery d schema highestFinalBlock in
      case tx_Exec tx query s of
        (Inl e, s') \<Rightarrow> (Some (Wrapf ''executing prune query %q'' [AStr query] e), s')
      | (Inr _, s') \<Rightarrow> (None, s'))"

definition pg_Flush ::
    "Dialect \<Rightarrow> (int \<Rightarrow> int) \<Rightarrow> 's Tx \<Rightarrow> Loader \<Rightarrow> u64 \<Rightarrow> 's \<Rightarrow> int res \<times> 's" where
  "pg_Flush d zone tx l lastFinalBlock s =
     (case flush_ops ''executing flush query %q'' tx (prepareStatement d zone (schemaName d)) (sortedOperations l) 0 s of
        (Inl e, s1) \<Rightarrow> (Inl e, s1)
      | (Inr rowCount, s1) \<Rightarrow>
          (case pruneReversibleSegment d tx (schemaName d) lastFinalBlock s1 of
             (Some e, s2) \<Rightarrow> (Inl e, s2)
           | (None, s2) \<Rightarrow> (Inr (int rowCount), s2)))"

section \<open>Reverting\<close>

text \<open>The rows are all read before the first statement is sent: a row that fails to scan, or an
  error of the cursor, ends the revert with nothing executed.\<close>

fun scan_all :: "'r res list \<Rightarrow> 'r list res" where
  "scan_all [] = Inr []"
| "scan_all (Inl e # rs) = Inl (Wrapf ''scanning row'' [] e)"
| "scan_all (Inr h # rs) = (case scan_all rs of Inl e \<Rightarrow> Inl e | Inr hs \<Rightarrow> Inr (h # hs))"

definition prev_value :: "HistRow \<Rightarrow> string" where
  "prev_value h = (case h_prev h of Some v \<Rightarrow> v | None \<Rightarrow> [])"

definition revertOp :: "string \<Rightarrow> 's Tx \<Rightarrow> HistRow \<Rightarrow> 's \<Rightarrow> Outcome \<times> 's" where
  "revertOp populate tx h s =
     (case revertQuery populate (h_op h) (h_table h) (h_pk h) (prev_value h) of
        None \<Rightarrow> (Panicked, s)
      | Some (Inl e) \<Rightarrow> (Fail e, s)
      | Some (Inr query) \<Rightarrow>
          (case tx_Exec tx query s of
             (Inl e, s') \<Rightarrow> (Fail (Wrapf ''executing revert query %q'' [AStr query] e), s')
           | (Inr _, s') \<Rightarrow> (Done, s')))"

fun run_reversions :: "string \<Rightarrow> 's Tx \<Rightarrow> HistRow list \<Rightarrow> 's \<Rightarrow> Outcome \<times> 's" where
  "run_reversions populate tx [] s = (Done, s)"
| "run_reversions populate tx (h # hs) s =
     (case revertOp populate tx h s of
        (Fail e, s') \<Rightarrow> (Fail (Wrapf ''execution revert operation'' [] (Wrapf ''revertOp'' [] e)), s')
      | (Panicked, s') \<Rightarrow> (Panicked, s')
      | (Done, s') \<Rightarrow> run_reversions populate tx hs s')"

text \<open>\<open>Revert\<close> of the two dialects that keep a history; they differ in the JSON function only.\<close>

definition revertWith :: "string \<Rightarrow> Dialect \<Rightarrow> 's Tx \<Rightarrow> u64 \<Rightarrow> 's \<Rightarrow> Outcome \<times> 's" where
  "revertWith populate d tx lastValidFinalBlock s =
     (let query = historyQuery d lastValidFinalBlock in
      case tx_Query tx query s of
        (Inl e, s1) \<Rightarrow> (Fail e, s1)
      | (Inr result, s1) \<Rightarrow>
          (case (case result of
                   None \<Rightarrow> (Done, s1)
                 | Some rws \<Rightarrow>
                     (case scan_all (r_rows rws) of
                        Inl e \<Rightarrow> (Fail e, s1)
                      | Inr hs \<Rightarrow>
                          (case r_err rws of
                             Some e \<Rightarrow> (Fail (Wrapf ''iterating on rows from query %q'' [AStr query] e), s1)
                           | None \<Rightarrow> run_reversions populate tx hs s1))) of
             (Done, s2) \<Rightarrow>
               (case tx_Exec tx (pruneHistoryQuery d lastValidFinalBlock) s2 of
                  (Inl e, s3) \<Rightarrow> (Fail (Wrapf ''executing pruneHistory'' [] e), s3)
                | (Inr _, s3) \<Rightarrow> (Done, s3))
           | r \<Rightarrow> r))"

definition pg_Revert :: "Dialect \<Rightarrow> 's Tx \<Rightarrow> u64 \<Rightarrow> 's \<Rightarrow> Outcome \<times> 's" where
  "pg_Revert = revertWith ''json_populate_record''"

section \<open>Cursors\<close>

text \<open>\<open>query\<close>: a template, dedented (a library function), trimmed and filled in\<close>

definition query :: "(string \<Rightarrow> string) \<Rightarrow> string \<Rightarrow> string list \<Rightarrow> string" where
  "query dedent template args = sprintf (trimSpace (dedent template)) args"

definition pg_cursor_template :: string where
  "pg_cursor_template =
     [CHR 0x0A, CHR 0x09, CHR 0x09] @ ''UPDATE %s set cursor = '' @ [CHR 0x27] @ ''%s'' @ [CHR 0x27]
     @ '', block_num = %d, block_id = '' @ [CHR 0x27] @ ''%s'' @ [CHR 0x27] @ '' WHERE id = ''
     @ [CHR 0x27] @ ''%s'' @ [CHR 0x27] @ '';'' @ [CHR 0x0A, CHR 0x09]"

definition pg_GetUpdateCursorQuery ::
    "(string \<Rightarrow> string) \<Rightarrow> string \<Rightarrow> string \<Rightarrow> Cursor \<Rightarrow> string" where
  "pg_GetUpdateCursorQuery dedent table moduleHash c =
     query dedent pg_cursor_template [table, c_string c, dec64 (c_num c), c_id c, moduleHash]"

definition pg_GetAllCursorsQuery :: "string \<Rightarrow> string" where
  "pg_GetAllCursorsQuery table = ''SELECT id, cursor, block_num, block_id FROM '' @ table"

text \<open>Running a query that has to affect a row: in the transaction, or on the connection when there
  is none (\<open>exec\<close> is the method of either).\<close>

definition runModifiyQuery ::
    "bool \<Rightarrow> (string \<Rightarrow> 's \<Rightarrow> ExecResult res \<times> 's) \<Rightarrow> string \<Rightarrow> string \<Rightarrow> 's \<Rightarrow> int res \<times> 's" where
  "runModifiyQuery supportRowsAffected exec action q s =
     (case exec q s of
        (Inl e, s') \<Rightarrow> (Inl (Wrapf ''%s cursor'' [AStr action] e), s')
      | (Inr (Inl e), s') \<Rightarrow> (Inl (Wrapf ''rows affected'' [] e), s')
      | (Inr (Inr n), s') \<Rightarrow>
          if supportRowsAffected \<and> n \<le> 0 then (Inl ErrCursorNotFound, s') else (Inr n, s'))"

definition cursor_identifier :: "Loader \<Rightarrow> string" where
  "cursor_identifier l = (case cursorTable l of Some t \<Rightarrow> tidentifier t | None \<Rightarrow> [])"

definition UpdateCursor ::
    "'s DialectI \<Rightarrow> Loader \<Rightarrow> 's Tx \<Rightarrow> string \<Rightarrow> Cursor \<Rightarrow> 's \<Rightarrow> GoErr option \<times> 's" where
  "UpdateCursor di l tx moduleHash c s =
     (case runModifiyQuery (di_DriverSupportRowsAffected di) (tx_Exec tx) ''update''
             (di_GetUpdateCursorQuery di (cursor_identifier l) moduleHash c) s of
        (Inl e, s') \<Rightarrow> (Some e, s') | (Inr _, s') \<Rightarrow> (None, s'))"

definition InsertCursor :: "'s Db \<Rightarrow> Loader \<Rightarrow> string \<Rightarrow> Cursor \<Rightarrow> 's \<Rightarrow> GoErr option \<times> 's" where
  "InsertCursor db l moduleHash c s =
     (let q = ''INSERT INTO '' @ cursor_identifier l @ '' (id, cursor, block_num, block_id) values (''
              @ [CHR 0x27] @ moduleHash @ [CHR 0x27] @ '', '' @ [CHR 0x27] @ c_string c @ [CHR 0x27]
              @ '', '' @ dec64 (c_num c) @ '', '' @ [CHR 0x27] @ c_id c @ [CHR 0x27] @ '')'' in
      case db_Exec db q s of
        (Inl e, s') \<Rightarrow> (Some (Wrapf ''insert cursor'' [] e), s')
      | (Inr _, s') \<Rightarrow> (None, s'))"

definition DeleteCursor :: "'s Db \<Rightarrow> 's DialectI \<Rightarrow> Loader \<Rightarrow> string \<Rightarrow> 's \<Rightarrow> GoErr option \<times> 's" where
  "DeleteCursor db di l moduleHash s =
     (case runModifiyQuery (di_DriverSupportRowsAffected di) (db_Exec db) ''delete''
             (''DELETE FROM '' @ cursor_identifier l @ '' WHERE id = '' @ [CHR 0x27] @ moduleHash @ [CHR 0x27]) s of
        (Inl e, s') \<Rightarrow> (Some e, s') | (Inr _, s') \<Rightarrow> (None, s'))"

text \<open>The count and the error (the code returns no error on any path)\<close>

definition DeleteAllCursors :: "'s Db \<Rightarrow> 's DialectI \<Rightarrow> Loader \<Rightarrow> 's \<Rightarrow> (int \<times> GoErr option) \<times> 's" where
  "DeleteAllCursors db di l s =
     (case runModifiyQuery (di_DriverSupportRowsAffected di) (db_Exec db) ''delete''
             (''DELETE FROM '' @ cursor_identifier l) s of
        (Inl e, s') \<Rightarrow> if errors_Is e ErrCursorNotFound then ((0, None), s') else ((0, None), s')
      | (Inr n, s') \<Rightarrow> ((n, None), s'))"

text \<open>\<open>GetAllCursors\<close>: the rows of the cursor table as a map from module hash to cursor.
  \<open>sink.NewCursor\<close> is a parameter; \<open>rows.Err()\<close> is not looked at.\<close>

fun collect_cursors :: "(string \<Rightarrow> Cursor res) \<Rightarrow> CursorRow res list \<Rightarrow> Cursor gomap \<Rightarrow> Cursor gomap res" where
  "collect_cursors newCursor [] out = Inr out"
| "collect_cursors newCursor (Inl e # rs) out = Inl (Wrapf ''getting all cursors'' [] e)"
| "collect_cursors newCursor (Inr c # rs) out =
     (case newCursor (cr_Cursor c) of
        Inl e \<Rightarrow> Inl (Errorf ''database corrupted: stored cursor %q is not a valid cursor'' [AStr (cr_Cursor c)])
      | Inr cur \<Rightarrow> collect_cursors newCursor rs (AList.update (cr_ID c) cur out))"

definition GetAllCursors ::
    "'s Db \<Rightarrow> 's DialectI \<Rightarrow> (string \<Rightarrow> Cursor res) \<Rightarrow> Loader \<Rightarrow> 's \<Rightarrow> Cursor gomap res \<times> 's" where
  "GetAllCursors db di newCursor l s =
     (case db_QueryCursors db (di_GetAllCursorsQuery di (cursor_identifier l)) s of
        (Inl e, s') \<Rightarrow> (Inl (Wrapf ''query all cursors'' [] e), s')
      | (Inr rws, s') \<Rightarrow> (collect_cursors newCursor (r_rows rws) [], s'))"

text \<open>The cursor with the highest block, the first one visited among equals\<close>

definition cursorAtHighestBlock :: "Cursor gomap \<Rightarrow> string \<times> Cursor option" where
  "cursorAtHighestBlock cs =
     fold (\<lambda>(moduleHash, cursor) (hash, highest).
             case highest of
               None \<Rightarrow> (moduleHash, Some cursor)
             | Some h \<Rightarrow> if c_num cursor > c_num h then (moduleHash, Some cursor) else (hash, highest))
       cs ([], None)"

text \<open>The three results of \<open>GetCursor\<close> (a nil cursor is \<open>None\<close>); the outer \<open>None\<close> is its panic for a
  mode that is not one of the three.\<close>

definition GetCursor ::
    "'s Db \<Rightarrow> 's DialectI \<Rightarrow> (string \<Rightarrow> Cursor res) \<Rightarrow> Cursor \<Rightarrow> Loader \<Rightarrow> string \<Rightarrow> 's \<Rightarrow>
     (Cursor option \<times> bool \<times> GoErr option) option \<times> 's" where
  "GetCursor db di newCursor blankCursor l outputModuleHash s =
     (case GetAllCursors db di newCursor l s of
        (Inl e, s') \<Rightarrow> (Some (None, False, Some (Wrapf ''get cursor'' [] e)), s')
      | (Inr cursors, s') \<Rightarrow>
          if length cursors = 0 then (Some (Some blankCursor, False, Some ErrCursorNotFound), s')
          else
            (case map_of cursors outputModuleHash of
               Some active \<Rightarrow> (Some (Some active, False, None), s')
             | None \<Rightarrow>
                 (let (actualHash, active) = cursorAtHighestBlock cursors in
                  if moduleMismatchMode l = OnModuleHashMismatchIgnore then (Some (active, True, None), s')
                  else if moduleMismatchMode l = OnModuleHashMismatchWarn then (Some (active, True, None), s')
                  else if moduleMismatchMode l = OnModuleHashMismatchError then
                    (Some (None, True, Some (Errorf
                       ''cursor module hash mismatch, refusing to continue: your module's hash is %q but cursor with highest block (%d) module hash is actually %q in the database''
                       [AStr outputModuleHash, ANat (case active of Some c \<Rightarrow> unat (c_num c) | None \<Rightarrow> 0), AStr actualHash])), s')
                  else (None, s'))))"

section \<open>The loader's flush and revert\<close>

text \<open>The deferred rollback of \<open>Flush\<close>: its own error is only logged.\<close>

definition rollback_on :: "'s Tx \<Rightarrow> 's \<Rightarrow> 's" where
  "rollback_on tx s = snd (tx_Rollback tx s)"

definition Loader_Flush ::
    "'s Db \<Rightarrow> 's Tx option \<Rightarrow> 's DialectI \<Rightarrow> Loader \<Rightarrow> string \<Rightarrow> Cursor \<Rightarrow> u64 \<Rightarrow> 's \<Rightarrow>
     int res \<times> Loader \<times> 's" where
  "Loader_Flush db testTx di l outputModuleHash cursor lastFinalBlock s =
     (case BeginTx db testTx l s of
        (Inl e, s1) \<Rightarrow> (Inl (Wrapf ''failed to being db transaction'' [] e), l, s1)
      | (Inr tx, s1) \<Rightarrow>
          (case di_Flush di tx l lastFinalBlock s1 of
             (Inl e, s2) \<Rightarrow> (Inl (Wrapf ''dialect flush'' [] e), l, rollback_on tx s2)
           | (Inr rowFlushedCount, s2) \<Rightarrow>
               (case UpdateCursor di l tx outputModuleHash cursor s2 of
                  (Some e, s3) \<Rightarrow> (Inl (Wrapf ''update cursor'' [] e), l, rollback_on tx s3)
                | (None, s3) \<Rightarrow>
                    (case tx_Commit tx s3 of
                       (Some e, s4) \<Rightarrow> (Inl (Wrapf ''failed to commit db transaction'' [] e), l, rollback_on tx s4)
                     | (None, s4) \<Rightarrow> (Inr (rowFlushedCount + 1), reset l, s4)))))"

text \<open>The function that \<open>Revert\<close> defers: it rolls back when the variable it has captured holds an error.\<close>

definition revert_deferred :: "GoErr option \<Rightarrow> 's Tx \<Rightarrow> 's \<Rightarrow> 's" where
  "revert_deferred err tx s = (case err of Some _ \<Rightarrow> rollback_on tx s | None \<Rightarrow> s)"

text \<open>The body of \<open>Revert\<close> after the transaction was begun, with the variable \<open>err\<close> it leaves behind: the errors of
  the three calls are variables of their own (\<open>if err := ...\<close>) and the result has no name, so the \<open>err\<close> of
  \<open>BeginTx\<close>, which the deferred function has captured, keeps its value.\<close>

definition revert_body ::
    "'s DialectI \<Rightarrow> Loader \<Rightarrow> 's Tx \<Rightarrow> GoErr option \<Rightarrow> string \<Rightarrow> Cursor \<Rightarrow> u64 \<Rightarrow> 's \<Rightarrow> (Outcome \<times> GoErr option) \<times> 's" where
  "revert_body di l tx err outputModuleHash cursor lastValidBlock s =
     (case di_Revert di tx lastValidBlock s of
        (Done, s2) \<Rightarrow>
          (case UpdateCursor di l tx outputModuleHash cursor s2 of
             (Some e, s3) \<Rightarrow> ((Fail (Wrapf ''update cursor after revert'' [] e), err), s3)
           | (None, s3) \<Rightarrow>
               (case tx_Commit tx s3 of
                  (Some e, s4) \<Rightarrow> ((Fail (Wrapf ''failed to commit db transaction'' [] e), err), s4)
                | (None, s4) \<Rightarrow> ((Done, err), s4)))
      | (r, s2) \<Rightarrow> ((r, err), s2))"

definition Loader_Revert ::
    "'s Db \<Rightarrow> 's Tx option \<Rightarrow> 's DialectI \<Rightarrow> Loader \<Rightarrow> string \<Rightarrow> Cursor \<Rightarrow> u64 \<Rightarrow> 's \<Rightarrow> Outcome \<times> 's" where
  "Loader_Revert db testTx di l outputModuleHash cursor lastValidBlock s =
     (case BeginTx db testTx l s of
        (Inl e, s1) \<Rightarrow> (Fail (Wrapf ''failed to being db transaction'' [] e), s1)
      | (Inr tx, s1) \<Rightarrow>
          (case revert_body di l tx None outputModuleHash cursor lastValidBlock s1 of
             ((r, err), s2) \<Rightarrow> (r, revert_deferred err tx s2)))"

definition pg_createUserQuery :: "string \<Rightarrow> string \<Rightarrow> string \<Rightarrow> bool \<Rightarrow> string" where
  "pg_createUserQuery username password database readOnly =
     (let user = EscapeIdentifier username; db = EscapeIdentifier database;
          q = [CHR 0x27]; nl = CHR 0x0A # replicate 12 (CHR '' '') in
      if readOnly
      then nl @ ''CREATE ROLE '' @ user @ '' LOGIN PASSWORD '' @ q @ password @ q @ '';''
         @ nl @ ''GRANT CONNECT ON DATABASE '' @ db @ '' TO '' @ user @ '';''
         @ nl @ ''GRANT USAGE ON SCHEMA public TO '' @ user @ '';''
         @ nl @ ''ALTER DEFAULT PRIVILEGES IN SCHEMA public GRANT SELECT ON TABLES TO '' @ user @ '';''
         @ nl @ ''GRANT SELECT ON ALL TABLES IN SCHEMA public TO '' @ user @ '';''
         @ CHR 0x0A # replicate 8 (CHR '' '')
      else ''CREATE USER '' @ user @ '' WITH PASSWORD '' @ q @ password @ q
           @ ''; GRANT ALL PRIVILEGES ON DATABASE '' @ db @ '' TO '' @ user @ '';'')"

definition pg_CreateUser ::
    "'s Tx \<Rightarrow> string \<Rightarrow> string \<Rightarrow> string \<Rightarrow> bool \<Rightarrow> 's \<Rightarrow> GoErr option \<times> 's" where
  "pg_CreateUser tx username password database readOnly s =
     (let q = pg_createUserQuery username password database readOnly in
      case tx_Exec tx q s of
        (Inl e, s') \<Rightarrow> (Some (Wrapf ''executing create user query %q'' [AStr q] e), s')
      | (Inr _, s') \<Rightarrow> (None, s'))"

definition Loader_CreateUser ::
    "'s Db \<Rightarrow> 's Tx option \<Rightarrow> 's DialectI \<Rightarrow> Loader \<Rightarrow> string \<Rightarrow> string \<Rightarrow> string \<Rightarrow> bool \<Rightarrow> 's \<Rightarrow>
     GoErr option \<times> Loader \<times> 's" where
  "Loader_CreateUser db testTx di l username password database readOnly s =
     (case BeginTx db testTx l s of
        (Inl e, s1) \<Rightarrow> (Some (Wrapf ''failed to being db transaction'' [] e), l, s1)
      | (Inr tx, s1) \<Rightarrow>
          (case di_CreateUser di tx username password database readOnly s1 of
             (Some e, s2) \<Rightarrow> (Some (Wrapf ''create user'' [] e), l, rollback_on tx s2)
           | (None, s2) \<Rightarrow>
               (case tx_Commit tx s2 of
                  (Some e, s3) \<Rightarrow> (Some (Wrapf ''failed to commit db transaction'' [] e), l, rollback_on tx s3)
                | (None, s3) \<Rightarrow> (None, reset l, s3))))"

section \<open>The PostgreSQL dialect as an implementation of the interface\<close>

definition pg_iface :: "Dialect \<Rightarrow> (int \<Rightarrow> int) \<Rightarrow> (string \<Rightarrow> string) \<Rightarrow> 's DialectI" where
  "pg_iface d zone dedent =
     \<lparr>di_Flush = pg_Flush d zone, di_Revert = pg_Revert d,
      di_GetUpdateCursorQuery = pg_GetUpdateCursorQuery dedent,
      di_GetAllCursorsQuery = pg_GetAllCursorsQuery,
      di_CreateUser = pg_CreateUser,
      di_DriverSupportRowsAffected = DriverSupportRowsAffected d, di_OnlyInserts = OnlyInserts d\<rparr>"

end
