(* ===== verification/FlushFacts.thy ===== *)
theory FlushFacts
  imports Flush
begin

text \<open>
  What a flush and a revert send to the database: proved for every transaction that keeps its
  statements (the locale \<open>tx_log\<close>), so for the transaction of the tests and for any transaction
  that is watched. Also here: the order of a batch, and the choice of a cursor.
\<close>

section \<open>The order of a batch\<close>

lemma allOperations_rows: "allOperations l = map snd (rows l)"
  unfolding allOperations_def rows_def
  by (simp add: map_concat entry_rows_def comp_def case_prod_unfold)

lemma set_allOperations: "entries_ok l \<Longrightarrow> oper \<in> set (allOperations l) \<longleftrightarrow> (\<exists>k. pending l k = Some oper)"
  unfolding allOperations_rows using in_rows [of l] by force

lemma sortedOperations_strict:
  assumes "batch_ok l"
  shows "sorted_wrt (\<lambda>a b. op_ordinal a < op_ordinal b) (sortedOperations l)"
    "mset (sortedOperations l) = mset (allOperations l)"
proof -
  have d: "distinct (map op_ordinal (sortedOperations l))"
    using distinct_ordinals [OF assms] unfolding sortedOperations_def allOperations_rows
    by (metis mset_eq_imp_distinct_iff mset_map mset_sort)
  have "sorted (map op_ordinal (sortedOperations l))" by (simp add: sortedOperations_def)
  then have "sorted_wrt (<) (map op_ordinal (sortedOperations l))"
    using d by (simp add: strict_sorted_iff)
  then show "sorted_wrt (\<lambda>a b. op_ordinal a < op_ordinal b) (sortedOperations l)"
    by (simp add: sorted_wrt_map)
  show "mset (sortedOperations l) = mset (allOperations l)" by (simp add: sortedOperations_def)
qed

text \<open>The order is determined: every arrangement of the operations with increasing ordinals is it.\<close>

lemma sortedOperations_unique:
  assumes "batch_ok l" "mset ops = mset (allOperations l)" "sorted (map op_ordinal ops)"
  shows "ops = sortedOperations l"
proof -
  have "distinct (map op_ordinal ops)"
    using distinct_ordinals [OF assms(1)] assms(2) unfolding allOperations_rows
    by (metis mset_eq_imp_distinct_iff mset_map)
  moreover have "sorted (map op_ordinal (sortedOperations l))" by (simp add: sortedOperations_def)
  moreover have mset: "mset (sortedOperations l) = mset ops" using assms(2) by (simp add: sortedOperations_def)
  moreover have "distinct (map op_ordinal (sortedOperations l))"
    using \<open>distinct (map op_ordinal ops)\<close> mset by (metis mset_eq_imp_distinct_iff mset_map)
  moreover have set: "set (sortedOperations l) = set ops" using mset by (rule mset_eq_setD)
  ultimately have "map op_ordinal ops = map op_ordinal (sortedOperations l)"
    using assms(3) by (intro sorted_distinct_set_unique) simp_all
  moreover have "inj_on op_ordinal (set ops \<union> set (sortedOperations l))"
    using \<open>distinct (map op_ordinal ops)\<close> set by (simp add: distinct_map)
  ultimately show ?thesis by (rule map_inj_on)
qed

section \<open>What a flush sends\<close>

context tx_log
begin

lemma flush_ops_log:
  "flush_ops msg tx prep ops n s = (r, s') \<Longrightarrow>
   \<exists>k qs. k \<le> length ops \<and> traverse prep (take k ops) = Inr qs \<and> log s' = log s @ qs
     \<and> (\<forall>m. r = Inr m \<longrightarrow> k = length ops \<and> m = n + length ops)"
proof (induction ops arbitrary: n s)
  case (Cons oper ops)
  show ?case
  proof (cases "prep oper")
    case (Inl e)
    then show ?thesis using Cons.prems by (intro exI [of _ 0] exI [of _ "[]"]) auto
  next
    case (Inr q)
    obtain x s1 where x: "tx_Exec tx q s = (x, s1)" by fastforce
    have log1: "log s1 = log s @ [q]" using log_exec [of q s] by (simp add: x)
    show ?thesis
    proof (cases x)
      case (Inl e)
      then show ?thesis using Cons.prems Inr x log1 by (intro exI [of _ 1] exI [of _ "[q]"]) auto
    next
      case (Inr res)
      then have "flush_ops msg tx prep ops (n + 1) s1 = (r, s')"
        using Cons.prems \<open>prep oper = Inr q\<close> x by simp
      from Cons.IH [OF this] obtain k qs where k: "k \<le> length ops" "traverse prep (take k ops) = Inr qs"
        "log s' = log s1 @ qs" "\<forall>m. r = Inr m \<longrightarrow> k = length ops \<and> m = n + 1 + length ops" by blast
      then show ?thesis using \<open>prep oper = Inr q\<close> log1
        by (intro exI [of _ "Suc k"] exI [of _ "q # qs"]) auto
    qed
  qed
qed auto

lemma pruneReversibleSegment_log:
  "log (snd (pruneReversibleSegment d tx schema b s)) = log s @ [pruneReversibleQuery d schema b]"
  using log_exec [of "pruneReversibleQuery d schema b" s]
  by (auto simp: pruneReversibleSegment_def Let_def split: prod.splits sum.splits)

lemma UpdateCursor_log:
  "log (snd (UpdateCursor di l tx h c s))
     = log s @ [di_GetUpdateCursorQuery di (cursor_identifier l) h c]"
  using log_exec [of "di_GetUpdateCursorQuery di (cursor_identifier l) h c" s]
  by (auto simp: UpdateCursor_def runModifiyQuery_def split: prod.splits sum.splits)

text \<open>A flush of the PostgreSQL dialect: the statements of the operations in their order, then
  the pruning of the history, or a part of them when one fails.\<close>

lemma pg_Flush_log:
  assumes "pg_Flush d zone tx l final s = (r, s')"
  shows "case r of
      Inr n \<Rightarrow> \<exists>qs. traverse (prepareStatement d zone (schemaName d)) (sortedOperations l) = Inr qs
        \<and> log s' = log s @ qs @ [pruneReversibleQuery d (schemaName d) final]
        \<and> n = int (length (sortedOperations l))
    | Inl e \<Rightarrow> \<exists>k qs t. k \<le> length (sortedOperations l)
        \<and> traverse (prepareStatement d zone (schemaName d)) (take k (sortedOperations l)) = Inr qs
        \<and> log s' = log s @ qs @ t \<and> (t = [] \<or> k = length (sortedOperations l)
              \<and> t = [pruneReversibleQuery d (schemaName d) final])"
proof -
  obtain x s1 where x: "flush_ops ''executing flush query %q'' tx (prepareStatement d zone (schemaName d)) (sortedOperations l) 0 s = (x, s1)"
    by fastforce
  from flush_ops_log [OF x] obtain k qs where k: "k \<le> length (sortedOperations l)"
    "traverse (prepareStatement d zone (schemaName d)) (take k (sortedOperations l)) = Inr qs"
    "log s1 = log s @ qs" "\<forall>m. x = Inr m \<longrightarrow> k = length (sortedOperations l) \<and> m = length (sortedOperations l)"
    by auto
  show ?thesis
  proof (cases x)
    case (Inl e)
    then have "r = Inl e" "s' = s1" using assms x by (auto simp: pg_Flush_def)
    then show ?thesis using k by (auto intro: exI [of _ k])
  next
    case (Inr m)
    obtain y s2 where y: "pruneReversibleSegment d tx (schemaName d) final s1 = (y, s2)" by fastforce
    have "log s2 = log s1 @ [pruneReversibleQuery d (schemaName d) final]"
      using pruneReversibleSegment_log [of d "schemaName d" final s1] by (simp add: y)
    with k Inr have done_: "traverse (prepareStatement d zone (schemaName d)) (sortedOperations l) = Inr qs"
      "log s2 = log s @ qs @ [pruneReversibleQuery d (schemaName d) final]" "m = length (sortedOperations l)"
      by auto
    show ?thesis
    proof (cases y)
      case None
      then show ?thesis using assms x Inr y done_ by (auto simp: pg_Flush_def)
    next
      case (Some e)
      then have "r = Inl e" "s' = s2" using assms x Inr y by (auto simp: pg_Flush_def)
      then show ?thesis using done_ by (auto intro: exI [of _ "length (sortedOperations l)"])
    qed
  qed
qed

text \<open>The loader's flush: the statements, the pruning, the cursor and \<open>COMMIT\<close>, and the batch is
  emptied; or a prefix of these and \<open>ROLLBACK\<close>, and the batch is kept for the next attempt.\<close>

definition closing :: "Dialect \<Rightarrow> (string \<Rightarrow> string) \<Rightarrow> Loader \<Rightarrow> string \<Rightarrow> Cursor \<Rightarrow> u64 \<Rightarrow> string list" where
  "closing d dedent l h c final =
     [pruneReversibleQuery d (schemaName d) final,
      pg_GetUpdateCursorQuery dedent (cursor_identifier l) h c, ''COMMIT'']"

lemma Loader_Flush_log:
  assumes start: "BeginTx db ttx l s = (Inr tx, s1)"
    and run: "Loader_Flush db ttx (pg_iface d zone dedent) l h c final s = (r, l', s')"
  shows "case r of
      Inr n \<Rightarrow> l' = reset l \<and> n = int (length (sortedOperations l)) + 1
        \<and> (\<exists>qs. traverse (prepareStatement d zone (schemaName d)) (sortedOperations l) = Inr qs
              \<and> log s' = log s1 @ qs @ closing d dedent l h c final)
    | Inl e \<Rightarrow> l' = l \<and> (\<exists>k qs t. k \<le> length (sortedOperations l)
        \<and> traverse (prepareStatement d zone (schemaName d)) (take k (sortedOperations l)) = Inr qs
        \<and> (t = 0 \<or> k = length (sortedOperations l))
        \<and> log s' = log s1 @ qs @ take t (closing d dedent l h c final) @ [''ROLLBACK''])"
proof -
  let ?di = "pg_iface d zone dedent"
  let ?prep = "prepareStatement d zone (schemaName d)"
  have di: "di_Flush ?di = pg_Flush d zone" "di_GetUpdateCursorQuery ?di = pg_GetUpdateCursorQuery dedent"
    by (simp_all add: pg_iface_def)
  have rb: "log (rollback_on tx x) = log x @ [''ROLLBACK'']" for x
    by (simp add: rollback_on_def log_rollback)
  obtain a s2 where a: "pg_Flush d zone tx l final s1 = (a, s2)" by fastforce
  note fl = pg_Flush_log [OF a]
  have err: ?thesis if "r = Inl e" "l' = l" "k \<le> length (sortedOperations l)"
      "traverse ?prep (take k (sortedOperations l)) = Inr qs" "t = 0 \<or> k = length (sortedOperations l)"
      "log s' = log s1 @ qs @ take t (closing d dedent l h c final) @ [''ROLLBACK'']" for e k qs t
    unfolding that(1) sum.case using that(2-) by blast
  show ?thesis
  proof (cases a)
    case (Inl e)
    then obtain k qs t where k: "k \<le> length (sortedOperations l)"
      "traverse ?prep (take k (sortedOperations l)) = Inr qs" "log s2 = log s1 @ qs @ t"
      "t = [] \<or> k = length (sortedOperations l) \<and> t = [pruneReversibleQuery d (schemaName d) final]"
      using fl by auto
    have r: "r = Inl (Wrapf ''dialect flush'' [] e)" "l' = l" "s' = rollback_on tx s2"
      using run start a Inl by (simp_all add: Loader_Flush_def di)
    from k(4) show ?thesis
    proof
      assume "t = []"
      then show ?thesis using k r using err [OF r(1,2) k(1,2), of 0] by (simp add: rb)
    next
      assume "k = length (sortedOperations l) \<and> t = [pruneReversibleQuery d (schemaName d) final]"
      then show ?thesis using k r
        using err [OF r(1,2) k(1,2), of 1] by (simp add: rb closing_def)
    qed
  next
    case (Inr m)
    then obtain qs where qs: "traverse ?prep (sortedOperations l) = Inr qs"
      "log s2 = log s1 @ qs @ [pruneReversibleQuery d (schemaName d) final]"
      "m = int (length (sortedOperations l))"
      using fl by auto
    obtain b s3 where b: "UpdateCursor ?di l tx h c s2 = (b, s3)" by fastforce
    have log3: "log s3 = log s2 @ [pg_GetUpdateCursorQuery dedent (cursor_identifier l) h c]"
      using UpdateCursor_log [of ?di l h c s2] by (simp add: b di)
    have whole: "traverse ?prep (take (length (sortedOperations l)) (sortedOperations l)) = Inr qs"
      using qs(1) by simp
    show ?thesis
    proof (cases b)
      case (Some e)
      then have "r = Inl (Wrapf ''update cursor'' [] e)" "l' = l" "s' = rollback_on tx s3"
        using run start a Inr b by (simp_all add: Loader_Flush_def di)
      then show ?thesis using err [OF _ _ order_refl whole, of _ 2] by (simp add: rb log3 qs(2) closing_def)
    next
      case None
      obtain f s4 where f: "tx_Commit tx s3 = (f, s4)" by fastforce
      have log4: "log s4 = log s3 @ [''COMMIT'']" using log_commit [of s3] by (simp add: f)
      show ?thesis
      proof (cases f)
        case (Some e)
        then have "r = Inl (Wrapf ''failed to commit db transaction'' [] e)" "l' = l" "s' = rollback_on tx s4"
          using run start a Inr b None f by (simp_all add: Loader_Flush_def di)
        then show ?thesis using err [OF _ _ order_refl whole, of _ 3] by (simp add: rb log3 log4 qs(2) closing_def)
      next
        case None
        then have "r = Inr (m + 1)" "l' = reset l" "s' = s4"
          using run start a Inr b \<open>b = None\<close> f by (simp_all add: Loader_Flush_def di)
        then show ?thesis using qs by (simp add: log3 log4 closing_def)
      qed
    qed
  qed
qed

end

section \<open>What a revert sends\<close>

text \<open>The rows of the history that a revert undoes: none when they cannot all be read\<close>

definition history_rows :: "'s Tx \<Rightarrow> string \<Rightarrow> 's \<Rightarrow> HistRow list" where
  "history_rows tx q s =
     (case fst (tx_Query tx q s) of
        Inr (Some rws) \<Rightarrow> (if r_err rws = None then case scan_all (r_rows rws) of Inr hs \<Rightarrow> hs | Inl e \<Rightarrow> [] else [])
      | _ \<Rightarrow> [])"

text \<open>The statements that undo rows of the history\<close>

definition undo_queries :: "string \<Rightarrow> HistRow list \<Rightarrow> string list \<Rightarrow> bool" where
  "undo_queries populate hs qs =
     list_all2 (\<lambda>h q. revertQuery populate (h_op h) (h_table h) (h_pk h) (prev_value h) = Some (Inr q)) hs qs"

context tx_log
begin

lemma run_reversions_log:
  "run_reversions populate tx hs s = (r, s') \<Longrightarrow>
   \<exists>k qs. k \<le> length hs \<and> undo_queries populate (take k hs) qs \<and> log s' = log s @ qs \<and> (r = Done \<longrightarrow> k = length hs)"
proof (induction hs arbitrary: s)
  case (Cons h hs)
  let ?q = "revertQuery populate (h_op h) (h_table h) (h_pk h) (prev_value h)"
  show ?case
  proof (cases "\<exists>q. ?q = Some (Inr q)")
    case False
    then have "r \<noteq> Done \<and> s' = s"
      using Cons.prems by (auto simp: revertOp_def split: option.splits sum.splits)
    then show ?thesis by (intro exI [of _ 0] exI [of _ "[]"]) (simp add: undo_queries_def)
  next
    case True
    then obtain q where q: "?q = Some (Inr q)" by blast
    obtain x s1 where x: "tx_Exec tx q s = (x, s1)" by fastforce
    have log1: "log s1 = log s @ [q]" using log_exec [of q s] by (simp add: x)
    show ?thesis
    proof (cases x)
      case (Inl e)
      then have "r \<noteq> Done \<and> s' = s1" using Cons.prems q x by (auto simp: revertOp_def)
      then show ?thesis using q log1 by (intro exI [of _ 1] exI [of _ "[q]"]) (simp add: undo_queries_def)
    next
      case (Inr y)
      then have "run_reversions populate tx hs s1 = (r, s')" using Cons.prems q x by (simp add: revertOp_def)
      from Cons.IH [OF this] obtain k qs where "k \<le> length hs" "undo_queries populate (take k hs) qs"
        "log s' = log s1 @ qs" "r = Done \<longrightarrow> k = length hs" by blast
      then show ?thesis using q log1
        by (intro exI [of _ "Suc k"] exI [of _ "q # qs"]) (simp add: undo_queries_def)
    qed
  qed
qed (simp add: undo_queries_def)

text \<open>A revert of the dialect: the query, the statements of the rows and the pruning of the history, or a part of
  them\<close>

lemma revertWith_log:
  assumes "revertWith populate d tx v s = (r, s')"
  defines "hs \<equiv> history_rows tx (historyQuery d v) s"
  shows "\<exists>k qs t. k \<le> length hs \<and> undo_queries populate (take k hs) qs \<and> t \<le> 1 \<and> (0 < t \<longrightarrow> k = length hs)
    \<and> log s' = log s @ historyQuery d v # qs @ take t [pruneHistoryQuery d v] \<and> (r = Done \<longrightarrow> t = 1)"
proof -
  let ?Q = "historyQuery d v"
  obtain x s1 where x: "tx_Query tx ?Q s = (x, s1)" by fastforce
  have log1: "log s1 = log s @ [?Q]" using log_query [of ?Q s] by (simp add: x)
  have fail: ?thesis if "r \<noteq> Done" "s' = s1"
    using that log1 by (intro exI [of _ 0] exI [of _ "[]"]) (simp add: undo_queries_def)
  have rest: ?thesis if u: "run_reversions populate tx hs s1 = (u, s2)"
      and e: "(case u of Done \<Rightarrow> (case tx_Exec tx (pruneHistoryQuery d v) s2 of
                  (Inl e, s3) \<Rightarrow> (Fail (Wrapf ''executing pruneHistory'' [] e), s3) | (Inr _, s3) \<Rightarrow> (Done, s3))
                | u \<Rightarrow> (u, s2)) = (r, s')" for u s2
  proof -
    from run_reversions_log [OF u] obtain k qs where k: "k \<le> length hs" "undo_queries populate (take k hs) qs"
      "log s2 = log s1 @ qs" "u = Done \<longrightarrow> k = length hs" by blast
    show ?thesis
    proof (cases "u = Done")
      case True
      then have "log s' = log s2 @ [pruneHistoryQuery d v]"
        using e log_exec [of "pruneHistoryQuery d v" s2] by (auto split: prod.splits sum.splits)
      then show ?thesis using k True log1 by (intro exI [of _ k] exI [of _ qs] exI [of _ 1]) simp
    next
      case False
      then have "r \<noteq> Done \<and> s' = s2" using e by (cases u) auto
      then show ?thesis using k log1 by (intro exI [of _ k] exI [of _ qs] exI [of _ 0]) simp
    qed
  qed
  show ?thesis
  proof (cases x)
    case (Inl e)
    then show ?thesis using fail assms(1) x by (auto simp: revertWith_def Let_def)
  next
    case (Inr result)
    show ?thesis
    proof (cases result)
      case None
      then have "hs = []" using x Inr by (simp add: hs_def history_rows_def)
      then show ?thesis using assms(1) x Inr None
        by (intro rest [of Done s1]) (auto simp: revertWith_def Let_def)
    next
      case (Some rws)
      show ?thesis
      proof (cases "\<exists>l. scan_all (r_rows rws) = Inr l \<and> r_err rws = None")
        case False
        then show ?thesis using fail assms(1) x Inr Some
          by (auto simp: revertWith_def Let_def split: sum.splits option.splits)
      next
        case True
        then have l: "scan_all (r_rows rws) = Inr hs" "r_err rws = None"
          using x Inr Some by (auto simp: hs_def history_rows_def)
        obtain u s2 where u: "run_reversions populate tx hs s1 = (u, s2)" by fastforce
        show ?thesis using assms(1) x Inr Some l u
          by (intro rest [OF u]) (cases u; auto simp: revertWith_def Let_def)
      qed
    qed
  qed
qed

lemma Loader_Revert_log:
  assumes start: "BeginTx db ttx l s0 = (Inr tx, s)"
    and run: "Loader_Revert db ttx (pg_iface d zone dedent) l h c v s0 = (r, s')"
  defines "hs \<equiv> history_rows tx (historyQuery d v) s"
  shows "\<exists>k qs t. k \<le> length hs \<and> undo_queries ''json_populate_record'' (take k hs) qs
    \<and> t \<le> 3 \<and> (0 < t \<longrightarrow> k = length hs) \<and> (r = Done \<longrightarrow> t = 3)
    \<and> log s' = log s @ historyQuery d v # qs
        @ take t [pruneHistoryQuery d v, pg_GetUpdateCursorQuery dedent (cursor_identifier l) h c, ''COMMIT'']"
proof -
  let ?di = "pg_iface d zone dedent" and ?u = "pg_GetUpdateCursorQuery dedent (cursor_identifier l) h c"
  have di: "di_Revert ?di tx v s = pg_Revert d tx v s" by (simp add: pg_iface_def)
  have body: "revert_body ?di l tx None h c v s = ((r, None), s')"
    using run start by (auto simp: Loader_Revert_def revert_body_def revert_deferred_def split: prod.splits Outcome.splits option.splits)
  obtain a s2 where a: "pg_Revert d tx v s = (a, s2)" by fastforce
  from revertWith_log [OF a [unfolded pg_Revert_def]] obtain k qs t where
    k: "k \<le> length hs" "undo_queries ''json_populate_record'' (take k hs) qs" "t \<le> 1" "0 < t \<longrightarrow> k = length hs"
      "log s2 = log s @ historyQuery d v # qs @ take t [pruneHistoryQuery d v]" "a = Done \<longrightarrow> t = 1"
    unfolding hs_def by blast
  show ?thesis
  proof (cases "a = Done")
    case False
    then have "r = a" "s' = s2" using body a di by (auto simp: revert_body_def split: Outcome.splits)
    then show ?thesis using k False by (intro exI [of _ k] exI [of _ qs] exI [of _ t]) (auto simp: take_Cons')
  next
    case True
    with k have t: "t = 1" "k = length hs" by auto
    obtain b s3 where b: "UpdateCursor ?di l tx h c s2 = (b, s3)" by fastforce
    have log3: "log s3 = log s2 @ [?u]" using UpdateCursor_log [of ?di l h c s2] unfolding b by (simp add: pg_iface_def)
    show ?thesis
    proof (cases b)
      case (Some e)
      then have "r \<noteq> Done" "s' = s3" using body a True b di by (auto simp: revert_body_def)
      then show ?thesis using k t log3 by (intro exI [of _ k] exI [of _ qs] exI [of _ 2]) simp
    next
      case None
      have "log s' = log s3 @ [''COMMIT'']"
        using body a True b None di log_commit [of s3] by (auto simp: revert_body_def split: prod.splits option.splits)
      then show ?thesis using k t log3 by (intro exI [of _ k] exI [of _ qs] exI [of _ 3]) simp
    qed
  qed
qed

end

section \<open>The choice of a cursor\<close>

definition highest_step :: "string \<times> Cursor \<Rightarrow> string \<times> Cursor option \<Rightarrow> string \<times> Cursor option" where
  "highest_step = (\<lambda>(moduleHash, cursor) (hash, highest).
             case highest of
               None \<Rightarrow> (moduleHash, Some cursor)
             | Some h \<Rightarrow> if c_num cursor > c_num h then (moduleHash, Some cursor) else (hash, highest))"

lemma highest_fold:
  "\<exists>m d. fold highest_step cs (h, Some c) = (m, Some d) \<and> (m, d) \<in> insert (h, c) (set cs)
     \<and> (\<forall>(m', e) \<in> insert (h, c) (set cs). c_num e \<le> c_num d)"
proof (induction cs arbitrary: h c)
  case (Cons p cs)
  obtain m' e where p: "p = (m', e)" by fastforce
  show ?case
  proof (cases "c_num e > c_num c")
    case True
    obtain m d where "fold highest_step cs (m', Some e) = (m, Some d)" "(m, d) \<in> insert (m', e) (set cs)"
      "\<forall>(m'', e') \<in> insert (m', e) (set cs). c_num e' \<le> c_num d" using Cons.IH [of m' e] by blast
    then show ?thesis using True by (auto simp: p highest_step_def)
  next
    case False
    obtain m d where "fold highest_step cs (h, Some c) = (m, Some d)" "(m, d) \<in> insert (h, c) (set cs)"
      "\<forall>(m'', e') \<in> insert (h, c) (set cs). c_num e' \<le> c_num d" using Cons.IH [of h c] by blast
    then show ?thesis using False by (auto simp: p highest_step_def)
  qed
qed auto

lemma cursorAtHighestBlock_max:
  assumes "cs \<noteq> []"
  shows "\<exists>m d. cursorAtHighestBlock cs = (m, Some d) \<and> (m, d) \<in> set cs
     \<and> (\<forall>(m', e) \<in> set cs. c_num e \<le> c_num d)"
proof -
  obtain h c cs' where cs: "cs = (h, c) # cs'" using assms by (cases cs) auto
  have "cursorAtHighestBlock cs = fold highest_step cs' (h, Some c)"
    by (simp add: cursorAtHighestBlock_def highest_step_def cs)
  then show ?thesis using highest_fold [of cs' h c] by (simp add: cs)
qed

text \<open>What \<open>GetCursor\<close> returns in every state of the cursor table\<close>

lemma GetCursor_result:
  assumes "OnModuleHashMismatch_IsValid (moduleMismatchMode l)"
    "GetAllCursors db di newCursor l s = (Inr cursors, s')"
  shows "\<exists>cur mismatch err. GetCursor db di newCursor blank l hash s = (Some (cur, mismatch, err), s')
    \<and> (if cursors = [] then cur = Some blank \<and> \<not> mismatch \<and> err = Some ErrCursorNotFound
       else case map_of cursors hash of
         Some active \<Rightarrow> cur = Some active \<and> \<not> mismatch \<and> err = None
       | None \<Rightarrow> mismatch \<and>
           (if moduleMismatchMode l = OnModuleHashMismatchError
            then cur = None \<and> err \<noteq> None \<and> \<not> errors_Is (the err) ErrCursorNotFound
            else err = None \<and> (\<exists>h c. cur = Some c \<and> (h, c) \<in> set cursors
                   \<and> (\<forall>(_, c') \<in> set cursors. c_num c' \<le> c_num c))))"
proof (cases "cursors = []")
  case True
  then show ?thesis using assms(2)
    by (intro exI [of _ "Some blank"] exI [of _ False] exI [of _ "Some ErrCursorNotFound"]) (simp add: GetCursor_def)
next
  case False
  obtain h c where h: "cursorAtHighestBlock cursors = (h, Some c)" "(h, c) \<in> set cursors"
    "\<forall>(_, c') \<in> set cursors. c_num c' \<le> c_num c" using cursorAtHighestBlock_max [OF False] by blast
  have "moduleMismatchMode l \<in> {OnModuleHashMismatchIgnore, OnModuleHashMismatchWarn, OnModuleHashMismatchError}"
    using assms(1) by (auto simp: OnModuleHashMismatch_IsValid_def OnModuleHashMismatchMap_def split: if_splits)
  then show ?thesis using False h assms(2)
    by (cases "map_of cursors hash")
       (auto simp: GetCursor_def OnModuleHashMismatchIgnore_def OnModuleHashMismatchWarn_def OnModuleHashMismatchError_def)
qed

end
