(* ===== verification/Sinker.thy ===== *)
theory Sinker
  imports FlushFacts
begin

text \<open>
  The sink of database changes (\<open>src/db_changes/sinker/sinker.go\<close>, the state of \<open>stats.go\<close>): the
  handlers that the Substreams client calls for a block, for an undo signal and at the end of the
  range, and the retries of a flush. The client library, protobuf and the clock are parameters,
  collected in the record \<open>SinkEnv\<close>.
\<close>

section \<open>Messages\<close>

text \<open>The messages of \<open>sf.substreams.sink.database.v1\<close> and the parts of a block the sink reads\<close>

datatype TableOp = OPERATION_UNSET | OPERATION_CREATE | OPERATION_UPDATE | OPERATION_DELETE | OPERATION_UPSERT

datatype ChangeKey = Pk string | CompositePk "string gomap" | NoPk

record Field =
  f_name :: string
  f_newValue :: string

record TableChange =
  tc_table :: string
  tc_key :: ChangeKey
  tc_operation :: TableOp
  tc_fields :: "Field list"

text \<open>\<open>anypb.Any\<close>: its text, its type and its bytes\<close>

record AnyMsg =
  any_String :: string
  any_TypeUrl :: string
  any_MessageName :: string
  any_Value :: string

record BlockData =
  bd_outputName :: string
  bd_mapOutput :: AnyMsg
  bd_number :: u64
  bd_timestamp :: int
  bd_finalBlockHeight :: u64

section \<open>State and environment\<close>

record Stats =
  flushDurations :: "int list"
  lastBlock :: "u64 \<times> string"

text \<open>Times and durations are nanoseconds.\<close>

record Sinker =
  sk_loader :: Loader
  sk_stats :: Stats
  lastAppliedBlockNum :: u64
  lastAppliedBlockTime :: int
  flushRetryCount :: int
  flushRetryDelay :: int

record 's SinkEnv =
  e_db :: "'s Db"
  e_testTx :: "'s Tx option"
  e_di :: "'s DialectI"
  e_newCursor :: "string \<Rightarrow> Cursor res"
  e_blankCursor :: Cursor
  e_isBlank :: "Cursor \<Rightarrow> bool"
  e_moduleName :: string
  e_moduleHash :: string
  e_messageIs :: "AnyMsg \<Rightarrow> bool"
  e_unmarshal :: "string \<Rightarrow> TableChange list res"
  e_reachedEndBlock :: "u64 \<Rightarrow> bool"
  e_average :: "int list \<Rightarrow> int"
  e_cancelled :: "nat \<Rightarrow> GoErr option"
  e_flushTook :: "'s \<Rightarrow> int"

definition zeroTime :: int where
  "zeroTime = - 62135596800 * 10 ^ 9"

definition NewSinker :: "Loader \<Rightarrow> int \<Rightarrow> int \<Rightarrow> Sinker" where
  "NewSinker l retryCount retryDelay =
     \<lparr>sk_loader = l, sk_stats = \<lparr>flushDurations = [], lastBlock = (0, [])\<rparr>, lastAppliedBlockNum = 0,
      lastAppliedBlockTime = zeroTime, flushRetryCount = retryCount, flushRetryDelay = retryDelay\<rparr>"

definition RecordBlock :: "u64 \<times> string \<Rightarrow> Stats \<Rightarrow> Stats" where
  "RecordBlock b st = st\<lparr>lastBlock := b\<rparr>"

definition RecordFlushDuration :: "int \<Rightarrow> Stats \<Rightarrow> Stats" where
  "RecordFlushDuration took st = st\<lparr>flushDurations := flushDurations st @ [took]\<rparr>"

text \<open>\<open>time.Time.Sub\<close> saturates.\<close>

definition timeSub :: "int \<Rightarrow> int \<Rightarrow> int" where
  "timeSub a b = max (- (2 ^ 63)) (min (2 ^ 63 - 1) (a - b))"

section \<open>Applying the changes of a block\<close>

definition fields_map :: "Field list \<Rightarrow> string gomap" where
  "fields_map fs = fold (\<lambda>f m. AList.update (f_name f) (f_newValue f) m) fs []"

text \<open>The primary key of a change. The inner result is \<open>None\<close> for the panic of a missing table,
  which \<open>HasTable\<close> excludes.\<close>

definition change_primaryKey :: "Loader \<Rightarrow> TableChange \<Rightarrow> (string gomap res) option" where
  "change_primaryKey l change =
     (case tc_key change of
        Pk pk \<Rightarrow> GetPrimaryKey l (tc_table change) pk
      | CompositePk ks \<Rightarrow> Some (Inr ks)
      | NoPk \<Rightarrow> Some (Inl (Errorf ''unknown primary key type: %T'' [])))"

text \<open>The loader's method for the operation of a change; an operation that is not one of the four
  does nothing and is no error.\<close>

definition call_operation ::
    "Loader \<Rightarrow> string \<Rightarrow> TableOp \<Rightarrow> string gomap \<Rightarrow> string gomap \<Rightarrow> u64 option \<Rightarrow> GoErr option \<times> Loader" where
  "call_operation l t operation pk data r =
     (case operation of
        OPERATION_CREATE \<Rightarrow> (case Insert l t pk data r of
          (Some e, l') \<Rightarrow> (Some (Wrapf ''database insert'' [] e), l') | (None, l') \<Rightarrow> (None, l'))
      | OPERATION_UPSERT \<Rightarrow> (case Upsert l t pk data r of
          (Some e, l') \<Rightarrow> (Some (Wrapf ''database upsert'' [] e), l') | (None, l') \<Rightarrow> (None, l'))
      | OPERATION_UPDATE \<Rightarrow> (case Update l t pk data r of
          (Some e, l') \<Rightarrow> (Some (Wrapf ''database update'' [] e), l') | (None, l') \<Rightarrow> (None, l'))
      | OPERATION_DELETE \<Rightarrow> (case Delete l t pk r of
          (Some e, l') \<Rightarrow> (Some (Wrapf ''database delete'' [] e), l') | (None, l') \<Rightarrow> (None, l'))
      | OPERATION_UNSET \<Rightarrow> (None, l))"

definition applyTableChange :: "Loader \<Rightarrow> TableChange \<Rightarrow> u64 \<Rightarrow> u64 \<Rightarrow> Outcome \<times> Loader" where
  "applyTableChange l change blockNum finalBlockNum =
     (if \<not> HasTable l (tc_table change)
      then (Fail (Errorf ''your Substreams sent us a change for a table named %s we don't know about on %s (available tables: %s)''
              [AStr (tc_table change), AStr (GetIdentifier l), AStr (joinS '', '' (GetAvailableTablesInSchema l))]), l)
      else case change_primaryKey l change of
        None \<Rightarrow> (Panicked, l)
      | Some (Inl e) \<Rightarrow> (Fail e, l)
      | Some (Inr primaryKeys) \<Rightarrow>
          let changes = fields_map (tc_fields change);
              reversibleBlockNum = (if blockNum > finalBlockNum then Some blockNum else None)
          in case call_operation l (tc_table change) (tc_operation change) primaryKeys changes reversibleBlockNum of
               (Some e, l') \<Rightarrow> (Fail e, l') | (None, l') \<Rightarrow> (Done, l'))"

fun applyDatabaseChanges :: "Loader \<Rightarrow> TableChange list \<Rightarrow> u64 \<Rightarrow> u64 \<Rightarrow> Outcome \<times> Loader" where
  "applyDatabaseChanges l [] blockNum finalBlockNum = (Done, l)"
| "applyDatabaseChanges l (change # cs) blockNum finalBlockNum =
     (case applyTableChange l change blockNum finalBlockNum of
        (Done, l') \<Rightarrow> applyDatabaseChanges l' cs blockNum finalBlockNum
      | r \<Rightarrow> r)"

section \<open>Flushing with retries\<close>

text \<open>The attempts that are left, the number of this attempt and the error of the last one. Before a
  retry the code waits, unless the delay is zero: then it gives up with the bare error.\<close>

fun flush_attempts ::
    "'s SinkEnv \<Rightarrow> int \<Rightarrow> Cursor \<Rightarrow> u64 \<Rightarrow> int \<Rightarrow> nat \<Rightarrow> nat \<Rightarrow> GoErr \<Rightarrow> Loader \<Rightarrow> 's \<Rightarrow> int res \<times> Loader \<times> 's" where
  "flush_attempts env delay cursor final retries 0 attempt lastErr l s =
     (Inl (Wrapf ''flush failed after %d retries'' [ANat (nat retries)] lastErr), l, s)"
| "flush_attempts env delay cursor final retries (Suc n) attempt lastErr l s =
     (if 0 < attempt \<and> delay = 0 then (Inl lastErr, l, s)
      else case (if 0 < attempt then e_cancelled env attempt else None) of
        Some e \<Rightarrow> (Inl e, l, s)
      | None \<Rightarrow>
          (case Loader_Flush (e_db env) (e_testTx env) (e_di env) l (e_moduleHash env) cursor final s of
             (Inr rowCount, l', s') \<Rightarrow> (Inr rowCount, l', s')
           | (Inl e, l', s') \<Rightarrow> flush_attempts env delay cursor final retries n (attempt + 1) e l' s'))"

text \<open>The error wrapped when there was no attempt (a negative retry count) is nil.\<close>

definition flushWithRetry ::
    "'s SinkEnv \<Rightarrow> int \<Rightarrow> Cursor \<Rightarrow> u64 \<Rightarrow> int \<Rightarrow> Loader \<Rightarrow> 's \<Rightarrow> int res \<times> Loader \<times> 's" where
  "flushWithRetry env delay cursor finalBlockHeight retries l s =
     flush_attempts env delay cursor finalBlockHeight retries (nat (retries + 1)) 0
       (Errorf ''%!w(<nil>)'' []) l s"

section \<open>Handlers\<close>

text \<open>A nil liveness is a panic.\<close>

definition batchBlockModulo :: "Loader \<Rightarrow> bool option \<Rightarrow> u64 option" where
  "batchBlockModulo l isLive =
     (case isLive of
        None \<Rightarrow> None
      | Some live \<Rightarrow> Some
          (if live then word_of_int (liveBlockFlushInterval l)
           else if batchBlockFlushInterval l > 0 then word_of_int (batchBlockFlushInterval l)
           else 0))"

definition blockFlushNeeded :: "'s SinkEnv \<Rightarrow> Sinker \<Rightarrow> u64 \<Rightarrow> bool \<Rightarrow> BlockData \<Rightarrow> bool" where
  "blockFlushNeeded env sk interval live data =
     (interval > 0 \<and> bd_number data - lastAppliedBlockNum sk \<ge> interval
      \<and> \<not> (live \<and> e_average env (flushDurations (sk_stats sk)) > timeSub (bd_timestamp data) (lastAppliedBlockTime sk)))"

text \<open>The changes of the block go into the batch\<close>

definition receiveChanges :: "'s SinkEnv \<Rightarrow> BlockData \<Rightarrow> Loader \<Rightarrow> Outcome \<times> Loader" where
  "receiveChanges env data l =
     (if bd_outputName data \<noteq> e_moduleName env
      then (Fail (Errorf ''received data from wrong output module, expected to received from %q but got module's output for %q''
              [AStr (e_moduleName env), AStr (bd_outputName data)]), l)
      else if any_String (bd_mapOutput data) = [] then (Done, l)
      else if \<not> e_messageIs env (bd_mapOutput data)
           \<and> any_TypeUrl (bd_mapOutput data) \<noteq> ''type.googleapis.com/sf.substreams.database.v1.DatabaseChanges''
      then (Fail (Errorf ''mismatched message type: trying to unmarshal unknown type %q'' [AStr (any_MessageName (bd_mapOutput data))]), l)
      else case e_unmarshal env (any_Value (bd_mapOutput data)) of
        Inl e \<Rightarrow> (Fail (Wrapf ''unmarshal database changes'' [] e), l)
      | Inr dbChanges \<Rightarrow>
          (case applyDatabaseChanges l dbChanges (bd_number data) (bd_finalBlockHeight data) of
             (Fail e, l') \<Rightarrow> (Fail (Wrapf ''apply database changes'' [] e), l')
           | r \<Rightarrow> r))"

definition cursor_block :: "Cursor \<Rightarrow> u64 \<times> string" where
  "cursor_block c = (c_num c, c_id c)"

definition recordFlush :: "int \<Rightarrow> BlockData \<Rightarrow> Cursor \<Rightarrow> Sinker \<Rightarrow> Sinker" where
  "recordFlush took data cursor sk =
     sk\<lparr>sk_stats := RecordFlushDuration took (RecordBlock (cursor_block cursor) (sk_stats sk)),
        lastAppliedBlockNum := bd_number data, lastAppliedBlockTime := bd_timestamp data\<rparr>"

definition HandleBlockScopedData ::
    "'s SinkEnv \<Rightarrow> BlockData \<Rightarrow> bool option \<Rightarrow> Cursor \<Rightarrow> Sinker \<Rightarrow> 's \<Rightarrow> Outcome \<times> Sinker \<times> 's" where
  "HandleBlockScopedData env data isLive cursor sk s =
     (case receiveChanges env data (sk_loader sk) of
        (Done, l1) \<Rightarrow>
          (let sk1 = sk\<lparr>sk_loader := l1\<rparr> in
           case isLive of
             None \<Rightarrow> (Panicked, sk1, s)
           | Some live \<Rightarrow>
               (let interval = (case batchBlockModulo l1 isLive of Some m \<Rightarrow> m | None \<Rightarrow> 0) in
                if \<not> (blockFlushNeeded env sk1 interval live data \<or> FlushNeeded l1) then (Done, sk1, s)
                else case flushWithRetry env (flushRetryDelay sk) cursor (bd_finalBlockHeight data) (flushRetryCount sk) l1 s of
                  (Inl e, l2, s') \<Rightarrow>
                    (Fail (Wrapf ''failed to flush at block %s'' [ANat (unat (c_num cursor)), AStr (c_id cursor)] e),
                     sk1\<lparr>sk_loader := l2\<rparr>, s')
                | (Inr _, l2, s') \<Rightarrow> (Done, recordFlush (e_flushTook env s') data cursor (sk1\<lparr>sk_loader := l2\<rparr>), s')))
      | (r, l1) \<Rightarrow> (r, sk\<lparr>sk_loader := l1\<rparr>, s))"

definition HandleBlockRangeCompletion ::
    "'s SinkEnv \<Rightarrow> Cursor \<Rightarrow> Sinker \<Rightarrow> 's \<Rightarrow> Outcome \<times> Sinker \<times> 's" where
  "HandleBlockRangeCompletion env cursor sk s =
     (if \<not> e_reachedEndBlock env (c_num cursor) then (Done, sk, s)
      else case flushWithRetry env (flushRetryDelay sk) cursor (c_num cursor) (flushRetryCount sk) (sk_loader sk) s of
        (Inl e, l, s') \<Rightarrow>
          (Fail (Wrapf ''failed to flush %s block on completion'' [ANat (unat (c_num cursor)), AStr (c_id cursor)] e),
           sk\<lparr>sk_loader := l\<rparr>, s')
      | (Inr _, l, s') \<Rightarrow> (Done, sk\<lparr>sk_loader := l\<rparr>, s'))"

text \<open>The undo of blocks is the revert of the database. The batch, the last applied block and its
  time are not touched.\<close>

definition HandleBlockUndoSignal ::
    "'s SinkEnv \<Rightarrow> u64 \<Rightarrow> Cursor \<Rightarrow> Sinker \<Rightarrow> 's \<Rightarrow> Outcome \<times> Sinker \<times> 's" where
  "HandleBlockUndoSignal env lastValidBlock cursor sk s =
     (case Loader_Revert (e_db env) (e_testTx env) (e_di env) (sk_loader sk) (e_moduleHash env) cursor lastValidBlock s of
        (r, s') \<Rightarrow> (r, sk, s'))"

section \<open>Starting\<close>

text \<open>The start of \<open>Run\<close>: the cursor the client library is run from, or the error the sink shuts
  down with. \<open>None\<close> is a panic of \<open>GetCursor\<close>.\<close>

definition Run :: "'s SinkEnv \<Rightarrow> Sinker \<Rightarrow> 's \<Rightarrow> (Cursor option res \<times> Sinker) option \<times> 's" where
  "Run env sk s =
     (let l = sk_loader sk;
          go = (\<lambda>cursor. (let blk = (case cursor of Some c \<Rightarrow> c_num c | None \<Rightarrow> 0);
                             st = sk_stats sk;
                             st' = (case cursor of Some c \<Rightarrow>
                                if e_isBlank env c then st else RecordBlock (cursor_block c) st | None \<Rightarrow> st)
                         in (Inr cursor, sk\<lparr>lastAppliedBlockNum := blk, sk_stats := st'\<rparr>))) in
      case GetCursor (e_db env) (e_di env) (e_newCursor env) (e_blankCursor env) l (e_moduleHash env) s of
        (None, s1) \<Rightarrow> (None, s1)
      | (Some (cursor, mismatch, err), s1) \<Rightarrow>
          (case err of
             Some e \<Rightarrow>
               if \<not> errors_Is e ErrCursorNotFound
               then (Some (Inl (Wrapf ''unable to retrieve cursor'' [] e), sk), s1)
               else (case InsertCursor (e_db env) l (e_moduleHash env) (e_blankCursor env) s1 of
                  (Some e', s2) \<Rightarrow> (Some (Inl (Wrapf ''unable to write initial empty cursor'' [] e'), sk), s2)
                | (None, s2) \<Rightarrow> (Some (go cursor), s2))
           | None \<Rightarrow>
               if mismatch then
                 (case cursor of
                    None \<Rightarrow> (None, s1)
                  | Some c \<Rightarrow>
                     (case InsertCursor (e_db env) l (e_moduleHash env) c s1 of
                        (Some e', s2) \<Rightarrow> (Some (Inl (Wrapf ''unable to write new cursor after module mismatch'' [] e'), sk), s2)
                      | (None, s2) \<Rightarrow> (Some (go cursor), s2)))
               else (Some (go cursor), s1)))"

end
