(* ===== verification/SinkerFacts.thy ===== *)
theory SinkerFacts
  imports Sinker
begin

text \<open>
  Lemmas on the sink: what applying the changes of a block does to the batch, what a flush with
  retries sends, and when the handler of a block flushes.
\<close>

section \<open>Changes of a block\<close>

definition reversible_of :: "u64 \<Rightarrow> u64 \<Rightarrow> u64 option" where
  "reversible_of blockNum finalBlockNum = (if blockNum > finalBlockNum then Some blockNum else None)"

fun to_change :: "TableOp \<Rightarrow> string gomap \<Rightarrow> string gomap \<Rightarrow> u64 option \<Rightarrow> Change option" where
  "to_change OPERATION_CREATE pk d r = Some (CInsert pk d r)"
| "to_change OPERATION_UPSERT pk d r = Some (CUpsert pk d r)"
| "to_change OPERATION_UPDATE pk d r = Some (CUpdate pk d r)"
| "to_change OPERATION_DELETE pk d r = Some (CDelete pk r)"
| "to_change OPERATION_UNSET pk d r = None"

lemma call_operation_change:
  "call_operation l t operation pk d r = (e, l') \<Longrightarrow>
   (case to_change operation pk d r of None \<Rightarrow> e = None \<and> l' = l
    | Some c \<Rightarrow> l' = snd (apply_change l t c) \<and> (e = None \<longleftrightarrow> fst (apply_change l t c) = None))"
  by (cases operation) (auto simp: call_operation_def split: prod.splits option.splits)

definition key_ok :: "TableChange \<Rightarrow> bool" where
  "key_ok ch = (case tc_key ch of CompositePk ks \<Rightarrow> wf_map ks | _ \<Rightarrow> True)"

lemma wf_fields_map: "wf_map (fields_map fs)"
proof -
  have "wf_map m \<Longrightarrow> wf_map (fold (\<lambda>f m. AList.update (f_name f) (f_newValue f) m) fs m)" for m
    by (induction fs arbitrary: m) (simp_all add: wf_map_def distinct_update)
  then show ?thesis by (simp add: fields_map_def wf_map_def)
qed

lemma change_primaryKey_ok:
  assumes "HasTable l (tc_table ch)" "key_ok ch"
  obtains e where "change_primaryKey l ch = Some (Inl e)" | pk where "change_primaryKey l ch = Some (Inr pk)" "wf_map pk"
proof (cases "tc_key ch")
  case (Pk pk)
  obtain tb where tb: "map_of (tables l) (tc_table ch) = Some tb" using assms(1) by (auto simp: HasTable_def)
  have "change_primaryKey l ch = GetPrimaryKey l (tc_table ch) pk" by (simp add: change_primaryKey_def Pk)
  then show ?thesis using that
    by (cases "primaryColumns tb" rule: remdups_adj.cases) (simp_all add: GetPrimaryKey_def tb wf_map_def)
qed (use that assms in \<open>auto simp: change_primaryKey_def key_ok_def\<close>)

lemma to_change_wf:
  "to_change operation pk d r = Some c \<Longrightarrow> wf_map pk \<Longrightarrow> wf_map d \<Longrightarrow> change_wf c"
  by (cases operation) auto

text \<open>One change: nothing happens, or the batch makes one step.\<close>

lemma applyTableChange_step:
  assumes "applyTableChange l ch b f = (out, l')" "key_ok ch"
  shows "out \<noteq> Panicked \<and> (l' = l \<or> (\<exists>operation pk c. to_change operation pk (fields_map (tc_fields ch)) (reversible_of b f) = Some c
     \<and> change_wf c \<and> l' = snd (apply_change l (tc_table ch) c)))"
proof (cases "HasTable l (tc_table ch)")
  case False
  then show ?thesis using assms(1) by (auto simp: applyTableChange_def)
next
  case True
  from change_primaryKey_ok [OF this assms(2)] show ?thesis
  proof cases
    case (1 e)
    then show ?thesis using assms(1) True by (auto simp: applyTableChange_def)
  next
    case (2 pk)
    obtain e l1 where call: "call_operation l (tc_table ch) (tc_operation ch) pk (fields_map (tc_fields ch)) (reversible_of b f) = (e, l1)"
      by fastforce
    then have "l' = l1" "out \<noteq> Panicked"
      using assms(1) True 2(1) by (auto simp: applyTableChange_def reversible_of_def Let_def split: option.splits)
    then show ?thesis using call_operation_change [OF call] to_change_wf [OF _ 2(2) wf_fields_map]
      by (cases "to_change (tc_operation ch) pk (fields_map (tc_fields ch)) (reversible_of b f)") (simp, fastforce)
  qed
qed

text \<open>The operation that a step leaves for a row has the step's block or keeps the old one.\<close>

definition from_block :: "u64 option \<Rightarrow> Loader \<Rightarrow> Loader \<Rightarrow> bool" where
  "from_block r l l' \<longleftrightarrow> (\<forall>k q. pending l' k = Some q \<longrightarrow> op_reversibleBlockNum q = r
     \<or> (\<exists>p. pending l k = Some p \<and> op_reversibleBlockNum q = op_reversibleBlockNum p))"

lemma from_block_refl: "from_block r l l"
  by (auto simp: from_block_def)

lemma from_block_trans: "from_block r l l1 \<Longrightarrow> from_block r l1 l2 \<Longrightarrow> from_block r l l2"
  unfolding from_block_def by metis

fun change_reversible :: "Change \<Rightarrow> u64 option" where
  "change_reversible (CInsert _ _ r) = r"
| "change_reversible (CUpsert _ _ r) = r"
| "change_reversible (CUpdate _ _ r) = r"
| "change_reversible (CDelete _ r) = r"

lemma to_change_reversible: "to_change operation pk d r = Some c \<Longrightarrow> change_reversible c = r"
  by (cases operation) auto

lemma next_op_reversible:
  "op_reversibleBlockNum (next_op tb n p c) = (if merges p c then op_reversibleBlockNum (the p) else change_reversible c)"
  by (cases c) (simp_all add: next_op_def merged_op_def fresh_op_def newInsertOperation_def
      newUpsertOperation_def newUpdateOperation_def newDeleteOperation_def)

text \<open>A step of the batch: its invariant, the counter and the marks\<close>

lemma batch_step:
  fixes t :: string
  assumes "batch_ok l" "change_wf c" "unat (batchOrdinal l) < 2 ^ 64 - 1"
  defines "l' \<equiv> snd (apply_change l t c)"
  shows "batch_ok l'" "unat (batchOrdinal l') \<le> unat (batchOrdinal l) + 1" "from_block (change_reversible c) l l'"
proof -
  show "batch_ok l'" unfolding l'_def by (rule batch_ok_change [OF assms(1-3)])
  have impl: "implements (spec_of l t c) l (apply_change l t c)"
    using assms(1) tables_ok_primary [of l t] by (intro apply_change_refines) (simp add: batch_ok_def)
  have suc: "unat (batchOrdinal l + 1) \<le> unat (batchOrdinal l) + 1"
    using assms(3) by (simp add: unat_Suc_lt)
  show "unat (batchOrdinal l') \<le> unat (batchOrdinal l) + 1"
    using impl suc unfolding l'_def
    by (auto simp: implements_def spec_change_def abs_loader_def Let_def split: option.splits if_splits)
  show "from_block (change_reversible c) l l'"
  proof (cases "spec_of l t c")
    case None
    then have "pending l' = pending l" using impl by (simp add: implements_def abs_loader_def l'_def)
    then show ?thesis by (auto simp: from_block_def)
  next
    case (Some a)
    then obtain tb where tb: "a_pending a = (pending l)((t, createRowUniqueID (change_key c)) \<mapsto>
        next_op tb (batchOrdinal l) (pending l (t, createRowUniqueID (change_key c))) c)"
      by (auto simp: spec_change_def abs_loader_def Let_def split: option.splits if_splits)
    have "abs_loader l' = a" using impl Some by (simp add: implements_def l'_def)
    then have "pending l' = a_pending a" by (auto simp: abs_loader_def)
    with tb have "pending l' = (pending l)((t, createRowUniqueID (change_key c)) \<mapsto>
        next_op tb (batchOrdinal l) (pending l (t, createRowUniqueID (change_key c))) c)" by simp
    then show ?thesis by (auto simp: from_block_def next_op_reversible merges_def split: if_splits)
  qed
qed

lemma applyTableChange_ok:
  assumes "applyTableChange l ch b f = (out, l')" "key_ok ch" "batch_ok l" "unat (batchOrdinal l) < 2 ^ 64 - 1"
  shows "out \<noteq> Panicked" "batch_ok l'" "unat (batchOrdinal l') \<le> unat (batchOrdinal l) + 1" "from_block (reversible_of b f) l l'"
proof -
  note step = applyTableChange_step [OF assms(1,2)]
  show "out \<noteq> Panicked" using step by blast
  consider "l' = l" | c where "change_wf c" "change_reversible c = reversible_of b f" "l' = snd (apply_change l (tc_table ch) c)"
    using step to_change_reversible by blast
  then have "batch_ok l' \<and> unat (batchOrdinal l') \<le> unat (batchOrdinal l) + 1 \<and> from_block (reversible_of b f) l l'"
  proof cases
    case 1
    then show ?thesis using assms(3) by (simp add: from_block_refl)
  next
    case 2
    then show ?thesis using batch_step [OF assms(3) 2(1) assms(4), of "tc_table ch"] by simp
  qed
  then show "batch_ok l'" "unat (batchOrdinal l') \<le> unat (batchOrdinal l) + 1" "from_block (reversible_of b f) l l'"
    by simp_all
qed

lemma applyDatabaseChanges_ok:
  assumes "applyDatabaseChanges l cs b f = (out, l')" "list_all key_ok cs" "batch_ok l"
    "unat (batchOrdinal l) + length cs < 2 ^ 64"
  shows "out \<noteq> Panicked \<and> batch_ok l' \<and> from_block (reversible_of b f) l l'"
  using assms
proof (induction cs arbitrary: l)
  case Nil
  then show ?case by (auto simp: from_block_refl)
next
  case (Cons ch cs)
  obtain o1 l1 where ap: "applyTableChange l ch b f = (o1, l1)" by fastforce
  have lt: "unat (batchOrdinal l) < 2 ^ 64 - 1" using Cons.prems(4) by simp
  note ok = applyTableChange_ok [OF ap _ Cons.prems(3) lt]
  have k: "key_ok ch" "list_all key_ok cs" using Cons.prems(2) by simp_all
  show ?case
  proof (cases "o1 = Done")
    case True
    then have "applyDatabaseChanges l1 cs b f = (out, l')" using Cons.prems(1) ap by simp
    from Cons.IH [OF this k(2) ok(2) [OF k(1)]] ok(3,4) [OF k(1)] Cons.prems(4) show ?thesis
      using from_block_trans by fastforce
  next
    case False
    then have "out = o1" "l' = l1" using Cons.prems(1) ap by (auto split: Outcome.splits)
    then show ?thesis using ok [OF k(1)] by blast
  qed
qed

section \<open>Flushing with retries\<close>

text \<open>What a flush that succeeds, and one that fails, sends\<close>

definition final_statements ::
    "Dialect \<Rightarrow> (string \<Rightarrow> string) \<Rightarrow> Loader \<Rightarrow> string \<Rightarrow> Cursor \<Rightarrow> u64 \<Rightarrow> string list" where
  "final_statements d dedent l h c final =
     [pruneReversibleQuery d (schemaName d) final,
      pg_GetUpdateCursorQuery dedent (cursor_identifier l) h c, ''COMMIT'']"

definition whole_flush ::
    "Dialect \<Rightarrow> (int \<Rightarrow> int) \<Rightarrow> (string \<Rightarrow> string) \<Rightarrow> Loader \<Rightarrow> string \<Rightarrow> Cursor \<Rightarrow> u64 \<Rightarrow> string list \<Rightarrow> bool" where
  "whole_flush d zone dedent l h c final qs \<longleftrightarrow>
     (\<exists>ss. traverse (prepareStatement d zone (schemaName d)) (sortedOperations l) = Inr ss
        \<and> qs = ss @ final_statements d dedent l h c final)"

definition failed_flush ::
    "Dialect \<Rightarrow> (int \<Rightarrow> int) \<Rightarrow> (string \<Rightarrow> string) \<Rightarrow> Loader \<Rightarrow> string \<Rightarrow> Cursor \<Rightarrow> u64 \<Rightarrow> string list \<Rightarrow> bool" where
  "failed_flush d zone dedent l h c final qs \<longleftrightarrow>
     (\<exists>k ss t. k \<le> length (sortedOperations l)
        \<and> traverse (prepareStatement d zone (schemaName d)) (take k (sortedOperations l)) = Inr ss
        \<and> (t = 0 \<or> k = length (sortedOperations l))
        \<and> qs = ss @ take t (final_statements d dedent l h c final) @ [''ROLLBACK''])"

lemma flush_once:
  assumes "Loader_Flush db (Some (logged tx)) (pg_iface d zone dedent) l h c final (s, g) = (r, l', (s', g'))"
  shows "case r of Inr n \<Rightarrow> l' = reset l \<and> n = int (length (sortedOperations l)) + 1
             \<and> (\<exists>qs. whole_flush d zone dedent l h c final qs \<and> g' = g @ qs)
         | Inl e \<Rightarrow> l' = l \<and> (\<exists>qs. failed_flush d zone dedent l h c final qs \<and> g' = g @ qs)"
proof -
  have "BeginTx db (Some (logged tx)) l (s, g) = (Inr (logged tx), (s, g))" by (simp add: BeginTx_def)
  note run = logged_tx.Loader_Flush_log [OF this assms]
  show ?thesis
  proof (cases r)
    case (Inl e)
    then show ?thesis using run unfolding logged_tx.closing_def failed_flush_def final_statements_def by auto
  next
    case (Inr n)
    then show ?thesis using run unfolding logged_tx.closing_def whole_flush_def final_statements_def by auto
  qed
qed

lemma flush_attempts_log:
  assumes "flush_attempts env delay c final retries n k lastErr l (s, g) = (r, l', (s', g'))"
    "e_testTx env = Some (logged tx)" "e_di env = pg_iface d zone dedent"
  shows "\<exists>fails. list_all (failed_flush d zone dedent l (e_moduleHash env) c final) fails \<and> length fails \<le> n
     \<and> (0 < k \<and> delay = 0 \<longrightarrow> fails = [])
     \<and> (case r of
          Inr m \<Rightarrow> l' = reset l \<and> m = int (length (sortedOperations l)) + 1 \<and> length fails < n
            \<and> (\<exists>qs. whole_flush d zone dedent l (e_moduleHash env) c final qs \<and> g' = g @ concat fails @ qs)
        | Inl e \<Rightarrow> l' = l \<and> g' = g @ concat fails)"
  using assms
proof (induction n arbitrary: k lastErr s g)
  case 0
  then show ?case by auto
next
  case (Suc n)
  show ?case
  proof (cases "0 < k \<and> delay = 0 \<or> (if 0 < k then e_cancelled env k else None) \<noteq> None")
    case True
    then have "(\<exists>e. r = Inl e) \<and> l' = l \<and> g' = g" using Suc.prems(1) by (auto split: option.splits if_splits)
    then show ?thesis by (intro exI [of _ "[]"]) auto
  next
    case False
    obtain x l1 s1 g1 where fl: "Loader_Flush (e_db env) (e_testTx env) (e_di env) l (e_moduleHash env) c final (s, g) = (x, l1, (s1, g1))"
      by (metis prod_cases3 surj_pair)
    note once = flush_once [OF fl [unfolded Suc.prems(2,3)]]
    show ?thesis
    proof (cases x)
      case (Inr m)
      then have "r = Inr m" "l' = l1" "g' = g1" using Suc.prems(1) False fl by (auto split: option.splits if_splits)
      then show ?thesis using once Inr by (intro exI [of _ "[]"]) auto
    next
      case (Inl e)
      then obtain qs where qs: "failed_flush d zone dedent l (e_moduleHash env) c final qs" "g1 = g @ qs" "l1 = l"
        using once by auto
      have "flush_attempts env delay c final retries n (k + 1) e l (s1, g1) = (r, l', (s', g'))"
        using Suc.prems(1) False fl Inl qs(3) by (auto split: option.splits if_splits)
      from Suc.IH [OF this Suc.prems(2,3)] obtain fails where f:
        "list_all (failed_flush d zone dedent l (e_moduleHash env) c final) fails" "length fails \<le> n"
        "0 < k + 1 \<and> delay = 0 \<longrightarrow> fails = []"
        "case r of
          Inr m \<Rightarrow> l' = reset l \<and> m = int (length (sortedOperations l)) + 1 \<and> length fails < n
            \<and> (\<exists>qs. whole_flush d zone dedent l (e_moduleHash env) c final qs \<and> g' = g1 @ concat fails @ qs)
        | Inl e \<Rightarrow> l' = l \<and> g' = g1 @ concat fails" by (elim exE conjE)
      have ne: "\<not> (0 < k \<and> delay = 0)" using False by simp
      have all: "list_all (failed_flush d zone dedent l (e_moduleHash env) c final) (qs # fails)" "length (qs # fails) \<le> Suc n"
        using f(1,2) qs(1) by simp_all
      show ?thesis
      proof (cases r)
        case (Inl e')
        then show ?thesis using f(4) qs(2) ne all by (intro exI [of _ "qs # fails"]) simp
      next
        case (Inr m)
        then show ?thesis using f(4) qs(2) ne all by (intro exI [of _ "qs # fails"]) auto
      qed
    qed
  qed
qed

lemma Loader_Flush_reset: "Loader_Flush db ttx di l h c final s = (Inr n, l', s') \<Longrightarrow> l' = reset l"
  by (auto simp: Loader_Flush_def split: prod.splits sum.splits option.splits)

lemma Loader_Flush_keeps: "Loader_Flush db ttx di l h c final s = (Inl e, l', s') \<Longrightarrow> l' = l"
  by (auto simp: Loader_Flush_def split: prod.splits sum.splits option.splits)

lemma flush_attempts_reset:
  "flush_attempts env delay c final retries n k lastErr l s = (Inr m, l', s') \<Longrightarrow> l' = reset l"
proof (induction n arbitrary: k lastErr s)
  case (Suc n)
  then show ?case
    by (auto simp: Loader_Flush_reset dest: Loader_Flush_keeps split: prod.splits sum.splits option.splits if_splits)
qed simp

lemma flushWithRetry_reset: "flushWithRetry env delay c final retries l s = (Inr m, l', s') \<Longrightarrow> l' = reset l"
  unfolding flushWithRetry_def by (rule flush_attempts_reset)

text \<open>With a delay of zero the second attempt is given up before it starts.\<close>

lemma flush_attempts_zero:
  assumes "flush_attempts env delay c final retries n 0 lastErr l (s, g) = (r, l', (s', g'))"
    "e_testTx env = Some (logged tx)" "e_di env = pg_iface d zone dedent"
  shows "\<exists>fails. list_all (failed_flush d zone dedent l (e_moduleHash env) c final) fails \<and> length fails \<le> n
     \<and> (delay = 0 \<longrightarrow> length fails \<le> 1)
     \<and> (case r of
          Inr m \<Rightarrow> l' = reset l \<and> m = int (length (sortedOperations l)) + 1 \<and> length fails < n
            \<and> (\<exists>qs. whole_flush d zone dedent l (e_moduleHash env) c final qs \<and> g' = g @ concat fails @ qs)
        | Inl e \<Rightarrow> l' = l \<and> g' = g @ concat fails)"
proof (cases "delay = 0 \<and> n \<noteq> 0")
  case False
  then show ?thesis using flush_attempts_log [OF assms] by (cases "n = 0") force+
next
  case True
  then obtain m where n: "n = Suc m" by (cases n) auto
  obtain x l1 s1 g1 where fl: "Loader_Flush (e_db env) (e_testTx env) (e_di env) l (e_moduleHash env) c final (s, g) = (x, l1, (s1, g1))"
    by (metis prod_cases3 surj_pair)
  note once = flush_once [OF fl [unfolded assms(2,3)]]
  show ?thesis
  proof (cases x)
    case (Inr k)
    then have "r = Inr k" "l' = l1" "g' = g1" using assms(1) fl n by auto
    then show ?thesis using once Inr n by (intro exI [of _ "[]"]) auto
  next
    case (Inl e)
    then obtain qs where qs: "failed_flush d zone dedent l (e_moduleHash env) c final qs" "g1 = g @ qs" "l1 = l"
      using once by auto
    have "flush_attempts env delay c final retries m 1 e l (s1, g1) = (r, l', (s', g'))"
      using assms(1) fl n Inl qs(3) by simp
    then have "(\<exists>e. r = Inl e) \<and> l' = l \<and> g' = g1" using True by (cases m) auto
    then show ?thesis using qs n by (intro exI [of _ "[qs]"]) auto
  qed
qed

end
