(* ===== verification/History.thy ===== *)
theory History
  imports FlushFacts "HOL-Library.Sublist"
begin

text \<open>
  Undoing changes newest first, in the abstract: a chain of changes of keyed values, each with
  the value before and after, is undone by every order that goes through the changes of one key
  backwards, whatever it does between different keys. This is the argument behind reading the
  history table by decreasing block.
\<close>

type_synonym ('k, 'v) event = "'k \<times> 'v \<times> 'v"

fun chain :: "('k \<Rightarrow> 'v) \<Rightarrow> ('k, 'v) event list \<Rightarrow> ('k \<Rightarrow> 'v) \<Rightarrow> bool" where
  "chain f [] f' \<longleftrightarrow> f = f'"
| "chain f ((k, b, a) # es) f' \<longleftrightarrow> f k = b \<and> chain (f(k := a)) es f'"

fun chain1 :: "'v \<Rightarrow> ('v \<times> 'v) list \<Rightarrow> 'v \<Rightarrow> bool" where
  "chain1 x [] y \<longleftrightarrow> x = y"
| "chain1 x ((b, a) # es) y \<longleftrightarrow> x = b \<and> chain1 a es y"

definition proj :: "'k \<Rightarrow> ('k, 'v) event list \<Rightarrow> ('v \<times> 'v) list" where
  "proj k es = map snd (filter (\<lambda>e. fst e = k) es)"

definition undo :: "('k, 'v) event \<Rightarrow> ('k, 'v) event" where
  "undo e = (case e of (k, b, a) \<Rightarrow> (k, a, b))"

lemma chain_append: "chain f (es @ es') f'' \<longleftrightarrow> (\<exists>f'. chain f es f' \<and> chain f' es' f'')"
proof (induction es arbitrary: f)
  case (Cons e es)
  obtain k b a where e: "e = (k, b, a)" by (cases e) auto
  show ?case unfolding e append_Cons chain.simps Cons.IH by blast
qed simp

lemma proj_simps [simp]: "proj k [] = []"
  "proj k ((j, p) # es) = (if j = k then p # proj k es else proj k es)"
  by (auto simp: proj_def)

lemma chain_iff_proj: "chain f es f' \<longleftrightarrow> (\<forall>k. chain1 (f k) (proj k es) (f' k))"
proof (induction es arbitrary: f)
  case Nil
  show ?case by auto
next
  case (Cons e es)
  obtain k b a where e: "e = (k, b, a)" by (cases e) auto
  have "chain f ((k, b, a) # es) f' \<longleftrightarrow> f k = b \<and> (\<forall>j. chain1 ((f(k := a)) j) (proj j es) (f' j))"
    using Cons by simp
  also have "\<dots> \<longleftrightarrow> (\<forall>j. chain1 (f j) (proj j ((k, b, a) # es)) (f' j))"
  proof
    assume l: "f k = b \<and> (\<forall>j. chain1 ((f(k := a)) j) (proj j es) (f' j))"
    show "\<forall>j. chain1 (f j) (proj j ((k, b, a) # es)) (f' j)"
    proof
      fix j
      show "chain1 (f j) (proj j ((k, b, a) # es)) (f' j)"
        using l spec [OF conjunct2 [OF l], of j] by (cases "j = k") auto
    qed
  next
    assume r: "\<forall>j. chain1 (f j) (proj j ((k, b, a) # es)) (f' j)"
    have k: "f k = b \<and> chain1 a (proj k es) (f' k)" using spec [OF r, of k] by simp
    have "chain1 ((f(k := a)) j) (proj j es) (f' j)" for j
      using spec [OF r, of j] k by (cases "j = k") auto
    then show "f k = b \<and> (\<forall>j. chain1 ((f(k := a)) j) (proj j es) (f' j))" using k by blast
  qed
  finally show ?case unfolding e .
qed

lemma chain1_append: "chain1 x (es @ es') z \<longleftrightarrow> (\<exists>y. chain1 x es y \<and> chain1 y es' z)"
  by (induction x es z rule: chain1.induct) auto

lemma chain1_rev: "chain1 x es y \<Longrightarrow> chain1 y (rev (map prod.swap es)) x"
  by (induction x es y rule: chain1.induct) (auto simp: chain1_append)

lemma proj_undo: "proj k (map undo es) = map prod.swap (proj k es)"
  by (induction es) (auto simp: undo_def proj_def split: prod.splits)

text \<open>Any order that is backwards on every key undoes the chain.\<close>

lemma chain_undo:
  assumes "chain f es f'" "\<And>k. filter (\<lambda>e. fst e = k) us = rev (filter (\<lambda>e. fst e = k) es)"
  shows "chain f' (map undo us) f"
  unfolding chain_iff_proj
proof
  fix k
  have "proj k us = rev (proj k es)" using assms(2) [of k] by (simp add: proj_def rev_map)
  then have "proj k (map undo us) = rev (map prod.swap (proj k es))"
    by (simp add: proj_undo rev_map)
  moreover have "chain1 (f k) (proj k es) (f' k)" using assms(1) by (simp add: chain_iff_proj)
  ultimately show "chain1 (f' k) (proj k (map undo us)) (f k)" using chain1_rev by metis
qed

section \<open>Decreasing blocks go backwards\<close>

lemma sorted_wrt_subseq: "subseq ys xs \<Longrightarrow> sorted_wrt P xs \<Longrightarrow> sorted_wrt P ys"
proof (induction rule: list_emb.induct)
  case (list_emb_Cons2 x y xs ys)
  then have "set xs \<subseteq> set ys" by (auto dest: list_emb_set)
  with list_emb_Cons2 show ?case by auto
qed auto

lemma sorted_desc_unique:
  fixes f :: "'a \<Rightarrow> 'b::linorder"
  assumes "mset us = mset es" "sorted_wrt (\<lambda>a b. f a \<ge> f b) us" "sorted_wrt (\<lambda>a b. f a < f b) es"
  shows "us = rev es"
proof -
  have s: "sorted (map f (rev us))"
    using assms(2) by (simp add: sorted_wrt_map sorted_wrt_rev)
  have st: "sorted_wrt (<) (map f es)" using assms(3) by (simp add: sorted_wrt_map)
  then have d: "distinct (map f es)" and se: "sorted (map f es)" by (simp_all add: strict_sorted_iff)
  have m: "mset (map f (rev us)) = mset (map f es)" using assms(1) by simp
  then have "map f (rev us) = map f es" using s se by (metis properties_for_sort sorted_sort_id)
  moreover have "inj_on f (set (rev us) \<union> set es)"
    using d mset_eq_setD [OF assms(1)] by (simp add: distinct_map)
  ultimately have "rev us = es" by (rule map_inj_on)
  then show ?thesis by (metis rev_rev_ident)
qed

end
