(* ===== verification/Engine.thy ===== *)
theory Engine
  imports History
begin

text \<open>
  The statements of the PostgreSQL dialect as a datatype, each with its text, and what the
  database documents about executing them, as the locale \<open>pg_engine\<close>: an arbitrary database
  state with the rows of the tables by key and the history table. The texts that
  \<open>prepareStatement\<close> and \<open>revertOp\<close> build are proved to be the texts of these statements.
\<close>

section \<open>Statements\<close>

text \<open>Tables and columns appear as in the text: quoted. Keys are maps from column to value.\<close>

datatype Stmt =
    HistInsert string "string gomap" u64
  | HistUpsert string "string gomap" u64
  | HistRowOf string string "string gomap" u64
  | SInsert string "string list" "string list"
  | SUpsert string "string list" "string list" "string gomap"
  | SUpdate string "string list" "string list" "string gomap"
  | SDelete string "string gomap"
  | RevDelete string "string gomap"
  | RevInsert string string
  | RevUpdate string string string "string gomap"
  | PruneUpTo u64
  | PruneAbove u64

text \<open>The quoted name of a table of the dialect's schema, as the history stores it\<close>

definition qualifiedName :: "Dialect \<Rightarrow> string \<Rightarrow> string" where
  "qualifiedName d escapedTableName = EscapeIdentifier (schemaName d) @ ''.'' @ escapedTableName"

fun render :: "Dialect \<Rightarrow> Stmt \<Rightarrow> string" where
  "render d (HistInsert ident pk b) = saveInsert d (schemaName d) ident pk b"
| "render d (HistUpsert tab pk b) = saveUpsert d (schemaName d) tab pk b"
| "render d (HistRowOf op tab pk b) = saveRow d op (schemaName d) tab pk b"
| "render d (SInsert ident cols vals) =
     ''INSERT INTO '' @ ident @ '' ('' @ joinS '','' cols @ '') VALUES ('' @ joinS '','' vals @ '');''"
| "render d (SUpsert ident cols vals pk) =
     ''INSERT INTO '' @ ident @ '' ('' @ joinS '','' cols @ '') VALUES ('' @ joinS '','' vals
     @ '') ON CONFLICT ('' @ joinS '','' (keys pk) @ '') DO UPDATE SET ''
     @ joinS '', '' (map (\<lambda>c. c @ ''=EXCLUDED.'' @ c) cols) @ '';''"
| "render d (SUpdate ident cols vals pk) =
     ''UPDATE '' @ ident @ '' SET '' @ joinS '', '' (map (\<lambda>(c, v). c @ ''='' @ v) (zip cols vals))
     @ '' WHERE '' @ getPrimaryKeyWhereClause pk []"
| "render d (SDelete ident pk) = ''DELETE FROM '' @ ident @ '' WHERE '' @ getPrimaryKeyWhereClause pk []"
| "render d (RevDelete ident pk) =
     ''DELETE FROM '' @ ident @ '' WHERE '' @ getPrimaryKeyWhereClause pk [] @ '';''"
| "render d (RevInsert ident json) =
     ''INSERT INTO '' @ ident @ '' SELECT * FROM json_populate_record(null::'' @ ident @ '',''
     @ escapeStringValue json @ '');''"
| "render d (RevUpdate ident cols json pk) =
     ''UPDATE '' @ ident @ '' SET('' @ cols @ '')=((SELECT '' @ cols @ '' FROM json_populate_record(null::''
     @ ident @ '','' @ escapeStringValue json @ ''))) WHERE '' @ getPrimaryKeyWhereClause pk [] @ '';''"
| "render d (PruneUpTo b) = pruneReversibleQuery d (schemaName d) b"
| "render d (PruneAbove b) = pruneHistoryQuery d b"

definition render_all :: "Dialect \<Rightarrow> Stmt list \<Rightarrow> string" where
  "render_all d ss = concat (map (render d) ss)"

text \<open>The statements of an operation with its columns and values\<close>

definition stmts_of :: "string list \<Rightarrow> string list \<Rightarrow> Operation \<Rightarrow> Stmt list" where
  "stmts_of cols vals oper =
     (let ident = tidentifier (op_table oper); tab = nameEscaped (op_table oper); pk = op_primaryKey oper in
      (case op_reversibleBlockNum oper of None \<Rightarrow> []
       | Some b \<Rightarrow> [case op_type oper of
             OperationTypeInsert \<Rightarrow> HistInsert ident pk b
           | OperationTypeUpsert \<Rightarrow> HistUpsert tab pk b
           | OperationTypeUpdate \<Rightarrow> HistRowOf ''U'' tab pk b
           | OperationTypeDelete \<Rightarrow> HistRowOf ''D'' tab pk b])
      @ [case op_type oper of
           OperationTypeInsert \<Rightarrow> SInsert ident cols vals
         | OperationTypeUpsert \<Rightarrow> SUpsert ident cols vals pk
         | OperationTypeUpdate \<Rightarrow> SUpdate ident cols vals pk
         | OperationTypeDelete \<Rightarrow> SDelete ident pk])"

definition plan :: "(int \<Rightarrow> int) \<Rightarrow> Operation \<Rightarrow> Stmt list res" where
  "plan zone oper =
     (case (if has_columns (op_type oper)
            then prepareColValues zone (op_table oper) (op_data oper) else Inr ([], [])) of
        Inl e \<Rightarrow> Inl e | Inr (cols, vals) \<Rightarrow> Inr (stmts_of cols vals oper))"

lemma prepareStatement_plan:
  assumes "prepareStatement d zone (schemaName d) oper = Inr q"
  shows "\<exists>ss. plan zone oper = Inr ss \<and> q = render_all d ss"
proof -
  let ?cv = "if has_columns (op_type oper) then prepareColValues zone (op_table oper) (op_data oper) else Inr ([], [])"
  obtain cols vals where cv: "?cv = Inr (cols, vals)"
    using assms by (cases "has_columns (op_type oper)")
      (auto simp: prepareStatement_def Let_def split: sum.splits dest: wrap_err.elims)
  have plan: "plan zone oper = Inr (stmts_of cols vals oper)" by (simp add: plan_def cv)
  have "q = render_all d (stmts_of cols vals oper)"
    using assms cv
    by (cases "op_type oper"; cases "op_reversibleBlockNum oper")
       (simp_all add: prepareStatement_def stmts_of_def render_all_def has_columns_def Let_def
         saveUpdate_def saveDelete_def split: if_splits)
  with plan show ?thesis by blast
qed

text \<open>The statement that undoes a row of the history: \<open>None\<close> where \<open>revertOp\<close> fails or panics\<close>

definition revert_stmt :: "HistRow \<Rightarrow> Stmt option" where
  "revert_stmt h =
     (case unmarshal_string_map (h_pk h) of Inl _ \<Rightarrow> None
      | Inr pk \<Rightarrow>
          if h_op h = ''I'' then Some (RevDelete (h_table h) pk)
          else if h_op h = ''D'' then Some (RevInsert (h_table h) (prev_value h))
          else if h_op h = ''U'' then
            (case sqlColumnNamesFromJSON (prev_value h) of
               Inl _ \<Rightarrow> None | Inr cols \<Rightarrow> Some (RevUpdate (h_table h) cols (prev_value h) pk))
          else None)"

lemma revertQuery_stmt:
  "revert_stmt h = Some st \<Longrightarrow>
   revertQuery ''json_populate_record'' (h_op h) (h_table h) (h_pk h) (prev_value h) = Some (Inr (render d st))"
  by (auto simp: revert_stmt_def revertQuery_def split: sum.splits if_splits)

end
