(* ===== verification/Restore.thy ===== *)
theory Restore
  imports Engine
begin

text \<open>
  The contract of the database with a history table (the locale \<open>pg_engine\<close>), and the reason the
  history exists: flushing batches and then reverting to a block before them gives every row its
  old value back. The contract states, statement form by statement form, what PostgreSQL
  documents, for an arbitrary type of databases and of rows.
\<close>

section \<open>Keys and values\<close>

definition norm_key :: "string gomap \<Rightarrow> (string \<times> string) list" where
  "norm_key pk = map (\<lambda>k. (k, getS pk k)) (sort (keys pk))"

type_synonym rkey = "string \<times> (string \<times> string) list"

text \<open>The value of an expression that is a quoted literal or a bare number\<close>

definition literal :: "string \<Rightarrow> string" where
  "literal v = (case sql_token (CHR 0x27) v of Some (t, r) \<Rightarrow> if r = [] then t else v | None \<Rightarrow> v)"

definition row_values :: "string list \<Rightarrow> string list \<Rightarrow> bool" where
  "row_values cols vals \<longleftrightarrow> length cols = length vals \<and> distinct cols
     \<and> list_all (\<lambda>c. case sql_token (CHR 0x22) c of Some (n, []) \<Rightarrow> c = EscapeIdentifier n \<and> valid_utf8 n | _ \<Rightarrow> False) cols
     \<and> list_all (\<lambda>v. valid_utf8 (literal v)) vals"

text \<open>The columns give the key its values, or at least do not give it others.\<close>

definition names_key :: "string list \<Rightarrow> string list \<Rightarrow> string gomap \<Rightarrow> bool" where
  "names_key cols vals pk \<longleftrightarrow>
     list_all (\<lambda>(k, v). \<exists>p \<in> set (zip cols vals). fst p = EscapeIdentifier k \<and> literal (snd p) = v) pk"

definition spares_key :: "string list \<Rightarrow> string list \<Rightarrow> string gomap \<Rightarrow> bool" where
  "spares_key cols vals pk \<longleftrightarrow>
     list_all (\<lambda>(k, v). \<forall>p \<in> set (zip cols vals). fst p = EscapeIdentifier k \<longrightarrow> literal (snd p) = v) pk"

definition good_key :: "string list \<Rightarrow> string gomap \<Rightarrow> bool" where
  "good_key cols pk \<longleftrightarrow> wf_map pk \<and> set (keys pk) = set cols \<and> (\<forall>kv \<in> set pk. utf8_entry kv)"

lemma norm_key_cong: "wf_map pk \<Longrightarrow> wf_map pk' \<Longrightarrow> map_of pk = map_of pk' \<Longrightarrow> norm_key pk = norm_key pk'"
  using sort_same_map [OF map_of_same_map, of pk pk' fst]
  by (simp add: norm_key_def keys_def getS_def cong: map_cong)

lemma good_key_cong: "wf_map pk' \<Longrightarrow> map_of pk = map_of pk' \<Longrightarrow> good_key cols pk \<Longrightarrow> good_key cols pk'"
  unfolding good_key_def keys_def wf_map_def using map_of_eqI_set [of pk pk'] by (metis list.set_map)

fun run :: "('st \<Rightarrow> 'db \<Rightarrow> 'db option) \<Rightarrow> 'st list \<Rightarrow> 'db \<Rightarrow> 'db option" where
  "run exec [] db = Some db"
| "run exec (st # sts) db = (case exec st db of None \<Rightarrow> None | Some db' \<Rightarrow> run exec sts db')"

lemma run_append: "run exec (xs @ ys) db = (case run exec xs db of None \<Rightarrow> None | Some db' \<Rightarrow> run exec ys db')"
  by (induction xs arbitrary: db) (auto split: option.splits)

section \<open>The contract\<close>

locale pg_engine =
  fixes d :: Dialect
    and key_cols :: "string \<Rightarrow> string list"
    and exec :: "Stmt \<Rightarrow> 'db \<Rightarrow> 'db option"
    and row_at :: "'db \<Rightarrow> rkey \<Rightarrow> 'row option"
    and is_row :: "rkey \<Rightarrow> 'row \<Rightarrow> bool"
    and to_json :: "'row \<Rightarrow> string"
    and hist :: "'db \<Rightarrow> HistRow list"
    and hquery :: "'db \<Rightarrow> u64 \<Rightarrow> HistRow list"
  assumes row_is: "row_at db tk = Some r \<Longrightarrow> is_row tk r"
    and row_json: "is_row tk r \<Longrightarrow> \<exists>names. sqlColumnNamesFromJSON (to_json r) = Inr names"
    and hist_insert: "exec (HistInsert t pk b) db = Some db' \<Longrightarrow>
      row_at db' = row_at db \<and> hist db' = hist db @
        [\<lparr>h_op = ''I'', h_table = t, h_pk = primaryKeyToJSON pk, h_prev = None, h_block = b\<rparr>]"
    and hist_upsert: "exec (HistUpsert tab pk b) db = Some db' \<Longrightarrow> good_key (key_cols (qualifiedName d tab)) pk \<Longrightarrow>
      row_at db' = row_at db \<and> hist db' = hist db @
        [case row_at db (qualifiedName d tab, norm_key pk) of
           None \<Rightarrow> \<lparr>h_op = ''I'', h_table = qualifiedName d tab, h_pk = primaryKeyToJSON pk, h_prev = None, h_block = b\<rparr>
         | Some r \<Rightarrow> \<lparr>h_op = ''U'', h_table = qualifiedName d tab, h_pk = primaryKeyToJSON pk,
                      h_prev = Some (to_json r), h_block = b\<rparr>]"
    and hist_row: "exec (HistRowOf op tab pk b) db = Some db' \<Longrightarrow> good_key (key_cols (qualifiedName d tab)) pk \<Longrightarrow>
      row_at db' = row_at db \<and> hist db' = hist db @
        (case row_at db (qualifiedName d tab, norm_key pk) of
           None \<Rightarrow> []
         | Some r \<Rightarrow> [\<lparr>h_op = op, h_table = qualifiedName d tab, h_pk = primaryKeyToJSON pk,
                      h_prev = Some (to_json r), h_block = b\<rparr>])"
    and insert: "exec (SInsert t cols vals) db = Some db' \<Longrightarrow> t \<noteq> historyTable d (schemaName d) \<Longrightarrow>
      good_key (key_cols t) pk \<Longrightarrow> row_values cols vals \<Longrightarrow> names_key cols vals pk \<Longrightarrow>
      hist db' = hist db \<and> row_at db (t, norm_key pk) = None
        \<and> (\<exists>r. row_at db' = (row_at db)((t, norm_key pk) \<mapsto> r))"
    and upsert: "exec (SUpsert t cols vals pk) db = Some db' \<Longrightarrow> t \<noteq> historyTable d (schemaName d) \<Longrightarrow>
      good_key (key_cols t) pk \<Longrightarrow> row_values cols vals \<Longrightarrow> names_key cols vals pk \<Longrightarrow>
      hist db' = hist db \<and> (\<exists>r. row_at db' = (row_at db)((t, norm_key pk) \<mapsto> r))"
    and update: "exec (SUpdate t cols vals pk) db = Some db' \<Longrightarrow> t \<noteq> historyTable d (schemaName d) \<Longrightarrow>
      good_key (key_cols t) pk \<Longrightarrow> row_values cols vals \<Longrightarrow> spares_key cols vals pk \<Longrightarrow>
      hist db' = hist db \<and>
        (case row_at db (t, norm_key pk) of None \<Rightarrow> row_at db' = row_at db
         | Some _ \<Rightarrow> \<exists>r. row_at db' = (row_at db)((t, norm_key pk) \<mapsto> r))"
    and delete: "exec (SDelete t pk) db = Some db' \<Longrightarrow> t \<noteq> historyTable d (schemaName d) \<Longrightarrow>
      good_key (key_cols t) pk \<Longrightarrow>
      hist db' = hist db \<and> row_at db' = (row_at db)((t, norm_key pk) := None)"
    and rev_delete: "t \<noteq> historyTable d (schemaName d) \<Longrightarrow> good_key (key_cols t) pk \<Longrightarrow>
      \<exists>db'. exec (RevDelete t pk) db = Some db' \<and> hist db' = hist db
        \<and> row_at db' = (row_at db)((t, norm_key pk) := None)"
    and rev_insert: "t \<noteq> historyTable d (schemaName d) \<Longrightarrow> is_row (t, k) r \<Longrightarrow> row_at db (t, k) = None \<Longrightarrow>
      \<exists>db'. exec (RevInsert t (to_json r)) db = Some db' \<and> hist db' = hist db
        \<and> row_at db' = (row_at db)((t, k) \<mapsto> r)"
    and rev_update: "t \<noteq> historyTable d (schemaName d) \<Longrightarrow> good_key (key_cols t) pk \<Longrightarrow>
      is_row (t, norm_key pk) r \<Longrightarrow> row_at db (t, norm_key pk) \<noteq> None \<Longrightarrow>
      sqlColumnNamesFromJSON (to_json r) = Inr names \<Longrightarrow>
      \<exists>db'. exec (RevUpdate t names (to_json r) pk) db = Some db' \<and> hist db' = hist db
        \<and> row_at db' = (row_at db)((t, norm_key pk) \<mapsto> r)"
    and prune_upto: "\<exists>db'. exec (PruneUpTo b) db = Some db' \<and> row_at db' = row_at db
        \<and> hist db' = filter (\<lambda>h. \<not> h_block h \<le> b) (hist db)"
    and prune_above: "\<exists>db'. exec (PruneAbove b) db = Some db' \<and> row_at db' = row_at db
        \<and> hist db' = filter (\<lambda>h. \<not> b < h_block h) (hist db)"
    and query_rows: "mset (hquery db b) = mset (filter (\<lambda>h. b < h_block h) (hist db))"
    and query_order: "sorted_wrt (\<lambda>h h'. h_block h \<ge> h_block h') (hquery db b)"
begin

lemma rev_update_ok:
  assumes "t \<noteq> historyTable d (schemaName d)" "good_key (key_cols t) pk" "is_row (t, norm_key pk) r"
    "row_at db (t, norm_key pk) \<noteq> None"
  shows "\<exists>names db'. sqlColumnNamesFromJSON (to_json r) = Inr names
    \<and> exec (RevUpdate t names (to_json r) pk) db = Some db' \<and> hist db' = hist db
    \<and> row_at db' = (row_at db)((t, norm_key pk) \<mapsto> r)"
  using row_json [OF assms(3)] rev_update [OF assms] by blast

end

text \<open>An operation whose effect the history can undo: it is of a block after \<open>v\<close>, it names its
  table the way the history does, and its columns and values name the row of its key.\<close>

definition restorable ::
    "Dialect \<Rightarrow> (string \<Rightarrow> string list) \<Rightarrow> (int \<Rightarrow> int) \<Rightarrow> u64 \<Rightarrow> Operation \<Rightarrow> bool" where
  "restorable d key_cols zone v oper \<longleftrightarrow>
     (let t = tidentifier (op_table oper); pk = op_primaryKey oper in
      (case op_reversibleBlockNum oper of None \<Rightarrow> False | Some b \<Rightarrow> v < b)
      \<and> t = qualifiedName d (nameEscaped (op_table oper)) \<and> t \<noteq> historyTable d (schemaName d)
      \<and> good_key (key_cols t) pk
      \<and> (case prepareColValues zone (op_table oper) (op_data oper) of Inl _ \<Rightarrow> True
         | Inr (cols, vals) \<Rightarrow>
             (case op_type oper of
                OperationTypeInsert \<Rightarrow> row_values cols vals \<and> names_key cols vals pk
              | OperationTypeUpsert \<Rightarrow> row_values cols vals \<and> names_key cols vals pk
              | OperationTypeUpdate \<Rightarrow> row_values cols vals \<and> spares_key cols vals pk
              | OperationTypeDelete \<Rightarrow> True)))"

definition op_key :: "Operation \<Rightarrow> rkey" where
  "op_key oper = (tidentifier (op_table oper), norm_key (op_primaryKey oper))"

definition op_block :: "Operation \<Rightarrow> u64" where
  "op_block oper = (case op_reversibleBlockNum oper of Some b \<Rightarrow> b | None \<Rightarrow> 0)"

type_synonym 'r hev = "HistRow \<times> (rkey, 'r option) event"

section \<open>What a flush leaves in the history\<close>

context pg_engine
begin

text \<open>A row of the history together with the change of the row it stands for\<close>

definition good_hev :: "'row hev \<Rightarrow> bool" where
  "good_hev he = (case he of (h, (tk, before, after)) \<Rightarrow>
     h_table h = fst tk \<and> fst tk \<noteq> historyTable d (schemaName d)
     \<and> (\<exists>pk. h_pk h = primaryKeyToJSON pk \<and> good_key (key_cols (fst tk)) pk \<and> norm_key pk = snd tk)
     \<and> ((h_op h = ''I'' \<and> before = None)
        \<or> (h_op h = ''U'' \<and> after \<noteq> None \<and> (\<exists>r. before = Some r \<and> is_row tk r \<and> h_prev h = Some (to_json r)))
        \<or> (h_op h = ''D'' \<and> after = None \<and> (\<exists>r. before = Some r \<and> is_row tk r \<and> h_prev h = Some (to_json r)))))"

definition hev_key_block :: "'row hev \<Rightarrow> rkey \<times> u64" where
  "hev_key_block he = (fst (snd he), h_block (fst he))"

definition recorded :: "Operation list \<Rightarrow> 'db \<Rightarrow> 'db \<Rightarrow> 'row hev list \<Rightarrow> bool" where
  "recorded ops db db' hes \<longleftrightarrow> hist db' = hist db @ map fst hes
     \<and> chain (row_at db) (map snd hes) (row_at db') \<and> list_all good_hev hes
     \<and> subseq (map hev_key_block hes) (map (\<lambda>oper. (op_key oper, op_block oper)) ops)"

lemma recorded_none:
  "hist db' = hist db \<Longrightarrow> row_at db' = row_at db \<Longrightarrow> recorded [oper] db db' []"
  by (simp add: recorded_def)

lemma recorded_one:
  assumes "hist db' = hist db @ [h]" "row_at db' = (row_at db)(op_key oper := after)"
    "good_hev (h, (op_key oper, row_at db (op_key oper), after))" "h_block h = op_block oper"
  shows "\<exists>hes. recorded [oper] db db' hes"
  using assms
  by (intro exI [of _ "[(h, (op_key oper, row_at db (op_key oper), after))]"])
     (simp add: recorded_def hev_key_block_def)

lemma recorded_append:
  assumes "recorded ops db db' hes" "recorded ops' db' db'' hes'"
  shows "recorded (ops @ ops') db db'' (hes @ hes')"
  using assms by (auto simp: recorded_def chain_append list_emb_append_mono)

text \<open>One operation\<close>

lemma op_recorded:
  assumes ok: "restorable d key_cols zone v oper" and pl: "plan zone oper = Inr ss"
    and run: "run exec ss db = Some db''"
  shows "\<exists>hes. recorded [oper] db db'' hes"
proof -
  let ?t = "tidentifier (op_table oper)" and ?tab = "nameEscaped (op_table oper)" and ?pk = "op_primaryKey oper"
  let ?k = "(?t, norm_key ?pk)"
  have key: "op_key oper = ?k" by (simp add: op_key_def)
  obtain b where b: "op_reversibleBlockNum oper = Some b" and q: "?t = qualifiedName d ?tab"
    and nh: "?t \<noteq> historyTable d (schemaName d)" and gk: "good_key (key_cols ?t) ?pk"
    using ok by (auto simp: restorable_def Let_def split: option.splits)
  have blk: "op_block oper = b" by (simp add: op_block_def b)
  have pkey: "\<exists>pk. primaryKeyToJSON ?pk = primaryKeyToJSON pk \<and> good_key (key_cols ?t) pk \<and> norm_key pk = norm_key ?pk"
    using gk by blast
  obtain cols vals where cv: "(if has_columns (op_type oper)
      then prepareColValues zone (op_table oper) (op_data oper) else Inr ([], [])) = Inr (cols, vals)"
    and ss: "ss = stmts_of cols vals oper"
    using pl by (auto simp: plan_def split: sum.splits)
  obtain st1 st2 db' where st: "ss = [st1, st2]" and e1: "exec st1 db = Some db'" and e2: "exec st2 db' = Some db''"
    using run by (auto simp: ss stmts_of_def Let_def b split: option.splits)
  show ?thesis
  proof (cases "op_type oper")
    case OperationTypeInsert
    have s: "st1 = HistInsert ?t ?pk b" "st2 = SInsert ?t cols vals"
      using st by (simp_all add: ss stmts_of_def Let_def b OperationTypeInsert)
    have vals: "row_values cols vals" "names_key cols vals ?pk"
      using ok cv by (auto simp: restorable_def Let_def OperationTypeInsert has_columns_def split: sum.splits)
    note h = hist_insert [OF e1 [unfolded s]] and i = insert [OF e2 [unfolded s] nh gk vals]
    then obtain r where r: "row_at db'' = (row_at db')(?k \<mapsto> r)" by blast
    show ?thesis
      by (rule recorded_one [where h = "\<lparr>h_op = ''I'', h_table = ?t, h_pk = primaryKeyToJSON ?pk, h_prev = None, h_block = b\<rparr>"
            and after = "Some r"])
         (use h i r in \<open>simp_all add: key blk good_hev_def nh pkey\<close>)
  next
    case OperationTypeUpsert
    have s: "st1 = HistUpsert ?tab ?pk b" "st2 = SUpsert ?t cols vals ?pk"
      using st by (simp_all add: ss stmts_of_def Let_def b OperationTypeUpsert)
    have vals: "row_values cols vals" "names_key cols vals ?pk"
      using ok cv by (auto simp: restorable_def Let_def OperationTypeUpsert has_columns_def split: sum.splits)
    note h = hist_upsert [OF e1 [unfolded s]] and i = upsert [OF e2 [unfolded s] nh gk vals]
    from i obtain r where r: "row_at db'' = (row_at db')(?k \<mapsto> r)" by blast
    have isr: "is_row ?k r0" if "row_at db ?k = Some r0" for r0 using row_is [OF that] .
    let ?h = "case row_at db ?k of
           None \<Rightarrow> \<lparr>h_op = ''I'', h_table = ?t, h_pk = primaryKeyToJSON ?pk, h_prev = None, h_block = b\<rparr>
         | Some r \<Rightarrow> \<lparr>h_op = ''U'', h_table = ?t, h_pk = primaryKeyToJSON ?pk,
                      h_prev = Some (to_json r), h_block = b\<rparr>"
    show ?thesis
      by (rule recorded_one [where h = ?h and after = "Some r"])
         (use h i r q gk isr nh [unfolded q] pkey [unfolded q] in
           \<open>simp_all add: key blk good_hev_def split: option.split\<close>)
  next
    case OperationTypeUpdate
    have s: "st1 = HistRowOf ''U'' ?tab ?pk b" "st2 = SUpdate ?t cols vals ?pk"
      using st by (simp_all add: ss stmts_of_def Let_def b OperationTypeUpdate)
    have vals: "row_values cols vals" "spares_key cols vals ?pk"
      using ok cv by (auto simp: restorable_def Let_def OperationTypeUpdate has_columns_def split: sum.splits)
    note h = hist_row [OF e1 [unfolded s]] and i = update [OF e2 [unfolded s] nh gk vals]
    show ?thesis
    proof (cases "row_at db ?k")
      case None
      then show ?thesis using h i q gk by (intro exI [of _ "[]"] recorded_none) simp_all
    next
      case (Some r0)
      then obtain r where r: "row_at db'' = (row_at db')(?k \<mapsto> r)" using h i q gk by auto
      show ?thesis
        by (rule recorded_one [where h = "\<lparr>h_op = ''U'', h_table = ?t, h_pk = primaryKeyToJSON ?pk,
                h_prev = Some (to_json r0), h_block = b\<rparr>" and after = "Some r"])
           (use h i r q gk Some row_is [OF Some] nh [unfolded q] pkey [unfolded q] in
             \<open>simp_all add: key blk good_hev_def\<close>)
    qed
  next
    case OperationTypeDelete
    have s: "st1 = HistRowOf ''D'' ?tab ?pk b" "st2 = SDelete ?t ?pk"
      using st by (simp_all add: ss stmts_of_def Let_def b OperationTypeDelete)
    note h = hist_row [OF e1 [unfolded s]] and i = delete [OF e2 [unfolded s] nh gk]
    show ?thesis
    proof (cases "row_at db ?k")
      case None
      then show ?thesis using h i q gk
        by (intro exI [of _ "[]"] recorded_none) (simp_all add: fun_upd_idem)
    next
      case (Some r0)
      show ?thesis
        by (rule recorded_one [where h = "\<lparr>h_op = ''D'', h_table = ?t, h_pk = primaryKeyToJSON ?pk,
                h_prev = Some (to_json r0), h_block = b\<rparr>" and after = None])
           (use h i q gk Some row_is [OF Some] nh [unfolded q] pkey [unfolded q] in
             \<open>simp_all add: key blk good_hev_def\<close>)
    qed
  qed
qed

text \<open>The operations of a batch, and batch after batch\<close>

lemma recorded_Nil: "recorded [] db db []"
  by (simp add: recorded_def)

lemma ops_recorded:
  assumes "\<forall>oper \<in> set ops. restorable d key_cols zone v oper" "traverse (plan zone) ops = Inr sss"
    "run exec (concat sss) db = Some db'"
  shows "\<exists>hes. recorded ops db db' hes"
  using assms
proof (induction ops arbitrary: sss db)
  case Nil
  then show ?case using recorded_Nil by auto
next
  case (Cons oper ops)
  obtain ss sss' where ss: "plan zone oper = Inr ss" and sss': "traverse (plan zone) ops = Inr sss'"
    and sss: "sss = ss # sss'" using Cons.prems(2) by (auto split: sum.splits)
  obtain db1 where r1: "run exec ss db = Some db1" and r2: "run exec (concat sss') db1 = Some db'"
    using Cons.prems(3) by (auto simp: sss run_append split: option.splits)
  obtain hes1 where "recorded [oper] db db1 hes1" using op_recorded [OF _ ss r1] Cons.prems(1) by auto
  moreover obtain hes2 where "recorded ops db1 db' hes2" using Cons.IH [OF _ sss' r2] Cons.prems(1) by auto
  ultimately show ?case using recorded_append by fastforce
qed

lemma op_blocks_above:
  "\<forall>oper \<in> set ops. restorable d key_cols zone v oper \<Longrightarrow> \<forall>kb \<in> set (map (\<lambda>oper. (op_key oper, op_block oper)) ops). v < snd kb"
  by (auto simp: restorable_def op_block_def Let_def split: option.splits)

lemma recorded_above:
  assumes "recorded ops db db' hes" "\<forall>oper \<in> set ops. restorable d key_cols zone v oper" "he \<in> set hes"
  shows "v < h_block (fst he)"
proof -
  have "subseq (map hev_key_block hes) (map (\<lambda>oper. (op_key oper, op_block oper)) ops)"
    using assms(1) by (simp add: recorded_def)
  then have "set (map hev_key_block hes) \<subseteq> set (map (\<lambda>oper. (op_key oper, op_block oper)) ops)"
    by (blast dest: list_emb_set)
  then have "hev_key_block he \<in> set (map (\<lambda>oper. (op_key oper, op_block oper)) ops)" using assms(3) by auto
  then show ?thesis using op_blocks_above [OF assms(2)] by (auto simp: hev_key_block_def)
qed

text \<open>The history after \<open>v\<close>, across the pruning of blocks that are not after \<open>v\<close>\<close>

definition recent :: "u64 \<Rightarrow> 'db \<Rightarrow> HistRow list" where
  "recent v db = filter (\<lambda>h. v < h_block h) (hist db)"

definition recorded_since :: "u64 \<Rightarrow> Operation list \<Rightarrow> 'db \<Rightarrow> 'db \<Rightarrow> 'row hev list \<Rightarrow> bool" where
  "recorded_since v ops db db' hes \<longleftrightarrow> recent v db' = recent v db @ map fst hes
     \<and> chain (row_at db) (map snd hes) (row_at db') \<and> list_all good_hev hes
     \<and> subseq (map hev_key_block hes) (map (\<lambda>oper. (op_key oper, op_block oper)) ops)"

lemma flush_recorded:
  assumes "\<forall>oper \<in> set ops. restorable d key_cols zone v oper" "traverse (plan zone) ops = Inr sss"
    "run exec (concat sss @ [PruneUpTo final]) db = Some db'" "final \<le> v"
  shows "\<exists>hes. recorded_since v ops db db' hes"
proof -
  obtain db1 where r1: "run exec (concat sss) db = Some db1" and r2: "exec (PruneUpTo final) db1 = Some db'"
    using assms(3) by (auto simp: run_append split: option.splits)
  obtain hes where hes: "recorded ops db db1 hes" using ops_recorded [OF assms(1,2) r1] by blast
  have p: "row_at db' = row_at db1" "hist db' = filter (\<lambda>h. \<not> h_block h \<le> final) (hist db1)"
    using prune_upto [of final db1] r2 by auto
  have "filter (\<lambda>h. v < h_block h) (map fst hes) = map fst hes"
    using recorded_above [OF hes assms(1)] by (simp add: filter_id_conv)
  moreover have "recent v db' = recent v db1"
  proof -
    have "(\<not> h_block h \<le> final \<and> v < h_block h) = (v < h_block h)" for h :: HistRow
      using assms(4) by (meson le_less_trans not_le order_trans less_le_not_le)
    then show ?thesis unfolding recent_def p(2) filter_filter by (simp only:)
  qed
  ultimately have "recent v db' = recent v db @ map fst hes"
    using hes by (simp add: recorded_def recent_def)
  then have "recorded_since v ops db db' hes" using hes p(1) by (simp add: recorded_def recorded_since_def)
  then show ?thesis by blast
qed

lemma recorded_since_append:
  assumes "recorded_since v ops db db' hes" "recorded_since v ops' db' db'' hes'"
  shows "recorded_since v (ops @ ops') db db'' (hes @ hes')"
  using assms by (auto simp: recorded_since_def chain_append list_emb_append_mono)

end

text \<open>The statements of a sequence of flushes, each with its operations and its final block\<close>

fun flushes_stmts :: "(int \<Rightarrow> int) \<Rightarrow> (Operation list \<times> u64) list \<Rightarrow> Stmt list res" where
  "flushes_stmts zone [] = Inr []"
| "flushes_stmts zone ((ops, final) # fs) =
     (case traverse (plan zone) ops of Inl e \<Rightarrow> Inl e
      | Inr sss \<Rightarrow> (case flushes_stmts zone fs of Inl e \<Rightarrow> Inl e
          | Inr rest \<Rightarrow> Inr (concat sss @ [PruneUpTo final] @ rest)))"

context pg_engine
begin

lemma flushes_recorded:
  assumes "\<forall>(ops, final) \<in> set fs. final \<le> v \<and> (\<forall>oper \<in> set ops. restorable d key_cols zone v oper)"
    "flushes_stmts zone fs = Inr sts" "run exec sts db = Some db'"
  shows "\<exists>hes. recorded_since v (concat (map fst fs)) db db' hes"
  using assms
proof (induction fs arbitrary: sts db)
  case Nil
  then show ?case by (intro exI [of _ "[]"]) (auto simp: recorded_since_def)
next
  case (Cons f fs)
  obtain ops final where f: "f = (ops, final)" by fastforce
  obtain sss rest where sss: "traverse (plan zone) ops = Inr sss" and rest: "flushes_stmts zone fs = Inr rest"
    and sts: "sts = (concat sss @ [PruneUpTo final]) @ rest"
    using Cons.prems(2) by (auto simp: f split: sum.splits)
  obtain db1 where r1: "run exec (concat sss @ [PruneUpTo final]) db = Some db1" and r2: "run exec rest db1 = Some db'"
    using Cons.prems(3) unfolding sts run_append [of exec "concat sss @ [PruneUpTo final]"]
    by (auto split: option.splits)
  obtain hes1 where "recorded_since v ops db db1 hes1"
    using flush_recorded [OF _ sss r1, of v] Cons.prems(1) by (auto simp: f)
  moreover obtain hes2 where "recorded_since v (concat (map fst fs)) db1 db' hes2"
    using Cons.IH [OF _ rest r2] Cons.prems(1) by auto
  ultimately show ?case using recorded_since_append by (fastforce simp: f)
qed

section \<open>Undoing them\<close>

lemma undo_one:
  assumes good: "good_hev (h, (tk, before, after))" and now: "row_at db tk = after"
  shows "\<exists>st db'. revert_stmt h = Some st \<and> exec st db = Some db' \<and> hist db' = hist db
    \<and> row_at db' = (row_at db)(tk := before)"
proof -
  obtain t k where tk: "tk = (t, k)" by fastforce
  obtain pk where pk: "h_pk h = primaryKeyToJSON pk" "good_key (key_cols t) pk" "norm_key pk = k"
    and t: "h_table h = t" "t \<noteq> historyTable d (schemaName d)"
    using good by (auto simp: good_hev_def tk)
  obtain pk' where pk': "unmarshal_string_map (h_pk h) = Inr pk'" "wf_map pk'" "map_of pk' = map_of pk"
    using jsonToPrimaryKey_primaryKeyToJSON [of pk] pk(1,2) by (auto simp: good_key_def jsonToPrimaryKey_def)
  have wf: "wf_map pk" using pk(2) by (simp add: good_key_def)
  have k': "norm_key pk' = k" "good_key (key_cols t) pk'"
    using norm_key_cong [OF pk'(2) wf pk'(3)] good_key_cong [OF pk'(2) pk'(3) [symmetric] pk(2)] pk(3) by simp_all
  consider (I) "h_op h = ''I''" "before = None"
    | (U) r where "h_op h = ''U''" "after \<noteq> None" "before = Some r" "is_row tk r" "h_prev h = Some (to_json r)"
    | (D) r where "h_op h = ''D''" "after = None" "before = Some r" "is_row tk r" "h_prev h = Some (to_json r)"
    using good by (auto simp: good_hev_def)
  then show ?thesis
  proof cases
    case I
    then show ?thesis using rev_delete [OF t(2) k'(2), of db] pk'(1) t k' by (auto simp: revert_stmt_def tk)
  next
    case D
    then show ?thesis using rev_insert [OF t(2), of k r db] pk'(1) t k' now
      by (auto simp: revert_stmt_def tk prev_value_def)
  next
    case U
    then obtain names db' where u: "sqlColumnNamesFromJSON (to_json r) = Inr names"
      "exec (RevUpdate t names (to_json r) pk') db = Some db'" "hist db' = hist db"
      "row_at db' = (row_at db)((t, norm_key pk') \<mapsto> r)"
      using rev_update_ok [OF t(2) k'(2), of r db] now k' tk by auto
    then show ?thesis using U pk'(1) t k' by (auto simp: revert_stmt_def tk prev_value_def)
  qed
qed

lemma undo_eq: "undo (tk, before, after) = (tk, after, before)"
  by (simp add: undo_def)

lemma undo_all:
  assumes "list_all good_hev us" "chain (row_at db) (map undo (map snd us)) f"
  shows "\<exists>sts db'. list_all2 (\<lambda>he st. revert_stmt (fst he) = Some st) us sts
    \<and> run exec sts db = Some db' \<and> hist db' = hist db \<and> row_at db' = f"
  using assms
proof (induction us arbitrary: db)
  case (Cons u us)
  obtain h tk before after where u: "u = (h, (tk, before, after))" by (metis prod.collapse)
  have g: "good_hev (h, (tk, before, after))" using Cons.prems(1) by (simp add: u)
  have now: "row_at db tk = after" and rest: "chain ((row_at db)(tk := before)) (map undo (map snd us)) f"
    using Cons.prems(2) undo_eq [of tk before after] by (simp_all add: u)
  obtain st db1 where st: "revert_stmt h = Some st" "exec st db = Some db1" "hist db1 = hist db"
    "row_at db1 = (row_at db)(tk := before)"
    using undo_one [OF g now] by blast
  have "list_all good_hev us" using Cons.prems(1) by simp
  from Cons.IH [OF this rest [folded st(4)]] obtain sts db' where
    "list_all2 (\<lambda>he st. revert_stmt (fst he) = Some st) us sts" "run exec sts db1 = Some db'"
    "hist db' = hist db1" "row_at db' = f" by blast
  then show ?case using st by (intro exI [of _ "st # sts"] exI [of _ db']) (simp add: u)
qed auto

theorem revert_restores:
  assumes ok: "\<forall>(ops, final) \<in> set fs. final \<le> v \<and> (\<forall>oper \<in> set ops. restorable d key_cols zone v oper)"
    and order: "sorted_wrt (\<lambda>a b. op_key a = op_key b \<longrightarrow> op_block a < op_block b) (concat (map fst fs))"
    and old: "recent v db = []"
    and sts: "flushes_stmts zone fs = Inr sts" and run: "run exec sts db = Some db'"
  shows "\<exists>rsts db''. list_all2 (\<lambda>h st. revert_stmt h = Some st) (hquery db' v) rsts
    \<and> run exec (rsts @ [PruneAbove v]) db' = Some db'' \<and> row_at db'' = row_at db \<and> recent v db'' = []"
proof -
  obtain hes where hes: "recorded_since v (concat (map fst fs)) db db' hes"
    using flushes_recorded [OF ok sts run] by blast
  have rec: "recent v db' = map fst hes" and ch: "chain (row_at db) (map snd hes) (row_at db')"
    and good: "list_all good_hev hes"
    and sub: "subseq (map hev_key_block hes) (map (\<lambda>oper. (op_key oper, op_block oper)) (concat (map fst fs)))"
    using hes old by (simp_all add: recorded_since_def)
  have "mset (hquery db' v) = mset (map fst hes)" using query_rows [of db' v] rec unfolding recent_def by metis
  then obtain us where us: "mset us = mset hes" "map fst us = hquery db' v"
    using mset_map_arrange [of "hquery db' v" fst hes] by metis
  have strict: "sorted_wrt (\<lambda>a b. fst (snd a) = fst (snd b) \<longrightarrow> h_block (fst a) < h_block (fst b)) hes"
  proof -
    have "sorted_wrt (\<lambda>a b. fst a = fst b \<longrightarrow> snd a < snd b)
        (map (\<lambda>oper. (op_key oper, op_block oper)) (concat (map fst fs)))"
      using order by (simp add: sorted_wrt_map del: map_concat)
    from sorted_wrt_subseq [OF sub this] show ?thesis by (simp add: sorted_wrt_map hev_key_block_def)
  qed
  have bwd: "filter (\<lambda>e. fst e = k) (map snd us) = rev (filter (\<lambda>e. fst e = k) (map snd hes))" for k
  proof -
    let ?P = "\<lambda>he. fst (snd he) = k"
    have "filter ?P us = rev (filter ?P hes)"
    proof (rule sorted_desc_unique [where f = "\<lambda>he. h_block (fst he)"])
      show "mset (filter ?P us) = mset (filter ?P hes)" using us(1) by simp
      have "sorted_wrt (\<lambda>a b. h_block (fst a) \<ge> h_block (fst b)) us"
        using query_order [of db' v, folded us(2)] by (simp add: sorted_wrt_map)
      then show "sorted_wrt (\<lambda>a b. h_block (fst a) \<ge> h_block (fst b)) (filter ?P us)" by (rule sorted_wrt_filter)
      have "sorted_wrt (\<lambda>a b. fst (snd a) = fst (snd b) \<longrightarrow> h_block (fst a) < h_block (fst b)) (filter ?P hes)"
        using strict by (rule sorted_wrt_filter)
      then show "sorted_wrt (\<lambda>a b. h_block (fst a) < h_block (fst b)) (filter ?P hes)"
        by (rule sorted_wrt_mono_rel [rotated]) auto
    qed
    then have "map snd (filter ?P us) = rev (map snd (filter ?P hes))" by (simp add: rev_map)
    then show ?thesis unfolding filter_map comp_def .
  qed
  have "chain (row_at db') (map undo (map snd us)) (row_at db)" using chain_undo [OF ch bwd] .
  moreover have "list_all good_hev us" 
    using good mset_eq_setD [OF us(1)] by (simp only: list_all_iff)
  ultimately obtain rsts db1 where r: "list_all2 (\<lambda>he st. revert_stmt (fst he) = Some st) us rsts"
    "run exec rsts db' = Some db1" "row_at db1 = row_at db" using undo_all [of us db' "row_at db"] by blast
  have "list_all2 (\<lambda>h st. revert_stmt h = Some st) (hquery db' v) rsts"
    unfolding us(2) [symmetric] using r(1) by (simp add: list_all2_map1)
  moreover obtain db'' where "exec (PruneAbove v) db1 = Some db''" "row_at db'' = row_at db1"
    "hist db'' = filter (\<lambda>h. \<not> v < h_block h) (hist db1)" using prune_above [of v db1] by blast
  moreover from this have "run exec (rsts @ [PruneAbove v]) db' = Some db''" "row_at db'' = row_at db"
    "recent v db'' = []"
    using r(2,3) by (simp_all add: run_append recent_def filter_empty_conv)
  ultimately show ?thesis by blast
qed

end

section \<open>The texts of the flushes and of the revert\<close>

text \<open>What the flushes send, as the dialect's functions build it: per operation its text, then
  the pruning of the history.\<close>

fun flushes_texts :: "Dialect \<Rightarrow> (int \<Rightarrow> int) \<Rightarrow> (Operation list \<times> u64) list \<Rightarrow> string list res" where
  "flushes_texts d zone [] = Inr []"
| "flushes_texts d zone ((ops, final) # fs) =
     (case traverse (prepareStatement d zone (schemaName d)) ops of Inl e \<Rightarrow> Inl e
      | Inr qs \<Rightarrow> (case flushes_texts d zone fs of Inl e \<Rightarrow> Inl e
          | Inr rest \<Rightarrow> Inr (qs @ [pruneReversibleQuery d (schemaName d) final] @ rest)))"

lemma traverse_plan:
  "traverse (prepareStatement d zone (schemaName d)) ops = Inr qs \<Longrightarrow>
   \<exists>sss. traverse (plan zone) ops = Inr sss \<and> qs = map (render_all d) sss"
proof (induction ops arbitrary: qs)
  case (Cons oper ops)
  then obtain q qs' where q: "prepareStatement d zone (schemaName d) oper = Inr q"
    "traverse (prepareStatement d zone (schemaName d)) ops = Inr qs'" "qs = q # qs'"
    by (auto split: sum.splits)
  obtain ss where "plan zone oper = Inr ss" "q = render_all d ss" using prepareStatement_plan [OF q(1)] by blast
  moreover obtain sss where "traverse (plan zone) ops = Inr sss" "qs' = map (render_all d) sss"
    using Cons.IH [OF q(2)] by blast
  ultimately show ?case using q(3) by (intro exI [of _ "ss # sss"]) simp
qed simp

lemma flushes_texts_stmts:
  "flushes_texts d zone fs = Inr qs \<Longrightarrow>
   \<exists>sss. flushes_stmts zone fs = Inr (concat sss) \<and> qs = map (render_all d) sss"
proof (induction fs arbitrary: qs)
  case (Cons f fs)
  obtain ops final where f: "f = (ops, final)" by fastforce
  obtain q rest where q: "traverse (prepareStatement d zone (schemaName d)) ops = Inr q"
    "flushes_texts d zone fs = Inr rest" "qs = q @ [pruneReversibleQuery d (schemaName d) final] @ rest"
    using Cons.prems by (auto simp: f split: sum.splits)
  obtain sss where sss: "traverse (plan zone) ops = Inr sss" "q = map (render_all d) sss"
    using traverse_plan [OF q(1)] by blast
  obtain sss' where sss': "flushes_stmts zone fs = Inr (concat sss')" "rest = map (render_all d) sss'"
    using Cons.IH [OF q(2)] by blast
  show ?case
    by (intro exI [of _ "sss @ [[PruneUpTo final]] @ sss'"])
       (simp add: f sss sss' q(3) render_all_def)
qed auto

lemma revert_texts:
  "list_all2 (\<lambda>h st. revert_stmt h = Some st) hs sts \<Longrightarrow>
   list_all2 (\<lambda>h q. pg_revertQuery (h_op h) (h_table h) (h_pk h) (prev_value h) = Some (Inr q))
     hs (map (render d) sts)"
  unfolding pg_revertQuery_def
  by (induction rule: list_all2_induct) (simp_all add: revertQuery_stmt)

end
