(* ===== verification/MemEngine.thy ===== *)
theory MemEngine
  imports Restore
begin

text \<open>
  A database kept in memory that satisfies the contract \<open>pg_engine\<close>: each row is its JSON text
  under its table and key, and statements are executed on it. It shows that the contract can be
  met, for every choice of the tables' key columns, and it runs the examples.
\<close>

record MemDb =
  m_rows :: "(rkey \<times> string) list"
  m_hist :: "HistRow list"

definition key_part :: "string list \<Rightarrow> string gomap \<Rightarrow> string gomap" where
  "key_part cols m = map (\<lambda>c. (c, getS m c)) (remdups cols)"

definition mem_key :: "string list \<Rightarrow> string \<Rightarrow> (string \<times> string) list" where
  "mem_key cols j = (case unmarshal_string_map j of Inr m \<Rightarrow> norm_key (key_part cols m) | Inl _ \<Rightarrow> [])"

definition mem_is_row :: "(string \<Rightarrow> string list) \<Rightarrow> rkey \<Rightarrow> string \<Rightarrow> bool" where
  "mem_is_row pkcols tk j =
     (case unmarshal_string_map j of Inl _ \<Rightarrow> False
      | Inr m \<Rightarrow> list_all utf8_entry m \<and> list_all (\<lambda>c. map_of m c \<noteq> None) (pkcols (fst tk)) \<and> mem_key (pkcols (fst tk)) j = snd tk \<and> is_ok (sqlColumnNamesFromJSON j))"

definition mem_row_at :: "(string \<Rightarrow> string list) \<Rightarrow> MemDb \<Rightarrow> rkey \<Rightarrow> string option" where
  "mem_row_at pkcols db tk =
     (case map_of (m_rows db) tk of None \<Rightarrow> None
      | Some j \<Rightarrow> if mem_is_row pkcols tk j then Some j else None)"

definition mem_set :: "rkey \<Rightarrow> string \<Rightarrow> MemDb \<Rightarrow> MemDb" where
  "mem_set tk j db = db\<lparr>m_rows := AList.update tk j (m_rows db)\<rparr>"

definition mem_del :: "rkey \<Rightarrow> MemDb \<Rightarrow> MemDb" where
  "mem_del tk db = db\<lparr>m_rows := AList.delete tk (m_rows db)\<rparr>"

definition mem_log :: "HistRow list \<Rightarrow> MemDb \<Rightarrow> MemDb" where
  "mem_log hs db = db\<lparr>m_hist := m_hist db @ hs\<rparr>"

definition unquote :: "string \<Rightarrow> string" where
  "unquote c = (case sql_token (CHR 0x22) c of Some (n, _) \<Rightarrow> n | None \<Rightarrow> c)"

definition row_data :: "string list \<Rightarrow> string list \<Rightarrow> string gomap" where
  "row_data cols vals = zip (map unquote cols) (map literal vals)"

definition row_of :: "string \<Rightarrow> string gomap" where
  "row_of j = (case unmarshal_string_map j of Inr m \<Rightarrow> m | Inl _ \<Rightarrow> [])"

definition hist_entry :: "string \<Rightarrow> string \<Rightarrow> string gomap \<Rightarrow> string option \<Rightarrow> u64 \<Rightarrow> HistRow" where
  "hist_entry op t pk prev b = \<lparr>h_op = op, h_table = t, h_pk = primaryKeyToJSON pk, h_prev = prev, h_block = b\<rparr>"

fun mem_exec :: "Dialect \<Rightarrow> (string \<Rightarrow> string list) \<Rightarrow> Stmt \<Rightarrow> MemDb \<Rightarrow> MemDb option" where
  "mem_exec d pkcols (HistInsert t pk b) db = Some (mem_log [hist_entry ''I'' t pk None b] db)"
| "mem_exec d pkcols (HistUpsert tab pk b) db =
     (let t = qualifiedName d tab in
      Some (mem_log [case mem_row_at pkcols db (t, norm_key pk) of
          None \<Rightarrow> hist_entry ''I'' t pk None b | Some j \<Rightarrow> hist_entry ''U'' t pk (Some j) b] db))"
| "mem_exec d pkcols (HistRowOf op tab pk b) db =
     (let t = qualifiedName d tab in
      Some (mem_log (case mem_row_at pkcols db (t, norm_key pk) of
          None \<Rightarrow> [] | Some j \<Rightarrow> [hist_entry op t pk (Some j) b]) db))"
| "mem_exec d pkcols (SInsert t cols vals) db =
     (let j = json_Marshal_map (row_data cols vals); tk = (t, mem_key (pkcols t) j) in
      if mem_row_at pkcols db tk \<noteq> None then None else Some (mem_set tk j db))"
| "mem_exec d pkcols (SUpsert t cols vals pk) db =
     (let data = row_data cols vals; j = json_Marshal_map data; tk = (t, mem_key (pkcols t) j) in
      case mem_row_at pkcols db tk of
        None \<Rightarrow> Some (mem_set tk j db)
      | Some j0 \<Rightarrow> Some (mem_set tk (json_Marshal_map (copyInto (row_of j0) data)) db))"
| "mem_exec d pkcols (SUpdate t cols vals pk) db =
     (let tk = (t, norm_key pk) in
      case mem_row_at pkcols db tk of
        None \<Rightarrow> Some db
      | Some j0 \<Rightarrow>
          let j = json_Marshal_map (copyInto (row_of j0) (row_data cols vals)); tk' = (t, mem_key (pkcols t) j) in
          if tk' = tk then Some (mem_set tk j db)
          else if mem_row_at pkcols db tk' \<noteq> None then None else Some (mem_set tk' j (mem_del tk db)))"
| "mem_exec d pkcols (SDelete t pk) db = Some (mem_del (t, norm_key pk) db)"
| "mem_exec d pkcols (RevDelete t pk) db = Some (mem_del (t, norm_key pk) db)"
| "mem_exec d pkcols (RevInsert t j) db =
     (let tk = (t, mem_key (pkcols t) j) in
      if \<not> mem_is_row pkcols tk j \<or> mem_row_at pkcols db tk \<noteq> None then None else Some (mem_set tk j db))"
| "mem_exec d pkcols (RevUpdate t names j pk) db =
     (let tk = (t, norm_key pk) in
      case mem_row_at pkcols db tk of None \<Rightarrow> Some db
      | Some _ \<Rightarrow> if mem_is_row pkcols tk j then Some (mem_set tk j db) else None)"
| "mem_exec d pkcols (PruneUpTo b) db = Some (db\<lparr>m_hist := filter (\<lambda>h. \<not> h_block h \<le> b) (m_hist db)\<rparr>)"
| "mem_exec d pkcols (PruneAbove b) db = Some (db\<lparr>m_hist := filter (\<lambda>h. \<not> b < h_block h) (m_hist db)\<rparr>)"

definition mem_query :: "MemDb \<Rightarrow> u64 \<Rightarrow> HistRow list" where
  "mem_query db b = rev (sort_key h_block (filter (\<lambda>h. b < h_block h) (m_hist db)))"

section \<open>Rows as JSON\<close>

lemma Marshal_parse:
  assumes "wf_map m" "\<forall>kv \<in> set m. utf8_entry kv"
  shows "\<exists>m'. unmarshal_string_map (json_Marshal_map m) = Inr m' \<and> wf_map m' \<and> map_of m' = map_of m
    \<and> list_all utf8_entry m'"
proof -
  obtain m' where m': "unmarshal_string_map (json_Marshal_map m) = Inr m'" "wf_map m'" "map_of m' = map_of m"
    using jsonToPrimaryKey_primaryKeyToJSON [OF assms] by (auto simp: jsonToPrimaryKey_def primaryKeyToJSON_def)
  then have "set m' = set m" using assms(1) map_of_eqI_set [of m' m] by (simp add: wf_map_def)
  then show ?thesis using m' assms(2) by (auto simp: list_all_iff)
qed

lemma Marshal_columns:
  assumes "wf_map m" "\<forall>kv \<in> set m. utf8_entry kv"
  shows "is_ok (sqlColumnNamesFromJSON (json_Marshal_map m))"
proof -
  let ?kvs = "map (\<lambda>k. (k, getS m k)) (sort (keys m))"
  have "\<forall>kv \<in> set ?kvs. utf8_entry kv"
    using entries_utf8 [OF assms] .
  then have "parse_json (json_Marshal_map m) = Inr (JObj (map (\<lambda>(a, b). (a, JStr b)) ?kvs))"
    unfolding json_Marshal_map_entries [OF assms(1)] by (rule parse_json_object)
  moreover have "numbers_fit (JObj (map (\<lambda>(a, b). (a, JStr b)) ?kvs))" by auto
  ultimately show ?thesis by (simp only: sqlColumnNamesFromJSON_def unmarshal_any_map_def sum.case Json.case if_True is_ok.simps)
qed

lemma getS_cong: "map_of m' = map_of m \<Longrightarrow> getS m' = getS m"
  by (simp add: getS_def fun_eq_iff)

lemma mem_key_Marshal:
  assumes "wf_map m" "\<forall>kv \<in> set m. utf8_entry kv"
  shows "mem_key cols (json_Marshal_map m) = norm_key (key_part cols m)"
proof -
  obtain m' where m': "unmarshal_string_map (json_Marshal_map m) = Inr m'" "map_of m' = map_of m"
    using Marshal_parse [OF assms] by blast
  from getS_cong [OF m'(2)] m'(1) show ?thesis by (simp add: mem_key_def key_part_def)
qed

lemma wf_key_part: "wf_map (key_part cols m)"
  by (simp add: key_part_def wf_map_def comp_def)

lemma map_of_key_part: "map_of (key_part cols m) k = (if k \<in> set cols then Some (getS m k) else None)"
  by (simp add: key_part_def map_of_map_restrict restrict_map_def)

lemma key_part_norm:
  assumes "good_key cols pk" "\<And>k v. (k, v) \<in> set pk \<Longrightarrow> map_of m k = Some v"
  shows "norm_key (key_part cols m) = norm_key pk"
proof (rule norm_key_cong [OF wf_key_part])
  show wf: "wf_map pk" using assms(1) by (simp add: good_key_def)
  show "map_of (key_part cols m) = map_of pk"
  proof
    fix k
    show "map_of (key_part cols m) k = map_of pk k"
    proof (cases "map_of pk k")
      case None
      then have "k \<notin> set cols" using assms(1) by (auto simp: good_key_def keys_def map_of_eq_None_iff)
      with None show ?thesis by (simp add: map_of_key_part)
    next
      case (Some v)
      then have "(k, v) \<in> set pk" by (rule map_of_SomeD)
      moreover from this have "k \<in> set cols" using assms(1) by (force simp: good_key_def keys_def)
      ultimately show ?thesis using Some assms(2) by (simp add: map_of_key_part getS_def)
    qed
  qed
qed

lemma Marshal_is_row:
  assumes "wf_map m" "\<forall>kv \<in> set m. utf8_entry kv" "good_key (pkcols t) pk"
    "\<And>k v. (k, v) \<in> set pk \<Longrightarrow> map_of m k = Some v"
  shows "mem_key (pkcols t) (json_Marshal_map m) = norm_key pk"
    "mem_is_row pkcols (t, norm_key pk) (json_Marshal_map m)"
proof -
  show k: "mem_key (pkcols t) (json_Marshal_map m) = norm_key pk"
    using mem_key_Marshal [OF assms(1,2)] key_part_norm [OF assms(3,4)] by simp
  show "mem_is_row pkcols (t, norm_key pk) (json_Marshal_map m)"
  proof -
    obtain m' where m': "unmarshal_string_map (json_Marshal_map m) = Inr m'" "map_of m' = map_of m"
      "list_all utf8_entry m'" using Marshal_parse [OF assms(1,2)] by blast
    have "map_of m c \<noteq> None" if "c \<in> set (pkcols t)" for c
    proof -
      have "c \<in> set (keys pk)" using assms(3) that by (simp add: good_key_def)
      then obtain v where "(c, v) \<in> set pk" by (auto simp: keys_def)
      then show ?thesis using assms(4) by simp
    qed
    then show ?thesis using m' Marshal_columns [OF assms(1,2)] k by (simp add: mem_is_row_def list_all_iff)
  qed
qed

section \<open>The statements\<close>

lemma mem_row_set:
  "mem_is_row pkcols tk j \<Longrightarrow> mem_row_at pkcols (mem_set tk j db) = (mem_row_at pkcols db)(tk \<mapsto> j)"
  by (auto simp: mem_row_at_def mem_set_def update_conv' fun_eq_iff)

lemma mem_row_del: "mem_row_at pkcols (mem_del tk db) = (mem_row_at pkcols db)(tk := None)"
  by (auto simp: mem_row_at_def mem_del_def delete_conv' fun_eq_iff)

lemma mem_row_log [simp]: "mem_row_at pkcols (mem_log hs db) = mem_row_at pkcols db"
  "mem_row_at pkcols (db\<lparr>m_hist := h\<rparr>) = mem_row_at pkcols db"
  by (simp_all add: mem_row_at_def mem_log_def fun_eq_iff)

lemma mem_hist [simp]: "m_hist (mem_set tk j db) = m_hist db" "m_hist (mem_del tk db) = m_hist db"
  "m_hist (mem_log hs db) = m_hist db @ hs"
  by (simp_all add: mem_set_def mem_del_def mem_log_def)

lemma mem_row_is: "mem_row_at pkcols db tk = Some j \<Longrightarrow> mem_is_row pkcols tk j"
  by (auto simp: mem_row_at_def split: option.splits if_splits)

text \<open>The data of a statement: a map from column names to values that is well-formed text\<close>

lemma unquote_EscapeIdentifier [simp]: "unquote (EscapeIdentifier n) = n"
  using sql_token_EscapeIdentifier [of "[]" n] by (simp add: unquote_def)

lemma row_values_names:
  assumes "row_values cols vals"
  obtains names where "cols = map EscapeIdentifier names" "distinct names" "\<forall>n \<in> set names. valid_utf8 n"
proof -
  have q: "c = EscapeIdentifier (unquote c) \<and> valid_utf8 (unquote c)" if "c \<in> set cols" for c
  proof -
    have tok: "case sql_token (CHR 0x22) c of Some (n, []) \<Rightarrow> c = EscapeIdentifier n \<and> valid_utf8 n | _ \<Rightarrow> False"
      using assms that by (simp add: row_values_def list_all_iff)
    then obtain n r where n: "sql_token (CHR 0x22) c = Some (n, r)" by (auto split: option.splits)
    then show ?thesis using tok by (cases r) (simp_all add: unquote_def)
  qed
  show ?thesis
  proof (rule that [of "map unquote cols"])
    show "cols = map EscapeIdentifier (map unquote cols)" using q by (simp add: map_idI [symmetric] comp_def)
    then show "distinct (map unquote cols)" using assms by (metis distinct_map row_values_def)
    show "\<forall>n \<in> set (map unquote cols). valid_utf8 n" using q by auto
  qed
qed

lemma row_data_ok:
  assumes "row_values cols vals"
  shows "wf_map (row_data cols vals)" "\<forall>kv \<in> set (row_data cols vals). utf8_entry kv"
proof -
  obtain names where names: "cols = map EscapeIdentifier names" "distinct names" "\<forall>n \<in> set names. valid_utf8 n"
    using row_values_names [OF assms] .
  have rd: "row_data cols vals = zip names (map literal vals)" by (simp add: row_data_def names(1) comp_def)
  have len: "length names = length vals" using assms by (simp add: row_values_def names(1))
  show "wf_map (row_data cols vals)" unfolding rd using names(2) len by (simp add: wf_map_def)
  show "\<forall>kv \<in> set (row_data cols vals). utf8_entry kv" unfolding rd
  proof
    fix kv assume kv: "kv \<in> set (zip names (map literal vals))"
    then have "fst kv \<in> set names" "snd kv \<in> set (map literal vals)"
      by (metis prod.collapse set_zip_leftD, metis prod.collapse set_zip_rightD)
    then show "utf8_entry kv" using names(3) assms by (auto simp: utf8_entry_def row_values_def list_all_iff)
  qed
qed

lemma row_data_lookup:
  assumes "row_values cols vals" "(EscapeIdentifier k, x) \<in> set (zip cols vals)"
  shows "map_of (row_data cols vals) k = Some (literal x)"
proof -
  have "(k, literal x) \<in> set (row_data cols vals)"
    using assms(2) by (force simp: row_data_def zip_map_map)
  then show ?thesis using row_data_ok(1) [OF assms(1)] by (simp add: wf_map_def)
qed

lemma names_key_lookup:
  assumes "row_values cols vals" "names_key cols vals pk" "(k, v) \<in> set pk"
  shows "map_of (row_data cols vals) k = Some v"
proof -
  obtain p where "p \<in> set (zip cols vals)" "fst p = EscapeIdentifier k" "literal (snd p) = v"
    using assms(2,3) by (force simp: names_key_def list_all_iff)
  then show ?thesis using row_data_lookup [OF assms(1), of k "snd p"] by (metis prod.collapse)
qed

text \<open>A row that is overwritten in part\<close>

lemma is_row_of:
  assumes "mem_is_row pkcols tk j"
  shows "wf_map (row_of j)" "\<forall>kv \<in> set (row_of j). utf8_entry kv"
    "norm_key (key_part (pkcols (fst tk)) (row_of j)) = snd tk"
    "\<forall>c \<in> set (pkcols (fst tk)). map_of (row_of j) c \<noteq> None"
proof -
  obtain m where m: "unmarshal_string_map j = Inr m" "list_all utf8_entry m"
    "mem_key (pkcols (fst tk)) j = snd tk" "list_all (\<lambda>c. map_of m c \<noteq> None) (pkcols (fst tk))"
    using assms by (auto simp: mem_is_row_def split: sum.splits)
  then show "\<forall>kv \<in> set (row_of j). utf8_entry kv" "norm_key (key_part (pkcols (fst tk)) (row_of j)) = snd tk"
    "\<forall>c \<in> set (pkcols (fst tk)). map_of (row_of j) c \<noteq> None"
    by (simp_all add: row_of_def mem_key_def list_all_iff)
  have "wf_map m" using m(1)
    by (auto simp: unmarshal_string_map_def split: sum.splits Json.splits)
  then show "wf_map (row_of j)" using m(1) by (simp add: row_of_def)
qed

lemma norm_key_inj: "norm_key a = norm_key b \<Longrightarrow> map_of a = map_of b"
  using map_of_sorted_entries [of a] map_of_sorted_entries [of b] by (simp add: norm_key_def)

lemma row_data_source:
  assumes "map_of (row_data cols vals) k = Some y" "row_values cols vals"
  shows "\<exists>x. (EscapeIdentifier k, x) \<in> set (zip cols vals) \<and> y = literal x"
proof -
  obtain names where names: "cols = map EscapeIdentifier names" using row_values_names [OF assms(2)] by blast
  have "(k, y) \<in> set (zip names (map literal vals))"
    using map_of_SomeD [OF assms(1)] by (simp add: row_data_def names comp_def)
  then show ?thesis by (force simp: names zip_map1 zip_map2)
qed

lemma overwrite_lookup:
  assumes row: "mem_is_row pkcols (t, norm_key pk) j0" and gk: "good_key (pkcols t) pk"
    and rv: "row_values cols vals" and sp: "spares_key cols vals pk" and kv: "(k, v) \<in> set pk"
  shows "map_of (copyInto (row_of j0) (row_data cols vals)) k = Some v"
proof -
  have wf: "wf_map pk" using gk by (simp add: good_key_def)
  have k: "k \<in> set (pkcols t)" using gk kv by (force simp: good_key_def keys_def)
  have "norm_key (key_part (pkcols t) (row_of j0)) = norm_key pk" using is_row_of(3) [OF row] by simp
  then have "map_of (key_part (pkcols t) (row_of j0)) k = map_of pk k"
    by (rule fun_cong [OF norm_key_inj])
  moreover have "map_of pk k = Some v" using wf kv by (simp add: wf_map_def)
  ultimately have "getS (row_of j0) k = v" using k by (simp add: map_of_key_part)
  moreover have "map_of (row_of j0) k \<noteq> None" using is_row_of(4) [OF row] k by simp
  ultimately have old: "map_of (row_of j0) k = Some v" by (auto simp: getS_def)
  have "y = v" if "map_of (row_data cols vals) k = Some y" for y
    using row_data_source [OF that rv] sp kv by (fastforce simp: spares_key_def list_all_iff)
  then show ?thesis using old row_data_ok(1) [OF rv]
    by (cases "map_of (row_data cols vals) k") (simp_all add: map_of_copyInto_wf map_add_def)
qed

lemma overwrite_utf8:
  assumes "mem_is_row pkcols tk j0" "row_values cols vals"
  shows "wf_map (copyInto (row_of j0) (row_data cols vals))"
    "\<forall>kv \<in> set (copyInto (row_of j0) (row_data cols vals)). utf8_entry kv"
proof -
  let ?m = "copyInto (row_of j0) (row_data cols vals)"
  show wf: "wf_map ?m" using is_row_of(1) [OF assms(1)] by simp
  show "\<forall>kv \<in> set ?m. utf8_entry kv"
  proof
    fix kv assume "kv \<in> set ?m"
    then have "map_of ?m (fst kv) = Some (snd kv)" using wf by (simp add: wf_map_def)
    then have "map_of (row_data cols vals) (fst kv) = Some (snd kv) \<or> map_of (row_of j0) (fst kv) = Some (snd kv)"
      using row_data_ok(1) [OF assms(2)] by (auto simp: map_of_copyInto_wf map_add_def split: option.splits)
    then have "kv \<in> set (row_data cols vals) \<or> kv \<in> set (row_of j0)"
      by (metis map_of_SomeD prod.collapse)
    then show "utf8_entry kv" using row_data_ok(2) [OF assms(2)] is_row_of(2) [OF assms(1)] by blast
  qed
qed

lemma overwrite_is_row:
  assumes row: "mem_is_row pkcols (t, norm_key pk) j0" and gk: "good_key (pkcols t) pk"
    and rv: "row_values cols vals" and sp: "spares_key cols vals pk"
  defines "m \<equiv> copyInto (row_of j0) (row_data cols vals)"
  shows "mem_key (pkcols t) (json_Marshal_map m) = norm_key pk"
    "mem_is_row pkcols (t, norm_key pk) (json_Marshal_map m)"
proof -
  have lookup: "map_of m k = Some v" if "(k, v) \<in> set pk" for k v
    using overwrite_lookup [OF row gk rv sp that] by (simp add: m_def)
  have ok: "wf_map m" "\<forall>kv \<in> set m. utf8_entry kv"
    using overwrite_utf8 [OF row rv] by (simp_all add: m_def)
  show "mem_key (pkcols t) (json_Marshal_map m) = norm_key pk"
    "mem_is_row pkcols (t, norm_key pk) (json_Marshal_map m)"
    using Marshal_is_row [where m = m and pkcols = pkcols and t = t and pk = pk] ok gk lookup by simp_all
qed

section \<open>The contract holds\<close>

lemma mem_insert:
  assumes ex: "mem_exec d pkcols (SInsert t cols vals) db = Some db'" and gk: "good_key (pkcols t) pk"
    and rv: "row_values cols vals" and nk: "names_key cols vals pk"
  shows "m_hist db' = m_hist db \<and> mem_row_at pkcols db (t, norm_key pk) = None
    \<and> (\<exists>r. mem_row_at pkcols db' = (mem_row_at pkcols db)((t, norm_key pk) \<mapsto> r))"
proof -
  let ?j = "json_Marshal_map (row_data cols vals)"
  note row = Marshal_is_row [where m = "row_data cols vals" and pkcols = pkcols and t = t and pk = pk]
  have k: "mem_key (pkcols t) ?j = norm_key pk" "mem_is_row pkcols (t, norm_key pk) ?j"
    using row row_data_ok [OF rv] gk names_key_lookup [OF rv nk] by blast+
  have "mem_row_at pkcols db (t, norm_key pk) = None" "db' = mem_set (t, norm_key pk) ?j db"
    using ex by (simp_all add: Let_def k(1) split: if_splits)
  then show ?thesis using mem_row_set [OF k(2)] by auto
qed

lemma mem_upsert:
  assumes ex: "mem_exec d pkcols (SUpsert t cols vals pk) db = Some db'" and gk: "good_key (pkcols t) pk"
    and rv: "row_values cols vals" and nk: "names_key cols vals pk"
  shows "m_hist db' = m_hist db \<and> (\<exists>r. mem_row_at pkcols db' = (mem_row_at pkcols db)((t, norm_key pk) \<mapsto> r))"
proof -
  let ?tk = "(t, norm_key pk)" and ?j = "json_Marshal_map (row_data cols vals)"
  note row = Marshal_is_row [where m = "row_data cols vals" and pkcols = pkcols and t = t and pk = pk]
  have k: "mem_key (pkcols t) ?j = norm_key pk" "mem_is_row pkcols ?tk ?j"
    using row row_data_ok [OF rv] gk names_key_lookup [OF rv nk] by blast+
  have sp: "spares_key cols vals pk"
    unfolding spares_key_def list_all_iff
  proof (clarify)
    fix k v c x assume kv: "(k, v) \<in> set pk" and "(c, x) \<in> set (zip cols vals)"
      and "fst (c, x) = EscapeIdentifier k"
    then have "map_of (row_data cols vals) k = Some (literal x)" using row_data_lookup [OF rv, of k x] by simp
    then show "literal (snd (c, x)) = v" using names_key_lookup [OF rv nk kv] by simp
  qed
  show ?thesis
  proof (cases "mem_row_at pkcols db ?tk")
    case None
    then have "db' = mem_set ?tk ?j db" using ex by (simp add: Let_def k(1))
    then show ?thesis using mem_row_set [OF k(2)] by auto
  next
    case (Some j0)
    let ?j1 = "json_Marshal_map (copyInto (row_of j0) (row_data cols vals))"
    have "mem_is_row pkcols ?tk ?j1" by (rule overwrite_is_row(2) [OF mem_row_is [OF Some] gk rv sp])
    moreover have "db' = mem_set ?tk ?j1 db" using ex Some by (simp add: Let_def k(1))
    ultimately show ?thesis using mem_row_set [of pkcols ?tk ?j1 db] by auto
  qed
qed

lemma mem_update:
  assumes ex: "mem_exec d pkcols (SUpdate t cols vals pk) db = Some db'" and gk: "good_key (pkcols t) pk"
    and rv: "row_values cols vals" and sp: "spares_key cols vals pk"
  shows "m_hist db' = m_hist db \<and>
    (case mem_row_at pkcols db (t, norm_key pk) of None \<Rightarrow> mem_row_at pkcols db' = mem_row_at pkcols db
     | Some _ \<Rightarrow> \<exists>r. mem_row_at pkcols db' = (mem_row_at pkcols db)((t, norm_key pk) \<mapsto> r))"
proof (cases "mem_row_at pkcols db (t, norm_key pk)")
  case None
  then show ?thesis using ex by simp
next
  case (Some j0)
  let ?tk = "(t, norm_key pk)" and ?j1 = "json_Marshal_map (copyInto (row_of j0) (row_data cols vals))"
  note o1 = overwrite_is_row [OF mem_row_is [OF Some] gk rv sp]
  have "db' = mem_set ?tk ?j1 db" using ex Some by (simp add: Let_def o1(1))
  then show ?thesis using mem_row_set [OF o1(2)] Some by auto
qed

lemma mem_query_sorted: "sorted_wrt (\<lambda>h h'. h_block h \<ge> h_block h') (mem_query db b)"
proof -
  have "sorted (map h_block (sort_key h_block (filter (\<lambda>h. b < h_block h) (m_hist db))))" by simp
  then show ?thesis unfolding mem_query_def sorted_wrt_rev by (simp add: sorted_wrt_map)
qed

interpretation mem: pg_engine d pkcols "mem_exec d pkcols" "mem_row_at pkcols" "mem_is_row pkcols" id m_hist mem_query
  for d pkcols
proof unfold_locales
  fix db db' :: MemDb and t tab op j :: string and pk :: "string gomap" and b :: u64
    and cols vals :: "string list" and tk :: rkey and k names
  show "mem_row_at pkcols db tk = Some j \<Longrightarrow> mem_is_row pkcols tk j" by (rule mem_row_is)
  show "mem_is_row pkcols tk j \<Longrightarrow> \<exists>names. sqlColumnNamesFromJSON (id j) = Inr names"
    by (auto simp: mem_is_row_def split: sum.splits elim: is_ok.elims)
  show "mem_exec d pkcols (HistInsert t pk b) db = Some db' \<Longrightarrow>
      mem_row_at pkcols db' = mem_row_at pkcols db \<and> m_hist db' = m_hist db @
        [\<lparr>h_op = ''I'', h_table = t, h_pk = primaryKeyToJSON pk, h_prev = None, h_block = b\<rparr>]"
    by (auto simp: hist_entry_def)
  show "mem_exec d pkcols (HistUpsert tab pk b) db = Some db' \<Longrightarrow> good_key (pkcols (qualifiedName d tab)) pk \<Longrightarrow>
      mem_row_at pkcols db' = mem_row_at pkcols db \<and> m_hist db' = m_hist db @
        [case mem_row_at pkcols db (qualifiedName d tab, norm_key pk) of
           None \<Rightarrow> \<lparr>h_op = ''I'', h_table = qualifiedName d tab, h_pk = primaryKeyToJSON pk, h_prev = None, h_block = b\<rparr>
         | Some r \<Rightarrow> \<lparr>h_op = ''U'', h_table = qualifiedName d tab, h_pk = primaryKeyToJSON pk,
                      h_prev = Some (id r), h_block = b\<rparr>]"
    by (auto simp: hist_entry_def Let_def split: option.split)
  show "mem_exec d pkcols (HistRowOf op tab pk b) db = Some db' \<Longrightarrow> good_key (pkcols (qualifiedName d tab)) pk \<Longrightarrow>
      mem_row_at pkcols db' = mem_row_at pkcols db \<and> m_hist db' = m_hist db @
        (case mem_row_at pkcols db (qualifiedName d tab, norm_key pk) of
           None \<Rightarrow> []
         | Some r \<Rightarrow> [\<lparr>h_op = op, h_table = qualifiedName d tab, h_pk = primaryKeyToJSON pk,
                      h_prev = Some (id r), h_block = b\<rparr>])"
    by (auto simp: hist_entry_def Let_def split: option.split)
  show "mem_exec d pkcols (SInsert t cols vals) db = Some db' \<Longrightarrow> t \<noteq> historyTable d (schemaName d) \<Longrightarrow>
      good_key (pkcols t) pk \<Longrightarrow> row_values cols vals \<Longrightarrow> names_key cols vals pk \<Longrightarrow>
      m_hist db' = m_hist db \<and> mem_row_at pkcols db (t, norm_key pk) = None
        \<and> (\<exists>r. mem_row_at pkcols db' = (mem_row_at pkcols db)((t, norm_key pk) \<mapsto> r))"
    by (rule mem_insert)
  show "mem_exec d pkcols (SUpsert t cols vals pk) db = Some db' \<Longrightarrow> t \<noteq> historyTable d (schemaName d) \<Longrightarrow>
      good_key (pkcols t) pk \<Longrightarrow> row_values cols vals \<Longrightarrow> names_key cols vals pk \<Longrightarrow>
      m_hist db' = m_hist db \<and> (\<exists>r. mem_row_at pkcols db' = (mem_row_at pkcols db)((t, norm_key pk) \<mapsto> r))"
    by (rule mem_upsert)
  show "mem_exec d pkcols (SUpdate t cols vals pk) db = Some db' \<Longrightarrow> t \<noteq> historyTable d (schemaName d) \<Longrightarrow>
      good_key (pkcols t) pk \<Longrightarrow> row_values cols vals \<Longrightarrow> spares_key cols vals pk \<Longrightarrow>
      m_hist db' = m_hist db \<and>
        (case mem_row_at pkcols db (t, norm_key pk) of None \<Rightarrow> mem_row_at pkcols db' = mem_row_at pkcols db
         | Some _ \<Rightarrow> \<exists>r. mem_row_at pkcols db' = (mem_row_at pkcols db)((t, norm_key pk) \<mapsto> r))"
    by (rule mem_update)
  show "mem_exec d pkcols (SDelete t pk) db = Some db' \<Longrightarrow> t \<noteq> historyTable d (schemaName d) \<Longrightarrow>
      good_key (pkcols t) pk \<Longrightarrow>
      m_hist db' = m_hist db \<and> mem_row_at pkcols db' = (mem_row_at pkcols db)((t, norm_key pk) := None)"
    by (auto simp: mem_row_del)
  show "t \<noteq> historyTable d (schemaName d) \<Longrightarrow> good_key (pkcols t) pk \<Longrightarrow>
      \<exists>db'. mem_exec d pkcols (RevDelete t pk) db = Some db' \<and> m_hist db' = m_hist db
        \<and> mem_row_at pkcols db' = (mem_row_at pkcols db)((t, norm_key pk) := None)"
    by (simp add: mem_row_del)
  show "t \<noteq> historyTable d (schemaName d) \<Longrightarrow> mem_is_row pkcols (t, k) j \<Longrightarrow> mem_row_at pkcols db (t, k) = None \<Longrightarrow>
      \<exists>db'. mem_exec d pkcols (RevInsert t (id j)) db = Some db' \<and> m_hist db' = m_hist db
        \<and> mem_row_at pkcols db' = (mem_row_at pkcols db)((t, k) \<mapsto> j)"
  proof -
    assume r: "mem_is_row pkcols (t, k) j" "mem_row_at pkcols db (t, k) = None"
    then have "mem_key (pkcols t) j = k" by (auto simp: mem_is_row_def split: sum.splits)
    then show ?thesis using r mem_row_set [OF r(1), of db] by simp
  qed
  show "t \<noteq> historyTable d (schemaName d) \<Longrightarrow> good_key (pkcols t) pk \<Longrightarrow>
      mem_is_row pkcols (t, norm_key pk) j \<Longrightarrow> mem_row_at pkcols db (t, norm_key pk) \<noteq> None \<Longrightarrow>
      sqlColumnNamesFromJSON (id j) = Inr names \<Longrightarrow>
      \<exists>db'. mem_exec d pkcols (RevUpdate t names (id j) pk) db = Some db' \<and> m_hist db' = m_hist db
        \<and> mem_row_at pkcols db' = (mem_row_at pkcols db)((t, norm_key pk) \<mapsto> j)"
    using mem_row_set [of pkcols "(t, norm_key pk)" j db] by auto
  show "\<exists>db'. mem_exec d pkcols (PruneUpTo b) db = Some db' \<and> mem_row_at pkcols db' = mem_row_at pkcols db
        \<and> m_hist db' = filter (\<lambda>h. \<not> h_block h \<le> b) (m_hist db)"
    by simp
  show "\<exists>db'. mem_exec d pkcols (PruneAbove b) db = Some db' \<and> mem_row_at pkcols db' = mem_row_at pkcols db
        \<and> m_hist db' = filter (\<lambda>h. \<not> b < h_block h) (m_hist db)"
    by simp
  show "mset (mem_query db b) = mset (filter (\<lambda>h. b < h_block h) (m_hist db))" by (simp add: mem_query_def)
  show "sorted_wrt (\<lambda>h h'. h_block h \<ge> h_block h') (mem_query db b)" by (rule mem_query_sorted)
qed

end
