(* ===== verification/Examples.thy ===== *)
theory Examples
  imports MemEngine FlushFacts
begin

text \<open>
  Concrete tables, dialects and batches, on which the properties are instantiated.
\<close>

definition ex_columns :: "ColumnInfo gomap" where
  "ex_columns =
     [(''id'', NewColumnInfo ''id'' ''TEXT'' RString),
      (''note'', NewColumnInfo ''note'' ''TEXT'' RString)]"

definition ex_table :: TableInfo where
  "ex_table =
     \<lparr>tschema = ''public'', schemaEscaped = EscapeIdentifier ''public'', tname = ''xfer'',
      nameEscaped = EscapeIdentifier ''xfer'', columnsByName = ex_columns,
      primaryColumns = [NewColumnInfo ''id'' ''TEXT'' RString],
      tidentifier = EscapeIdentifier ''public'' @ ''.'' @ EscapeIdentifier ''xfer''\<rparr>"

definition ex_pg :: Dialect where
  "ex_pg = NewPostgresDialect ''public'' ''cursors'' ''substreams_history''"

definition ex_key :: "string \<Rightarrow> string gomap" where
  "ex_key k = [(''id'', k)]"

definition ex_row :: "string \<Rightarrow> string \<Rightarrow> string gomap" where
  "ex_row k n = [(''id'', k), (''note'', n)]"

definition ex_dsn :: DSN where
  "ex_dsn = \<lparr>driver = ''postgres'', original = ''psql://localhost/db'', Host = ''localhost'', Port = 5432,
     Username = [], Password = [], Database = ''db'', dsn_schema = ''public'', Options = []\<rparr>"

definition ex_loader :: Loader where
  "ex_loader = \<lparr>entries = NewOrderedMap, entriesCount = 0, tables = [(''xfer'', ex_table)],
     cursorTable = None, handleReorgs = True, batchBlockFlushInterval = 1000,
     batchRowFlushInterval = 100000, liveBlockFlushInterval = 1,
     moduleMismatchMode = OnModuleHashMismatchError, dialect = ex_pg, ldsn = ex_dsn, batchOrdinal = 0\<rparr>"

text \<open>The loader after a list of changes of the table\<close>

definition ex_changes :: "Change list \<Rightarrow> Loader" where
  "ex_changes cs = fold (\<lambda>c l. snd (apply_change l ''xfer'' c)) cs ex_loader"

text \<open>Two batches after block 10: rows are inserted, changed and deleted.\<close>

definition ex_flushes :: "(Operation list \<times> u64) list" where
  "ex_flushes =
     [([newInsertOperation ex_table (ex_key ''a'') (ex_row ''a'' ''it's'') 0 (Some 11),
        newUpdateOperation ex_table (ex_key ''old'') [(''note'', ''changed'')] 1 (Some 11)], 9),
      ([newUpsertOperation ex_table (ex_key ''a'') (ex_row ''a'' ''two'') 2 (Some 12),
        newDeleteOperation ex_table (ex_key ''old'') 3 (Some 12)], 10)]"

definition ex_pk :: "string \<Rightarrow> string list" where
  "ex_pk t = [''id'']"

definition ex_db :: MemDb where
  "ex_db = \<lparr>m_rows = [((tidentifier ex_table, ex_key ''old''), json_Marshal_map (ex_row ''old'' ''first''))],
            m_hist = []\<rparr>"

definition ex_texts :: "string list" where
  "ex_texts = (case flushes_texts ex_pg id ex_flushes of Inr qs \<Rightarrow> qs | Inl _ \<Rightarrow> [])"

definition ex_stmts :: "Stmt list" where
  "ex_stmts = (case flushes_stmts id ex_flushes of Inr sts \<Rightarrow> sts | Inl _ \<Rightarrow> [])"

definition ex_db' :: MemDb where
  "ex_db' = (case run (mem_exec ex_pg ex_pk) ex_stmts ex_db of Some db \<Rightarrow> db | None \<Rightarrow> ex_db)"

end
