(* ===== verification/Transparent.thy ===== *)
theory Transparent
  imports Batch
begin

text \<open>
  Batching is transparent but for one case: what the pending operation of a row does to the row is what the changes
  of the row, one after the other, would have done, unless an update has become an upsert without the columns of
  the key. This follows the pending operation of a row over a whole batch of changes of any tables.
\<close>

text \<open>The loader after a list of changes, if all are accepted\<close>

fun change_all :: "Loader \<Rightarrow> (string \<times> Change) list \<Rightarrow> Loader option" where
  "change_all l [] = Some l"
| "change_all l ((t, c) # cs) =
     (case apply_change l t c of (None, l') \<Rightarrow> change_all l' cs | (Some _, _) \<Rightarrow> None)"

definition row_of_change :: "string \<times> Change \<Rightarrow> string \<times> string" where
  "row_of_change tc = (fst tc, createRowUniqueID (change_key (snd tc)))"

text \<open>The changes of a row one after the other, each as the statement of its own operation; \<open>None\<close> when one of them is
  refused\<close>

fun sequential :: "TableInfo \<Rightarrow> Change list \<Rightarrow> row option \<Rightarrow> row option option" where
  "sequential tb [] r = Some r"
| "sequential tb (c # cs) r = Option.bind (row_effect (fresh_op tb 0 c) r) (sequential tb cs)"

definition changes_of :: "string \<times> string \<Rightarrow> (string \<times> Change) list \<Rightarrow> Change list" where
  "changes_of k cs = map snd (filter (\<lambda>tc. row_of_change tc = k) cs)"

text \<open>A row whose first change is an update is there.\<close>

fun is_update :: "Change \<Rightarrow> bool" where
  "is_update (CUpdate _ _ _) = True" | "is_update _ = False"

fun is_upsert :: "Change \<Rightarrow> bool" where
  "is_upsert (CUpsert _ _ _) = True" | "is_upsert _ = False"

fun is_delete :: "Change \<Rightarrow> bool" where
  "is_delete (CDelete _ _) = True" | "is_delete _ = False"

definition row_expected :: "Change list \<Rightarrow> row option \<Rightarrow> bool" where
  "row_expected cs r \<longleftrightarrow> (cs \<noteq> [] \<and> is_update (hd cs) \<longrightarrow> r \<noteq> None)"

definition row_has_key :: "TableInfo \<Rightarrow> string gomap \<Rightarrow> row option \<Rightarrow> bool" where
  "row_has_key tb pk r \<longleftrightarrow> (\<forall>m. r = Some m \<longrightarrow>
     (\<forall>col \<in> set (primaryColumns tb). map_of pk (cname col) \<noteq> None \<longrightarrow> m (cname col) = map_of pk (cname col)))"

text \<open>An update that becomes an upsert does not get the columns of the key, which are added for a new row only: they are
  missing unless the changes themselves give them.\<close>

definition silent :: "Change list \<Rightarrow> ColumnInfo \<Rightarrow> bool" where
  "silent cs col \<longleftrightarrow> (\<forall>c \<in> set cs. map_of (change_data c) (cname col) = None)"

definition drops_key :: "TableInfo \<Rightarrow> Change list \<Rightarrow> bool" where
  "drops_key tb cs \<longleftrightarrow> cs \<noteq> [] \<and> is_update (hd cs) \<and> list_ex is_upsert cs \<and> \<not> list_ex is_delete cs
     \<and> (\<exists>col \<in> set (primaryColumns tb). silent cs col)"

text \<open>What is known of the pending operation of a row while changes arrive, with the row \<open>r\<close> there was and the row \<open>s\<close>
  that the changes have led to: what its data make of the row, and whether it has the key.\<close>

definition stands_for :: "TableInfo \<Rightarrow> string gomap \<Rightarrow> row option \<Rightarrow> Operation \<Rightarrow> Change list \<Rightarrow> row option \<Rightarrow> bool" where
  "stands_for tb pk r p past s \<longleftrightarrow> op_table p = tb \<and> op_primaryKey p = pk \<and> row_has_key tb pk s \<and> past \<noteq> [] \<and>
     (case op_type p of
        OperationTypeInsert \<Rightarrow> r = None \<and> s = Some (map_of (op_data p)) \<and> \<not> refused p \<and> \<not> is_update (hd past)
      | OperationTypeUpsert \<Rightarrow> s = Some (row_base r ++ map_of (op_data p)) \<and> op_data p \<noteq> [] \<and> pk \<noteq> []
          \<and> \<not> list_ex is_delete past
          \<and> (if is_update (hd past) then list_ex is_upsert past
               \<and> (\<forall>col \<in> set (primaryColumns tb). map_of (op_data p) (cname col) = None \<longleftrightarrow> silent past col)
             else \<not> lacks_key p)
      | OperationTypeUpdate \<Rightarrow> r \<noteq> None \<and> s = Some (row_base r ++ map_of (op_data p)) \<and> \<not> refused p
          \<and> is_update (hd past) \<and> \<not> list_ex is_upsert past \<and> \<not> list_ex is_delete past
          \<and> (\<forall>col \<in> set (primaryColumns tb). map_of (op_data p) (cname col) = None \<longleftrightarrow> silent past col)
      | OperationTypeDelete \<Rightarrow> s = None \<and> \<not> refused p \<and> list_ex is_delete past)"

lemma stands_for_effect:
  assumes "stands_for tb pk r p past s"
  shows "row_effect p r = (if drops_key tb past then None else Some s)"
proof (cases "op_type p")
  case OperationTypeUpsert
  with assms have "refused p \<longleftrightarrow> drops_key tb past"
    by (auto simp: stands_for_def refused_def drops_key_def lacks_key_def split: if_splits)
  with OperationTypeUpsert assms show ?thesis by (auto simp: stands_for_def row_effect_def)
qed (use assms in \<open>auto simp: stands_for_def row_effect_def drops_key_def\<close>)

lemmas fresh_ops = fresh_op_def newInsertOperation_def newUpsertOperation_def newUpdateOperation_def newDeleteOperation_def

lemma row_effect_ordinal: "row_effect (fresh_op tb n c) = row_effect (fresh_op tb 0 c)"
  by (cases c) (simp_all add: row_effect_def refused_def lacks_key_def fresh_ops fun_eq_iff split: option.split)

lemma key_after:
  assumes "row_has_key tb pk s" "keeps_key tb c" "change_key c = pk" "row_effect (fresh_op tb n c) s = Some s'"
  shows "row_has_key tb pk s'"
  using assms
  by (cases c; cases s)
     (auto simp: row_has_key_def keeps_key_def row_effect_def fresh_ops map_of_addPrimaryKeyData map_add_def
       split: if_splits option.split)

lemma fresh_stands_for:
  assumes "row_has_key tb pk r" "keeps_key tb c" "change_key c = pk" "is_update c \<longrightarrow> r \<noteq> None"
    and eff: "row_effect (fresh_op tb n c) r = Some s"
  shows "stands_for tb pk r (fresh_op tb n c) [c] s"
  using assms(3,4) eff key_after [OF assms(1-3) eff]
  by (cases c; cases r)
     (auto simp: stands_for_def row_effect_def refused_def lacks_key_def silent_def fresh_ops split: if_splits)

lemma deleted_stands_for:
  assumes "row_has_key tb pk s" "keeps_key tb c" "change_key c = pk" "is_delete c"
    and eff: "row_effect (fresh_op tb n c) s = Some s'"
  shows "stands_for tb pk r (fresh_op tb n c) (past @ [c]) s'"
  using assms(3,4) eff key_after [OF assms(1-3) eff]
  by (cases c) (auto simp: stands_for_def row_effect_def refused_def fresh_ops split: if_splits)

text \<open>A change that is merged. The columns of the key that an upsert of its own would set are those the row already has.\<close>

lemma merged_row:
  assumes c: "c = CUpdate pk d rb \<or> c = CUpsert pk d rb" and "keeps_key tb c" "row_has_key tb pk (Some m)"
    and eff: "row_effect (fresh_op tb n c) (Some m) = Some s'"
  shows "s' = Some (m ++ map_of d)" "pk \<noteq> []"
proof -
  have "m ++ map_of (addPrimaryKeyData (primaryColumns tb) pk d) = m ++ map_of d" if "c = CUpsert pk d rb"
    by (rule map_add_keeps) (use that assms(2,3) in \<open>auto simp: keeps_key_def row_has_key_def map_of_addPrimaryKeyData split: if_splits\<close>)
  with c eff show "s' = Some (m ++ map_of d)" "pk \<noteq> []"
    by (auto simp: row_effect_def refused_def fresh_ops split: if_splits)
qed

lemma merged_stands_for:
  assumes acc: "accepts dup ins_only (Some p) c" and mg: "merges (Some p) c" and st: "stands_for tb pk r p past s"
    and wf: "wf_map (change_data c)" and keep: "keeps_key tb c" and key: "change_key c = pk"
    and eff: "row_effect (fresh_op tb n c) s = Some s'"
  shows "stands_for tb pk r (merged_op p c) (past @ [c]) s'"
proof -
  obtain d rb where c: "c = CUpdate pk d rb \<or> c = CUpsert pk d rb"
    using mg key by (cases c) (auto simp: merges_def)
  have nd: "op_type p \<noteq> OperationTypeDelete" using acc c by (auto simp: accepts_def)
  have "s \<noteq> None" using st nd by (cases "op_type p") (auto simp: stands_for_def)
  then obtain m where m: "s = Some m" by blast
  have k: "row_has_key tb pk (Some m)" using st m by (simp add: stands_for_def)
  note s' = merged_row [OF c keep k eff [unfolded m]]
  have d: "map_of (copyInto (op_data p) d) = map_of (op_data p) ++ map_of d" "op_data p \<noteq> [] \<Longrightarrow> copyInto (op_data p) d \<noteq> []"
    using wf c by (auto simp: map_of_copyInto_wf copyInto_Nil)
  have sil: "silent (past @ [c]) col \<longleftrightarrow> silent past col \<and> map_of d (cname col) = None" for col
    using c by (auto simp: silent_def)
  have ne: "past \<noteq> []" "op_table p = tb" "op_primaryKey p = pk" using st by (simp_all add: stands_for_def)
  have k': "row_has_key tb pk s'" by (rule key_after [OF k keep key eff [unfolded m]])
  show ?thesis
  proof (cases "op_type p")
    case OperationTypeInsert
    then have "c = CUpdate pk d rb" using acc c by (auto simp: accepts_def)
    with OperationTypeInsert st m s' d ne k' show ?thesis
      by (auto simp: stands_for_def merged_op_def refused_def lacks_key_def)
  next
    case OperationTypeUpsert
    then have "lacks_key (merged_op p c) \<Longrightarrow> lacks_key p" using c ne d by (auto simp: lacks_key_def merged_op_def)
    with OperationTypeUpsert c st m s' d ne k' sil show ?thesis
      by (auto simp: stands_for_def merged_op_def split: if_splits)
  next
    case OperationTypeUpdate
    with c st m s' d ne k' sil show ?thesis
      by (auto simp: stands_for_def merged_op_def refused_def)
  qed (use nd in simp)
qed

text \<open>A step of the batch, seen from one row\<close>

lemma accepted_step:
  assumes "tables_ok l" "apply_change l t c = (None, l')"
  obtains tb where "known l t = Some tb"
    "accepts (AllowPkDuplicates (dialect l)) (OnlyInserts (dialect l)) (pending l (row_of_change (t, c))) c"
    "pending l' = (pending l)(row_of_change (t, c) \<mapsto> next_op tb (batchOrdinal l) (pending l (row_of_change (t, c))) c)"
    "tables l' = tables l" "dialect l' = dialect l"
proof -
  have impl: "implements (spec_of l t c) l (None, l')"
    using apply_change_refines [of l t c] tables_ok_primary [OF assms(1)] assms(2) by simp
  then obtain a where a: "spec_of l t c = Some a" and l': "abs_loader l' = a"
    by (auto simp: implements_def)
  obtain tb where tb: "known l t = Some tb"
    and acc: "accepts (AllowPkDuplicates (dialect l)) (OnlyInserts (dialect l)) (pending l (row_of_change (t, c))) c"
    and a': "a_pending a = (pending l)(row_of_change (t, c) \<mapsto> next_op tb (batchOrdinal l) (pending l (row_of_change (t, c))) c)"
    using a by (auto simp: spec_change_def Let_def abs_loader_def row_of_change_def split: option.splits if_splits)
  have "pending l' = a_pending a" using l' by (auto simp: abs_loader_def)
  then show ?thesis using that [OF tb acc] a' impl by (simp add: implements_def)
qed

definition changes_ok :: "TableInfo \<Rightarrow> string gomap \<Rightarrow> Change list \<Rightarrow> bool" where
  "changes_ok tb pk cs \<longleftrightarrow> (\<forall>c \<in> set cs. change_key c = pk \<and> change_wf c \<and> keeps_key tb c)"

lemma change_wf_data: "change_wf c \<Longrightarrow> wf_map (change_data c)"
  by (cases c) (auto simp: wf_map_def)

text \<open>The pending operation of the row stands for the changes of the row so far.\<close>

definition row_inv :: "TableInfo \<Rightarrow> string gomap \<Rightarrow> row option \<Rightarrow> Operation option \<Rightarrow> Change list \<Rightarrow> row option \<Rightarrow> bool" where
  "row_inv tb pk r p past s = (case p of None \<Rightarrow> past = [] \<and> s = r | Some q \<Rightarrow> stands_for tb pk r q past s)"

lemma row_inv_step:
  assumes inv: "row_inv tb pk r p past s" and has: "row_has_key tb pk r"
    and exp: "past = [] \<Longrightarrow> is_update c \<longrightarrow> r \<noteq> None"
    and acc: "accepts False ins_only p c" and ok: "changes_ok tb pk [c]"
    and eff: "row_effect (fresh_op tb 0 c) s = Some s'"
  shows "row_inv tb pk r (Some (next_op tb n p c)) (past @ [c]) s'"
proof -
  have c: "change_key c = pk" "keeps_key tb c" "wf_map (change_data c)"
    using ok change_wf_data by (auto simp: changes_ok_def)
  have eff: "row_effect (fresh_op tb n c) s = Some s'" using eff by (simp add: row_effect_ordinal [of tb n])
  show ?thesis
  proof (cases p)
    case None
    then show ?thesis
      using inv exp fresh_stands_for [OF has c(2,1)] eff by (simp add: row_inv_def next_op_def merges_def)
  next
    case (Some q)
    then have st: "stands_for tb pk r q past s" using inv by (simp add: row_inv_def)
    show ?thesis
    proof (cases "merges p c")
      case True
      from merged_stands_for [OF acc [unfolded Some] True [unfolded Some] st c(3,2,1) eff]
      show ?thesis by (simp add: row_inv_def next_op_def Some True [unfolded Some])
    next
      case False
      then have "is_delete c" using acc Some by (cases c) (auto simp: accepts_def merges_def)
      moreover have "row_has_key tb pk s" using st by (simp add: stands_for_def)
      ultimately show ?thesis
        using deleted_stands_for [OF _ c(2,1) _ eff] False by (simp add: row_inv_def next_op_def)
    qed
  qed
qed

lemma changes_of_Cons:
  "changes_of k (tc # cs) = (if row_of_change tc = k then snd tc # changes_of k cs else changes_of k cs)"
  by (simp add: changes_of_def)

lemma batch_row_inv:
  assumes "change_all l cs = Some l'" "tables_ok l" "\<not> AllowPkDuplicates (dialect l)" "known l (fst k) = Some tb"
    "row_inv tb pk r (pending l k) past s" "row_has_key tb pk r" "changes_ok tb pk (changes_of k cs)"
    "past = [] \<Longrightarrow> row_expected (changes_of k cs) r" "sequential tb (changes_of k cs) s = Some s'"
  shows "row_inv tb pk r (pending l' k) (past @ changes_of k cs) s'"
  using assms
proof (induction cs arbitrary: l past s)
  case Nil
  then show ?case by (simp add: changes_of_def)
next
  case (Cons tc cs)
  obtain t c where tc: "tc = (t, c)" by fastforce
  obtain l1 where ap: "apply_change l t c = (None, l1)" and rest: "change_all l1 cs = Some l'"
    using Cons.prems(1) by (auto simp: tc split: prod.splits option.splits)
  obtain tb' where tb': "known l t = Some tb'"
    "accepts (AllowPkDuplicates (dialect l)) (OnlyInserts (dialect l)) (pending l (row_of_change (t, c))) c"
    "pending l1 = (pending l)(row_of_change (t, c) \<mapsto> next_op tb' (batchOrdinal l) (pending l (row_of_change (t, c))) c)"
    "tables l1 = tables l" "dialect l1 = dialect l"
    by (rule accepted_step [OF Cons.prems(2) ap])
  have l1: "tables_ok l1" "\<not> AllowPkDuplicates (dialect l1)" "known l1 (fst k) = Some tb"
    using Cons.prems(2,3,4) tb'(4,5) by (simp_all add: tables_ok_def known_def)
  show ?case
  proof (cases "row_of_change tc = k")
    case True
    then have t: "tb' = tb" using tb'(1) Cons.prems(4) by (auto simp: tc row_of_change_def)
    obtain s1 where s1: "row_effect (fresh_op tb 0 c) s = Some s1" "sequential tb (changes_of k cs) s1 = Some s'"
      using Cons.prems(9) True by (auto simp: tc changes_of_Cons bind_eq_Some_conv)
    have "row_inv tb pk r (pending l1 k) (past @ [c]) s1"
      using row_inv_step [OF Cons.prems(5,6), of c "OnlyInserts (dialect l)" s1 "batchOrdinal l"]
        Cons.prems(3,7,8) tb'(2,3) True s1(1)
      by (auto simp: tc t changes_of_Cons changes_ok_def row_expected_def)
    from Cons.IH [OF rest l1 this Cons.prems(6) _ _ s1(2)] show ?thesis
      using Cons.prems(7) True by (simp add: changes_of_Cons changes_ok_def tc)
  next
    case False
    then have "pending l1 k = pending l k" using tb'(3) by (auto simp: tc)
    then show ?thesis
      using Cons.IH [OF rest l1, of past s] Cons.prems(5-9) False by (simp add: changes_of_Cons)
  qed
qed

end
