(* ===== verification/ChangesProperties.thy ===== *)
theory ChangesProperties
  imports Examples Transparent
begin

text \<open>
  The properties of the components of \<open>src/db_changes/db\<close>: the batch and its operations, the
  text of statements, the JSON of keys, tables and connection strings, cursors, and the order in
  which a flush sends its statements.
\<close>

section \<open>The batch\<close>

text \<open>
  C2. The methods of the loader implement the specification of a batch: on a well-formed batch,
  \<open>Insert\<close>, \<open>Upsert\<close>, \<open>Update\<close> and \<open>Delete\<close> succeed exactly when the pending operation of the
  row accepts the change; then the row's pending operation is the merged or the new one, with
  the next ordinal, and no other row changes; when they fail, no row changes.
\<close>

theorem loader_implements_batch:
  assumes "batch_ok l"
  shows "implements (spec_of l t c) l (apply_change l t c)"
  using assms tables_ok_primary [of l t] by (intro apply_change_refines) (simp add: batch_ok_def)

lemma ex_loader_ok: "batch_ok ex_loader"
  by (rule batch_ok_start)
     (auto simp: ex_loader_def NewOrderedMap_def tables_ok_def known_def wf_table_def wf_columns_def
       ex_table_def ex_columns_def NewColumnInfo_def wf_map_def split: if_splits)

theorem loader_implements_batch_witness:
  "implements (spec_of ex_loader ''xfer'' (CDelete (ex_key ''a'') None)) ex_loader
     (apply_change ex_loader ''xfer'' (CDelete (ex_key ''a'') None))"
  by (rule loader_implements_batch [OF ex_loader_ok])

text \<open>
  C3. The invariant of the batch: whatever changes are applied, accepted or refused, and however
  often the batch is emptied, every pending operation is stored under its table and the
  identifier of its key, and no two operations of the batch have the same ordinal.
\<close>

theorem batch_invariant:
  assumes "batch_reach l0 l" "entries l0 = []" "tables_ok l0"
  shows "batch_ok l \<and> distinct (map op_ordinal (allOperations l))
    \<and> (\<forall>t u oper. pending l (t, u) = Some oper \<longrightarrow>
         known l t = Some (op_table oper) \<and> u = createRowUniqueID (op_primaryKey oper))"
proof -
  have ok: "batch_ok l" using batch_reach_ok [OF assms(1) batch_ok_start [OF assms(2,3)]] .
  then show ?thesis
    using distinct_ordinals [OF ok] unfolding allOperations_rows
    by (auto simp: batch_ok_def pending_ok_def op_ok_def)
qed

theorem batch_invariant_witness:
  "distinct (map op_ordinal (allOperations
     (snd (apply_change (reset ex_loader) ''xfer'' (CInsert (ex_key ''a'') (ex_row ''a'' ''n'') None)))))"
proof -
  let ?c = "CInsert (ex_key ''a'') (ex_row ''a'' ''n'') None"
  have "batch_reach ex_loader (snd (apply_change (reset ex_loader) ''xfer'' ?c))"
    by (intro batch_reach.intros) (simp_all add: ex_key_def ex_row_def wf_map_def reset_def)
  then show ?thesis
    using batch_invariant [of ex_loader] ex_loader_ok by (simp add: batch_ok_def ex_loader_def NewOrderedMap_def)
qed




text \<open>
  An upsert that meets a pending update loses the key: \<open>Update\<close> and then \<open>Upsert\<close> of one row are
  both accepted and become one upsert whose data has no primary key column, so the statement
  inserts a row without its key (the key columns are added only on the path of a new row).
\<close>

theorem upsert_after_update_drops_key:
  "let l = ex_changes [CUpdate (ex_key ''a'') [(''note'', ''one'')] None]; c = CUpsert (ex_key ''a'') [(''note'', ''two'')] None in
   fst (apply_change l ''xfer'' c) = None
   \<and> (\<exists>q. pending (snd (apply_change l ''xfer'' c)) (''xfer'', ''a'') = Some q
        \<and> op_type q = OperationTypeUpsert \<and> op_data q = [(''note'', ''two'')]
        \<and> plan id q = Inr [SUpsert (tidentifier ex_table) [EscapeIdentifier ''note''] [escapeStringValue ''two''] (ex_key ''a'')])"
proof -
  let ?l = "ex_changes [CUpdate (ex_key ''a'') [(''note'', ''one'')] None]"
  let ?c = "CUpsert (ex_key ''a'') [(''note'', ''two'')] None"
  let ?q = "\<lparr>op_table = ex_table, op_type = OperationTypeUpsert, op_primaryKey = ex_key ''a'',
      op_data = [(''note'', ''two'')], op_ordinal = 0, op_reversibleBlockNum = None\<rparr>"
  have "fst (apply_change ?l ''xfer'' ?c) = None"
    "pending (snd (apply_change ?l ''xfer'' ?c)) (''xfer'', ''a'') = Some ?q"
    "plan id ?q = Inr [SUpsert (tidentifier ex_table) [EscapeIdentifier ''note''] [escapeStringValue ''two''] (ex_key ''a'')]"
    by code_simp+
  then show ?thesis by (simp add: Let_def)
qed

section \<open>Row identifiers\<close>

text \<open>
  Keys over the same columns whose values are free of the separator have the same row
  identifier only when they are the same key, and the identifier does not depend on the order in
  which Go visits the map.
\<close>

theorem row_identifiers_injective:
  assumes "wf_map m" "wf_map m'" "set (keys m) = set (keys m')"
    "\<forall>v \<in> snd ` set m. CHR ''/'' \<notin> set v" "\<forall>v \<in> snd ` set m'. CHR ''/'' \<notin> set v"
  shows "createRowUniqueID m = createRowUniqueID m' \<longleftrightarrow> map_of m = map_of m'"
  using createRowUniqueID_inj [OF assms] createRowUniqueID_same_map [of m m']
    map_of_same_map [OF assms(1,2)] assms(1) by blast

theorem row_identifiers_injective_witness:
  "createRowUniqueID [(''a'', ''x''), (''b'', ''yz'')] \<noteq> createRowUniqueID [(''a'', ''xy''), (''b'', ''z'')]"
  using row_identifiers_injective [of "[(''a'', ''x''), (''b'', ''yz'')]" "[(''a'', ''xy''), (''b'', ''z'')]"]
  by (auto simp: wf_map_def keys_def fun_eq_iff split: if_splits)

text \<open>
  With the separator in a value, two rows are taken for one: two inserts of rows with different
  composite keys are refused as a duplicate, and of two upserts of different rows only one
  operation is kept, under the first row's key and with the second row's data.
\<close>

definition ex_composite :: "string \<Rightarrow> string \<Rightarrow> string gomap" where
  "ex_composite a b = [(''a'', a), (''b'', b)]"

definition ex_table2 :: TableInfo where
  "ex_table2 =
     (case NewTableInfo ''public'' ''pair'' [''a'', ''b'']
             [(''a'', NewColumnInfo ''a'' ''TEXT'' RString), (''b'', NewColumnInfo ''b'' ''TEXT'' RString),
              (''note'', NewColumnInfo ''note'' ''TEXT'' RString)] of
        Inr t \<Rightarrow> t | Inl _ \<Rightarrow> ex_table)"

definition ex_loader2 :: Loader where
  "ex_loader2 = ex_loader\<lparr>tables := [(''pair'', ex_table2)]\<rparr>"

theorem row_identifiers_collide:
  "let k1 = ex_composite ''x/y'' ''z''; k2 = ex_composite ''x'' ''y/z'';
       l = snd (apply_change ex_loader2 ''pair'' (CInsert k1 (k1 @ [(''note'', ''one'')]) None));
       u = snd (apply_change ex_loader2 ''pair'' (CUpsert k1 [(''note'', ''one'')] None));
       u' = apply_change u ''pair'' (CUpsert k2 [(''note'', ''two'')] None) in
   map_of k1 \<noteq> map_of k2 \<and> createRowUniqueID k1 = createRowUniqueID k2
   \<and> fst (apply_change l ''pair'' (CInsert k2 (k2 @ [(''note'', ''two'')]) None)) \<noteq> None
   \<and> fst u' = None \<and> map (\<lambda>q. (op_primaryKey q, op_data q)) (allOperations (snd u'))
       = [(k1, [(''note'', ''two''), (''a'', ''x/y''), (''b'', ''z'')])]"
proof -
  let ?k1 = "ex_composite ''x/y'' ''z''" and ?k2 = "ex_composite ''x'' ''y/z''"
  let ?l = "snd (apply_change ex_loader2 ''pair'' (CInsert ?k1 (?k1 @ [(''note'', ''one'')]) None))"
  let ?u = "snd (apply_change ex_loader2 ''pair'' (CUpsert ?k1 [(''note'', ''one'')] None))"
  let ?u' = "apply_change ?u ''pair'' (CUpsert ?k2 [(''note'', ''two'')] None)"
  have "map_of ?k1 ''a'' \<noteq> map_of ?k2 ''a''" by (simp add: ex_composite_def)
  then have "map_of ?k1 \<noteq> map_of ?k2" by auto
  moreover have "createRowUniqueID ?k1 = createRowUniqueID ?k2" by code_simp
  moreover have "fst (apply_change ?l ''pair'' (CInsert ?k2 (?k2 @ [(''note'', ''two'')]) None)) \<noteq> None" by code_simp
  moreover have "fst ?u' = None" by code_simp
  moreover have "map (\<lambda>q. (op_primaryKey q, op_data q)) (allOperations (snd ?u'))
       = [(?k1, [(''note'', ''two''), (''a'', ''x/y''), (''b'', ''z'')])]" by code_simp
  ultimately show ?thesis by (auto simp: Let_def)
qed

section \<open>The text of statements\<close>

text \<open>
  C13. Quoting is safe: whatever bytes the names and values hold, a reader with SQL's quoting rules
  finds in a quoted name, and in a list of quoted values, exactly these names and values and
  nothing more, so no value can end its literal and become part of the statement.
\<close>

theorem quoting_is_safe:
  assumes "vs \<noteq> []" "rest = [] \<or> hd rest \<notin> {CHR 0x27, CHR '',''}" "rest' = [] \<or> hd rest' \<noteq> CHR 0x22"
  shows "sql_tokens (CHR 0x27) '','' (length vs) (joinS '','' (map escapeStringValue vs) @ rest) = Some (vs, rest)
    \<and> sql_token (CHR 0x22) (EscapeIdentifier name @ rest') = Some (name, rest')"
proof
  show "sql_token (CHR 0x22) (EscapeIdentifier name @ rest') = Some (name, rest')"
    using assms(3) by (rule sql_token_EscapeIdentifier)
  have "\<not> hasPrefix '','' rest" using assms(2) by (cases rest) auto
  then show "sql_tokens (CHR 0x27) '','' (length vs) (joinS '','' (map escapeStringValue vs) @ rest) = Some (vs, rest)"
    using assms(1,2) by (intro sql_tokens_join) auto
qed

theorem quoting_is_safe_witness:
  "sql_tokens (CHR 0x27) '','' 2
     (joinS '','' (map escapeStringValue [[CHR 0x27] @ ''); DROP TABLE x; --'', ''b'']) @ '');'')
   = Some ([[CHR 0x27] @ ''); DROP TABLE x; --'', ''b''], '');'')"
  using quoting_is_safe [of "[[CHR 0x27] @ ''); DROP TABLE x; --'', ''b'']" "'');''" "[]"]
  by (simp add: numeral_2_eq_2 del: sql_tokens.simps)

text \<open>
  C14. The key clause of a statement names the row and nothing else: read with SQL's quoting rules
  it is a conjunction of one equation for each column of the key, with its value, and the text
  is the same for every order in which Go visits the key.
\<close>

theorem key_clause_names_row:
  assumes "wf_map pk" "pk \<noteq> []" "rest = [] \<or> hd rest \<noteq> CHR 0x27" "\<not> hasPrefix '' AND '' rest"
  shows "(\<exists>kvs. map_of kvs = map_of pk \<and> length kvs = length pk
      \<and> read_where (length pk) (getPrimaryKeyWhereClause pk [] @ rest) = Some (kvs, rest))
    \<and> (\<forall>pk' tab. same_map pk pk' \<longrightarrow> getPrimaryKeyWhereClause pk tab = getPrimaryKeyWhereClause pk' tab)"
proof (intro conjI allI impI)
  obtain kvs where kvs: "mset kvs = mset pk"
    "read_where (length pk) (getPrimaryKeyWhereClause pk [] @ rest) = Some (kvs, rest)"
    using getPrimaryKeyWhereClause_reads [OF assms(2,3,4)] by blast
  have "distinct (map fst kvs)" using assms(1) kvs(1) unfolding wf_map_def
    by (metis mset_eq_imp_distinct_iff mset_map)
  then have "map_of kvs = map_of pk" using kvs(1) assms(1) unfolding wf_map_def
    by (intro map_of_eqI) (auto dest: mset_eq_setD simp: set_eq_iff)
  moreover have "length kvs = length pk" using kvs(1) by (rule mset_eq_length)
  ultimately show "\<exists>kvs. map_of kvs = map_of pk \<and> length kvs = length pk
      \<and> read_where (length pk) (getPrimaryKeyWhereClause pk [] @ rest) = Some (kvs, rest)"
    using kvs(2) by blast
qed (rule getPrimaryKeyWhereClause_same_map)

theorem key_clause_names_row_witness:
  "\<exists>kvs. map_of kvs = map_of (ex_composite ''it's'' ''y'') \<and> length kvs = 2
     \<and> read_where 2 (getPrimaryKeyWhereClause (ex_composite ''it's'' ''y'') [] @ '';'') = Some (kvs, '';'')"
  using key_clause_names_row [of "ex_composite ''it's'' ''y''" "'';''"]
  by (simp add: ex_composite_def wf_map_def numeral_2_eq_2)

section \<open>Keys in the history\<close>

text \<open>
  C15. The key that a flush stores in the history is the key that a revert reads back: for a key of
  valid UTF-8, parsing the JSON text gives the same map, and the text is the same for every order
  in which Go visits the key.
\<close>

theorem history_key_roundtrip:
  assumes "wf_map pk" "\<forall>kv \<in> set pk. utf8_entry kv"
  shows "(\<exists>pk'. jsonToPrimaryKey (primaryKeyToJSON pk) = Inr pk' \<and> wf_map pk' \<and> map_of pk' = map_of pk)
    \<and> (\<forall>m. same_map pk m \<longrightarrow> primaryKeyToJSON m = primaryKeyToJSON pk)"
  using jsonToPrimaryKey_primaryKeyToJSON [OF assms] primaryKeyToJSON_same_map [OF assms(1)] by metis

theorem history_key_roundtrip_witness:
  "\<exists>pk'. jsonToPrimaryKey (primaryKeyToJSON (ex_composite (CHR 0x22 # ''<&>'') (CHR 0x0A # ''z''))) = Inr pk'
     \<and> map_of pk' = map_of (ex_composite (CHR 0x22 # ''<&>'') (CHR 0x0A # ''z''))"
proof -
  have "wf_map (ex_composite (CHR 0x22 # ''<&>'') (CHR 0x0A # ''z''))"
    "\<forall>kv \<in> set (ex_composite (CHR 0x22 # ''<&>'') (CHR 0x0A # ''z'')). utf8_entry kv" by code_simp+
  from history_key_roundtrip [OF this] show ?thesis by blast
qed

section \<open>Tables, modes and connection strings\<close>

text \<open>
  A table that \<open>NewTableInfo\<close> accepts has a primary key, of columns of the table in the order
  given, its names are quoted, and the row of every key is found under them; a table without a
  primary key, or with an unknown key column, is refused.
\<close>

theorem NewTableInfo_accepts:
  assumes "wf_columns cols"
  shows "(case NewTableInfo schema name pks cols of
       Inr t \<Rightarrow> wf_table t \<and> map cname (primaryColumns t) = pks \<and> columnsByName t = cols \<and> tname t = name \<and> tschema t = schema
     | Inl _ \<Rightarrow> pks = [] \<or> (\<exists>k \<in> set pks. map_of cols k = None))"
proof (cases "NewTableInfo schema name pks cols")
  case (Inr t)
  then show ?thesis using NewTableInfo_wf [OF assms Inr] by simp
next
  case (Inl e)
  show ?thesis
  proof (cases "\<exists>k \<in> set pks. map_of cols k = None")
    case False
    let ?f = "\<lambda>pk. case map_of cols pk of
             Some c \<Rightarrow> Inr c
           | None \<Rightarrow> Inl (Errorf ''primary key column %q not found'' [AStr pk])"
    have "traverse ?f pks = Inr (map (\<lambda>k. the (map_of cols k)) pks)"
      using False by (induction pks) auto
    then show ?thesis using Inl by (auto simp: NewTableInfo_def Let_def split: if_splits)
  qed (simp add: Inl)
qed

theorem NewTableInfo_accepts_witness: "wf_table ex_table2"
proof -
  let ?cols = "[(''a'', NewColumnInfo ''a'' ''TEXT'' RString), (''b'', NewColumnInfo ''b'' ''TEXT'' RString),
              (''note'', NewColumnInfo ''note'' ''TEXT'' RString)]"
  have "wf_columns ?cols" by (simp add: wf_columns_def wf_map_def NewColumnInfo_def)
  moreover have "NewTableInfo ''public'' ''pair'' [''a'', ''b''] ?cols = Inr ex_table2" by code_simp
  ultimately show ?thesis using NewTableInfo_accepts [of ?cols, where schema = "''public''" and name = "''pair''" and pks = "[''a'', ''b'']"] by simp
qed

text \<open>
  The three modes for a module hash mismatch are printed and parsed back, in any mixture of
  capital and small letters, and nothing else is accepted.
\<close>

theorem mismatch_mode_roundtrip:
  "(ParseOnModuleHashMismatch (OnModuleHashMismatch_String x) = Inr x) = OnModuleHashMismatch_IsValid x
   \<and> ((\<exists>m. ParseOnModuleHashMismatch name = Inr m)
        = (toLower name \<in> {''ignore'', ''warn'', ''error''}))"
proof
  show "(ParseOnModuleHashMismatch (OnModuleHashMismatch_String x) = Inr x) = OnModuleHashMismatch_IsValid x"
    by (rule mismatch_parse_string)
  show "(\<exists>m. ParseOnModuleHashMismatch name = Inr m)
        = (toLower name \<in> {''ignore'', ''warn'', ''error''})"
    by (rule mismatch_parse_accepts)
qed

text \<open>
A connection string that parses has one of the three drivers and gets the dialect of that
  driver, whatever the type of the database driver; the dialect's schema is the one of the query
  \<open>schemaName\<close>, else the database for ClickHouse and \<open>public\<close> for the others.
\<close>

theorem dsn_selects_dialect:
  assumes "ParseDSN envsubst url_Parse dsn = Inr d"
  shows "\<exists>dia. newDialect (driver d) driverType (dsn_schema d) cursorT historyT cl = Inr dia
     \<and> schemaName dia = dsn_schema d \<and> cursorTableName dia = cursorT
     \<and> (OnlyInserts dia \<longleftrightarrow> driver d = ''clickhouse'')
     \<and> (\<exists>s u. envsubst dsn = Inr s \<and> url_Parse s = Inr u
          \<and> dsn_schema d = (case map_of (url_Query u) ''schemaName'' of Some (v # _) \<Rightarrow> v
               | _ \<Rightarrow> if driver d = ''clickhouse'' then Database d else ''public''))"
  using newDialect_driver [OF assms] ParseDSN_ok(3) [OF assms] by blast

definition ex_url :: URL where
  "ex_url = \<lparr>url_Scheme = ''clickhouse'', url_Host = ''host'', url_Hostname = ''host'', url_Port = [],
     url_Username = ''u'', url_Password = ''p'', url_EscapedPath = ''/db'', url_Query = []\<rparr>"

theorem dsn_selects_dialect_witness:
  "\<exists>dia. newDialect ''clickhouse'' [] ''db'' ''cursors'' ''hist'' [] = Inr dia \<and> OnlyInserts dia"
proof -
  let ?d = "\<lparr>driver = ''clickhouse'', original = ''dsn'', Host = ''host'', Port = 5432, Username = ''u'',
     Password = ''p'', Database = ''db'', dsn_schema = ''db'', Options = []\<rparr>"
  have "ParseDSN Inr (\<lambda>_. Inr ex_url) ''dsn'' = Inr ?d" by code_simp
  from dsn_selects_dialect [OF this, where driverType = "[]" and cursorT = "''cursors''" and historyT = "''hist''" and cl = "[]"]
  obtain dia where "newDialect (driver ?d) [] (dsn_schema ?d) ''cursors'' ''hist'' [] = Inr dia"
    "OnlyInserts dia \<longleftrightarrow> driver ?d = ''clickhouse''" by blast
  then show ?thesis by (intro exI [of _ dia]) simp
qed

section \<open>Cursors\<close>

text \<open>
  C17. Choosing a cursor: with none stored the caller is told so and starts from the blank cursor;
  the cursor of the module is used when it is there; else the mode decides between the cursor of
  the highest block, flagged as a mismatch, and an error. A loader with one of the three modes
  never panics here.
\<close>

theorem GetCursor_cases:
  assumes "OnModuleHashMismatch_IsValid (moduleMismatchMode l)"
    "GetAllCursors db di newCursor l s = (Inr cursors, s')"
  shows "\<exists>cur mismatch err. GetCursor db di newCursor blank l hash s = (Some (cur, mismatch, err), s')
    \<and> (if cursors = [] then cur = Some blank \<and> \<not> mismatch \<and> err = Some ErrCursorNotFound
       else case map_of cursors hash of
         Some active \<Rightarrow> cur = Some active \<and> \<not> mismatch \<and> err = None
       | None \<Rightarrow> mismatch \<and>
           (if moduleMismatchMode l = OnModuleHashMismatchError then cur = None \<and> err \<noteq> None
            else err = None \<and> (\<exists>h c. cur = Some c \<and> (h, c) \<in> set cursors
                   \<and> (\<forall>(_, c') \<in> set cursors. c_num c' \<le> c_num c))))"
proof -
  from GetCursor_result [OF assms] obtain cur m err where
    "GetCursor db di newCursor blank l hash s = (Some (cur, m, err), s')"
    "if cursors = [] then cur = Some blank \<and> \<not> m \<and> err = Some ErrCursorNotFound
       else case map_of cursors hash of
         Some active \<Rightarrow> cur = Some active \<and> \<not> m \<and> err = None
       | None \<Rightarrow> m \<and>
           (if moduleMismatchMode l = OnModuleHashMismatchError
            then cur = None \<and> err \<noteq> None \<and> \<not> errors_Is (the err) ErrCursorNotFound
            else err = None \<and> (\<exists>h c. cur = Some c \<and> (h, c) \<in> set cursors
                   \<and> (\<forall>(_, c') \<in> set cursors. c_num c' \<le> c_num c)))"
    by blast
  then show ?thesis
    by (intro exI [of _ cur] exI [of _ m] exI [of _ err]) (simp split: option.splits if_splits)
qed

text \<open>A database with two cursors of other modules\<close>

definition ex_cursor :: "string \<Rightarrow> u64 \<Rightarrow> Cursor" where
  "ex_cursor c n = \<lparr>c_string = c, c_num = n, c_id = c\<rparr>"

definition ex_cursor_db :: "'s Db" where
  "ex_cursor_db = \<lparr>db_Begin = (\<lambda>s. (Inl (Errorf ''closed'' []), s)), db_Exec = (\<lambda>q s. (Inr (Inr 1), s)),
     db_Query = (\<lambda>q s. (Inr None, s)),
     db_QueryCursors = (\<lambda>q s. (Inr \<lparr>r_rows =
       [Inr \<lparr>cr_ID = ''m1'', cr_Cursor = ''x'', cr_BlockNum = 7, cr_BlockID = ''x''\<rparr>,
        Inr \<lparr>cr_ID = ''m2'', cr_Cursor = ''y'', cr_BlockNum = 9, cr_BlockID = ''y''\<rparr>], r_err = None\<rparr>, s))\<rparr>"

definition ex_newCursor :: "string \<Rightarrow> Cursor res" where
  "ex_newCursor c = Inr (ex_cursor c (if c = ''y'' then 9 else 7))"

theorem GetCursor_cases_witness:
  "\<exists>err. GetCursor ex_cursor_db (pg_iface ex_pg id id) ex_newCursor (ex_cursor [] 0) ex_loader ''m3'' ()
      = (Some (None, True, Some err), ())"
proof -
  have "OnModuleHashMismatch_IsValid (moduleMismatchMode ex_loader)" by code_simp
  moreover have "GetAllCursors ex_cursor_db (pg_iface ex_pg id id) ex_newCursor ex_loader ()
      = (Inr [(''m1'', ex_cursor ''x'' 7), (''m2'', ex_cursor ''y'' 9)], ())" by code_simp
  ultimately show ?thesis using GetCursor_cases [of ex_loader ex_cursor_db "pg_iface ex_pg id id" ex_newCursor "()"
      "[(''m1'', ex_cursor ''x'' 7), (''m2'', ex_cursor ''y'' 9)]" "()" "ex_cursor [] 0" "''m3''"]
    by (auto simp: ex_loader_def)
qed

section \<open>Flushing and reverting\<close>

text \<open>
  C12. The order of a flush is determined by the changes and not by the order in which Go visits
  the maps of the batch: the operations are those pending, one for each row, and every list of
  them with increasing ordinals is the list that is sent.
\<close>

theorem flush_order_determined:
  assumes "batch_ok l"
  shows "sorted_wrt (\<lambda>a b. op_ordinal a < op_ordinal b) (sortedOperations l)
    \<and> (\<forall>oper. oper \<in> set (sortedOperations l) \<longleftrightarrow> (\<exists>k. pending l k = Some oper))
    \<and> (\<forall>ops. mset ops = mset (allOperations l) \<longrightarrow> sorted (map op_ordinal ops) \<longrightarrow> ops = sortedOperations l)"
proof (intro conjI allI impI)
  show "sorted_wrt (\<lambda>a b. op_ordinal a < op_ordinal b) (sortedOperations l)"
    by (rule sortedOperations_strict(1) [OF assms])
  show "oper \<in> set (sortedOperations l) \<longleftrightarrow> (\<exists>k. pending l k = Some oper)" for oper
    using set_allOperations [of l oper] assms by (simp add: sortedOperations_def batch_ok_def)
  show "ops = sortedOperations l" if "mset ops = mset (allOperations l)" "sorted (map op_ordinal ops)" for ops
    by (rule sortedOperations_unique [OF assms that])
qed

theorem flush_order_determined_witness:
  "sorted_wrt (\<lambda>a b. op_ordinal a < op_ordinal b) (sortedOperations (ex_changes [CDelete (ex_key ''a'') None]))"
proof -
  have "batch_reach ex_loader (ex_changes [CDelete (ex_key ''a'') None])"
    using batch_reach.batch_change [OF batch_reach.batch_start, of "CDelete (ex_key ''a'') None" ex_loader "''xfer''"]
    by (simp add: ex_changes_def ex_key_def ex_loader_def wf_map_def)
  from batch_reach_ok [OF this ex_loader_ok] flush_order_determined show ?thesis by blast
qed

text \<open>
  C11. What a flush does, on any database: when it succeeds, the database was sent the statements of
  all operations in their order, the pruning of the history, the cursor and \<open>COMMIT\<close>, and the
  batch is emptied; when it fails, it was sent a part of these from the start and \<open>ROLLBACK\<close>, and
  the batch is kept as it was, so the next attempt sends the same statements.
\<close>

theorem flush_all_or_nothing:
  assumes "Loader_Flush db (Some (logged tx)) (pg_iface d zone dedent) l h c final (s, []) = (r, l', (s', sent_qs))"
  shows "case r of
      Inr n \<Rightarrow> l' = reset l \<and> n = int (length (sortedOperations l)) + 1
        \<and> (\<exists>qs. traverse (prepareStatement d zone (schemaName d)) (sortedOperations l) = Inr qs
              \<and> sent_qs = qs @ [pruneReversibleQuery d (schemaName d) final,
                  pg_GetUpdateCursorQuery dedent (cursor_identifier l) h c, ''COMMIT''])
    | Inl e \<Rightarrow> l' = l \<and> (\<exists>k qs t. k \<le> length (sortedOperations l)
        \<and> traverse (prepareStatement d zone (schemaName d)) (take k (sortedOperations l)) = Inr qs
        \<and> (t = 0 \<or> k = length (sortedOperations l))
        \<and> sent_qs = qs @ take t [pruneReversibleQuery d (schemaName d) final,
              pg_GetUpdateCursorQuery dedent (cursor_identifier l) h c, ''COMMIT''] @ [''ROLLBACK''])"
proof -
  have "BeginTx db (Some (logged tx)) l (s, []) = (Inr (logged tx), (s, []))" by (simp add: BeginTx_def)
  from logged_tx.Loader_Flush_log [OF this assms] show ?thesis unfolding logged_tx.closing_def snd_conv append_Nil .
qed

theorem flush_all_or_nothing_witness:
  "let l = ex_changes [CDelete (ex_key ''a'') None] in
   \<exists>sent_qs. snd (snd (Loader_Flush ex_cursor_db (Some (logged test_Tx)) (pg_iface ex_pg id id) l ''m'' (ex_cursor ''c'' 5) 4
       (\<lparr>queries = []\<rparr>, []))) = (\<lparr>queries = sent_qs\<rparr>, sent_qs)
   \<and> sent_qs = [''DELETE FROM '' @ tidentifier ex_table @ '' WHERE '' @ EscapeIdentifier ''id'' @ '' = '' @ escapeStringValue ''a'',
            pruneReversibleQuery ex_pg ''public'' 4, pg_GetUpdateCursorQuery id [] ''m'' (ex_cursor ''c'' 5), ''COMMIT'']"
proof -
  let ?l = "ex_changes [CDelete (ex_key ''a'') None]"
  let ?F = "Loader_Flush ex_cursor_db (Some (logged test_Tx)) (pg_iface ex_pg id id) ?l ''m'' (ex_cursor ''c'' 5) 4
       (\<lparr>queries = []\<rparr>, [])"
  let ?sent_qs = "[''DELETE FROM '' @ tidentifier ex_table @ '' WHERE '' @ EscapeIdentifier ''id'' @ '' = '' @ escapeStringValue ''a'',
            pruneReversibleQuery ex_pg ''public'' 4, pg_GetUpdateCursorQuery id [] ''m'' (ex_cursor ''c'' 5), ''COMMIT'']"
  have F: "fst ?F = Inr 2" "queries (fst (snd (snd ?F))) = ?sent_qs" by code_simp+
  obtain l' st sent_qs where e: "?F = (Inr 2, l', (st, sent_qs))" using F(1) by (cases ?F) auto
  have sent: "traverse (prepareStatement ex_pg id ''public'') (sortedOperations ?l) = Inr [hd ?sent_qs]"
    "cursor_identifier ?l = []" "schemaName ex_pg = ''public''" by code_simp+
  have "sent_qs = ?sent_qs" using flush_all_or_nothing [OF e] sent by simp
  then show ?thesis using e F(2) by (auto simp: Let_def)
qed

text \<open>
  C16. A revert never rolls its transaction back: on any database it sends the query of the history, the statements that undo
  the rows read, in their order, the pruning of the history, the cursor and \<open>COMMIT\<close>, or a part of these from the start
  when one of them fails, and then nothing: the deferred function is run, but the error it looks at is the one of
  \<open>BeginTx\<close>, which is nil. So what was sent stays in a transaction that is left open, where \<open>Flush\<close> sends
  \<open>ROLLBACK\<close>.
\<close>

theorem revert_never_rolls_back:
  assumes "Loader_Revert db (Some (logged tx)) (pg_iface d zone dedent) l h c v (s, []) = (r, (s', sent_qs))"
  defines "hs \<equiv> history_rows (logged tx) (historyQuery d v) (s, [])"
  shows "\<exists>k qs t. k \<le> length hs \<and> undo_queries ''json_populate_record'' (take k hs) qs
    \<and> t \<le> 3 \<and> (0 < t \<longrightarrow> k = length hs) \<and> (r = Done \<longrightarrow> t = 3)
    \<and> sent_qs = historyQuery d v # qs
        @ take t [pruneHistoryQuery d v, pg_GetUpdateCursorQuery dedent (cursor_identifier l) h c, ''COMMIT'']"
proof -
  have "BeginTx db (Some (logged tx)) l (s, []) = (Inr (logged tx), (s, []))" by (simp add: BeginTx_def)
  from logged_tx.Loader_Revert_log [OF this assms(1)] show ?thesis unfolding hs_def snd_conv append_Nil .
qed

text \<open>A transaction that executes nothing: one row was inserted, and its deletion fails.\<close>

definition broken_Tx :: "TestTx Tx" where
  "broken_Tx = test_Tx\<lparr>tx_Exec := (\<lambda>q t. (Inl (ExternalErr ''connection lost''), t)),
     tx_Query := (\<lambda>q t. (Inr (Some \<lparr>r_rows = [Inr \<lparr>h_op = ''I'', h_table = tidentifier ex_table,
        h_pk = primaryKeyToJSON (ex_key ''a''), h_prev = None, h_block = 7\<rparr>], r_err = None\<rparr>), t))\<rparr>"

theorem revert_never_rolls_back_witness:
  "fst (Loader_Revert ex_cursor_db (Some (logged broken_Tx)) (pg_iface ex_pg id id) ex_loader ''m'' (ex_cursor ''c'' 5) 4
       (\<lparr>queries = []\<rparr>, [])) \<noteq> Done
   \<and> ''ROLLBACK'' \<notin> set (snd (snd (Loader_Revert ex_cursor_db (Some (logged broken_Tx)) (pg_iface ex_pg id id) ex_loader ''m''
       (ex_cursor ''c'' 5) 4 (\<lparr>queries = []\<rparr>, []))))"
proof -
  let ?R = "Loader_Revert ex_cursor_db (Some (logged broken_Tx)) (pg_iface ex_pg id id) ex_loader ''m'' (ex_cursor ''c'' 5) 4
      (\<lparr>queries = []\<rparr>, [])"
  let ?h = "\<lparr>h_op = ''I'', h_table = tidentifier ex_table, h_pk = primaryKeyToJSON (ex_key ''a''), h_prev = None, h_block = 7\<rparr>"
  let ?q = "''DELETE FROM '' @ tidentifier ex_table @ '' WHERE '' @ EscapeIdentifier ''id'' @ '' = '' @ escapeStringValue ''a'' @ '';''"
  have f: "case fst ?R of Done \<Rightarrow> False | _ \<Rightarrow> True" "length (snd (snd ?R)) = 2" by code_simp+
  have hs: "history_rows (logged broken_Tx) (historyQuery ex_pg 4) (\<lparr>queries = []\<rparr>, []) = [?h]"
    by (simp add: history_rows_def logged_def broken_Tx_def)
  have q: "revertQuery ''json_populate_record'' (h_op ?h) (h_table ?h) (h_pk ?h) (prev_value ?h) = Some (Inr ?q)" by code_simp
  have n: "''ROLLBACK'' \<notin> set [historyQuery ex_pg 4, ?q, pruneHistoryQuery ex_pg 4,
      pg_GetUpdateCursorQuery id (cursor_identifier ex_loader) ''m'' (ex_cursor ''c'' 5), ''COMMIT'']" by code_simp
  obtain r s' sent_qs where e: "?R = (r, (s', sent_qs))" by (cases ?R) auto
  from revert_never_rolls_back [OF e, unfolded hs] obtain k qs t where
    "k \<le> 1" "undo_queries ''json_populate_record'' (take k [?h]) qs"
    and s: "sent_qs = historyQuery ex_pg 4 # qs @ take t [pruneHistoryQuery ex_pg 4,
       pg_GetUpdateCursorQuery id (cursor_identifier ex_loader) ''m'' (ex_cursor ''c'' 5), ''COMMIT'']" by auto
  then have "set qs \<subseteq> {?q}" using q by (cases k) (auto simp: undo_queries_def list_all2_Cons1)
  then have "set sent_qs \<subseteq> set [historyQuery ex_pg 4, ?q, pruneHistoryQuery ex_pg 4,
      pg_GetUpdateCursorQuery id (cursor_identifier ex_loader) ''m'' (ex_cursor ''c'' 5), ''COMMIT'']"
    unfolding s by (auto dest: in_set_takeD)
  with n have "''ROLLBACK'' \<notin> set sent_qs" by blast
  then show ?thesis using f(1) e by (auto split: Outcome.splits)
qed

end
