(* ===== verification/SinkerProperties.thy ===== *)
theory SinkerProperties
  imports SinkerFacts ChangesProperties
begin

text \<open>
  The properties of the sink of database changes: what a block does to the batch, when blocks are
  flushed, how flushes are retried, how the sink starts, and what an undo signal leaves behind.
\<close>

section \<open>Blocks\<close>

text \<open>
  C5. A block never breaks the batch: whatever its changes are, also when one of them is refused,
  the handler's application of them does not panic, keeps the invariant of the batch, and every
  pending operation it leaves is marked with the block exactly when the block can still be undone,
  or was pending before and keeps its mark.
\<close>

theorem block_changes_keep_batch:
  assumes "receiveChanges env data l = (out, l')" "batch_ok l"
    "\<And>cs. e_unmarshal env (any_Value (bd_mapOutput data)) = Inr cs \<Longrightarrow>
       list_all key_ok cs \<and> unat (batchOrdinal l) + length cs < 2 ^ 64"
  shows "out \<noteq> Panicked \<and> batch_ok l' \<and> (\<forall>k q. pending l' k = Some q \<longrightarrow>
      op_reversibleBlockNum q = (if bd_number data > bd_finalBlockHeight data then Some (bd_number data) else None)
      \<or> (\<exists>p. pending l k = Some p \<and> op_reversibleBlockNum q = op_reversibleBlockNum p))"
proof (cases "l' = l \<and> out \<noteq> Panicked")
  case True
  then show ?thesis using assms(2) by auto
next
  case False
  obtain cs o1 where cs: "e_unmarshal env (any_Value (bd_mapOutput data)) = Inr cs"
    and ap: "applyDatabaseChanges l cs (bd_number data) (bd_finalBlockHeight data) = (o1, l')"
    and o1: "out = Panicked \<longleftrightarrow> o1 = Panicked"
    using assms(1) False
    by (auto simp: receiveChanges_def split: if_splits sum.splits prod.splits Outcome.splits)
  from applyDatabaseChanges_ok [OF ap _ assms(2)] assms(3) [OF cs] o1
  show ?thesis by (simp add: from_block_def reversible_of_def)
qed

text \<open>A block of the example sink: one change of the table \<open>xfer\<close>\<close>

definition ex_any :: "string \<Rightarrow> AnyMsg" where
  "ex_any v = \<lparr>any_String = v, any_TypeUrl = ''type.googleapis.com/sf.substreams.database.v1.DatabaseChanges'',
     any_MessageName = ''DatabaseChanges'', any_Value = v\<rparr>"

definition ex_block :: "string \<Rightarrow> u64 \<Rightarrow> u64 \<Rightarrow> BlockData" where
  "ex_block v n final = \<lparr>bd_outputName = ''map'', bd_mapOutput = ex_any v, bd_number = n,
     bd_timestamp = 1700000000 * 10 ^ 9, bd_finalBlockHeight = final\<rparr>"

definition ex_change :: "TableOp \<Rightarrow> string \<Rightarrow> string \<Rightarrow> TableChange" where
  "ex_change operation k v = \<lparr>tc_table = ''xfer'', tc_key = Pk k, tc_operation = operation,
     tc_fields = [\<lparr>f_name = ''note'', f_newValue = v\<rparr>]\<rparr>"

text \<open>The bytes \<open>c:v\<close> stand for the message that creates the row \<open>a\<close>, other bytes for an upsert of it.\<close>

definition ex_unmarshal :: "string \<Rightarrow> TableChange list res" where
  "ex_unmarshal v = (if hasPrefix ''c:'' v then Inr [ex_change OPERATION_CREATE ''a'' (drop 2 v)]
     else Inr [ex_change OPERATION_UPSERT ''a'' v])"

definition ex_env :: "(TestTx \<times> string list) SinkEnv" where
  "ex_env = \<lparr>e_db = ex_cursor_db, e_testTx = Some (logged test_Tx), e_di = pg_iface ex_pg id id,
     e_newCursor = ex_newCursor, e_blankCursor = ex_cursor [] 0, e_isBlank = (\<lambda>c. c = ex_cursor [] 0),
     e_moduleName = ''map'', e_moduleHash = ''m1'', e_messageIs = (\<lambda>_. False), e_unmarshal = ex_unmarshal,
     e_reachedEndBlock = (\<lambda>n. n \<ge> 13), e_average = (\<lambda>ds. 0), e_cancelled = (\<lambda>_. None), e_flushTook = (\<lambda>_. 1)\<rparr>"

definition ex_sinker :: Sinker where
  "ex_sinker = (NewSinker (ex_loader\<lparr>liveBlockFlushInterval := 10\<rparr>) 3 0)\<lparr>lastAppliedBlockNum := 11\<rparr>"

theorem block_changes_keep_batch_witness:
  "batch_ok (snd (receiveChanges ex_env (ex_block ''c:x'' 12 9) ex_loader))"
proof -
  obtain out l' where r: "receiveChanges ex_env (ex_block ''c:x'' 12 9) ex_loader = (out, l')" by fastforce
  have "ex_unmarshal ''c:x'' = Inr [ex_change OPERATION_CREATE ''a'' ''x'']" by code_simp
  then have "list_all key_ok cs \<and> unat (batchOrdinal ex_loader) + length cs < 2 ^ 64"
    if "e_unmarshal ex_env (any_Value (bd_mapOutput (ex_block ''c:x'' 12 9))) = Inr cs" for cs
    using that by (auto simp: ex_env_def ex_block_def ex_any_def ex_change_def key_ok_def ex_loader_def)
  from block_changes_keep_batch [OF r ex_loader_ok this] show ?thesis by (simp add: r)
qed

section \<open>When blocks are flushed\<close>

text \<open>
  C7. The cadence of flushes: a block that is handled without an error either flushed the whole
  batch and became the last applied block, or left the database alone, with at most as many
  pending rows as the batch allows, and then it is fewer blocks after the last applied block than
  the interval in force (unless the interval is disabled, or the flush was skipped while live).
\<close>

theorem block_cadence:
  assumes "HandleBlockScopedData env data (Some live) cursor sk s = (Done, sk', s')"
  shows "\<exists>interval. batchBlockModulo (sk_loader sk') (Some live) = Some interval \<and>
    ((\<exists>l1. receiveChanges env data (sk_loader sk) = (Done, l1) \<and> sk_loader sk' = reset l1
        \<and> lastAppliedBlockNum sk' = bd_number data)
    \<or> (s' = s \<and> int (length (allOperations (sk_loader sk'))) \<le> batchRowFlushInterval (sk_loader sk')
        \<and> lastAppliedBlockNum sk' = lastAppliedBlockNum sk
        \<and> (interval = 0 \<or> bd_number data - lastAppliedBlockNum sk < interval
           \<or> live \<and> e_average env (flushDurations (sk_stats sk)) > timeSub (bd_timestamp data) (lastAppliedBlockTime sk))))"
proof -
  obtain l1 where rc: "receiveChanges env data (sk_loader sk) = (Done, l1)"
    using assms by (auto simp: HandleBlockScopedData_def split: prod.splits Outcome.splits)
  obtain m where m: "batchBlockModulo l1 (Some live) = Some m" by (auto simp: batchBlockModulo_def)
  let ?sk1 = "sk\<lparr>sk_loader := l1\<rparr>"
  show ?thesis
  proof (cases "blockFlushNeeded env ?sk1 m live data \<or> FlushNeeded l1")
    case True
    then obtain n l2 where fl: "flushWithRetry env (flushRetryDelay sk) cursor (bd_finalBlockHeight data) (flushRetryCount sk) l1 s = (Inr n, l2, s')"
      and sk': "sk' = recordFlush (e_flushTook env s') data cursor (?sk1\<lparr>sk_loader := l2\<rparr>)"
      using assms rc m by (auto simp: HandleBlockScopedData_def Let_def split: prod.splits sum.splits if_splits)
    have "l2 = reset l1" using fl by (rule flushWithRetry_reset)
    moreover have "batchBlockModulo (reset l1) (Some live) = Some m"
      using m by (cases live; cases "batchBlockFlushInterval l1 > 0") (simp_all add: batchBlockModulo_def reset_def)
    ultimately show ?thesis using rc sk' by (intro exI [of _ m]) (simp add: recordFlush_def)
  next
    case False
    then have sk': "sk' = ?sk1" "s' = s" using assms rc m
      by (auto simp: HandleBlockScopedData_def Let_def split: if_splits)
    have "int (length (allOperations l1)) \<le> batchRowFlushInterval l1"
      using False FlushNeeded_rows [of l1] by (simp add: allOperations_rows)
    moreover have "m = 0 \<or> bd_number data - lastAppliedBlockNum sk < m
        \<or> live \<and> e_average env (flushDurations (sk_stats sk)) > timeSub (bd_timestamp data) (lastAppliedBlockTime sk)"
      using False by (auto simp: blockFlushNeeded_def not_le word_neq_0_conv)
    ultimately show ?thesis using m unfolding sk' by (intro exI [of _ m]) simp
  qed
qed

theorem block_cadence_witness:
  "\<exists>sk' s'. HandleBlockScopedData ex_env (ex_block ''c:x'' 12 9) (Some True) (ex_cursor ''c'' 12) ex_sinker (\<lparr>queries = []\<rparr>, []) = (Done, sk', s')
     \<and> queries (fst s') = [] \<and> int (length (allOperations (sk_loader sk'))) \<le> 100000"
proof -
  let ?H = "HandleBlockScopedData ex_env (ex_block ''c:x'' 12 9) (Some True) (ex_cursor ''c'' 12) ex_sinker (\<lparr>queries = []\<rparr>, [])"
  have H: "fst ?H = Done" "lastAppliedBlockNum (fst (snd ?H)) = 11" "bd_number (ex_block ''c:x'' 12 9) = 12"
    "batchRowFlushInterval (sk_loader (fst (snd ?H))) = 100000" "queries (fst (snd (snd ?H))) = []" by code_simp+
  obtain sk' s' where e: "?H = (Done, sk', s')" using H(1) by (cases ?H) auto
  from block_cadence [OF e] H e show ?thesis by fastforce
qed

text \<open>
  C6. A flush is attempted at most once more than the retries asked for, and only once when the delay
  is zero; it always returns. Every failed attempt sent a part of the flush from its start and
  \<open>ROLLBACK\<close>; a successful one comes last, sends the whole flush of the same batch and empties it;
  if none succeeds the batch is kept.
\<close>

theorem flush_is_retried:
  assumes "flushWithRetry env delay cursor final retries l (s, []) = (r, l', (s', sent))"
    "e_testTx env = Some (logged tx)" "e_di env = pg_iface d zone dedent"
  shows "\<exists>fails. list_all (failed_flush d zone dedent l (e_moduleHash env) cursor final) fails
     \<and> length fails \<le> nat (retries + 1) \<and> (delay = 0 \<longrightarrow> length fails \<le> 1)
     \<and> (case r of
          Inr n \<Rightarrow> l' = reset l \<and> n = int (length (sortedOperations l)) + 1 \<and> length fails < nat (retries + 1)
            \<and> (\<exists>qs. whole_flush d zone dedent l (e_moduleHash env) cursor final qs \<and> sent = concat fails @ qs)
        | Inl e \<Rightarrow> l' = l \<and> sent = concat fails)"
  using flush_attempts_zero [OF assms [unfolded flushWithRetry_def]] unfolding append_Nil .

text \<open>A transaction whose statements fail\<close>

definition ex_failing_tx :: "TestTx Tx" where
  "ex_failing_tx = test_Tx\<lparr>tx_Exec := (\<lambda>q t. (Inl (Errorf ''deadlock'' []), t\<lparr>queries := queries t @ [q]\<rparr>))\<rparr>"

theorem flush_is_retried_witness:
  "\<exists>e sent. flushWithRetry (ex_env\<lparr>e_testTx := Some (logged ex_failing_tx)\<rparr>) 5 (ex_cursor ''c'' 12) 9 2 ex_loader (\<lparr>queries = []\<rparr>, [])
      = (Inl e, ex_loader, (\<lparr>queries = sent\<rparr>, sent)) \<and> (\<exists>fails. length fails \<le> 3 \<and> sent = concat fails)"
proof -
  let ?env = "ex_env\<lparr>e_testTx := Some (logged ex_failing_tx)\<rparr>"
  let ?F = "flushWithRetry ?env 5 (ex_cursor ''c'' 12) 9 2 ex_loader (\<lparr>queries = []\<rparr>, [])"
  have F: "\<not> is_ok (fst ?F)" "snd (snd (snd ?F)) = queries (fst (snd (snd ?F)))" by code_simp+
  obtain e l' s' sent where e: "?F = (Inl e, l', (s', sent))" using F(1) by (cases ?F; cases "fst ?F") auto
  have env: "e_testTx ?env = Some (logged ex_failing_tx)" "e_di ?env = pg_iface ex_pg id id" by (simp_all add: ex_env_def)
  from flush_is_retried [OF e env] have r: "l' = ex_loader" "\<exists>fails. length fails \<le> 3 \<and> sent = concat fails" by auto
  have "s' = \<lparr>queries = sent\<rparr>" using F(2) e by (cases s') simp
  with r e show ?thesis by blast
qed

section \<open>Undo signals\<close>

text \<open>
  After an undo the last applied block is ahead of the chain: for a block below it the unsigned
  difference wraps, so the block is flushed at once whenever the interval is not longer than the
  distance from 2^64, that is for every interval in use, also when no flush is due.
\<close>

theorem block_below_last_applied_flushes:
  assumes "bd_number data < lastAppliedBlockNum sk" "0 < interval"
    "unat interval + unat (lastAppliedBlockNum sk) \<le> 2 ^ 64 + unat (bd_number data)"
  shows "blockFlushNeeded env sk interval False data"
proof -
  have "unat (bd_number data - lastAppliedBlockNum sk) = 2 ^ 64 + unat (bd_number data) - unat (lastAppliedBlockNum sk)"
    using assms(1) unat_sub_if' [of "bd_number data" "lastAppliedBlockNum sk"] by (simp add: word_less_nat_alt)
  then have "unat interval \<le> unat (bd_number data - lastAppliedBlockNum sk)" using assms(3) by linarith
  then show ?thesis using assms(2) by (simp add: blockFlushNeeded_def word_le_nat_alt)
qed

theorem block_below_last_applied_flushes_witness:
  "blockFlushNeeded ex_env (ex_sinker\<lparr>lastAppliedBlockNum := 100\<rparr>) 1000 False (ex_block ''x'' 99 90)"
  by (rule block_below_last_applied_flushes) (simp_all add: ex_block_def)

text \<open>
  An undo does not undo what is still in the batch: a row created in block 12 that was not
  flushed yet when block 12 is undone (the last valid block is 11) is inserted by the next flush,
  as a change of block 12.
\<close>

theorem undo_keeps_pending_changes:
  "let (r1, sk1, s1) = HandleBlockScopedData ex_env (ex_block ''c:x'' 12 9) (Some True) (ex_cursor ''c'' 12) ex_sinker (\<lparr>queries = []\<rparr>, []);
       (r2, sk2, s2) = HandleBlockUndoSignal ex_env 11 (ex_cursor ''u'' 11) sk1 s1;
       (r3, sk3, s3) = HandleBlockRangeCompletion ex_env (ex_cursor ''e'' 13) sk2 s2 in
   r1 = Done \<and> r2 = Done \<and> r3 = Done \<and> queries (fst s1) = []
   \<and> queries (fst s3) = queries (fst s2) @
       [saveInsert ex_pg ''public'' (tidentifier ex_table) (ex_key ''a'') 12
          @ ''INSERT INTO '' @ tidentifier ex_table @ '' ('' @ EscapeIdentifier ''id'' @ '','' @ EscapeIdentifier ''note''
          @ '') VALUES ('' @ escapeStringValue ''a'' @ '','' @ escapeStringValue ''x'' @ '');'',
        pruneReversibleQuery ex_pg ''public'' 13, pg_GetUpdateCursorQuery id [] ''m1'' (ex_cursor ''e'' 13), ''COMMIT'']"
  by code_simp

text \<open>
  A change that is merged into an operation of an earlier block is not recorded for an undo: a row
  first changed in the final block 9 and changed again in the reversible block 12 of the same batch
  is written by one statement with no row of history, so undoing block 12 cannot restore it.
\<close>

theorem merged_change_has_no_history:
  "let (r1, l1) = receiveChanges ex_env (ex_block ''one'' 9 9) ex_loader;
       (r2, l2) = receiveChanges ex_env (ex_block ''two'' 12 9) l1 in
   r1 = Done \<and> r2 = Done
   \<and> map (prepareStatement ex_pg id ''public'') (sortedOperations l2) =
      [Inr (''INSERT INTO '' @ tidentifier ex_table @ '' ('' @ EscapeIdentifier ''id'' @ '','' @ EscapeIdentifier ''note''
         @ '') VALUES ('' @ escapeStringValue ''a'' @ '','' @ escapeStringValue ''two'' @ '') ON CONFLICT (id) DO UPDATE SET ''
         @ EscapeIdentifier ''id'' @ ''=EXCLUDED.'' @ EscapeIdentifier ''id'' @ '', ''
         @ EscapeIdentifier ''note'' @ ''=EXCLUDED.'' @ EscapeIdentifier ''note'' @ '';'')]"
  by code_simp

section \<open>Starting\<close>

text \<open>
  C8. The sink only starts from a cursor that is in the database: the module's own, or one that was
  written just before (the blank cursor when there was none, the cursor of the highest block when
  the module's hash changed and the mode allows it). The last applied block is that cursor's. Assumed:
  a failed read of the cursors does not pass for the sentinel error of a missing cursor.
\<close>

theorem Run_starts_from_stored_cursor:
  assumes "Run env sk s = (Some (Inr cur, sk'), s')" "OnModuleHashMismatch_IsValid (moduleMismatchMode (sk_loader sk))"
    "\<And>e s1. GetAllCursors (e_db env) (e_di env) (e_newCursor env) (sk_loader sk) s = (Inl e, s1) \<Longrightarrow> \<not> errors_Is e ErrCursorNotFound"
  shows "lastAppliedBlockNum sk' = (case cur of Some c \<Rightarrow> c_num c | None \<Rightarrow> 0) \<and>
    (\<exists>cursors s1. GetAllCursors (e_db env) (e_di env) (e_newCursor env) (sk_loader sk) s = (Inr cursors, s1) \<and>
      (case map_of cursors (e_moduleHash env) of
         Some active \<Rightarrow> cur = Some active \<and> s' = s1
       | None \<Rightarrow> \<exists>c. cur = Some c \<and> InsertCursor (e_db env) (sk_loader sk) (e_moduleHash env) c s1 = (None, s')
           \<and> (if cursors = [] then c = e_blankCursor env
              else moduleMismatchMode (sk_loader sk) \<noteq> OnModuleHashMismatchError
                \<and> (\<exists>h. (h, c) \<in> set cursors) \<and> (\<forall>(_, c') \<in> set cursors. c_num c' \<le> c_num c))))"
proof (cases "GetAllCursors (e_db env) (e_di env) (e_newCursor env) (sk_loader sk) s")
  case (Pair all s1)
  show ?thesis
  proof (cases all)
    case (Inl e)
    then show ?thesis using assms(1,3) Pair by (simp add: Run_def GetCursor_def)
  next
    case (Inr cursors)
    note g = Pair [unfolded Inr]
    obtain c m err where gc: "GetCursor (e_db env) (e_di env) (e_newCursor env) (e_blankCursor env) (sk_loader sk) (e_moduleHash env) s = (Some (c, m, err), s1)"
      and cases_: "if cursors = [] then c = Some (e_blankCursor env) \<and> \<not> m \<and> err = Some ErrCursorNotFound
       else case map_of cursors (e_moduleHash env) of
         Some active \<Rightarrow> c = Some active \<and> \<not> m \<and> err = None
       | None \<Rightarrow> m \<and>
           (if moduleMismatchMode (sk_loader sk) = OnModuleHashMismatchError then c = None \<and> err \<noteq> None \<and> \<not> errors_Is (the err) ErrCursorNotFound
            else err = None \<and> (\<exists>h d. c = Some d \<and> (h, d) \<in> set cursors \<and> (\<forall>(_, c') \<in> set cursors. c_num c' \<le> c_num d)))"
      using GetCursor_result [OF assms(2) g] by blast
    show ?thesis
    proof (cases "cursors = [] \<or> map_of cursors (e_moduleHash env) = None")
      case False
      then obtain active where act: "map_of cursors (e_moduleHash env) = Some active" "cursors \<noteq> []" by auto
      then have "c = Some active" "\<not> m" "err = None" using cases_ by simp_all
      then have "cur = Some active" "s' = s1" "lastAppliedBlockNum sk' = c_num active"
        using assms(1) gc by (auto simp: Run_def Let_def)
      then show ?thesis using g act(1) by simp
    next
      case True
      then show ?thesis using assms(1) gc cases_ g
        by (auto simp: Run_def Let_def split: prod.splits option.splits if_splits)
    qed
  qed
qed

theorem Run_starts_from_stored_cursor_witness:
  "\<exists>sk'. Run ex_env ex_sinker (\<lparr>queries = []\<rparr>, []) = (Some (Inr (Some (ex_cursor ''x'' 7)), sk'), (\<lparr>queries = []\<rparr>, []))
     \<and> lastAppliedBlockNum sk' = 7"
proof -
  let ?R = "Run ex_env ex_sinker (\<lparr>queries = []\<rparr>, [])"
  have R: "map_option fst (fst ?R) = Some (Inr (Some (ex_cursor ''x'' 7)))" "snd ?R = (\<lparr>queries = []\<rparr>, [])" by code_simp+
  then obtain sk' where e: "?R = (Some (Inr (Some (ex_cursor ''x'' 7)), sk'), (\<lparr>queries = []\<rparr>, []))"
    by (cases ?R) auto
  have "OnModuleHashMismatch_IsValid (moduleMismatchMode (sk_loader ex_sinker))" by code_simp
  note valid = this
  have ok: "is_ok (fst (GetAllCursors (e_db ex_env) (e_di ex_env) (e_newCursor ex_env) (sk_loader ex_sinker) (\<lparr>queries = []\<rparr>, [])))"
    by code_simp
  have "lastAppliedBlockNum sk' = (case Some (ex_cursor ''x'' 7) of Some c \<Rightarrow> c_num c | None \<Rightarrow> 0)"
    by (rule conjunct1 [OF Run_starts_from_stored_cursor [OF e valid]]) (use ok in simp)
  then have "lastAppliedBlockNum sk' = 7" by (simp add: ex_cursor_def)
  with e show ?thesis by blast
qed

end
