(* ===== verification/RwDialect.thy ===== *)
theory RwDialect
  imports FlushFacts
begin

text \<open>
  The RisingWave dialect (\<open>src/db_changes/db/dialect_risingwave.go\<close>): its statements, its history
  with generated identifiers, its flush table by table, and its part of the interface
  \<open>DialectI\<close>. SHA-256 and the clock that the identifiers read are parameters.
\<close>

section \<open>Values\<close>

definition rw_ParseDatetimeNormalization :: "string \<Rightarrow> string" where
  "rw_ParseDatetimeNormalization value =
     (case parse_RFC3339 value of
        Some (i, ns) \<Rightarrow> escapeStringValue (format_RisingWave i ns)
      | None \<Rightarrow> escapeStringValue value)"

fun rw_normalizeValueType :: "string \<Rightarrow> RType \<Rightarrow> string res" where
  "rw_normalizeValueType value RString = Inr (escapeStringValue (replaceAll [CHR 0x00] [] value))"
| "rw_normalizeValueType value (RSlice t) = Inr (escapeStringValue value)"
| "rw_normalizeValueType value RBool = Inr ([CHR 0x27] @ value @ [CHR 0x27])"
| "rw_normalizeValueType value RTime =
     (if integerRegex value
      then (case Atoi value of
              (i, Some e) \<Rightarrow> Inl (Wrapf ''could not convert %s to int'' [AStr value] e)
            | (i, None) \<Rightarrow> Inr (escapeStringValue (format_RisingWave i 0)))
      else Inr (rw_ParseDatetimeNormalization value))"
| "rw_normalizeValueType value (RStruct n) = Inl (Errorf ''unsupported struct type %s'' [AStr n])"
| "rw_normalizeValueType value (RNamed n t) = rw_normalizeValueType value t"
| "rw_normalizeValueType value _ = Inr value"

definition rw_columnValue :: "TableInfo \<Rightarrow> string gomap \<Rightarrow> string \<Rightarrow> (string \<times> string) res" where
  "rw_columnValue table colValues columnName =
     (case map_of (columnsByName table) columnName of
        None \<Rightarrow> Inl (Errorf ''cannot find column %q for table %q (valid columns are %q)''
                  [AStr columnName, AStr (tidentifier table), AStr (joinS '', '' (keys (columnsByName table)))])
      | Some info \<Rightarrow>
          (case rw_normalizeValueType (getS colValues columnName) (scanType info) of
             Inl e \<Rightarrow> Inl (Wrapf ''getting sql value from table %s for column %q raw value %q''
                        [AStr (tidentifier table), AStr columnName, AStr (getS colValues columnName)] e)
           | Inr v \<Rightarrow> Inr (escapedName info, v)))"

definition rw_prepareColValues :: "TableInfo \<Rightarrow> string gomap \<Rightarrow> (string list \<times> string list) res" where
  "rw_prepareColValues table colValues =
     (if length colValues = 0 then Inr ([], [])
      else (case traverse (rw_columnValue table colValues) (sort (keys colValues)) of
              Inl e \<Rightarrow> Inl e
            | Inr cvs \<Rightarrow> Inr (map fst cvs, map snd cvs)))"

section \<open>History\<close>

text \<open>Identifiers of history rows: the block number in the high 32 bits, four bytes of a hash of the
  operation, the key and the clock in the low 32 bits. \<open>int64(blockNum) << 32\<close> keeps the low 32 bits
  of the block number. The digest has at least four bytes.\<close>

type_synonym i64 = "64 word"

definition byte_at :: "nat \<Rightarrow> string \<Rightarrow> i64" where
  "byte_at i h = of_nat (of_char (h ! i))"

definition hash_input :: "string \<Rightarrow> string \<Rightarrow> int \<Rightarrow> string" where
  "hash_input op pk nanos = op @ '':'' @ pk @ '':'' @ decZ nanos"

definition hashInt :: "string \<Rightarrow> i64" where
  "hashInt h = or (or (or (push_bit 24 (byte_at 0 h)) (push_bit 16 (byte_at 1 h))) (push_bit 8 (byte_at 2 h))) (byte_at 3 h)"

definition generateHistoryID :: "(string \<Rightarrow> string) \<Rightarrow> int \<Rightarrow> u64 \<Rightarrow> string \<Rightarrow> string \<Rightarrow> i64" where
  "generateHistoryID sha256 nanos blockNum op pk =
     or (push_bit 32 blockNum) (and (hashInt (sha256 (hash_input op pk nanos))) 0xFFFFFFFF)"

text \<open>\<open>%d\<close> of an \<open>int64\<close>\<close>

definition dec_i64 :: "i64 \<Rightarrow> string" where
  "dec_i64 n = decZ (sint n)"

definition rw_saveInsert :: "i64 \<Rightarrow> Dialect \<Rightarrow> string \<Rightarrow> string \<Rightarrow> string gomap \<Rightarrow> u64 \<Rightarrow> string" where
  "rw_saveInsert hid d schema table primaryKey blockNum =
     ''INSERT INTO '' @ historyTable d schema @ '' (id,op,table_name,pk,block_num) values (''
     @ dec_i64 hid @ '','' @ escapeStringValue ''I'' @ '','' @ escapeStringValue table @ '',''
     @ escapeStringValue (primaryKeyToJSON primaryKey) @ '','' @ dec64 blockNum @ '');''"

definition rw_saveUpsert :: "i64 \<Rightarrow> Dialect \<Rightarrow> string \<Rightarrow> string \<Rightarrow> string gomap \<Rightarrow> u64 \<Rightarrow> string" where
  "rw_saveUpsert hid d schema escapedTableName primaryKey blockNum =
     (let schemaAndTable = EscapeIdentifier schema @ ''.'' @ escapedTableName;
          nl = [CHR 0x0A, CHR 0x09, CHR 0x09] in
      nl @ ''WITH t as (select '' @ getPrimaryKeyFakeEmptyValues primaryKey @ '')''
      @ nl @ ''INSERT INTO '' @ historyTable d schema @ '' (id,op,table_name,pk,prev_value,block_num)''
      @ nl @ ''SELECT '' @ dec_i64 hid @ '', CASE WHEN '' @ getPrimaryKeyFakeEmptyValuesAssertion primaryKey escapedTableName
      @ '' THEN '' @ [CHR 0x27] @ ''I'' @ [CHR 0x27] @ '' ELSE '' @ [CHR 0x27] @ ''U'' @ [CHR 0x27] @ '' END AS op, ''
      @ escapeStringValue schemaAndTable @ '', '' @ escapeStringValue (primaryKeyToJSON primaryKey)
      @ '', to_jsonb('' @ escapedTableName @ ''),'' @ dec64 blockNum @ '' from t left join ''
      @ EscapeIdentifier schema @ ''.'' @ escapedTableName @ '' on ''
      @ getPrimaryKeyWhereClause primaryKey escapedTableName @ '';'')"

definition rw_saveRow :: "i64 \<Rightarrow> Dialect \<Rightarrow> string \<Rightarrow> string \<Rightarrow> string \<Rightarrow> string gomap \<Rightarrow> u64 \<Rightarrow> string" where
  "rw_saveRow hid d op schema escapedTableName primaryKey blockNum =
     (let schemaAndTable = EscapeIdentifier schema @ ''.'' @ escapedTableName in
      ''INSERT INTO '' @ historyTable d schema @ '' (id,op,table_name,pk,prev_value,block_num) SELECT ''
      @ dec_i64 hid @ '','' @ escapeStringValue op @ '','' @ escapeStringValue schemaAndTable @ '',''
      @ escapeStringValue (primaryKeyToJSON primaryKey) @ '',to_jsonb('' @ escapedTableName @ ''),''
      @ dec64 blockNum @ '' FROM '' @ EscapeIdentifier schema @ ''.'' @ escapedTableName
      @ '' WHERE '' @ getPrimaryKeyWhereClause primaryKey [] @ '';'')"

text \<open>The identifier is made for the letter of the operation; an upsert's is made for \<open>U\<close>.\<close>

definition rw_history :: "(u64 \<Rightarrow> string \<Rightarrow> string \<Rightarrow> i64) \<Rightarrow> Dialect \<Rightarrow> string \<Rightarrow> Operation \<Rightarrow> u64 \<Rightarrow> string" where
  "rw_history genID d schema oper b =
     (let pk = op_primaryKey oper; table = op_table oper; key = primaryKeyToJSON pk in
      case op_type oper of
        OperationTypeInsert \<Rightarrow> rw_saveInsert (genID b ''I'' key) d schema (tidentifier table) pk b
      | OperationTypeUpsert \<Rightarrow> rw_saveUpsert (genID b ''U'' key) d schema (nameEscaped table) pk b
      | OperationTypeUpdate \<Rightarrow> rw_saveRow (genID b ''U'' key) d ''U'' schema (nameEscaped table) pk b
      | OperationTypeDelete \<Rightarrow> rw_saveRow (genID b ''D'' key) d ''D'' schema (nameEscaped table) pk b)"

section \<open>Statements\<close>

text \<open>An upsert is a plain insert: the tables are created with \<open>ON CONFLICT OVERWRITE\<close>.\<close>

definition rw_prepareStatement ::
    "(u64 \<Rightarrow> string \<Rightarrow> string \<Rightarrow> i64) \<Rightarrow> Dialect \<Rightarrow> string \<Rightarrow> Operation \<Rightarrow> string res" where
  "rw_prepareStatement genID d schema oper =
     (let table = op_table oper; ident = tidentifier table; pk = op_primaryKey oper in
      case (if has_columns (op_type oper)
            then wrap_err ''preparing column & values'' [] (rw_prepareColValues table (op_data oper))
            else Inr ([], [])) of
        Inl e \<Rightarrow> Inl e
      | Inr (columns, vals) \<Rightarrow>
        if op_type oper \<noteq> OperationTypeInsert \<and> map_of pk [] \<noteq> None
        then Inl (Errorf ''trying to perform %s operation but table %q don't have a primary key set, this is not accepted''
                    [AStr (opType_string (op_type oper)), AStr (tname table)])
        else
        (let q = (case op_type oper of
           OperationTypeInsert \<Rightarrow>
             ''INSERT INTO '' @ ident @ '' ('' @ joinS '','' columns @ '') VALUES ('' @ joinS '','' vals @ '');''
         | OperationTypeUpsert \<Rightarrow>
             ''INSERT INTO '' @ ident @ '' ('' @ joinS '','' columns @ '') VALUES ('' @ joinS '','' vals @ '');''
         | OperationTypeUpdate \<Rightarrow>
             ''UPDATE '' @ ident @ '' SET '' @ joinS '', '' (map (\<lambda>(c, v). c @ ''='' @ v) (zip columns vals))
             @ '' WHERE '' @ getPrimaryKeyWhereClause pk []
         | OperationTypeDelete \<Rightarrow> ''DELETE FROM '' @ ident @ '' WHERE '' @ getPrimaryKeyWhereClause pk []) in
         case op_reversibleBlockNum oper of
           Some b \<Rightarrow> Inr (rw_history genID d schema oper b @ q)
         | None \<Rightarrow> Inr q))"

section \<open>Flush and revert\<close>

text \<open>The tables in the order of their first change, and the rows of a table likewise: there is no
  sorting. The clock is read once for each statement, so it is a function of the operation.\<close>

fun rw_flush_tables ::
    "'s Tx \<Rightarrow> (Operation \<Rightarrow> string res) \<Rightarrow> Operation omap omap \<Rightarrow> nat \<Rightarrow> 's \<Rightarrow> nat res \<times> 's" where
  "rw_flush_tables tx prep [] rowCount s = (Inr rowCount, s)"
| "rw_flush_tables tx prep ((tableName, es) # rest) rowCount s =
     (case flush_ops ''executing query %q'' tx prep (map snd es) 0 s of
        (Inl e, s') \<Rightarrow> (Inl e, s')
      | (Inr _, s') \<Rightarrow> rw_flush_tables tx prep rest (rowCount + length es) s')"

definition rw_Flush ::
    "(string \<Rightarrow> string) \<Rightarrow> (Operation \<Rightarrow> int) \<Rightarrow> Dialect \<Rightarrow> 's Tx \<Rightarrow> Loader \<Rightarrow> u64 \<Rightarrow> 's \<Rightarrow> int res \<times> 's" where
  "rw_Flush sha256 now d tx l lastFinalBlock s =
     (case rw_flush_tables tx (\<lambda>oper. rw_prepareStatement (generateHistoryID sha256 (now oper)) d (schemaName d) oper)
             (entries l) 0 s of
        (Inl e, s1) \<Rightarrow> (Inl e, s1)
      | (Inr rowCount, s1) \<Rightarrow>
          (case pruneReversibleSegment d tx (schemaName d) lastFinalBlock s1 of
             (Some e, s2) \<Rightarrow> (Inl e, s2)
           | (None, s2) \<Rightarrow> (Inr (int rowCount), s2)))"

text \<open>The dialect undoes a row with the statements of \<open>Flush\<close>, on \<open>jsonb\<close> values.\<close>

definition rw_revertQuery :: "string \<Rightarrow> string \<Rightarrow> string \<Rightarrow> string \<Rightarrow> (string res) option" where
  "rw_revertQuery = revertQuery ''jsonb_populate_record''"

definition rw_Revert :: "Dialect \<Rightarrow> 's Tx \<Rightarrow> u64 \<Rightarrow> 's \<Rightarrow> Outcome \<times> 's" where
  "rw_Revert = revertWith ''jsonb_populate_record''"

definition rw_GetUpdateCursorQuery :: "(string \<Rightarrow> string) \<Rightarrow> string \<Rightarrow> string \<Rightarrow> Cursor \<Rightarrow> string" where
  "rw_GetUpdateCursorQuery dedent table moduleHash c =
     query dedent ([CHR 0x0A, CHR 0x09, CHR 0x09] @ ''UPDATE %s set '' @ [CHR 0x22] @ ''cursor'' @ [CHR 0x22] @ '' = ''
       @ [CHR 0x27] @ ''%s'' @ [CHR 0x27]
       @ '', block_num = %d, block_id = '' @ [CHR 0x27] @ ''%s'' @ [CHR 0x27] @ '' WHERE id = ''
       @ [CHR 0x27] @ ''%s'' @ [CHR 0x27] @ '';'' @ [CHR 0x0A, CHR 0x09])
     [table, c_string c, dec64 (c_num c), c_id c, moduleHash]"

definition rw_CreateUser :: "'s Tx \<Rightarrow> string \<Rightarrow> string \<Rightarrow> string \<Rightarrow> bool \<Rightarrow> 's \<Rightarrow> GoErr option \<times> 's" where
  "rw_CreateUser tx username password database readOnly s =
     (let q = pg_createUserQuery username password database readOnly in
      case tx_Exec tx q s of
        (Inl e, s') \<Rightarrow> (Some (Wrapf ''executing query %q'' [AStr q] e), s')
      | (Inr _, s') \<Rightarrow> (None, s'))"

definition rw_iface :: "(string \<Rightarrow> string) \<Rightarrow> (Operation \<Rightarrow> int) \<Rightarrow> Dialect \<Rightarrow> (string \<Rightarrow> string) \<Rightarrow> 's DialectI" where
  "rw_iface sha256 now d dedent =
     \<lparr>di_Flush = rw_Flush sha256 now d, di_Revert = rw_Revert d,
      di_GetUpdateCursorQuery = rw_GetUpdateCursorQuery dedent,
      di_GetAllCursorsQuery = pg_GetAllCursorsQuery, di_CreateUser = rw_CreateUser,
      di_DriverSupportRowsAffected = DriverSupportRowsAffected d, di_OnlyInserts = OnlyInserts d\<rparr>"

section \<open>What a flush does without transactions\<close>

lemma execs_append: "execs tx (qs @ qs') s = execs tx qs' (execs tx qs s)"
  by (simp add: execs_def)

lemma flush_ops_execs:
  "flush_ops msg tx prep ops n s = (r, s') \<Longrightarrow>
   \<exists>k qs. k \<le> length ops \<and> traverse prep (take k ops) = Inr qs \<and> s' = execs tx qs s
     \<and> (\<forall>m. r = Inr m \<longrightarrow> k = length ops \<and> m = n + length ops)"
proof (induction ops arbitrary: n s)
  case Nil
  then show ?case by (auto simp: execs_def)
next
  case (Cons oper ops)
  show ?case
  proof (cases "prep oper")
    case (Inl e)
    then show ?thesis using Cons.prems by (intro exI [of _ 0] exI [of _ "[]"]) (auto simp: execs_def)
  next
    case (Inr q)
    obtain x s1 where x: "tx_Exec tx q s = (x, s1)" by fastforce
    show ?thesis
    proof (cases x)
      case (Inl e)
      then show ?thesis using Cons.prems Inr x by (intro exI [of _ 1] exI [of _ "[q]"]) (auto simp: execs_def)
    next
      case (Inr res)
      then have "flush_ops msg tx prep ops (n + 1) s1 = (r, s')" using Cons.prems \<open>prep oper = Inr q\<close> x by simp
      from Cons.IH [OF this] obtain k qs where "k \<le> length ops" "traverse prep (take k ops) = Inr qs"
        "s' = execs tx qs s1" "\<forall>m. r = Inr m \<longrightarrow> k = length ops \<and> m = n + 1 + length ops" by blast
      then show ?thesis using \<open>prep oper = Inr q\<close> x
        by (intro exI [of _ "Suc k"] exI [of _ "q # qs"]) (auto simp: execs_def)
    qed
  qed
qed

lemma flush_ops_append:
  "flush_ops msg tx prep (xs @ ys) n s =
     (case flush_ops msg tx prep xs n s of (Inl e, s') \<Rightarrow> (Inl e, s') | (Inr m, s') \<Rightarrow> flush_ops msg tx prep ys m s')"
  by (induction xs arbitrary: n s) (auto split: sum.splits prod.splits)

lemma flush_ops_count:
  "flush_ops msg tx prep xs n s =
     (case flush_ops msg tx prep xs 0 s of (Inl e, s') \<Rightarrow> (Inl e, s') | (Inr m, s') \<Rightarrow> (Inr (n + length xs), s'))"
proof (induction xs arbitrary: n s)
  case (Cons x xs)
  show ?case
  proof (cases "prep x")
    case (Inr q)
    obtain y s1 where y: "tx_Exec tx q s = (y, s1)" by fastforce
    show ?thesis
    proof (cases y)
      case (Inr res)
      show ?thesis using Cons.IH [of "n + 1" s1] Cons.IH [of "0 + 1" s1]
        by (simp add: \<open>prep x = Inr q\<close> y Inr split: prod.split sum.split)
    qed (simp add: Inr y)
  qed simp
qed simp

lemma rw_flush_tables_flat:
  "rw_flush_tables tx prep es n s = flush_ops ''executing query %q'' tx prep (concat (map (\<lambda>(_, es). map snd es) es)) n s"
proof (induction es arbitrary: n s)
  case (Cons te es)
  obtain t e where te: "te = (t, e)" by fastforce
  show ?case unfolding te rw_flush_tables.simps list.map concat.simps prod.case flush_ops_append
    by (subst (2) flush_ops_count) (auto simp: Cons.IH split: sum.splits prod.splits)
qed simp

lemma pruneReversibleSegment_execs:
  "snd (pruneReversibleSegment d tx schema b s) = execs tx [pruneReversibleQuery d schema b] s"
  by (auto simp: pruneReversibleSegment_def execs_def Let_def split: prod.splits sum.splits)

lemma UpdateCursor_execs:
  "snd (UpdateCursor di l tx h c s) = execs tx [di_GetUpdateCursorQuery di (cursor_identifier l) h c] s"
  by (auto simp: UpdateCursor_def runModifiyQuery_def execs_def split: prod.splits sum.splits)

text \<open>A flush of this dialect: a part of the statements in the order of the tables, from the start,
  then the pruning when all were executed\<close>

definition rw_texts ::
    "(string \<Rightarrow> string) \<Rightarrow> (Operation \<Rightarrow> int) \<Rightarrow> Dialect \<Rightarrow> Operation \<Rightarrow> string res" where
  "rw_texts sha256 now d oper = rw_prepareStatement (generateHistoryID sha256 (now oper)) d (schemaName d) oper"

lemma rw_Flush_execs:
  assumes "rw_Flush sha256 now d tx l final s = (r, s')"
  shows "\<exists>k qs t. k \<le> length (allOperations l) \<and> traverse (rw_texts sha256 now d) (take k (allOperations l)) = Inr qs
     \<and> s' = execs tx (qs @ take t [pruneReversibleQuery d (schemaName d) final]) s
     \<and> (t \<noteq> 0 \<longrightarrow> k = length (allOperations l)) \<and> (is_ok r \<longrightarrow> k = length (allOperations l) \<and> t = 1 \<and> r = Inr (int k))"
proof -
  let ?prep = "rw_texts sha256 now d"
  obtain x s1 where x: "flush_ops ''executing query %q'' tx ?prep (allOperations l) 0 s = (x, s1)" by fastforce
  then have run: "rw_flush_tables tx (\<lambda>oper. rw_prepareStatement (generateHistoryID sha256 (now oper)) d (schemaName d) oper)
      (entries l) 0 s = (x, s1)"
    unfolding rw_flush_tables_flat allOperations_def rw_texts_def [abs_def] .
  from flush_ops_execs [OF x] obtain k qs where k: "k \<le> length (allOperations l)"
    "traverse ?prep (take k (allOperations l)) = Inr qs" "s1 = execs tx qs s"
    "\<forall>m. x = Inr m \<longrightarrow> k = length (allOperations l) \<and> m = 0 + length (allOperations l)" by blast
  show ?thesis
  proof (cases x)
    case (Inl e)
    then have "r = Inl e" "s' = s1" using assms run by (simp_all add: rw_Flush_def)
    then show ?thesis using k by (intro exI [of _ k] exI [of _ qs] exI [of _ 0]) simp
  next
    case (Inr m)
    obtain y s2 where y: "pruneReversibleSegment d tx (schemaName d) final s1 = (y, s2)" by fastforce
    have "s2 = execs tx [pruneReversibleQuery d (schemaName d) final] s1"
      using pruneReversibleSegment_execs [of d tx "schemaName d" final s1] by (simp add: y)
    then have "s2 = execs tx (qs @ [pruneReversibleQuery d (schemaName d) final]) s"
      by (simp add: k(3) execs_append)
    moreover have "s' = s2" "is_ok r \<longrightarrow> r = Inr (int m)"
      using assms run Inr y by (auto simp: rw_Flush_def split: option.splits)
    ultimately show ?thesis using k Inr by (intro exI [of _ k] exI [of _ qs] exI [of _ 1]) simp
  qed
qed

section \<open>Identifiers of history rows\<close>

lemma generateHistoryID_parts:
  "drop_bit 32 (generateHistoryID sha256 nanos b op pk) = take_bit 32 b"
  "take_bit 32 (generateHistoryID sha256 nanos b op pk) = take_bit 32 (hashInt (sha256 (hash_input op pk nanos)))"
proof -
  have mask: "(0xFFFFFFFF :: 64 word) = mask 32" by (simp add: mask_eq_exp_minus_1)
  show "drop_bit 32 (generateHistoryID sha256 nanos b op pk) = take_bit 32 b"
    unfolding generateHistoryID_def mask
    by (rule bit_word_eqI) (auto simp: bit_simps)
  show "take_bit 32 (generateHistoryID sha256 nanos b op pk) = take_bit 32 (hashInt (sha256 (hash_input op pk nanos)))"
    unfolding generateHistoryID_def mask
    by (rule bit_word_eqI) (auto simp: bit_simps)
qed

lemma split_eq_iff: "(x :: 64 word) = y \<longleftrightarrow> drop_bit 32 x = drop_bit 32 y \<and> take_bit 32 x = take_bit 32 y"
  by (metis bits_ident)

end
