(* ===== verification/DialectProperties.thy ===== *)
theory DialectProperties
  imports RwDialect ChangesProperties
begin

text \<open>
  The properties of the other dialects of \<open>src/db_changes/db\<close>: RisingWave, which has no transactions,
  and ClickHouse, which only inserts.
\<close>

section \<open>RisingWave\<close>

text \<open>
  C18. A flush to RisingWave is not atomic: whatever it returns, the statements that were executed
  before an error stay executed (nothing is rolled back), they are a part from the start of the
  statements of the batch, table by table, and then the pruning and the cursor; the batch is emptied
  exactly when all succeeded, so a retry executes the same statements again.
\<close>

theorem rw_flush_is_not_atomic:
  assumes "driver (ldsn l) = ''risingwave''"
    "Loader_Flush db None (rw_iface sha256 now d dedent) l h c final s = (r, l', s')"
  shows "\<exists>k qs t. k \<le> length (allOperations l) \<and> traverse (rw_texts sha256 now d) (take k (allOperations l)) = Inr qs
     \<and> s' = execs (RisingWaveAutocommitTx db)
         (qs @ take t [pruneReversibleQuery d (schemaName d) final, rw_GetUpdateCursorQuery dedent (cursor_identifier l) h c]) s
     \<and> (t \<noteq> 0 \<longrightarrow> k = length (allOperations l))
     \<and> (if is_ok r then k = length (allOperations l) \<and> t = 2 \<and> r = Inr (int k + 1) \<and> l' = reset l else l' = l)"
proof -
  let ?tx = "RisingWaveAutocommitTx db" and ?di = "rw_iface sha256 now d dedent"
  have begin_: "BeginTx db None l s = (Inr ?tx, s)" using assms(1) by (simp add: BeginTx_def)
  have rb: "rollback_on ?tx x = x" "tx_Commit ?tx x = (None, x)" for x
    by (simp_all add: rollback_on_def RisingWaveAutocommitTx_def)
  have di: "di_Flush ?di = rw_Flush sha256 now d" "di_GetUpdateCursorQuery ?di = rw_GetUpdateCursorQuery dedent"
    by (simp_all add: rw_iface_def)
  obtain x s1 where x: "rw_Flush sha256 now d ?tx l final s = (x, s1)" by fastforce
  from rw_Flush_execs [OF x] obtain k qs t where k: "k \<le> length (allOperations l)"
    "traverse (rw_texts sha256 now d) (take k (allOperations l)) = Inr qs"
    "s1 = execs ?tx (qs @ take t [pruneReversibleQuery d (schemaName d) final]) s"
    "t \<noteq> 0 \<longrightarrow> k = length (allOperations l)"
    "is_ok x \<longrightarrow> k = length (allOperations l) \<and> t = 1 \<and> x = Inr (int k)" by blast
  have le: "take (min t 1) (a # rest) = take t [a]" for a :: string and rest
    by (cases t) auto
  show ?thesis
  proof (cases x)
    case (Inl e)
    then have "r = Inl (Wrapf ''dialect flush'' [] e)" "l' = l" "s' = s1"
      using assms(2) begin_ x by (simp_all add: Loader_Flush_def di rb)
    then show ?thesis using k le by (intro exI [of _ k] exI [of _ qs] exI [of _ "min t 1"]) (auto simp: min_def)
  next
    case (Inr m)
    then have k': "k = length (allOperations l)" "t = 1" "m = int k" using k(5) by auto
    obtain y s2 where y: "UpdateCursor ?di l ?tx h c s1 = (y, s2)" by fastforce
    have "s2 = execs ?tx [rw_GetUpdateCursorQuery dedent (cursor_identifier l) h c] s1"
      using UpdateCursor_execs [of ?di l ?tx h c s1] by (simp add: y di)
    then have s2: "s2 = execs ?tx (qs @ take 2 [pruneReversibleQuery d (schemaName d) final,
        rw_GetUpdateCursorQuery dedent (cursor_identifier l) h c]) s"
      using k(3) k'(2) by (simp add: execs_append [of ?tx _ "[_]", symmetric])
    have out: "s' = s2" "if y = None then r = Inr (m + 1) \<and> l' = reset l else \<not> is_ok r \<and> l' = l"
      using assms(2) begin_ x Inr y by (auto simp: Loader_Flush_def di rb split: option.splits)
    show ?thesis using out s2 k' k(1,2) by (intro exI [of _ k] exI [of _ qs] exI [of _ 2]) (auto split: if_splits)
  qed
qed

definition ex_rw :: Dialect where
  "ex_rw = NewRisingwaveDialect ''public'' ''cursors'' ''substreams_history''"

definition ex_rw_loader :: Loader where
  "ex_rw_loader = ex_loader\<lparr>ldsn := ex_dsn\<lparr>driver := ''risingwave''\<rparr>, dialect := ex_rw\<rparr>"

definition ex_rw_batch :: Loader where
  "ex_rw_batch = fold (\<lambda>c l. snd (apply_change l ''xfer'' c))
     [CDelete (ex_key ''a'') None, CDelete (ex_key ''b'') None] ex_rw_loader"

text \<open>A connection that refuses its second statement\<close>

definition ex_second_fails :: "string list Db" where
  "ex_second_fails = \<lparr>db_Begin = (\<lambda>s. (Inl (Errorf ''no transactions'' []), s)),
     db_Exec = (\<lambda>q s. if length s = 1 then (Inl (Errorf ''lost'' []), s) else (Inr (Inr 1), s @ [q])),
     db_Query = (\<lambda>q s. (Inr None, s)), db_QueryCursors = (\<lambda>q s. (Inr \<lparr>r_rows = [], r_err = None\<rparr>, s))\<rparr>"

theorem rw_flush_is_not_atomic_witness:
  "\<exists>e. Loader_Flush ex_second_fails None (rw_iface id (\<lambda>_. 0) ex_rw id) ex_rw_batch ''m'' (ex_cursor ''c'' 5) 4 []
     = (Inl e, ex_rw_batch, [''DELETE FROM '' @ tidentifier ex_table @ '' WHERE '' @ getPrimaryKeyWhereClause (ex_key ''a'') []])"
proof -
  let ?F = "Loader_Flush ex_second_fails None (rw_iface id (\<lambda>_. 0) ex_rw id) ex_rw_batch ''m'' (ex_cursor ''c'' 5) 4 []"
  have F: "\<not> is_ok (fst ?F)" "driver (ldsn ex_rw_batch) = ''risingwave''"
    "snd (snd ?F) = [''DELETE FROM '' @ tidentifier ex_table @ '' WHERE '' @ getPrimaryKeyWhereClause (ex_key ''a'') []]"
    by code_simp+
  obtain e l' s' where e: "?F = (Inl e, l', s')" using F(1) by (cases ?F; cases "fst ?F") auto
  from rw_flush_is_not_atomic [OF F(2) e] have "l' = ex_rw_batch" by auto
  with e F(3) show ?thesis by simp
qed

text \<open>
  The identifier of a history row of RisingWave holds the block number modulo 2^32 in its high
  half and four bytes of the hash in its low half: rows of blocks that differ modulo 2^32 never
  have the same identifier, and two other rows have it exactly when these bytes agree.
\<close>

theorem rw_history_ids:
  "generateHistoryID sha256 n b op pk = generateHistoryID sha256 n' b' op' pk' \<longleftrightarrow>
     unat b mod 2 ^ 32 = unat b' mod 2 ^ 32
     \<and> take_bit 32 (hashInt (sha256 (hash_input op pk n))) = take_bit 32 (hashInt (sha256 (hash_input op' pk' n')))"
proof -
  have "take_bit 32 b = take_bit 32 b' \<longleftrightarrow> unat b mod 2 ^ 32 = unat b' mod 2 ^ 32"
    by (simp add: word_unat_eq_iff unsigned_take_bit_eq take_bit_eq_mod [where 'a = nat])
  then show ?thesis by (subst split_eq_iff) (simp only: generateHistoryID_parts)
qed

end
