(* ===== verification/ChDialect.thy ===== *)
theory ChDialect
  imports FlushFacts
begin

text \<open>
  The ClickHouse dialect (\<open>src/db_changes/db/dialect_clickhouse.go\<close>): the conversion of the texts
  of a change into the Go values the driver inserts, and the flush, one transaction per table.
  A method that may panic returns \<open>None\<close> for the panic. \<open>strconv.ParseFloat\<close> (IEEE arithmetic) and the
  decoding of array elements that are structures are parameters.
\<close>

section \<open>Values\<close>

text \<open>What \<open>any\<close> holds: a Go value with its dynamic type. A \<open>big.Int\<close> whose \<open>SetString\<close> failed
  has no defined value.\<close>

datatype 'f Val =
    VBool bool | VInt RType int | VFloat64 'f | VString string
  | VSlice RType "'f Val list" | VBig "int option" | VPtr RType "'f Val" | VNilPtr RType | VAny Json | VOther RType 'f

fun type_of :: "'f Val \<Rightarrow> RType" where
  "type_of (VBool b) = RBool"
| "type_of (VInt t n) = t"
| "type_of (VFloat64 x) = RFloat64"
| "type_of (VString s) = RString"
| "type_of (VSlice t vs) = RSlice t"
| "type_of (VBig n) = RStruct ''big.Int''"
| "type_of (VPtr t v) = RPtr t"
| "type_of (VNilPtr t) = RPtr t"
| "type_of (VAny j) = RInterface"
| "type_of (VOther t x) = t"

text \<open>\<open>reflect.Value.Set\<close> panics unless the value is assignable to the type: the same type, any
  value to an interface, or a value of a type without a name to a defined type that has it as its underlying
  type.\<close>

fun unnamed_type :: "RType \<Rightarrow> bool" where
  "unnamed_type (RSlice t) = True" | "unnamed_type (RPtr t) = True" | "unnamed_type (RArray n t) = True"
| "unnamed_type (RMap k t) = True" | "unnamed_type _ = False"

definition assignable :: "RType \<Rightarrow> RType \<Rightarrow> bool" where
  "assignable from to \<longleftrightarrow> from = to \<or> to = RInterface
     \<or> (case to of RNamed n t \<Rightarrow> t = from \<and> unnamed_type from | _ \<Rightarrow> False)"

text \<open>The integer types: their width and whether they are signed. \<open>int\<close> and \<open>uint\<close> have 64 bits.\<close>

fun int_width :: "RType \<Rightarrow> (bool \<times> nat) option" where
  "int_width RInt = Some (True, 64)" | "int_width RInt8 = Some (True, 8)"
| "int_width RInt16 = Some (True, 16)" | "int_width RInt32 = Some (True, 32)"
| "int_width RInt64 = Some (True, 64)" | "int_width RUint = Some (False, 64)"
| "int_width RUint8 = Some (False, 8)" | "int_width RUint16 = Some (False, 16)"
| "int_width RUint32 = Some (False, 32)" | "int_width RUint64 = Some (False, 64)"
| "int_width _ = None"

definition in_width :: "bool \<times> nat \<Rightarrow> int \<Rightarrow> bool" where
  "in_width w n = (case w of
     (True, b) \<Rightarrow> - (2 ^ (b - 1)) \<le> n \<and> n < 2 ^ (b - 1) | (False, b) \<Rightarrow> 0 \<le> n \<and> n < 2 ^ b)"

text \<open>\<open>ParseInt\<close> or \<open>ParseUint\<close> at the width of the type\<close>

definition parse_int_type :: "RType \<Rightarrow> bool \<times> nat \<Rightarrow> string \<Rightarrow> 'f Val res" where
  "parse_int_type t w s =
     (case w of
        (True, b) \<Rightarrow> (case ParseInt b s of (n, None) \<Rightarrow> Inr (VInt t n) | (_, Some e) \<Rightarrow> Inl e)
      | (False, b) \<Rightarrow> (case ParseUint b s of (n, None) \<Rightarrow> Inr (VInt t (int n)) | (_, Some e) \<Rightarrow> Inl e))"

definition ParseBool :: "string \<Rightarrow> bool res" where
  "ParseBool s =
     (if s \<in> {''1'', ''t'', ''T'', ''true'', ''TRUE'', ''True''} then Inr True
      else if s \<in> {''0'', ''f'', ''F'', ''false'', ''FALSE'', ''False''} then Inr False
      else Inl ErrSyntax)"

text \<open>\<open>big.Int.SetString(value, 10)\<close>: an optional sign and decimal digits\<close>

definition big_SetString :: "string \<Rightarrow> int option" where
  "big_SetString s =
     (let neg = (s \<noteq> [] \<and> hd s = CHR ''-''); body = (if s \<noteq> [] \<and> (hd s = CHR ''-'' \<or> hd s = CHR ''+'') then tl s else s)
      in if body = [] \<or> \<not> list_all is_digit body then None
         else Some (if neg then - int (undec body) else int (undec body)))"

section \<open>Arrays\<close>

text \<open>Standard base64 with padding, line breaks ignored: a text decoded into a slice of bytes\<close>

definition b64_val :: "char \<Rightarrow> nat option" where
  "b64_val c =
     (if CHR ''A'' \<le> c \<and> c \<le> CHR ''Z'' then Some (of_char c - 65)
      else if CHR ''a'' \<le> c \<and> c \<le> CHR ''z'' then Some (of_char c - 71)
      else if is_digit c then Some (of_char c + 4)
      else if c = CHR ''+'' then Some 62 else if c = CHR 0x2F then Some 63 else None)"

fun b64_decode :: "string \<Rightarrow> nat list option" where
  "b64_decode [] = Some []"
| "b64_decode (a # b # c # d # s) =
     (case (b64_val a, b64_val b, b64_val c, b64_val d) of
        (Some w, Some x, Some y, Some z) \<Rightarrow>
          map_option (\<lambda>r. [w * 4 + x div 16, x mod 16 * 16 + y div 4, y mod 4 * 64 + z] @ r) (b64_decode s)
      | (Some w, Some x, Some y, None) \<Rightarrow>
          if d = CHR ''='' \<and> s = [] then Some [w * 4 + x div 16, x mod 16 * 16 + y div 4] else None
      | (Some w, Some x, None, None) \<Rightarrow>
          if c = CHR ''='' \<and> d = CHR ''='' \<and> s = [] then Some [w * 4 + x div 16] else None
      | _ \<Rightarrow> None)"
| "b64_decode _ = None"

definition unmarshal_error :: "RType \<Rightarrow> GoErr" where
  "unmarshal_error t = Errorf ''json: cannot unmarshal into Go value of type %s'' [AStr (kind_string t)]"

text \<open>The zero value of a type, which \<open>null\<close> leaves in an element\<close>

fun zero_val :: "(RType \<Rightarrow> 'f) \<Rightarrow> RType \<Rightarrow> 'f Val" where
  "zero_val zero RBool = VBool False"
| "zero_val zero RString = VString []"
| "zero_val zero (RSlice t) = VSlice t []"
| "zero_val zero (RPtr t) = VNilPtr t"
| "zero_val zero RInterface = VAny JNull"
| "zero_val zero t = (if int_width t \<noteq> None then VInt t 0 else VOther t (zero t))"

text \<open>\<open>json.Unmarshal\<close> into a slice or an element of one. \<open>null\<close> leaves the zero value. A number goes to an
  integer type when it is an integer of its width. \<open>other\<close> decodes into the types that are not
  described here: floating point numbers, \<open>time.Time\<close> and other structures inside nested arrays.\<close>

function json_into :: "(RType \<Rightarrow> 'f) \<Rightarrow> (RType \<Rightarrow> Json \<Rightarrow> 'f res) \<Rightarrow> RType \<Rightarrow> Json \<Rightarrow> 'f Val res" where
  "json_into zero other t j =
     (if j = JNull then Inr (zero_val zero t)
      else case t of
        RInterface \<Rightarrow> if numbers_fit j then Inr (VAny j) else Inl (unmarshal_error RFloat64)
      | RBool \<Rightarrow> (case j of JBool b \<Rightarrow> Inr (VBool b) | _ \<Rightarrow> Inl (unmarshal_error t))
      | RString \<Rightarrow> (case j of JStr s \<Rightarrow> Inr (VString s) | _ \<Rightarrow> Inl (unmarshal_error t))
      | RPtr u \<Rightarrow> (case json_into zero other u j of Inl e \<Rightarrow> Inl e | Inr v \<Rightarrow> Inr (VPtr u v))
      | RSlice u \<Rightarrow>
          (case j of
             JArr js \<Rightarrow> (case traverse (json_into zero other u) js of Inl e \<Rightarrow> Inl e | Inr vs \<Rightarrow> Inr (VSlice u vs))
           | JStr s \<Rightarrow>
               if u \<noteq> RUint8 then Inl (unmarshal_error t)
               else (case b64_decode (filter (\<lambda>c. c \<noteq> CHR 0x0A \<and> c \<noteq> CHR 0x0D) s) of
                       None \<Rightarrow> Inl (Errorf ''illegal base64 data'' [])
                     | Some bs \<Rightarrow> Inr (VSlice u (map (\<lambda>b. VInt RUint8 (int b)) bs)))
           | _ \<Rightarrow> Inl (unmarshal_error t))
      | _ \<Rightarrow>
          (case int_width t of
             Some w \<Rightarrow>
               (case j of
                  JNum n \<Rightarrow> (case parse_int_type t w n of Inl e \<Rightarrow> Inl (unmarshal_error t) | Inr v \<Rightarrow> Inr v)
                | _ \<Rightarrow> Inl (unmarshal_error t))
           | None \<Rightarrow> (case other t j of Inl e \<Rightarrow> Inl e | Inr x \<Rightarrow> Inr (VOther t x))))"
  by pat_completeness auto

termination by (relation "measure (\<lambda>(_, _, t, _). size t)") auto

declare json_into.simps [simp del]

section \<open>Conversion\<close>

definition dateRegex :: "string \<Rightarrow> bool" where
  "dateRegex s \<longleftrightarrow> length s = 10 \<and> (\<forall>i < 10. if i = 4 \<or> i = 7 then s ! i = CHR ''-'' else is_digit (s ! i))"

text \<open>The layouts without a zone, and with the letter \<open>Z\<close> for it\<close>

definition no_zone :: "string \<Rightarrow> (int \<times> string) option" where
  "no_zone s = Some (0, s)"

definition zulu_zone :: "string \<Rightarrow> (int \<times> string) option" where
  "zulu_zone s = map_option (Pair 0) (skip_char (CHR ''Z'') s)"

definition convertToTime :: "string \<Rightarrow> 'f Val res" where
  "convertToTime value =
     (if integerRegex value
      then (case Atoi value of
              (i, Some e) \<Rightarrow> Inl (Wrapf ''could not convert %s to int'' [AStr value] e)
            | (i, None) \<Rightarrow> Inr (VInt RInt64 i))
      else
        let bad = Wrapf ''could not convert %s to time'' [AStr value] (Errorf ''parsing time'' []);
            unix = (\<lambda>r. case r of None \<Rightarrow> Inl bad | Some (sec, ns) \<Rightarrow> Inr (VInt RInt64 sec)) in
        if containsS ''T'' value \<and> hasSuffix ''Z'' value
        then unix (parse_layout (CHR ''T'') zulu_zone value)
        else if dateRegex value
        then (case parse_date value of
                None \<Rightarrow> Inl (Wrapf ''could not convert %s to date'' [AStr value] (Errorf ''parsing time'' []))
              | Some _ \<Rightarrow> Inr (VString value))
        else unix (parse_layout (CHR '' '') no_zone value))"

fun struct_or_ptr :: "RType \<Rightarrow> bool" where
  "struct_or_ptr RTime = True" | "struct_or_ptr (RStruct n) = True" | "struct_or_ptr (RPtr t) = True"
| "struct_or_ptr (RNamed n t) = struct_or_ptr t" | "struct_or_ptr _ = False"

fun convertToType ::
    "(RType \<Rightarrow> 'f) \<Rightarrow> (RType \<Rightarrow> Json \<Rightarrow> 'f res) \<Rightarrow> (string \<Rightarrow> 'f res) \<Rightarrow> string \<Rightarrow> RType \<Rightarrow> 'f Val res option" where
  "convertToType zero other parseFloat value RString = Some (Inr (VString value))"
| "convertToType zero other parseFloat value (RSlice t) = Some
     (if struct_or_ptr t then Inl (Errorf ''%q is not supported as Clickhouse Array type'' [AStr (kind_string t)])
      else case parse_json value of
        Inl e \<Rightarrow> Inl (Wrapf ''could not JSON unmarshal slice value %q'' [AStr value] e)
      | Inr j \<Rightarrow>
          (case json_into zero other (RSlice t) j of
             Inl e \<Rightarrow> Inl (Wrapf ''could not JSON unmarshal slice value %q'' [AStr value] e)
           | Inr v \<Rightarrow> Inr v))"
| "convertToType zero other parseFloat value RBool = Some
     (case ParseBool value of Inl e \<Rightarrow> Inl e | Inr b \<Rightarrow> Inr (VBool b))"
| "convertToType zero other parseFloat value RFloat32 = Some
     (case parseFloat value of Inl e \<Rightarrow> Inl e | Inr x \<Rightarrow> Inr (VFloat64 x))"
| "convertToType zero other parseFloat value RFloat64 = Some
     (case parseFloat value of Inl e \<Rightarrow> Inl e | Inr x \<Rightarrow> Inr (VFloat64 x))"
| "convertToType zero other parseFloat value RTime = Some (convertToTime value)"
| "convertToType zero other parseFloat value (RStruct n) = Some (Inl (Errorf ''unsupported struct type %s'' [AStr n]))"
| "convertToType zero other parseFloat value (RPtr t) =
     (if t = RStruct ''big.Int'' then Some (Inr (VPtr t (VBig (big_SetString value))))
      else case convertToType zero other parseFloat value t of
        None \<Rightarrow> None
      | Some (Inl e) \<Rightarrow> Some (Inl (Wrapf ''invalid pointer type'' [] e))
      | Some (Inr val) \<Rightarrow> if assignable (type_of val) t then Some (Inr (VPtr t val)) else None)"
| "convertToType zero other parseFloat value RInterface = Some (Inr (VString value))"
| "convertToType zero other parseFloat value (RArray n t) = Some (Inr (VString value))"
| "convertToType zero other parseFloat value (RMap k t) = Some (Inr (VString value))"
| "convertToType zero other parseFloat value (ROther k) = Some (Inr (VString value))"
| "convertToType zero other parseFloat value (RNamed n t) = convertToType zero other parseFloat value t"
| "convertToType zero other parseFloat value t = Some (parse_int_type t (the (int_width t)) value)"

text \<open>The values of a row, in the order of its column names; the first column that fails ends it.\<close>

fun convert_columns ::
    "(string \<Rightarrow> RType \<Rightarrow> 'f Val res option) \<Rightarrow> TableInfo \<Rightarrow> string gomap \<Rightarrow> string list \<Rightarrow> 'f Val list res option" where
  "convert_columns conv table data [] = Some (Inr [])"
| "convert_columns conv table data (v # vs) =
     (case map_of (columnsByName table) v of
        None \<Rightarrow> Some (Inl (Errorf ''cannot find column %q for table %q (valid columns are %q)''
                  [AStr v, AStr (tidentifier table), AStr (joinS '', '' (keys (columnsByName table)))]))
      | Some col \<Rightarrow>
          (case conv (getS data v) (scanType col) of
             None \<Rightarrow> None
           | Some (Inl e) \<Rightarrow> Some (Inl (Wrapf ''converting value %q to type %q in column %q''
                              [AStr (getS data v), AStr (kind_string (scanType col)), AStr v] e))
           | Some (Inr x) \<Rightarrow>
               (case convert_columns conv table data vs of
                  Some (Inr xs) \<Rightarrow> Some (Inr (x # xs))
                | r \<Rightarrow> r)))"

definition convertOpToClickhouseValues ::
    "(string \<Rightarrow> RType \<Rightarrow> 'f Val res option) \<Rightarrow> Operation \<Rightarrow> 'f Val list res option" where
  "convertOpToClickhouseValues conv oper =
     convert_columns conv (op_table oper) (op_data oper) (sort (keys (op_data oper)))"


section \<open>Flush\<close>

text \<open>What a flush uses of a connection, of a transaction and of a prepared insert\<close>

record ('f, 's) ChStmt =
  cs_Exec :: "'f Val list \<Rightarrow> 's \<Rightarrow> GoErr option \<times> 's"

record ('f, 's) ChTx =
  ct_Prepare :: "string \<Rightarrow> 's \<Rightarrow> (('f, 's) ChStmt) res \<times> 's"
  ct_Commit :: "'s \<Rightarrow> GoErr option \<times> 's"

record ('f, 's) ChDb =
  ch_Begin :: "'s \<Rightarrow> (('f, 's) ChTx) res \<times> 's"

definition ch_insertQuery :: "Dialect \<Rightarrow> string \<Rightarrow> TableInfo \<Rightarrow> string" where
  "ch_insertQuery d tableName info =
     ''INSERT INTO '' @ EscapeIdentifier (schemaName d) @ ''.'' @ EscapeIdentifier tableName
     @ '' ('' @ joinS '','' (sort (keys (columnsByName info))) @ '')''"

fun ch_exec_rows ::
    "(string \<Rightarrow> RType \<Rightarrow> 'f Val res option) \<Rightarrow> ('f, 's) ChStmt \<Rightarrow> Operation list \<Rightarrow> 's \<Rightarrow> Outcome \<times> 's" where
  "ch_exec_rows conv batch [] s = (Done, s)"
| "ch_exec_rows conv batch (entry # es) s =
     (case convertOpToClickhouseValues conv entry of
        None \<Rightarrow> (Panicked, s)
      | Some (Inl e) \<Rightarrow> (Fail (Wrapf ''failed to get values'' [] e), s)
      | Some (Inr vals) \<Rightarrow>
          (case cs_Exec batch vals s of
             (Some e, s') \<Rightarrow> (Fail (Wrapf ''executing for entry'' [] e), s')
           | (None, s') \<Rightarrow> ch_exec_rows conv batch es s'))"

text \<open>One table. A table the loader does not know is a nil dereference.\<close>

definition ch_flush_table ::
    "(string \<Rightarrow> RType \<Rightarrow> 'f Val res option) \<Rightarrow> Dialect \<Rightarrow> ('f, 's) ChDb \<Rightarrow> Loader \<Rightarrow> string \<Rightarrow> Operation omap
     \<Rightarrow> 's \<Rightarrow> Outcome \<times> 's" where
  "ch_flush_table conv d db l tableName es s =
     (case ch_Begin db s of
        (Inl e, s1) \<Rightarrow> (Fail (Errorf ''failed to begin db transaction'' []), s1)
      | (Inr tx, s1) \<Rightarrow>
          (case map_of (tables l) tableName of
             None \<Rightarrow> (Panicked, s1)
           | Some info \<Rightarrow>
               (case ct_Prepare tx (ch_insertQuery d tableName info) s1 of
                  (Inl e, s2) \<Rightarrow> (Fail (Wrapf ''failed to prepare insert into %q'' [AStr tableName] e), s2)
                | (Inr batch, s2) \<Rightarrow>
                    (case ch_exec_rows conv batch (map snd es) s2 of
                       (Done, s3) \<Rightarrow>
                         (case ct_Commit tx s3 of
                            (Some e, s4) \<Rightarrow> (Fail (Wrapf ''failed to commit db transaction'' [] e), s4)
                          | (None, s4) \<Rightarrow> (Done, s4))
                     | r \<Rightarrow> r))))"

fun ch_flush_tables ::
    "(string \<Rightarrow> RType \<Rightarrow> 'f Val res option) \<Rightarrow> Dialect \<Rightarrow> ('f, 's) ChDb \<Rightarrow> Loader \<Rightarrow> Operation omap omap
     \<Rightarrow> nat \<Rightarrow> 's \<Rightarrow> (nat \<times> Outcome) \<times> 's" where
  "ch_flush_tables conv d db l [] entryCount s = ((entryCount, Done), s)"
| "ch_flush_tables conv d db l ((tableName, es) # rest) entryCount s =
     (case ch_flush_table conv d db l tableName es s of
        (Done, s') \<Rightarrow> ch_flush_tables conv d db l rest (entryCount + length es) s'
      | (r, s') \<Rightarrow> ((entryCount, r), s'))"

text \<open>The transaction the loader passes is not used.\<close>

definition ch_Flush ::
    "(string \<Rightarrow> RType \<Rightarrow> 'f Val res option) \<Rightarrow> Dialect \<Rightarrow> ('f, 's) ChDb \<Rightarrow> Loader \<Rightarrow> 's \<Rightarrow> (nat \<times> Outcome) \<times> 's" where
  "ch_Flush conv d db l s = ch_flush_tables conv d db l (entries l) 0 s"

section \<open>The other methods\<close>

definition ch_Revert :: "'s Tx \<Rightarrow> u64 \<Rightarrow> 's \<Rightarrow> Outcome \<times> 's" where
  "ch_Revert tx lastValidFinalBlock s = (Fail (Errorf ''clickhouse driver does not support reorg management.'' []), s)"

definition ch_GetUpdateCursorQuery :: "(string \<Rightarrow> string) \<Rightarrow> string \<Rightarrow> string \<Rightarrow> Cursor \<Rightarrow> string" where
  "ch_GetUpdateCursorQuery dedent table moduleHash c =
     query dedent ([CHR 0x0A, CHR 0x09, CHR 0x09, CHR 0x09]
       @ ''INSERT INTO %s (id, cursor, block_num, block_id) values (''
       @ [CHR 0x27] @ ''%s'' @ [CHR 0x27] @ '', '' @ [CHR 0x27] @ ''%s'' @ [CHR 0x27] @ '', %d, ''
       @ [CHR 0x27] @ ''%s'' @ [CHR 0x27] @ '')'' @ [CHR 0x0A, CHR 0x09])
     [table, moduleHash, c_string c, dec64 (c_num c), c_id c]"

definition ch_GetAllCursorsQuery :: "string \<Rightarrow> string" where
  "ch_GetAllCursorsQuery table = ''SELECT id, cursor, block_num, block_id FROM '' @ table @ '' FINAL''"

definition ch_ParseDatetimeNormalization :: "string \<Rightarrow> string" where
  "ch_ParseDatetimeNormalization value = ''parseDateTimeBestEffort('' @ escapeStringValue value @ '')''"

definition ch_CreateUser ::
    "Dialect \<Rightarrow> 's Tx \<Rightarrow> string \<Rightarrow> string \<Rightarrow> bool \<Rightarrow> 's \<Rightarrow> GoErr option \<times> 's" where
  "ch_CreateUser d tx username password readOnly s =
     (let user = EscapeIdentifier username; pass = escapeStringValue password;
          onCluster = (if cluster d \<noteq> [] then ''ON CLUSTER '' @ EscapeIdentifier (cluster d) else []);
          createUserQ = ''CREATE USER IF NOT EXISTS '' @ user @ '' '' @ onCluster
            @ '' IDENTIFIED WITH plaintext_password BY '' @ pass @ '';'';
          indent = [CHR 0x0A] @ replicate 12 (CHR '' ''); close = [CHR 0x0A] @ replicate 8 (CHR '' '');
          grantQ = (if readOnly then indent @ ''GRANT '' @ onCluster @ '' SELECT ON *.* TO '' @ user @ '';'' @ close
                    else indent @ ''GRANT '' @ onCluster @ '' ALL ON *.* TO '' @ user @ '';'' @ close)
      in case tx_Exec tx createUserQ s of
           (Inl e, s1) \<Rightarrow> (Some (Wrapf ''executing create user query %q'' [AStr createUserQ] e), s1)
         | (Inr _, s1) \<Rightarrow>
             (case tx_Exec tx grantQ s1 of
                (Inl e, s2) \<Rightarrow> (Some (Wrapf ''executing grant query %q'' [AStr grantQ] e), s2)
              | (Inr _, s2) \<Rightarrow> (None, s2)))"

section \<open>Types of the values\<close>

lemma parse_int_type_of: "parse_int_type t w s = Inr v \<Longrightarrow> \<exists>n. v = VInt t n"
  by (auto simp: parse_int_type_def split: prod.splits option.splits bool.splits)

lemma convertToType_int:
  "int_width t = Some w \<Longrightarrow> convertToType zero other parseFloat value t = Some (parse_int_type t w value)"
  by (cases t) auto

lemma convertToTime_of: "convertToTime value = Inr v \<Longrightarrow> type_of v \<in> {RInt64, RString}"
  by (auto simp: convertToTime_def Let_def split: if_splits prod.splits option.splits)

lemma json_into_slice_of: "json_into zero other (RSlice t) j = Inr v \<Longrightarrow> type_of v = RSlice t"
  by (subst (asm) json_into.simps) (auto split: if_splits Json.splits sum.splits option.splits)

text \<open>The dynamic type of a converted value: the type of the column, but for times (seconds or a date's
  text), 32-bit floats (a \<open>float64\<close>), and interfaces, arrays, maps and the remaining kinds (the text). A defined type is
  converted as its underlying type.\<close>

fun converted_type :: "RType \<Rightarrow> RType set" where
  "converted_type RTime = {RInt64, RString}"
| "converted_type RFloat32 = {RFloat64}"
| "converted_type RInterface = {RString}" | "converted_type (RArray n t) = {RString}"
| "converted_type (RMap k t) = {RString}" | "converted_type (ROther k) = {RString}"
| "converted_type (RNamed n t) = converted_type t"
| "converted_type t = {t}"

lemma converted_type_of:
  "convertToType zero other parseFloat value t = Some (Inr v) \<Longrightarrow> type_of v \<in> converted_type t"
  by (induction t) (auto split: if_splits sum.splits option.splits dest!: parse_int_type_of convertToTime_of json_into_slice_of)

text \<open>The types of Go columns: a defined type has a name and an underlying type without a name; those of the kinds that are
  told apart by themselves (structures, interfaces) and pointers are not put under a name.\<close>

fun go_type :: "RType \<Rightarrow> bool" where
  "go_type (RPtr t) = go_type t"
| "go_type (RNamed n t) = (case t of RNamed _ _ \<Rightarrow> False | RPtr _ \<Rightarrow> False | RStruct _ \<Rightarrow> False | RTime \<Rightarrow> False
     | RInterface \<Rightarrow> False | _ \<Rightarrow> True)"
| "go_type t = True"

text \<open>The types whose converted value is of another type, so that it cannot be set where a pointer points\<close>

fun loses_type :: "RType \<Rightarrow> bool" where
  "loses_type RTime = True" | "loses_type RFloat32 = True" | "loses_type (RArray n t) = True"
| "loses_type (RMap k t) = True" | "loses_type (ROther k) = True"
| "loses_type (RNamed n t) = (case t of RSlice _ \<Rightarrow> False | _ \<Rightarrow> True)"
| "loses_type t = False"

lemma convertToType_total:
  "\<nexists>u. t = RPtr u \<Longrightarrow> go_type t \<Longrightarrow> convertToType zero other parseFloat value t \<noteq> None"
  by (induction t) (auto split: RType.splits)

lemma converted_assignable:
  assumes "convertToType zero other parseFloat s t = Some (Inr v)" "go_type t"
  shows "assignable (type_of v) t \<longleftrightarrow> \<not> loses_type t"
proof (cases t)
  case (RNamed n u)
  with assms converted_type_of [of zero other parseFloat s u v] show ?thesis
    by (cases u) (auto simp: assignable_def)
qed (use assms converted_type_of [OF assms(1)] in \<open>auto simp: assignable_def\<close>)

end
