(* ===== verification/ChProperties.thy ===== *)
theory ChProperties
  imports ChDialect ChangesProperties "HOL-Library.Sublist"
begin

text \<open>
  The properties of the ClickHouse dialect: which Go values the texts of a change become, when the
  conversion panics, how the values of a row line up with the columns of the insert, and what a
  flush has done when it fails.
\<close>

section \<open>Integers\<close>

lemma parse_digits_value:
  assumes "\<forall>c \<in> set s. is_digit c" "n \<le> maxv"
  shows "parse_digits maxv n s = (let v = foldl (\<lambda>a c. 10 * a + digit_val c) n s in
           if v \<le> maxv then (v, None) else (maxv, Some ErrRange))"
  using assms
proof (induction s arbitrary: n)
  case (Cons c s)
  have mono: "m \<le> foldl (\<lambda>a c. 10 * a + digit_val c) m t" for m t
  proof (induction t arbitrary: m)
    case (Cons a t)
    show ?case using Cons [of "10 * m + digit_val a"] by simp
  qed simp
  show ?case
  proof (cases "maxv < n * 10 + digit_val c")
    case True
    then show ?thesis using Cons.prems mono [of "10 * n + digit_val c" s] by (simp add: mult.commute Let_def)
  next
    case False
    then show ?thesis using Cons.IH [of "n * 10 + digit_val c"] Cons.prems by (simp add: mult.commute)
  qed
qed simp

lemma ParseUint_value:
  "ParseUint bits (dec n) = (if n < 2 ^ bits then (n, None) else (2 ^ bits - 1, Some ErrRange))"
  unfolding ParseUint_def using parse_digits_value [of "dec n" 0 "2 ^ bits - 1"] undec_dec [of n] dec_digits [of n]
  by (simp add: undec_def Let_def less_eq_Suc_le [symmetric] less_Suc_eq_le [symmetric])

lemma dec_hd: "\<exists>c cs. dec n = c # cs \<and> c \<noteq> CHR ''-'' \<and> c \<noteq> CHR ''+''"
proof -
  obtain c cs where d: "dec n = c # cs" by (cases "dec n") auto
  then have "is_digit c" using dec_digits [of n] by simp
  then show ?thesis using d by (auto simp: is_digit_def)
qed

lemma ParseUint_sign: "ParseUint bits (CHR ''-'' # s) = (0, Some ErrSyntax)"
  by (simp add: ParseUint_def is_digit_def)

lemma ParseInt_unfold:
  "c \<noteq> CHR ''-'' \<Longrightarrow> c \<noteq> CHR ''+'' \<Longrightarrow> ParseInt bits (c # cs) =
     (case ParseUint bits (c # cs) of (un, e) \<Rightarrow>
        if e \<noteq> None \<and> e \<noteq> Some ErrRange then (0, e)
        else if 2 ^ (bits - 1) \<le> un then (2 ^ (bits - 1) - 1, Some ErrRange) else (int un, None))"
  "ParseInt bits (CHR ''-'' # cs) =
     (case ParseUint bits cs of (un, e) \<Rightarrow>
        if e \<noteq> None \<and> e \<noteq> Some ErrRange then (0, e)
        else if 2 ^ (bits - 1) < un then (- (2 ^ (bits - 1)), Some ErrRange) else (- int un, None))"
  by (auto simp: ParseInt_def Let_def split: prod.split)

lemma ParseInt_dec_value:
  assumes "0 < k"
  shows "ParseInt (Suc k) (dec m) = (if m < 2 ^ k then (int m, None) else (2 ^ k - 1, Some ErrRange))"
  "ParseInt (Suc k) (CHR ''-'' # dec m) = (if m \<le> 2 ^ k then (- int m, None) else (- (2 ^ k), Some ErrRange))"
proof -
  have pos: "(2::nat) ^ k \<ge> 2" using assms by (cases k) auto
  obtain c cs where d: "dec m = c # cs" "c \<noteq> CHR ''-''" "c \<noteq> CHR ''+''" using dec_hd by blast
  show "ParseInt (Suc k) (dec m) = (if m < 2 ^ k then (int m, None) else (2 ^ k - 1, Some ErrRange))"
    unfolding d(1) ParseInt_unfold(1) [OF d(2,3)] unfolding d(1) [symmetric] ParseUint_value using pos by auto
  show "ParseInt (Suc k) (CHR ''-'' # dec m) = (if m \<le> 2 ^ k then (- int m, None) else (- (2 ^ k), Some ErrRange))"
    unfolding ParseInt_unfold(2) ParseUint_value using pos by auto
qed

lemma ParseInt_value:
  assumes "0 < k"
  shows "ParseInt (Suc k) (decZ n) = (if - (2 ^ k) \<le> n \<and> n < 2 ^ k then (n, None)
     else (if n < 0 then - (2 ^ k) else 2 ^ k - 1, Some ErrRange))"
proof (cases "n < 0")
  case True
  then show ?thesis by (simp add: decZ_def ParseInt_dec_value [OF assms] nat_le_iff)
next
  case False
  then show ?thesis by (simp add: decZ_def ParseInt_dec_value [OF assms] nat_less_iff)
qed

lemma parse_digits_bound: "parse_digits maxv n s = (m, None) \<Longrightarrow> n \<le> maxv \<Longrightarrow> m \<le> maxv"
  by (induction s arbitrary: n) (auto split: if_splits)

lemma ParseUint_bound: "ParseUint bits s = (n, None) \<Longrightarrow> n < 2 ^ bits"
  using parse_digits_bound [of "2 ^ bits - 1" 0 s n] 
  by (simp add: ParseUint_def split: if_splits) (metis One_nat_def Suc_pred le_imp_less_Suc pos2 zero_less_power)

lemma ParseInt_bound: "ParseInt bits s = (n, None) \<Longrightarrow> - (2 ^ (bits - 1)) \<le> n \<and> n < 2 ^ (bits - 1)"
  using zero_less_power [of "2 :: int" "bits - 1"]
  by (auto simp del: zero_less_power simp: ParseInt_def Let_def split: list.splits prod.splits if_splits)

lemma parse_int_type_bound: "parse_int_type t w s = Inr (VInt u n) \<Longrightarrow> in_width w n"
  by (cases w) (auto simp: parse_int_type_def in_width_def dest!: ParseUint_bound ParseInt_bound
      split: prod.splits option.splits bool.splits)

lemma parse_int_type_decZ:
  assumes "int_width t = Some w"
  shows "parse_int_type t w (decZ n) =
    (if in_width w n then Inr (VInt t n) else Inl (if fst w \<or> 0 \<le> n then ErrRange else ErrSyntax))"
proof -
  have "1 < snd w" using assms by (cases t) auto
  then obtain sgn k where w: "w = (sgn, Suc k)" "0 < k" by (cases w; cases "snd w") auto
  show ?thesis
  proof (cases sgn)
    case True
    then show ?thesis by (simp add: w parse_int_type_def in_width_def ParseInt_value [OF w(2)])
  next
    case False
    show ?thesis
    proof (cases "n < 0")
      case True
      then show ?thesis using False by (simp add: w parse_int_type_def in_width_def decZ_def ParseUint_sign)
    next
      case False
      then have "n < 2 ^ Suc k \<longleftrightarrow> nat n < 2 ^ Suc k" by (simp add: nat_less_iff)
      then show ?thesis using \<open>\<not> sgn\<close> False by (simp add: w parse_int_type_def in_width_def decZ_def ParseUint_value)
    qed
  qed
qed

text \<open>
  C19. An integer column takes exactly the integers of its width: the decimal text of a number becomes
  that number when it fits the width and sign of the column's type, and is refused otherwise,
  with a range error or, for a negative number in an unsigned column, a syntax error; and no text
  at all gives a number outside the width, so nothing wraps.
\<close>

theorem integer_columns_keep_their_width:
  assumes "int_width t = Some w"
  shows "convertToType zero other parseFloat (decZ n) t =
      Some (if in_width w n then Inr (VInt t n) else Inl (if fst w \<or> 0 \<le> n then ErrRange else ErrSyntax))
    \<and> (convertToType zero other parseFloat s t = Some (Inr v) \<longrightarrow> (\<exists>m. v = VInt t m \<and> in_width w m))"
  unfolding convertToType_int [OF assms] parse_int_type_decZ [OF assms]
  using parse_int_type_bound [of t w s t] parse_int_type_of [of t w s v] by auto

theorem integer_columns_keep_their_width_witness:
  "convertToType (\<lambda>_. ()) (\<lambda>_ _. Inr ()) (\<lambda>_. Inr ()) (decZ 128) RInt8 = Some (Inl ErrRange)
   \<and> convertToType (\<lambda>_. ()) (\<lambda>_ _. Inr ()) (\<lambda>_. Inr ()) (decZ (- 128)) RInt8 = Some (Inr (VInt RInt8 (- 128)))"
  using integer_columns_keep_their_width [of RInt8 "(True, 8)" "\<lambda>_. ()" "\<lambda>_ _. Inr ()" "\<lambda>_. Inr ()" 128]
    integer_columns_keep_their_width [of RInt8 "(True, 8)" "\<lambda>_. ()" "\<lambda>_ _. Inr ()" "\<lambda>_. Inr ()" "- 128"]
  by (simp add: in_width_def)


section \<open>Types and panics\<close>

fun pointee :: "RType \<Rightarrow> RType" where
  "pointee (RPtr t) = pointee t"
| "pointee t = t"

lemma convertToType_ptr:
  "convertToType zero other parseFloat s (RPtr t) =
     (if t = RStruct ''big.Int'' then Some (Inr (VPtr t (VBig (big_SetString s))))
      else case convertToType zero other parseFloat s t of
        None \<Rightarrow> None
      | Some (Inl e) \<Rightarrow> Some (Inl (Wrapf ''invalid pointer type'' [] e))
      | Some (Inr val) \<Rightarrow> if assignable (type_of val) t then Some (Inr (VPtr t val)) else None)"
  by simp

text \<open>A pointer to a type that is not a pointer itself\<close>

lemma convertToType_ptr_base:
  assumes "\<nexists>u. t = RPtr u" "go_type t"
  shows "convertToType zero other parseFloat s (RPtr t) = None \<longleftrightarrow>
     loses_type t \<and> (\<exists>v. convertToType zero other parseFloat s t = Some (Inr v))"
proof (cases "t = RStruct ''big.Int''")
  case False
  show ?thesis
  proof (cases "convertToType zero other parseFloat s t")
    case None
    then show ?thesis using convertToType_total [OF assms] by blast
  next
    case (Some r)
    then show ?thesis
      using False converted_assignable [OF _ assms(2), of zero other parseFloat s] by (cases r) (auto simp: convertToType_ptr)
  qed
qed (simp add: convertToType_ptr)

lemma convertToType_ptr_total:
  "go_type t \<Longrightarrow> convertToType zero other parseFloat s (RPtr t) = None \<longleftrightarrow>
     loses_type (pointee t) \<and> (\<exists>v. convertToType zero other parseFloat s (pointee t) = Some (Inr v))"
proof (induction t)
  case (RPtr t)
  then have "convertToType zero other parseFloat s (RPtr (RPtr t)) = None \<longleftrightarrow> convertToType zero other parseFloat s (RPtr t) = None"
    by (auto simp: assignable_def split: sum.splits option.splits if_splits)
  with RPtr show ?case by simp
qed (subst convertToType_ptr_base; simp)+

text \<open>
  C20. When the conversion of a column's text panics: exactly for a nullable column (a pointer) whose type does not
  survive the conversion (times, 32-bit floats, arrays such as \<open>[16]byte\<close>, maps, the kinds that are not converted at all, and
  defined types other than slices, among them \<open>uuid.UUID\<close>), and there for every text that is converted without an
  error: \<open>reflect.Set\<close> is given an \<open>int64\<close>, a \<open>string\<close>, a \<open>float64\<close> or a value of the underlying type. Otherwise a
  value it returns has the type of the column, but a time is its seconds or the text of a date, a 32-bit float a
  \<open>float64\<close>, and what is not converted is the text. Of the type it is assumed that a name is put on
  a type without one, and on no pointer, structure or interface, which the model tells apart by their own constructors
  (\<open>go_type\<close>).
\<close>

theorem conversion_is_typed_or_panics:
  assumes "go_type t"
  shows "(convertToType zero other parseFloat s t = None \<longleftrightarrow>
      t \<noteq> pointee t \<and> loses_type (pointee t)
      \<and> (\<exists>v. convertToType zero other parseFloat s (pointee t) = Some (Inr v)))
   \<and> (\<forall>v. convertToType zero other parseFloat s t = Some (Inr v) \<longrightarrow> type_of v \<in> converted_type t)"
proof -
  have "convertToType zero other parseFloat s t = None \<longleftrightarrow>
      t \<noteq> pointee t \<and> loses_type (pointee t)
      \<and> (\<exists>v. convertToType zero other parseFloat s (pointee t) = Some (Inr v))"
  proof (cases "\<exists>u. t = RPtr u")
    case True
    then obtain u where u: "t = RPtr u" by blast
    have "size (pointee w) \<le> size w" for w by (induction w) auto
    from this [of u] have "pointee u \<noteq> RPtr u" by (cases "pointee u = RPtr u") simp_all
    moreover have "go_type u" using assms u by simp
    ultimately show ?thesis unfolding u convertToType_ptr_total [OF \<open>go_type u\<close>] by auto
  next
    case False
    then have "pointee t = t" by (cases t) auto
    then show ?thesis using convertToType_total [OF False assms] by simp
  qed
  then show ?thesis using converted_type_of by blast
qed

text \<open>A nullable time, and a nullable UUID\<close>

theorem conversion_is_typed_or_panics_witness:
  "convertToType (\<lambda>_. ()) (\<lambda>_ _. Inr ()) (\<lambda>_. Inr ()) ''2024-02-29 12:00:00'' (RPtr RTime) = None
   \<and> convertToType (\<lambda>_. ()) (\<lambda>_ _. Inr ()) (\<lambda>_. Inr ()) ''x'' (RPtr (RNamed ''uuid.UUID'' (RArray 16 RUint8))) = None"
proof -
  let ?uuid = "RNamed ''uuid.UUID'' (RArray 16 RUint8)"
  have c: "convertToType (\<lambda>_. ()) (\<lambda>_ _. Inr ()) (\<lambda>_. Inr ()) ''2024-02-29 12:00:00'' RTime = Some (Inr (VInt RInt64 1709208000))"
    "convertToType (\<lambda>_. ()) (\<lambda>_ _. Inr ()) (\<lambda>_. Inr ()) ''x'' ?uuid = Some (Inr (VString ''x''))"
    by code_simp+
  have p: "pointee (RPtr RTime) = RTime" "pointee (RPtr ?uuid) = ?uuid" "loses_type RTime" "loses_type ?uuid"
    "go_type (RPtr RTime)" "go_type (RPtr ?uuid)" by simp_all
  from conversion_is_typed_or_panics [OF p(5), of "\<lambda>_. ()" "\<lambda>_ _. Inr ()" "\<lambda>_. Inr ()" "''2024-02-29 12:00:00''"]
    conversion_is_typed_or_panics [OF p(6), of "\<lambda>_. ()" "\<lambda>_ _. Inr ()" "\<lambda>_. Inr ()" "''x''"] c p
  show ?thesis by (simp del: convertToType.simps loses_type.simps go_type.simps)
qed

section \<open>Rows\<close>

lemma convert_columns_values:
  "convert_columns conv table data cs = Some (Inr vs) \<longleftrightarrow>
     list_all2 (\<lambda>c v. \<exists>col. map_of (columnsByName table) c = Some col
       \<and> conv (getS data c) (scanType col) = Some (Inr v)) cs vs"
proof (induction cs arbitrary: vs)
  case (Cons c cs)
  show ?case
  proof (cases "map_of (columnsByName table) c")
    case (Some col)
    then show ?thesis
      by (cases vs) (auto simp: Cons.IH [symmetric] split: option.splits sum.splits)
  qed (auto simp: list_all2_Cons1)
qed auto

lemma sort_keys_subset:
  assumes "distinct xs" "distinct ys" "set xs \<subseteq> set ys"
  shows "length (sort xs) = length (sort ys) \<longleftrightarrow> sort xs = sort ys"
proof
  assume "length (sort xs) = length (sort ys)"
  then have "card (set xs) = card (set ys)" using assms by (simp add: distinct_card)
  then have "set xs = set ys" using assms(3) card_subset_eq by blast
  then show "sort xs = sort ys" using assms by (simp add: sorted_distinct_set_unique)
qed simp

text \<open>
  The values of a row line up with the columns of the insert exactly when the change gives every
  column of the table: the insert names all columns of the table, sorted, the row has one value for
  each column of the change, sorted, so a change that leaves out a column sends too few values, and
  with as many values as columns the value at each position is the conversion of that column's text.
\<close>

theorem row_values_line_up:
  assumes "convertOpToClickhouseValues conv oper = Some (Inr vs)"
    and "distinct (keys (op_data oper))" "distinct (keys (columnsByName (op_table oper)))"
  shows "length vs \<le> length (sort (keys (columnsByName (op_table oper))))
    \<and> (length vs = length (sort (keys (columnsByName (op_table oper))))
        \<longleftrightarrow> list_all2 (\<lambda>c v. \<exists>col. map_of (columnsByName (op_table oper)) c = Some col
              \<and> map_of (op_data oper) c \<noteq> None
              \<and> conv (getS (op_data oper) c) (scanType col) = Some (Inr v))
            (sort (keys (columnsByName (op_table oper)))) vs)"
proof -
  let ?k = "keys (op_data oper)" and ?c = "keys (columnsByName (op_table oper))"
  have all: "list_all2 (\<lambda>c v. \<exists>col. map_of (columnsByName (op_table oper)) c = Some col
       \<and> conv (getS (op_data oper) c) (scanType col) = Some (Inr v)) (sort ?k) vs"
    using assms(1) unfolding convertOpToClickhouseValues_def convert_columns_values .
  then have len: "length vs = length (sort ?k)" using list_all2_lengthD [OF all] by simp
  have sub: "set ?k \<subseteq> set ?c"
  proof
    fix c assume "c \<in> set ?k"
    then obtain i where "i < length (sort ?k)" "sort ?k ! i = c" by (metis in_set_conv_nth set_sort)
    then have "map_of (columnsByName (op_table oper)) c \<noteq> None" using list_all2_nthD [OF all] by fastforce
    then show "c \<in> set ?c" by (simp add: keys_def map_of_eq_None_iff)
  qed
  have "card (set ?k) \<le> card (set ?c)" using sub by (simp add: card_mono)
  then have le: "length vs \<le> length (sort ?c)" using len assms(2,3) by (simp add: distinct_card)
  have given: "c \<in> set ?k \<Longrightarrow> map_of (op_data oper) c \<noteq> None" for c
    by (simp add: keys_def map_of_eq_None_iff)
  have "length vs = length (sort ?c) \<longleftrightarrow> list_all2 (\<lambda>c v. \<exists>col. map_of (columnsByName (op_table oper)) c = Some col
              \<and> map_of (op_data oper) c \<noteq> None
              \<and> conv (getS (op_data oper) c) (scanType col) = Some (Inr v)) (sort ?c) vs"
  proof
    assume "length vs = length (sort ?c)"
    then have "sort ?k = sort ?c" using sort_keys_subset [OF assms(2,3) sub] len by simp
    then have "set (sort ?c) = set ?k" by (metis set_sort)
    then show "list_all2 (\<lambda>c v. \<exists>col. map_of (columnsByName (op_table oper)) c = Some col
              \<and> map_of (op_data oper) c \<noteq> None
              \<and> conv (getS (op_data oper) c) (scanType col) = Some (Inr v)) (sort ?c) vs"
      using given by (intro list.rel_mono_strong [OF all [unfolded \<open>sort ?k = sort ?c\<close>]]) blast
  qed (use list_all2_lengthD in fastforce)
  then show ?thesis using le by blast
qed


text \<open>A row that gives both columns, and one that leaves one out\<close>

definition ex_ch :: Dialect where
  "ex_ch = NewClickhouseDialect ''default'' ''cursors'' []"

definition ex_ch_loader :: Loader where
  "ex_ch_loader = ex_loader\<lparr>ldsn := ex_dsn\<lparr>driver := ''clickhouse''\<rparr>, dialect := ex_ch\<rparr>"

definition ex_conv :: "string \<Rightarrow> RType \<Rightarrow> unit Val res option" where
  "ex_conv = convertToType (\<lambda>_. ()) (\<lambda>_ _. Inr ()) (\<lambda>_. Inr ())"

theorem row_values_line_up_witness:
  "\<exists>vs. convertOpToClickhouseValues ex_conv (newInsertOperation ex_table (ex_key ''a'') (ex_key ''a'') 0 None) = Some (Inr vs)
     \<and> length vs = 1 \<and> length (sort (keys (columnsByName ex_table))) \<noteq> 1"
proof -
  let ?op = "newInsertOperation ex_table (ex_key ''a'') (ex_key ''a'') 0 None"
  have c: "convertOpToClickhouseValues ex_conv ?op = Some (Inr [VString ''a''])" by code_simp
  have d: "distinct (keys (op_data ?op))" "distinct (keys (columnsByName (op_table ?op)))"
    "length (sort (keys (columnsByName ex_table))) \<noteq> 1" by code_simp+
  from row_values_line_up [OF c d(1,2)] c d(3) show ?thesis by auto
qed

section \<open>Flush\<close>

text \<open>A connection watched from outside: the calls are kept beside its state.\<close>

datatype 'f ChEvent = EvBegin | EvPrepare string | EvRow "'f Val list" | EvCommit

definition watched_stmt :: "('f, 's) ChStmt \<Rightarrow> ('f, 's \<times> 'f ChEvent list) ChStmt" where
  "watched_stmt b =
     \<lparr>cs_Exec = (\<lambda>vs (s, g). case cs_Exec b vs s of (r, s') \<Rightarrow> (r, (s', g @ [EvRow vs])))\<rparr>"

definition watched_tx :: "('f, 's) ChTx \<Rightarrow> ('f, 's \<times> 'f ChEvent list) ChTx" where
  "watched_tx tx =
     \<lparr>ct_Prepare = (\<lambda>q (s, g). case ct_Prepare tx q s of
        (r, s') \<Rightarrow> (map_sum id watched_stmt r, (s', g @ [EvPrepare q]))),
      ct_Commit = (\<lambda>(s, g). case ct_Commit tx s of (r, s') \<Rightarrow> (r, (s', g @ [EvCommit])))\<rparr>"

definition watched :: "('f, 's) ChDb \<Rightarrow> ('f, 's \<times> 'f ChEvent list) ChDb" where
  "watched db =
     \<lparr>ch_Begin = (\<lambda>(s, g). case ch_Begin db s of (r, s') \<Rightarrow> (map_sum id watched_tx r, (s', g @ [EvBegin])))\<rparr>"

lemma watched_calls:
  "cs_Exec (watched_stmt b) vs (s, g) = (case cs_Exec b vs s of (r, s') \<Rightarrow> (r, (s', g @ [EvRow vs])))"
  "ct_Prepare (watched_tx tx) q (s, g) =
     (case ct_Prepare tx q s of (r, s') \<Rightarrow> (map_sum id watched_stmt r, (s', g @ [EvPrepare q])))"
  "ct_Commit (watched_tx tx) (s, g) = (case ct_Commit tx s of (r, s') \<Rightarrow> (r, (s', g @ [EvCommit])))"
  "ch_Begin (watched db) (s, g) = (case ch_Begin db s of (r, s') \<Rightarrow> (map_sum id watched_tx r, (s', g @ [EvBegin])))"
  by (simp_all add: watched_stmt_def watched_tx_def watched_def)

text \<open>The rows of a table whose values convert, up to the first that does not\<close>

fun good_rows :: "(string \<Rightarrow> RType \<Rightarrow> 'f Val res option) \<Rightarrow> Operation list \<Rightarrow> 'f Val list list" where
  "good_rows conv [] = []"
| "good_rows conv (x # xs) =
     (case convertOpToClickhouseValues conv x of Some (Inr vs) \<Rightarrow> vs # good_rows conv xs | _ \<Rightarrow> [])"

definition table_events ::
    "(string \<Rightarrow> RType \<Rightarrow> 'f Val res option) \<Rightarrow> Dialect \<Rightarrow> Loader \<Rightarrow> string \<times> Operation omap \<Rightarrow> 'f ChEvent list" where
  "table_events conv d l te =
     (case te of (t, es) \<Rightarrow>
        [EvBegin, EvPrepare (ch_insertQuery d t (the (map_of (tables l) t)))]
        @ map EvRow (good_rows conv (map snd es)) @ [EvCommit])"

lemma watched_rows:
  assumes "ch_exec_rows conv (watched_stmt b) es (s, g) = (r, (s', g'))"
  shows "\<exists>n. g' = g @ map EvRow (take n (good_rows conv es)) \<and> (r = Done \<longrightarrow> length (good_rows conv es) \<le> n \<and> length (good_rows conv es) = length es)"
  using assms
proof (induction es arbitrary: s g)
  case (Cons e es)
  show ?case
  proof (cases "\<exists>vs. convertOpToClickhouseValues conv e = Some (Inr vs)")
    case True
    then obtain vs where vs: "convertOpToClickhouseValues conv e = Some (Inr vs)" by blast
    obtain x s1 where x: "cs_Exec b vs s = (x, s1)" by fastforce
    show ?thesis
    proof (cases x)
      case None
      from Cons.IH [of s1 "g @ [EvRow vs]"] Cons.prems obtain n where
        "g' = (g @ [EvRow vs]) @ map EvRow (take n (good_rows conv es))"
        "r = Done \<longrightarrow> length (good_rows conv es) \<le> n \<and> length (good_rows conv es) = length es"
        by (auto simp: vs x None watched_calls)
      then show ?thesis by (intro exI [of _ "Suc n"]) (auto simp: vs)
    next
      case (Some err)
      then show ?thesis using Cons.prems by (intro exI [of _ 1]) (auto simp: vs x watched_calls)
    qed
  next
    case False
    then show ?thesis using Cons.prems
      by (intro exI [of _ 0]) (auto split: option.splits sum.splits)
  qed
qed (auto intro: exI [of _ 0])


lemma watched_table:
  assumes "map_of (tables l) t \<noteq> None"
    "ch_flush_table conv d (watched db) l t es (s, g) = (r, (s', g'))"
  shows "\<exists>evs. g' = g @ evs \<and> prefix evs (table_events conv d l (t, es)) \<and> (r = Done \<longrightarrow> evs = table_events conv d l (t, es))"
proof -
  obtain info where i: "map_of (tables l) t = Some info" using assms(1) by blast
  let ?q = "ch_insertQuery d t info" and ?E = "table_events conv d l (t, es)"
  have E: "?E = [EvBegin, EvPrepare ?q] @ map EvRow (good_rows conv (map snd es)) @ [EvCommit]"
    by (simp add: table_events_def i)
  obtain x s1 where x: "ch_Begin db s = (x, s1)" by fastforce
  show ?thesis
  proof (cases x)
    case (Inl e)
    then show ?thesis using assms(2) x E by (auto simp: ch_flush_table_def watched_calls)
  next
    case (Inr tx)
    obtain y s2 where y: "ct_Prepare tx ?q s1 = (y, s2)" by fastforce
    show ?thesis
    proof (cases y)
      case (Inl e)
      then show ?thesis using assms(2) x y Inr i E by (auto simp: ch_flush_table_def watched_calls)
    next
      case (Inr b)
      let ?b = "watched_stmt b"
      obtain z s3 g3 where z: "ch_exec_rows conv ?b (map snd es) (s2, g @ [EvBegin, EvPrepare ?q]) = (z, (s3, g3))"
        by (metis surj_pair)
      from watched_rows [OF z] obtain n where n:
        "g3 = (g @ [EvBegin, EvPrepare ?q]) @ map EvRow (take n (good_rows conv (map snd es)))"
        "z = Done \<longrightarrow> length (good_rows conv (map snd es)) \<le> n" by blast
      have part: "prefix ([EvBegin, EvPrepare ?q] @ map EvRow (take n (good_rows conv (map snd es)))) ?E"
        unfolding E by (simp add: take_map [symmetric] prefix_prefix take_is_prefix)
      obtain c s4 where c: "ct_Commit tx s3 = (c, s4)" by fastforce
      note calls = x y \<open>x = Inr tx\<close> Inr i c ch_flush_table_def watched_calls
      show ?thesis
      proof (cases z)
        case Done
        have "g' = g3 @ [EvCommit]" using assms(2) z [unfolded Done] by (cases c) (simp_all add: calls)
        then have "g' = g @ ?E" using n Done unfolding E by simp
        then show ?thesis by blast
      next
        case (Fail e)
        have "g' = g3" "r = Fail e" using assms(2) z [unfolded Fail] by (simp_all add: calls)
        then show ?thesis using n(1) part by auto
      next
        case Panicked
        have "g' = g3" "r = Panicked" using assms(2) z [unfolded Panicked] by (simp_all add: calls)
        then show ?thesis using n(1) part by auto
      qed
    qed
  qed
qed

lemma watched_tables:
  assumes "\<forall>(t, es) \<in> set tes. map_of (tables l) t \<noteq> None"
    "ch_flush_tables conv d (watched db) l tes n0 (s, g0) = ((n, r), (s', g))"
  shows "\<exists>k evs. k \<le> length tes \<and> g = g0 @ concat (map (table_events conv d l) (take k tes)) @ evs
     \<and> n = n0 + sum_list (map (\<lambda>(_, es). length es) (take k tes))
     \<and> (if r = Done then k = length tes \<and> evs = []
        else k < length tes \<and> prefix evs (table_events conv d l (tes ! k)))"
  using assms
proof (induction tes arbitrary: n0 s g0)
  case (Cons te tes)
  obtain t es where te: "te = (t, es)" by fastforce
  obtain x s1 g1 where x: "ch_flush_table conv d (watched db) l t es (s, g0) = (x, (s1, g1))" by (metis surj_pair)
  have known: "map_of (tables l) t \<noteq> None" "\<forall>(t, es) \<in> set tes. map_of (tables l) t \<noteq> None"
    using Cons.prems(1) by (auto simp: te)
  from watched_table [OF known(1) x] obtain evs where evs: "g1 = g0 @ evs"
    "prefix evs (table_events conv d l (t, es))" "x = Done \<longrightarrow> evs = table_events conv d l (t, es)" by blast
  show ?case
  proof (cases "x = Done")
    case True
    then have "ch_flush_tables conv d (watched db) l tes (n0 + length es) (s1, g1) = ((n, r), (s', g))"
      using Cons.prems(2) x by (simp add: te)
    from Cons.IH [OF known(2) this] obtain k evs' where
      "k \<le> length tes" "g = g1 @ concat (map (table_events conv d l) (take k tes)) @ evs'"
      "n = n0 + length es + sum_list (map (\<lambda>(_, es). length es) (take k tes))"
      "if r = Done then k = length tes \<and> evs' = [] else k < length tes \<and> prefix evs' (table_events conv d l (tes ! k))"
      by blast
    then show ?thesis using True evs
      by (intro exI [of _ "Suc k"] exI [of _ evs']) (auto simp: te split: if_splits)
  next
    case False
    then have "n = n0" "r = x" "g = g1" using Cons.prems(2) x by (auto simp: te split: Outcome.splits)
    then show ?thesis using False evs by (intro exI [of _ 0] exI [of _ evs]) (simp add: te)
  qed
qed simp

text \<open>
  C21. A flush to ClickHouse commits table by table: on any connection the calls it makes are, for the
  first tables, the begin, the insert, the rows and the commit of each, and then, when it fails, a part
  from the start of those of one more table, with no rollback of that one or of the committed
  ones; the count it returns is the number of rows of the tables that were committed.
\<close>

theorem ch_flush_commits_by_table:
  assumes "\<forall>(t, es) \<in> set (entries l). map_of (tables l) t \<noteq> None"
    "ch_Flush conv d (watched db) l (s, []) = ((n, r), (s', g))"
  shows "\<exists>k evs. k \<le> length (entries l)
     \<and> g = concat (map (table_events conv d l) (take k (entries l))) @ evs
     \<and> n = sum_list (map (\<lambda>(_, es). length es) (take k (entries l)))
     \<and> (if r = Done then k = length (entries l) \<and> evs = []
        else k < length (entries l) \<and> prefix evs (table_events conv d l (entries l ! k)))"
  using watched_tables [OF assms(1) assms(2) [unfolded ch_Flush_def]] by auto


text \<open>Two tables, and a connection that refuses the second insert\<close>

definition ex_ch_batch :: Loader where
  "ex_ch_batch =
     (let l = ex_ch_loader\<lparr>tables := [(''xfer'', ex_table), (''other'', ex_table)]\<rparr> in
      snd (apply_change (snd (apply_change l ''xfer'' (CInsert (ex_key ''a'') (ex_row ''a'' ''x'') None)))
        ''other'' (CInsert (ex_key ''b'') (ex_row ''b'' ''y'') None)))"

definition ex_ch_db :: "(unit, nat) ChDb" where
  "ex_ch_db = \<lparr>ch_Begin = (\<lambda>s. (Inr
     \<lparr>ct_Prepare = (\<lambda>q s. if s = 0 then (Inr \<lparr>cs_Exec = (\<lambda>vs s. (None, s))\<rparr>, 1) else (Inl (Errorf ''lost'' []), s)),
      ct_Commit = (\<lambda>s. (None, s))\<rparr>, s))\<rparr>"

theorem ch_flush_commits_by_table_witness:
  "\<exists>e s' evs. ch_Flush ex_conv ex_ch (watched ex_ch_db) ex_ch_batch (0, []) = ((1, Fail e), s')
     \<and> snd s' = table_events ex_conv ex_ch ex_ch_batch (hd (entries ex_ch_batch)) @ evs
     \<and> prefix evs (table_events ex_conv ex_ch ex_ch_batch (entries ex_ch_batch ! 1))"
proof -
  let ?F = "ch_Flush ex_conv ex_ch (watched ex_ch_db) ex_ch_batch (0, [])"
  let ?rows = "sum_list (map (\<lambda>(_, es). length es) (take 0 (entries ex_ch_batch)))"
  have F: "fst ?F = (1, Fail (Wrapf ''failed to prepare insert into %q'' [AStr ''other''] (Errorf ''lost'' [])))"
    "length (entries ex_ch_batch) = 2" "entries ex_ch_batch \<noteq> []"
    "map (\<lambda>(_, es). length es) (entries ex_ch_batch) = [1, 1]"
    "\<forall>(t, es) \<in> set (entries ex_ch_batch). map_of (tables ex_ch_batch) t \<noteq> None"
    by code_simp+
  obtain s' g where e: "?F = ((1, Fail (Wrapf ''failed to prepare insert into %q'' [AStr ''other''] (Errorf ''lost'' []))), (s', g))"
    using F(1) by (metis prod.collapse)
  from ch_flush_commits_by_table [OF F(5) e] obtain k evs where k: "k < 2"
    "g = concat (map (table_events ex_conv ex_ch ex_ch_batch) (take k (entries ex_ch_batch))) @ evs"
    "1 = sum_list (take k [1, 1 :: nat])"
    "prefix evs (table_events ex_conv ex_ch ex_ch_batch (entries ex_ch_batch ! k))"
    by (auto simp: F(2) take_map [symmetric] F(4))
  then have "k = 1" by (cases k) auto
  moreover have "take 1 (entries ex_ch_batch) = [hd (entries ex_ch_batch)]" using F(3) by (cases "entries ex_ch_batch") auto
  ultimately show ?thesis using e k by auto
qed

end
