(* ===== verification/Setup.thy ===== *)
theory Setup
  imports RwDialect ChDialect
begin

text \<open>
  Creating and reading the schema of the database: the setup queries of the three dialects,
  \<open>ExecuteSetupScript\<close> and \<open>GetTableColumns\<close> (\<open>dialect_*.go\<close>), and \<open>Setup\<close>, \<open>LoadTables\<close>,
  \<open>getTablesFromSchema\<close> and \<open>validateCursorTables\<close> of \<open>src/db_changes/db/db.go\<close>. \<open>cli.Dedent\<close>, the
  ClickHouse SQL parser and \<open>schema.PrimaryKey\<close> are library functions and parameters.
\<close>

section \<open>Setup queries\<close>

text \<open>A table hidden from PostGraphile\<close>

definition omit_comment :: "string \<Rightarrow> string \<Rightarrow> string" where
  "omit_comment schema table = sprintf (''COMMENT ON TABLE %s.%s IS E'' @ [CHR 0x27] @ ''@omit'' @ [CHR 0x27] @ '';'')
     [EscapeIdentifier schema, EscapeIdentifier table]"

definition pg_GetCreateCursorQuery :: "(string \<Rightarrow> string) \<Rightarrow> Dialect \<Rightarrow> string \<Rightarrow> bool \<Rightarrow> string" where
  "pg_GetCreateCursorQuery dedent d schema withPostgraphile =
     sprintf (dedent ([CHR 0x0A, CHR 0x09, CHR 0x09] @ ''create table if not exists %s.%s''
       @ [CHR 0x0A, CHR 0x09, CHR 0x09] @ ''('' @ [CHR 0x0A, CHR 0x09, CHR 0x09, CHR 0x09]
       @ ''id         text not null constraint %s primary key,'' @ [CHR 0x0A, CHR 0x09, CHR 0x09, CHR 0x09]
       @ ''cursor     text,'' @ [CHR 0x0A, CHR 0x09, CHR 0x09, CHR 0x09] @ ''block_num  bigint,''
       @ [CHR 0x0A, CHR 0x09, CHR 0x09, CHR 0x09] @ ''block_id   text'' @ [CHR 0x0A, CHR 0x09, CHR 0x09]
       @ '');'' @ [CHR 0x0A, CHR 0x09, CHR 0x09]))
       [EscapeIdentifier schema, EscapeIdentifier (cursorTableName d), EscapeIdentifier (cursorTableName d @ ''_pk'')]
     @ (if withPostgraphile then omit_comment schema (cursorTableName d) else [])"

definition pg_GetCreateHistoryQuery :: "(string \<Rightarrow> string) \<Rightarrow> Dialect \<Rightarrow> string \<Rightarrow> bool \<Rightarrow> string" where
  "pg_GetCreateHistoryQuery dedent d schema withPostgraphile =
     sprintf (dedent ([CHR 0x0A, CHR 0x09, CHR 0x09] @ ''create table if not exists %s'' @ [CHR 0x0A, CHR 0x09, CHR 0x09]
       @ ''('' @ [CHR 0x0A] @ ''            id           SERIAL PRIMARY KEY,'' @ [CHR 0x0A]
       @ ''            op           char,'' @ [CHR 0x0A] @ ''            table_name   text,''
       @ [CHR 0x0A, CHR 0x09, CHR 0x09, CHR 0x09] @ ''pk           text,'' @ [CHR 0x0A]
       @ ''            prev_value   text,'' @ [CHR 0x0A, CHR 0x09, CHR 0x09, CHR 0x09]
       @ ''block_num    bigint'' @ [CHR 0x0A, CHR 0x09, CHR 0x09] @ '');'' @ [CHR 0x0A, CHR 0x09, CHR 0x09]))
       [historyTable d schema]
     @ (if withPostgraphile then omit_comment schema (historyTableName d) else [])"

definition rw_GetCreateCursorQuery :: "(string \<Rightarrow> string) \<Rightarrow> Dialect \<Rightarrow> string \<Rightarrow> bool \<Rightarrow> string" where
  "rw_GetCreateCursorQuery dedent d schema withPostgraphile =
     sprintf (dedent ([CHR 0x0A, CHR 0x09, CHR 0x09] @ ''create table if not exists %s.%s''
       @ [CHR 0x0A, CHR 0x09, CHR 0x09] @ ''('' @ [CHR 0x0A, CHR 0x09, CHR 0x09, CHR 0x09]
       @ ''id         varchar constraint %s primary key,'' @ [CHR 0x0A, CHR 0x09, CHR 0x09, CHR 0x09]
       @ ''cursor     varchar,'' @ [CHR 0x0A, CHR 0x09, CHR 0x09, CHR 0x09] @ ''block_num  bigint,''
       @ [CHR 0x0A, CHR 0x09, CHR 0x09, CHR 0x09] @ ''block_id   varchar'' @ [CHR 0x0A, CHR 0x09, CHR 0x09]
       @ '');'' @ [CHR 0x0A, CHR 0x09, CHR 0x09]))
       [EscapeIdentifier schema, EscapeIdentifier (cursorTableName d), EscapeIdentifier (cursorTableName d @ ''_pk'')]
     @ (if withPostgraphile then omit_comment schema (cursorTableName d) else [])"

definition rw_GetCreateHistoryQuery :: "(string \<Rightarrow> string) \<Rightarrow> Dialect \<Rightarrow> string \<Rightarrow> bool \<Rightarrow> string" where
  "rw_GetCreateHistoryQuery dedent d schema withPostgraphile =
     sprintf (dedent ([CHR 0x0A, CHR 0x09, CHR 0x09] @ ''create table if not exists %s'' @ [CHR 0x0A, CHR 0x09, CHR 0x09]
       @ ''('' @ [CHR 0x0A] @ ''            id           BIGINT,'' @ [CHR 0x0A]
       @ ''            op           CHARACTER VARYING,'' @ [CHR 0x0A] @ ''            table_name   varchar,''
       @ [CHR 0x0A, CHR 0x09, CHR 0x09, CHR 0x09] @ ''pk           varchar,'' @ [CHR 0x0A]
       @ ''            prev_value   varchar,'' @ [CHR 0x0A, CHR 0x09, CHR 0x09, CHR 0x09]
       @ ''block_num    bigint,'' @ [CHR 0x0A, CHR 0x09, CHR 0x09, CHR 0x09] @ ''PRIMARY KEY (id)''
       @ [CHR 0x0A, CHR 0x09, CHR 0x09] @ '');'' @ [CHR 0x0A, CHR 0x09, CHR 0x09]))
       [historyTable d schema]
     @ (if withPostgraphile then omit_comment schema (historyTableName d) else [])"

definition ch_GetCreateCursorQuery :: "(string \<Rightarrow> string) \<Rightarrow> Dialect \<Rightarrow> string \<Rightarrow> string" where
  "ch_GetCreateCursorQuery dedent d schema =
     (let clusterClause = (if cluster d \<noteq> [] then ''ON CLUSTER '' @ EscapeIdentifier (cluster d) else []);
          engine = (if cluster d \<noteq> [] then ''ReplicatedReplacingMergeTree()'' else ''ReplacingMergeTree()'');
          tableName = (if schema \<noteq> [] then EscapeIdentifier schema @ ''.'' @ EscapeIdentifier (cursorTableName d)
                       else cursorTableName d)
      in sprintf (dedent ([CHR 0x0A, CHR 0x09] @ ''CREATE TABLE IF NOT EXISTS %s %s'' @ [CHR 0x0A, CHR 0x09] @ ''(''
       @ [CHR 0x0A] @ ''    id         String,'' @ [CHR 0x0A, CHR 0x09, CHR 0x09] @ ''cursor     String,''
       @ [CHR 0x0A, CHR 0x09, CHR 0x09] @ ''block_num  Int64,'' @ [CHR 0x0A, CHR 0x09, CHR 0x09]
       @ ''block_id   String'' @ [CHR 0x0A, CHR 0x09] @ '') Engine = %s ORDER BY id;'' @ [CHR 0x0A, CHR 0x09]))
        [tableName, clusterClause, engine])"

section \<open>Setup scripts\<close>

text \<open>\<open>strings.ToUpper\<close> as far as its ASCII results go: the letters, the dotless i and the long s.\<close>

definition upper_rune :: "nat \<Rightarrow> nat" where
  "upper_rune r = (if 97 \<le> r \<and> r \<le> 122 then r - 32 else if r = 0x131 then 73 else if r = 0x17F then 83 else r)"

function toUpper :: "string \<Rightarrow> string" where
  "toUpper [] = []"
| "toUpper (c # cs) = encode_rune (upper_rune (fst (decode_rune (c # cs))))
                      @ toUpper (drop (snd (decode_rune (c # cs))) (c # cs))"
  by pat_completeness auto
termination
  by (relation "measure length") (use drop_rune_less in auto)

text \<open>\<open>strings.TrimSpace\<close>: the UTF-8 texts of the white space runes\<close>

definition space_texts :: "string list" where
  "space_texts = map encode_rune ([9, 10, 11, 12, 13, 32, 0x85, 0xA0, 0x1680]
     @ [0x2000..<0x200B] @ [0x2028, 0x2029, 0x202F, 0x205F, 0x3000])"

fun trim_left :: "nat \<Rightarrow> string list \<Rightarrow> string \<Rightarrow> string" where
  "trim_left 0 ts s = s"
| "trim_left (Suc k) ts s =
     (case find (\<lambda>t. hasPrefix t s) ts of None \<Rightarrow> s | Some t \<Rightarrow> trim_left k ts (drop (length t) s))"

definition TrimSpace :: "string \<Rightarrow> string" where
  "TrimSpace s =
     (let l = trim_left (length s) space_texts s
      in rev (trim_left (length l) (map rev space_texts) (rev l)))"

text \<open>\<open>strings.Split(s, sep)\<close> with one byte as separator\<close>

fun splitS :: "char \<Rightarrow> string \<Rightarrow> string list" where
  "splitS sep [] = [[]]"
| "splitS sep (c # cs) =
     (if c = sep then [] # splitS sep cs
      else (case splitS sep cs of [] \<Rightarrow> [[c]] | w # ws \<Rightarrow> (c # w) # ws))"

text \<open>Statements executed in order on the connection, up to the first error\<close>

fun exec_script :: "(string \<Rightarrow> 's \<Rightarrow> ExecResult res \<times> 's) \<Rightarrow> string list \<Rightarrow> 's \<Rightarrow> GoErr option \<times> 's" where
  "exec_script exec [] s = (None, s)"
| "exec_script exec (q # qs) s =
     (case exec q s of
        (Inl e, s') \<Rightarrow> (Some (Wrapf ''exec schemaName'' [] e), s')
      | (Inr _, s') \<Rightarrow> exec_script exec qs s')"

definition pg_ExecuteSetupScript ::
    "(string \<Rightarrow> 's \<Rightarrow> ExecResult res \<times> 's) \<Rightarrow> string \<Rightarrow> 's \<Rightarrow> GoErr option \<times> 's" where
  "pg_ExecuteSetupScript exec schemaSql s = exec_script exec [schemaSql] s"

definition rw_ExecuteSetupScript ::
    "(string \<Rightarrow> 's \<Rightarrow> ExecResult res \<times> 's) \<Rightarrow> string \<Rightarrow> 's \<Rightarrow> GoErr option \<times> 's" where
  "rw_ExecuteSetupScript exec schemaSql s = exec_script exec [schemaSql] s"

text \<open>Without a cluster: a table without an engine gets one. (The cluster is empty here.)\<close>

definition ch_add_engine :: "string \<Rightarrow> string" where
  "ch_add_engine q =
     (if hasPrefix ''CREATE TABLE'' (toUpper q) \<and> \<not> containsS ''ENGINE'' (toUpper q)
      then q @ '' ENGINE = ReplacingMergeTree()'' else q)"

definition ch_script :: "string \<Rightarrow> string list" where
  "ch_script schemaSql = map ch_add_engine (filter (\<lambda>q. q \<noteq> []) (map TrimSpace (splitS (CHR '';'') schemaSql)))"

text \<open>With a cluster: the statements of the library's parser. Of a statement the source uses its
  kind, its engine (a table has one or none) and sets its cluster; the rest is the library's.\<close>

datatype AstKind = CreateDatabase | CreateTable | CreateMaterializedView | CreateView | CreateFunction | OtherStmt

record 'a ChAst =
  ast_kind :: AstKind
  ast_onCluster :: "string option"
  ast_engine :: "string option"
  ast_rest :: 'a

definition replicated :: "string \<Rightarrow> string" where
  "replicated engine =
     (if \<not> hasPrefix ''Replicated'' engine \<and> hasSuffix ''MergeTree'' engine then ''Replicated'' @ engine else engine)"

text \<open>A \<open>CREATE TABLE\<close> without an engine is a nil dereference: \<open>None\<close>.\<close>

definition ch_on_cluster :: "string \<Rightarrow> 'a ChAst \<Rightarrow> 'a ChAst option" where
  "ch_on_cluster clust stmt =
     (case ast_kind stmt of
        OtherStmt \<Rightarrow> Some stmt
      | CreateTable \<Rightarrow>
          map_option (\<lambda>e. stmt\<lparr>ast_onCluster := Some clust, ast_engine := Some (replicated e)\<rparr>) (ast_engine stmt)
      | CreateMaterializedView \<Rightarrow>
          Some (stmt\<lparr>ast_onCluster := Some clust, ast_engine := map_option replicated (ast_engine stmt)\<rparr>)
      | _ \<Rightarrow> Some (stmt\<lparr>ast_onCluster := Some clust\<rparr>))"

fun exec_asts ::
    "(string \<Rightarrow> 's \<Rightarrow> ExecResult res \<times> 's) \<Rightarrow> ('a ChAst \<Rightarrow> string) \<Rightarrow> string \<Rightarrow> 'a ChAst list \<Rightarrow> 's \<Rightarrow> Outcome \<times> 's" where
  "exec_asts exec print clust [] s = (Done, s)"
| "exec_asts exec print clust (stmt # stmts) s =
     (case ch_on_cluster clust stmt of
        None \<Rightarrow> (Panicked, s)
      | Some stmt' \<Rightarrow>
          (case exec (print stmt') s of
             (Inl e, s') \<Rightarrow> (Fail (Wrapf ''exec schemaName'' [] e), s')
           | (Inr _, s') \<Rightarrow> exec_asts exec print clust stmts s'))"

definition outcome_of :: "GoErr option \<Rightarrow> Outcome" where
  "outcome_of r = (case r of None \<Rightarrow> Done | Some e \<Rightarrow> Fail e)"

definition ch_ExecuteSetupScript ::
    "(string \<Rightarrow> ('a ChAst list) res) \<Rightarrow> ('a ChAst \<Rightarrow> string) \<Rightarrow> Dialect \<Rightarrow> (string \<Rightarrow> 's \<Rightarrow> ExecResult res \<times> 's)
     \<Rightarrow> string \<Rightarrow> 's \<Rightarrow> Outcome \<times> 's" where
  "ch_ExecuteSetupScript parse print d exec schemaSql s =
     (if cluster d \<noteq> []
      then (case parse schemaSql of
              Inl e \<Rightarrow> (Fail (Wrapf ''parsing schemaName'' [] e), s)
            | Inr stmts \<Rightarrow> exec_asts exec print (cluster d) stmts s)
      else apfst outcome_of (exec_script exec (ch_script schemaSql) s))"

section \<open>Reading the tables\<close>

text \<open>\<open>*sql.ColumnType\<close>\<close>

record ColumnType =
  col_Name :: string
  col_DatabaseTypeName :: string
  col_ScanType :: RType

text \<open>What is read from the database: the base tables of a schema, the names and types of
  \<open>DESCRIBE TABLE\<close>, the column types of an empty query, and \<open>schema.PrimaryKey\<close> of the library\<close>

record SchemaReads =
  rd_tables :: "string \<Rightarrow> ((string \<times> string) Rows) res"
  rd_describe :: "string \<Rightarrow> ((string \<times> string) Rows) res"
  rd_columnTypes :: "string \<Rightarrow> (ColumnType list) res"
  rd_primaryKey :: "string \<Rightarrow> string \<Rightarrow> (string list) res"

definition pg_GetTableColumns :: "SchemaReads \<Rightarrow> string \<Rightarrow> string \<Rightarrow> (ColumnType list) res" where
  "pg_GetTableColumns rd schema table =
     wrap_err ''querying table structure'' []
       (rd_columnTypes rd (''SELECT * FROM '' @ EscapeIdentifier schema @ ''.'' @ EscapeIdentifier table @ '' WHERE 1=0''))"

definition rw_GetTableColumns :: "SchemaReads \<Rightarrow> string \<Rightarrow> string \<Rightarrow> (ColumnType list) res" where
  "rw_GetTableColumns rd schema table =
     wrap_err ''querying table structure'' []
       (rd_columnTypes rd (''SELECT * FROM '' @ EscapeIdentifier schema @ ''.'' @ EscapeIdentifier table @ '' WHERE 1=0''))"

text \<open>The columns of ClickHouse but those that hold aggregate states; a row that fails to scan ends it.\<close>

fun nonAggregate :: "(string \<times> string) res list \<Rightarrow> (string list) res" where
  "nonAggregate [] = Inr []"
| "nonAggregate (Inl e # rs) = Inl (Wrapf ''scanning describe results'' [] e)"
| "nonAggregate (Inr (name, dataType) # rs) =
     (case nonAggregate rs of
        Inl e \<Rightarrow> Inl e
      | Inr cs \<Rightarrow> Inr (if containsS ''AggregateFunction'' dataType then cs else EscapeIdentifier name # cs))"

definition ch_GetTableColumns :: "SchemaReads \<Rightarrow> string \<Rightarrow> string \<Rightarrow> (ColumnType list) res" where
  "ch_GetTableColumns rd schema table =
     (let name = EscapeIdentifier schema @ ''.'' @ EscapeIdentifier table in
      case rd_describe rd (''DESCRIBE TABLE '' @ name) of
        Inl e \<Rightarrow> Inl (Wrapf ''describing table structure'' [] e)
      | Inr rs \<Rightarrow>
          (case nonAggregate (r_rows rs) of
             Inl e \<Rightarrow> Inl e
           | Inr cs \<Rightarrow>
               (case r_err rs of
                  Some e \<Rightarrow> Inl (Wrapf ''iterating describe results'' [] e)
                | None \<Rightarrow>
                    if length cs = 0
                    then Inl (Errorf ''no non-aggregate columns found in table %s.%s'' [AStr schema, AStr table])
                    else wrap_err ''querying filtered table structure'' []
                      (rd_columnTypes rd (''SELECT '' @ joinS '', '' cs @ '' FROM '' @ name @ '' WHERE 1=0'')))))"

fun GetTableColumns :: "Dialect \<Rightarrow> SchemaReads \<Rightarrow> string \<Rightarrow> string \<Rightarrow> (ColumnType list) res" where
  "GetTableColumns (PostgresDialect c h s) = pg_GetTableColumns"
| "GetTableColumns (RisingwaveDialect c h s) = rw_GetTableColumns"
| "GetTableColumns (ClickhouseDialect c k s) = ch_GetTableColumns"

text \<open>A table whose columns cannot be read is left out (the error is only logged).\<close>

fun collect_tables ::
    "(string \<Rightarrow> string \<Rightarrow> (ColumnType list) res) \<Rightarrow> (string \<times> string) res list
     \<Rightarrow> ((string \<times> string) \<times> ColumnType list) list \<Rightarrow> (((string \<times> string) \<times> ColumnType list) list) res" where
  "collect_tables getColumns [] acc = Inr acc"
| "collect_tables getColumns (Inl e # rs) acc = Inl (Wrapf ''scanning table row'' [] e)"
| "collect_tables getColumns (Inr (sch, t) # rs) acc =
     (case getColumns sch t of
        Inl e \<Rightarrow> collect_tables getColumns rs acc
      | Inr cols \<Rightarrow> collect_tables getColumns rs (AList.update (sch, t) cols acc))"

definition getTablesFromSchema ::
    "Dialect \<Rightarrow> SchemaReads \<Rightarrow> string \<Rightarrow> (((string \<times> string) \<times> ColumnType list) list) res" where
  "getTablesFromSchema d rd schema =
     (case rd_tables rd schema of
        Inl e \<Rightarrow> Inl (Wrapf ''querying tables'' [] e)
      | Inr rs \<Rightarrow>
          (case collect_tables (GetTableColumns d rd) (r_rows rs) [] of
             Inl e \<Rightarrow> Inl e
           | Inr m \<Rightarrow> (case r_err rs of Some e \<Rightarrow> Inl (Wrapf ''iterating table rows'' [] e) | None \<Rightarrow> Inr m)))"

text \<open>The cursor table: each column is looked up in what is still expected and taken out of it.\<close>

definition columnsCheck :: "string gomap" where
  "columnsCheck = [(''block_num'', ''int64''), (''block_id'', ''string''), (''cursor'', ''string''), (''id'', ''string'')]"

fun check_columns :: "ColumnType list \<Rightarrow> string gomap \<Rightarrow> (string gomap) res" where
  "check_columns [] expected = Inr expected"
| "check_columns (f # fs) expected =
     (case map_of expected (col_Name f) of
        None \<Rightarrow> Inl (SystemTableError (Errorf ''unexpected column %q in cursors table'' [AStr (col_Name f)]))
      | Some expectedType \<Rightarrow>
          if expectedType \<noteq> kind_string (col_ScanType f)
          then Inl (SystemTableError (Errorf ''column %q has invalid type, expected %q has %q''
                 [AStr (col_Name f), AStr expectedType, AStr (kind_string (col_ScanType f))]))
          else check_columns fs (AList.delete (col_Name f) expected))"

definition validateCursorTables :: "SchemaReads \<Rightarrow> ColumnType list \<Rightarrow> string \<Rightarrow> string \<Rightarrow> GoErr option" where
  "validateCursorTables rd columns schema cursorTab =
     (if length columns \<noteq> 4
      then Some (SystemTableError (Errorf ''table requires 4 columns'' []))
      else case check_columns columns columnsCheck of
        Inl e \<Rightarrow> Some e
      | Inr (k # _) \<Rightarrow> Some (SystemTableError (Errorf ''missing column %q from cursors'' [AStr (fst k)]))
      | Inr [] \<Rightarrow>
          (case rd_primaryKey rd schema cursorTab of
             Inl e \<Rightarrow> Some (SystemTableError (Wrapf ''failed getting primary key'' [] e))
           | Inr [] \<Rightarrow> Some (SystemTableError (Errorf ''primary key not found: %w'' []))
           | Inr (k # _) \<Rightarrow>
               if k \<noteq> ''id'' then Some (SystemTableError (Errorf (''column '' @ [CHR 0x27] @ ''id'' @ [CHR 0x27] @ '' should be primary key not %q'') [AStr k]))
               else None))"

definition column_infos :: "ColumnType list \<Rightarrow> ColumnInfo gomap" where
  "column_infos columns =
     fold (\<lambda>f m. AList.update (col_Name f)
        \<lparr>cname = col_Name f, escapedName = EscapeIdentifier (col_Name f),
         databaseTypeName = col_DatabaseTypeName f, scanType = col_ScanType f\<rparr> m) columns []"

text \<open>The tables in the order the map gives them; the loader keeps those that were loaded before an error
  (for a table that is refused the code stores a nil table; the model does not, an error ends the program).
  The state is the loader and which of the two system tables were seen.\<close>

fun load_tables ::
    "SchemaReads \<Rightarrow> string \<Rightarrow> string \<Rightarrow> string \<Rightarrow> ((string \<times> string) \<times> ColumnType list) list \<Rightarrow> Loader
     \<Rightarrow> bool \<times> bool \<Rightarrow> (bool \<times> bool) res \<times> Loader" where
  "load_tables rd schema cursorTab historyTab [] l seen = (Inr seen, l)"
| "load_tables rd schema cursorTab historyTab (((sch, t), columns) # rest) l (seenCursor, seenHistory) =
     (if sch \<noteq> schema then load_tables rd schema cursorTab historyTab rest l (seenCursor, seenHistory)
      else case (if t = cursorTab then validateCursorTables rd columns schema cursorTab else None) of
        Some e \<Rightarrow> (Inl (Wrapf ''invalid cursors table'' [] e), l)
      | None \<Rightarrow>
          (case rd_primaryKey rd schema t of
             Inl e \<Rightarrow> (Inl (Wrapf ''get primary key'' [] e), l)
           | Inr key \<Rightarrow>
               (case NewTableInfo schema t key (column_infos columns) of
                  Inl e \<Rightarrow> (Inl (Wrapf ''invalid table'' [] e), l)
                | Inr info \<Rightarrow>
                    load_tables rd schema cursorTab historyTab rest
                      (l\<lparr>tables := AList.update t info (tables l)\<rparr>)
                      (seenCursor \<or> t = cursorTab, seenHistory \<or> t = historyTab))))"

definition LoadTables :: "SchemaReads \<Rightarrow> string \<Rightarrow> string \<Rightarrow> string \<Rightarrow> Loader \<Rightarrow> GoErr option \<times> Loader" where
  "LoadTables rd schema cursorTab historyTab l =
     (case getTablesFromSchema (dialect l) rd schema of
        Inl e \<Rightarrow> (Some (Wrapf ''retrieving table and schemaName'' [] e), l)
      | Inr schemaTables \<Rightarrow>
          (case load_tables rd schema cursorTab historyTab schemaTables l (False, False) of
             (Inl e, l') \<Rightarrow> (Some e, l')
           | (Inr (seenCursor, seenHistory), l') \<Rightarrow>
               if \<not> seenCursor
               then (Some (SystemTableError (Errorf ''%s.%s table is not found''
                       [AStr (EscapeIdentifier schema), AStr cursorTab])), l')
               else if handleReorgs l' \<and> \<not> seenHistory
               then (Some (SystemTableError (Errorf ''%s.%s table is not found and reorgs handling is enabled''
                       [AStr (EscapeIdentifier schema), AStr historyTab])), l')
               else (None, l'\<lparr>cursorTable := map_of (tables l') cursorTab\<rparr>)))"

section \<open>Setup\<close>

text \<open>The setup methods of a dialect\<close>

record 's SetupI =
  su_ExecuteSetupScript :: "(string \<Rightarrow> 's \<Rightarrow> ExecResult res \<times> 's) \<Rightarrow> string \<Rightarrow> 's \<Rightarrow> Outcome \<times> 's"
  su_GetCreateCursorQuery :: "string \<Rightarrow> bool \<Rightarrow> string"
  su_GetCreateHistoryQuery :: "string \<Rightarrow> bool \<Rightarrow> string option"
  su_OnlyInserts :: bool

definition setup_iface ::
    "(string \<Rightarrow> ('a ChAst list) res) \<Rightarrow> ('a ChAst \<Rightarrow> string) \<Rightarrow> (string \<Rightarrow> string) \<Rightarrow> Dialect \<Rightarrow> 's SetupI" where
  "setup_iface parse print dedent d =
     (case d of
        PostgresDialect _ _ _ \<Rightarrow>
          \<lparr>su_ExecuteSetupScript = (\<lambda>exec q s. apfst outcome_of (pg_ExecuteSetupScript exec q s)),
           su_GetCreateCursorQuery = pg_GetCreateCursorQuery dedent d,
           su_GetCreateHistoryQuery = (\<lambda>sch w. Some (pg_GetCreateHistoryQuery dedent d sch w)),
           su_OnlyInserts = OnlyInserts d\<rparr>
      | RisingwaveDialect _ _ _ \<Rightarrow>
          \<lparr>su_ExecuteSetupScript = (\<lambda>exec q s. apfst outcome_of (rw_ExecuteSetupScript exec q s)),
           su_GetCreateCursorQuery = rw_GetCreateCursorQuery dedent d,
           su_GetCreateHistoryQuery = (\<lambda>sch w. Some (rw_GetCreateHistoryQuery dedent d sch w)),
           su_OnlyInserts = OnlyInserts d\<rparr>
      | ClickhouseDialect _ _ _ \<Rightarrow>
          \<lparr>su_ExecuteSetupScript = ch_ExecuteSetupScript parse print d,
           su_GetCreateCursorQuery = (\<lambda>sch w. ch_GetCreateCursorQuery dedent d sch),
           su_GetCreateHistoryQuery = (\<lambda>sch w. None),
           su_OnlyInserts = OnlyInserts d\<rparr>)"

definition setupCursorTable ::
    "'s SetupI \<Rightarrow> (string \<Rightarrow> 's \<Rightarrow> ExecResult res \<times> 's) \<Rightarrow> string \<Rightarrow> bool \<Rightarrow> 's \<Rightarrow> GoErr option \<times> 's" where
  "setupCursorTable su exec schema withPostgraphile s =
     (case exec (su_GetCreateCursorQuery su schema withPostgraphile) s of
        (Inl e, s') \<Rightarrow> (Some e, s') | (Inr _, s') \<Rightarrow> (None, s'))"

text \<open>ClickHouse panics when it is asked for a history table; it is not asked.\<close>

definition setupHistoryTable ::
    "'s SetupI \<Rightarrow> (string \<Rightarrow> 's \<Rightarrow> ExecResult res \<times> 's) \<Rightarrow> string \<Rightarrow> bool \<Rightarrow> 's \<Rightarrow> Outcome \<times> 's" where
  "setupHistoryTable su exec schema withPostgraphile s =
     (if su_OnlyInserts su then (Done, s)
      else case su_GetCreateHistoryQuery su schema withPostgraphile of
        None \<Rightarrow> (Panicked, s)
      | Some q \<Rightarrow> (case exec q s of (Inl e, s') \<Rightarrow> (Fail e, s') | (Inr _, s') \<Rightarrow> (Done, s')))"

definition Loader_Setup ::
    "'s SetupI \<Rightarrow> (string \<Rightarrow> 's \<Rightarrow> ExecResult res \<times> 's) \<Rightarrow> string \<Rightarrow> string \<Rightarrow> bool \<Rightarrow> 's \<Rightarrow> Outcome \<times> 's" where
  "Loader_Setup su exec schema userSql withPostgraphile s =
     (case (if userSql \<noteq> [] then su_ExecuteSetupScript su exec userSql s else (Done, s)) of
        (Fail e, s1) \<Rightarrow> (Fail (Wrapf ''exec userSql'' [] e), s1)
      | (Panicked, s1) \<Rightarrow> (Panicked, s1)
      | (Done, s1) \<Rightarrow>
          (case setupCursorTable su exec schema withPostgraphile s1 of
             (Some e, s2) \<Rightarrow> (Fail (Wrapf ''setup cursor table'' [] e), s2)
           | (None, s2) \<Rightarrow>
               (case setupHistoryTable su exec schema withPostgraphile s2 of
                  (Fail e, s3) \<Rightarrow> (Fail (Wrapf ''setup history table'' [] e), s3)
                | r \<Rightarrow> r)))"

section \<open>The schema of the tests\<close>

text \<open>\<open>mustNewTableInfo\<close> panics when the table is refused: \<open>None\<close>.\<close>

definition mustNewTableInfo :: "string \<Rightarrow> string \<Rightarrow> string list \<Rightarrow> ColumnInfo gomap \<Rightarrow> TableInfo option" where
  "mustNewTableInfo schema name pkList columns =
     (case NewTableInfo schema name pkList columns of Inl e \<Rightarrow> None | Inr ti \<Rightarrow> Some ti)"

definition addCursorsTable :: "string \<Rightarrow> TableInfo gomap \<Rightarrow> TableInfo gomap option" where
  "addCursorsTable schema into =
     map_option (\<lambda>t. AList.update ''cursors'' t into)
       (mustNewTableInfo schema ''cursors'' [''id'']
          [(''block_num'', NewColumnInfo ''block_num'' ''bigint'' RString),
           (''block_id'', NewColumnInfo ''block_id'' ''text'' RString),
           (''cursor'', NewColumnInfo ''cursor'' ''text'' RString),
           (''id'', NewColumnInfo ''id'' ''text'' RString)])"

definition TestTables :: "string \<Rightarrow> TableInfo gomap \<Rightarrow> TableInfo gomap option" where
  "TestTables schema customTable = map_option (\<lambda>out. copyInto out customTable) (addCursorsTable schema [])"

definition TestSinglePrimaryKeyTables :: "string \<Rightarrow> TableInfo gomap option" where
  "TestSinglePrimaryKeyTables schema =
     (case mustNewTableInfo schema ''xfer'' [''id'']
        [(''id'', NewColumnInfo ''id'' ''text'' RString),
         (''from'', NewColumnInfo ''from'' ''text'' RString),
         (''to'', NewColumnInfo ''to'' ''text'' RString)] of
        None \<Rightarrow> None
      | Some t \<Rightarrow> TestTables schema [(''xfer'', t)])"

definition create_table_sql :: "TableInfo \<Rightarrow> string" where
  "create_table_sql t =
     (let columns = map (\<lambda>(_, c). escapedName c @ '' '' @ databaseTypeName c) (columnsByName t);
          pk = ''PRIMARY KEY ('' @ joinS '', '' (map escapedName (primaryColumns t)) @ '')''
      in ''CREATE TABLE '' @ tidentifier t @ '' ('' @ joinS '', '' (columns @ [pk]) @ '');'')"

definition GenerateCreateTableSQL :: "TableInfo gomap \<Rightarrow> string" where
  "GenerateCreateTableSQL ts =
     joinS [CHR 0x0A] (map (\<lambda>(_, t). create_table_sql t) (filter (\<lambda>(_, t). tname t \<noteq> ''cursors'') ts))"

end
