(* ===== verification/SetupProperties.thy ===== *)
theory SetupProperties
  imports Setup ChProperties
begin

text \<open>
  The properties of loading the schema: which cursor tables are accepted, and what the loader knows
  after it has read the tables.
\<close>

section \<open>The cursor table\<close>

lemma distinct_fst: "distinct (map fst xs) \<Longrightarrow> distinct xs"
  by (simp add: distinct_map)

lemma check_columns_ok:
  "distinct (map fst ex) \<Longrightarrow> check_columns fs ex = Inr [] \<longleftrightarrow>
     length fs = length ex \<and> set (map (\<lambda>f. (col_Name f, kind_string (col_ScanType f))) fs) = set ex"
proof (induction fs arbitrary: ex)
  case (Cons f fs)
  let ?p = "(col_Name f, kind_string (col_ScanType f))"
  show ?case
  proof (cases "map_of ex (col_Name f) = Some (kind_string (col_ScanType f))")
    case True
    then have mem: "?p \<in> set ex" by (rule map_of_SomeD)
    define S where "S = set (map (\<lambda>f. (col_Name f, kind_string (col_ScanType f))) fs)"
    have del: "set (AList.delete (col_Name f) ex) = set ex - {?p}"
      using mem Cons.prems by (auto simp: AList.delete_eq dest: eq_key_imp_eq_value)
    have "length (AList.delete (col_Name f) ex) = card (set ex - {?p})"
      using distinct_card [of "AList.delete (col_Name f) ex"] Cons.prems
      by (simp add: del [symmetric] distinct_delete distinct_fst)
    also have "\<dots> = length ex - 1" using mem Cons.prems by (simp add: distinct_card distinct_fst)
    finally have len: "length (AList.delete (col_Name f) ex) = length ex - 1" .
    have pos: "0 < length ex" using mem by (cases ex) auto
    have card: "card S \<le> length fs" using card_length [of "map (\<lambda>f. (col_Name f, kind_string (col_ScanType f))) fs"] by (simp add: S_def)
    have new: "?p \<notin> S" if "Suc (length fs) = length ex" "insert ?p S = set ex"
    proof
      assume p: "?p \<in> S"
      have "S = set ex" using that(2) unfolding insert_absorb [OF p] .
      then show False using card that(1) distinct_card [OF distinct_fst [OF Cons.prems]] by simp
    qed
    have "check_columns (f # fs) ex = Inr [] \<longleftrightarrow> length fs = length ex - 1 \<and> S = set ex - {?p}"
      using True Cons.IH [of "AList.delete (col_Name f) ex"] Cons.prems by (simp add: distinct_delete del len S_def)
    also have "\<dots> \<longleftrightarrow> Suc (length fs) = length ex \<and> insert ?p S = set ex"
    proof -
      have "length fs = length ex - 1 \<longleftrightarrow> Suc (length fs) = length ex" using pos by arith
      moreover have "S = set ex - {?p} \<longleftrightarrow> insert ?p S = set ex \<and> ?p \<notin> S"
        using mem insert_Diff [of ?p "set ex"] by fastforce
      ultimately show ?thesis using new by blast
    qed
    finally show ?thesis by (simp add: S_def)
  next
    case False
    then have "?p \<notin> set ex" using Cons.prems by (auto simp: map_of_eq_Some_iff)
    then show ?thesis using False by (auto split: option.splits)
  qed
qed auto

text \<open>
  A cursor table is accepted exactly when it has the four columns id, cursor, block_num and
  block_id, in any order, with the types string, string, int64 and string, and a primary key whose
  first column is id.
\<close>

theorem cursor_table_accepted_iff:
  "validateCursorTables rd columns schema t = None \<longleftrightarrow>
     length columns = 4
     \<and> set (map (\<lambda>f. (col_Name f, kind_string (col_ScanType f))) columns)
         = {(''id'', ''string''), (''cursor'', ''string''), (''block_num'', ''int64''), (''block_id'', ''string'')}
     \<and> (\<exists>key. rd_primaryKey rd schema t = Inr (''id'' # key))"
proof -
  have d: "distinct (map fst columnsCheck)" "length columnsCheck = 4"
    "set columnsCheck = {(''id'', ''string''), (''cursor'', ''string''), (''block_num'', ''int64''), (''block_id'', ''string'')}"
    by (auto simp: columnsCheck_def)
  have "validateCursorTables rd columns schema t = None \<longleftrightarrow>
     length columns = 4 \<and> check_columns columns columnsCheck = Inr [] \<and> (\<exists>key. rd_primaryKey rd schema t = Inr (''id'' # key))"
    by (auto simp: validateCursorTables_def split: sum.splits list.splits)
  then show ?thesis unfolding check_columns_ok [OF d(1)] d by auto
qed


section \<open>Loading the tables\<close>

lemma collect_tables_distinct:
  "distinct (map fst acc) \<Longrightarrow> collect_tables getColumns rs acc = Inr m \<Longrightarrow> distinct (map fst m)"
proof (induction getColumns rs acc rule: collect_tables.induct)
  case (3 getColumns sch t rs acc)
  then show ?case by (cases "getColumns sch t") (auto simp: distinct_update)
qed auto

lemma getTablesFromSchema_distinct: "getTablesFromSchema d rd schema = Inr m \<Longrightarrow> distinct (map fst m)"
  by (auto simp: getTablesFromSchema_def split: sum.splits option.splits intro: collect_tables_distinct [rotated])

text \<open>What loading has established for a table\<close>

definition loaded :: "SchemaReads \<Rightarrow> string \<Rightarrow> string \<Rightarrow> Loader \<Rightarrow> string \<Rightarrow> ColumnType list \<Rightarrow> bool" where
  "loaded rd schema cursorTab l t columns \<longleftrightarrow>
     (\<exists>key info. rd_primaryKey rd schema t = Inr key \<and> NewTableInfo schema t key (column_infos columns) = Inr info
       \<and> map_of (tables l) t = Some info)
     \<and> (t = cursorTab \<longrightarrow> validateCursorTables rd columns schema cursorTab = None)"

lemma loaded_update:
  "loaded rd schema ct l t columns \<Longrightarrow> t \<noteq> t' \<Longrightarrow> loaded rd schema ct (l\<lparr>tables := AList.update t' info (tables l)\<rparr>) t columns"
  by (simp add: loaded_def update_conv')

lemma load_tables_keeps:
  "load_tables rd schema ct ht m l seen = (Inr seen', l') \<Longrightarrow> loaded rd schema ct l t columns \<Longrightarrow>
   t \<notin> (snd \<circ> fst) ` {x \<in> set m. fst (fst x) = schema} \<Longrightarrow> loaded rd schema ct l' t columns"
proof (induction rd schema ct ht m l seen rule: load_tables.induct)
  case (2 rd schema ct ht sch t' columns' rest l sc sh)
  show ?case
  proof (cases "sch = schema")
    case True
    then have "t \<noteq> t'" using 2(5) by force
    then show ?thesis using 2 True
      by (auto split: option.splits sum.splits if_splits simp del: map_of_eq_None_iff intro!: loaded_update)
  next
    case False
    then show ?thesis using 2 by auto
  qed
qed auto

lemma load_tables_loads:
  "load_tables rd schema ct ht m l (sc, sh) = (Inr (sc', sh'), l') \<Longrightarrow> distinct (map fst m) \<Longrightarrow>
   (\<forall>(st, columns) \<in> set m. fst st = schema \<longrightarrow> loaded rd schema ct l' (snd st) columns)
   \<and> (sc' \<longleftrightarrow> sc \<or> (schema, ct) \<in> fst ` set m) \<and> (sh' \<longleftrightarrow> sh \<or> (schema, ht) \<in> fst ` set m)
   \<and> (\<exists>ts. l' = l\<lparr>tables := ts\<rparr>)"
proof (induction rd schema ct ht m l "(sc, sh)" arbitrary: sc sh rule: load_tables.induct)
  case (1 rd schema ct ht l)
  then show ?case by (auto intro: exI [of _ "tables l"])
next
  case (2 rd schema ct ht sch t columns rest l sc sh)
  show ?case
  proof (cases "sch = schema")
    case False
    then show ?thesis using 2 by auto
  next
    case True
    let ?v = "if t = ct then validateCursorTables rd columns schema ct else None"
    from "2.prems"(1) True have v: "?v = None" by (cases ?v) auto
    from "2.prems"(1) True v obtain key where key: "rd_primaryKey rd schema t = Inr key" by (auto split: sum.splits)
    from "2.prems"(1) True v key obtain info where info: "NewTableInfo schema t key (column_infos columns) = Inr info"
      by (auto split: sum.splits)
    let ?l = "l\<lparr>tables := AList.update t info (tables l)\<rparr>"
    have run: "load_tables rd schema ct ht rest ?l (sc \<or> t = ct, sh \<or> t = ht) = (Inr (sc', sh'), l')"
      using "2.prems"(1) True v key info by simp
    have IH: "(\<forall>(st, columns) \<in> set rest. fst st = schema \<longrightarrow> loaded rd schema ct l' (snd st) columns)
       \<and> (sc' \<longleftrightarrow> (sc \<or> t = ct) \<or> (schema, ct) \<in> fst ` set rest) \<and> (sh' \<longleftrightarrow> (sh \<or> t = ht) \<or> (schema, ht) \<in> fst ` set rest)
       \<and> (\<exists>ts. l' = ?l\<lparr>tables := ts\<rparr>)"
      using "2.hyps"(2) [OF _ v key info run] True "2.prems"(2) by simp
    have "loaded rd schema ct ?l t columns" using key info v unfolding loaded_def by (simp add: update_conv' split: if_split_asm)
    moreover have "t \<notin> (snd \<circ> fst) ` {x \<in> set rest. fst (fst x) = schema}" using "2.prems"(2) True by force
    ultimately have "loaded rd schema ct l' t columns" by (rule load_tables_keeps [OF run])
    then show ?thesis using IH True by auto
  qed
qed


text \<open>
  C22. Loading the tables succeeds only with every table of the schema whose columns can be read
  known to the loader as \<open>NewTableInfo\<close> of its columns and primary key, an accepted cursor table among
  them and set as such, and, when reorgs are handled, a history table; nothing else of the loader changes.
\<close>

theorem loaded_tables_are_known:
  assumes "LoadTables rd schema ct ht l = (None, l')"
  shows "\<exists>m. getTablesFromSchema (dialect l) rd schema = Inr m
     \<and> (\<forall>(st, columns) \<in> set m. fst st = schema \<longrightarrow> loaded rd schema ct l' (snd st) columns)
     \<and> (schema, ct) \<in> fst ` set m \<and> (handleReorgs l \<longrightarrow> (schema, ht) \<in> fst ` set m)
     \<and> cursorTable l' = map_of (tables l') ct \<and> cursorTable l' \<noteq> None
     \<and> (\<exists>ts c. l' = l\<lparr>tables := ts, cursorTable := c\<rparr>)"
proof -
  from assms obtain m where m: "getTablesFromSchema (dialect l) rd schema = Inr m"
    by (auto simp: LoadTables_def split: sum.splits)
  obtain r l1 where r: "load_tables rd schema ct ht m l (False, False) = (r, l1)" by fastforce
  with assms m obtain sc sh where s: "r = Inr (sc, sh)" by (cases r) (auto simp: LoadTables_def)
  have out: "sc" "handleReorgs l1 \<longrightarrow> sh" "l' = l1\<lparr>cursorTable := map_of (tables l1) ct\<rparr>"
    using assms unfolding LoadTables_def by (auto simp: m r s split: if_splits)
  from load_tables_loads [OF r [unfolded s] getTablesFromSchema_distinct [OF m]]
  have L: "\<forall>(st, columns) \<in> set m. fst st = schema \<longrightarrow> loaded rd schema ct l1 (snd st) columns"
    "(schema, ct) \<in> fst ` set m" "sh \<longleftrightarrow> (schema, ht) \<in> fst ` set m" "\<exists>ts. l1 = l\<lparr>tables := ts\<rparr>"
    using out(1) by auto
  obtain ts where ts: "l1 = l\<lparr>tables := ts\<rparr>" using L(4) by blast
  from L(2) obtain columns where "((schema, ct), columns) \<in> set m" by auto
  with L(1) have "loaded rd schema ct l1 ct columns" by fastforce
  then have "map_of (tables l1) ct \<noteq> None" by (auto simp: loaded_def)
  moreover have "loaded rd schema ct l' t columns = loaded rd schema ct l1 t columns" for t columns
    by (simp add: loaded_def out(3))
  ultimately show ?thesis using m L out ts by (intro exI [of _ m]) auto
qed

text \<open>A schema with the cursor table, the history table and one more table\<close>

definition ex_reads :: SchemaReads where
  "ex_reads = \<lparr>rd_tables = (\<lambda>s. Inr \<lparr>r_rows = [Inr (s, ''cursors''), Inr (s, ''substreams_history''), Inr (s, ''xfer'')], r_err = None\<rparr>),
     rd_describe = (\<lambda>q. Inl (Errorf ''no'' [])),
     rd_columnTypes = (\<lambda>q. Inr (if containsS ''cursors'' q
        then [\<lparr>col_Name = ''id'', col_DatabaseTypeName = ''TEXT'', col_ScanType = RString\<rparr>,
              \<lparr>col_Name = ''cursor'', col_DatabaseTypeName = ''TEXT'', col_ScanType = RString\<rparr>,
              \<lparr>col_Name = ''block_num'', col_DatabaseTypeName = ''INT8'', col_ScanType = RInt64\<rparr>,
              \<lparr>col_Name = ''block_id'', col_DatabaseTypeName = ''TEXT'', col_ScanType = RString\<rparr>]
        else [\<lparr>col_Name = ''id'', col_DatabaseTypeName = ''TEXT'', col_ScanType = RString\<rparr>])),
     rd_primaryKey = (\<lambda>s t. Inr [''id''])\<rparr>"

theorem loaded_tables_are_known_witness:
  "map_of (tables (snd (LoadTables ex_reads ''public'' ''cursors'' ''substreams_history'' ex_loader))) ''xfer'' \<noteq> None"
proof -
  let ?L = "LoadTables ex_reads ''public'' ''cursors'' ''substreams_history'' ex_loader"
  have ok: "fst ?L = None" by code_simp
  obtain l' where e: "?L = (None, l')" using ok by (metis prod.collapse)
  have m: "map fst (case getTablesFromSchema (dialect ex_loader) ex_reads ''public'' of Inr m \<Rightarrow> m | Inl _ \<Rightarrow> []) =
     [(''public'', ''cursors''), (''public'', ''substreams_history''), (''public'', ''xfer'')]" by code_simp
  from loaded_tables_are_known [OF e] obtain m where m': "getTablesFromSchema (dialect ex_loader) ex_reads ''public'' = Inr m"
    "\<forall>(st, columns) \<in> set m. fst st = ''public'' \<longrightarrow> loaded ex_reads ''public'' ''cursors'' l' (snd st) columns" by blast
  with m have "(''public'', ''xfer'') \<in> set (map fst m)" by simp
  then obtain columns where "((''public'', ''xfer''), columns) \<in> set m" by auto
  with m'(2) have "loaded ex_reads ''public'' ''cursors'' l' ''xfer'' columns" by fastforce
  then show ?thesis using e by (auto simp: loaded_def)
qed

end
