(* ===== verification/Writer.thy ===== *)
theory Writer
  imports GoTime
begin

text \<open>
  The buffered writer of bundle files (\<open>src/db_changes/bundler/writer\<close>: \<open>buffered.go\<close>, \<open>common.go\<close>,
  \<open>types.go\<close>): what is written to a boundary stays in memory while it fits the buffer, and goes to
  a working file, created lazily, when it does not. The operating system is a parameter; the files it
  holds are part of the state. \<open>bufio.Writer\<close> is modelled as the standard library has it.
\<close>

named_theorems writer_defs \<open>unfolding of the writer's operations\<close>

text \<open>\<open>bstream.Range\<close> with an excluded end\<close>

record Range =
  StartBlock :: u64
  EndBlock :: u64

definition range_Contains :: "Range \<Rightarrow> u64 \<Rightarrow> bool" where
  "range_Contains r b \<longleftrightarrow> StartBlock r \<le> b \<and> b < EndBlock r"

section \<open>Files\<close>

text \<open>What the operating system answers: \<open>os_Write path content data\<close> is \<open>None\<close> when all the data was
  written, else the bytes that were and the error (\<open>os.File.Write\<close> returns an error when it writes less).\<close>

record OS =
  os_Join :: "string \<Rightarrow> string \<Rightarrow> string"
  os_Dir :: "string \<Rightarrow> string"
  os_MkdirAll :: "string \<Rightarrow> GoErr option"
  os_Create :: "string \<Rightarrow> GoErr option"
  os_Write :: "string \<Rightarrow> string \<Rightarrow> string \<Rightarrow> (nat \<times> GoErr) option"
  os_Close :: "string \<Rightarrow> GoErr option"

type_synonym Files = "string gomap"

record LazyFile =
  lf_path :: string
  lf_open :: bool

definition LazyOpen :: "string \<Rightarrow> LazyFile" where
  "LazyOpen path = \<lparr>lf_path = path, lf_open = False\<rparr>"

definition file_Write :: "OS \<Rightarrow> string \<Rightarrow> string \<Rightarrow> Files \<Rightarrow> (nat \<times> GoErr option) \<times> Files" where
  "file_Write os path p fs =
     (case os_Write os path (getS fs path) p of
        None \<Rightarrow> ((length p, None), AList.update path (getS fs path @ p) fs)
      | Some (n, e) \<Rightarrow> ((n, Some e), AList.update path (getS fs path @ take n p) fs))"

definition LazyFile_Write :: "OS \<Rightarrow> string \<Rightarrow> LazyFile \<Rightarrow> Files \<Rightarrow> (nat \<times> GoErr option) \<times> LazyFile \<times> Files" where
  "LazyFile_Write os p f fs =
     (if lf_open f then (case file_Write os (lf_path f) p fs of (r, fs') \<Rightarrow> (r, f, fs'))
      else case os_MkdirAll os (os_Dir os (lf_path f)) of
        Some e \<Rightarrow> ((0, Some (Wrapf ''mkdir dirs'' [] e)), f, fs)
      | None \<Rightarrow>
          (case os_Create os (lf_path f) of
             Some e \<Rightarrow> ((0, Some (Wrapf ''open file'' [] e)), f, fs)
           | None \<Rightarrow>
               (case file_Write os (lf_path f) p (AList.update (lf_path f) [] fs) of
                  (r, fs') \<Rightarrow> (r, f\<lparr>lf_open := True\<rparr>, fs'))))"

definition LazyFile_Close :: "OS \<Rightarrow> LazyFile \<Rightarrow> GoErr option" where
  "LazyFile_Close os f = (if lf_open f then os_Close os (lf_path f) else None)"

section \<open>Buffers\<close>

record MemWriter =
  mw_file :: LazyFile
  MemoryBuffer :: "string option"
  NextWritesToMemory :: bool
  WrittenToWrapped :: bool

definition newMemoryBufferedWriter :: "LazyFile \<Rightarrow> MemWriter" where
  "newMemoryBufferedWriter f =
     \<lparr>mw_file = f, MemoryBuffer = None, NextWritesToMemory = False, WrittenToWrapped = False\<rparr>"

definition mem_Write :: "OS \<Rightarrow> string \<Rightarrow> MemWriter \<Rightarrow> Files \<Rightarrow> (nat \<times> GoErr option) \<times> MemWriter \<times> Files" where
  "mem_Write os p f fs =
     (if NextWritesToMemory f
      then ((length p, None),
            f\<lparr>MemoryBuffer := (case MemoryBuffer f of None \<Rightarrow> Some p | Some b \<Rightarrow> Some (b @ p))\<rparr>, fs)
      else case LazyFile_Write os p (mw_file f) fs of
        (r, lf, fs') \<Rightarrow> (r, f\<lparr>WrittenToWrapped := True, mw_file := lf\<rparr>, fs'))"

text \<open>\<open>bufio.Writer\<close>: its size, what it holds, its sticky error and the writer under it\<close>

record Bufio =
  bw_size :: nat
  bw_buf :: string
  bw_err :: "GoErr option"
  bw_under :: MemWriter

definition NewIntelligentWriterSize :: "LazyFile \<Rightarrow> int \<Rightarrow> Bufio" where
  "NewIntelligentWriterSize w n =
     \<lparr>bw_size = (if n \<le> 0 then 4096 else nat n), bw_buf = [], bw_err = None,
      bw_under = newMemoryBufferedWriter w\<rparr>"

definition bufio_Flush :: "OS \<Rightarrow> Bufio \<Rightarrow> Files \<Rightarrow> GoErr option \<times> Bufio \<times> Files" where
  "bufio_Flush os b fs =
     (case bw_err b of
        Some e \<Rightarrow> (Some e, b, fs)
      | None \<Rightarrow>
          if bw_buf b = [] then (None, b, fs)
          else (case mem_Write os (bw_buf b) (bw_under b) fs of
             ((n, Some e), u, fs') \<Rightarrow> (Some e, b\<lparr>bw_buf := drop n (bw_buf b), bw_err := Some e, bw_under := u\<rparr>, fs')
           | ((n, None), u, fs') \<Rightarrow> (None, b\<lparr>bw_buf := [], bw_under := u\<rparr>, fs')))"

text \<open>The part of \<open>Write\<close> that finds the buffer empty: what does not fit goes straight to the writer under
  it, which writes all of it or fails; and the whole of it: when there is something in the buffer
  it is filled and flushed first.\<close>

definition bufio_Write_empty :: "OS \<Rightarrow> nat \<Rightarrow> string \<Rightarrow> Bufio \<Rightarrow> Files \<Rightarrow> (nat \<times> GoErr option) \<times> Bufio \<times> Files" where
  "bufio_Write_empty os nn p b fs =
     (if length p \<le> bw_size b then ((nn + length p, None), b\<lparr>bw_buf := p\<rparr>, fs)
      else (case mem_Write os p (bw_under b) fs of
         ((n, Some e), u, fs') \<Rightarrow> ((nn + n, Some e), b\<lparr>bw_err := Some e, bw_under := u\<rparr>, fs')
       | ((n, None), u, fs') \<Rightarrow> ((nn + length p, None), b\<lparr>bw_under := u\<rparr>, fs')))"

definition bufio_Write :: "OS \<Rightarrow> string \<Rightarrow> Bufio \<Rightarrow> Files \<Rightarrow> (nat \<times> GoErr option) \<times> Bufio \<times> Files" where
  "bufio_Write os p b fs =
     (case bw_err b of
        Some e \<Rightarrow> ((0, Some e), b, fs)
      | None \<Rightarrow>
          let avail = bw_size b - length (bw_buf b) in
          if length p \<le> avail then ((length p, None), b\<lparr>bw_buf := bw_buf b @ p\<rparr>, fs)
          else if bw_buf b = [] then bufio_Write_empty os 0 p b fs
          else (case bufio_Flush os (b\<lparr>bw_buf := bw_buf b @ take avail p\<rparr>) fs of
             (Some e, b', fs') \<Rightarrow> ((avail, Some e), b', fs')
           | (None, b', fs') \<Rightarrow> bufio_Write_empty os avail (drop avail p) b' fs'))"

definition AllDataFitInMemory :: "Bufio \<Rightarrow> bool" where
  "AllDataFitInMemory w \<longleftrightarrow> \<not> WrittenToWrapped (bw_under w)"

text \<open>\<open>MemoryData\<close> panics when data was written to the file: \<open>None\<close>. A nil slice has no bytes.\<close>

definition MemoryData :: "OS \<Rightarrow> Bufio \<Rightarrow> Files \<Rightarrow> string option" where
  "MemoryData os w fs =
     (if \<not> AllDataFitInMemory w then None
      else case bufio_Flush os (w\<lparr>bw_under := (bw_under w)\<lparr>NextWritesToMemory := True\<rparr>\<rparr>) fs of
        (Some e, _, _) \<Rightarrow> None
      | (None, w', _) \<Rightarrow> Some (case MemoryBuffer (bw_under w') of None \<Rightarrow> [] | Some d \<Rightarrow> d))"

section \<open>Boundaries\<close>

record ActiveFile =
  af_writer :: Bufio
  af_range :: Range
  af_outputFilename :: string

datatype Uploadeable = DataFile (up_data: string) (outputFilename: string)
  | LocalFile (localFilePath: string) (outputFilename: string)

record BufferedIO =
  bio_fileType :: string
  bio_written :: bool
  bufferMazSize :: u64
  workingDir :: string
  activeFile :: "ActiveFile option"

definition DefaultBufSize :: u64 where
  "DefaultBufSize = 16 * 1024 * 1024"

definition NewBufferedIO :: "u64 \<Rightarrow> string \<Rightarrow> string \<Rightarrow> BufferedIO" where
  "NewBufferedIO bufferMaxSize dir fileType =
     \<lparr>bio_fileType = fileType, bio_written = False,
      bufferMazSize = (if bufferMaxSize = 0 then DefaultBufSize else bufferMaxSize),
      workingDir = dir, activeFile = None\<rparr>"

text \<open>\<open>%010d\<close> of a block number\<close>

definition pad10 :: "u64 \<Rightarrow> string" where
  "pad10 n = padded 10 (uint n)"

definition range_filename :: "Range \<Rightarrow> string" where
  "range_filename r = pad10 (StartBlock r) @ ''-'' @ pad10 (EndBlock r - 1)"

definition workingFilename :: "BufferedIO \<Rightarrow> Range \<Rightarrow> string" where
  "workingFilename s r = pad10 (StartBlock r) @ ''-'' @ pad10 (EndBlock r) @ ''.tmp.'' @ bio_fileType s"

definition StartBoundary :: "OS \<Rightarrow> Range \<Rightarrow> BufferedIO \<Rightarrow> GoErr option \<times> BufferedIO" where
  "StartBoundary os r s =
     (case activeFile s of
        Some a \<Rightarrow> (Some (Errorf ''unable to start a file while one (backed by %q) is already open''
                    [AStr (lf_path (mw_file (bw_under (af_writer a))))]), s)
      | None \<Rightarrow>
          (None, s\<lparr>bio_written := False,
             activeFile := Some \<lparr>af_writer = NewIntelligentWriterSize
                 (LazyOpen (os_Join os (workingDir s) (workingFilename s r))) (sint (bufferMazSize s)),
               af_range = r, af_outputFilename = range_filename r\<rparr>\<rparr>))"

definition CloseBoundary :: "OS \<Rightarrow> BufferedIO \<Rightarrow> Files \<Rightarrow> Uploadeable res option \<times> BufferedIO \<times> Files" where
  "CloseBoundary os s fs =
     (let s' = s\<lparr>activeFile := None\<rparr> in
      case activeFile s of
        None \<Rightarrow> (Some (Inl (Errorf ''no active file'' [])), s', fs)
      | Some a \<Rightarrow>
          if AllDataFitInMemory (af_writer a)
          then (map_option (\<lambda>d. Inr (DataFile d (af_outputFilename a))) (MemoryData os (af_writer a) fs), s', fs)
          else (case bufio_Flush os (af_writer a) fs of
             (Some e, w, fs') \<Rightarrow> (Some (Inl (Wrapf ''flushing buffered active writer'' [] e)), s', fs')
           | (None, w, fs') \<Rightarrow>
               (case LazyFile_Close os (mw_file (bw_under w)) of
                  Some e \<Rightarrow> (Some (Inl (Wrapf ''closing file'' [] e)), s', fs')
                | None \<Rightarrow> (Some (Inr (LocalFile (lf_path (mw_file (bw_under w))) (af_outputFilename a))), s', fs'))))"

definition BufferedIO_Write :: "OS \<Rightarrow> string \<Rightarrow> BufferedIO \<Rightarrow> Files \<Rightarrow> (nat \<times> GoErr option) \<times> BufferedIO \<times> Files" where
  "BufferedIO_Write os p s fs =
     (case activeFile s of
        None \<Rightarrow> ((0, Some (Errorf ''failed to write to active file'' [])), s, fs)
      | Some a \<Rightarrow>
          (case bufio_Write os p (af_writer a) fs of
             (r, w, fs') \<Rightarrow> (r, s\<lparr>bio_written := True, activeFile := Some (a\<lparr>af_writer := w\<rparr>)\<rparr>, fs')))"

definition IsWritten :: "BufferedIO \<Rightarrow> bool" where
  "IsWritten s = bio_written s"

text \<open>\<open>Upload\<close>: the object store gets the data or the file; it answers where the object is.\<close>

record 's ObjStore =
  st_WriteObject :: "string \<Rightarrow> string \<Rightarrow> 's \<Rightarrow> GoErr option \<times> 's"
  st_PushLocalFile :: "string \<Rightarrow> string \<Rightarrow> 's \<Rightarrow> GoErr option \<times> 's"
  st_ObjectPath :: "string \<Rightarrow> string"

fun Upload :: "'s ObjStore \<Rightarrow> Uploadeable \<Rightarrow> 's \<Rightarrow> string res \<times> 's" where
  "Upload store (DataFile d name) s =
     (case st_WriteObject store name d s of
        (Some e, s') \<Rightarrow> (Inl (Wrapf ''write object'' [] e), s')
      | (None, s') \<Rightarrow> (Inr (st_ObjectPath store name), s'))"
| "Upload store (LocalFile path name) s =
     (case st_PushLocalFile store path name s of
        (Some e, s') \<Rightarrow> (Inl (Wrapf ''pushing  object'' [] e), s')
      | (None, s') \<Rightarrow> (Inr (st_ObjectPath store name), s'))"

lemmas [writer_defs] = file_Write_def LazyFile_Write_def LazyFile_Close_def mem_Write_def bufio_Flush_def
  bufio_Write_empty_def bufio_Write_def AllDataFitInMemory_def MemoryData_def StartBoundary_def CloseBoundary_def
  BufferedIO_Write_def IsWritten_def


section \<open>What an active boundary holds\<close>

text \<open>The bytes that were written: those in the working file, then those in the buffer\<close>

definition held :: "Bufio \<Rightarrow> Files \<Rightarrow> string" where
  "held b fs = (if WrittenToWrapped (bw_under b) then getS fs (lf_path (mw_file (bw_under b))) else []) @ bw_buf b"

definition bufio_ok :: "Bufio \<Rightarrow> bool" where
  "bufio_ok b \<longleftrightarrow> bw_err b = None \<and> \<not> NextWritesToMemory (bw_under b) \<and> MemoryBuffer (bw_under b) = None
     \<and> length (bw_buf b) \<le> bw_size b \<and> lf_open (mw_file (bw_under b)) = WrittenToWrapped (bw_under b)"

text \<open>What a step of the writer keeps: its size and its path, and every other file\<close>

definition same_file :: "Bufio \<Rightarrow> Files \<Rightarrow> Bufio \<Rightarrow> Files \<Rightarrow> bool" where
  "same_file b fs b' fs' \<longleftrightarrow> bw_size b' = bw_size b \<and> lf_path (mw_file (bw_under b')) = lf_path (mw_file (bw_under b))
     \<and> (\<forall>q. q \<noteq> lf_path (mw_file (bw_under b)) \<longrightarrow> map_of fs' q = map_of fs q)"

lemma same_file_refl [simp]: "same_file b fs b fs"
  by (simp add: same_file_def)

lemma same_file_trans: "same_file b fs b' fs' \<Longrightarrow> same_file b' fs' b'' fs'' \<Longrightarrow> same_file b fs b'' fs''"
  by (simp add: same_file_def)

text \<open>A write to the file under the buffer that succeeds\<close>

lemma mem_Write_ok:
  assumes "mem_Write os p u fs = ((n, None), u', fs')" "\<not> NextWritesToMemory u"
    "lf_open (mw_file u) = WrittenToWrapped u"
  shows "WrittenToWrapped u'" "lf_open (mw_file u')" "\<not> NextWritesToMemory u'" "MemoryBuffer u' = MemoryBuffer u"
    "lf_path (mw_file u') = lf_path (mw_file u)" "n = length p"
    "getS fs' (lf_path (mw_file u)) = (if WrittenToWrapped u then getS fs (lf_path (mw_file u)) else []) @ p"
    "q \<noteq> lf_path (mw_file u) \<Longrightarrow> map_of fs' q = map_of fs q"
  using assms by (auto simp: mem_Write_def LazyFile_Write_def file_Write_def getS_def update_conv'
      split: if_splits option.splits prod.splits)

lemma bufio_Flush_ok:
  assumes "bufio_Flush os b fs = (None, b', fs')" "bufio_ok b"
  shows "bufio_ok b'" "held b' fs' = held b fs" "bw_buf b' = []" "same_file b fs b' fs'"
    "WrittenToWrapped (bw_under b') \<longleftrightarrow> WrittenToWrapped (bw_under b) \<or> bw_buf b \<noteq> []"
proof -
  have n: "bw_err b = None" using assms(2) by (simp add: bufio_ok_def)
  have all: "bufio_ok b' \<and> held b' fs' = held b fs \<and> bw_buf b' = [] \<and> same_file b fs b' fs'
     \<and> (WrittenToWrapped (bw_under b') \<longleftrightarrow> WrittenToWrapped (bw_under b) \<or> bw_buf b \<noteq> [])"
  proof (cases "bw_buf b = []")
    case True
    then have "b' = b" "fs' = fs" using assms(1) n by (simp_all add: bufio_Flush_def)
    then show ?thesis using True assms(2) by simp
  next
    case False
    obtain m e u f where w: "mem_Write os (bw_buf b) (bw_under b) fs = ((m, e), u, f)" by (metis surj_pair)
    have e: "e = None" "b' = b\<lparr>bw_buf := [], bw_under := u\<rparr>" "fs' = f"
      using assms(1) n False w by (auto simp: bufio_Flush_def split: option.splits)
    note w' = mem_Write_ok [OF w [unfolded e(1)]]
    show ?thesis using assms(2) False w' e(2,3) by (simp add: bufio_ok_def held_def same_file_def)
  qed
  then show "bufio_ok b'" "held b' fs' = held b fs" "bw_buf b' = []" "same_file b fs b' fs'"
    "WrittenToWrapped (bw_under b') \<longleftrightarrow> WrittenToWrapped (bw_under b) \<or> bw_buf b \<noteq> []" by blast+
qed

lemma bufio_Write_empty_ok:
  assumes "bufio_Write_empty os nn p b fs = ((n, None), b', fs')" "bufio_ok b" "bw_buf b = []"
  shows "bufio_ok b' \<and> held b' fs' = held b fs @ p \<and> n = nn + length p \<and> same_file b fs b' fs'
    \<and> (WrittenToWrapped (bw_under b') \<longleftrightarrow> WrittenToWrapped (bw_under b) \<or> bw_size b < length p)"
proof (cases "length p \<le> bw_size b")
  case True
  then have "n = nn + length p" "b' = b\<lparr>bw_buf := p\<rparr>" "fs' = fs" using assms(1) by (simp_all add: bufio_Write_empty_def)
  then show ?thesis using True assms(2,3) by (simp add: bufio_ok_def held_def same_file_def)
next
  case False
  obtain m e u f where w: "mem_Write os p (bw_under b) fs = ((m, e), u, f)" by (metis surj_pair)
  have e: "e = None" "n = nn + length p" "b' = b\<lparr>bw_under := u\<rparr>" "fs' = f"
    using assms(1) False w by (auto simp: bufio_Write_empty_def split: option.splits)
  note w' = mem_Write_ok [OF w [unfolded e(1)]]
  show ?thesis using assms(2,3) False w' e by (simp add: bufio_ok_def held_def same_file_def)
qed

text \<open>A write that succeeds is appended; the file is used from the first write on that overflows the
  buffer.\<close>

lemma bufio_Write_ok:
  assumes "bufio_Write os p b fs = ((n, None), b', fs')" "bufio_ok b"
    and mem: "\<not> WrittenToWrapped (bw_under b) \<longrightarrow> length (held b fs) \<le> bw_size b"
  shows "bufio_ok b' \<and> held b' fs' = held b fs @ p \<and> n = length p \<and> same_file b fs b' fs'
    \<and> (WrittenToWrapped (bw_under b') \<longleftrightarrow> WrittenToWrapped (bw_under b) \<or> bw_size b < length (held b fs @ p))"
proof -
  have ok: "bw_err b = None" "length (bw_buf b) \<le> bw_size b" using assms(2) by (simp_all add: bufio_ok_def)
  have h: "\<not> WrittenToWrapped (bw_under b) \<Longrightarrow> held b fs = bw_buf b" by (simp add: held_def)
  let ?avail = "bw_size b - length (bw_buf b)"
  show ?thesis
  proof (cases "length p \<le> ?avail")
    case True
    then have "n = length p" "b' = b\<lparr>bw_buf := bw_buf b @ p\<rparr>" "fs' = fs"
      using assms(1) ok by (simp_all add: bufio_Write_def Let_def)
    then show ?thesis using True ok assms(2) h by (auto simp: bufio_ok_def held_def same_file_def)
  next
    case False
    show ?thesis
    proof (cases "bw_buf b = []")
      case True
      then have "bufio_Write_empty os 0 p b fs = ((n, None), b', fs')"
        using assms(1) False ok by (simp add: bufio_Write_def Let_def)
      from bufio_Write_empty_ok [OF this assms(2) True] show ?thesis using False True h by auto
    next
      case nonempty: False
      let ?b = "b\<lparr>bw_buf := bw_buf b @ take ?avail p\<rparr>"
      obtain r b1 fs1 where f: "bufio_Flush os ?b fs = (r, b1, fs1)" by (metis surj_pair)
      have r: "r = None" "bufio_Write_empty os ?avail (drop ?avail p) b1 fs1 = ((n, None), b', fs')"
        using assms(1) False nonempty ok f by (auto simp: bufio_Write_def Let_def split: option.splits)
      have ok': "bufio_ok ?b" using assms(2) False by (simp add: bufio_ok_def)
      note F = bufio_Flush_ok [OF f [unfolded r(1)] ok']
      have E: "bufio_ok b' \<and> held b' fs' = held b1 fs1 @ drop ?avail p \<and> n = ?avail + length (drop ?avail p)
          \<and> same_file b1 fs1 b' fs' \<and> (WrittenToWrapped (bw_under b') \<longleftrightarrow> WrittenToWrapped (bw_under b1) \<or> bw_size b1 < length (drop ?avail p))"
        by (rule bufio_Write_empty_ok [OF r(2) F(1,3)])
      have "held ?b fs = held b fs @ take ?avail p" by (simp add: held_def)
      moreover have "same_file b fs b1 fs1" using F(4) by (simp add: same_file_def)
      moreover have "WrittenToWrapped (bw_under b) \<or> bw_size b < length (held b fs @ p)"
        by (cases "WrittenToWrapped (bw_under b)") (use h False ok(2) in simp_all)
      ultimately show ?thesis using E F nonempty False h same_file_trans [of b fs b1 fs1 b' fs'] by auto
    qed
  qed
qed


section \<open>What is uploaded for a boundary\<close>

text \<open>Writes to the active boundary, up to the first that fails\<close>

fun bio_writes :: "OS \<Rightarrow> string list \<Rightarrow> BufferedIO \<Rightarrow> Files \<Rightarrow> bool \<times> BufferedIO \<times> Files" where
  "bio_writes os [] s fs = (True, s, fs)"
| "bio_writes os (p # ps) s fs =
     (case BufferedIO_Write os p s fs of
        ((n, None), s', fs') \<Rightarrow> bio_writes os ps s' fs'
      | ((n, Some e), s', fs') \<Rightarrow> (False, s', fs'))"

text \<open>The active boundary holds \<open>d\<close>: in memory if it fits, else in its file\<close>

definition active :: "BufferedIO \<Rightarrow> Files \<Rightarrow> ActiveFile \<Rightarrow> string \<Rightarrow> bool" where
  "active s fs a d \<longleftrightarrow> activeFile s = Some a \<and> bufio_ok (af_writer a) \<and> held (af_writer a) fs = d
     \<and> (WrittenToWrapped (bw_under (af_writer a)) \<longleftrightarrow> bw_size (af_writer a) < length d)"

definition af_path :: "ActiveFile \<Rightarrow> string" where
  "af_path a = lf_path (mw_file (bw_under (af_writer a)))"

lemma BufferedIO_Write_active:
  assumes "active s fs a d" "BufferedIO_Write os p s fs = ((n, None), s', fs')"
  shows "\<exists>a'. active s' fs' a' (d @ p) \<and> af_path a' = af_path a \<and> af_outputFilename a' = af_outputFilename a
    \<and> bw_size (af_writer a') = bw_size (af_writer a) \<and> bio_written s' \<and> (\<forall>q. q \<noteq> af_path a \<longrightarrow> map_of fs' q = map_of fs q)"
proof -
  obtain r w f where w: "bufio_Write os p (af_writer a) fs = (r, w, f)" by (metis surj_pair)
  have r: "r = (n, None)" "s' = s\<lparr>bio_written := True, activeFile := Some (a\<lparr>af_writer := w\<rparr>)\<rparr>" "fs' = f"
    using assms w by (auto simp: active_def BufferedIO_Write_def)
  have "bufio_ok w \<and> held w fs' = held (af_writer a) fs @ p \<and> n = length p \<and> same_file (af_writer a) fs w fs'
    \<and> (WrittenToWrapped (bw_under w) \<longleftrightarrow> WrittenToWrapped (bw_under (af_writer a))
        \<or> bw_size (af_writer a) < length (held (af_writer a) fs @ p))"
    using assms(1) by (intro bufio_Write_ok [OF w [unfolded r(1), folded r(3)]]) (auto simp: active_def)
  then show ?thesis using assms(1) r(2)
    by (intro exI [of _ "a\<lparr>af_writer := w\<rparr>"]) (auto simp: active_def af_path_def same_file_def)
qed

lemma bio_writes_active:
  "active s fs a d \<Longrightarrow> bio_writes os ps s fs = (True, s', fs') \<Longrightarrow>
   \<exists>a'. active s' fs' a' (d @ concat ps) \<and> af_path a' = af_path a \<and> af_outputFilename a' = af_outputFilename a
     \<and> bw_size (af_writer a') = bw_size (af_writer a) \<and> bio_written s' = (bio_written s \<or> ps \<noteq> [])
     \<and> (\<forall>q. q \<noteq> af_path a \<longrightarrow> map_of fs' q = map_of fs q)"
proof (induction ps arbitrary: s fs a d)
  case (Cons p ps)
  obtain n r s1 fs1 where w: "BufferedIO_Write os p s fs = ((n, r), s1, fs1)" by (metis surj_pair)
  then have r: "r = None" "bio_writes os ps s1 fs1 = (True, s', fs')"
    using Cons.prems(2) by (auto split: option.splits)
  from BufferedIO_Write_active [OF Cons.prems(1) w [unfolded r(1)]] obtain a1 where a1:
    "active s1 fs1 a1 (d @ p)" "af_path a1 = af_path a" "af_outputFilename a1 = af_outputFilename a"
    "bw_size (af_writer a1) = bw_size (af_writer a)" "bio_written s1"
    "\<forall>q. q \<noteq> af_path a \<longrightarrow> map_of fs1 q = map_of fs q" by blast
  from Cons.IH [OF a1(1) r(2)] a1 show ?case by auto
qed auto

lemma StartBoundary_active:
  assumes "StartBoundary os r s = (None, s')"
  shows "\<exists>a. active s' fs a [] \<and> af_path a = os_Join os (workingDir s) (workingFilename s r)
    \<and> af_outputFilename a = range_filename r \<and> \<not> bio_written s'
    \<and> bw_size (af_writer a) = (if sint (bufferMazSize s) \<le> 0 then 4096 else nat (sint (bufferMazSize s)))"
  using assms by (intro exI [of _ "the (activeFile s')"])
    (auto simp: StartBoundary_def active_def af_path_def bufio_ok_def held_def LazyOpen_def
      NewIntelligentWriterSize_def newMemoryBufferedWriter_def split: option.splits)

lemma MemoryData_held:
  assumes "bufio_ok b" "\<not> WrittenToWrapped (bw_under b)"
  shows "MemoryData os b fs = Some (held b fs)"
  using assms by (auto simp: MemoryData_def AllDataFitInMemory_def bufio_Flush_def mem_Write_def bufio_ok_def held_def)

lemma CloseBoundary_active:
  assumes "active s fs a d" "CloseBoundary os s fs = (res, s', fs')"
  shows "activeFile s' = None" "bio_written s' = bio_written s"
    "length d \<le> bw_size (af_writer a) \<Longrightarrow> res = Some (Inr (DataFile d (af_outputFilename a))) \<and> fs' = fs"
    "bw_size (af_writer a) < length d \<Longrightarrow> res = Some x \<Longrightarrow> x = Inr u \<Longrightarrow>
       u = LocalFile (af_path a) (af_outputFilename a) \<and> getS fs' (af_path a) = d"
    "bw_size (af_writer a) < length d \<Longrightarrow> res \<noteq> None"
    "res = Some (Inr v) \<Longrightarrow> q \<noteq> af_path a \<Longrightarrow> map_of fs' q = map_of fs q"
proof -
  have a: "activeFile s = Some a" "bufio_ok (af_writer a)" "held (af_writer a) fs = d"
    "WrittenToWrapped (bw_under (af_writer a)) \<longleftrightarrow> bw_size (af_writer a) < length d"
    using assms(1) by (simp_all add: active_def)
  show "activeFile s' = None" "bio_written s' = bio_written s"
    using assms(2) a(1) by (auto simp: CloseBoundary_def Let_def split: if_splits prod.splits option.splits)
  show "res = Some (Inr (DataFile d (af_outputFilename a))) \<and> fs' = fs" if "length d \<le> bw_size (af_writer a)"
    using that assms(2) a MemoryData_held [OF a(2), of os fs] by (simp add: CloseBoundary_def Let_def AllDataFitInMemory_def)
  obtain r w f where w: "bufio_Flush os (af_writer a) fs = (r, w, f)" by (metis surj_pair)
  have big: "res = (case r of Some e \<Rightarrow> Some (Inl (Wrapf ''flushing buffered active writer'' [] e))
      | None \<Rightarrow> (case LazyFile_Close os (mw_file (bw_under w)) of
          Some e \<Rightarrow> Some (Inl (Wrapf ''closing file'' [] e))
        | None \<Rightarrow> Some (Inr (LocalFile (lf_path (mw_file (bw_under w))) (af_outputFilename a)))))" "fs' = f"
    if "bw_size (af_writer a) < length d"
    using that assms(2) a w by (simp_all add: CloseBoundary_def Let_def AllDataFitInMemory_def split: option.splits)
  show "res \<noteq> None" if "bw_size (af_writer a) < length d"
    using big(1) [OF that] by (simp split: option.splits)
  show "u = LocalFile (af_path a) (af_outputFilename a) \<and> getS fs' (af_path a) = d"
    if "bw_size (af_writer a) < length d" "res = Some x" "x = Inr u"
  proof -
    have r: "r = None" "u = LocalFile (lf_path (mw_file (bw_under w))) (af_outputFilename a)"
      using big(1) [OF that(1)] that(2,3) by (auto split: option.splits)
    note F = bufio_Flush_ok [OF w [unfolded r(1)] a(2)]
    have "getS f (lf_path (mw_file (bw_under w))) = d" using F(2,3,5) a(3,4) that(1) by (simp add: held_def)
    then show ?thesis using F(4) r(2) big(2) [OF that(1)] by (simp add: same_file_def af_path_def)
  qed
  show "map_of fs' q = map_of fs q" if "res = Some (Inr v)" "q \<noteq> af_path a"
  proof (cases "bw_size (af_writer a) < length d")
    case True
    then have r: "r = None" using big(1) that(1) by (auto split: option.splits)
    note F = bufio_Flush_ok [OF w [unfolded r] a(2)]
    then show ?thesis using big(2) [OF True] that(2) by (simp add: same_file_def af_path_def)
  next
    case False
    then show ?thesis using \<open>length d \<le> bw_size (af_writer a) \<Longrightarrow> res = Some (Inr (DataFile d (af_outputFilename a))) \<and> fs' = fs\<close>
      by simp
  qed
qed

text \<open>
  C23. What is uploaded for a boundary is exactly what was written to it: when every write succeeded, closing
  never panics, data that fits the buffer is handed over from memory with no file touched, and larger
  data is, when closing succeeds, the content of the working file; other files are never changed.
\<close>

theorem boundary_uploads_what_was_written:
  assumes "StartBoundary os r s = (None, s1)" "bio_writes os ps s1 fs = (True, s2, fs2)"
    "CloseBoundary os s2 fs2 = (res, s3, fs3)"
    and path: "path = os_Join os (workingDir s) (workingFilename s r)"
    and room: "room = (if sint (bufferMazSize s) \<le> 0 then 4096 else nat (sint (bufferMazSize s)))"
  shows "activeFile s3 = None \<and> (IsWritten s3 \<longleftrightarrow> ps \<noteq> []) \<and> res \<noteq> None
    \<and> (length (concat ps) \<le> room \<longrightarrow> res = Some (Inr (DataFile (concat ps) (range_filename r))))
    \<and> (\<forall>u. room < length (concat ps) \<and> res = Some (Inr u) \<longrightarrow>
         u = LocalFile path (range_filename r) \<and> getS fs3 path = concat ps)
    \<and> (\<forall>q. is_ok (the res) \<and> q \<noteq> path \<longrightarrow> map_of fs3 q = map_of fs q)"
proof -
  from StartBoundary_active [OF assms(1), of fs] obtain a where a: "active s1 fs a []" "af_path a = path"
    "af_outputFilename a = range_filename r" "\<not> bio_written s1" "bw_size (af_writer a) = room"
    unfolding path room by blast
  from bio_writes_active [OF a(1) assms(2)] obtain b where b: "active s2 fs2 b (concat ps)" "af_path b = path"
    "af_outputFilename b = range_filename r" "bw_size (af_writer b) = room" "bio_written s2 = (ps \<noteq> [])"
    "\<forall>q. q \<noteq> path \<longrightarrow> map_of fs2 q = map_of fs q" using a by auto
  note C = CloseBoundary_active [OF b(1) assms(3)]
  have "res \<noteq> None" using C(3,5) b(4) by (cases "length (concat ps) \<le> room") auto
  moreover have "map_of fs3 q = map_of fs q" if "is_ok (the res)" "q \<noteq> path" for q
  proof -
    obtain x where x: "res = Some x" using \<open>res \<noteq> None\<close> by blast
    with that(1) obtain v where "res = Some (Inr v)" by (cases x) auto
    from C(6) [OF this] that(2) b(2,6) show ?thesis by simp
  qed
  ultimately show ?thesis using C(1-4) b(2-5) by (auto simp: IsWritten_def)
qed


text \<open>A buffer of four bytes: the data goes to the working file.\<close>

definition ex_os :: OS where
  "ex_os = \<lparr>os_Join = (\<lambda>a b. a @ ''/'' @ b), os_Dir = id, os_MkdirAll = (\<lambda>_. None), os_Create = (\<lambda>_. None),
     os_Write = (\<lambda>_ _ _. None), os_Close = (\<lambda>_. None)\<rparr>"

definition ex_range :: Range where
  "ex_range = \<lparr>StartBlock = 0, EndBlock = 10\<rparr>"

definition ex_started :: BufferedIO where
  "ex_started = snd (StartBoundary ex_os ex_range (NewBufferedIO 4 ''work'' ''csv''))"

definition ex_written :: "bool \<times> BufferedIO \<times> Files" where
  "ex_written = bio_writes ex_os [''first'', ''second''] ex_started []"

theorem boundary_uploads_what_was_written_witness:
  "\<exists>u s fs. CloseBoundary ex_os (fst (snd ex_written)) (snd (snd ex_written)) = (Some (Inr u), s, fs)
    \<and> u = LocalFile ''work/0000000000-0000000010.tmp.csv'' ''0000000000-0000000009''
    \<and> getS fs ''work/0000000000-0000000010.tmp.csv'' = ''firstsecond''"
proof -
  let ?C = "CloseBoundary ex_os (fst (snd ex_written)) (snd (snd ex_written))" and ?s = "NewBufferedIO 4 ''work'' ''csv''"
  have c: "is_ok (the (fst ?C))" by code_simp
  have w: "fst ex_written" by code_simp
  have st: "fst (StartBoundary ex_os ex_range ?s) = None" by code_simp
  have "StartBoundary ex_os ex_range ?s = (None, ex_started)"
    using st by (simp add: ex_started_def prod_eq_iff)
  moreover have "bio_writes ex_os [''first'', ''second''] ex_started [] = (True, fst (snd ex_written), snd (snd ex_written))"
    using w by (simp add: ex_written_def prod_eq_iff)
  moreover obtain x s fs where x: "?C = (x, s, fs)" by (metis surj_pair)
  moreover have "''work/0000000000-0000000010.tmp.csv'' = os_Join ex_os (workingDir ?s) (workingFilename ?s ex_range)"
    "(4 :: nat) = (if sint (bufferMazSize ?s) \<le> 0 then 4096 else nat (sint (bufferMazSize ?s)))"
    "range_filename ex_range = ''0000000000-0000000009''" by code_simp+
  ultimately have B: "x \<noteq> None" "\<forall>u. 4 < length (concat [''first'', ''second'']) \<and> x = Some (Inr u) \<longrightarrow>
      u = LocalFile ''work/0000000000-0000000010.tmp.csv'' ''0000000000-0000000009''
      \<and> getS fs ''work/0000000000-0000000010.tmp.csv'' = concat [''first'', ''second'']"
    using boundary_uploads_what_was_written [of ex_os ex_range ?s ex_started "[''first'', ''second'']" "[]"
        "fst (snd ex_written)" "snd (snd ex_written)" x s fs "''work/0000000000-0000000010.tmp.csv''" 4] by metis+
  obtain y where y: "x = Some y" using B(1) by blast
  then obtain u where "y = Inr u" using c x by (cases y) auto
  then show ?thesis using x y B(2) by simp
qed

end
