(* ===== verification/Bundler.thy ===== *)
theory Bundler
  imports Writer
begin

text \<open>
  The bundler of \<open>src/db_changes/bundler/bundler.go\<close>, which cuts the rows of a table into files of
  \<open>blockCount\<close> blocks, and the encoders of \<open>encoder.go\<close>. It uses a writer only through its
  interface: a record of methods over any state. The locale \<open>boundary_writer\<close> is the contract of a
  writer, which \<open>BufferedIO\<close> meets; under it a file that is queued holds what was written to its
  boundary. The upload queue is the list of the files that were put in it.
\<close>

section \<open>The state\<close>

record 'w WriterI =
  wi_StartBoundary :: "Range \<Rightarrow> 'w \<Rightarrow> GoErr option \<times> 'w"
  wi_CloseBoundary :: "'w \<Rightarrow> Uploadeable res option \<times> 'w"
  wi_Write :: "string \<Rightarrow> 'w \<Rightarrow> (nat \<times> GoErr option) \<times> 'w"
  wi_IsWritten :: "'w \<Rightarrow> bool"

record BoundaryFile =
  bf_name :: Range
  bf_file :: Uploadeable

record 'w Bundler =
  blockCount :: u64
  bn_stopBlock :: u64
  boundaryWriter :: 'w
  Header :: string
  HeaderWritten :: bool
  activeBoundary :: "Range option"
  uploadQueue :: "BoundaryFile list"

definition NewBundler :: "u64 \<Rightarrow> u64 \<Rightarrow> 'w \<Rightarrow> string \<Rightarrow> 'w Bundler" where
  "NewBundler n stop w header =
     \<lparr>blockCount = n, bn_stopBlock = stop, boundaryWriter = w, Header = header, HeaderWritten = False,
      activeBoundary = None, uploadQueue = []\<rparr>"

definition ErrStopBlockReached :: GoErr where
  "ErrStopBlockReached = Errorf ''stop block reached'' []"

section \<open>Boundaries\<close>

text \<open>\<open>uint64\<close> arithmetic wraps; a size of 0 is a division by zero, so the callers check it.\<close>

definition newBoundary :: "u64 \<Rightarrow> u64 \<Rightarrow> u64 \<Rightarrow> Range" where
  "newBoundary blockCoun stop containingBlockNum =
     (let start = containingBlockNum - containingBlockNum mod blockCoun; end = start + blockCoun
      in \<lparr>StartBlock = start, EndBlock = (if stop < end then stop else end)\<rparr>)"

definition computeEndBlock :: "u64 \<Rightarrow> u64 \<Rightarrow> u64" where
  "computeEndBlock startBlockNum sz = (startBlockNum + sz) - (startBlockNum + sz) mod sz"

text \<open>The loop of \<open>boundariesToSkip\<close> from \<open>iter\<close>: near the largest block number \<open>endBlock\<close> wraps and it may
  not end.\<close>

partial_function (option) skip_from :: "u64 \<Rightarrow> u64 \<Rightarrow> u64 \<Rightarrow> Range list option" where
  "skip_from sz blockNum iter =
     (let endBlock = computeEndBlock iter sz in
      if blockNum \<ge> endBlock
      then Option.bind (skip_from sz blockNum endBlock)
             (\<lambda>rs. Some (\<lparr>StartBlock = iter, EndBlock = endBlock\<rparr> # rs))
      else Some [])"

declare skip_from.simps [code]

definition boundariesToSkip :: "Range \<Rightarrow> u64 \<Rightarrow> u64 \<Rightarrow> Range list option" where
  "boundariesToSkip lastBoundary blockNum sz = skip_from sz blockNum (EndBlock lastBoundary)"

section \<open>Starting and stopping a boundary\<close>

definition Bundler_Start :: "'w WriterI \<Rightarrow> u64 \<Rightarrow> 'w Bundler \<Rightarrow> GoErr option \<times> 'w Bundler" where
  "Bundler_Start wi blockNum b =
     (let r = newBoundary (blockCount b) (bn_stopBlock b) blockNum; b1 = b\<lparr>activeBoundary := Some r\<rparr> in
      case wi_StartBoundary wi r (boundaryWriter b1) of
        (Some e, w) \<Rightarrow> (Some (Wrapf ''start file'' [] e), b1\<lparr>boundaryWriter := w\<rparr>)
      | (None, w) \<Rightarrow> (None, b1\<lparr>boundaryWriter := w\<rparr>))"

text \<open>The writer may panic (\<open>None\<close>). The queued name is the active boundary.\<close>

definition Bundler_stop :: "'w WriterI \<Rightarrow> 'w Bundler \<Rightarrow> (GoErr option \<times> 'w Bundler) option" where
  "Bundler_stop wi b =
     (case wi_CloseBoundary wi (boundaryWriter b) of
        (None, w) \<Rightarrow> None
      | (Some (Inl e), w) \<Rightarrow> Some (Some (Wrapf ''closing file'' [] e), b\<lparr>boundaryWriter := w\<rparr>)
      | (Some (Inr file), w) \<Rightarrow>
          (let b1 = b\<lparr>boundaryWriter := w\<rparr>;
               b2 = (if wi_IsWritten wi w
                     then b1\<lparr>uploadQueue := uploadQueue b1 @ [\<lparr>bf_name = the (activeBoundary b1), bf_file = file\<rparr>]\<rparr>
                     else b1)
           in Some (None, b2\<lparr>HeaderWritten := False, activeBoundary := None\<rparr>)))"

text \<open>The boundaries without rows that lie between\<close>

fun skip_boundaries :: "'w WriterI \<Rightarrow> Range list \<Rightarrow> 'w Bundler \<Rightarrow> (GoErr option \<times> 'w Bundler) option" where
  "skip_boundaries wi [] b = Some (None, b)"
| "skip_boundaries wi (r # rs) b =
     (case Bundler_Start wi (StartBlock r) b of
        (Some e, b1) \<Rightarrow> Some (Some (Wrapf ''start skipping boundary'' [] e), b1)
      | (None, b1) \<Rightarrow>
          (case Bundler_stop wi b1 of
             None \<Rightarrow> None
           | Some (Some e, b2) \<Rightarrow> Some (Some (Wrapf ''stop skipping boundary'' [] e), b2)
           | Some (None, b2) \<Rightarrow> skip_boundaries wi rs b2))"

text \<open>\<open>Roll\<close>: \<open>None\<close> when it does not return: no active boundary, a size of 0, a loop without end or a panic
  of the writer.\<close>

definition Roll :: "'w WriterI \<Rightarrow> u64 \<Rightarrow> 'w Bundler \<Rightarrow> (bool res \<times> 'w Bundler) option" where
  "Roll wi blockNum b =
     (case activeBoundary b of
        None \<Rightarrow> None
      | Some r \<Rightarrow>
          if range_Contains r blockNum then Some (Inr False, b)
          else if blockCount b = 0 then None
          else (case boundariesToSkip r blockNum (blockCount b) of
            None \<Rightarrow> None
          | Some boundaries \<Rightarrow>
            (case Bundler_stop wi b of
               None \<Rightarrow> None
             | Some (Some e, b1) \<Rightarrow> Some (Inl (Wrapf ''stop active boundary'' [] e), b1)
             | Some (None, b1) \<Rightarrow>
               (case skip_boundaries wi boundaries b1 of
                  None \<Rightarrow> None
                | Some (Some e, b2) \<Rightarrow> Some (Inl e, b2)
                | Some (None, b2) \<Rightarrow>
                  if blockNum \<ge> bn_stopBlock b2 then Some (Inl ErrStopBlockReached, b2)
                  else (case Bundler_Start wi blockNum b2 of
                    (Some e, b3) \<Rightarrow> Some (Inl (Wrapf ''start active boundary'' [] e), b3)
                  | (None, b3) \<Rightarrow> Some (Inr True, b3))))))"

text \<open>\<open>uploadBoundary\<close>: what the queue does with each file\<close>

definition uploadBoundary :: "'s ObjStore \<Rightarrow> BoundaryFile \<Rightarrow> 's \<Rightarrow> BoundaryFile res \<times> 's" where
  "uploadBoundary store bf s =
     (case Upload store (bf_file bf) s of
        (Inl e, s') \<Rightarrow> (Inl (Wrapf ''unable to upload'' [] e), s')
      | (Inr path, s') \<Rightarrow> (Inr bf, s'))"

section \<open>Encoders\<close>

definition CSVEncode :: "string gomap \<Rightarrow> string" where
  "CSVEncode message = joinS '','' (map (getS message) (sort (keys message))) @ [CHR 0x0A]"

text \<open>\<open>json.Marshal\<close> of the message is the library's.\<close>

definition JSONLEncode :: "('m \<Rightarrow> string res) \<Rightarrow> 'm \<Rightarrow> string res" where
  "JSONLEncode marshal message =
     (case marshal message of Inl e \<Rightarrow> Inl (Wrapf ''json marshal'' [] e) | Inr d \<Rightarrow> Inr (d @ [CHR 0x0A]))"

section \<open>The loop of the skipped boundaries\<close>

lemma computeEndBlock_unat:
  assumes "0 < sz" "unat i + unat sz < 2 ^ 64"
  shows "unat (computeEndBlock i sz) = (unat i + unat sz) - (unat i + unat sz) mod unat sz"
    "i < computeEndBlock i sz"
proof -
  have plus: "unat (i + sz) = unat i + unat sz" using assms(2) by (simp add: unat_word_ariths(1))
  have m: "unat ((i + sz) mod sz) = (unat i + unat sz) mod unat sz" by (simp add: unat_mod_distrib plus)
  have "(i + sz) mod sz \<le> i + sz" using word_le_nat_alt m plus mod_less_eq_dividend by metis
  then show e: "unat (computeEndBlock i sz) = (unat i + unat sz) - (unat i + unat sz) mod unat sz"
    unfolding computeEndBlock_def by (simp add: unat_sub plus m)
  have "0 < unat sz" using assms(1) by (simp add: word_less_nat_alt)
  then have "(unat i + unat sz) mod unat sz < unat sz" by simp
  then show "i < computeEndBlock i sz" unfolding word_less_nat_alt e by linarith
qed

text \<open>Adjacent ranges that start at \<open>i\<close>, each ending at the next multiple of the size\<close>

fun tiles :: "u64 \<Rightarrow> u64 \<Rightarrow> Range list \<Rightarrow> bool" where
  "tiles sz i [] = True"
| "tiles sz i (r # rs) = (StartBlock r = i \<and> i < EndBlock r \<and> unat (EndBlock r) mod unat sz = 0
     \<and> unat (EndBlock r) \<le> unat i + unat sz \<and> tiles sz (EndBlock r) rs)"

lemma skip_from_tiles:
  assumes "0 < sz" "unat blockNum + unat sz < 2 ^ 64" "i \<le> blockNum + sz" "unat i + unat sz < 2 ^ 64"
  shows "\<exists>rs. skip_from sz blockNum i = Some rs \<and> tiles sz i rs
    \<and> blockNum < computeEndBlock (last (i # map EndBlock rs)) sz
    \<and> (\<forall>r \<in> set rs. EndBlock r \<le> blockNum)"
  using assms(3,4)
proof (induction "2 ^ 64 - unat i" arbitrary: i rule: less_induct)
  case less
  let ?e = "computeEndBlock i sz"
  note e = computeEndBlock_unat [OF assms(1) less.prems(2)]
  show ?case
  proof (cases "blockNum \<ge> ?e")
    case False
    then show ?thesis by (intro exI [of _ "[]"]) (simp add: skip_from.simps Let_def)
  next
    case True
    have top: "unat i < 2 ^ 64" using less.prems(2) by simp
    have lt: "unat i < unat ?e" using e(2) by (simp add: word_less_nat_alt)
    have "unat ?e + unat sz < 2 ^ 64" using True assms(2) by (simp add: word_le_nat_alt)
    moreover have "?e \<le> blockNum + sz" using True assms(2) by (simp add: word_le_nat_alt unat_word_ariths(1))
    ultimately obtain rs where rs: "skip_from sz blockNum ?e = Some rs" "tiles sz ?e rs"
      "blockNum < computeEndBlock (last (?e # map EndBlock rs)) sz" "\<forall>r \<in> set rs. EndBlock r \<le> blockNum"
      using less.hyps [of ?e] diff_less_mono2 [OF lt top] by blast
    have "unat ?e mod unat sz = 0" unfolding e(1) by (metis minus_mod_eq_div_mult mod_mult_self2_is_0)
    moreover have "unat ?e \<le> unat i + unat sz" unfolding e(1) by simp
    ultimately show ?thesis using rs True e(2)
      by (intro exI [of _ "\<lparr>StartBlock = i, EndBlock = ?e\<rparr> # rs"]) (simp add: skip_from.simps [of sz blockNum i] Let_def)
  qed
qed


lemma newBoundary_contains:
  assumes "0 < sz" "unat b + unat sz < 2 ^ 64" "b < stop"
  shows "range_Contains (newBoundary sz stop b) b" "unat (StartBlock (newBoundary sz stop b)) mod unat sz = 0"
    "EndBlock (newBoundary sz stop b) \<le> stop"
    "unat (EndBlock (newBoundary sz stop b)) \<le> unat (StartBlock (newBoundary sz stop b)) + unat sz"
proof -
  let ?s = "b - b mod sz"
  have le: "b mod sz \<le> b" by (simp add: word_le_nat_alt unat_mod_distrib)
  have s: "unat ?s = unat b - unat b mod unat sz" using le by (simp add: unat_sub unat_mod_distrib)
  have pos: "0 < unat sz" using assms(1) by (simp add: word_less_nat_alt)
  have e: "unat (?s + sz) = unat ?s + unat sz" using assms(2) s by (simp add: unat_word_ariths(1))
  have m: "unat b mod unat sz < unat sz" using pos by simp
  have "?s \<le> b" using s by (simp add: word_le_nat_alt)
  moreover have "b < ?s + sz" unfolding word_less_nat_alt e s using m by linarith
  ultimately show "range_Contains (newBoundary sz stop b) b"
    using assms(3) by (simp add: newBoundary_def Let_def range_Contains_def)
  show "unat (StartBlock (newBoundary sz stop b)) mod unat sz = 0"
    unfolding newBoundary_def Let_def by (simp add: s flip: minus_mod_eq_div_mult)
  show "EndBlock (newBoundary sz stop b) \<le> stop" by (auto simp: newBoundary_def Let_def not_less)
  show "unat (EndBlock (newBoundary sz stop b)) \<le> unat (StartBlock (newBoundary sz stop b)) + unat sz"
    using e by (auto simp: newBoundary_def Let_def word_less_nat_alt)
qed

section \<open>The contract of a writer\<close>

text \<open>\<open>idle\<close>: no boundary is active; \<open>holds w d\<close>: one is, and \<open>d\<close> was written to it; \<open>data u w\<close>: the bytes an
  upload of \<open>u\<close> sends. Starting a boundary and closing an empty one touch no file.\<close>

locale boundary_writer =
  fixes wi :: "'w WriterI"
    and idle :: "'w \<Rightarrow> bool"
    and holds :: "'w \<Rightarrow> string \<Rightarrow> bool"
    and data :: "Uploadeable \<Rightarrow> 'w \<Rightarrow> string"
  assumes start_ok: "idle w \<Longrightarrow> \<exists>w'. wi_StartBoundary wi r w = (None, w') \<and> holds w' [] \<and> \<not> wi_IsWritten wi w' \<and> data u w' = data u w"
    and write_ok: "holds w d \<Longrightarrow> wi_Write wi p w = ((n, None), w') \<Longrightarrow> holds w' (d @ p) \<and> wi_IsWritten wi w'"
    and close_ok: "holds w d \<Longrightarrow> wi_CloseBoundary wi w = (Some (Inr u), w') \<Longrightarrow>
        idle w' \<and> data u w' = d \<and> wi_IsWritten wi w' = wi_IsWritten wi w"
    and close_empty: "holds w [] \<Longrightarrow> \<exists>u w'. wi_CloseBoundary wi w = (Some (Inr u), w') \<and> (\<forall>v. data v w' = data v w)"
begin

text \<open>Boundaries without rows queue nothing and leave every file alone.\<close>

lemma skip_boundaries_ok:
  "idle (boundaryWriter b) \<Longrightarrow> \<exists>b'. skip_boundaries wi rs b = Some (None, b') \<and> idle (boundaryWriter b')
     \<and> uploadQueue b' = uploadQueue b \<and> blockCount b' = blockCount b \<and> bn_stopBlock b' = bn_stopBlock b
     \<and> Header b' = Header b \<and> (HeaderWritten b' \<longrightarrow> HeaderWritten b)
     \<and> (\<forall>u. data u (boundaryWriter b') = data u (boundaryWriter b))"
proof (induction rs arbitrary: b)
  case (Cons r rs)
  let ?r = "newBoundary (blockCount b) (bn_stopBlock b) (StartBlock r)"
  obtain w1 where w1: "wi_StartBoundary wi ?r (boundaryWriter b) = (None, w1)" "holds w1 []" "\<not> wi_IsWritten wi w1"
    using start_ok [OF Cons.prems, of ?r] by blast
  have d1: "data u w1 = data u (boundaryWriter b)" for u
    using start_ok [OF Cons.prems, of ?r u] w1(1) by auto
  obtain u w2 where w2: "wi_CloseBoundary wi w1 = (Some (Inr u), w2)" "\<forall>v. data v w2 = data v w1"
    using close_empty [OF w1(2)] by blast
  have c: "idle w2" "\<not> wi_IsWritten wi w2" using close_ok [OF w1(2) w2(1)] w1(3) by simp_all
  let ?b = "b\<lparr>boundaryWriter := w2, HeaderWritten := False, activeBoundary := None\<rparr>"
  from Cons.IH [of ?b] c(1) obtain b' where "skip_boundaries wi rs ?b = Some (None, b')" "idle (boundaryWriter b')"
    "uploadQueue b' = uploadQueue ?b" "blockCount b' = blockCount ?b" "bn_stopBlock b' = bn_stopBlock ?b"
    "Header b' = Header ?b" "HeaderWritten b' \<longrightarrow> HeaderWritten ?b"
    "\<forall>u. data u (boundaryWriter b') = data u (boundaryWriter ?b)" by auto
  then show ?case using w1(1) w2 c(2) d1
    by (simp add: Bundler_Start_def Bundler_stop_def Let_def)
qed auto

lemma stop_ok:
  assumes "holds (boundaryWriter b) d" "Bundler_stop wi b = Some (None, b')"
  shows "\<exists>u. idle (boundaryWriter b') \<and> data u (boundaryWriter b') = d \<and> \<not> HeaderWritten b'
    \<and> uploadQueue b' = uploadQueue b @ (if wi_IsWritten wi (boundaryWriter b)
         then [\<lparr>bf_name = the (activeBoundary b), bf_file = u\<rparr>] else [])
    \<and> blockCount b' = blockCount b \<and> bn_stopBlock b' = bn_stopBlock b \<and> Header b' = Header b"
proof -
  obtain r w where c: "wi_CloseBoundary wi (boundaryWriter b) = (r, w)" by fastforce
  then obtain u where u: "r = Some (Inr u)" using assms(2) by (auto simp: Bundler_stop_def Let_def split: option.splits sum.splits)
  show ?thesis using close_ok [OF assms(1) c [unfolded u]] assms(2) c u
    by (auto simp: Bundler_stop_def Let_def intro!: exI [of _ u])
qed

text \<open>A roll to a block outside the active boundary queues its file, with exactly what was written to it when
  anything was, and opens the boundary of the block, empty.\<close>

lemma roll_ok:
  assumes "holds (boundaryWriter b) d" "activeBoundary b = Some r" "\<not> range_Contains r n"
    "Roll wi n b = Some (res, b')" "is_ok res \<or> res = Inl ErrStopBlockReached"
  shows "\<exists>u. data u (boundaryWriter b') = d
    \<and> uploadQueue b' = uploadQueue b @ (if wi_IsWritten wi (boundaryWriter b) then [\<lparr>bf_name = r, bf_file = u\<rparr>] else [])
    \<and> (if n < bn_stopBlock b then res = Inr True \<and> holds (boundaryWriter b') [] \<and> \<not> wi_IsWritten wi (boundaryWriter b')
         \<and> activeBoundary b' = Some (newBoundary (blockCount b) (bn_stopBlock b) n)
       else res = Inl ErrStopBlockReached \<and> idle (boundaryWriter b'))
    \<and> \<not> HeaderWritten b' \<and> Header b' = Header b \<and> blockCount b' = blockCount b \<and> bn_stopBlock b' = bn_stopBlock b"
proof -
  have stopname: "Wrapf m as e \<noteq> ErrStopBlockReached" for m as e by (simp add: ErrStopBlockReached_def)
  from assms(2,3,4) obtain bs where bs: "blockCount b \<noteq> 0" "boundariesToSkip r n (blockCount b) = Some bs"
    by (auto simp: Roll_def split: if_splits option.splits)
  obtain x b1 where x: "Bundler_stop wi b = Some (x, b1)"
    using assms(2,3,4) bs by (auto simp: Roll_def split: option.splits)
  have "x = None" using assms(2-5) bs x stopname by (cases x) (auto simp: Roll_def)
  with stop_ok [OF assms(1)] x obtain u where u: "idle (boundaryWriter b1)" "data u (boundaryWriter b1) = d" "\<not> HeaderWritten b1"
    "uploadQueue b1 = uploadQueue b @ (if wi_IsWritten wi (boundaryWriter b) then [\<lparr>bf_name = r, bf_file = u\<rparr>] else [])"
    "blockCount b1 = blockCount b" "bn_stopBlock b1 = bn_stopBlock b" "Header b1 = Header b"
    using assms(2) by (metis option.sel)
  from skip_boundaries_ok [OF u(1), of bs] obtain b2 where b2: "skip_boundaries wi bs b1 = Some (None, b2)"
    "idle (boundaryWriter b2)" "uploadQueue b2 = uploadQueue b1" "blockCount b2 = blockCount b1"
    "bn_stopBlock b2 = bn_stopBlock b1" "Header b2 = Header b1" "HeaderWritten b2 \<longrightarrow> HeaderWritten b1"
    "\<forall>u. data u (boundaryWriter b2) = data u (boundaryWriter b1)" by blast
  show ?thesis
  proof (cases "n < bn_stopBlock b")
    case False
    then have "bn_stopBlock b2 \<le> n" using b2(5) u(6) by simp
    then have "res = Inl ErrStopBlockReached" "b' = b2"
      using assms(2-4) bs x \<open>x = None\<close> b2(1) by (simp_all add: Roll_def)
    then show ?thesis using False b2 u by auto
  next
    case True
    let ?r = "newBoundary (blockCount b2) (bn_stopBlock b2) n"
    obtain w where w: "wi_StartBoundary wi ?r (boundaryWriter b2) = (None, w)" "holds w []" "\<not> wi_IsWritten wi w"
      "data u w = data u (boundaryWriter b2)" using start_ok [OF b2(2), of ?r u] by blast
    have below: "\<not> bn_stopBlock b2 \<le> n" using True b2(5) u(6) by simp
    have "res = Inr True" "b' = b2\<lparr>activeBoundary := Some ?r, boundaryWriter := w\<rparr>"
      using assms(2-4) bs x \<open>x = None\<close> b2(1) below w(1) by (simp_all add: Roll_def Bundler_Start_def Let_def)
    then show ?thesis using True b2 u w by auto
  qed
qed

end


section \<open>The buffered writer meets the contract\<close>

definition bio_writer :: "OS \<Rightarrow> (BufferedIO \<times> Files) WriterI" where
  "bio_writer os =
     \<lparr>wi_StartBoundary = (\<lambda>r (s, fs). case StartBoundary os r s of (e, s') \<Rightarrow> (e, (s', fs))),
      wi_CloseBoundary = (\<lambda>(s, fs). CloseBoundary os s fs),
      wi_Write = (\<lambda>p (s, fs). BufferedIO_Write os p s fs),
      wi_IsWritten = (\<lambda>(s, fs). IsWritten s)\<rparr>"

definition bio_idle :: "BufferedIO \<times> Files \<Rightarrow> bool" where
  "bio_idle w \<longleftrightarrow> activeFile (fst w) = None"

definition bio_holds :: "BufferedIO \<times> Files \<Rightarrow> string \<Rightarrow> bool" where
  "bio_holds w d \<longleftrightarrow> (\<exists>a. active (fst w) (snd w) a d)"

definition bio_data :: "Uploadeable \<Rightarrow> BufferedIO \<times> Files \<Rightarrow> string" where
  "bio_data u w = (case u of DataFile d _ \<Rightarrow> d | LocalFile path _ \<Rightarrow> getS (snd w) path)"

interpretation bio: boundary_writer "bio_writer os" bio_idle bio_holds bio_data for os
proof unfold_locales
  fix w :: "BufferedIO \<times> Files" and r u
  obtain s fs where w: "w = (s, fs)" by fastforce
  assume "bio_idle w"
  then obtain s' where s': "StartBoundary os r s = (None, s')" by (auto simp: StartBoundary_def bio_idle_def w)
  from StartBoundary_active [OF s', of fs] obtain a where "active s' fs a []" "\<not> bio_written s'" by blast
  then show "\<exists>w'. wi_StartBoundary (bio_writer os) r w = (None, w') \<and> bio_holds w' []
      \<and> \<not> wi_IsWritten (bio_writer os) w' \<and> bio_data u w' = bio_data u w"
    using s' by (intro exI [of _ "(s', fs)"])
      (auto simp: bio_writer_def bio_holds_def bio_data_def IsWritten_def w split: Uploadeable.splits)
next
  fix w w' :: "BufferedIO \<times> Files" and d p n
  assume "bio_holds w d" "wi_Write (bio_writer os) p w = ((n, None), w')"
  then obtain a where "active (fst w) (snd w) a d" "BufferedIO_Write os p (fst w) (snd w) = ((n, None), fst w', snd w')"
    by (auto simp: bio_holds_def bio_writer_def split: prod.splits)
  from BufferedIO_Write_active [OF this] show "bio_holds w' (d @ p) \<and> wi_IsWritten (bio_writer os) w'"
    by (auto simp: bio_holds_def bio_writer_def IsWritten_def split: prod.splits)
next
  fix w w' :: "BufferedIO \<times> Files" and d u
  assume "bio_holds w d" "wi_CloseBoundary (bio_writer os) w = (Some (Inr u), w')"
  then obtain a where a: "active (fst w) (snd w) a d" "CloseBoundary os (fst w) (snd w) = (Some (Inr u), fst w', snd w')"
    by (auto simp: bio_holds_def bio_writer_def split: prod.splits)
  note C = CloseBoundary_active [OF a]
  have "bio_data u w' = d"
    using C(3) C(4) [OF _ refl refl] by (cases "length d \<le> bw_size (af_writer a)") (auto simp: bio_data_def)
  then show "bio_idle w' \<and> bio_data u w' = d \<and> wi_IsWritten (bio_writer os) w' = wi_IsWritten (bio_writer os) w"
    using C(1,2) by (auto simp: bio_idle_def bio_writer_def IsWritten_def split: prod.splits)
next
  fix w :: "BufferedIO \<times> Files"
  assume "bio_holds w []"
  then obtain a where a: "active (fst w) (snd w) a []" by (auto simp: bio_holds_def)
  obtain res s' fs' where c: "CloseBoundary os (fst w) (snd w) = (res, s', fs')" by (metis surj_pair)
  from CloseBoundary_active(3) [OF a c] have "res = Some (Inr (DataFile [] (af_outputFilename a)))" "fs' = snd w" by auto
  then show "\<exists>u w'. wi_CloseBoundary (bio_writer os) w = (Some (Inr u), w') \<and> (\<forall>v. bio_data v w' = bio_data v w)"
    using c by (intro exI [of _ "DataFile [] (af_outputFilename a)"] exI [of _ "(s', fs')"])
      (auto simp: bio_writer_def bio_data_def split: prod.splits Uploadeable.splits)
qed

end
