(* ===== verification/Csv.thy ===== *)
theory Csv
  imports Sinker Bundler
begin

text \<open>
  The sink that writes CSV files (\<open>src/db_changes/sinker/generate_csv_sinker.go\<close>) and the state it
  keeps beside them (\<open>src/db_changes/state/file.go\<close>): every table has a bundler; the rows of a block
  are written to the active boundary of their tables, and then every bundler is rolled to the block.
  The goroutines that roll the bundlers share nothing, so they are done one after the other. YAML,
  the object store, the clock and the Substreams client are parameters.
\<close>

section \<open>The state file\<close>

record FileState =
  fs_Cursor :: string
  fs_BlockID :: string
  fs_BlockNumber :: u64
  fs_ActiveStart :: u64
  fs_ActiveEnd :: u64
  fs_StartedAt :: "int option"
  fs_RestartedAt :: "int option"

definition newFileState :: FileState where
  "newFileState = \<lparr>fs_Cursor = [], fs_BlockID = [], fs_BlockNumber = 0, fs_ActiveStart = 0, fs_ActiveEnd = 0,
     fs_StartedAt = None, fs_RestartedAt = None\<rparr>"

text \<open>\<open>startOnce\<close> has run or not; the uploads of the state that were queued\<close>

record FileStateStore =
  ss_outputPath :: string
  ss_state :: FileState
  ss_started :: bool
  ss_queue :: "Uploadeable list"

text \<open>\<open>os.ReadFile\<close>: its error, a file that does not exist, or the content. A missing file gives an
  empty state, which the empty content then leaves as it is.\<close>

definition NewFileStateStore ::
    "(FileState \<Rightarrow> string \<Rightarrow> FileState res) \<Rightarrow> string \<Rightarrow> (string option) res \<Rightarrow> FileStateStore res" where
  "NewFileStateStore unmarshal outputPath content =
     (case content of
        Inl e \<Rightarrow> Inl (Wrapf ''read file'' [] e)
      | Inr c \<Rightarrow>
          (case unmarshal newFileState (case c of None \<Rightarrow> [] | Some d \<Rightarrow> d) of
             Inl e \<Rightarrow> Inl (Wrapf ''unmarshal state file %q'' [AStr outputPath] e)
           | Inr st \<Rightarrow> Inr \<lparr>ss_outputPath = outputPath, ss_state = st, ss_started = False, ss_queue = []\<rparr>))"

text \<open>\<open>OpenObject\<close> of the store: its error, an object that is not found, or the content\<close>

definition ReadCursor ::
    "(FileState \<Rightarrow> string \<Rightarrow> FileState res) \<Rightarrow> (string \<Rightarrow> Cursor res) \<Rightarrow> (string option) res \<Rightarrow> FileStateStore
     \<Rightarrow> Cursor res \<times> FileStateStore" where
  "ReadCursor unmarshal newCursor object ss =
     (case object of
        Inl e \<Rightarrow> (Inl (Wrapf ''opening csv'' [] e), ss)
      | Inr None \<Rightarrow> (newCursor (fs_Cursor newFileState), ss\<lparr>ss_state := newFileState\<rparr>)
      | Inr (Some content) \<Rightarrow>
          (case unmarshal (ss_state ss) content of
             Inl e \<Rightarrow> (Inl (Wrapf ''unmarshal state file %q'' [AStr (ss_outputPath ss)] e), ss)
           | Inr st \<Rightarrow> (newCursor (fs_Cursor st), ss\<lparr>ss_state := st\<rparr>)))"

definition NewBoundary :: "Range \<Rightarrow> FileStateStore \<Rightarrow> FileStateStore" where
  "NewBoundary r ss =
     ss\<lparr>ss_state := (ss_state ss)\<lparr>fs_ActiveStart := StartBlock r, fs_ActiveEnd := EndBlock r\<rparr>\<rparr>"

definition SetCursor :: "int \<Rightarrow> Cursor \<Rightarrow> FileStateStore \<Rightarrow> FileStateStore" where
  "SetCursor now cursor ss =
     (let st = ss_state ss;
          st1 = (if ss_started ss then st
                 else st\<lparr>fs_StartedAt := (if fs_StartedAt st = None then Some now else fs_StartedAt st),
                         fs_RestartedAt := Some now\<rparr>)
      in ss\<lparr>ss_started := True,
            ss_state := st1\<lparr>fs_Cursor := c_string cursor, fs_BlockID := c_id cursor, fs_BlockNumber := c_num cursor\<rparr>\<rparr>)"

text \<open>The state to save: its text and its path\<close>

definition GetState :: "(FileState \<Rightarrow> string res) \<Rightarrow> FileStateStore \<Rightarrow> (string \<times> string) res" where
  "GetState marshal ss =
     (case marshal (ss_state ss) of
        Inl e \<Rightarrow> Inl (Wrapf ''marshall'' [] e)
      | Inr cnt \<Rightarrow> Inr (cnt, ss_outputPath ss @ ''-'' @ fs_BlockID (ss_state ss)))"

definition Save :: "(string \<Rightarrow> string \<Rightarrow> GoErr option) \<Rightarrow> string \<times> string \<Rightarrow> GoErr option" where
  "Save writeFile st =
     (case writeFile (snd st) (fst st) of
        Some e \<Rightarrow> Some (Wrapf ''unable to write state file'' [] e)
      | None \<Rightarrow> None)"

definition GetUploadeable :: "string \<times> string \<Rightarrow> Uploadeable" where
  "GetUploadeable st = LocalFile (snd st) ''state.yaml''"

definition UploadCursor :: "string \<times> string \<Rightarrow> FileStateStore \<Rightarrow> FileStateStore" where
  "UploadCursor st ss = ss\<lparr>ss_queue := ss_queue ss @ [GetUploadeable st]\<rparr>"

section \<open>The sink\<close>

record 'w CsvSinker =
  bundlersByTable :: "'w Bundler gomap"
  lastCursorFilename :: string
  cs_stopBlock :: u64
  stateStore :: FileStateStore
  bundleSize :: u64
  cs_loader :: Loader
  cursorTableNam :: string
  cs_shutdown :: "(GoErr option) option"

record CsvEnv =
  ce_moduleName :: string
  ce_moduleHash :: string
  ce_messageIs :: "AnyMsg \<Rightarrow> bool"
  ce_unmarshal :: "string \<Rightarrow> TableChange list res"
  ce_marshal :: "FileState \<Rightarrow> string res"
  ce_writeFile :: "string \<Rightarrow> string \<Rightarrow> GoErr option"

text \<open>\<open>Shutdown\<close>: the first call decides.\<close>

definition csv_Shutdown :: "GoErr option \<Rightarrow> 'w CsvSinker \<Rightarrow> 'w CsvSinker" where
  "csv_Shutdown e s = (if cs_shutdown s = None then s\<lparr>cs_shutdown := Some e\<rparr> else s)"

text \<open>\<open>getBundler\<close> sorts the columns for the header; the error of \<open>Start\<close> is dropped.\<close>

definition getBundler ::
    "'w WriterI \<Rightarrow> (string \<Rightarrow> 'w) \<Rightarrow> (string \<Rightarrow> GoErr option) \<Rightarrow> string \<Rightarrow> u64 \<Rightarrow> u64 \<Rightarrow> u64 \<Rightarrow> string list \<Rightarrow> ('w Bundler) res" where
  "getBundler wi newWriter subStore table startBlock stop bundleSiz columns =
     (case subStore table of
        Some e \<Rightarrow> Inl e
      | None \<Rightarrow>
          let header = joinS '','' (sort columns) @ [CHR 0x0A];
              fb = NewBundler bundleSiz stop (newWriter table) header
          in Inr (snd (Bundler_Start wi startBlock fb)))"

text \<open>A block range without an end is refused. Every table gets a bundler; a nil table cannot occur here.\<close>

definition NewGenerateCSVSinker ::
    "'w WriterI \<Rightarrow> (string \<Rightarrow> 'w) \<Rightarrow> (string \<Rightarrow> GoErr option) \<Rightarrow> (u64 \<times> u64 option) option \<Rightarrow> string \<Rightarrow> u64 \<Rightarrow> Loader
     \<Rightarrow> string \<Rightarrow> FileStateStore \<Rightarrow> ('w CsvSinker) res" where
  "NewGenerateCSVSinker wi newWriter subStore blockRange cursorTab bundleSiz l lastCursorFile ss =
     (case blockRange of
        Some (startBlock, Some stop) \<Rightarrow>
          (case traverse (\<lambda>table.
              (case getBundler wi newWriter subStore table startBlock stop bundleSiz
                      (case GetColumnsForTable l table of Some cs \<Rightarrow> cs | None \<Rightarrow> []) of
                 Inl e \<Rightarrow> Inl e | Inr fb \<Rightarrow> Inr (table, fb))) (GetAvailableTablesInSchema l) of
             Inl e \<Rightarrow> Inl e
           | Inr bs \<Rightarrow> Inr \<lparr>bundlersByTable = bs, lastCursorFilename = lastCursorFile, cs_stopBlock = stop,
               stateStore = ss, bundleSize = bundleSiz, cs_loader = l, cursorTableNam = cursorTab, cs_shutdown = None\<rparr>)
      | _ \<Rightarrow> Inl (Errorf ''sink must have a stop block defined'' []))"

section \<open>Rows\<close>

text \<open>The fields of the key of a change: \<open>None\<close> is the panic of a missing table.\<close>

definition key_fields :: "Loader \<Rightarrow> TableChange \<Rightarrow> (string gomap res) option" where
  "key_fields l change =
     (case tc_key change of
        Pk pk \<Rightarrow> (case GetPrimaryKey l (tc_table change) pk of
            None \<Rightarrow> None | Some (Inl e) \<Rightarrow> Some (Inl e) | Some (Inr flds) \<Rightarrow> Some (Inr (AList.delete [] flds)))
      | CompositePk ks \<Rightarrow> Some (Inr ks)
      | NoPk \<Rightarrow> Some (Inl (Errorf ''unknown primary key type: %T'' [])))"

text \<open>The results of the writes are not looked at.\<close>

definition write_row :: "'w WriterI \<Rightarrow> string \<Rightarrow> 'w Bundler \<Rightarrow> 'w Bundler" where
  "write_row wi data b =
     (let b1 = (if \<not> HeaderWritten b
                then b\<lparr>boundaryWriter := snd (wi_Write wi (Header b) (boundaryWriter b)), HeaderWritten := True\<rparr> else b)
      in b1\<lparr>boundaryWriter := snd (wi_Write wi data (boundaryWriter b1))\<rparr>)"

definition unsupported :: "string \<Rightarrow> string \<Rightarrow> GoErr" where
  "unsupported operation table =
     Errorf ''This substreams cannot be written to CSV because it performs %q operations on the %q store. Generate-CSV only supports inserts (CREATE)''
       [AStr operation, AStr table]"

text \<open>One change. The keys of a composite key that has none are a nil map, to which no field can be
  added: a panic.\<close>

definition dumpChange :: "'w WriterI \<Rightarrow> Loader \<Rightarrow> TableChange \<Rightarrow> 'w Bundler gomap \<Rightarrow> Outcome \<times> 'w Bundler gomap" where
  "dumpChange wi l change bs =
     (let table = tc_table change in
      if \<not> HasTable l table
      then (Fail (Errorf ''your Substreams sent us a change for a table named %s we don't know about on %s (available tables: %s)''
              [AStr table, AStr (GetIdentifier l), AStr (joinS '', '' (GetAvailableTablesInSchema l))]), bs)
      else case key_fields l change of
        None \<Rightarrow> (Panicked, bs)
      | Some (Inl e) \<Rightarrow> (Fail e, bs)
      | Some (Inr flds) \<Rightarrow>
          (case map_of bs table of
             None \<Rightarrow> (Fail (Errorf ''cannot get bundler writer for table %s'' [AStr table]), bs)
           | Some tableBundler \<Rightarrow>
               (case tc_operation change of
                  OPERATION_CREATE \<Rightarrow>
                    if tc_key change = CompositePk [] \<and> tc_fields change \<noteq> [] then (Panicked, bs)
                    else let row = fold (\<lambda>f m. AList.update (f_name f) (f_newValue f) m) (tc_fields change) flds
                      in (Done, AList.update table (write_row wi (CSVEncode row) tableBundler) bs)
                | OPERATION_UPSERT \<Rightarrow> (Fail (unsupported ''UPSERT'' table), bs)
                | OPERATION_UPDATE \<Rightarrow> (Fail (unsupported ''UPDATE'' table), bs)
                | OPERATION_DELETE \<Rightarrow> (Fail (unsupported ''DELETE'' table), bs)
                | OPERATION_UNSET \<Rightarrow> (Done, bs))))"

fun dumpDatabaseChangesIntoCSV ::
    "'w WriterI \<Rightarrow> Loader \<Rightarrow> TableChange list \<Rightarrow> 'w Bundler gomap \<Rightarrow> Outcome \<times> 'w Bundler gomap" where
  "dumpDatabaseChangesIntoCSV wi l [] bs = (Done, bs)"
| "dumpDatabaseChangesIntoCSV wi l (change # cs) bs =
     (case dumpChange wi l change bs of
        (Done, bs') \<Rightarrow> dumpDatabaseChangesIntoCSV wi l cs bs'
      | r \<Rightarrow> r)"

section \<open>Handlers\<close>

text \<open>All bundlers are rolled; a roll that does not return takes the program with it.\<close>

fun roll_bundlers :: "'w WriterI \<Rightarrow> u64 \<Rightarrow> 'w Bundler gomap \<Rightarrow> (bool res list \<times> 'w Bundler gomap) option" where
  "roll_bundlers wi n [] = Some ([], [])"
| "roll_bundlers wi n ((t, b) # bs) =
     (case Roll wi n b of
        None \<Rightarrow> None
      | Some (r, b') \<Rightarrow> map_option (\<lambda>(rs, bs'). (r # rs, (t, b') # bs')) (roll_bundlers wi n bs))"

fun roll_error :: "bool res \<Rightarrow> 'w CsvSinker \<Rightarrow> 'w CsvSinker" where
  "roll_error (Inl e) s = (if errors_Is e ErrStopBlockReached then s else csv_Shutdown (Some e) s)"
| "roll_error (Inr b) s = s"

definition rollAllBundlers :: "'w WriterI \<Rightarrow> u64 \<Rightarrow> 'w CsvSinker \<Rightarrow> 'w CsvSinker option" where
  "rollAllBundlers wi blockNum s =
     (case roll_bundlers wi blockNum (bundlersByTable s) of
        None \<Rightarrow> None
      | Some (rs, bs) \<Rightarrow>
          let s1 = fold roll_error rs (s\<lparr>bundlersByTable := bs\<rparr>);
              reachedEndBlock = (\<exists>r \<in> set rs. case r of Inl e \<Rightarrow> errors_Is e ErrStopBlockReached | Inr _ \<Rightarrow> False)
          in Some (if reachedEndBlock then csv_Shutdown None s1 else s1))"

text \<open>The state is saved at the blocks that are multiples of the bundle size (a size of 0 is a division
  by zero).\<close>

definition saveState :: "CsvEnv \<Rightarrow> Cursor \<Rightarrow> 'w CsvSinker \<Rightarrow> Outcome \<times> 'w CsvSinker" where
  "saveState env cursor s =
     (if bundleSize s = 0 then (Panicked, s)
      else if c_num cursor mod bundleSize s \<noteq> 0 then (Done, s)
      else case GetState (ce_marshal env) (stateStore s) of
        Inl e \<Rightarrow> (let e' = Wrapf ''unable to get state'' [] e in (Fail e', csv_Shutdown (Some e') s))
      | Inr st \<Rightarrow>
          (case Save (ce_writeFile env) st of
             Some e \<Rightarrow> (let e' = Wrapf ''unable to save state'' [] e in (Fail e', csv_Shutdown (Some e') s))
           | None \<Rightarrow> (Done, s\<lparr>stateStore := UploadCursor st (stateStore s)\<rparr>)))"

definition csv_receive :: "CsvEnv \<Rightarrow> BlockData \<Rightarrow> TableChange list res" where
  "csv_receive env data =
     (if bd_outputName data \<noteq> ce_moduleName env
      then Inl (Errorf ''received data from wrong output module, expected to received from %q but got module's output for %q''
              [AStr (ce_moduleName env), AStr (bd_outputName data)])
      else if \<not> ce_messageIs env (bd_mapOutput data)
           \<and> any_TypeUrl (bd_mapOutput data) \<noteq> ''type.googleapis.com/sf.substreams.database.v1.DatabaseChanges''
      then Inl (Errorf ''mismatched message type: trying to unmarshal unknown type %q'' [AStr (any_MessageName (bd_mapOutput data))])
      else wrap_err ''unmarshal database changes'' [] (ce_unmarshal env (any_Value (bd_mapOutput data))))"

definition csv_HandleBlockScopedData ::
    "'w WriterI \<Rightarrow> CsvEnv \<Rightarrow> int \<Rightarrow> BlockData \<Rightarrow> Cursor \<Rightarrow> 'w CsvSinker \<Rightarrow> Outcome \<times> 'w CsvSinker" where
  "csv_HandleBlockScopedData wi env now data cursor s =
     (case csv_receive env data of
        Inl e \<Rightarrow> (Fail e, s)
      | Inr dbChanges \<Rightarrow>
          (case dumpDatabaseChangesIntoCSV wi (cs_loader s) dbChanges (bundlersByTable s) of
             (Fail e, bs) \<Rightarrow> (Fail (Wrapf ''apply database changes'' [] e), s\<lparr>bundlersByTable := bs\<rparr>)
           | (Panicked, bs) \<Rightarrow> (Panicked, s\<lparr>bundlersByTable := bs\<rparr>)
           | (Done, bs) \<Rightarrow>
               (let s1 = s\<lparr>bundlersByTable := bs, stateStore := SetCursor now cursor (stateStore s)\<rparr> in
                case saveState env cursor s1 of
                  (Done, s2) \<Rightarrow>
                    (case rollAllBundlers wi (bd_number data) s2 of
                       None \<Rightarrow> (Panicked, s2)
                     | Some s3 \<Rightarrow> (Done, s3))
                | r \<Rightarrow> r)))"

definition csv_HandleBlockUndoSignal :: "'w CsvSinker \<Rightarrow> Outcome \<times> 'w CsvSinker" where
  "csv_HandleBlockUndoSignal s =
     (Fail (Errorf ''received undo signal but there is no handling of undo'' []), s)"

text \<open>The file of the cursor table, which \<open>LoadTables\<close> has made sure is there\<close>

definition cursors_file :: "Loader \<Rightarrow> string \<Rightarrow> string \<Rightarrow> Cursor \<Rightarrow> string" where
  "cursors_file l cursorTab moduleHash c =
     joinS '','' (sort (case GetColumnsForTable l cursorTab of Some cs \<Rightarrow> cs | None \<Rightarrow> [])) @ [CHR 0x0A]
     @ c_id c @ '','' @ dec64 (c_num c) @ '','' @ c_string c @ '','' @ moduleHash @ [CHR 0x0A]"

definition writeCursorsTable ::
    "(string \<Rightarrow> string \<Rightarrow> GoErr option) \<Rightarrow> string \<Rightarrow> Cursor \<Rightarrow> 'w CsvSinker \<Rightarrow> GoErr option" where
  "writeCursorsTable writeObject moduleHash c s =
     (case writeObject (lastCursorFilename s) (cursors_file (cs_loader s) (cursorTableNam s) moduleHash c) of
        Some e \<Rightarrow> Some (Wrapf ''write object'' [] e)
      | None \<Rightarrow> None)"

text \<open>\<open>closeAllFileBundlers\<close> shuts the bundlers down: their upload queues are drained, nothing more is
  put in them.\<close>

definition closeAllFileBundlers :: "'w CsvSinker \<Rightarrow> BoundaryFile list gomap" where
  "closeAllFileBundlers s = map (\<lambda>(t, b). (t, uploadQueue b)) (bundlersByTable s)"

definition csv_HandleBlockRangeCompletion ::
    "(string \<Rightarrow> string \<Rightarrow> GoErr option) \<Rightarrow> string \<Rightarrow> Cursor \<Rightarrow> 'w CsvSinker \<Rightarrow> GoErr option \<times> BoundaryFile list gomap" where
  "csv_HandleBlockRangeCompletion writeObject moduleHash c s =
     (case writeCursorsTable writeObject moduleHash c s of
        Some e \<Rightarrow> (Some (Wrapf ''write cursors table'' [] e), closeAllFileBundlers s)
      | None \<Rightarrow> (None, closeAllFileBundlers s))"

end
