(* ===== verification/CsvProperties.thy ===== *)
theory CsvProperties
  imports Csv ChangesProperties
begin

text \<open>
  The properties of the CSV sink: the boundaries that are skipped, where the rows of a block go, what a
  file holds, and which rows reach no file.
\<close>

section \<open>Boundaries\<close>

text \<open>
  C24. Skipping boundaries ends and leaves no gap: with a size that is not zero and block numbers that stay
  below 2^64, the loop returns the adjacent ranges from the end of the last boundary, each ending at
  the next multiple of the size and none after the block; the next one would end after it; and the
  boundary then opened contains the block, starts at a multiple of the size, is at most one size long
  and does not pass the stop block.
\<close>

theorem skipped_boundaries_tile:
  assumes "0 < sz" "unat n + unat sz < 2 ^ 64" "EndBlock r \<le> n" "n < stop"
  shows "\<exists>rs. boundariesToSkip r n sz = Some rs \<and> tiles sz (EndBlock r) rs \<and> (\<forall>x \<in> set rs. EndBlock x \<le> n)
    \<and> n < computeEndBlock (last (EndBlock r # map EndBlock rs)) sz
    \<and> range_Contains (newBoundary sz stop n) n \<and> unat (StartBlock (newBoundary sz stop n)) mod unat sz = 0
    \<and> unat (EndBlock (newBoundary sz stop n)) \<le> unat (StartBlock (newBoundary sz stop n)) + unat sz
    \<and> EndBlock (newBoundary sz stop n) \<le> stop"
proof -
  have "unat (EndBlock r) \<le> unat n" using assms(3) by (simp add: word_le_nat_alt)
  then have "EndBlock r \<le> n + sz" "unat (EndBlock r) + unat sz < 2 ^ 64"
    using assms(2) by (simp_all add: word_le_nat_alt unat_word_ariths(1))
  from skip_from_tiles [OF assms(1,2) this] obtain rs where "skip_from sz n (EndBlock r) = Some rs"
    "tiles sz (EndBlock r) rs" "n < computeEndBlock (last (EndBlock r # map EndBlock rs)) sz"
    "\<forall>x \<in> set rs. EndBlock x \<le> n" by (elim exE conjE)
  then show ?thesis using newBoundary_contains [OF assms(1,2,4)]
    unfolding boundariesToSkip_def by (intro exI [of _ rs]) simp
qed

theorem skipped_boundaries_tile_witness:
  "\<exists>rs. boundariesToSkip \<lparr>StartBlock = 0, EndBlock = 100\<rparr> 250 100 = Some rs
     \<and> tiles 100 100 rs \<and> range_Contains (newBoundary 100 260 250) 250"
  using skipped_boundaries_tile [of 100 250 "\<lparr>StartBlock = 0, EndBlock = 100\<rparr>" 260] by auto

section \<open>Rows\<close>

text \<open>The line of a change that creates a row, and the lines of a block for a table\<close>

definition change_line :: "Loader \<Rightarrow> TableChange \<Rightarrow> string" where
  "change_line l c =
     CSVEncode (fold (\<lambda>f m. AList.update (f_name f) (f_newValue f) m) (tc_fields c)
       (case key_fields l c of Some (Inr flds) \<Rightarrow> flds | _ \<Rightarrow> []))"

definition table_lines :: "Loader \<Rightarrow> TableChange list \<Rightarrow> string \<Rightarrow> string list" where
  "table_lines l cs t = map (change_line l) (filter (\<lambda>c. tc_table c = t \<and> tc_operation c = OPERATION_CREATE) cs)"

lemma dumpChange_row:
  assumes "dumpChange wi l c bs = (Done, bs')" "map_of bs t = Some b"
  shows "map_of bs' t = Some (fold (write_row wi) (table_lines l [c] t) b)"
proof -
  obtain r where k: "key_fields l c = Some r" using assms(1) by (auto simp: dumpChange_def Let_def split: if_splits option.splits)
  obtain f where f: "r = Inr f" using assms(1) k by (cases r) (auto simp: dumpChange_def Let_def split: if_splits)
  obtain tb where tb: "map_of bs (tc_table c) = Some tb"
    using assms(1) k f by (auto simp: dumpChange_def Let_def split: if_splits option.splits)
  show ?thesis using assms k f tb
    by (cases "tc_operation c") (auto simp: dumpChange_def Let_def table_lines_def change_line_def update_conv' split: if_splits)
qed

lemma dump_rows:
  "dumpDatabaseChangesIntoCSV wi l cs bs = (Done, bs') \<Longrightarrow> map_of bs t = Some b \<Longrightarrow>
   map_of bs' t = Some (fold (write_row wi) (table_lines l cs t) b)"
proof (induction cs arbitrary: bs b)
  case Nil
  then show ?case by (simp add: table_lines_def)
next
  case (Cons c cs)
  obtain r bs1 where r: "dumpChange wi l c bs = (r, bs1)" by fastforce
  then have d: "r = Done" "dumpDatabaseChangesIntoCSV wi l cs bs1 = (Done, bs')"
    using Cons.prems(1) by (cases r; simp)+
  from Cons.IH [OF d(2) dumpChange_row [OF r [unfolded d(1)] Cons.prems(2)]]
  show ?case by (simp add: table_lines_def)
qed

lemma roll_bundlers_at:
  "roll_bundlers wi n bs = Some (rs, bs') \<Longrightarrow> map_of bs t = Some b \<Longrightarrow>
   \<exists>r b'. r \<in> set rs \<and> Roll wi n b = Some (r, b') \<and> map_of bs' t = Some b'"
  by (induction bs arbitrary: rs bs') (auto split: option.splits if_splits)

context boundary_writer
begin

text \<open>Rows written to a boundary, the header before the first\<close>

lemma write_rows_holds:
  assumes total: "\<And>w d p. holds w d \<Longrightarrow> \<exists>n w'. wi_Write wi p w = ((n, None), w')"
  shows "holds (boundaryWriter b) d \<Longrightarrow>
    (let b' = fold (write_row wi) ls b in
      holds (boundaryWriter b') (d @ (if ls \<noteq> [] \<and> \<not> HeaderWritten b then Header b else []) @ concat ls)
      \<and> (wi_IsWritten wi (boundaryWriter b') \<longleftrightarrow> wi_IsWritten wi (boundaryWriter b) \<or> ls \<noteq> [])
      \<and> HeaderWritten b' = (HeaderWritten b \<or> ls \<noteq> []) \<and> Header b' = Header b \<and> activeBoundary b' = activeBoundary b
      \<and> uploadQueue b' = uploadQueue b \<and> blockCount b' = blockCount b \<and> bn_stopBlock b' = bn_stopBlock b)"
proof (induction ls arbitrary: b d)
  case (Cons x ls)
  let ?h = "if HeaderWritten b then [] else Header b"
  have one: "holds (boundaryWriter (write_row wi x b)) (d @ ?h @ x) \<and> wi_IsWritten wi (boundaryWriter (write_row wi x b))
      \<and> HeaderWritten (write_row wi x b)"
  proof (cases "HeaderWritten b")
    case True
    obtain n w where w: "wi_Write wi x (boundaryWriter b) = ((n, None), w)" using total [OF Cons.prems] by blast
    then show ?thesis using write_ok [OF Cons.prems w] True by (simp add: write_row_def)
  next
    case False
    obtain n w where w: "wi_Write wi (Header b) (boundaryWriter b) = ((n, None), w)" using total [OF Cons.prems] by blast
    note h = write_ok [OF Cons.prems w]
    obtain m v where v: "wi_Write wi x w = ((m, None), v)" using total h by blast
    then show ?thesis using write_ok [OF conjunct1 [OF h] v] False w by (simp add: write_row_def)
  qed
  have same: "Header (write_row wi x b) = Header b" "activeBoundary (write_row wi x b) = activeBoundary b"
    "uploadQueue (write_row wi x b) = uploadQueue b" "blockCount (write_row wi x b) = blockCount b"
    "bn_stopBlock (write_row wi x b) = bn_stopBlock b" by (simp_all add: write_row_def Let_def)
  show ?case using Cons.IH [OF conjunct1 [OF one]] one same by (auto simp: Let_def)
qed simp

end

text \<open>An operating system on which no call fails\<close>

definition os_ok :: "OS \<Rightarrow> bool" where
  "os_ok os \<longleftrightarrow> (\<forall>p. os_MkdirAll os p = None \<and> os_Create os p = None) \<and> (\<forall>p c d. os_Write os p c d = None)"

lemma mem_Write_total: "os_ok os \<Longrightarrow> \<exists>n u' fs'. mem_Write os p u fs = ((n, None), u', fs')"
  by (auto simp: mem_Write_def LazyFile_Write_def file_Write_def os_ok_def split: prod.splits)

lemma bufio_Flush_total:
  assumes "os_ok os" "bw_err b = None"
  shows "\<exists>b' fs'. bufio_Flush os b fs = (None, b', fs') \<and> bw_err b' = None"
proof -
  obtain n u f where "mem_Write os (bw_buf b) (bw_under b) fs = ((n, None), u, f)" using mem_Write_total [OF assms(1)] by blast
  then show ?thesis using assms(2) by (simp add: bufio_Flush_def)
qed

lemma bufio_Write_empty_total:
  assumes "os_ok os"
  shows "\<exists>n b' fs'. bufio_Write_empty os k p b fs = ((n, None), b', fs')"
proof -
  obtain n u f where "mem_Write os p (bw_under b) fs = ((n, None), u, f)" using mem_Write_total [OF assms] by blast
  then show ?thesis by (simp add: bufio_Write_empty_def)
qed

lemma bio_Write_total:
  assumes "os_ok os" "bio_holds w d"
  shows "\<exists>n w'. wi_Write (bio_writer os) p w = ((n, None), w')"
proof -
  obtain a where a: "activeFile (fst w) = Some a" "bw_err (af_writer a) = None"
    using assms(2) by (auto simp: bio_holds_def active_def bufio_ok_def)
  let ?b = "af_writer a"
  let ?k = "bw_size ?b - length (bw_buf ?b)"
  let ?full = "?b\<lparr>bw_buf := bw_buf ?b @ take ?k p\<rparr>"
  obtain b1 f1 where f: "bufio_Flush os ?full (snd w) = (None, b1, f1)"
    using bufio_Flush_total [OF assms(1), of ?full "snd w"] a(2) by auto
  obtain n1 b2 f2 where e1: "bufio_Write_empty os 0 p ?b (snd w) = ((n1, None), b2, f2)"
    using bufio_Write_empty_total [OF assms(1)] by blast
  obtain n3 b3 f3 where e2: "bufio_Write_empty os ?k (drop ?k p) b1 f1 = ((n3, None), b3, f3)"
    using bufio_Write_empty_total [OF assms(1)] by blast
  have "\<exists>n b' f'. bufio_Write os p ?b (snd w) = ((n, None), b', f')"
    unfolding bufio_Write_def Let_def using a(2) f e1 e2 by simp
  then show ?thesis using a(1) by (auto simp: bio_writer_def BufferedIO_Write_def split: prod.splits)
qed


text \<open>Rolling the bundlers shuts the sink down unless every roll succeeded\<close>

lemma roll_errors_bundlers: "bundlersByTable (fold roll_error qs z) = bundlersByTable z"
proof (induction qs arbitrary: z)
  case (Cons q qs)
  then show ?case by (cases q) (auto simp: csv_Shutdown_def)
qed simp

lemma roll_errors_quiet:
  "cs_shutdown (fold roll_error qs z) = None \<Longrightarrow>
   cs_shutdown z = None \<and> (\<forall>e. Inl e \<in> set qs \<longrightarrow> errors_Is e ErrStopBlockReached)"
proof (induction qs arbitrary: z)
  case (Cons q qs)
  then have "cs_shutdown (roll_error q z) = None" "\<forall>e. Inl e \<in> set qs \<longrightarrow> errors_Is e ErrStopBlockReached" by simp_all
  then show ?case by (cases q) (auto simp: csv_Shutdown_def split: if_splits)
qed simp

lemma rollAllBundlers_quiet:
  assumes "rollAllBundlers wi n s = Some s'" "cs_shutdown s' = None"
  obtains rs where "roll_bundlers wi n (bundlersByTable s) = Some (rs, bundlersByTable s')" "\<forall>q \<in> set rs. is_ok q"
proof -
  obtain rs bs where rs: "roll_bundlers wi n (bundlersByTable s) = Some (rs, bs)"
    using assms(1) by (auto simp: rollAllBundlers_def split: option.splits)
  let ?s1 = "fold roll_error rs (s\<lparr>bundlersByTable := bs\<rparr>)"
  let ?reached = "\<exists>r \<in> set rs. case r of Inl e \<Rightarrow> errors_Is e ErrStopBlockReached | Inr _ \<Rightarrow> False"
  have "s' = (if ?reached then csv_Shutdown None ?s1 else ?s1)"
    using assms(1) rs unfolding rollAllBundlers_def by (auto simp: Let_def split: if_split_asm)
  then have quiet: "\<not> ?reached" "s' = ?s1"
    using assms(2) by (auto simp: csv_Shutdown_def split: if_splits)
  have "is_ok q" if q: "q \<in> set rs" for q
  proof (cases q)
    case (Inl e)
    with q roll_errors_quiet [OF assms(2) [unfolded quiet(2)]] quiet(1) show ?thesis by force
  qed simp
  then show thesis using that [of rs] rs quiet(2) by (simp add: roll_errors_bundlers)
qed

lemma csv_handle_steps:
  assumes "csv_HandleBlockScopedData wi env now data cursor s = (Done, s')" "csv_receive env data = Inr cs" "cs_shutdown s' = None"
  obtains bs rs where "dumpDatabaseChangesIntoCSV wi (cs_loader s) cs (bundlersByTable s) = (Done, bs)"
    "roll_bundlers wi (bd_number data) bs = Some (rs, bundlersByTable s')" "\<forall>q \<in> set rs. is_ok q"
proof -
  obtain x bs where x: "dumpDatabaseChangesIntoCSV wi (cs_loader s) cs (bundlersByTable s) = (x, bs)" by fastforce
  have xd: "x = Done" using assms(1,2) x by (cases x) (simp_all add: csv_HandleBlockScopedData_def)
  let ?s1 = "s\<lparr>bundlersByTable := bs, stateStore := SetCursor now cursor (stateStore s)\<rparr>"
  obtain y s2 where y: "saveState env cursor ?s1 = (y, s2)" by fastforce
  have yd: "y = Done" using assms(1,2) x xd y by (cases y) (simp_all add: csv_HandleBlockScopedData_def Let_def)
  have "rollAllBundlers wi (bd_number data) s2 = Some s'"
    using assms(1,2) x xd y yd by (simp add: csv_HandleBlockScopedData_def Let_def split: option.splits)
  moreover have "bundlersByTable s2 = bs"
    using y yd by (auto simp: saveState_def Let_def split: if_splits sum.splits option.splits)
  ultimately show thesis using rollAllBundlers_quiet [OF _ assms(3)] that x xd by blast
qed

text \<open>
  C25. A handled block puts its rows, in order, after a header if there was none, into the file of the
  boundary that was active before it, and nothing else: when the block lies in the boundary they stay
  in it; when it does not, the file is queued with everything that was written to the boundary and
  these rows, and the boundary of the block is opened, empty. So the rows of the block that begins a
  bundle are in the file of the bundle before.
\<close>

theorem rows_go_to_the_active_boundary:
  assumes "os_ok os" "csv_HandleBlockScopedData (bio_writer os) env now data cursor s = (Done, s')"
    "cs_shutdown s = None" "cs_shutdown s' = None"
    and b: "map_of (bundlersByTable s) t = Some b" "bio_holds (boundaryWriter b) d" "activeBoundary b = Some r"
    and changes: "csv_receive env data = Inr cs"
    and d': "d' = d @ (if table_lines (cs_loader s) cs t \<noteq> [] \<and> \<not> HeaderWritten b then Header b else [])
        @ concat (table_lines (cs_loader s) cs t)"
  shows "\<exists>b'. map_of (bundlersByTable s') t = Some b'
    \<and> (if range_Contains r (bd_number data)
       then bio_holds (boundaryWriter b') d' \<and> uploadQueue b' = uploadQueue b \<and> activeBoundary b' = Some r
       else (\<exists>u. bio_data u (boundaryWriter b') = d' \<and> uploadQueue b' = uploadQueue b @
            (if wi_IsWritten (bio_writer os) (boundaryWriter b) \<or> table_lines (cs_loader s) cs t \<noteq> []
             then [\<lparr>bf_name = r, bf_file = u\<rparr>] else []))
         \<and> bio_holds (boundaryWriter b') []
         \<and> activeBoundary b' = Some (newBoundary (blockCount b) (bn_stopBlock b) (bd_number data)))"
proof -
  let ?ls = "table_lines (cs_loader s) cs t" and ?n = "bd_number data"
  obtain bs rs where x: "dumpDatabaseChangesIntoCSV (bio_writer os) (cs_loader s) cs (bundlersByTable s) = (Done, bs)"
    and rs: "roll_bundlers (bio_writer os) ?n bs = Some (rs, bundlersByTable s')" "\<forall>q \<in> set rs. is_ok q"
    using csv_handle_steps [OF assms(2) changes assms(4)] .
  define c where "c = fold (write_row (bio_writer os)) ?ls b"
  have at: "map_of bs t = Some c" unfolding c_def using dump_rows [OF x b(1)] .
  have W: "bio_holds (boundaryWriter c) d'"
    "wi_IsWritten (bio_writer os) (boundaryWriter c) \<longleftrightarrow> wi_IsWritten (bio_writer os) (boundaryWriter b) \<or> ?ls \<noteq> []"
    "activeBoundary c = Some r" "uploadQueue c = uploadQueue b" "blockCount c = blockCount b" "bn_stopBlock c = bn_stopBlock b"
    using bio.write_rows_holds [OF bio_Write_total [OF assms(1)] b(2), where ls = ?ls] b(3)
    unfolding d' c_def Let_def by auto
  obtain q b' where q: "q \<in> set rs" "Roll (bio_writer os) ?n c = Some (q, b')" "map_of (bundlersByTable s') t = Some b'"
    using roll_bundlers_at [OF rs(1) at] by blast
  show ?thesis
  proof (cases "range_Contains r ?n")
    case True
    then have "b' = c" using q(2) W(3) by (simp add: Roll_def)
    then show ?thesis using True q(3) W by simp
  next
    case False
    have "is_ok q" using rs(2) q(1) by blast
    from bio.roll_ok [OF W(1,3) False q(2) disjI1, OF this] obtain u where u:
      "bio_data u (boundaryWriter b') = d'"
      "uploadQueue b' = uploadQueue c @ (if wi_IsWritten (bio_writer os) (boundaryWriter c) then [\<lparr>bf_name = r, bf_file = u\<rparr>] else [])"
      "if ?n < bn_stopBlock c then q = Inr True \<and> bio_holds (boundaryWriter b') []
         \<and> \<not> wi_IsWritten (bio_writer os) (boundaryWriter b')
         \<and> activeBoundary b' = Some (newBoundary (blockCount c) (bn_stopBlock c) ?n)
       else q = Inl ErrStopBlockReached \<and> bio_idle (boundaryWriter b')" by blast
    have "q \<noteq> Inl ErrStopBlockReached" using \<open>is_ok q\<close> by auto
    then show ?thesis using False q(3) W u by (auto split: if_splits)
  qed
qed


section \<open>An example run\<close>

text \<open>One table, bundles of two blocks, the blocks from 0 to 3; each block creates a row.\<close>

definition ex_csv_env :: CsvEnv where
  "ex_csv_env = \<lparr>ce_moduleName = ''db_out'', ce_moduleHash = ''h'', ce_messageIs = (\<lambda>_. True),
     ce_unmarshal = (\<lambda>v. Inr [\<lparr>tc_table = ''xfer'', tc_key = Pk v, tc_operation = OPERATION_CREATE,
        tc_fields = [\<lparr>f_name = ''note'', f_newValue = ''n''\<rparr>]\<rparr>]),
     ce_marshal = (\<lambda>_. Inr []), ce_writeFile = (\<lambda>_ _. None)\<rparr>"

definition ex_csv_block :: "u64 \<Rightarrow> BlockData" where
  "ex_csv_block n = \<lparr>bd_outputName = ''db_out'',
     bd_mapOutput = \<lparr>any_String = ''x'', any_TypeUrl = [], any_MessageName = [], any_Value = dec64 n\<rparr>,
     bd_number = n, bd_timestamp = 0, bd_finalBlockHeight = n\<rparr>"

definition ex_csv_start :: "(BufferedIO \<times> Files) CsvSinker" where
  "ex_csv_start = (case NewGenerateCSVSinker (bio_writer ex_os) (\<lambda>t. (NewBufferedIO 100 t ''csv'', [])) (\<lambda>_. None)
      (Some (0, Some 4)) ''cursors'' 2 ex_loader ''last'' \<lparr>ss_outputPath = ''state'', ss_state = newFileState,
        ss_started = False, ss_queue = []\<rparr> of Inr s \<Rightarrow> s)"

definition ex_csv_handle :: "u64 \<Rightarrow> (BufferedIO \<times> Files) CsvSinker \<Rightarrow> (BufferedIO \<times> Files) CsvSinker" where
  "ex_csv_handle n s = snd (csv_HandleBlockScopedData (bio_writer ex_os) ex_csv_env 0 (ex_csv_block n)
     \<lparr>c_string = ''c'', c_num = n, c_id = ''b''\<rparr> s)"

definition ex_csv_end :: "(BufferedIO \<times> Files) CsvSinker" where
  "ex_csv_end = fold ex_csv_handle [0, 1, 2, 3] ex_csv_start"


definition ex_csv_bundler :: "(BufferedIO \<times> Files) CsvSinker \<Rightarrow> (BufferedIO \<times> Files) Bundler" where
  "ex_csv_bundler s = the (map_of (bundlersByTable s) ''xfer'')"

theorem rows_go_to_the_active_boundary_witness:
  "\<exists>u. uploadQueue (ex_csv_bundler (ex_csv_handle 2 ex_csv_start)) = [\<lparr>bf_name = \<lparr>StartBlock = 0, EndBlock = 2\<rparr>, bf_file = u\<rparr>]
     \<and> bio_data u (boundaryWriter (ex_csv_bundler (ex_csv_handle 2 ex_csv_start)))
       = ''id,note'' @ [CHR 0x0A] @ ''2,n'' @ [CHR 0x0A]"
proof -
  let ?c = "\<lparr>c_string = ''c'', c_num = 2, c_id = ''b''\<rparr>" and ?b = "ex_csv_bundler ex_csv_start"
  let ?H = "csv_HandleBlockScopedData (bio_writer ex_os) ex_csv_env 0 (ex_csv_block 2) ?c ex_csv_start"
  let ?cs = "[\<lparr>tc_table = ''xfer'', tc_key = Pk ''2'', tc_operation = OPERATION_CREATE,
        tc_fields = [\<lparr>f_name = ''note'', f_newValue = ''n''\<rparr>]\<rparr>]"
  have fin: "fst ?H = Done" "cs_shutdown (ex_csv_handle 2 ex_csv_start) = None" "cs_shutdown ex_csv_start = None"
    by code_simp+
  have H: "?H = (Done, ex_csv_handle 2 ex_csv_start)" using fin(1) by (simp add: ex_csv_handle_def prod_eq_iff)
  have tab: "map fst (bundlersByTable ex_csv_start) = [''xfer'']" by code_simp
  then have b: "map_of (bundlersByTable ex_csv_start) ''xfer'' = Some ?b"
    unfolding ex_csv_bundler_def by (metis list.set_intros(1) map_of_eq_None_iff option.collapse set_map)
  have "active (fst (boundaryWriter ?b)) (snd (boundaryWriter ?b)) (the (activeFile (fst (boundaryWriter ?b)))) []" by code_simp
  then have holds: "bio_holds (boundaryWriter ?b) []" unfolding bio_holds_def by blast
  have more: "activeBoundary ?b = Some \<lparr>StartBlock = 0, EndBlock = 2\<rparr>" "csv_receive ex_csv_env (ex_csv_block 2) = Inr ?cs"
    by code_simp+
  have lines: "table_lines (cs_loader ex_csv_start) ?cs ''xfer'' = [''2,n'' @ [CHR 0x0A]]" by code_simp
  have start: "HeaderWritten ?b = False" "Header ?b = ''id,note'' @ [CHR 0x0A]" "uploadQueue ?b = []" by code_simp+
  have out: "range_Contains \<lparr>StartBlock = 0, EndBlock = 2\<rparr> (bd_number (ex_csv_block 2)) = False" by code_simp
  have os: "os_ok ex_os" by (simp add: os_ok_def ex_os_def)
  from rows_go_to_the_active_boundary [OF os H fin(3,2) b holds more refl, unfolded lines out start]
  obtain b' u where "map_of (bundlersByTable (ex_csv_handle 2 ex_csv_start)) ''xfer'' = Some b'"
    "bio_data u (boundaryWriter b') = ''id,note'' @ [CHR 0x0A] @ ''2,n'' @ [CHR 0x0A]"
    "uploadQueue b' = [\<lparr>bf_name = \<lparr>StartBlock = 0, EndBlock = 2\<rparr>, bf_file = u\<rparr>]" by auto
  then show ?thesis by (auto simp: ex_csv_bundler_def)
qed

text \<open>
  The rows of the last bundle reach no file: at the end of the range the boundary that is still
  active is neither closed nor queued. Of a table with one row in each of the blocks 0 to 3, in
  bundles of two blocks, the only file is the one of the blocks 0 and 1: it holds the rows of the blocks
  0, 1 and 2, and the row of block 3 is left in the writer.
\<close>

theorem last_rows_reach_no_file:
  "fst (csv_HandleBlockRangeCompletion (\<lambda>_ _. None) ''h'' \<lparr>c_string = ''c'', c_num = 3, c_id = ''b''\<rparr> ex_csv_end) = None
   \<and> map (\<lambda>(t, q). (t, map (\<lambda>f. (outputFilename (bf_file f), up_data (bf_file f))) q))
       (snd (csv_HandleBlockRangeCompletion (\<lambda>_ _. None) ''h'' \<lparr>c_string = ''c'', c_num = 3, c_id = ''b''\<rparr> ex_csv_end))
     = [(''xfer'', [(''0000000000-0000000001'', ''id,note'' @ [CHR 0x0A] @ ''0,n'' @ [CHR 0x0A] @ ''1,n'' @ [CHR 0x0A] @ ''2,n'' @ [CHR 0x0A])])]
   \<and> bw_buf (af_writer (the (activeFile (fst (boundaryWriter (ex_csv_bundler ex_csv_end))))))
     = ''id,note'' @ [CHR 0x0A] @ ''3,n'' @ [CHR 0x0A]"
proof -
  let ?C = "csv_HandleBlockRangeCompletion (\<lambda>_ _. None) ''h'' \<lparr>c_string = ''c'', c_num = 3, c_id = ''b''\<rparr> ex_csv_end"
  have "fst ?C = None" by code_simp
  moreover have "map (\<lambda>(t, q). (t, map (\<lambda>f. (outputFilename (bf_file f), up_data (bf_file f))) q)) (snd ?C)
     = [(''xfer'', [(''0000000000-0000000001'', ''id,note'' @ [CHR 0x0A] @ ''0,n'' @ [CHR 0x0A] @ ''1,n'' @ [CHR 0x0A] @ ''2,n'' @ [CHR 0x0A])])]"
    by code_simp
  moreover have "bw_buf (af_writer (the (activeFile (fst (boundaryWriter (ex_csv_bundler ex_csv_end))))))
     = ''id,note'' @ [CHR 0x0A] @ ''3,n'' @ [CHR 0x0A]" by code_simp
  ultimately show ?thesis by blast
qed

end
