(* ===== verification/ProtoSchema.thy ===== *)
theory ProtoSchema
  imports Setup
begin

text \<open>
  The schema that the second way of reading a module derives from the protobuf type of its output:
  \<open>src/db_proto/sql/schema\<close> (\<open>column.go\<close>, \<open>table.go\<close>, \<open>schema.go\<close>) and the options of messages and
  fields (\<open>src/proto/utils.go\<close>). The descriptors of a protobuf file come from the library
  \<open>jhump/protoreflect\<close>: a descriptor is the record of what its accessors return, and a message type
  is looked up by its fully qualified name in a function \<open>descs\<close>, because types may refer to
  each other, and to themselves.
\<close>

section \<open>Results\<close>

text \<open>What a call does that may return an error or panic\<close>

datatype 'a Ret = Returns 'a | Fails GoErr | Panics

fun ret_bind :: "'a Ret \<Rightarrow> ('a \<Rightarrow> 'b Ret) \<Rightarrow> 'b Ret" where
  "ret_bind (Returns x) f = f x"
| "ret_bind (Fails e) f = Fails e"
| "ret_bind Panics f = Panics"

fun ret_wrap :: "string \<Rightarrow> GoArg list \<Rightarrow> 'a Ret \<Rightarrow> 'a Ret" where
  "ret_wrap f as (Fails e) = Fails (Wrapf f as e)"
| "ret_wrap f as r = r"

fun ret_of :: "'a res \<Rightarrow> 'a Ret" where
  "ret_of (Inl e) = Fails e"
| "ret_of (Inr x) = Returns x"

lemma ret_bind_Returns: "ret_bind r f = Returns y \<longleftrightarrow> (\<exists>x. r = Returns x \<and> f x = Returns y)"
  by (cases r) auto

lemma ret_wrap_Returns [simp]: "ret_wrap f as r = Returns x \<longleftrightarrow> r = Returns x"
  by (cases r) auto

lemma ret_of_Returns [simp]: "ret_of r = Returns x \<longleftrightarrow> r = Inr x"
  by (cases r) auto

lemma ret_bind_cong [fundef_cong]:
  "r = r' \<Longrightarrow> (\<And>x. r' = Returns x \<Longrightarrow> f x = g x) \<Longrightarrow> ret_bind r f = ret_bind r' g"
  by (cases r') auto

section \<open>Descriptors\<close>

datatype FieldType =
    TYPE_DOUBLE | TYPE_FLOAT | TYPE_INT64 | TYPE_UINT64 | TYPE_INT32 | TYPE_FIXED64 | TYPE_FIXED32
  | TYPE_BOOL | TYPE_STRING | TYPE_GROUP | TYPE_MESSAGE | TYPE_BYTES | TYPE_UINT32 | TYPE_ENUM
  | TYPE_SFIXED32 | TYPE_SFIXED64 | TYPE_SINT32 | TYPE_SINT64

text \<open>The options of a field and of a message (\<open>schema.Column\<close>, \<open>schema.Table\<close> of the generated code). A value of an
  enumeration is one of its names.\<close>

record PbColumn =
  pc_Name :: "string option"
  pc_ForeignKey :: "string option"
  pc_Unique :: bool
  pc_PrimaryKey :: bool
  pc_SemanticType :: "string option"
  pc_FormatHint :: "string option"

datatype ChFunction = F_unset | F_toYYYYMM | F_toYYYYDD | F_toYear | F_toMonth | F_toDate | F_toStartOfMonth

datatype ChIndexType = I_minmax | I_set | I_ngrambf_v1 | I_tokenbf_v1 | I_bloom_filter

record ChOrderByField =
  ob_Name :: string
  ob_Descending :: bool
  ob_Function :: ChFunction

record ChPartitionByField =
  pf_Name :: string
  pf_Function :: ChFunction

record ChIndexField =
  ix_Name :: string
  ix_FieldName :: string
  ix_Type :: ChIndexType
  ix_Granularity :: "32 word"
  ix_Function :: ChFunction

record ChTableOptions =
  ct_OrderByFields :: "ChOrderByField list"
  ct_PartitionFields :: "ChPartitionByField list"
  ct_ReplacingFields :: "string list"
  ct_IndexFields :: "ChIndexField list"

record PbTable =
  pt_Name :: string
  pt_ChildOf :: "string option"
  pt_Clickhouse :: "ChTableOptions option"

text \<open>A field is identified by its fully qualified name; the type of a message field by the name of the
  message. \<open>fd_InOneOf\<close> is \<open>GetOneOf() != nil\<close>.\<close>

record FieldDesc =
  fd_FullName :: string
  fd_Name :: string
  fd_Type :: FieldType
  fd_MessageType :: string
  fd_IsRepeated :: bool
  fd_InOneOf :: bool
  fd_IsExtension :: bool
  fd_Options :: "PbColumn option"

record MessageDesc =
  md_FullName :: string
  md_Name :: string
  md_Fields :: "FieldDesc list"
  md_Options :: "PbTable option"

type_synonym Descs = "string \<Rightarrow> MessageDesc"

text \<open>The option of a message: the name of its table is required.\<close>

definition pb_TableInfo :: "MessageDesc \<Rightarrow> PbTable option Ret" where
  "pb_TableInfo d =
     (case md_Options d of
        None \<Rightarrow> Returns None
      | Some t \<Rightarrow> if pt_Name t = [] then Panics else Returns (Some t))"

definition pb_FieldInfo :: "FieldDesc \<Rightarrow> PbColumn option" where
  "pb_FieldInfo d = fd_Options d"

text \<open>The semantic type of a field, if it has one, and its format hint\<close>

definition SemanticTypeInfo :: "FieldDesc \<Rightarrow> string option \<times> string" where
  "SemanticTypeInfo d =
     (case pb_FieldInfo d of
        None \<Rightarrow> (None, [])
      | Some c \<Rightarrow> (pc_SemanticType c, case pc_FormatHint c of Some h \<Rightarrow> h | None \<Rightarrow> []))"

section \<open>Texts\<close>

text \<open>\<open>strings.Split(s, sep)\<close> with a non-empty separator\<close>

function split_string :: "string \<Rightarrow> string \<Rightarrow> string list" where
  "split_string sep [] = [[]]"
| "split_string sep (c # cs) =
     (if sep \<noteq> [] \<and> hasPrefix sep (c # cs) then [] # split_string sep (drop (length sep) (c # cs))
      else (case split_string sep cs of [] \<Rightarrow> [[c]] | w # ws \<Rightarrow> (c # w) # ws))"
  by pat_completeness auto
termination
  by (relation "measure (\<lambda>(_, s). length s)") (auto simp: length_Cons le_imp_less_Suc)

text \<open>\<open>%q\<close>: \<open>strconv.Quote\<close>, whose table of printable runes above \<open>0x7E\<close> is a parameter\<close>

definition hex_digits :: "nat \<Rightarrow> nat \<Rightarrow> string" where
  "hex_digits n r = map (\<lambda>i. hexdigit (r div 16 ^ i mod 16)) (rev [0..<n])"

definition quote_rune :: "(nat \<Rightarrow> bool) \<Rightarrow> nat \<Rightarrow> string" where
  "quote_rune printable r =
     (if r = 0x22 \<or> r = 0x5C then [CHR 0x5C, char_of r]
      else if 0x20 \<le> r \<and> r < 0x7F \<or> 0x7F < r \<and> printable r then encode_rune r
      else if r = 7 then [CHR 0x5C, CHR ''a''] else if r = 8 then [CHR 0x5C, CHR ''b'']
      else if r = 12 then [CHR 0x5C, CHR ''f''] else if r = 10 then [CHR 0x5C, CHR ''n'']
      else if r = 13 then [CHR 0x5C, CHR ''r''] else if r = 9 then [CHR 0x5C, CHR ''t'']
      else if r = 11 then [CHR 0x5C, CHR ''v'']
      else if r < 0x20 \<or> r = 0x7F then [CHR 0x5C, CHR ''x''] @ hex_digits 2 r
      else if r < 0x10000 then [CHR 0x5C, CHR ''u''] @ hex_digits 4 r
      else [CHR 0x5C, CHR ''U''] @ hex_digits 8 r)"

function quote_text :: "(nat \<Rightarrow> bool) \<Rightarrow> string \<Rightarrow> string" where
  "quote_text printable [] = []"
| "quote_text printable (c # cs) =
     (case decode_rune (c # cs) of
        (r, n) \<Rightarrow> (if r = 0xFFFD \<and> n = 1 then [CHR 0x5C, CHR ''x''] @ hex_digits 2 (of_char c)
                   else quote_rune printable r)
                  @ quote_text printable (drop (snd (decode_rune (c # cs))) (c # cs)))"
  by pat_completeness auto
termination
  by (relation "measure (\<lambda>(_, s). length s)") (use drop_rune_less in auto)

text \<open>Letters, digits and the underscore are left as they are, so a name is quoted as it is.\<close>

definition plain_char :: "char \<Rightarrow> bool" where
  "plain_char c \<longleftrightarrow> c \<in> set ''abcdefghijklmnopqrstuvwxyz_ABCDEFGHIJKLMNOPQRSTUVWXYZ0123456789''"

declare quote_text.simps(2) [simp del]

lemma plain_char_range: "plain_char c \<Longrightarrow> 48 \<le> (of_char c :: nat) \<and> (of_char c :: nat) \<le> 122 \<and> (of_char c :: nat) \<noteq> 0x5C"
  by (auto simp: plain_char_def)

lemma quote_text_plain [simp]: "plain_char c \<Longrightarrow> quote_text printable (c # cs) = c # quote_text printable cs"
proof -
  assume "plain_char c"
  from plain_char_range [OF this] have d: "decode_rune (c # cs) = (of_char c, 1)"
    and q: "quote_rune printable (of_char c) = [c]"
    by (simp_all add: decode_rune.simps quote_rune_def encode_rune_def)
  have "(of_char c :: nat) \<noteq> 0xFFFD" using plain_char_range [OF \<open>plain_char c\<close>] by simp
  then show ?thesis by (subst quote_text.simps) (simp add: d q)
qed

lemma quote_text_code [code]:
  "quote_text printable [] = []"
  "quote_text printable (c # cs) =
     (if plain_char c then c # quote_text printable cs
      else (case decode_rune (c # cs) of
        (r, n) \<Rightarrow> (if r = 0xFFFD \<and> n = 1 then [CHR 0x5C, CHR ''x''] @ hex_digits 2 (of_char c)
                   else quote_rune printable r)
                  @ quote_text printable (drop (snd (decode_rune (c # cs))) (c # cs))))"
  by simp (cases "plain_char c", simp, simp only: quote_text.simps(2) if_False)

lemma quote_text_id: "list_all plain_char s \<Longrightarrow> quote_text printable s = s"
  by (induction s) auto

definition go_quote :: "(nat \<Rightarrow> bool) \<Rightarrow> string \<Rightarrow> string" where
  "go_quote printable s = [CHR 0x22] @ quote_text printable s @ [CHR 0x22]"

section \<open>Columns\<close>

record ForeignKey =
  fk_Table :: string
  fk_TableField :: string

definition NewForeignKey :: "string \<Rightarrow> ForeignKey res" where
  "NewForeignKey foreignKey =
     (case split_string '' on '' foreignKey of
        [a, b] \<Rightarrow> Inr \<lparr>fk_Table = TrimSpace a, fk_TableField = TrimSpace b\<rparr>
      | _ \<Rightarrow> Inl (Errorf ''invalid foreign key format %q. expecting 'table_name on field_name' format'' [AStr foreignKey]))"

record Column =
  cl_Name :: string
  cl_ForeignKey :: "ForeignKey option"
  cl_Field :: FieldDesc
  cl_IsPrimaryKey :: bool
  cl_IsUnique :: bool
  cl_IsRepeated :: bool
  cl_IsExtension :: bool
  cl_IsMessage :: bool
  cl_Message :: string

definition NewColumn :: "Descs \<Rightarrow> FieldDesc \<Rightarrow> Column res" where
  "NewColumn descs d =
     (let isMessage = (fd_Type d = TYPE_MESSAGE);
          out = \<lparr>cl_Name = fd_Name d, cl_ForeignKey = None, cl_Field = d, cl_IsPrimaryKey = False,
                 cl_IsUnique = False, cl_IsRepeated = fd_IsRepeated d, cl_IsExtension = fd_IsExtension d,
                 cl_IsMessage = isMessage,
                 cl_Message = (if isMessage then md_Name (descs (fd_MessageType d)) else [])\<rparr>
      in case pb_FieldInfo d of
           None \<Rightarrow> Inr out
         | Some info \<Rightarrow>
             let out1 = out\<lparr>cl_Name := (case pc_Name info of Some n \<Rightarrow> n | None \<Rightarrow> cl_Name out),
                            cl_IsPrimaryKey := pc_PrimaryKey info, cl_IsUnique := pc_Unique info\<rparr>
             in case pc_ForeignKey info of
                  None \<Rightarrow> Inr out1
                | Some text \<Rightarrow>
                    (case NewForeignKey text of
                       Inl e \<Rightarrow> Inl (Wrapf ''error parsing foreign key %s: %w'' [AStr text] e)
                     | Inr fk \<Rightarrow> Inr (out1\<lparr>cl_ForeignKey := Some fk\<rparr>)))"

definition QuotedName :: "(nat \<Rightarrow> bool) \<Rightarrow> Column \<Rightarrow> string" where
  "QuotedName printable c = go_quote printable (cl_Name c)"

section \<open>Tables\<close>

record PrimaryKey =
  pk_Name :: string
  pk_Field :: FieldDesc
  pk_Index :: nat

record ChildOf =
  ParentTable :: string
  ParentTableField :: string

definition NewChildOf :: "string \<Rightarrow> ChildOf res" where
  "NewChildOf childOf =
     (case split_string '' on '' childOf of
        [a, b] \<Rightarrow> Inr \<lparr>ParentTable = TrimSpace a, ParentTableField = TrimSpace b\<rparr>
      | _ \<Rightarrow> Inl (Errorf ''invalid child of format %q. expecting 'table_name on field_name' format'' [AStr childOf]))"

record Table =
  tb_Name :: string
  tb_PrimaryKey :: "PrimaryKey option"
  tb_ChildOf :: "ChildOf option"
  tb_Columns :: "Column list"
  tb_Ordinal :: nat
  tb_Info :: PbTable

text \<open>\<open>isTimestamp\<close>, from the name of a message without its package\<close>

definition is_Timestamp :: "MessageDesc \<Rightarrow> bool" where
  "is_Timestamp md \<longleftrightarrow> md_Name md = ''.google.protobuf.Timestamp'' \<or> md_Name md = ''Timestamp''"

text \<open>The fields that get no column: those of a oneof, and messages that are repeated or not timestamps\<close>

definition skips_field :: "Descs \<Rightarrow> FieldDesc \<Rightarrow> bool" where
  "skips_field descs fd \<longleftrightarrow>
     fd_InOneOf fd
     \<or> fd_IsRepeated fd \<and> fd_Type fd = TYPE_MESSAGE
     \<or> fd_Type fd = TYPE_MESSAGE \<and> \<not> is_Timestamp (descs (fd_MessageType fd))"

fun processColumns :: "Descs \<Rightarrow> nat \<Rightarrow> FieldDesc list \<Rightarrow> Table \<Rightarrow> Table res" where
  "processColumns descs idx [] t = Inr t"
| "processColumns descs idx (fd # fds) t =
     (if skips_field descs fd then processColumns descs (idx + 1) fds t
      else case NewColumn descs fd of
        Inl e \<Rightarrow> Inl (Wrapf ''error processing column %q: %w'' [AStr (fd_Name fd)] e)
      | Inr column \<Rightarrow>
          if cl_IsPrimaryKey column \<and> tb_PrimaryKey t \<noteq> None
          then Inl (Errorf ''multiple field mark has primary keys are not supported'' [])
          else let t1 = (if cl_IsPrimaryKey column
                         then t\<lparr>tb_PrimaryKey := Some \<lparr>pk_Name = cl_Name column, pk_Field = fd, pk_Index = idx\<rparr>\<rparr>
                         else t)
               in processColumns descs (idx + 1) fds (t1\<lparr>tb_Columns := tb_Columns t1 @ [column]\<rparr>))"

text \<open>A table, or none for timestamps and messages without columns\<close>

definition NewTable :: "Descs \<Rightarrow> MessageDesc \<Rightarrow> PbTable \<Rightarrow> nat \<Rightarrow> Table option res" where
  "NewTable descs md tableInfo ordinal =
     (let table = \<lparr>tb_Name = pt_Name tableInfo, tb_PrimaryKey = None, tb_ChildOf = None, tb_Columns = [],
                   tb_Ordinal = ordinal, tb_Info = tableInfo\<rparr>
      in if is_Timestamp md then Inr None
         else case (case pt_ChildOf tableInfo of
                      None \<Rightarrow> Inr table
                    | Some text \<Rightarrow>
                        (case NewChildOf text of
                           Inl e \<Rightarrow> Inl (Wrapf ''error parsing child of: %w'' [] e)
                         | Inr co \<Rightarrow> Inr (table\<lparr>tb_ChildOf := Some co\<rparr>))) of
           Inl e \<Rightarrow> Inl e
         | Inr table1 \<Rightarrow>
             (case processColumns descs 0 (md_Fields md) table1 of
                Inl e \<Rightarrow> Inl (Wrapf ''error processing fields for table %q: %w'' [AStr (md_Name md)] e)
              | Inr table2 \<Rightarrow> Inr (if tb_Columns table2 = [] then None else Some table2)))"

section \<open>The schema\<close>

record Schema =
  sc_Name :: string
  TableRegistry :: "Table gomap"
  rootMessage :: string
  withProtoOption :: bool

text \<open>The table info of a message: its option, or its name when options are not required\<close>

definition table_info :: "bool \<Rightarrow> MessageDesc \<Rightarrow> PbTable option Ret" where
  "table_info withOption md =
     ret_bind (pb_TableInfo md) (\<lambda>ti. Returns
       (case ti of
          Some t \<Rightarrow> Some t
        | None \<Rightarrow> if withOption then None else Some \<lparr>pt_Name = md_Name md, pt_ChildOf = None, pt_Clickhouse = None\<rparr>))"

text \<open>The task of \<open>init\<close>: the table of a message enters the registry unless its name is taken.\<close>

definition register :: "Descs \<Rightarrow> bool \<Rightarrow> MessageDesc \<Rightarrow> nat \<Rightarrow> Table gomap \<Rightarrow> Table gomap Ret" where
  "register descs withOption md ordinal registry =
     ret_bind (table_info withOption md) (\<lambda>ti.
       case ti of
         None \<Rightarrow> Returns registry
       | Some tableInfo \<Rightarrow>
           if map_of registry (pt_Name tableInfo) \<noteq> None then Returns registry
           else (case NewTable descs md tableInfo ordinal of
                   Inl e \<Rightarrow> Fails (Wrapf ''creating table message descriptor: %w'' [] e)
                 | Inr None \<Rightarrow> Returns registry
                 | Inr (Some table) \<Rightarrow> Returns (AList.update (pt_Name tableInfo) table registry)))"

text \<open>\<open>walkMessageDescriptor\<close>: the messages of the fields, depth first, and then the task on the message
  itself. The list is the rest of the fields of \<open>md\<close>. A message that contains itself is walked for ever.\<close>

partial_function (option) walk_fields ::
    "Descs \<Rightarrow> (MessageDesc \<Rightarrow> nat \<Rightarrow> 's \<Rightarrow> 's Ret) \<Rightarrow> MessageDesc \<Rightarrow> FieldDesc list \<Rightarrow> nat \<Rightarrow> 's \<Rightarrow> 's Ret option" where
  "walk_fields descs task md fds ordinal s =
     (case fds of
        [] \<Rightarrow> Some (ret_wrap ''running task on message descriptor %q: %w'' [AStr (md_Name md)] (task md ordinal s))
      | fd # rest \<Rightarrow>
          if fd_Type fd = TYPE_MESSAGE
          then Option.bind
                 (walk_fields descs task (descs (fd_MessageType fd)) (md_Fields (descs (fd_MessageType fd)))
                    (ordinal + 1) s)
                 (\<lambda>r. case r of
                        Returns s' \<Rightarrow> walk_fields descs task md rest ordinal s'
                      | Fails e \<Rightarrow> Some (Fails (Wrapf ''walking field %q message descriptor: %w'' [AStr (fd_Name fd)] e))
                      | Panics \<Rightarrow> Some Panics)
          else walk_fields descs task md rest ordinal s)"

declare walk_fields.simps [code]

definition walkMessageDescriptor ::
    "Descs \<Rightarrow> MessageDesc \<Rightarrow> nat \<Rightarrow> (MessageDesc \<Rightarrow> nat \<Rightarrow> 's \<Rightarrow> 's Ret) \<Rightarrow> 's \<Rightarrow> 's Ret option" where
  "walkMessageDescriptor descs md ordinal task s = walk_fields descs task md (md_Fields md) ordinal s"

definition Schema_init :: "Descs \<Rightarrow> Schema \<Rightarrow> Schema Ret option" where
  "Schema_init descs sc =
     (let rootMd = descs (rootMessage sc) in
      map_option
        (\<lambda>r. ret_bind (ret_wrap ''walking and creating table message descriptors registry: %q: %w'' [AStr (md_Name rootMd)] r)
               (\<lambda>registry. Returns (sc\<lparr>TableRegistry := registry\<rparr>)))
        (walkMessageDescriptor descs rootMd 0 (register descs (withProtoOption sc)) (TableRegistry sc)))"

definition NewSchema :: "Descs \<Rightarrow> string \<Rightarrow> string \<Rightarrow> bool \<Rightarrow> Schema Ret option" where
  "NewSchema descs name rootName withOption =
     map_option (ret_wrap ''initializing schema: %w'' [])
       (Schema_init descs \<lparr>sc_Name = name, TableRegistry = [], rootMessage = rootName, withProtoOption = withOption\<rparr>)"

definition ChangeName :: "Descs \<Rightarrow> string \<Rightarrow> Schema \<Rightarrow> Schema Ret option" where
  "ChangeName descs name sc =
     map_option (ret_wrap ''changing schema name: %w'' [])
       (Schema_init descs (sc\<lparr>sc_Name := name, TableRegistry := []\<rparr>))"

section \<open>Lemmas\<close>

subsection \<open>Columns and tables\<close>

lemma NewColumn_Inr:
  assumes "NewColumn descs d = Inr c"
  shows "cl_Field c = d" "cl_IsRepeated c = fd_IsRepeated d" "cl_IsExtension c = fd_IsExtension d"
    "cl_IsMessage c = (fd_Type d = TYPE_MESSAGE)"
    "cl_Message c = (if fd_Type d = TYPE_MESSAGE then md_Name (descs (fd_MessageType d)) else [])"
  using assms unfolding NewColumn_def Let_def by (auto split: option.splits sum.splits)

definition column_fields :: "Descs \<Rightarrow> FieldDesc list \<Rightarrow> FieldDesc list" where
  "column_fields descs fds = filter (\<lambda>fd. \<not> skips_field descs fd) fds"

lemma traverse_NewColumn_fields:
  "traverse (NewColumn descs) fds = Inr cols \<Longrightarrow> map cl_Field cols = fds"
  by (induction fds arbitrary: cols) (auto split: sum.splits dest: NewColumn_Inr)

text \<open>The key of a table is the one column that is marked as key.\<close>

definition key_of_columns :: "Column list \<Rightarrow> PrimaryKey option \<Rightarrow> bool" where
  "key_of_columns cols pk \<longleftrightarrow>
     map (\<lambda>c. (cl_Name c, cl_Field c)) (filter cl_IsPrimaryKey cols)
     = (case pk of None \<Rightarrow> [] | Some k \<Rightarrow> [(pk_Name k, pk_Field k)])"

lemma processColumns_Inr:
  assumes "processColumns descs idx fds t = Inr t'" "key_of_columns (tb_Columns t) (tb_PrimaryKey t)"
  shows "\<exists>cols. traverse (NewColumn descs) (column_fields descs fds) = Inr cols
           \<and> tb_Columns t' = tb_Columns t @ cols \<and> key_of_columns (tb_Columns t') (tb_PrimaryKey t')
           \<and> tb_Name t' = tb_Name t \<and> tb_ChildOf t' = tb_ChildOf t \<and> tb_Ordinal t' = tb_Ordinal t
           \<and> tb_Info t' = tb_Info t"
  using assms
proof (induction fds arbitrary: idx t)
  case Nil
  then show ?case by (simp add: column_fields_def)
next
  case (Cons fd fds)
  show ?case
  proof (cases "skips_field descs fd")
    case True
    then show ?thesis using Cons by (simp add: column_fields_def)
  next
    case False
    with Cons.prems obtain c where c: "NewColumn descs fd = Inr c"
      by (auto split: sum.splits)
    define t2 where "t2 = (let t1 = (if cl_IsPrimaryKey c
        then t\<lparr>tb_PrimaryKey := Some \<lparr>pk_Name = cl_Name c, pk_Field = fd, pk_Index = idx\<rparr>\<rparr> else t)
      in t1\<lparr>tb_Columns := tb_Columns t1 @ [c]\<rparr>)"
    have nd: "\<not> (cl_IsPrimaryKey c \<and> tb_PrimaryKey t \<noteq> None)"
      using Cons.prems(1) False c by (auto simp del: not_None_eq split: if_splits)
    have r: "processColumns descs (idx + 1) fds t2 = Inr t'"
      using Cons.prems(1) False c nd by (simp add: t2_def Let_def split: if_splits)
    have k: "key_of_columns (tb_Columns t2) (tb_PrimaryKey t2)"
      using Cons.prems(2) nd NewColumn_Inr(1) [OF c]
      by (auto simp: t2_def Let_def key_of_columns_def)
    have same: "tb_Columns t2 = tb_Columns t @ [c]" "tb_Name t2 = tb_Name t" "tb_ChildOf t2 = tb_ChildOf t"
      "tb_Ordinal t2 = tb_Ordinal t" "tb_Info t2 = tb_Info t"
      by (simp_all add: t2_def Let_def)
    from Cons.IH [OF r k] same False c show ?thesis
      by (auto simp: column_fields_def)
  qed
qed

lemma NewTable_Some:
  assumes "NewTable descs md ti ordinal = Inr (Some t)"
  shows "traverse (NewColumn descs) (column_fields descs (md_Fields md)) = Inr (tb_Columns t)"
    "tb_Columns t \<noteq> []" "key_of_columns (tb_Columns t) (tb_PrimaryKey t)" "tb_Name t = pt_Name ti"
    "tb_ChildOf t = None \<longleftrightarrow> pt_ChildOf ti = None" "tb_Info t = ti"
proof -
  define t0 where "t0 = \<lparr>tb_Name = pt_Name ti, tb_PrimaryKey = None, tb_ChildOf = None, tb_Columns = [],
                   tb_Ordinal = ordinal, tb_Info = ti\<rparr>"
  have nt: "\<not> is_Timestamp md" using assms unfolding NewTable_def Let_def by (auto split: if_splits)
  have r: "\<exists>co. processColumns descs 0 (md_Fields md) (t0\<lparr>tb_ChildOf := co\<rparr>) = Inr t
        \<and> (co = None \<longleftrightarrow> pt_ChildOf ti = None) \<and> tb_Columns t \<noteq> []"
  proof (cases "pt_ChildOf ti")
    case None
    then show ?thesis using assms nt unfolding NewTable_def Let_def
      by (intro exI [of _ None]) (auto simp: t0_def split: if_splits sum.splits)
  next
    case (Some x)
    then obtain co where "NewChildOf x = Inr co"
      using assms nt unfolding NewTable_def Let_def by (auto split: if_splits sum.splits)
    then show ?thesis using assms nt Some unfolding NewTable_def Let_def
      by (intro exI [of _ "Some co"]) (auto simp: t0_def split: if_splits sum.splits)
  qed
  then obtain co where c0: "processColumns descs 0 (md_Fields md) (t0\<lparr>tb_ChildOf := co\<rparr>) = Inr t
        \<and> (co = None \<longleftrightarrow> pt_ChildOf ti = None) \<and> tb_Columns t \<noteq> []" ..
  note co = conjunct1 [OF c0] conjunct1 [OF conjunct2 [OF c0]] and ne = conjunct2 [OF conjunct2 [OF c0]]
  define t1 where "t1 = t0\<lparr>tb_ChildOf := co\<rparr>"
  have t1: "tb_Name t1 = pt_Name ti" "tb_PrimaryKey t1 = None" "tb_Columns t1 = []" "tb_Info t1 = ti"
      "tb_ChildOf t1 = None \<longleftrightarrow> pt_ChildOf ti = None"
    using co(2) by (simp_all add: t1_def t0_def)
  note r = co(1) [folded t1_def] ne
  have k: "key_of_columns (tb_Columns t1) (tb_PrimaryKey t1)"
    by (simp add: t1 key_of_columns_def)
  from processColumns_Inr [OF r(1) k] t1 r(2)
  show "traverse (NewColumn descs) (column_fields descs (md_Fields md)) = Inr (tb_Columns t)"
    "tb_Columns t \<noteq> []" "key_of_columns (tb_Columns t) (tb_PrimaryKey t)" "tb_Name t = pt_Name ti"
    "tb_ChildOf t = None \<longleftrightarrow> pt_ChildOf ti = None" "tb_Info t = ti" by auto
qed

lemma NewTable_fields:
  "NewTable descs md ti ordinal = Inr (Some t) \<Longrightarrow> map cl_Field (tb_Columns t) = column_fields descs (md_Fields md)"
  by (rule traverse_NewColumn_fields [OF NewTable_Some(1)])

lemma NewTable_None:
  assumes "NewTable descs md ti ordinal = Inr None"
  shows "is_Timestamp md \<or> column_fields descs (md_Fields md) = []"
proof (rule ccontr)
  assume n: "\<not> (is_Timestamp md \<or> column_fields descs (md_Fields md) = [])"
  define t0 where "t0 = \<lparr>tb_Name = pt_Name ti, tb_PrimaryKey = None, tb_ChildOf = None, tb_Columns = [],
                   tb_Ordinal = ordinal, tb_Info = ti\<rparr>"
  obtain co t where p: "processColumns descs 0 (md_Fields md) (t0\<lparr>tb_ChildOf := co\<rparr>) = Inr t" "tb_Columns t = []"
    using assms n unfolding NewTable_def Let_def
    by (cases "pt_ChildOf ti") (force simp: t0_def split: if_splits sum.splits)+
  have "key_of_columns (tb_Columns (t0\<lparr>tb_ChildOf := co\<rparr>)) (tb_PrimaryKey (t0\<lparr>tb_ChildOf := co\<rparr>))"
    by (simp add: t0_def key_of_columns_def)
  from processColumns_Inr [OF p(1) this] p(2) n show False
    by (auto simp: traverse_Inr_iff)
qed

subsection \<open>Walking the types\<close>

text \<open>The types that a message is built from, itself included, and the messages of finite depth\<close>

inductive contains :: "Descs \<Rightarrow> MessageDesc \<Rightarrow> MessageDesc \<Rightarrow> bool" for descs where
  contains_refl: "contains descs md md"
| contains_field: "fd \<in> set (md_Fields md) \<Longrightarrow> fd_Type fd = TYPE_MESSAGE \<Longrightarrow>
     contains descs (descs (fd_MessageType fd)) m \<Longrightarrow> contains descs md m"

inductive unfolds :: "Descs \<Rightarrow> MessageDesc \<Rightarrow> bool" for descs where
  unfolds_intro: "(\<And>fd. fd \<in> set (md_Fields md) \<Longrightarrow> fd_Type fd = TYPE_MESSAGE \<Longrightarrow>
     unfolds descs (descs (fd_MessageType fd))) \<Longrightarrow> unfolds descs md"

inductive_simps unfolds_iff: "unfolds descs md"

lemma contains_trans:
  "contains descs a b \<Longrightarrow> contains descs b c \<Longrightarrow> contains descs a c"
  by (induction rule: contains.induct) (auto intro: contains_field)

text \<open>A message that some message field leads back to has no finite depth.\<close>

lemma unfolds_contains: "unfolds descs md \<Longrightarrow> contains descs md m \<Longrightarrow> unfolds descs m"
  by (rotate_tac, induction rule: contains.induct) (auto elim: unfolds.cases)

lemma unfolds_no_cycle:
  "unfolds descs md \<Longrightarrow> fd \<in> set (md_Fields md) \<Longrightarrow> fd_Type fd = TYPE_MESSAGE \<Longrightarrow>
   \<not> contains descs (descs (fd_MessageType fd)) md"
proof (induction arbitrary: fd rule: unfolds.induct)
  case (unfolds_intro md)
  show ?case
  proof
    assume c: "contains descs (descs (fd_MessageType fd)) md"
    note fd = unfolds_intro.prems
    from c have "\<exists>fd'. fd' \<in> set (md_Fields (descs (fd_MessageType fd))) \<and> fd_Type fd' = TYPE_MESSAGE
             \<and> contains descs (descs (fd_MessageType fd')) (descs (fd_MessageType fd))"
    proof cases
      case contains_refl
      with fd show ?thesis using contains.contains_refl by metis
    next
      case (contains_field fd')
      from contains.contains_field [OF fd contains.contains_refl]
      have "contains descs md (descs (fd_MessageType fd))" .
      from contains_trans [OF contains_field(3) this] contains_field(1,2) show ?thesis by blast
    qed
    with unfolds_intro.IH [OF unfolds_intro.prems] show False by blast
  qed
qed

lemma bind_Returns:
  "Option.bind a (\<lambda>r. case r of Returns s \<Rightarrow> f s | Fails e \<Rightarrow> Some (Fails (g e)) | Panics \<Rightarrow> Some Panics)
     = Some (Returns y) \<longleftrightarrow> (\<exists>s. a = Some (Returns s) \<and> f s = Some (Returns y))"
proof (cases a)
  case (Some r)
  then show ?thesis by (cases r) auto
qed simp

lemma walk_fields_returns:
  assumes "\<forall>fd \<in> set fds. fd_Type fd = TYPE_MESSAGE \<longrightarrow>
    (\<forall>n s. walk_fields descs task (descs (fd_MessageType fd)) (md_Fields (descs (fd_MessageType fd))) n s \<noteq> None)"
  shows "walk_fields descs task md fds n s \<noteq> None"
  using assms
proof (induction fds arbitrary: s)
  case Nil
  show ?case by (subst walk_fields.simps) simp
next
  case (Cons fd fds)
  then have rest: "\<And>s. walk_fields descs task md fds n s \<noteq> None" by simp
  show ?case
    using Cons.prems rest
    by (subst walk_fields.simps) (auto split: bind_split Ret.splits simp: not_None_eq [symmetric] simp del: not_None_eq)
qed

lemma walk_returns:
  "unfolds descs md \<Longrightarrow> walk_fields descs task md (md_Fields md) n s \<noteq> None"
proof (induction arbitrary: n s rule: unfolds.induct)
  case (unfolds_intro md)
  then show ?case by (intro walk_fields_returns) blast
qed

lemma walk_fields_unfolds:
  "walk_fields descs task md fds n s = Some r \<Longrightarrow> r = Returns s' \<Longrightarrow>
   \<forall>fd \<in> set fds. fd_Type fd = TYPE_MESSAGE \<longrightarrow> unfolds descs (descs (fd_MessageType fd))"
proof (induction descs task md fds n s r arbitrary: s' rule: walk_fields.raw_induct [rotated, consumes 1, case_names step])
  case (step w descs task md fds n s r)
  show ?case
  proof (cases fds)
    case (Cons fd rest)
    show ?thesis
    proof (cases "fd_Type fd = TYPE_MESSAGE")
      case True
      with step(2,3) Cons obtain s1 where
        a: "w descs task (descs (fd_MessageType fd)) (md_Fields (descs (fd_MessageType fd))) (n + 1) s = Some (Returns s1)"
        and b: "w descs task md rest n s1 = Some (Returns s')"
        by (auto simp: bind_Returns)
      from step(1) [OF a refl] step(1) [OF b refl] Cons show ?thesis by (auto intro: unfolds_intro)
    next
      case False
      with step(2,3) Cons have b: "w descs task md rest n s = Some (Returns s')" by simp
      from step(1) [OF b refl] Cons False show ?thesis by simp
    qed
  qed simp
qed

text \<open>What holds of the state before a walk and is kept by the task on every message holds after it.\<close>

lemma walk_fields_invariant:
  "walk_fields descs task md fds n s = Some r \<Longrightarrow> r = Returns s' \<Longrightarrow>
   set fds \<subseteq> set (md_Fields md) \<Longrightarrow> contains descs md0 md \<Longrightarrow> Q s \<Longrightarrow>
   (\<And>m k a b. contains descs md0 m \<Longrightarrow> Q a \<Longrightarrow> task m k a = Returns b \<Longrightarrow> Q b) \<Longrightarrow> Q s'"
proof (induction descs task md fds n s r arbitrary: s' rule: walk_fields.raw_induct [rotated, consumes 1, case_names step])
  case (step w descs task md fds n s r)
  note task = step.prems(5)
  show ?case
  proof (cases fds)
    case Nil
    then show ?thesis using step.hyps step.prems(1,3,4) by (auto intro: task)
  next
    case (Cons fd rest)
    show ?thesis
    proof (cases "fd_Type fd = TYPE_MESSAGE")
      case True
      let ?m = "descs (fd_MessageType fd)"
      from True step.hyps step.prems(1) Cons obtain s1 where
        a: "w descs task ?m (md_Fields ?m) (n + 1) s = Some (Returns s1)"
        and b: "w descs task md rest n s1 = Some (Returns s')"
        by (auto simp: bind_Returns)
      have "contains descs md ?m"
        using step.prems(2) Cons True by (auto intro: contains_field contains_refl)
      then have c: "contains descs md0 ?m" by (rule contains_trans [OF step.prems(3)])
      have "Q s1" by (rule step.IH [OF a refl order_refl c step.prems(4) task])
      then show ?thesis
        using step.prems(2) Cons by (intro step.IH [OF b refl _ step.prems(3) _ task]) auto
    next
      case False
      with step.hyps step.prems(1) Cons have b: "w descs task md rest n s = Some (Returns s')" by simp
      then show ?thesis
        using step.prems(2,4) Cons by (intro step.IH [OF b refl _ step.prems(3) _ task]) auto
    qed
  qed
qed

text \<open>A walk that ends has run the task on every message; what a task achieves and no task undoes holds
  after the walk.\<close>

lemma walk_fields_visits:
  "walk_fields descs task md fds n s = Some r \<Longrightarrow> r = Returns s' \<Longrightarrow>
   (\<And>m k a b. task m k a = Returns b \<Longrightarrow> D m b) \<Longrightarrow>
   (\<And>m m' k a b. D m a \<Longrightarrow> task m' k a = Returns b \<Longrightarrow> D m b) \<Longrightarrow>
   D md s' \<and> (\<forall>fd \<in> set fds. fd_Type fd = TYPE_MESSAGE \<longrightarrow>
     (\<forall>m. contains descs (descs (fd_MessageType fd)) m \<longrightarrow> D m s')) \<and> (\<forall>m. D m s \<longrightarrow> D m s')"
proof (induction descs task md fds n s r arbitrary: s' rule: walk_fields.raw_induct [rotated, consumes 1, case_names step])
  case (step w descs task md fds n s r)
  note achieves = step.prems(2) and keeps = step.prems(3)
  show ?case
  proof (cases fds)
    case Nil
    then show ?thesis using step.hyps step.prems(1) by (auto intro: achieves keeps)
  next
    case (Cons fd rest)
    show ?thesis
    proof (cases "fd_Type fd = TYPE_MESSAGE")
      case True
      let ?m = "descs (fd_MessageType fd)"
      from True step.hyps step.prems(1) Cons obtain s1 where
        a: "w descs task ?m (md_Fields ?m) (n + 1) s = Some (Returns s1)"
        and b: "w descs task md rest n s1 = Some (Returns s')"
        by (auto simp: bind_Returns)
      have x: "D ?m s1" "\<forall>fd \<in> set (md_Fields ?m). fd_Type fd = TYPE_MESSAGE \<longrightarrow>
          (\<forall>m. contains descs (descs (fd_MessageType fd)) m \<longrightarrow> D m s1)" "\<forall>m. D m s \<longrightarrow> D m s1"
        using step.IH [OF a refl achieves keeps] by auto
      then have "\<forall>m. contains descs ?m m \<longrightarrow> D m s1" by (auto elim: contains.cases)
      with x(3) step.IH [OF b refl achieves keeps] Cons show ?thesis by auto
    next
      case False
      with step.hyps step.prems(1) Cons have b: "w descs task md rest n s = Some (Returns s')" by simp
      with step.IH [OF b refl achieves keeps] Cons False show ?thesis by auto
    qed
  qed
qed

end
