(* ===== verification/ProtoValue.thy ===== *)
theory ProtoValue
  imports ProtoSchema
begin

text \<open>
  The values of a message and their conversion before they are inserted
  (\<open>src/db_proto/sql/value_normalizer.go\<close>), and the registry of semantic types
  (\<open>semantic_types.go\<close>). A value is what the library \<open>dynamic\<close> gives for a field, with its Go type;
  an instant is its seconds since the epoch and its nanoseconds, without a zone, because every
  branch takes it to UTC. Floating point numbers are an arbitrary type.
\<close>

section \<open>Values and messages\<close>

text \<open>A nil message or timestamp is \<open>None\<close>. A message has the name of its descriptor and, for each of its
  fields, whether it is set and what \<open>GetField\<close> returns.\<close>

datatype 'f Value =
    V_nil
  | V_string string
  | V_bool bool
  | V_int32 "32 word"
  | V_int64 "64 word"
  | V_uint32 "32 word"
  | V_uint64 "64 word"
  | V_float32 'f
  | V_float64 'f
  | V_bytes string
  | V_time "int \<times> int"
  | V_ptime "(int \<times> int) option"
  | V_timestamp "(int \<times> int) option"
  | V_number string
  | V_list "'f Value list"
  | V_map "('f Value \<times> 'f Value) list"
  | V_message "'f Message option"
  and 'f Message = Message (msg_type: string) (msg_fields: "(string \<times> (bool \<times> 'f Value)) list")

definition HasField :: "'f Message \<Rightarrow> FieldDesc \<Rightarrow> bool" where
  "HasField dm fd = (case map_of (msg_fields dm) (fd_Name fd) of Some (isset, v) \<Rightarrow> isset | None \<Rightarrow> False)"

definition GetField :: "'f Message \<Rightarrow> FieldDesc \<Rightarrow> 'f Value" where
  "GetField dm fd = (case map_of (msg_fields dm) (fd_Name fd) of Some (isset, v) \<Rightarrow> v | None \<Rightarrow> V_nil)"

text \<open>\<open>%T\<close>\<close>

fun go_type :: "'f Value \<Rightarrow> string" where
  "go_type V_nil = ''<nil>''"
| "go_type (V_string _) = ''string''"
| "go_type (V_bool _) = ''bool''"
| "go_type (V_int32 _) = ''int32''"
| "go_type (V_int64 _) = ''int64''"
| "go_type (V_uint32 _) = ''uint32''"
| "go_type (V_uint64 _) = ''uint64''"
| "go_type (V_float32 _) = ''float32''"
| "go_type (V_float64 _) = ''float64''"
| "go_type (V_bytes _) = ''[]uint8''"
| "go_type (V_time _) = ''time.Time''"
| "go_type (V_ptime _) = ''*time.Time''"
| "go_type (V_timestamp _) = ''*timestamppb.Timestamp''"
| "go_type (V_number _) = ''json.Number''"
| "go_type (V_list _) = ''[]interface {}''"
| "go_type (V_map _) = ''map[interface {}]interface {}''"
| "go_type (V_message _) = ''*dynamic.Message''"

text \<open>The arithmetic of floating point numbers: \<open>strconv.ParseFloat(s, 64)\<close>, the conversion \<open>int64(v)\<close>, and
  \<open>strconv.FormatFloat(v, 'f', -1, bits)\<close>\<close>

record 'f Floats =
  ParseFloat :: "string \<Rightarrow> 'f res"
  float_to_int64 :: "'f \<Rightarrow> 64 word"
  FormatFloat :: "nat \<Rightarrow> 'f \<Rightarrow> string"

section \<open>Instants\<close>

text \<open>\<open>time.Unix(sec, nsec)\<close>: nanoseconds outside a second carry over.\<close>

definition time_Unix :: "int \<Rightarrow> int \<Rightarrow> int \<times> int" where
  "time_Unix sec nsec = (sec + nsec div 1000000000, nsec mod 1000000000)"

text \<open>Division in Go truncates towards zero.\<close>

definition go_div :: "int \<Rightarrow> int \<Rightarrow> int" where
  "go_div a b = sgn a * sgn b * (\<bar>a\<bar> div \<bar>b\<bar>)"

definition go_mod :: "int \<Rightarrow> int \<Rightarrow> int" where
  "go_mod a b = a - b * go_div a b"

definition unixToTime :: "64 word \<Rightarrow> bool \<Rightarrow> int \<times> int" where
  "unixToTime v isMilliseconds =
     (if isMilliseconds
      then (let seconds = go_div (sint v) 1000; nanos = go_mod (sint v) 1000 * 1000000
            in time_Unix seconds nanos)
      else time_Unix (sint v) 0)"

text \<open>\<open>AsTime()\<close>\<close>

definition AsTime :: "int \<times> int \<Rightarrow> int \<times> int" where
  "AsTime ts = time_Unix (fst ts) (snd ts)"

section \<open>Semantic types\<close>

definition SemanticTypeRegistry :: "(string \<times> (string \<times> string \<times> string)) list" where
  "SemanticTypeRegistry =
    [(''uint256'', (''256-bit unsigned integer for large blockchain values'', ''VARCHAR'', ''numeric'')),
     (''int256'', (''256-bit signed integer for large blockchain values'', ''VARCHAR'', ''numeric'')),
     (''address'', (''Blockchain address (42 characters with 0x prefix)'', ''VARCHAR(42)'', ''^0x[a-fA-F0-9]{40}$'')),
     (''hash'', (''Cryptographic hash (66 characters with 0x prefix)'', ''VARCHAR(66)'', ''^0x[a-fA-F0-9]{64}$'')),
     (''signature'', (''Cryptographic signature (variable length hex)'', ''VARCHAR'', ''hex'')),
     (''pubkey'', (''Public key (variable length hex)'', ''VARCHAR'', ''hex'')),
     (''hex'', (''Hexadecimal string data'', ''VARCHAR'', ''hex'')),
     (''base64'', (''Base64 encoded binary data'', ''TEXT'', ''base64'')),
     (''json'', (''JSON structured data'', ''TEXT'', ''json'')),
     (''uuid'', (''UUID identifier'', ''VARCHAR(36)'',
        ''^[0-9a-fA-F]{8}-[0-9a-fA-F]{4}-[0-9a-fA-F]{4}-[0-9a-fA-F]{4}-[0-9a-fA-F]{12}$'')),
     (''unix_timestamp'', (''Unix timestamp in seconds'', ''TIMESTAMP WITH TIME ZONE'', ''unix_timestamp'')),
     (''unix_timestamp_ms'', (''Unix timestamp in milliseconds'', ''TIMESTAMP WITH TIME ZONE'', ''unix_timestamp_ms'')),
     (''block_timestamp'', (''Blockchain block timestamp'', ''TIMESTAMP WITH TIME ZONE'', ''unix_timestamp''))]"

definition IsValidSemanticType :: "string \<Rightarrow> bool" where
  "IsValidSemanticType semanticType = (map_of SemanticTypeRegistry semanticType \<noteq> None)"

definition GetSemanticTypeInfo :: "string \<Rightarrow> (string \<times> string \<times> string) res" where
  "GetSemanticTypeInfo semanticType =
     (case map_of SemanticTypeRegistry semanticType of
        None \<Rightarrow> Inl (Errorf ''unsupported semantic type: %s'' [AStr semanticType])
      | Some info \<Rightarrow> Inr info)"

section \<open>Normalizing\<close>

definition hasDateSeparators :: "string \<Rightarrow> bool" where
  "hasDateSeparators s = list_ex (\<lambda>c. c \<in> set ''-T :'') s"

definition parseNumericString :: "'f Floats \<Rightarrow> string \<Rightarrow> 'f Value res" where
  "parseNumericString fl s =
     (if TrimSpace s = [] then Inr V_nil
      else if list_ex (\<lambda>c. c \<in> set ''.eE'') s
      then (case ParseFloat fl s of
              Inl e \<Rightarrow> Inl (Wrapf ''parse numeric string: %w'' [] e)
            | Inr f \<Rightarrow> Inr (V_float64 f))
      else case ParseInt 64 s of
        (i, None) \<Rightarrow> Inr (V_int64 (word_of_int i))
      | (_, Some e) \<Rightarrow>
          (case ParseUint 64 s of
             (u, None) \<Rightarrow> Inr (V_uint64 (word_of_nat u))
           | (_, Some _) \<Rightarrow> Inl (Wrapf ''parse numeric string: %w'' [] e)))"

definition unix_of_string :: "string \<Rightarrow> bool \<Rightarrow> 'f Value res" where
  "unix_of_string v isMilliseconds =
     (let trimmed = TrimSpace v in
      if trimmed = [] then Inr V_nil
      else if hasDateSeparators trimmed
      then (case ParseTimestamp TrimSpace trimmed of Inl e \<Rightarrow> Inl e | Inr ts \<Rightarrow> Inr (V_time ts))
      else case ParseInt 64 trimmed of
        (_, Some e) \<Rightarrow> Inl (Wrapf ''normalize unix timestamp: %w'' [] e)
      | (secs, None) \<Rightarrow> Inr (V_time (unixToTime (word_of_int secs) isMilliseconds)))"

text \<open>A \<open>json.Number\<close> is parsed and normalized again, and then is not a \<open>json.Number\<close> any more.\<close>

definition normalize_unix :: "'f Floats \<Rightarrow> ('f Value \<Rightarrow> 'f Value res) \<Rightarrow> 'f Value \<Rightarrow> bool \<Rightarrow> 'f Value res" where
  "normalize_unix fl again value isMilliseconds =
     (let unix = (\<lambda>v. Inr (V_time (unixToTime v isMilliseconds))) in
      case value of
        V_nil \<Rightarrow> Inr V_nil
      | V_time t \<Rightarrow> Inr (V_time t)
      | V_ptime None \<Rightarrow> Inr V_nil
      | V_ptime (Some t) \<Rightarrow> Inr (V_time t)
      | V_timestamp None \<Rightarrow> Inr V_nil
      | V_timestamp (Some ts) \<Rightarrow> Inr (V_time (AsTime ts))
      | V_string v \<Rightarrow> unix_of_string v isMilliseconds
      | V_number v \<Rightarrow> (case parseNumericString fl v of Inl e \<Rightarrow> Inl e | Inr parsed \<Rightarrow> again parsed)
      | V_int64 v \<Rightarrow> unix v
      | V_int32 v \<Rightarrow> unix (scast v)
      | V_uint64 v \<Rightarrow>
          if 2 ^ 63 - 1 < v
          then Inl (Errorf ''normalize unix timestamp: value %d overflows int64'' [ANat (unat v)])
          else unix v
      | V_uint32 v \<Rightarrow> unix (ucast v)
      | V_float64 v \<Rightarrow> unix (float_to_int64 fl v)
      | V_float32 v \<Rightarrow> unix (float_to_int64 fl v)
      | _ \<Rightarrow> Inl (Errorf ''normalize unix timestamp: unsupported type %T'' [AStr (go_type value)]))"

definition normalizeUnixTimestamp :: "'f Floats \<Rightarrow> 'f Value \<Rightarrow> bool \<Rightarrow> 'f Value res" where
  "normalizeUnixTimestamp fl value isMilliseconds =
     normalize_unix fl (\<lambda>parsed. normalize_unix fl Inr parsed isMilliseconds) value isMilliseconds"

definition normalize_semantic :: "'f Floats \<Rightarrow> FieldDesc \<Rightarrow> 'f Value \<Rightarrow> 'f Value res" where
  "normalize_semantic fl fd value =
     (case fst (SemanticTypeInfo fd) of
        None \<Rightarrow> Inr value
      | Some semanticType \<Rightarrow>
          if semanticType = ''unix_timestamp'' then normalizeUnixTimestamp fl value False
          else if semanticType = ''unix_timestamp_ms'' then normalizeUnixTimestamp fl value True
          else if semanticType = ''block_timestamp'' then normalizeUnixTimestamp fl value False
          else Inr value)"

definition NormalizeValue :: "'f Floats \<Rightarrow> FieldDesc \<Rightarrow> 'f Value \<Rightarrow> 'f Value res" where
  "NormalizeValue fl fd value =
     (case value of
        V_nil \<Rightarrow> Inr V_nil
      | V_time t \<Rightarrow> Inr (V_time t)
      | V_ptime None \<Rightarrow> Inr V_nil
      | V_ptime (Some t) \<Rightarrow> Inr (V_time t)
      | V_timestamp None \<Rightarrow> Inr V_nil
      | V_timestamp (Some ts) \<Rightarrow> Inr (V_time (AsTime ts))
      | V_number v \<Rightarrow>
          (case parseNumericString fl v of Inl e \<Rightarrow> Inl e | Inr reparsed \<Rightarrow> normalize_semantic fl fd reparsed)
      | _ \<Rightarrow> normalize_semantic fl fd value)"

section \<open>Lemmas\<close>

text \<open>A number never parses to a number text again, so the inner call of \<open>normalizeUnixTimestamp\<close> is the last.\<close>

lemma parseNumericString_cases:
  "parseNumericString fl s = Inr v \<Longrightarrow> v = V_nil \<or> (\<exists>f. v = V_float64 f) \<or> (\<exists>i. v = V_int64 i) \<or> (\<exists>u. v = V_uint64 u)"
  by (auto simp: parseNumericString_def split: if_splits sum.splits prod.splits option.splits)

lemma go_div_mod: "b * go_div a b + go_mod a b = a"
  by (simp add: go_mod_def)

lemma time_Unix_instant:
  "fst (time_Unix s n) * 1000000000 + snd (time_Unix s n) = s * 1000000000 + n"
  "0 \<le> snd (time_Unix s n)" "snd (time_Unix s n) < 1000000000"
proof -
  have "n = n div 1000000000 * 1000000000 + n mod 1000000000" by simp
  then show "fst (time_Unix s n) * 1000000000 + snd (time_Unix s n) = s * 1000000000 + n"
    unfolding time_Unix_def by (simp only: fst_conv snd_conv distrib_right)
qed (simp_all add: time_Unix_def)

text \<open>Seconds and milliseconds, negative ones included, are the instants they stand for.\<close>

lemma unixToTime_instant:
  "fst (unixToTime v ms) * 1000000000 + snd (unixToTime v ms) = sint v * (if ms then 1000000 else 1000000000)"
  "0 \<le> snd (unixToTime v ms)" "snd (unixToTime v ms) < 1000000000"
proof -
  have d: "1000 * go_div (sint v) 1000 + go_mod (sint v) 1000 = sint v" by (rule go_div_mod)
  have "go_div (sint v) 1000 * 1000000000 + go_mod (sint v) 1000 * 1000000
    = (1000 * go_div (sint v) 1000 + go_mod (sint v) 1000) * 1000000"
    by (simp only: distrib_right)
  with d show "fst (unixToTime v ms) * 1000000000 + snd (unixToTime v ms) = sint v * (if ms then 1000000 else 1000000000)"
    by (simp add: unixToTime_def Let_def time_Unix_instant)
qed (simp_all add: unixToTime_def Let_def time_Unix_instant)

end
