(* ===== verification/ProtoWalk.thy ===== *)
theory ProtoWalk
  imports ProtoValue
begin

text \<open>
  Inserting a message (\<open>WalkMessageDescriptorAndInsertWithDialect\<close> of \<open>src/db_proto/sql/database.go\<close>,
  the base dialect of \<open>dialect.go\<close>): the values of a row are collected from the fields of the
  message, the row is inserted, and then the messages in its fields are inserted as rows of
  their own tables, with the key of this row as their parent. The inserter is a parameter, as it is an
  interface in the code, over an arbitrary state; so is the clock.
\<close>

section \<open>The base dialect\<close>

record Constraint =
  cn_Table :: string
  cn_Sql :: string

record BaseDialect =
  CreateTableSql :: "string gomap"
  PrimaryKeySql :: "Constraint list"
  ForeignKeySql :: "Constraint list"
  UniqueConstraintSql :: "Constraint list"
  bd_TableRegistry :: "Table gomap"

definition NewBaseDialect :: "Table gomap \<Rightarrow> BaseDialect" where
  "NewBaseDialect registry =
     \<lparr>CreateTableSql = [], PrimaryKeySql = [], ForeignKeySql = [], UniqueConstraintSql = [],
      bd_TableRegistry = registry\<rparr>"

definition AddCreateTableSql :: "string \<Rightarrow> string \<Rightarrow> BaseDialect \<Rightarrow> BaseDialect" where
  "AddCreateTableSql table sql d = d\<lparr>CreateTableSql := AList.update table sql (CreateTableSql d)\<rparr>"

definition GetCreateTableSql :: "BaseDialect \<Rightarrow> string \<Rightarrow> string" where
  "GetCreateTableSql d table = getS (CreateTableSql d) table"

definition AddPrimaryKeySql :: "string \<Rightarrow> string \<Rightarrow> BaseDialect \<Rightarrow> BaseDialect" where
  "AddPrimaryKeySql table sql d = d\<lparr>PrimaryKeySql := PrimaryKeySql d @ [\<lparr>cn_Table = table, cn_Sql = sql\<rparr>]\<rparr>"

definition AddForeignKeySql :: "string \<Rightarrow> string \<Rightarrow> BaseDialect \<Rightarrow> BaseDialect" where
  "AddForeignKeySql table sql d = d\<lparr>ForeignKeySql := ForeignKeySql d @ [\<lparr>cn_Table = table, cn_Sql = sql\<rparr>]\<rparr>"

definition AddUniqueConstraintSql :: "string \<Rightarrow> string \<Rightarrow> BaseDialect \<Rightarrow> BaseDialect" where
  "AddUniqueConstraintSql table sql d =
     d\<lparr>UniqueConstraintSql := UniqueConstraintSql d @ [\<lparr>cn_Table = table, cn_Sql = sql\<rparr>]\<rparr>"

definition GetTable :: "BaseDialect \<Rightarrow> string \<Rightarrow> Table option" where
  "GetTable d table = map_of (bd_TableRegistry d) table"

definition GetTables :: "BaseDialect \<Rightarrow> Table list" where
  "GetTables d = map snd (bd_TableRegistry d)"

text \<open>The foreign key of a table, and its statement\<close>

record SqlForeignKey =
  sf_Name :: string
  sf_Table :: string
  sf_Field :: string
  sf_ForeignTable :: string
  sf_ForeignField :: string

definition ForeignKey_String :: "SqlForeignKey \<Rightarrow> string" where
  "ForeignKey_String f =
     ''ALTER TABLE '' @ sf_Table f @ '' ADD CONSTRAINT '' @ sf_Name f @ ''  FOREIGN KEY ('' @ sf_Field f
     @ '') REFERENCES '' @ sf_ForeignTable f @ ''('' @ sf_ForeignField f @ '')''"

section \<open>The values of a row\<close>

text \<open>What the walk uses: the descriptors, the dialect's flags and tables, the clock and the inserter.
  \<open>useProtoOptions\<close> is the field of the base database.\<close>

record ('f, 's) WalkEnv =
  we_descs :: Descs
  we_floats :: "'f Floats"
  UseVersionField :: bool
  UseDeletedField :: bool
  we_tables :: "string \<Rightarrow> Table option"
  useProtoOptions :: bool
  we_now :: "'s \<Rightarrow> 64 word \<times> 's"
  we_Insert :: "string \<Rightarrow> 'f Value list \<Rightarrow> 's \<Rightarrow> Outcome \<times> 's"

record 'f Parent =
  pr_field :: string
  pr_id :: "'f Value"

text \<open>What one field adds: the messages to insert after the row, and a value of the row or none\<close>

definition is_message :: "'f Value \<Rightarrow> bool" where
  "is_message v = (case v of V_message _ \<Rightarrow> True | _ \<Rightarrow> False)"

definition list_children :: "MessageDesc \<Rightarrow> FieldDesc \<Rightarrow> 'f Value list \<Rightarrow> 'f Message option list res" where
  "list_children md fd =
     traverse (\<lambda>c. case c of V_message m \<Rightarrow> Inr m
                   | _ \<Rightarrow> Inl (Errorf ''Mixed array types not supported in 'from-proto' mode. message %q, field %q''
                                [AStr (md_FullName md), AStr (fd_Name fd)]))"

definition field_output ::
    "'f Floats \<Rightarrow> MessageDesc \<Rightarrow> 'f Message \<Rightarrow> FieldDesc \<Rightarrow> ('f Message option list \<times> 'f Value list) res" where
  "field_output fl md dm fd =
     (case GetField dm fd of
        V_list v \<Rightarrow>
          if v = [] then Inr ([], [])
          else if is_message (hd v)
          then (case list_children md fd v of Inl e \<Rightarrow> Inl e | Inr ms \<Rightarrow> Inr (ms, []))
          else (case traverse (NormalizeValue fl fd) v of
                  Inl e \<Rightarrow> Inl (Wrapf ''normalizing repeated field %q: %w'' [AStr (fd_Name fd)] e)
                | Inr normalized \<Rightarrow> Inr ([], [V_list normalized]))
      | V_message None \<Rightarrow> Inr ([], [])
      | V_message (Some fm) \<Rightarrow> Inr ([Some fm], [])
      | fv \<Rightarrow>
          (case NormalizeValue fl fd fv of
             Inl e \<Rightarrow> Inl (Wrapf ''normalizing field %q: %w'' [AStr (fd_Name fd)] e)
           | Inr converted \<Rightarrow> Inr ([], [converted])))"

text \<open>The fields that the loop leaves out: an unset field of a oneof, the primary key, and a field that is
  no message and has no column\<close>

definition leaves_out :: "Table option \<Rightarrow> 'f Message \<Rightarrow> FieldDesc \<Rightarrow> bool" where
  "leaves_out table dm fd \<longleftrightarrow>
     fd_InOneOf fd \<and> \<not> HasField dm fd
     \<or> (case table of
          None \<Rightarrow> False
        | Some t \<Rightarrow>
            (case tb_PrimaryKey t of None \<Rightarrow> False | Some k \<Rightarrow> fd = pk_Field k)
            \<or> fd_Type fd \<noteq> TYPE_MESSAGE \<and> fd \<notin> set (map cl_Field (tb_Columns t)))"

definition fields_output ::
    "'f Floats \<Rightarrow> MessageDesc \<Rightarrow> Table option \<Rightarrow> 'f Message \<Rightarrow> ('f Message option list \<times> 'f Value list) res" where
  "fields_output fl md table dm =
     (case traverse (\<lambda>fd. if leaves_out table dm fd then Inr ([], []) else field_output fl md dm fd) (md_Fields md) of
        Inl e \<Rightarrow> Inl e
      | Inr outs \<Rightarrow> Inr (concat (map fst outs), concat (map snd outs)))"

text \<open>The value of the primary key, found by the name of its field. \<open>GetFieldByName\<close> panics for a name that
  the message does not have.\<close>

definition key_value :: "MessageDesc \<Rightarrow> string \<Rightarrow> Table option \<Rightarrow> 'f Message \<Rightarrow> 'f Value option Ret" where
  "key_value md tableName table dm =
     (case Option.bind table tb_PrimaryKey of
        None \<Rightarrow> Returns None
      | Some k \<Rightarrow>
          (case find (\<lambda>fd. fd_Name fd = fd_Name (pk_Field k)) (md_Fields md) of
             None \<Rightarrow> Panics
           | Some fd \<Rightarrow>
               (case GetField dm fd of
                  V_nil \<Rightarrow> Fails (Errorf ''missing primary key field %q for table %q''
                             [AStr (fd_Name (pk_Field k)), AStr tableName])
                | v \<Rightarrow> Returns (Some v))))"

text \<open>The head of a row: block, time, version, deletion mark, key and parent\<close>

definition row_head ::
    "('f, 's) WalkEnv \<Rightarrow> u64 \<Rightarrow> int \<times> int \<Rightarrow> 64 word \<Rightarrow> 'f Value option \<Rightarrow> 'f Parent option \<Rightarrow> 'f Value list" where
  "row_head env blockNum blockTimestamp version key parent =
     [V_uint64 blockNum, V_time blockTimestamp]
     @ (if UseVersionField env then [V_int64 version] else [])
     @ (if UseDeletedField env then [V_bool False] else [])
     @ (case key of None \<Rightarrow> [] | Some v \<Rightarrow> [v])
     @ (case parent of None \<Rightarrow> [] | Some p \<Rightarrow> [pr_id p])"

text \<open>The table of a message: that of its table info, if the schema has it\<close>

definition message_table :: "('f, 's) WalkEnv \<Rightarrow> PbTable option \<Rightarrow> Table option" where
  "message_table env ti = Option.bind ti (\<lambda>t. we_tables env (pt_Name t))"

text \<open>The values of the row, the value of its key and the messages to insert after it\<close>

definition message_values ::
    "('f, 's) WalkEnv \<Rightarrow> u64 \<Rightarrow> int \<times> int \<Rightarrow> 64 word \<Rightarrow> 'f Parent option \<Rightarrow> PbTable option \<Rightarrow> 'f Message
     \<Rightarrow> ('f Value list \<times> 'f Value option \<times> 'f Message option list) Ret" where
  "message_values env blockNum blockTimestamp version parent ti dm =
     (let md = we_descs env (msg_type dm); table = message_table env ti in
      ret_bind (key_value md (case ti of Some t \<Rightarrow> pt_Name t | None \<Rightarrow> []) table dm) (\<lambda>key.
      ret_bind (ret_of (fields_output (we_floats env) md table dm)) (\<lambda>(childs, vals).
      Returns (row_head env blockNum blockTimestamp version key parent @ vals, key, childs))))"

text \<open>\<open>strings.ToLower\<close> on the name of a message, which is ASCII\<close>

definition lower_name :: "string \<Rightarrow> string" where
  "lower_name = map (\<lambda>c. if 65 \<le> (of_char c :: nat) \<and> (of_char c :: nat) \<le> 90
                         then char_of (of_char c + 32 :: nat) else c)"

text \<open>The parent of the messages in a row: the row, if options are used and it has a key\<close>

definition children_parent ::
    "('f, 's) WalkEnv \<Rightarrow> MessageDesc \<Rightarrow> Table \<Rightarrow> 'f Value option \<Rightarrow> 'f Message option list \<Rightarrow> 'f Parent option
     \<Rightarrow> 'f Parent option res" where
  "children_parent env md table key childs parent =
     (if childs \<noteq> [] \<and> useProtoOptions env
      then (case tb_PrimaryKey table of
              Some k \<Rightarrow> Inr (Some \<lparr>pr_field = lower_name (md_Name md),
                                pr_id = (case key of Some v \<Rightarrow> v | None \<Rightarrow> V_nil)\<rparr>)
            | None \<Rightarrow>
                if parent = None
                then Inl (Errorf ''table %q has no primary key to propagate to %d children''
                            [AStr (tb_Name table), ANat (length childs)])
                else Inr parent)
      else Inr parent)"

section \<open>The size of a message\<close>

definition depth_measure :: "'f Message option \<Rightarrow> nat" where
  "depth_measure m = (case m of None \<Rightarrow> 0 | Some m \<Rightarrow> size m)"

lemma list_children_size:
  "list_children md fd vs = Inr ms \<Longrightarrow> m \<in> set ms \<Longrightarrow> \<exists>v \<in> set vs. v = V_message m"
  unfolding list_children_def
  by (induction vs arbitrary: ms) (auto split: sum.splits Value.splits)

lemma GetField_size: "size (GetField dm fd) < size (dm :: 'f Message) \<or> GetField dm fd = V_nil"
proof (cases "map_of (msg_fields dm) (fd_Name fd)")
  case None
  then show ?thesis by (simp add: GetField_def)
next
  case (Some p)
  obtain isset v where p: "p = (isset, v)" by force
  from Some have m: "(fd_Name fd, (isset, v)) \<in> set (msg_fields dm)" unfolding p by (rule map_of_SomeD)
  obtain n fs where dm: "dm = Message n fs" by (cases dm)
  have "size v < size dm"
    using m unfolding dm
    by (auto dest!: split_list simp: size_list_append)
  with Some p show ?thesis by (simp add: GetField_def)
qed

lemma field_output_children:
  assumes "field_output fl md dm fd = Inr (ms, vs)" "m \<in> set ms"
  shows "GetField dm fd = V_message m \<or> (\<exists>vs. GetField dm fd = V_list vs \<and> V_message m \<in> set vs)"
proof (cases "GetField dm fd")
  case (V_list xs)
  with assms have "list_children md fd xs = Inr ms"
    by (auto simp: field_output_def split: if_splits sum.splits)
  from list_children_size [OF this assms(2)] V_list show ?thesis by auto
qed (use assms in \<open>auto simp: field_output_def split: option.splits sum.splits\<close>)

lemma field_output_size:
  assumes "field_output fl md dm fd = Inr (ms, vs)" "m \<in> set ms"
  shows "depth_measure m < size dm"
proof -
  have pos: "0 < size dm" by (cases dm) simp
  from field_output_children [OF assms] show ?thesis
  proof
    assume g: "GetField dm fd = V_message m"
    then have "size (V_message m) < size dm" using GetField_size [of dm fd] by auto
    with pos show ?thesis by (cases m) (auto simp: depth_measure_def)
  next
    assume "\<exists>vs. GetField dm fd = V_list vs \<and> V_message m \<in> set vs"
    then obtain xs where x: "GetField dm fd = V_list xs" "V_message m \<in> set xs" by blast
    then have "size (V_list xs) < size dm" using GetField_size [of dm fd] by auto
    moreover have "size (V_message m) < size (V_list xs)"
      using x(2) by (auto dest!: split_list simp: size_list_append)
    ultimately show ?thesis using pos by (cases m) (auto simp: depth_measure_def)
  qed
qed

lemma fields_output_size:
  assumes "fields_output fl md table dm = Inr (childs, vals)" "m \<in> set childs"
  shows "depth_measure m < size dm"
proof -
  from assms obtain outs where o: "traverse (\<lambda>fd. if leaves_out table dm fd then Inr ([], []) else field_output fl md dm fd)
      (md_Fields md) = Inr outs" and c: "childs = concat (map fst outs)"
    by (auto simp: fields_output_def split: sum.splits)
  from assms(2) c obtain ms vs where m: "(ms, vs) \<in> set outs" "m \<in> set ms" by auto
  from o have "list_all2 (\<lambda>fd out. (if leaves_out table dm fd then Inr ([], []) else field_output fl md dm fd) = Inr out)
      (md_Fields md) outs" by (simp add: traverse_Inr_iff)
  with m(1) obtain fd where "(if leaves_out table dm fd then Inr ([], []) else field_output fl md dm fd) = Inr (ms, vs)"
    by (auto simp: list_all2_conv_all_nth in_set_conv_nth)
  with m(2) have "field_output fl md dm fd = Inr (ms, vs)" by (auto split: if_splits)
  from field_output_size [OF this m(2)] show ?thesis .
qed

lemma message_values_size:
  assumes "message_values env bn ts version parent ti dm = Returns (vals, key, childs)" "m \<in> set childs"
  shows "depth_measure m < size dm"
  using assms by (auto simp: message_values_def Let_def ret_bind_Returns intro: fields_output_size)

section \<open>The walk\<close>

definition walk_version :: "('f, 's) WalkEnv \<Rightarrow> 's \<Rightarrow> 64 word \<times> 's" where
  "walk_version env s = (if UseVersionField env then we_now env s else (0, s))"

text \<open>What happens for the row itself: the outcome, the messages in it, their parent and the state\<close>

definition insert_row ::
    "('f, 's) WalkEnv \<Rightarrow> u64 \<Rightarrow> int \<times> int \<Rightarrow> 'f Parent option \<Rightarrow> 'f Message \<Rightarrow> 's
     \<Rightarrow> Outcome \<times> ('f Message option list \<times> 'f Parent option) \<times> 's" where
  "insert_row env blockNum blockTimestamp parent dm s =
     (let md = we_descs env (msg_type dm); (version, s1) = walk_version env s in
      case ret_bind (table_info (useProtoOptions env) md) (\<lambda>ti.
             ret_bind (message_values env blockNum blockTimestamp version parent ti dm) (\<lambda>r. Returns (ti, r))) of
        Panics \<Rightarrow> (Panicked, ([], None), s1)
      | Fails e \<Rightarrow> (Fail e, ([], None), s1)
      | Returns (ti, vals, key, childs) \<Rightarrow>
          (case message_table env ti of
             None \<Rightarrow> (Done, (childs, parent), s1)
           | Some table \<Rightarrow>
               (case we_Insert env (tb_Name table) vals s1 of
                  (Fail e, s2) \<Rightarrow> (Fail (Wrapf ''inserting into table %q: %w'' [AStr (tb_Name table)] e), ([], None), s2)
                | (Panicked, s2) \<Rightarrow> (Panicked, ([], None), s2)
                | (Done, s2) \<Rightarrow>
                    (case children_parent env md table key childs parent of
                       Inl e \<Rightarrow> (Fail e, ([], None), s2)
                     | Inr p \<Rightarrow> (Done, (childs, p), s2)))))"

lemma insert_row_size:
  assumes "insert_row env bn ts parent dm s = (r, (childs, p), s')" "m \<in> set childs"
  shows "depth_measure m < size dm"
  using assms
  by (auto simp: insert_row_def Let_def ret_bind_Returns intro: message_values_size
           split: prod.splits Ret.splits option.splits Outcome.splits sum.splits)

lemma insert_row_measure:
  assumes "insert_row env bn ts parent dm s = (r, (childs, p), s')"
  shows "foldr max (map depth_measure childs) 0 < depth_measure (Some dm)"
proof -
  have "\<forall>m \<in> set ms. depth_measure m < n \<Longrightarrow> 0 < n \<Longrightarrow> foldr max (map depth_measure ms) 0 < n"
    for ms :: "'a Message option list" and n by (induction ms) auto
  moreover have "0 < size dm" by (cases dm) simp
  ultimately show ?thesis
    using insert_row_size [OF assms] by (simp add: depth_measure_def)
qed

text \<open>A nil message is an error; for a nil message in a list, building the message of that error panics.\<close>

function walk_insert :: "('f, 's) WalkEnv \<Rightarrow> u64 \<Rightarrow> int \<times> int \<Rightarrow> 'f Parent option \<Rightarrow> 'f Message option \<Rightarrow> 's \<Rightarrow> Outcome \<times> 's"
  and walk_children :: "('f, 's) WalkEnv \<Rightarrow> u64 \<Rightarrow> int \<times> int \<Rightarrow> 'f Parent option \<Rightarrow> 'f Message option list \<Rightarrow> 's \<Rightarrow> Outcome \<times> 's"
where
  "walk_insert env bn ts parent None s = (Fail (Errorf ''received a nil message'' []), s)"
| "walk_insert env bn ts parent (Some dm) s =
     (case insert_row env bn ts parent dm s of
        (Done, (childs, p), s') \<Rightarrow> walk_children env bn ts p childs s'
      | (r, _, s') \<Rightarrow> (r, s'))"
| "walk_children env bn ts p [] s = (Done, s)"
| "walk_children env bn ts p (fm # fms) s =
     (case walk_insert env bn ts p fm s of
        (Done, s') \<Rightarrow> walk_children env bn ts p fms s'
      | (Fail e, s') \<Rightarrow>
          (case fm of
             None \<Rightarrow> (Panicked, s')
           | Some m \<Rightarrow> (Fail (Wrapf ''processing child %q: %w'' [AStr (md_FullName (we_descs env (msg_type m)))] e), s'))
      | (Panicked, s') \<Rightarrow> (Panicked, s'))"
  by pat_completeness auto
termination
proof (relation "measures
    [\<lambda>x. case x of Inl (_, _, _, _, m, _) \<Rightarrow> depth_measure m
                 | Inr (_, _, _, _, ms, _) \<Rightarrow> foldr max (map depth_measure ms) 0,
     \<lambda>x. case x of Inl _ \<Rightarrow> 0 | Inr (_, _, _, _, ms, _) \<Rightarrow> length ms]")
qed (auto simp: max_def intro: insert_row_measure dest: sym)

end
