(* ===== verification/ProtoPg.thy ===== *)
theory ProtoPg
  imports ProtoWalk
begin

text \<open>
  The SQL of the PostgreSQL and RisingWave databases of \<open>src/db_proto/sql\<close> (\<open>postgres\<close> and
  \<open>risingwave\<close>: \<open>types.go\<close>, \<open>dialect.go\<close>, and the queries of \<open>row_inserter.go\<close> and
  \<open>accumulator_inserter.go\<close>): the type of a column, the text of a value, the statements that
  create the tables, and the statements that insert rows.
\<close>

section \<open>Texts of numbers and bytes\<close>

definition format_int :: "int \<Rightarrow> string" where
  "format_int n = (if n < 0 then ''-'' @ dec (nat (- n)) else dec (nat n))"

definition b64_char :: "nat \<Rightarrow> char" where
  "b64_char n =
     (if n < 26 then char_of (65 + n) else if n < 52 then char_of (71 + n)
      else if n < 62 then char_of (n - 4) else if n = 62 then CHR ''+'' else CHR 0x2F)"

text \<open>\<open>base64.StdEncoding.EncodeToString\<close>\<close>

fun b64_encode :: "string \<Rightarrow> string" where
  "b64_encode [] = []"
| "b64_encode [a] =
     (let x = (of_char a :: nat) in [b64_char (x div 4), b64_char (x mod 4 * 16), CHR ''='', CHR ''=''])"
| "b64_encode [a, b] =
     (let x = (of_char a :: nat); y = (of_char b :: nat) in
      [b64_char (x div 4), b64_char (x mod 4 * 16 + y div 16), b64_char (y mod 16 * 4), CHR ''=''])"
| "b64_encode (a # b # c # s) =
     (let x = (of_char a :: nat); y = (of_char b :: nat); z = (of_char c :: nat) in
      [b64_char (x div 4), b64_char (x mod 4 * 16 + y div 16), b64_char (y mod 16 * 4 + z div 64), b64_char (z mod 64)]
      @ b64_encode s)"

text \<open>\<open>%x\<close> of bytes, in upper case\<close>

definition upper_hex :: "string \<Rightarrow> string" where
  "upper_hex s = concat (map (\<lambda>c. toUpper (hex_digits 2 (of_char c))) s)"

section \<open>Types of columns\<close>

definition pg_IsWellKnownType :: "FieldDesc \<Rightarrow> bool" where
  "pg_IsWellKnownType fd \<longleftrightarrow> fd_MessageType fd = ''google.protobuf.Timestamp''"

definition pg_MapSemanticType :: "string \<Rightarrow> string option" where
  "pg_MapSemanticType t =
     (if t = ''uint256'' \<or> t = ''int256'' then Some ''NUMERIC(78,0)''
      else if t = ''address'' then Some ''CHAR(42)''
      else if t = ''hash'' then Some ''CHAR(66)''
      else if t = ''signature'' then Some ''VARCHAR''
      else if t = ''pubkey'' then Some ''VARCHAR''
      else if t = ''hex'' then Some ''VARCHAR''
      else if t = ''base64'' then Some ''TEXT''
      else if t = ''json'' then Some ''JSONB''
      else if t = ''uuid'' then Some ''UUID''
      else if t = ''unix_timestamp'' \<or> t = ''unix_timestamp_ms'' \<or> t = ''block_timestamp''
      then Some ''TIMESTAMP WITH TIME ZONE''
      else None)"

definition pg_SupportsSemanticType :: "string \<Rightarrow> bool" where
  "pg_SupportsSemanticType t = (pg_MapSemanticType t \<noteq> None)"

text \<open>The type of a field without semantic type: \<open>None\<close> is the panic for a message that is no timestamp and
  for a group.\<close>

fun pg_base_type :: "FieldType \<Rightarrow> string \<Rightarrow> string option" where
  "pg_base_type TYPE_MESSAGE m = (if m = ''google.protobuf.Timestamp'' then Some ''TIMESTAMP'' else None)"
| "pg_base_type TYPE_BOOL m = Some ''BOOLEAN''"
| "pg_base_type TYPE_INT32 m = Some ''INTEGER''"
| "pg_base_type TYPE_SINT32 m = Some ''INTEGER''"
| "pg_base_type TYPE_SFIXED32 m = Some ''INTEGER''"
| "pg_base_type TYPE_INT64 m = Some ''BIGINT''"
| "pg_base_type TYPE_SINT64 m = Some ''BIGINT''"
| "pg_base_type TYPE_SFIXED64 m = Some ''BIGINT''"
| "pg_base_type TYPE_UINT64 m = Some ''NUMERIC''"
| "pg_base_type TYPE_FIXED64 m = Some ''NUMERIC''"
| "pg_base_type TYPE_UINT32 m = Some ''NUMERIC''"
| "pg_base_type TYPE_FIXED32 m = Some ''NUMERIC''"
| "pg_base_type TYPE_FLOAT m = Some ''DECIMAL''"
| "pg_base_type TYPE_DOUBLE m = Some ''DOUBLE PRECISION''"
| "pg_base_type TYPE_STRING m = Some ''VARCHAR(255)''"
| "pg_base_type TYPE_BYTES m = Some ''TEXT''"
| "pg_base_type TYPE_ENUM m = Some ''TEXT''"
| "pg_base_type TYPE_GROUP m = None"

definition pg_MapFieldType :: "FieldDesc \<Rightarrow> string option" where
  "pg_MapFieldType fd =
     (case Option.bind (fst (SemanticTypeInfo fd)) pg_MapSemanticType of
        Some sqlType \<Rightarrow> Some sqlType
      | None \<Rightarrow>
          map_option (\<lambda>t. if fd_IsRepeated fd then t @ ''[]'' else t) (pg_base_type (fd_Type fd) (fd_MessageType fd)))"

definition rw_MapSemanticType :: "string \<Rightarrow> string option" where
  "rw_MapSemanticType t =
     (if t = ''uint256'' then Some ''rw_uint256''
      else if t = ''int256'' then Some ''rw_int256''
      else if t \<in> {''address'', ''hash'', ''signature'', ''pubkey'', ''hex'', ''base64''} then Some ''CHARACTER VARYING''
      else if t = ''json'' then Some ''JSONB''
      else if t = ''uuid'' then Some ''CHARACTER VARYING''
      else if t = ''unix_timestamp'' \<or> t = ''unix_timestamp_ms'' \<or> t = ''block_timestamp''
      then Some ''TIMESTAMP WITH TIME ZONE''
      else None)"

definition rw_SupportsSemanticType :: "string \<Rightarrow> bool" where
  "rw_SupportsSemanticType t = (rw_MapSemanticType t \<noteq> None)"

fun rw_base_type :: "FieldType \<Rightarrow> string \<Rightarrow> string option" where
  "rw_base_type TYPE_MESSAGE m =
     (if m = ''google.protobuf.Timestamp'' then Some ''TIMESTAMP WITH TIME ZONE'' else None)"
| "rw_base_type TYPE_BOOL m = Some ''BOOLEAN''"
| "rw_base_type TYPE_INT32 m = Some ''INTEGER''"
| "rw_base_type TYPE_SINT32 m = Some ''INTEGER''"
| "rw_base_type TYPE_SFIXED32 m = Some ''INTEGER''"
| "rw_base_type TYPE_INT64 m = Some ''BIGINT''"
| "rw_base_type TYPE_SINT64 m = Some ''BIGINT''"
| "rw_base_type TYPE_SFIXED64 m = Some ''BIGINT''"
| "rw_base_type TYPE_UINT64 m = Some ''NUMERIC''"
| "rw_base_type TYPE_FIXED64 m = Some ''NUMERIC''"
| "rw_base_type TYPE_UINT32 m = Some ''BIGINT''"
| "rw_base_type TYPE_FIXED32 m = Some ''BIGINT''"
| "rw_base_type TYPE_FLOAT m = Some ''REAL''"
| "rw_base_type TYPE_DOUBLE m = Some ''DOUBLE PRECISION''"
| "rw_base_type TYPE_STRING m = Some ''CHARACTER VARYING''"
| "rw_base_type TYPE_BYTES m = Some ''BYTEA''"
| "rw_base_type TYPE_ENUM m = Some ''CHARACTER VARYING''"
| "rw_base_type TYPE_GROUP m = None"

definition rw_MapFieldType :: "FieldDesc \<Rightarrow> string option" where
  "rw_MapFieldType fd =
     map_option (\<lambda>t. if fd_IsRepeated fd then t @ ''[]'' else t)
       (case Option.bind (fst (SemanticTypeInfo fd)) rw_MapSemanticType of
          Some sqlType \<Rightarrow> Some sqlType
        | None \<Rightarrow> rw_base_type (fd_Type fd) (fd_MessageType fd))"

section \<open>Texts of values\<close>

definition escape_text :: "string \<Rightarrow> string" where
  "escape_text v =
     CHR 0x27 # replaceAll [CHR 0x5C] [CHR 0x5C, CHR 0x5C] (replaceAll [CHR 0x27] [CHR 0x27, CHR 0x27] v) @ [CHR 0x27]"

definition single_quoted :: "string \<Rightarrow> string" where
  "single_quoted v = CHR 0x27 # v @ [CHR 0x27]"

text \<open>\<open>None\<close> is the panic for the types that have no text: nil, maps, messages and \<open>*time.Time\<close>.
  The two texts for bytes and instants are those of the dialect.\<close>

fun value_text ::
    "'f Floats \<Rightarrow> (string \<Rightarrow> string) \<Rightarrow> (int \<times> int \<Rightarrow> string) \<Rightarrow> 'f Value \<Rightarrow> string option" where
  "value_text fl bytes instant (V_string v) = Some (escape_text v)"
| "value_text fl bytes instant (V_int64 v) = Some (format_int (sint v))"
| "value_text fl bytes instant (V_int32 v) = Some (format_int (sint v))"
| "value_text fl bytes instant (V_uint64 v) = Some (dec (unat v))"
| "value_text fl bytes instant (V_uint32 v) = Some (dec (unat v))"
| "value_text fl bytes instant (V_float64 v) = Some (FormatFloat fl 64 v)"
| "value_text fl bytes instant (V_float32 v) = Some (FormatFloat fl 32 v)"
| "value_text fl bytes instant (V_bytes v) = Some (bytes v)"
| "value_text fl bytes instant (V_bool v) = Some (if v then ''true'' else ''false'')"
| "value_text fl bytes instant (V_time t) = Some (single_quoted (instant t))"
| "value_text fl bytes instant (V_timestamp ts) =
     Some (single_quoted (instant (AsTime (case ts of Some t \<Rightarrow> t | None \<Rightarrow> (0, 0)))))"
| "value_text fl bytes instant (V_list vs) =
     map_option (\<lambda>elements. ''{'' @ joinS '','' elements @ ''}'') (those (map (value_text fl bytes instant) vs))"
| "value_text fl bytes instant _ = None"

definition pg_ValueToString :: "'f Floats \<Rightarrow> 'f Value \<Rightarrow> string option" where
  "pg_ValueToString fl = value_text fl (\<lambda>v. single_quoted (b64_encode v)) (\<lambda>t. format_RFC3339 0 (fst t))"

definition rw_ValueToString :: "'f Floats \<Rightarrow> 'f Value \<Rightarrow> string option" where
  "rw_ValueToString fl =
     value_text fl (\<lambda>v. single_quoted ([CHR 0x5C, CHR ''x''] @ upper_hex v)) (\<lambda>t. format_RisingWave (fst t) (snd t))"

section \<open>Creating the tables\<close>

definition tableName :: "string \<Rightarrow> string \<Rightarrow> string" where
  "tableName sn table = sn @ ''.'' @ table"

definition FullTableName :: "string \<Rightarrow> Table \<Rightarrow> string" where
  "FullTableName sn table = tableName sn (tb_Name table)"

text \<open>The dialect and the text of the statement that is being written\<close>

type_synonym Building = "BaseDialect \<times> string"

text \<open>A type that cannot be mapped is a panic.\<close>

definition ret_type :: "string option \<Rightarrow> string Ret" where
  "ret_type t = (case t of None \<Rightarrow> Panics | Some t \<Rightarrow> Returns t)"

definition pg_add_key :: "string \<Rightarrow> Table \<Rightarrow> Building \<Rightarrow> Building Ret" where
  "pg_add_key tn table b =
     (case tb_PrimaryKey table of
        None \<Rightarrow> Returns b
      | Some pk \<Rightarrow>
          ret_bind (ret_type (pg_MapFieldType (pk_Field pk))) (\<lambda>t. Returns
            (AddPrimaryKeySql (tb_Name table)
               (''alter table '' @ tn @ '' add constraint '' @ tb_Name table @ ''_pk primary key ('' @ pk_Name pk @ '');'') (fst b),
             snd b @ pk_Name pk @ '' '' @ t @ '','')))"

definition pg_add_parent :: "string \<Rightarrow> string \<Rightarrow> Table \<Rightarrow> Building \<Rightarrow> Building Ret" where
  "pg_add_parent sn tn table b =
     (case tb_ChildOf table of
        None \<Rightarrow> Returns b
      | Some co \<Rightarrow>
          (case GetTable (fst b) (ParentTable co) of
             None \<Rightarrow> Fails (Errorf ''parent table %q not found'' [AStr (ParentTable co)])
           | Some parentTable \<Rightarrow>
               (case find (\<lambda>f. cl_Name f = ParentTableField co) (tb_Columns parentTable) of
                  None \<Rightarrow> Fails (Errorf ''field %q not found in table %q'' [AStr (ParentTableField co), AStr (ParentTable co)])
                | Some parentField \<Rightarrow>
                    ret_bind (ret_type (pg_MapFieldType (cl_Field parentField))) (\<lambda>t. Returns
                      (AddForeignKeySql (tb_Name table)
                         (ForeignKey_String \<lparr>sf_Name = ''fk_'' @ ParentTable co, sf_Table = tn,
                            sf_Field = ParentTableField co, sf_ForeignTable = FullTableName sn parentTable,
                            sf_ForeignField = cl_Name parentField\<rparr>) (fst b),
                       snd b @ cl_Name parentField @ '' '' @ t @ '' NOT NULL,'')))))"

text \<open>The type of the column, its unique constraint and its text\<close>

definition pg_column_text :: "(nat \<Rightarrow> bool) \<Rightarrow> string \<Rightarrow> Table \<Rightarrow> Column \<Rightarrow> Building \<Rightarrow> Building Ret" where
  "pg_column_text printable tn table f b =
     ret_bind (ret_type (pg_MapFieldType (cl_Field f))) (\<lambda>fieldType. Returns
       (if cl_IsUnique f
        then AddUniqueConstraintSql (tb_Name table)
               (''alter table '' @ tn @ '' add constraint '' @ tb_Name table @ ''_'' @ cl_Name f @ ''_unique unique (''
                @ QuotedName printable f @ '');'') (fst b)
        else fst b,
        snd b @ QuotedName printable f @ '' '' @ fieldType @ '',''))"

definition pg_add_column :: "(nat \<Rightarrow> bool) \<Rightarrow> string \<Rightarrow> string \<Rightarrow> Table \<Rightarrow> Column \<Rightarrow> Building \<Rightarrow> Building Ret" where
  "pg_add_column printable sn tn table f b =
     (let add = (\<lambda>d. pg_column_text printable tn table f (d, snd b));
          keyed = (\<lambda>nam field foreignTable foreignField. add (AddForeignKeySql (tb_Name table)
            (ForeignKey_String \<lparr>sf_Name = ''fk_'' @ nam, sf_Table = tn, sf_Field = field,
               sf_ForeignTable = FullTableName sn foreignTable, sf_ForeignField = foreignField\<rparr>) (fst b)))
      in if cl_Name f = (case tb_PrimaryKey table of Some pk \<Rightarrow> pk_Name pk | None \<Rightarrow> []) then Returns b
         else if cl_IsRepeated f then add (fst b)
         else if cl_IsMessage f \<and> \<not> pg_IsWellKnownType (cl_Field f)
         then (case GetTable (fst b) (cl_Message f) of
                 None \<Rightarrow> Returns b
               | Some childTable \<Rightarrow>
                   (case tb_PrimaryKey childTable of
                      None \<Rightarrow> Returns b
                    | Some k \<Rightarrow> keyed (tb_Name childTable) (QuotedName printable f) childTable (pk_Name k)))
         else case cl_ForeignKey f of
           None \<Rightarrow> add (fst b)
         | Some fk \<Rightarrow>
             (case GetTable (fst b) (fk_Table fk) of
                None \<Rightarrow> Fails (Errorf ''foreign table %q not found'' [AStr (fk_Table fk)])
              | Some foreignTable \<Rightarrow>
                  (case find (\<lambda>field. cl_Name field = fk_TableField fk) (tb_Columns foreignTable) of
                     None \<Rightarrow> Fails (Errorf ''foreign field %q not found in table %q'' [AStr (fk_TableField fk), AStr (fk_Table fk)])
                   | Some foreignField \<Rightarrow> keyed (cl_Name f) (cl_Name f) foreignTable (cl_Name foreignField))))"

text \<open>A loop over a state whose body may fail\<close>

fun ret_fold :: "('a \<Rightarrow> 's \<Rightarrow> 's Ret) \<Rightarrow> 'a list \<Rightarrow> 's \<Rightarrow> 's Ret" where
  "ret_fold f [] s = Returns s"
| "ret_fold f (x # xs) s = ret_bind (f x s) (ret_fold f xs)"

definition pg_createTable :: "(nat \<Rightarrow> bool) \<Rightarrow> string \<Rightarrow> Table \<Rightarrow> BaseDialect \<Rightarrow> BaseDialect Ret" where
  "pg_createTable printable sn table d =
     (let tn = FullTableName sn table;
          start = ''CREATE TABLE IF NOT EXISTS '' @ tn @ '' ('' @ '' _block_number_ INTEGER NOT NULL,''
                  @ '' _block_timestamp_ TIMESTAMP NOT NULL,''
      in ret_bind (pg_add_key tn table (d, start)) (\<lambda>b1.
         ret_bind (pg_add_parent sn tn table b1) (\<lambda>b2.
         ret_bind (ret_fold (pg_add_column printable sn tn table) (tb_Columns table) b2) (\<lambda>b3.
         Returns (AddCreateTableSql (tb_Name table) (butlast (snd b3) @ '');'' @ [CHR 0x0A])
           (AddForeignKeySql tn
              (''ALTER TABLE '' @ tn @ '' ADD CONSTRAINT fk_block FOREIGN KEY (_block_number_) REFERENCES ''
               @ sn @ ''._blocks_(number) ON DELETE CASCADE'') (fst b3)))))))"

definition NewDialectPostgres :: "(nat \<Rightarrow> bool) \<Rightarrow> Schema \<Rightarrow> BaseDialect Ret" where
  "NewDialectPostgres printable sc =
     ret_fold (\<lambda>(n, table) d. ret_wrap ''handling table %q: %w'' [AStr (tb_Name table)]
                 (pg_createTable printable (sc_Name sc) table d))
       (TableRegistry sc)
       (AddPrimaryKeySql ''_blocks_''
          (''alter table '' @ sc_Name sc @ ''._blocks_ add constraint block_pk primary key (number);'')
          (NewBaseDialect (TableRegistry sc)))"

section \<open>The hash of a schema\<close>

text \<open>FNV-1a with 64 bits (\<open>hash/fnv\<close>)\<close>

definition fnv64a :: "string \<Rightarrow> u64" where
  "fnv64a s = foldl (\<lambda>h c. (xor h (of_char c)) * 1099511628211) 14695981039346656037 s"

definition SchemaHash :: "BaseDialect \<Rightarrow> string" where
  "SchemaHash d =
     (let buf = concat (sort (map snd (CreateTableSql d)))
              @ concat (sort (map cn_Sql (PrimaryKeySql d)))
              @ concat (sort (map cn_Sql (ForeignKeySql d)))
              @ concat (sort (map cn_Sql (UniqueConstraintSql d)))
      in hex_digits 16 (unat (fnv64a buf)))"

section \<open>Inserting rows\<close>

text \<open>The columns after the head: no key, no extension, no repeated message\<close>

definition insert_fields :: "(nat \<Rightarrow> bool) \<Rightarrow> (Column \<Rightarrow> bool) \<Rightarrow> Table \<Rightarrow> string list" where
  "insert_fields printable is_key table =
     map (QuotedName printable)
       (filter (\<lambda>f. \<not> is_key f \<and> \<not> cl_IsExtension f \<and> \<not> (cl_IsRepeated f \<and> cl_IsMessage f)) (tb_Columns table))"

definition insert_head :: "string \<Rightarrow> string \<Rightarrow> Table \<Rightarrow> string list" where
  "insert_head blockNumber blockTimestamp table =
     [blockNumber, blockTimestamp]
     @ (case tb_PrimaryKey table of Some pk \<Rightarrow> [pk_Name pk] | None \<Rightarrow> [])
     @ (case tb_ChildOf table of Some co \<Rightarrow> [ParentTableField co] | None \<Rightarrow> [])"

definition row_columns :: "(nat \<Rightarrow> bool) \<Rightarrow> string \<Rightarrow> string \<Rightarrow> Table \<Rightarrow> string list" where
  "row_columns printable blockNumber blockTimestamp table =
     insert_head blockNumber blockTimestamp table
     @ insert_fields printable
         (\<lambda>f. cl_Name f = (case tb_PrimaryKey table of Some pk \<Rightarrow> pk_Name pk | None \<Rightarrow> [])) table"

definition acc_columns :: "(nat \<Rightarrow> bool) \<Rightarrow> string \<Rightarrow> string \<Rightarrow> Table \<Rightarrow> string list" where
  "acc_columns printable blockNumber blockTimestamp table =
     insert_head blockNumber blockTimestamp table
     @ insert_fields printable
         (\<lambda>f. case tb_PrimaryKey table of Some pk \<Rightarrow> cl_Name f = pk_Name pk | None \<Rightarrow> False) table"

definition placeholders :: "nat \<Rightarrow> string list" where
  "placeholders n = map (\<lambda>i. CHR 0x24 # dec i) [1..<n + 1]"

definition row_insert :: "string \<Rightarrow> string list \<Rightarrow> string" where
  "row_insert tn fieldNames =
     ''INSERT INTO '' @ tn @ '' ('' @ joinS '', '' fieldNames @ '') VALUES ('' @ joinS '', '' (placeholders (length fieldNames)) @ '')''"

definition acc_insert :: "string \<Rightarrow> string list \<Rightarrow> string" where
  "acc_insert tn fieldNames = ''INSERT INTO '' @ tn @ '' ('' @ joinS '', '' fieldNames @ '') VALUES ''"

definition pg_createInsertFromDescriptor :: "(nat \<Rightarrow> bool) \<Rightarrow> string \<Rightarrow> Table \<Rightarrow> string" where
  "pg_createInsertFromDescriptor printable sn table =
     row_insert (FullTableName sn table) (row_columns printable ''_block_number_'' ''_block_timestamp_'' table)"

definition rw_createInsertFromDescriptor :: "(nat \<Rightarrow> bool) \<Rightarrow> string \<Rightarrow> Table \<Rightarrow> string" where
  "rw_createInsertFromDescriptor printable sn table =
     row_insert (FullTableName sn table) (row_columns printable ''block_number'' ''block_timestamp'' table)"

definition pg_createInsertFromDescriptorAcc :: "(nat \<Rightarrow> bool) \<Rightarrow> string \<Rightarrow> Table \<Rightarrow> string" where
  "pg_createInsertFromDescriptorAcc printable sn table =
     acc_insert (FullTableName sn table) (acc_columns printable ''_block_number_'' ''_block_timestamp_'' table)"

definition rw_createInsertFromDescriptorAcc :: "(nat \<Rightarrow> bool) \<Rightarrow> string \<Rightarrow> Table \<Rightarrow> string" where
  "rw_createInsertFromDescriptorAcc printable sn table =
     acc_insert (FullTableName sn table) (acc_columns printable ''block_number'' ''block_timestamp'' table)"

end
