(* ===== verification/ProtoDb.thy ===== *)
theory ProtoDb
  imports ProtoPg Dsn
begin

text \<open>
  The PostgreSQL database of the second way of reading a module
  (\<open>src/db_proto/sql/postgres/database.go\<close>, \<open>row_inserter.go\<close>, \<open>accumulator_inserter.go\<close>): its
  transaction, its inserters, blocks and cursors, and the undo. The connection is a record of its
  methods over an arbitrary state; a prepared statement is its text, and a transaction is a
  number that the connection gives out.
\<close>

section \<open>The connection\<close>

text \<open>What reading all rows of a query comes to: the values of the rows as \<open>%v\<close> prints them (nothing for NULL), or the
  step that failed: the query, the names of the columns, a row, or the end of the rows.\<close>

datatype TableRead =
    TableRows "string list list"
  | QueryFails GoErr
  | ColumnsFail GoErr
  | ScanFails GoErr
  | IterFails GoErr

record ('f, 'c) Conn =
  co_Begin :: "'c \<Rightarrow> nat res \<times> 'c"
  co_Commit :: "nat \<Rightarrow> 'c \<Rightarrow> GoErr option \<times> 'c"
  co_Rollback :: "nat \<Rightarrow> 'c \<Rightarrow> GoErr option \<times> 'c"
  co_Exec :: "nat option \<Rightarrow> string \<Rightarrow> 'f Value list \<Rightarrow> 'c \<Rightarrow> (int res) res \<times> 'c"
  co_Prepare :: "string \<Rightarrow> 'c \<Rightarrow> GoErr option \<times> 'c"
  co_QueryBool :: "string \<Rightarrow> 'c \<Rightarrow> bool res \<times> 'c"
  co_QueryText :: "string \<Rightarrow> 'c \<Rightarrow> string res \<times> 'c"
  co_QueryRows :: "string \<Rightarrow> 'f Value list \<Rightarrow> 'c \<Rightarrow> (string list list) res \<times> 'c"
  co_QueryTable :: "string \<Rightarrow> 'c \<Rightarrow> TableRead \<times> 'c"

text \<open>The driver: \<open>sql.Open\<close> with its name and a connection string, and the ping of a connection\<close>

record 'c Driver =
  sql_Open :: "string \<Rightarrow> string \<Rightarrow> 'c res"
  sql_Ping :: "'c \<Rightarrow> GoErr option \<times> 'c"

section \<open>State\<close>

record Accumulator =
  ac_query :: string
  ac_rowValues :: "string list list"

datatype Inserter =
    NoInserter
  | RowInserter (insertQueries: "string gomap")
  | AccumulatorInserter (accumulators: "Accumulator gomap") (cursorStmt: string)

record 'c PgDatabase =
  dp_conn :: 'c
  dp_tx :: "nat option"
  dp_inserter :: Inserter
  dp_useProtoOptions :: bool

text \<open>What a database is built with and never changes\<close>

record ('f, 'c) PgEnv =
  pe_conn :: "('f, 'c) Conn"
  pe_descs :: Descs
  pe_floats :: "'f Floats"
  pe_printable :: "nat \<Rightarrow> bool"
  pe_schemaName :: string
  pe_dialect :: BaseDialect
  pe_useConstraints :: bool
  pe_NewCursor :: "string \<Rightarrow> Cursor res"

definition NewPgDatabase :: "bool \<Rightarrow> 'c \<Rightarrow> 'c PgDatabase" where
  "NewPgDatabase useOptions c =
     \<lparr>dp_conn = c, dp_tx = None, dp_inserter = NoInserter, dp_useProtoOptions = useOptions\<rparr>"

text \<open>The environment that a database is built in has its connection, descriptors and cursors; the schema, the
  dialect and the constraints are those of the call.\<close>

definition open_connection :: "'c Driver \<Rightarrow> string \<Rightarrow> string \<Rightarrow> 'c Ret" where
  "open_connection drv driverName connectionString =
     (case sql_Open drv driverName connectionString of
        Inl e \<Rightarrow> Fails (Wrapf ''open db connection: %w'' [] e)
      | Inr c \<Rightarrow>
          (case sql_Ping drv c of
             (Some e, _) \<Rightarrow> Fails (Wrapf ''database not reachable: %w'' [] e)
           | (None, c') \<Rightarrow> Returns c'))"

definition pg_NewDatabase ::
    "'c Driver \<Rightarrow> ('f, 'c) PgEnv \<Rightarrow> Schema \<Rightarrow> DSN \<Rightarrow> bool \<Rightarrow> bool \<Rightarrow> (('f, 'c) PgEnv \<times> 'c PgDatabase) Ret" where
  "pg_NewDatabase drv env sc dsn useOptions useConstraints =
     ret_bind (open_connection drv (driver dsn) (fst (ConnString dsn))) (\<lambda>c.
     ret_bind (ret_wrap ''creating postgres dialect: %w'' [] (NewDialectPostgres (pe_printable env) sc)) (\<lambda>dialect.
     Returns (env\<lparr>pe_schemaName := sc_Name sc, pe_dialect := dialect, pe_useConstraints := useConstraints\<rparr>,
              NewPgDatabase useOptions c)))"

section \<open>Opening\<close>

text \<open>The statements are prepared in order, up to the first error.\<close>

fun prepare_all :: "('f, 'c) Conn \<Rightarrow> string list \<Rightarrow> 'c \<Rightarrow> GoErr option \<times> 'c" where
  "prepare_all conn [] c = (None, c)"
| "prepare_all conn (q # qs) c =
     (case co_Prepare conn q c of
        (Some e, c') \<Rightarrow> (Some (Wrapf ''preparing statement %q: %w'' [AStr q] e), c')
      | (None, c') \<Rightarrow> prepare_all conn qs c')"

definition pg_cursorQuery :: "string \<Rightarrow> string" where
  "pg_cursorQuery sn =
     ''INSERT INTO '' @ tableName sn ''_cursor_''
     @ '' (name, cursor) VALUES ($1, $2) ON CONFLICT (name) DO UPDATE SET cursor = $2''"

definition pg_rowQueries :: "('f, 'c) PgEnv \<Rightarrow> string gomap" where
  "pg_rowQueries env =
     (let sn = pe_schemaName env in
      copyInto [] (map (\<lambda>t. (tb_Name t, pg_createInsertFromDescriptor (pe_printable env) sn t)) (GetTables (pe_dialect env))
        @ [(''_blocks_'', ''INSERT INTO '' @ tableName sn ''_blocks_''
              @ '' (number, hash, timestamp) VALUES ($1, $2, $3) RETURNING number''),
           (''_cursor_'', pg_cursorQuery sn)]))"

definition RowInserter_init :: "('f, 'c) PgEnv \<Rightarrow> 'c PgDatabase \<Rightarrow> Inserter res \<times> 'c PgDatabase" where
  "RowInserter_init env d =
     (let sn = pe_schemaName env; tables = GetTables (pe_dialect env);
          qs = map (pg_createInsertFromDescriptor (pe_printable env) sn) tables
            @ [getS (pg_rowQueries env) ''_blocks_'', getS (pg_rowQueries env) ''_cursor_'']
      in case prepare_all (pe_conn env) qs (dp_conn d) of
           (Some e, c) \<Rightarrow> (Inl e, d\<lparr>dp_conn := c\<rparr>)
         | (None, c) \<Rightarrow> (Inr (RowInserter (pg_rowQueries env)), d\<lparr>dp_conn := c\<rparr>))"

definition AccumulatorInserter_init :: "('f, 'c) PgEnv \<Rightarrow> 'c PgDatabase \<Rightarrow> Inserter res \<times> 'c PgDatabase" where
  "AccumulatorInserter_init env d =
     (let sn = pe_schemaName env;
          accs = copyInto []
            (map (\<lambda>t. (tb_Name t, \<lparr>ac_query = pg_createInsertFromDescriptorAcc (pe_printable env) sn t, ac_rowValues = []\<rparr>))
               (GetTables (pe_dialect env))
             @ [(''_blocks_'', \<lparr>ac_query = ''INSERT INTO '' @ tableName sn ''_blocks_'' @ '' (number, hash, timestamp) VALUES '',
                              ac_rowValues = []\<rparr>)])
      in case prepare_all (pe_conn env) [pg_cursorQuery sn] (dp_conn d) of
           (Some e, c) \<Rightarrow> (Inl e, d\<lparr>dp_conn := c\<rparr>)
         | (None, c) \<Rightarrow> (Inr (AccumulatorInserter accs (pg_cursorQuery sn)), d\<lparr>dp_conn := c\<rparr>))"

definition pg_Open :: "('f, 'c) PgEnv \<Rightarrow> 'c PgDatabase \<Rightarrow> GoErr option \<times> 'c PgDatabase" where
  "pg_Open env d =
     (case (if pe_useConstraints env then RowInserter_init env d else AccumulatorInserter_init env d) of
        (Inl e, d') \<Rightarrow> (Some (Wrapf ''initializing row inserter: %w'' [] e), d')
      | (Inr ins, d') \<Rightarrow> (None, d'\<lparr>dp_inserter := ins\<rparr>))"

section \<open>Transactions\<close>

text \<open>A nil transaction that is committed or rolled back is a panic.\<close>

definition pg_BeginTransaction :: "('f, 'c) PgEnv \<Rightarrow> 'c PgDatabase \<Rightarrow> Outcome \<times> 'c PgDatabase" where
  "pg_BeginTransaction env d =
     (case co_Begin (pe_conn env) (dp_conn d) of
        (Inl e, c) \<Rightarrow> (Fail (Wrapf ''beginning transaction: %w'' [] e), d\<lparr>dp_conn := c, dp_tx := None\<rparr>)
      | (Inr h, c) \<Rightarrow> (Done, d\<lparr>dp_conn := c, dp_tx := Some h\<rparr>))"

definition pg_CommitTransaction :: "('f, 'c) PgEnv \<Rightarrow> 'c PgDatabase \<Rightarrow> Outcome \<times> 'c PgDatabase" where
  "pg_CommitTransaction env d =
     (case dp_tx d of
        None \<Rightarrow> (Panicked, d)
      | Some h \<Rightarrow>
          (case co_Commit (pe_conn env) h (dp_conn d) of
             (Some e, c) \<Rightarrow> (Fail (Wrapf ''committing transaction: %w'' [] e), d\<lparr>dp_conn := c\<rparr>)
           | (None, c) \<Rightarrow> (Done, d\<lparr>dp_conn := c, dp_tx := None\<rparr>)))"

definition pg_RollbackTransaction :: "('f, 'c) PgEnv \<Rightarrow> 'c PgDatabase \<Rightarrow> Outcome \<times> 'c PgDatabase" where
  "pg_RollbackTransaction env d =
     (case dp_tx d of
        None \<Rightarrow> (Panicked, d)
      | Some h \<Rightarrow>
          (case co_Rollback (pe_conn env) h (dp_conn d) of
             (Some e, c) \<Rightarrow> (Panicked, d\<lparr>dp_conn := c\<rparr>)
           | (None, c) \<Rightarrow> (Done, d\<lparr>dp_conn := c\<rparr>)))"

section \<open>Inserting\<close>

text \<open>The arguments of a row: \<open>None\<close> is the panic of \<open>ValueToString\<close> for an element of a list.\<close>

definition pg_row_argument :: "'f Floats \<Rightarrow> 'f Value \<Rightarrow> 'f Value option" where
  "pg_row_argument fl v =
     (case v of
        V_uint64 n \<Rightarrow> Some (V_string (dec (unat n)))
      | V_bytes b \<Rightarrow> Some (V_string (b64_encode b))
      | V_time t \<Rightarrow> Some (V_time t)
      | V_ptime None \<Rightarrow> Some V_nil
      | V_ptime (Some t) \<Rightarrow> Some (V_time t)
      | V_timestamp ts \<Rightarrow> Some (V_time (AsTime (case ts of Some t \<Rightarrow> t | None \<Rightarrow> (0, 0))))
      | V_list vs \<Rightarrow>
          map_option (\<lambda>elements. V_string (''{'' @ joinS '','' elements @ ''}'')) (those (map (pg_ValueToString fl) vs))
      | _ \<Rightarrow> Some v)"

definition exec_on :: "('f, 'c) PgEnv \<Rightarrow> nat option \<Rightarrow> string \<Rightarrow> 'f Value list \<Rightarrow> 'c PgDatabase \<Rightarrow> GoErr option \<times> 'c PgDatabase" where
  "exec_on env h q args d =
     (case co_Exec (pe_conn env) h q args (dp_conn d) of
        (Inl e, c) \<Rightarrow> (Some e, d\<lparr>dp_conn := c\<rparr>)
      | (Inr _, c) \<Rightarrow> (None, d\<lparr>dp_conn := c\<rparr>))"

definition RowInserter_insert ::
    "('f, 'c) PgEnv \<Rightarrow> string gomap \<Rightarrow> string \<Rightarrow> 'f Value list \<Rightarrow> 'c PgDatabase \<Rightarrow> Outcome \<times> 'c PgDatabase" where
  "RowInserter_insert env iqs table values d =
     (case (map_of iqs table, those (map (pg_row_argument (pe_floats env)) values)) of
        (Some q, Some args) \<Rightarrow>
          (case exec_on env (dp_tx d) q args d of
             (Some e, d') \<Rightarrow> (Fail (Wrapf ''pg accumalator inserter: querying insert %q: %w'' [AStr q] e), d')
           | (None, d') \<Rightarrow> (Done, d'))
      | _ \<Rightarrow> (Panicked, d))"

definition AccumulatorInserter_insert ::
    "('f, 'c) PgEnv \<Rightarrow> Accumulator gomap \<Rightarrow> string \<Rightarrow> string \<Rightarrow> 'f Value list \<Rightarrow> 'c PgDatabase \<Rightarrow> Outcome \<times> 'c PgDatabase" where
  "AccumulatorInserter_insert env accs cursorQuery table values d =
     (if table = ''_cursor_''
      then (case exec_on env (dp_tx d) cursorQuery values d of
              (Some e, d') \<Rightarrow> (Fail (Wrapf ''executing insert: %w'' [] e), d')
            | (None, d') \<Rightarrow> (Done, d'))
      else case those (map (pg_ValueToString (pe_floats env)) values) of
        None \<Rightarrow> (Panicked, d)
      | Some v \<Rightarrow>
          (case map_of accs table of
             None \<Rightarrow> (Fail (Errorf ''accumulator not found for table %q'' [AStr table]), d)
           | Some acc \<Rightarrow>
               (Done, d\<lparr>dp_inserter := AccumulatorInserter
                  (AList.update table (acc\<lparr>ac_rowValues := ac_rowValues acc @ [v]\<rparr>) accs) cursorQuery\<rparr>)))"

text \<open>An inserter that was not opened is a nil interface: a panic.\<close>

definition pg_Insert :: "('f, 'c) PgEnv \<Rightarrow> string \<Rightarrow> 'f Value list \<Rightarrow> 'c PgDatabase \<Rightarrow> Outcome \<times> 'c PgDatabase" where
  "pg_Insert env table values d =
     (case dp_inserter d of
        NoInserter \<Rightarrow> (Panicked, d)
      | RowInserter iqs \<Rightarrow> RowInserter_insert env iqs table values d
      | AccumulatorInserter accs cursorQuery \<Rightarrow> AccumulatorInserter_insert env accs cursorQuery table values d)"

section \<open>Flushing\<close>

definition trim_commas :: "string \<Rightarrow> string" where
  "trim_commas s = rev (dropWhile (\<lambda>c. c = CHR '','') (rev (dropWhile (\<lambda>c. c = CHR '','') s)))"

definition acc_statement :: "Accumulator \<Rightarrow> string" where
  "acc_statement acc =
     trim_commas (ac_query acc @ concat (map (\<lambda>values. ''('' @ joinS '','' values @ ''),'') (ac_rowValues acc)))"

definition short_insert :: "string \<Rightarrow> string" where
  "short_insert q = (if 256 < length q then take 256 q @ ''...'' else q)"

text \<open>The accumulators one after the other; the rows of an accumulator are dropped when they are inserted.\<close>

fun flush_accumulators ::
    "('f, 'c) PgEnv \<Rightarrow> Accumulator gomap \<Rightarrow> 'c PgDatabase \<Rightarrow> Outcome \<times> Accumulator gomap \<times> 'c PgDatabase" where
  "flush_accumulators env [] d = (Done, [], d)"
| "flush_accumulators env ((n, acc) # accs) d =
     (if ac_rowValues acc = []
      then (case flush_accumulators env accs d of (r, accs', d') \<Rightarrow> (r, (n, acc) # accs', d'))
      else if dp_tx d = None then (Panicked, (n, acc) # accs, d)
      else case exec_on env (dp_tx d) (acc_statement acc) [] d of
        (Some e, d') \<Rightarrow>
          (Fail (Wrapf ''executing insert %s: %w'' [AStr (short_insert (acc_statement acc))] e), (n, acc) # accs, d')
      | (None, d') \<Rightarrow>
          (case flush_accumulators env accs d' of
             (r, accs', d'') \<Rightarrow> (r, (n, acc\<lparr>ac_rowValues := []\<rparr>) # accs', d'')))"

definition pg_FlushRows :: "('f, 'c) PgEnv \<Rightarrow> 'c PgDatabase \<Rightarrow> Outcome \<times> 'c PgDatabase" where
  "pg_FlushRows env d =
     (case dp_inserter d of
        NoInserter \<Rightarrow> (Panicked, d)
      | RowInserter iqs \<Rightarrow> (Done, d)
      | AccumulatorInserter accs cursorQuery \<Rightarrow>
          (case flush_accumulators env accs d of
             (r, accs', d') \<Rightarrow>
               ((case r of Fail e \<Rightarrow> Fail (Wrapf ''flushing: %w'' [] e) | _ \<Rightarrow> r),
                d'\<lparr>dp_inserter := AccumulatorInserter accs' cursorQuery\<rparr>)))"

section \<open>Blocks, cursors and messages\<close>

definition wrap_outcome :: "string \<Rightarrow> GoArg list \<Rightarrow> Outcome \<times> 'd \<Rightarrow> Outcome \<times> 'd" where
  "wrap_outcome f as r = (case r of (Fail e, d) \<Rightarrow> (Fail (Wrapf f as e), d) | _ \<Rightarrow> r)"

definition pg_InsertBlock :: "('f, 'c) PgEnv \<Rightarrow> u64 \<Rightarrow> string \<Rightarrow> int \<times> int \<Rightarrow> 'c PgDatabase \<Rightarrow> Outcome \<times> 'c PgDatabase" where
  "pg_InsertBlock env blockNum hash timestamp d =
     wrap_outcome ''inserting block %d: %w'' [ANat (unat blockNum)]
       (pg_Insert env ''_blocks_'' [V_uint64 blockNum, V_string hash, V_time timestamp] d)"

definition pg_StoreCursor :: "('f, 'c) PgEnv \<Rightarrow> Cursor \<Rightarrow> 'c PgDatabase \<Rightarrow> Outcome \<times> 'c PgDatabase" where
  "pg_StoreCursor env cursor d =
     wrap_outcome ''inserting cursor: %w'' []
       (pg_Insert env ''_cursor_'' [V_string ''cursor'', V_string (c_string cursor)] d)"

definition pg_walk_env :: "('f, 'c) PgEnv \<Rightarrow> bool \<Rightarrow> ('f, 'c PgDatabase) WalkEnv" where
  "pg_walk_env env useOptions =
     \<lparr>we_descs = pe_descs env, we_floats = pe_floats env, UseVersionField = False, UseDeletedField = False,
      we_tables = GetTable (pe_dialect env), useProtoOptions = useOptions,
      we_now = (\<lambda>d. (0, d)), we_Insert = pg_Insert env\<rparr>"

definition pg_WalkMessageDescriptorAndInsert ::
    "('f, 'c) PgEnv \<Rightarrow> 'f Message option \<Rightarrow> u64 \<Rightarrow> int \<times> int \<Rightarrow> 'f Parent option \<Rightarrow> 'c PgDatabase \<Rightarrow> Outcome \<times> 'c PgDatabase" where
  "pg_WalkMessageDescriptorAndInsert env dm blockNum blockTimestamp parent d =
     walk_insert (pg_walk_env env (dp_useProtoOptions d)) blockNum blockTimestamp parent dm d"

text \<open>The cursor that is stored, if any. The error of the scan is not looked at: an unread text is empty.\<close>

definition pg_FetchCursor :: "('f, 'c) PgEnv \<Rightarrow> 'c PgDatabase \<Rightarrow> Cursor option res \<times> 'c PgDatabase" where
  "pg_FetchCursor env d =
     (case co_QueryRows (pe_conn env)
             (''SELECT cursor FROM '' @ tableName (pe_schemaName env) ''_cursor_'' @ '' WHERE name = $1'')
             [V_string ''cursor''] (dp_conn d) of
        (Inl e, c) \<Rightarrow> (Inl (Wrapf ''selecting cursor: %w'' [] e), d\<lparr>dp_conn := c\<rparr>)
      | (Inr [], c) \<Rightarrow> (Inr None, d\<lparr>dp_conn := c\<rparr>)
      | (Inr (row # _), c) \<Rightarrow>
          (case pe_NewCursor env (case row of [cursor] \<Rightarrow> cursor | _ \<Rightarrow> []) of
             Inl e \<Rightarrow> (Inl e, d\<lparr>dp_conn := c\<rparr>)
           | Inr cur \<Rightarrow> (Inr (Some cur), d\<lparr>dp_conn := c\<rparr>)))"

text \<open>The undo runs in a transaction of its own; every error of its statement rolls it back.\<close>

definition pg_HandleBlocksUndo :: "('f, 'c) PgEnv \<Rightarrow> u64 \<Rightarrow> 'c PgDatabase \<Rightarrow> Outcome \<times> 'c PgDatabase" where
  "pg_HandleBlocksUndo env lastValidBlockNum d =
     (case co_Begin (pe_conn env) (dp_conn d) of
        (Inl e, c) \<Rightarrow> (Fail (Wrapf ''HandleBlocksUndo beginning transaction: %w'' [] e), d\<lparr>dp_conn := c\<rparr>)
      | (Inr h, c) \<Rightarrow>
          (let failed = (\<lambda>e c. (case co_Rollback (pe_conn env) h c of
                 (Some e', c') \<Rightarrow>
                   (Fail (Wrapf ''HandleBlocksUndo processing entity: %w'' []
                      (Wrapf ''HandleBlocksUndo rolling back transaction: %w'' [] e')), d\<lparr>dp_conn := c'\<rparr>)
               | (None, c') \<Rightarrow> (Fail (Wrapf ''HandleBlocksUndo processing entity: %w'' [] e), d\<lparr>dp_conn := c'\<rparr>)))
           in case co_Exec (pe_conn env) (Some h)
                     (''DELETE FROM '' @ pe_schemaName env @ ''._blocks_ WHERE '' @ [CHR 0x22] @ ''number'' @ [CHR 0x22] @ '' > $1'')
                     [V_uint64 lastValidBlockNum] c of
                (Inl e, c1) \<Rightarrow> failed (Wrapf ''deleting block from %d: %w'' [ANat (unat lastValidBlockNum)] e) c1
              | (Inr (Inl e), c1) \<Rightarrow> failed (Wrapf ''fetching rows affected: %w'' [] e) c1
              | (Inr (Inr _), c1) \<Rightarrow>
                  (case co_Commit (pe_conn env) h c1 of
                     (Some e, c2) \<Rightarrow> (Fail e, d\<lparr>dp_conn := c2\<rparr>)
                   | (None, c2) \<Rightarrow> (Done, d\<lparr>dp_conn := c2\<rparr>))))"

text \<open>\<open>Clone\<close> replaces the base of the database by a copy without the flag \<open>useProtoOptions\<close>, and returns the
  same database.\<close>

definition pg_Clone :: "'c PgDatabase \<Rightarrow> 'c PgDatabase" where
  "pg_Clone d = d\<lparr>dp_useProtoOptions := False\<rparr>"

section \<open>The schema of the database\<close>

definition postgresStaticSql :: "string \<Rightarrow> string" where
  "postgresStaticSql sn =
     (let nl = [CHR 0x0A, CHR 0x09]; nl2 = [CHR 0x0A, CHR 0x09, CHR 0x09]; q = [CHR 0x22] @ sn @ [CHR 0x22] in
      nl @ ''CREATE SCHEMA IF NOT EXISTS '' @ q @ '';'' @ [CHR 0x0A]
      @ nl @ ''CREATE TABLE IF NOT EXISTS '' @ q @ ''._sink_info_ ('' @ nl2 @ ''schema_hash TEXT PRIMARY KEY'' @ nl @ '');'' @ [CHR 0x0A]
      @ nl @ ''CREATE TABLE IF NOT EXISTS '' @ q @ ''._cursor_ ('' @ nl2 @ ''name TEXT PRIMARY KEY,'' @ nl2
      @ ''cursor TEXT NOT NULL'' @ nl @ '');'' @ [CHR 0x0A]
      @ nl @ ''CREATE TABLE IF NOT EXISTS '' @ q @ ''._blocks_ ('' @ nl2 @ ''number integer,'' @ nl2
      @ ''hash TEXT NOT NULL,'' @ nl2 @ ''timestamp TIMESTAMP NOT NULL'' @ nl @ '');'' @ [CHR 0x0A])"

text \<open>Statements on the transaction, up to the first error; without a transaction the first one panics.\<close>

fun tx_statements :: "('f, 'c) PgEnv \<Rightarrow> string \<Rightarrow> string list \<Rightarrow> 'c PgDatabase \<Rightarrow> Outcome \<times> 'c PgDatabase" where
  "tx_statements env msg [] d = (Done, d)"
| "tx_statements env msg (q # qs) d =
     (if dp_tx d = None then (Panicked, d)
      else case exec_on env (dp_tx d) q [] d of
        (Some e, d') \<Rightarrow> (Fail (Wrapf msg [AStr q] e), d')
      | (None, d') \<Rightarrow> tx_statements env msg qs d')"

definition and_then :: "Outcome \<times> 'd \<Rightarrow> ('d \<Rightarrow> Outcome \<times> 'd) \<Rightarrow> Outcome \<times> 'd" where
  "and_then r f = (case r of (Done, d) \<Rightarrow> f d | _ \<Rightarrow> r)"

definition pg_createDatabase :: "('f, 'c) PgEnv \<Rightarrow> 'c PgDatabase \<Rightarrow> Outcome \<times> 'c PgDatabase" where
  "pg_createDatabase env d =
     and_then (tx_statements env ''executing static staticSql: %w'' [postgresStaticSql (pe_schemaName env)] d)
       (tx_statements env ''executing create statement: %w %s'' (map snd (CreateTableSql (pe_dialect env))))"

definition pg_applyConstraints :: "('f, 'c) PgEnv \<Rightarrow> 'c PgDatabase \<Rightarrow> Outcome \<times> 'c PgDatabase" where
  "pg_applyConstraints env d =
     and_then (and_then
       (tx_statements env ''executing pk statement: %w %s'' (map cn_Sql (PrimaryKeySql (pe_dialect env))) d)
       (tx_statements env ''executing unique statement: %w %s'' (map cn_Sql (UniqueConstraintSql (pe_dialect env)))))
       (tx_statements env ''executing fk constraint statement: %w %s'' (map cn_Sql (ForeignKeySql (pe_dialect env))))"

definition pg_CreateDatabase :: "('f, 'c) PgEnv \<Rightarrow> bool \<Rightarrow> 'c PgDatabase \<Rightarrow> Outcome \<times> 'c PgDatabase" where
  "pg_CreateDatabase env useConstraints d =
     and_then (wrap_outcome ''creating database: %w'' [] (pg_createDatabase env d))
       (\<lambda>d'. if useConstraints then wrap_outcome ''applying constraints: %w'' [] (pg_applyConstraints env d') else (Done, d'))"

section \<open>The hash that is stored\<close>

definition pg_FetchSinkInfo :: "('f, 'c) PgEnv \<Rightarrow> string \<Rightarrow> 'c PgDatabase \<Rightarrow> string option res \<times> 'c PgDatabase" where
  "pg_FetchSinkInfo env sn d =
     (case co_QueryBool (pe_conn env)
             (''SELECT EXISTS (SELECT 1 FROM information_schema.tables WHERE table_schema = '' @ single_quoted sn
              @ '' AND table_name = '' @ single_quoted ''_sink_info_'' @ '')'') (dp_conn d) of
        (Inl e, c) \<Rightarrow> (Inl (Wrapf ''checking if sync_info table exists: %w'' [] e), d\<lparr>dp_conn := c\<rparr>)
      | (Inr False, c) \<Rightarrow> (Inr None, d\<lparr>dp_conn := c\<rparr>)
      | (Inr True, c) \<Rightarrow>
          (case co_QueryText (pe_conn env) (''SELECT schema_hash FROM '' @ pe_schemaName env @ ''._sink_info_'') c of
             (Inl e, c') \<Rightarrow> (Inl (Wrapf ''fetching sync info: %w'' [] e), d\<lparr>dp_conn := c'\<rparr>)
           | (Inr h, c') \<Rightarrow> (Inr (Some h), d\<lparr>dp_conn := c'\<rparr>)))"

definition tx_exec :: "('f, 'c) PgEnv \<Rightarrow> string \<Rightarrow> string \<Rightarrow> 'f Value list \<Rightarrow> 'c PgDatabase \<Rightarrow> Outcome \<times> 'c PgDatabase" where
  "tx_exec env msg q args d =
     (if dp_tx d = None then (Panicked, d)
      else case exec_on env (dp_tx d) q args d of
        (Some e, d') \<Rightarrow> (Fail (Wrapf msg [] e), d')
      | (None, d') \<Rightarrow> (Done, d'))"

definition pg_StoreSinkInfo :: "('f, 'c) PgEnv \<Rightarrow> string \<Rightarrow> string \<Rightarrow> 'c PgDatabase \<Rightarrow> Outcome \<times> 'c PgDatabase" where
  "pg_StoreSinkInfo env sn hash =
     tx_exec env ''storing schema hash: %w'' (''INSERT INTO '' @ sn @ ''._sink_info_ (schema_hash) VALUES ($1)'') [V_string hash]"

definition pg_UpdateSinkInfoHash :: "('f, 'c) PgEnv \<Rightarrow> string \<Rightarrow> string \<Rightarrow> 'c PgDatabase \<Rightarrow> Outcome \<times> 'c PgDatabase" where
  "pg_UpdateSinkInfoHash env sn hash =
     tx_exec env ''updating schema hash: %w'' (''UPDATE '' @ sn @ ''._sink_info_ SET schema_hash = $1'') [V_string hash]"

section \<open>The hash of the schema that the database has\<close>

definition hash_query :: "string \<Rightarrow> string" where
  "hash_query sn =
      [CHR 0x0A] @
      ''SELECT'' @ [CHR 0x0A] @
      ''    c.table_name,'' @ [CHR 0x0A] @
      ''    c.column_name,'' @ [CHR 0x0A] @
      ''    c.is_nullable,'' @ [CHR 0x0A] @
      ''    c.data_type,'' @ [CHR 0x0A] @
      ''    c.character_maximum_length,'' @ [CHR 0x0A] @
      ''    c.numeric_precision,'' @ [CHR 0x0A] @
      ''    c.numeric_precision_radix,'' @ [CHR 0x0A] @
      ''    c.numeric_scale,'' @ [CHR 0x0A] @
      ''    c.datetime_precision,'' @ [CHR 0x0A] @
      ''    c.interval_precision,'' @ [CHR 0x0A] @
      ''    c.is_generated,'' @ [CHR 0x0A] @
      ''    c.is_updatable,'' @ [CHR 0x0A] @
      ''    tc.constraint_name,'' @ [CHR 0x0A] @
      ''    tc.table_name,'' @ [CHR 0x0A] @
      ''    tc.constraint_type,'' @ [CHR 0x0A] @
      ''    kcu.column_name,'' @ [CHR 0x0A] @
      ''    kcu.table_name,'' @ [CHR 0x0A] @
      ''    kcu.column_name,'' @ [CHR 0x0A] @
      ''    ccu.constraint_name,'' @ [CHR 0x0A] @
      ''    ccu.table_name,'' @ [CHR 0x0A] @
      ''    ccu.column_name'' @ [CHR 0x0A] @
      ''FROM'' @ [CHR 0x0A] @
      ''    information_schema.columns c'' @ [CHR 0x0A] @
      ''        LEFT JOIN'' @ [CHR 0x0A] @
      ''    information_schema.constraint_column_usage ccu'' @ [CHR 0x0A] @
      ''    ON c.table_name = ccu.table_name'' @ [CHR 0x0A] @
      ''        AND c.column_name = ccu.column_name'' @ [CHR 0x0A] @
      ''        AND c.table_schema = ccu.table_schema'' @ [CHR 0x0A] @
      ''        LEFT JOIN'' @ [CHR 0x0A] @
      ''    information_schema.key_column_usage kcu'' @ [CHR 0x0A] @
      ''    ON ccu.constraint_name = kcu.constraint_name'' @ [CHR 0x0A] @
      ''        AND c.table_schema = kcu.table_schema'' @ [CHR 0x0A] @
      ''        LEFT JOIN'' @ [CHR 0x0A] @
      ''    information_schema.table_constraints tc'' @ [CHR 0x0A] @
      ''    ON kcu.constraint_name = tc.constraint_name'' @ [CHR 0x0A] @
      ''        AND kcu.table_schema = tc.table_schema'' @ [CHR 0x0A] @
      ''WHERE'' @ [CHR 0x0A] @
      ''    c.table_schema = '' @ single_quoted sn @ [CHR 0x0A] @
      ''ORDER BY'' @ [CHR 0x0A] @
      ''    c.table_name,'' @ [CHR 0x0A] @
      ''    c.column_name,'' @ [CHR 0x0A] @
      ''    tc.table_name,'' @ [CHR 0x0A] @
      ''    tc.constraint_name,'' @ [CHR 0x0A] @
      ''    kcu.table_name,'' @ [CHR 0x0A] @
      ''    kcu.column_name,'' @ [CHR 0x0A] @
      ''    kcu.constraint_name;'' @ [CHR 0x0A]"

definition pg_DatabaseHash :: "('f, 'c) PgEnv \<Rightarrow> string \<Rightarrow> 'c PgDatabase \<Rightarrow> u64 Ret \<times> 'c PgDatabase" where
  "pg_DatabaseHash env sn d =
     (case co_QueryTable (pe_conn env) (hash_query sn) (dp_conn d) of
        (QueryFails e, c) \<Rightarrow> (Fails (Wrapf ''executing query to compute schema hash: %w'' [] e), d\<lparr>dp_conn := c\<rparr>)
      | (ColumnsFail e, c) \<Rightarrow> (Fails (Wrapf ''fetching columns for hashing: %w'' [] e), d\<lparr>dp_conn := c\<rparr>)
      | (ScanFails e, c) \<Rightarrow> (Fails (Wrapf ''scanning row for hashing: %w'' [] e), d\<lparr>dp_conn := c\<rparr>)
      | (IterFails e, c) \<Rightarrow> (Fails (Wrapf ''iterating rows: %w'' [] e), d\<lparr>dp_conn := c\<rparr>)
      | (TableRows rws, c) \<Rightarrow> (Returns (fnv64a (concat (concat rws))), d\<lparr>dp_conn := c\<rparr>))"

end
