(* ===== verification/ProtoSinker.thy ===== *)
theory ProtoSinker
  imports ProtoDb Sinker
begin

text \<open>
  The sink of messages (\<open>src/db_proto/sinker.go\<close>, the average of \<open>stats/stats.go\<close>) over the interface
  \<open>sql.Database\<close>, and the PostgreSQL database as an instance of the interface. Blocks are held until
  their number passes the last applied block by the batch size; then every held block is inserted, the
  inserter is flushed and the cursor of the last block is stored. The Substreams client, protobuf and
  the clock are parameters. With the option \<open>parallel\<close> the held blocks are processed by goroutines: a
  schedule, a parameter too, says which of them takes its next step.
\<close>

section \<open>Interface of the database\<close>

record ('f, 'd) DatabaseI =
  pd_FetchCursor :: "'d \<Rightarrow> Cursor option res \<times> 'd"
  pd_HandleBlocksUndo :: "u64 \<Rightarrow> 'd \<Rightarrow> Outcome \<times> 'd"
  pd_BeginTransaction :: "'d \<Rightarrow> Outcome \<times> 'd"
  pd_CommitTransaction :: "'d \<Rightarrow> Outcome \<times> 'd"
  pd_RollbackTransaction :: "'d \<Rightarrow> Outcome \<times> 'd"
  pd_Flush :: "'d \<Rightarrow> Outcome \<times> 'd"
  pd_StoreCursor :: "Cursor \<Rightarrow> 'd \<Rightarrow> Outcome \<times> 'd"
  pd_InsertBlock :: "u64 \<Rightarrow> string \<Rightarrow> int \<times> int \<Rightarrow> 'd \<Rightarrow> Outcome \<times> 'd"
  pd_WalkAndInsert :: "'f Message option \<Rightarrow> u64 \<Rightarrow> int \<times> int \<Rightarrow> 'f Parent option \<Rightarrow> 'd \<Rightarrow> Outcome \<times> 'd"
  pd_Clone :: "'d \<Rightarrow> 'd"
  pd_FetchSinkInfo :: "string \<Rightarrow> 'd \<Rightarrow> string option res \<times> 'd"
  pd_StoreSinkInfo :: "string \<Rightarrow> string \<Rightarrow> 'd \<Rightarrow> Outcome \<times> 'd"
  pd_UpdateSinkInfoHash :: "string \<Rightarrow> string \<Rightarrow> 'd \<Rightarrow> Outcome \<times> 'd"
  pd_CreateDatabase :: "bool \<Rightarrow> 'd \<Rightarrow> Outcome \<times> 'd"
  pd_DatabaseHash :: "string \<Rightarrow> 'd \<Rightarrow> u64 Ret \<times> 'd"
  pd_SchemaHash :: "'d \<Rightarrow> string"
  pd_Open :: "'d \<Rightarrow> GoErr option \<times> 'd"

text \<open>\<open>GetDialect().SchemaHash()\<close>\<close>

definition pg_SchemaHash :: "('f, 'c) PgEnv \<Rightarrow> 'c PgDatabase \<Rightarrow> string" where
  "pg_SchemaHash env d = SchemaHash (pe_dialect env)"

definition pg_DatabaseI :: "('f, 'c) PgEnv \<Rightarrow> ('f, 'c PgDatabase) DatabaseI" where
  "pg_DatabaseI env =
     \<lparr>pd_FetchCursor = pg_FetchCursor env, pd_HandleBlocksUndo = pg_HandleBlocksUndo env,
      pd_BeginTransaction = pg_BeginTransaction env, pd_CommitTransaction = pg_CommitTransaction env,
      pd_RollbackTransaction = pg_RollbackTransaction env, pd_Flush = pg_FlushRows env,
      pd_StoreCursor = pg_StoreCursor env, pd_InsertBlock = pg_InsertBlock env,
      pd_WalkAndInsert = pg_WalkMessageDescriptorAndInsert env, pd_Clone = pg_Clone,
      pd_FetchSinkInfo = pg_FetchSinkInfo env, pd_StoreSinkInfo = pg_StoreSinkInfo env,
      pd_UpdateSinkInfoHash = pg_UpdateSinkInfoHash env, pd_CreateDatabase = pg_CreateDatabase env,
      pd_DatabaseHash = pg_DatabaseHash env, pd_SchemaHash = pg_SchemaHash env, pd_Open = pg_Open env\<rparr>"

section \<open>State\<close>

text \<open>The window of durations of an average, and the average, divided as Go divides\<close>

definition Average_Add :: "nat \<Rightarrow> int \<Rightarrow> int list \<Rightarrow> int list" where
  "Average_Add windowSize d ds = (let ds' = ds @ [d] in if windowSize < length ds' then tl ds' else ds')"

definition Average_Average :: "int list \<Rightarrow> int" where
  "Average_Average ds =
     (if ds = [] then 0
      else go_div (sint (word_of_int (sum_list ds) :: 64 word)) (int (length ds)))"

definition FlushWindow :: nat where
  "FlushWindow = 1000"

text \<open>The parts of a block the sink reads; its time is in seconds and nanoseconds.\<close>

record ProtoBlock =
  pb_outputName :: string
  pb_value :: string
  pb_number :: u64
  pb_id :: string
  pb_timestamp :: "int \<times> int"

record Holder =
  h_data :: ProtoBlock
  h_isLive :: "bool option"
  h_cursor :: Cursor

text \<open>The sinker, its database and the package variable \<open>holding\<close>\<close>

record 'd ProtoSinker =
  ps_db :: 'd
  ps_useTransaction :: bool
  ps_parallel :: bool
  ps_blockBatchSize :: u64
  ps_FlushDuration :: "int list"
  ps_lastAppliedBlockNum :: u64
  ps_lastAppliedBlockTime :: int
  holding :: "Holder list"

record ('f, 'd) ProtoEnv =
  pn_db :: "('f, 'd) DatabaseI"
  pn_moduleName :: string
  pn_unmarshal :: "string \<Rightarrow> 'f Message res"
  pn_reachedEndBlock :: "u64 \<Rightarrow> bool"
  pn_flushTook :: "'d \<Rightarrow> int"
  pn_now :: "'d \<Rightarrow> int"
  pn_schedule :: "nat list"

definition proto_NewSinker :: "'d \<Rightarrow> bool \<Rightarrow> int \<Rightarrow> bool \<Rightarrow> 'd ProtoSinker" where
  "proto_NewSinker db useTransaction blockBatchSize parallel =
     \<lparr>ps_db = db, ps_useTransaction = useTransaction, ps_parallel = parallel,
      ps_blockBatchSize = word_of_int blockBatchSize, ps_FlushDuration = [], ps_lastAppliedBlockNum = 0,
      ps_lastAppliedBlockTime = zeroTime, holding = []\<rparr>"

definition nanos :: "int \<times> int \<Rightarrow> int" where
  "nanos t = fst t * 1000000000 + snd t"

section \<open>A block\<close>

definition processMessage :: "('f, 'd) DatabaseI \<Rightarrow> 'f Message \<Rightarrow> u64 \<Rightarrow> string \<Rightarrow> int \<times> int \<Rightarrow> 'd \<Rightarrow> Outcome \<times> 'd" where
  "processMessage db dm blockNum blockHash blockTimestamp d =
     and_then (wrap_outcome ''inserting block: %w'' [] (pd_InsertBlock db blockNum blockHash blockTimestamp d))
       (\<lambda>d1. wrap_outcome ''processing message %q: %w'' [AStr (msg_type dm)]
               (pd_WalkAndInsert db (Some dm) blockNum blockTimestamp None d1))"

definition processHolder :: "('f, 'd) ProtoEnv \<Rightarrow> Holder \<Rightarrow> 'd \<Rightarrow> Outcome \<times> 'd" where
  "processHolder env h d =
     (let b = h_data h in
      if pb_value b = [] then (Done, d)
      else case pn_unmarshal env (pb_value b) of
        Inl e \<Rightarrow> (Fail (Wrapf ''unmarshaling message: %w'' [] e), d)
      | Inr dm \<Rightarrow>
          wrap_outcome ''process entity: %w'' []
            (processMessage (pn_db env) dm (pb_number b) (pb_id b) (AsTime (pb_timestamp b)) d))"

fun process_all :: "('f, 'd) ProtoEnv \<Rightarrow> Holder list \<Rightarrow> 'd \<Rightarrow> Outcome \<times> 'd" where
  "process_all env [] d = (Done, d)"
| "process_all env (h # hs) d = and_then (processHolder env h d) (process_all env hs)"

section \<open>Goroutines\<close>

text \<open>The steps of a goroutine: it clones the database and begins a transaction, processes its block, rolls
  back if that failed, and commits. Each step is taken as a whole. The clone of the PostgreSQL
  database is the database itself, and the block is processed on the database of the sinker.\<close>

datatype Phase = GBegin | GProcess | GRollback | GCommit | GEnd

fun goroutine_step ::
    "('f, 'd) ProtoEnv \<Rightarrow> Holder \<Rightarrow> Phase \<Rightarrow> GoErr list \<Rightarrow> 'd \<Rightarrow> (Phase \<times> GoErr list \<times> 'd) option" where
  "goroutine_step env h GBegin errs d =
     (case pd_BeginTransaction (pn_db env) (pd_Clone (pn_db env) d) of
        (Done, d') \<Rightarrow> Some (GProcess, errs, d')
      | (Fail e, d') \<Rightarrow> Some (GProcess, errs @ [e], d')
      | (Panicked, d') \<Rightarrow> None)"
| "goroutine_step env h GProcess errs d =
     (case processHolder env h d of
        (Done, d') \<Rightarrow> Some (GCommit, errs, d')
      | (Fail e, d') \<Rightarrow> Some (GRollback, errs @ [e], d')
      | (Panicked, d') \<Rightarrow> None)"
| "goroutine_step env h GRollback errs d =
     (case pd_RollbackTransaction (pn_db env) d of
        (Done, d') \<Rightarrow> Some (GCommit, errs, d')
      | (_, d') \<Rightarrow> None)"
| "goroutine_step env h GCommit errs d =
     (case pd_CommitTransaction (pn_db env) d of
        (Done, d') \<Rightarrow> Some (GEnd, errs, d')
      | (Fail e, d') \<Rightarrow> Some (GEnd, errs @ [e], d')
      | (Panicked, d') \<Rightarrow> None)"
| "goroutine_step env h GEnd errs d = Some (GEnd, errs, d)"

text \<open>The goroutines in the order of the schedule. \<open>None\<close> is a panic, which ends the program.\<close>

fun run_schedule ::
    "('f, 'd) ProtoEnv \<Rightarrow> nat list \<Rightarrow> (Holder \<times> Phase) list \<Rightarrow> GoErr list \<Rightarrow> 'd
     \<Rightarrow> ((Holder \<times> Phase) list \<times> GoErr list \<times> 'd) option" where
  "run_schedule env [] gs errs d = Some (gs, errs, d)"
| "run_schedule env (i # is) gs errs d =
     (if i < length gs
      then (case goroutine_step env (fst (gs ! i)) (snd (gs ! i)) errs d of
              None \<Rightarrow> None
            | Some (p, errs', d') \<Rightarrow> run_schedule env is (gs[i := (fst (gs ! i), p)]) errs' d')
      else run_schedule env is gs errs d)"

text \<open>The sinker waits for all of them: what the schedule has left is done in order, four steps each.\<close>

definition run_parallel :: "('f, 'd) ProtoEnv \<Rightarrow> Holder list \<Rightarrow> 'd \<Rightarrow> (GoErr list \<times> 'd) option" where
  "run_parallel env hs d =
     (case run_schedule env (pn_schedule env @ concat (map (\<lambda>i. [i, i, i, i]) [0..<length hs]))
             (map (\<lambda>h. (h, GBegin)) hs) [] d of
        None \<Rightarrow> None
      | Some (gs, errs, d') \<Rightarrow> Some (errs, d'))"

section \<open>Handlers\<close>

definition process_batch :: "('f, 'd) ProtoEnv \<Rightarrow> 'd ProtoSinker \<Rightarrow> 'd \<Rightarrow> Outcome \<times> 'd" where
  "process_batch env sk d =
     (if ps_parallel sk
      then (case run_parallel env (holding sk) d of
              None \<Rightarrow> (Panicked, d)
            | Some (errs, d') \<Rightarrow> if errs = [] then (Done, d') else (Fail (Wrapf ''errors: %w'' [] (hd errs)), d'))
      else case process_all env (holding sk) d of
        (Fail e, d') \<Rightarrow>
          (if ps_useTransaction sk
           then and_then (pd_RollbackTransaction (pn_db env) d') (\<lambda>d''. (Fail (Wrapf ''process holder: %w'' [] e), d''))
           else (Fail (Wrapf ''process holder: %w'' [] e), d'))
      | r \<Rightarrow> r)"

definition in_transaction :: "'d ProtoSinker \<Rightarrow> bool" where
  "in_transaction sk \<longleftrightarrow> ps_useTransaction sk \<and> \<not> ps_parallel sk"

definition begin_if :: "('f, 'd) ProtoEnv \<Rightarrow> string \<Rightarrow> 'd ProtoSinker \<Rightarrow> Outcome \<times> 'd" where
  "begin_if env msg sk =
     (if in_transaction sk then wrap_outcome msg [] (pd_BeginTransaction (pn_db env) (ps_db sk)) else (Done, ps_db sk))"

definition commit_if :: "('f, 'd) ProtoEnv \<Rightarrow> string \<Rightarrow> 'd ProtoSinker \<Rightarrow> 'd \<Rightarrow> Outcome \<times> 'd" where
  "commit_if env msg sk d =
     (if in_transaction sk then wrap_outcome msg [] (pd_CommitTransaction (pn_db env) d) else (Done, d))"

text \<open>The average gets the duration of the flush per held block.\<close>

definition record_flush :: "('f, 'd) ProtoEnv \<Rightarrow> 'd \<Rightarrow> 'd ProtoSinker \<Rightarrow> int list" where
  "record_flush env d sk =
     Average_Add FlushWindow
       (if holding sk = [] then 0 else go_div (pn_flushTook env d) (int (length (holding sk)))) (ps_FlushDuration sk)"

definition apply_batch :: "('f, 'd) ProtoEnv \<Rightarrow> ProtoBlock \<Rightarrow> Cursor \<Rightarrow> 'd ProtoSinker \<Rightarrow> Outcome \<times> 'd ProtoSinker" where
  "apply_batch env data cursor sk =
     (case and_then (and_then (begin_if env ''begin tx: %w'' sk) (process_batch env sk))
                    (\<lambda>d. wrap_outcome ''flushing: %w'' [] (pd_Flush (pn_db env) d)) of
        (Done, d) \<Rightarrow>
          (let sk1 = sk\<lparr>ps_FlushDuration := record_flush env d sk, ps_lastAppliedBlockNum := pb_number data,
                       ps_lastAppliedBlockTime := nanos (AsTime (pb_timestamp data))\<rparr> in
           case and_then (wrap_outcome ''inserting cursor: %w'' [] (pd_StoreCursor (pn_db env) cursor d))
                         (commit_if env ''commit tx: %w'' sk) of
             (Done, d') \<Rightarrow> (Done, sk1\<lparr>ps_db := d', holding := []\<rparr>)
           | (r, d') \<Rightarrow> (r, sk1\<lparr>ps_db := d'\<rparr>))
      | (r, d) \<Rightarrow> (r, sk\<lparr>ps_db := d\<rparr>))"

definition live :: "bool option \<Rightarrow> bool" where
  "live isLive = (isLive = Some True)"

definition proto_flush_due :: "'d ProtoSinker \<Rightarrow> ProtoBlock \<Rightarrow> bool option \<Rightarrow> bool" where
  "proto_flush_due sk data isLive \<longleftrightarrow>
     (pb_number data > ps_lastAppliedBlockNum sk + ps_blockBatchSize sk \<or> ps_blockBatchSize sk = 1 \<or> live isLive)
     \<and> \<not> (live isLive \<and> Average_Average (ps_FlushDuration sk)
                         > timeSub (nanos (AsTime (pb_timestamp data))) (ps_lastAppliedBlockTime sk))"

definition proto_HandleBlockScopedData ::
    "('f, 'd) ProtoEnv \<Rightarrow> ProtoBlock \<Rightarrow> bool option \<Rightarrow> Cursor \<Rightarrow> 'd ProtoSinker \<Rightarrow> Outcome \<times> 'd ProtoSinker" where
  "proto_HandleBlockScopedData env data isLive cursor sk =
     (if pb_outputName data \<noteq> pn_moduleName env
      then (Fail (Errorf ''received data from wrong output module, expected to received from %q but got module's output for %q''
              [AStr (pn_moduleName env), AStr (pb_outputName data)]), sk)
      else let sk1 = sk\<lparr>holding := holding sk @ [\<lparr>h_data = data, h_isLive = isLive, h_cursor = cursor\<rparr>]\<rparr>
           in if proto_flush_due sk1 data isLive then apply_batch env data cursor sk1 else (Done, sk1))"

definition rollback_if :: "('f, 'd) ProtoEnv \<Rightarrow> 'd ProtoSinker \<Rightarrow> Outcome \<times> 'd \<Rightarrow> Outcome \<times> 'd" where
  "rollback_if env sk r =
     (case r of
        (Fail e, d) \<Rightarrow>
          (if in_transaction sk then and_then (pd_RollbackTransaction (pn_db env) d) (\<lambda>d'. (Fail e, d')) else r)
      | _ \<Rightarrow> r)"

definition proto_HandleBlockRangeCompletion ::
    "('f, 'd) ProtoEnv \<Rightarrow> Cursor \<Rightarrow> 'd ProtoSinker \<Rightarrow> Outcome \<times> 'd ProtoSinker" where
  "proto_HandleBlockRangeCompletion env cursor sk =
     (if \<not> pn_reachedEndBlock env (c_num cursor) then (Done, sk)
      else if holding sk = []
      then (case wrap_outcome ''storing cursor at completion: %w'' [] (pd_StoreCursor (pn_db env) cursor (ps_db sk)) of
              (r, d) \<Rightarrow> (r, sk\<lparr>ps_db := d\<rparr>))
      else case and_then (begin_if env ''begin tx on completion: %w'' sk)
                  (\<lambda>d. and_then (rollback_if env sk (wrap_outcome ''process holder on completion: %w'' [] (process_all env (holding sk) d)))
                  (\<lambda>d. rollback_if env sk (wrap_outcome ''flush on completion: %w'' [] (pd_Flush (pn_db env) d)))) of
        (Done, d) \<Rightarrow>
          (let sk1 = sk\<lparr>ps_FlushDuration := record_flush env d sk, ps_lastAppliedBlockNum := c_num cursor,
                       ps_lastAppliedBlockTime := pn_now env d\<rparr> in
           case and_then (rollback_if env sk (wrap_outcome ''storing cursor on completion: %w'' [] (pd_StoreCursor (pn_db env) cursor d)))
                         (commit_if env ''commit tx on completion: %w'' sk) of
             (Done, d') \<Rightarrow> (Done, sk1\<lparr>ps_db := d', holding := []\<rparr>)
           | (r, d') \<Rightarrow> (r, sk1\<lparr>ps_db := d'\<rparr>))
      | (r, d) \<Rightarrow> (r, sk\<lparr>ps_db := d\<rparr>))"

text \<open>An undo signal: the held blocks and the last applied block are not touched.\<close>

definition proto_HandleBlockUndoSignal ::
    "('f, 'd) ProtoEnv \<Rightarrow> u64 \<Rightarrow> Cursor \<Rightarrow> 'd ProtoSinker \<Rightarrow> Outcome \<times> 'd ProtoSinker" where
  "proto_HandleBlockUndoSignal env lastValidBlockNum cursor sk =
     (case and_then (wrap_outcome ''handle blocks undo from %d : %w'' [ANat (unat lastValidBlockNum)]
                       (pd_HandleBlocksUndo (pn_db env) lastValidBlockNum (ps_db sk)))
             (\<lambda>d. wrap_outcome ''inserting cursor: %w'' [] (pd_StoreCursor (pn_db env) cursor d)) of
        (r, d) \<Rightarrow> (r, sk\<lparr>ps_db := d\<rparr>))"

text \<open>The start: the cursor that the client library is run from. The blocks after the cursor are removed first.\<close>

definition proto_Run :: "('f, 'd) ProtoEnv \<Rightarrow> 'd ProtoSinker \<Rightarrow> (Cursor option res) option \<times> 'd ProtoSinker" where
  "proto_Run env sk =
     (case pd_FetchCursor (pn_db env) (ps_db sk) of
        (Inl e, d) \<Rightarrow> (Some (Inl (Wrapf ''fetch cursor: %w'' [] e)), sk\<lparr>ps_db := d\<rparr>)
      | (Inr None, d) \<Rightarrow> (Some (Inr None), sk\<lparr>ps_db := d\<rparr>)
      | (Inr (Some cursor), d) \<Rightarrow>
          (case pd_HandleBlocksUndo (pn_db env) (c_num cursor) d of
             (Done, d') \<Rightarrow> (Some (Inr (Some cursor)), sk\<lparr>ps_db := d'\<rparr>)
           | (Fail e, d') \<Rightarrow>
               (Some (Inl (Wrapf ''handle blocks undo from %s: %w'' [ANat (unat (c_num cursor)), AStr (c_id cursor)] e)),
                sk\<lparr>ps_db := d'\<rparr>)
           | (Panicked, d') \<Rightarrow> (None, sk\<lparr>ps_db := d'\<rparr>)))"

end
