(* ===== verification/ProtoRw.thy ===== *)
theory ProtoRw
  imports ProtoSinker
begin

text \<open>
  RisingWave as the database of messages (\<open>src/db_proto/sql/risingwave/dialect.go\<close>, \<open>database.go\<close>,
  \<open>row_inserter.go\<close>, \<open>accumulator_inserter.go\<close>). Its state is that of the PostgreSQL database; it never begins a
  transaction, so every statement is executed on its own, and the keys of its tables are part of their
  definition: a table without a key of its own gets one from the block number and the parent's key.
\<close>

section \<open>Creating the tables\<close>

definition rw_IsWellKnownType :: "FieldDesc \<Rightarrow> bool" where
  "rw_IsWellKnownType fd = (fd_MessageType fd = ''google.protobuf.Timestamp'')"

text \<open>The text of the statement and the columns that it has\<close>

type_synonym Columns = "string \<times> string list"

definition rw_add_key :: "Table \<Rightarrow> Columns \<Rightarrow> Columns Ret" where
  "rw_add_key table b =
     (case tb_PrimaryKey table of
        None \<Rightarrow> Returns b
      | Some pk \<Rightarrow>
          ret_bind (ret_type (rw_MapFieldType (pk_Field pk))) (\<lambda>t.
            Returns (fst b @ pk_Name pk @ '' '' @ t @ '' PRIMARY KEY,'', snd b @ [pk_Name pk])))"

text \<open>The column with the parent's key, and the names that it adds to a composite key\<close>

definition rw_add_parent :: "BaseDialect \<Rightarrow> Table \<Rightarrow> Columns \<Rightarrow> (Columns \<times> string list) Ret" where
  "rw_add_parent d table b =
     (case tb_ChildOf table of
        None \<Rightarrow> Returns (b, [])
      | Some co \<Rightarrow>
          (case GetTable d (ParentTable co) of
             None \<Rightarrow> Fails (Errorf ''parent table %q not found'' [AStr (ParentTable co)])
           | Some parentTable \<Rightarrow>
               (case find (\<lambda>f. cl_Name f = ParentTableField co) (tb_Columns parentTable) of
                  None \<Rightarrow> Fails (Errorf ''field %q not found in table %q'' [AStr (ParentTableField co), AStr (ParentTable co)])
                | Some parentField \<Rightarrow>
                    if cl_Name parentField \<in> set (snd b) then Returns (b, [])
                    else ret_bind (ret_type (rw_MapFieldType (cl_Field parentField))) (\<lambda>t.
                           Returns ((fst b @ cl_Name parentField @ '' '' @ t @ '','', snd b @ [cl_Name parentField]),
                                    [cl_Name parentField])))))"

text \<open>A foreign key must name a table and a column, but there is no constraint for it.\<close>

definition rw_check_foreign :: "BaseDialect \<Rightarrow> Column \<Rightarrow> GoErr option" where
  "rw_check_foreign d f =
     (case cl_ForeignKey f of
        None \<Rightarrow> None
      | Some fk \<Rightarrow>
          (case GetTable d (fk_Table fk) of
             None \<Rightarrow> Some (Errorf ''foreign table %q not found'' [AStr (fk_Table fk)])
           | Some foreignTable \<Rightarrow>
               (case find (\<lambda>field. cl_Name field = fk_TableField fk) (tb_Columns foreignTable) of
                  None \<Rightarrow> Some (Errorf ''foreign field %q not found in table %q'' [AStr (fk_TableField fk), AStr (fk_Table fk)])
                | Some foreignField \<Rightarrow> None)))"

definition rw_skips_column :: "Table \<Rightarrow> string list \<Rightarrow> Column \<Rightarrow> bool" where
  "rw_skips_column table added f \<longleftrightarrow>
     cl_Name f \<in> set added
     \<or> cl_Name f = (case tb_PrimaryKey table of Some pk \<Rightarrow> pk_Name pk | None \<Rightarrow> [])
     \<or> cl_Name f = ''block_number'' \<or> cl_Name f = ''block_timestamp''
     \<or> cl_IsRepeated f \<and> cl_IsMessage f
     \<or> cl_IsMessage f \<and> \<not> rw_IsWellKnownType (cl_Field f)"

definition rw_add_column :: "(nat \<Rightarrow> bool) \<Rightarrow> BaseDialect \<Rightarrow> Table \<Rightarrow> Column \<Rightarrow> Columns \<Rightarrow> Columns Ret" where
  "rw_add_column printable d table f b =
     (if rw_skips_column table (snd b) f then Returns b
      else case rw_check_foreign d f of
        Some e \<Rightarrow> Fails e
      | None \<Rightarrow>
          ret_bind (ret_type (rw_MapFieldType (cl_Field f))) (\<lambda>t.
            Returns (fst b @ QuotedName printable f @ '' '' @ t @ (if cl_IsUnique f then '' UNIQUE'' else []) @ '','',
                     snd b @ [cl_Name f])))"

definition rw_createTable :: "(nat \<Rightarrow> bool) \<Rightarrow> string \<Rightarrow> Table \<Rightarrow> BaseDialect \<Rightarrow> BaseDialect Ret" where
  "rw_createTable printable sn table d =
     (let start = ''CREATE TABLE IF NOT EXISTS '' @ FullTableName sn table @ '' ('' @ '' block_number INTEGER,''
                  @ '' block_timestamp TIMESTAMP WITH TIME ZONE,''
      in ret_bind (rw_add_key table (start, [''block_number'', ''block_timestamp''])) (\<lambda>b1.
         ret_bind (rw_add_parent d table b1) (\<lambda>(b2, parentKeyColumns).
         ret_bind (ret_fold (rw_add_column printable d table) (tb_Columns table) b2) (\<lambda>b3.
         Returns (AddCreateTableSql (tb_Name table)
           (butlast (fst b3)
            @ (if tb_PrimaryKey table = None
               then '', PRIMARY KEY ('' @ joinS '', '' (''block_number'' # parentKeyColumns) @ '')'' else [])
            @ [CHR 0x0A] @ '');'' @ [CHR 0x0A]) d)))))"

definition NewDialectRisingwave :: "(nat \<Rightarrow> bool) \<Rightarrow> string \<Rightarrow> Table gomap \<Rightarrow> BaseDialect Ret" where
  "NewDialectRisingwave printable sn registry =
     ret_fold (\<lambda>(n, table) d. ret_wrap ''handling table %q: %w'' [AStr (tb_Name table)]
                 (rw_createTable printable sn table d))
       registry (NewBaseDialect registry)"

definition rw_SchemaHash :: "BaseDialect \<Rightarrow> string" where
  "rw_SchemaHash d =
     (let buf = concat (sort (map snd (CreateTableSql d)))
              @ concat (sort (map cn_Sql (PrimaryKeySql d)))
              @ concat (sort (map cn_Sql (ForeignKeySql d)))
              @ concat (sort (map cn_Sql (UniqueConstraintSql d)))
      in hex_digits 16 (unat (fnv64a buf)))"

section \<open>Opening\<close>

definition rw_NewDatabase ::
    "'c Driver \<Rightarrow> ('f, 'c) PgEnv \<Rightarrow> Schema \<Rightarrow> DSN \<Rightarrow> bool \<Rightarrow> bool \<Rightarrow> (('f, 'c) PgEnv \<times> 'c PgDatabase) Ret" where
  "rw_NewDatabase drv env sc dsn useOptions useConstraints =
     ret_bind (open_connection drv (SqlDriver dsn) (fst (ConnString dsn))) (\<lambda>c.
     ret_bind (ret_wrap ''creating risingwave dialect: %w'' []
         (NewDialectRisingwave (pe_printable env) (sc_Name sc) (TableRegistry sc))) (\<lambda>dialect.
     Returns (env\<lparr>pe_schemaName := sc_Name sc, pe_dialect := dialect, pe_useConstraints := useConstraints\<rparr>,
              NewPgDatabase useOptions c)))"

definition rw_cursorQuery :: "string \<Rightarrow> string" where
  "rw_cursorQuery sn = ''INSERT INTO '' @ tableName sn ''_cursor_'' @ '' (name, cursor) VALUES ($1, $2)''"

definition rw_rowQueries :: "('f, 'c) PgEnv \<Rightarrow> string gomap" where
  "rw_rowQueries env =
     (let sn = pe_schemaName env in
      copyInto [] (map (\<lambda>t. (tb_Name t, rw_createInsertFromDescriptor (pe_printable env) sn t)) (GetTables (pe_dialect env))
        @ [(''_blocks_'', ''INSERT INTO '' @ tableName sn ''_blocks_''
              @ '' (number, hash, timestamp) VALUES ($1, $2, $3) RETURNING number''),
           (''_cursor_'', rw_cursorQuery sn)]))"

definition rw_RowInserter_init :: "('f, 'c) PgEnv \<Rightarrow> 'c PgDatabase \<Rightarrow> Inserter res \<times> 'c PgDatabase" where
  "rw_RowInserter_init env d =
     (let sn = pe_schemaName env; tables = GetTables (pe_dialect env);
          qs = map (rw_createInsertFromDescriptor (pe_printable env) sn) tables
            @ [getS (rw_rowQueries env) ''_blocks_'', getS (rw_rowQueries env) ''_cursor_'']
      in case prepare_all (pe_conn env) qs (dp_conn d) of
           (Some e, c) \<Rightarrow> (Inl e, d\<lparr>dp_conn := c\<rparr>)
         | (None, c) \<Rightarrow> (Inr (RowInserter (rw_rowQueries env)), d\<lparr>dp_conn := c\<rparr>))"

definition rw_AccumulatorInserter_init :: "('f, 'c) PgEnv \<Rightarrow> 'c PgDatabase \<Rightarrow> Inserter res \<times> 'c PgDatabase" where
  "rw_AccumulatorInserter_init env d =
     (let sn = pe_schemaName env;
          accs = copyInto []
            (map (\<lambda>t. (tb_Name t, \<lparr>ac_query = rw_createInsertFromDescriptorAcc (pe_printable env) sn t, ac_rowValues = []\<rparr>))
               (GetTables (pe_dialect env))
             @ [(''_blocks_'', \<lparr>ac_query = ''INSERT INTO '' @ tableName sn ''_blocks_'' @ '' (number, hash, timestamp) VALUES '',
                              ac_rowValues = []\<rparr>)])
      in case prepare_all (pe_conn env) [rw_cursorQuery sn] (dp_conn d) of
           (Some e, c) \<Rightarrow> (Inl e, d\<lparr>dp_conn := c\<rparr>)
         | (None, c) \<Rightarrow> (Inr (AccumulatorInserter accs (rw_cursorQuery sn)), d\<lparr>dp_conn := c\<rparr>))"

definition rw_Open :: "('f, 'c) PgEnv \<Rightarrow> 'c PgDatabase \<Rightarrow> GoErr option \<times> 'c PgDatabase" where
  "rw_Open env d =
     (if pe_useConstraints env
      then (case rw_RowInserter_init env d of
              (Inl e, d') \<Rightarrow> (Some (Wrapf ''initializing row inserter: %w'' [] e), d')
            | (Inr ins, d') \<Rightarrow> (None, d'\<lparr>dp_inserter := ins\<rparr>))
      else (case rw_AccumulatorInserter_init env d of
              (Inl e, d') \<Rightarrow> (Some (Wrapf ''initializing accumulator inserter: %w'' [] e), d')
            | (Inr ins, d') \<Rightarrow> (None, d'\<lparr>dp_inserter := ins\<rparr>)))"

section \<open>Transactions\<close>

text \<open>No transaction is begun; one that is open all the same is committed or rolled back, and an error of the
  rollback is logged.\<close>

definition rw_BeginTransaction :: "'c PgDatabase \<Rightarrow> Outcome \<times> 'c PgDatabase" where
  "rw_BeginTransaction d = (Done, d\<lparr>dp_tx := None\<rparr>)"

definition rw_CommitTransaction :: "('f, 'c) PgEnv \<Rightarrow> 'c PgDatabase \<Rightarrow> Outcome \<times> 'c PgDatabase" where
  "rw_CommitTransaction env d =
     (case dp_tx d of
        None \<Rightarrow> (Done, d)
      | Some h \<Rightarrow>
          (case co_Commit (pe_conn env) h (dp_conn d) of
             (Some e, c) \<Rightarrow> (Fail (Wrapf ''committing unexpected transaction: %w'' [] e), d\<lparr>dp_conn := c\<rparr>)
           | (None, c) \<Rightarrow> (Done, d\<lparr>dp_conn := c, dp_tx := None\<rparr>)))"

definition rw_RollbackTransaction :: "('f, 'c) PgEnv \<Rightarrow> 'c PgDatabase \<Rightarrow> Outcome \<times> 'c PgDatabase" where
  "rw_RollbackTransaction env d =
     (case dp_tx d of
        None \<Rightarrow> (Done, d)
      | Some h \<Rightarrow> (case co_Rollback (pe_conn env) h (dp_conn d) of (_, c) \<Rightarrow> (Done, d\<lparr>dp_conn := c, dp_tx := None\<rparr>)))"

text \<open>On a transaction if there is one, else on the connection\<close>

definition rw_execSql :: "('f, 'c) PgEnv \<Rightarrow> string \<Rightarrow> 'f Value list \<Rightarrow> 'c PgDatabase \<Rightarrow> (int res) res \<times> 'c PgDatabase" where
  "rw_execSql env q args d =
     (case co_Exec (pe_conn env) (dp_tx d) q args (dp_conn d) of (r, c) \<Rightarrow> (r, d\<lparr>dp_conn := c\<rparr>))"

section \<open>Inserting\<close>

definition rw_row_argument :: "'f Floats \<Rightarrow> 'f Value \<Rightarrow> 'f Value option" where
  "rw_row_argument fl v =
     (case v of
        V_uint64 n \<Rightarrow> Some (V_string (dec (unat n)))
      | V_bytes b \<Rightarrow> Some (V_string (b64_encode b))
      | V_time t \<Rightarrow> Some (V_time t)
      | V_ptime None \<Rightarrow> Some V_nil
      | V_ptime (Some t) \<Rightarrow> Some (V_time t)
      | V_timestamp ts \<Rightarrow> Some (V_time (AsTime (case ts of Some t \<Rightarrow> t | None \<Rightarrow> (0, 0))))
      | V_list vs \<Rightarrow>
          map_option (\<lambda>elements. V_string (''{'' @ joinS '','' elements @ ''}'')) (those (map (rw_ValueToString fl) vs))
      | _ \<Rightarrow> Some v)"

definition rw_RowInserter_insert ::
    "('f, 'c) PgEnv \<Rightarrow> string gomap \<Rightarrow> string \<Rightarrow> 'f Value list \<Rightarrow> 'c PgDatabase \<Rightarrow> Outcome \<times> 'c PgDatabase" where
  "rw_RowInserter_insert env iqs table values d =
     (case (map_of iqs table, those (map (rw_row_argument (pe_floats env)) values)) of
        (Some q, Some args) \<Rightarrow>
          (case exec_on env (dp_tx d) q args d of
             (Some e, d') \<Rightarrow> (Fail (Wrapf ''risingwave row inserter: querying insert %q: %w'' [AStr q] e), d')
           | (None, d') \<Rightarrow> (Done, d'))
      | _ \<Rightarrow> (Panicked, d))"

definition rw_AccumulatorInserter_insert ::
    "('f, 'c) PgEnv \<Rightarrow> Accumulator gomap \<Rightarrow> string \<Rightarrow> string \<Rightarrow> 'f Value list \<Rightarrow> 'c PgDatabase \<Rightarrow> Outcome \<times> 'c PgDatabase" where
  "rw_AccumulatorInserter_insert env accs cursorQuery table values d =
     (if table = ''_cursor_''
      then (case exec_on env (dp_tx d) cursorQuery values d of
              (Some e, d') \<Rightarrow> (Fail (Wrapf ''executing insert: %w'' [] e), d')
            | (None, d') \<Rightarrow> (Done, d'))
      else case those (map (rw_ValueToString (pe_floats env)) values) of
        None \<Rightarrow> (Panicked, d)
      | Some v \<Rightarrow>
          (case map_of accs table of
             None \<Rightarrow> (Fail (Errorf ''accumulator not found for table %q'' [AStr table]), d)
           | Some acc \<Rightarrow>
               (Done, d\<lparr>dp_inserter := AccumulatorInserter
                  (AList.update table (acc\<lparr>ac_rowValues := ac_rowValues acc @ [v]\<rparr>) accs) cursorQuery\<rparr>)))"

definition rw_Insert :: "('f, 'c) PgEnv \<Rightarrow> string \<Rightarrow> 'f Value list \<Rightarrow> 'c PgDatabase \<Rightarrow> Outcome \<times> 'c PgDatabase" where
  "rw_Insert env table values d =
     (case dp_inserter d of
        NoInserter \<Rightarrow> (Panicked, d)
      | RowInserter iqs \<Rightarrow> rw_RowInserter_insert env iqs table values d
      | AccumulatorInserter accs cursorQuery \<Rightarrow> rw_AccumulatorInserter_insert env accs cursorQuery table values d)"

text \<open>The accumulators one after the other, each on its own statement\<close>

fun rw_flush_accumulators ::
    "('f, 'c) PgEnv \<Rightarrow> Accumulator gomap \<Rightarrow> 'c PgDatabase \<Rightarrow> Outcome \<times> Accumulator gomap \<times> 'c PgDatabase" where
  "rw_flush_accumulators env [] d = (Done, [], d)"
| "rw_flush_accumulators env ((n, acc) # accs) d =
     (if ac_rowValues acc = []
      then (case rw_flush_accumulators env accs d of (r, accs', d') \<Rightarrow> (r, (n, acc) # accs', d'))
      else case rw_execSql env (acc_statement acc) [] d of
        (Inl e, d') \<Rightarrow>
          (Fail (Wrapf ''risingwave accumulator inserter: executing insert %s: %w'' [AStr (short_insert (acc_statement acc))] e),
           (n, acc) # accs, d')
      | (Inr _, d') \<Rightarrow>
          (case rw_flush_accumulators env accs d' of
             (r, accs', d'') \<Rightarrow> (r, (n, acc\<lparr>ac_rowValues := []\<rparr>) # accs', d'')))"

definition rw_FlushRows :: "('f, 'c) PgEnv \<Rightarrow> 'c PgDatabase \<Rightarrow> Outcome \<times> 'c PgDatabase" where
  "rw_FlushRows env d =
     (case dp_inserter d of
        NoInserter \<Rightarrow> (Panicked, d)
      | RowInserter iqs \<Rightarrow> (Done, d)
      | AccumulatorInserter accs cursorQuery \<Rightarrow>
          (case rw_flush_accumulators env accs d of
             (r, accs', d') \<Rightarrow>
               ((case r of Fail e \<Rightarrow> Fail (Wrapf ''flushing: %w'' [] e) | _ \<Rightarrow> r),
                d'\<lparr>dp_inserter := AccumulatorInserter accs' cursorQuery\<rparr>)))"

section \<open>Blocks, cursors and messages\<close>

definition rw_InsertBlock :: "('f, 'c) PgEnv \<Rightarrow> u64 \<Rightarrow> string \<Rightarrow> int \<times> int \<Rightarrow> 'c PgDatabase \<Rightarrow> Outcome \<times> 'c PgDatabase" where
  "rw_InsertBlock env blockNum hash timestamp d =
     wrap_outcome ''inserting block %d: %w'' [ANat (unat blockNum)]
       (rw_Insert env ''_blocks_'' [V_uint64 blockNum, V_string hash, V_time timestamp] d)"

definition rw_StoreCursor :: "('f, 'c) PgEnv \<Rightarrow> Cursor \<Rightarrow> 'c PgDatabase \<Rightarrow> Outcome \<times> 'c PgDatabase" where
  "rw_StoreCursor env cursor d =
     wrap_outcome ''inserting cursor: %w'' []
       (rw_Insert env ''_cursor_'' [V_string ''cursor'', V_string (c_string cursor)] d)"

definition rw_walk_env :: "('f, 'c) PgEnv \<Rightarrow> bool \<Rightarrow> ('f, 'c PgDatabase) WalkEnv" where
  "rw_walk_env env useOptions =
     \<lparr>we_descs = pe_descs env, we_floats = pe_floats env, UseVersionField = False, UseDeletedField = False,
      we_tables = GetTable (pe_dialect env), useProtoOptions = useOptions,
      we_now = (\<lambda>d. (0, d)), we_Insert = rw_Insert env\<rparr>"

definition rw_WalkMessageDescriptorAndInsert ::
    "('f, 'c) PgEnv \<Rightarrow> 'f Message option \<Rightarrow> u64 \<Rightarrow> int \<times> int \<Rightarrow> 'f Parent option \<Rightarrow> 'c PgDatabase \<Rightarrow> Outcome \<times> 'c PgDatabase" where
  "rw_WalkMessageDescriptorAndInsert env dm blockNum blockTimestamp parent d =
     walk_insert (rw_walk_env env (dp_useProtoOptions d)) blockNum blockTimestamp parent dm d"

text \<open>The undo deletes the blocks; no statement deletes their rows.\<close>

definition rw_HandleBlocksUndo :: "('f, 'c) PgEnv \<Rightarrow> u64 \<Rightarrow> 'c PgDatabase \<Rightarrow> Outcome \<times> 'c PgDatabase" where
  "rw_HandleBlocksUndo env lastValidBlockNum d =
     (case rw_execSql env
             (''DELETE FROM '' @ pe_schemaName env @ ''._blocks_ WHERE '' @ [CHR 0x22] @ ''number'' @ [CHR 0x22] @ '' > $1'')
             [V_uint64 lastValidBlockNum] d of
        (Inl e, d') \<Rightarrow> (Fail (Wrapf ''deleting block from %d: %w'' [ANat (unat lastValidBlockNum)] e), d')
      | (Inr (Inl e), d') \<Rightarrow> (Fail (Wrapf ''fetching rows affected: %w'' [] e), d')
      | (Inr (Inr _), d') \<Rightarrow> (Done, d'))"

text \<open>These methods have the code of the PostgreSQL database.\<close>

definition rw_FetchCursor :: "('f, 'c) PgEnv \<Rightarrow> 'c PgDatabase \<Rightarrow> Cursor option res \<times> 'c PgDatabase" where
  "rw_FetchCursor = pg_FetchCursor"

definition rw_Clone :: "'c PgDatabase \<Rightarrow> 'c PgDatabase" where
  "rw_Clone = pg_Clone"

definition rw_FetchSinkInfo :: "('f, 'c) PgEnv \<Rightarrow> string \<Rightarrow> 'c PgDatabase \<Rightarrow> string option res \<times> 'c PgDatabase" where
  "rw_FetchSinkInfo = pg_FetchSinkInfo"

definition rw_DatabaseHash :: "('f, 'c) PgEnv \<Rightarrow> string \<Rightarrow> 'c PgDatabase \<Rightarrow> u64 Ret \<times> 'c PgDatabase" where
  "rw_DatabaseHash = pg_DatabaseHash"

section \<open>The schema of the database\<close>

definition risingwaveStaticSql :: "string \<Rightarrow> string" where
  "risingwaveStaticSql sn =
     (let nl = [CHR 0x0A, CHR 0x09]; nl2 = [CHR 0x0A, CHR 0x09, CHR 0x09]; q = [CHR 0x22] @ sn @ [CHR 0x22] in
      nl @ ''CREATE SCHEMA IF NOT EXISTS '' @ q @ '';'' @ [CHR 0x0A]
      @ nl @ ''CREATE TABLE IF NOT EXISTS '' @ q @ ''._sink_info_ ('' @ nl2 @ ''schema_hash VARCHAR PRIMARY KEY'' @ nl @ '');'' @ [CHR 0x0A]
      @ nl @ ''CREATE TABLE IF NOT EXISTS '' @ q @ ''._cursor_ ('' @ nl2 @ ''name VARCHAR PRIMARY KEY,'' @ nl2
      @ ''cursor VARCHAR'' @ nl @ '');'' @ [CHR 0x0A]
      @ nl @ ''CREATE TABLE IF NOT EXISTS '' @ q @ ''._blocks_ ('' @ nl2 @ ''number INTEGER PRIMARY KEY,'' @ nl2
      @ ''hash VARCHAR,'' @ nl2 @ ''timestamp TIMESTAMP WITH TIME ZONE'' @ nl @ '');'' @ [CHR 0x0A])"

fun rw_statements :: "('f, 'c) PgEnv \<Rightarrow> string \<Rightarrow> string list \<Rightarrow> 'c PgDatabase \<Rightarrow> Outcome \<times> 'c PgDatabase" where
  "rw_statements env msg [] d = (Done, d)"
| "rw_statements env msg (q # qs) d =
     (case rw_execSql env q [] d of
        (Inl e, d') \<Rightarrow> (Fail (Wrapf msg [AStr q] e), d')
      | (Inr _, d') \<Rightarrow> rw_statements env msg qs d')"

definition rw_createDatabase :: "('f, 'c) PgEnv \<Rightarrow> 'c PgDatabase \<Rightarrow> Outcome \<times> 'c PgDatabase" where
  "rw_createDatabase env d =
     and_then (rw_statements env ''executing static staticSql: %w'' [risingwaveStaticSql (pe_schemaName env)] d)
       (rw_statements env ''executing create statement: %w %s'' (map snd (CreateTableSql (pe_dialect env))))"

text \<open>The dialect has a creation of its own, on a given transaction, without the constraints.\<close>

definition rw_dialect_CreateDatabase :: "('f, 'c) PgEnv \<Rightarrow> nat \<Rightarrow> 'c PgDatabase \<Rightarrow> Outcome \<times> 'c PgDatabase" where
  "rw_dialect_CreateDatabase env tx d =
     (case exec_on env (Some tx) (risingwaveStaticSql (pe_schemaName env)) [] d of
        (Some e, d') \<Rightarrow> (Fail (Wrapf (''executing static staticSql: %w'' @ [CHR 0x0A] @ ''%s'') [AStr (risingwaveStaticSql (pe_schemaName env))] e), d')
      | (None, d') \<Rightarrow>
          fold (\<lambda>q r. and_then r (\<lambda>d. case exec_on env (Some tx) q [] d of
                  (Some e, d') \<Rightarrow> (Fail (Wrapf ''executing create statement: %w %s'' [AStr q] e), d')
                | (None, d') \<Rightarrow> (Done, d')))
            (map snd (CreateTableSql (pe_dialect env))) (Done, d'))"

definition rw_applyConstraints :: "('f, 'c) PgEnv \<Rightarrow> 'c PgDatabase \<Rightarrow> Outcome \<times> 'c PgDatabase" where
  "rw_applyConstraints env d =
     and_then (and_then
       (rw_statements env ''executing pk statement: %w %s'' (map cn_Sql (PrimaryKeySql (pe_dialect env))) d)
       (rw_statements env ''executing unique statement: %w %s'' (map cn_Sql (UniqueConstraintSql (pe_dialect env)))))
       (rw_statements env ''executing fk constraint statement: %w %s'' (map cn_Sql (ForeignKeySql (pe_dialect env))))"

definition rw_CreateDatabase :: "('f, 'c) PgEnv \<Rightarrow> bool \<Rightarrow> 'c PgDatabase \<Rightarrow> Outcome \<times> 'c PgDatabase" where
  "rw_CreateDatabase env useConstraints d =
     and_then (wrap_outcome ''creating database: %w'' [] (rw_createDatabase env d))
       (\<lambda>d'. if useConstraints then wrap_outcome ''applying constraints: %w'' [] (rw_applyConstraints env d') else (Done, d'))"

definition rw_StoreSinkInfo :: "('f, 'c) PgEnv \<Rightarrow> string \<Rightarrow> string \<Rightarrow> 'c PgDatabase \<Rightarrow> Outcome \<times> 'c PgDatabase" where
  "rw_StoreSinkInfo env sn hash d =
     (case rw_execSql env (''INSERT INTO '' @ sn @ ''._sink_info_ (schema_hash) VALUES ($1)'') [V_string hash] d of
        (Inl e, d') \<Rightarrow> (Fail (Wrapf ''storing schema hash: %w'' [] e), d')
      | (Inr _, d') \<Rightarrow> (Done, d'))"

definition rw_UpdateSinkInfoHash :: "('f, 'c) PgEnv \<Rightarrow> string \<Rightarrow> string \<Rightarrow> 'c PgDatabase \<Rightarrow> Outcome \<times> 'c PgDatabase" where
  "rw_UpdateSinkInfoHash env sn hash d =
     (case rw_execSql env (''UPDATE '' @ sn @ ''._sink_info_ SET schema_hash = $1'') [V_string hash] d of
        (Inl e, d') \<Rightarrow> (Fail (Wrapf ''updating schema hash: %w'' [] e), d')
      | (Inr _, d') \<Rightarrow> (Done, d'))"

definition rw_dialect_hash :: "('f, 'c) PgEnv \<Rightarrow> 'c PgDatabase \<Rightarrow> string" where
  "rw_dialect_hash env d = rw_SchemaHash (pe_dialect env)"

definition rw_DatabaseI :: "('f, 'c) PgEnv \<Rightarrow> ('f, 'c PgDatabase) DatabaseI" where
  "rw_DatabaseI env =
     \<lparr>pd_FetchCursor = rw_FetchCursor env, pd_HandleBlocksUndo = rw_HandleBlocksUndo env,
      pd_BeginTransaction = rw_BeginTransaction, pd_CommitTransaction = rw_CommitTransaction env,
      pd_RollbackTransaction = rw_RollbackTransaction env, pd_Flush = rw_FlushRows env,
      pd_StoreCursor = rw_StoreCursor env, pd_InsertBlock = rw_InsertBlock env,
      pd_WalkAndInsert = rw_WalkMessageDescriptorAndInsert env, pd_Clone = rw_Clone,
      pd_FetchSinkInfo = rw_FetchSinkInfo env, pd_StoreSinkInfo = rw_StoreSinkInfo env,
      pd_UpdateSinkInfoHash = rw_UpdateSinkInfoHash env, pd_CreateDatabase = rw_CreateDatabase env,
      pd_DatabaseHash = rw_DatabaseHash env, pd_SchemaHash = rw_dialect_hash env, pd_Open = rw_Open env\<rparr>"

end
