(* ===== verification/ProtoCh.thy ===== *)
theory ProtoCh
  imports ProtoSinker
begin

text \<open>
  ClickHouse as the database of messages (\<open>src/db_proto/sql/click_house/types.go\<close>, \<open>dialect.go\<close>,
  \<open>accumulator_inserter.go\<close>, \<open>database.go\<close>): rows have a version and a mark that they are deleted, they are
  gathered column by column and sent table by table; there are no transactions, the cursor and the schema
  hash are in files, and an undo inserts the rows once more, marked as deleted. The native client and the files are
  a record of operations over an arbitrary state.
\<close>

section \<open>Types\<close>

definition ch_MapSemanticType :: "string \<Rightarrow> string option" where
  "ch_MapSemanticType t =
     (if t = ''uint256'' \<or> t = ''int256'' then Some ''String''
      else if t = ''address'' then Some ''FixedString(42)''
      else if t = ''hash'' then Some ''FixedString(66)''
      else if t \<in> {''signature'', ''pubkey'', ''hex'', ''base64'', ''json'', ''uuid''} then Some ''String''
      else if t = ''unix_timestamp'' \<or> t = ''block_timestamp'' then Some ''DateTime''
      else if t = ''unix_timestamp_ms'' then Some ''DateTime64(3)''
      else None)"

definition ch_SupportsSemanticType :: "string \<Rightarrow> bool" where
  "ch_SupportsSemanticType t = (ch_MapSemanticType t \<noteq> None)"

fun ch_base_type :: "FieldType \<Rightarrow> string \<Rightarrow> string option" where
  "ch_base_type TYPE_MESSAGE m = (if m = ''google.protobuf.Timestamp'' then Some ''DateTime'' else None)"
| "ch_base_type TYPE_ENUM m = Some ''Int32''"
| "ch_base_type TYPE_BOOL m = Some ''Bool''"
| "ch_base_type TYPE_INT32 m = Some ''Int32''"
| "ch_base_type TYPE_SINT32 m = Some ''Int32''"
| "ch_base_type TYPE_SFIXED32 m = Some ''Int32''"
| "ch_base_type TYPE_INT64 m = Some ''Int64''"
| "ch_base_type TYPE_SINT64 m = Some ''Int64''"
| "ch_base_type TYPE_SFIXED64 m = Some ''Int64''"
| "ch_base_type TYPE_UINT64 m = Some ''UInt64''"
| "ch_base_type TYPE_FIXED64 m = Some ''UInt64''"
| "ch_base_type TYPE_UINT32 m = Some ''UInt32''"
| "ch_base_type TYPE_FIXED32 m = Some ''UInt32''"
| "ch_base_type TYPE_FLOAT m = Some ''Float32''"
| "ch_base_type TYPE_DOUBLE m = Some ''Float64''"
| "ch_base_type TYPE_STRING m = Some ''VARCHAR''"
| "ch_base_type TYPE_BYTES m = Some ''VARCHAR''"
| "ch_base_type TYPE_GROUP m = None"

definition ch_MapFieldType :: "FieldDesc \<Rightarrow> string option" where
  "ch_MapFieldType fd =
     (case Option.bind (fst (SemanticTypeInfo fd)) ch_MapSemanticType of
        Some sqlType \<Rightarrow> Some sqlType
      | None \<Rightarrow>
          map_option (\<lambda>t. if fd_IsRepeated fd then ''Array('' @ t @ '')'' else t)
            (ch_base_type (fd_Type fd) (fd_MessageType fd)))"

text \<open>The column buffers of the client (\<open>proto.ColInput\<close>)\<close>

datatype Col =
    ColInt32 | ColInt64 | ColUInt32 | ColUInt64 | ColFloat32 | ColFloat64 | ColBool | ColStr | ColBytes | ColDateTime
  | ColArr Col

fun col_base :: "FieldType \<Rightarrow> string \<Rightarrow> Col option" where
  "col_base TYPE_MESSAGE m = (if m = ''google.protobuf.Timestamp'' then Some ColDateTime else None)"
| "col_base TYPE_ENUM m = Some ColInt32"
| "col_base TYPE_BOOL m = Some ColBool"
| "col_base TYPE_INT32 m = Some ColInt32"
| "col_base TYPE_SINT32 m = Some ColInt32"
| "col_base TYPE_SFIXED32 m = Some ColInt32"
| "col_base TYPE_INT64 m = Some ColInt64"
| "col_base TYPE_SINT64 m = Some ColInt64"
| "col_base TYPE_SFIXED64 m = Some ColInt64"
| "col_base TYPE_UINT64 m = Some ColUInt64"
| "col_base TYPE_FIXED64 m = Some ColUInt64"
| "col_base TYPE_UINT32 m = Some ColUInt32"
| "col_base TYPE_FIXED32 m = Some ColUInt32"
| "col_base TYPE_FLOAT m = Some ColFloat32"
| "col_base TYPE_DOUBLE m = Some ColFloat64"
| "col_base TYPE_STRING m = Some ColStr"
| "col_base TYPE_BYTES m = Some ColBytes"
| "col_base TYPE_GROUP m = None"

definition ColInputForColumn :: "FieldDesc \<Rightarrow> Col option" where
  "ColInputForColumn fd =
     map_option (\<lambda>c. if fd_IsRepeated fd then ColArr c else c) (col_base (fd_Type fd) (fd_MessageType fd))"

text \<open>\<open>Append\<close> of a value whose type is asserted: \<open>None\<close> is the panic. Also the elements of an array are asserted.\<close>

primrec col_append :: "Col \<Rightarrow> 'f Value \<Rightarrow> 'f Value option" where
  "col_append ColInt32 v = (case v of V_int32 x \<Rightarrow> Some (V_int32 x) | _ \<Rightarrow> None)"
| "col_append ColInt64 v = (case v of V_int64 x \<Rightarrow> Some (V_int64 x) | _ \<Rightarrow> None)"
| "col_append ColUInt32 v = (case v of V_uint32 x \<Rightarrow> Some (V_uint32 x) | _ \<Rightarrow> None)"
| "col_append ColUInt64 v = (case v of V_uint64 x \<Rightarrow> Some (V_uint64 x) | _ \<Rightarrow> None)"
| "col_append ColFloat32 v = (case v of V_float32 x \<Rightarrow> Some (V_float32 x) | _ \<Rightarrow> None)"
| "col_append ColFloat64 v = (case v of V_float64 x \<Rightarrow> Some (V_float64 x) | _ \<Rightarrow> None)"
| "col_append ColBool v = (case v of V_bool x \<Rightarrow> Some (V_bool x) | _ \<Rightarrow> None)"
| "col_append ColStr v = (case v of V_string x \<Rightarrow> Some (V_string x) | _ \<Rightarrow> None)"
| "col_append ColBytes v = (case v of V_bytes x \<Rightarrow> Some (V_bytes x) | _ \<Rightarrow> None)"
| "col_append ColDateTime v =
     (case v of
        V_timestamp ts \<Rightarrow> Some (V_time (AsTime (case ts of Some t \<Rightarrow> t | None \<Rightarrow> (0, 0))))
      | V_time t \<Rightarrow> Some (V_time t)
      | _ \<Rightarrow> None)"
| "col_append (ColArr c) v = (case v of V_list vs \<Rightarrow> map_option V_list (those (map (col_append c) vs)) | _ \<Rightarrow> None)"

section \<open>Creating the tables\<close>

fun wrapWithClickhouseFunction :: "string \<Rightarrow> ChFunction \<Rightarrow> string" where
  "wrapWithClickhouseFunction fieldName F_unset = fieldName"
| "wrapWithClickhouseFunction fieldName F_toMonth = ''toMonth('' @ fieldName @ '')''"
| "wrapWithClickhouseFunction fieldName F_toDate = ''toDate('' @ fieldName @ '')''"
| "wrapWithClickhouseFunction fieldName F_toStartOfMonth = ''toStartOfMonth('' @ fieldName @ '')''"
| "wrapWithClickhouseFunction fieldName F_toYear = ''toYear('' @ fieldName @ '')''"
| "wrapWithClickhouseFunction fieldName F_toYYYYDD = ''toYYYYMMDD('' @ fieldName @ '')''"
| "wrapWithClickhouseFunction fieldName F_toYYYYMM = ''toYYYYMM('' @ fieldName @ '')''"

definition orderByString :: "Table \<Rightarrow> string res" where
  "orderByString table =
     (case pt_Clickhouse (tb_Info table) of
        None \<Rightarrow>
          Inr (''ORDER BY ('' @ (case tb_PrimaryKey table of Some pk \<Rightarrow> pk_Name pk | None \<Rightarrow> ''_block_number_'') @ '')'')
      | Some info \<Rightarrow>
          if ct_OrderByFields info = []
          then Inl (Errorf ''clickhouse table options for table %q don't have any 'order_by_fields'. Require at least 1''
                      [AStr (tb_Name table)])
          else Inr (''ORDER BY (''
                 @ joinS '', '' (map (\<lambda>f. wrapWithClickhouseFunction (ob_Name f) (ob_Function f)
                                        @ (if ob_Descending f then '' desc'' else [])) (ct_OrderByFields info))
                 @ '')''))"

definition partitionByString :: "Table \<Rightarrow> string" where
  "partitionByString table =
     (let monthly = wrapWithClickhouseFunction ''_block_timestamp_'' F_toYYYYMM in
      case pt_Clickhouse (tb_Info table) of
        None \<Rightarrow> ''PARTITION BY ('' @ monthly @ '')''
      | Some info \<Rightarrow>
          ''PARTITION BY (''
          @ joinS '', '' ((if list_ex (\<lambda>f. pf_Name f = ''_block_timestamp_'') (ct_PartitionFields info) then [] else [monthly])
              @ map (\<lambda>f. wrapWithClickhouseFunction (pf_Name f) (pf_Function f)) (ct_PartitionFields info))
          @ '')'')"

definition replacingMergeTreeString :: "Table \<Rightarrow> string" where
  "replacingMergeTreeString table =
     (case pt_Clickhouse (tb_Info table) of
        None \<Rightarrow> ''ReplacingMergeTree(_version_)''
      | Some info \<Rightarrow>
          ''ReplacingMergeTree('' @ ''_version_'' @ concat (map (\<lambda>n. '', '' @ n) (ct_ReplacingFields info)) @ '')'')"

fun function_name :: "ChFunction \<Rightarrow> string" where
  "function_name F_unset = ''unset''"
| "function_name F_toYYYYMM = ''toYYYYMM''"
| "function_name F_toYYYYDD = ''toYYYYDD''"
| "function_name F_toYear = ''toYear''"
| "function_name F_toMonth = ''toMonth''"
| "function_name F_toDate = ''toDate''"
| "function_name F_toStartOfMonth = ''toStartOfMonth''"

fun index_type_name :: "ChIndexType \<Rightarrow> string" where
  "index_type_name I_minmax = ''minmax''"
| "index_type_name I_set = ''set''"
| "index_type_name I_ngrambf_v1 = ''ngrambf_v1''"
| "index_type_name I_tokenbf_v1 = ''tokenbf_v1''"
| "index_type_name I_bloom_filter = ''bloom_filter''"

definition indexString :: "Table \<Rightarrow> string" where
  "indexString table =
     (case pt_Clickhouse (tb_Info table) of
        None \<Rightarrow> []
      | Some info \<Rightarrow>
          if ct_IndexFields info = [] then []
          else '', '' @ joinS '', '' (map (\<lambda>f.
                 ''INDEX '' @ ix_Name f @ '' ''
                 @ (if ix_Function f \<noteq> F_unset then function_name (ix_Function f) @ ''('' @ ix_FieldName f @ '')''
                    else ix_FieldName f)
                 @ '' TYPE '' @ index_type_name (ix_Type f) @ '' GRANULARITY '' @ dec (unat (ix_Granularity f)))
               (ct_IndexFields info)))"

text \<open>The name and the type of the parent's key\<close>

definition parent_field :: "BaseDialect \<Rightarrow> Table \<Rightarrow> Column option res" where
  "parent_field d table =
     (case tb_ChildOf table of
        None \<Rightarrow> Inr None
      | Some co \<Rightarrow>
          (case GetTable d (ParentTable co) of
             None \<Rightarrow> Inl (Errorf ''parent table %q not found'' [AStr (ParentTable co)])
           | Some parentTable \<Rightarrow>
               (case find (\<lambda>f. cl_Name f = ParentTableField co) (tb_Columns parentTable) of
                  None \<Rightarrow> Inl (Errorf ''field %q not found in table %q'' [AStr (ParentTableField co), AStr (ParentTable co)])
                | Some parentField \<Rightarrow> Inr (Some parentField))))"

definition ch_key_name :: "Table \<Rightarrow> string" where
  "ch_key_name table = (case tb_PrimaryKey table of Some pk \<Rightarrow> pk_Name pk | None \<Rightarrow> [])"

definition ch_add_column :: "Table \<Rightarrow> Column \<Rightarrow> string \<Rightarrow> string Ret" where
  "ch_add_column table f sb =
     (if cl_Name f = ch_key_name table then Returns sb
      else ret_bind (ret_type (ch_MapFieldType (cl_Field f))) (\<lambda>t. Returns (sb @ cl_Name f @ '' '' @ t @ '','')))"

definition ch_createTable :: "string \<Rightarrow> Table \<Rightarrow> BaseDialect \<Rightarrow> BaseDialect Ret" where
  "ch_createTable sn table d =
     (let start = ''CREATE TABLE IF NOT EXISTS '' @ FullTableName sn table @ '' ('' @ '' _block_number_ UInt64 NOT NULL,''
                  @ '' _block_timestamp_ timestamp NOT NULL,'' @ '' _version_ Int64 NOT NULL,'' @ '' _deleted_ bool NOT NULL,''
      in ret_bind (case tb_PrimaryKey table of
                     None \<Rightarrow> Returns start
                   | Some pk \<Rightarrow> ret_bind (ret_type (ch_MapFieldType (pk_Field pk))) (\<lambda>t.
                                   Returns (start @ pk_Name pk @ '' '' @ t @ '',''))) (\<lambda>s1.
         ret_bind (ret_bind (ret_of (parent_field d table)) (\<lambda>parent.
                     case parent of
                       None \<Rightarrow> Returns s1
                     | Some f \<Rightarrow> ret_bind (ret_type (ch_MapFieldType (cl_Field f))) (\<lambda>t.
                                    Returns (s1 @ cl_Name f @ '' '' @ t @ '' NOT NULL,'')))) (\<lambda>s2.
         ret_bind (ret_fold (ch_add_column table) (tb_Columns table) s2) (\<lambda>s3.
         ret_bind (ret_of (case orderByString table of
                             Inl e \<Rightarrow> Inl (Wrapf ''getting 'order by' string: %w'' [] e) | Inr s \<Rightarrow> Inr s)) (\<lambda>orderBy.
         Returns (AddCreateTableSql (tb_Name table)
           (butlast s3 @ '' '' @ indexString table @ '') ENGINE = '' @ replacingMergeTreeString table @ '' ''
            @ (if ch_key_name table \<noteq> [] then ''PRIMARY KEY ('' @ ch_key_name table @ '')'' else []) @ '' ''
            @ partitionByString table @ '' '' @ orderBy @ '';'') d))))))"

definition NewDialectClickHouse :: "Schema \<Rightarrow> BaseDialect Ret" where
  "NewDialectClickHouse sc =
     ret_fold (\<lambda>(n, table) d. ret_wrap ''handling table %q: %w'' [AStr (tb_Name table)]
                 (ch_createTable (sc_Name sc) table d))
       (TableRegistry sc) (NewBaseDialect (TableRegistry sc))"

definition ch_SchemaHash :: "BaseDialect \<Rightarrow> string" where
  "ch_SchemaHash d =
     (let buf = concat (sort (map snd (CreateTableSql d)))
              @ concat (sort (map cn_Sql (PrimaryKeySql d)))
              @ concat (sort (map cn_Sql (ForeignKeySql d)))
              @ concat (sort (map cn_Sql (UniqueConstraintSql d)))
      in hex_digits 16 (unat (fnv64a buf)))"

end
