(* ===== verification/ProtoChDb.thy ===== *)
theory ProtoChDb
  imports ProtoCh
begin

text \<open>
  The ClickHouse database of messages: its accumulators (\<open>accumulator_inserter.go\<close>) and its operations
  (\<open>database.go\<close>), over any client and any files.
\<close>

section \<open>Accumulators\<close>

record 'f ColInput =
  ci_type :: Col
  ci_data :: "'f Value list"

text \<open>The name of a column by its position, and the buffer of a column by its name\<close>

record 'f ChAccumulator =
  ca_ordinal :: int
  ca_tableName :: string
  ca_columns :: "(nat \<times> string) list"
  ca_input :: "'f ColInput gomap"

definition empty_col :: "Col \<Rightarrow> 'f ColInput" where
  "empty_col c = \<lparr>ci_type = c, ci_data = []\<rparr>"

text \<open>A column at the next position; a name that is there already keeps its place among the buffers, which is
  filled anew.\<close>

definition add_col ::
    "string \<Rightarrow> Col \<Rightarrow> (nat \<times> string) list \<times> 'f ColInput gomap \<Rightarrow> (nat \<times> string) list \<times> 'f ColInput gomap" where
  "add_col n c a = (fst a @ [(length (fst a), n)], AList.update n (empty_col c) (snd a))"

definition add_field ::
    "string \<Rightarrow> FieldDesc \<Rightarrow> (nat \<times> string) list \<times> 'f ColInput gomap \<Rightarrow> ((nat \<times> string) list \<times> 'f ColInput gomap) Ret" where
  "add_field n fd a = (case ColInputForColumn fd of None \<Rightarrow> Panics | Some c \<Rightarrow> Returns (add_col n c a))"

definition block_accumulator :: "'f ChAccumulator" where
  "block_accumulator =
     \<lparr>ca_ordinal = -1, ca_tableName = ''_blocks_'',
      ca_columns = [(0, ''number''), (1, ''hash''), (2, ''timestamp''), (3, ''version''), (4, ''deleted'')],
      ca_input = [(''number'', empty_col ColUInt64), (''hash'', empty_col ColStr), (''timestamp'', empty_col ColDateTime),
                  (''version'', empty_col ColInt64), (''deleted'', empty_col ColBool)]\<rparr>"

definition createAccumulator :: "BaseDialect \<Rightarrow> Table \<Rightarrow> 'f ChAccumulator Ret" where
  "createAccumulator d table =
     (let a0 = add_col ''_deleted_'' ColBool (add_col ''_version_'' ColInt64
                 (add_col ''_block_timestamp_'' ColDateTime (add_col ''_block_number_'' ColUInt64 ([], []))))
      in ret_bind (case tb_PrimaryKey table of
                     None \<Rightarrow> Returns a0 | Some pk \<Rightarrow> add_field (pk_Name pk) (pk_Field pk) a0) (\<lambda>a1.
         ret_bind (ret_bind (ret_of (parent_field d table)) (\<lambda>parent.
                     case parent of None \<Rightarrow> Returns a1 | Some f \<Rightarrow> add_field (cl_Name f) (cl_Field f) a1)) (\<lambda>a2.
         ret_bind (ret_fold (\<lambda>column a. if cl_Name column = ch_key_name table then Returns a
                                        else add_field (cl_Name column) (cl_Field column) a) (tb_Columns table) a2) (\<lambda>a3.
         Returns \<lparr>ca_ordinal = int (tb_Ordinal table), ca_tableName = tb_Name table, ca_columns = fst a3, ca_input = snd a3\<rparr>))))"

definition createAccumulators :: "BaseDialect \<Rightarrow> ('f ChAccumulator gomap) Ret" where
  "createAccumulators d =
     ret_fold (\<lambda>table accs. ret_bind (createAccumulator d table) (\<lambda>acc. Returns (AList.update (tb_Name table) acc accs)))
       (GetTables d) [(''_blocks_'', block_accumulator)]"

text \<open>The values of a row are appended one after the other, up to the first that has no column or the wrong type;
  what was appended stays.\<close>

fun append_values :: "string \<Rightarrow> nat \<Rightarrow> 'f Value list \<Rightarrow> 'f ChAccumulator \<Rightarrow> Outcome \<times> 'f ChAccumulator" where
  "append_values table idx [] acc = (Done, acc)"
| "append_values table idx (v # vs) acc =
     (case map_of (ca_columns acc) idx of
        None \<Rightarrow> (Fail (Errorf ''column %q not found for table %q at idx %d'' [AStr [], AStr table, ANat idx]), acc)
      | Some colName \<Rightarrow>
          (case map_of (ca_input acc) colName of
             None \<Rightarrow> (Panicked, acc)
           | Some input \<Rightarrow>
               (case col_append (ci_type input) v of
                  None \<Rightarrow> (Panicked, acc)
                | Some x \<Rightarrow>
                    append_values table (idx + 1) vs
                      (acc\<lparr>ca_input := AList.update colName (input\<lparr>ci_data := ci_data input @ [x]\<rparr>) (ca_input acc)\<rparr>))))"

section \<open>The client\<close>

record ChOptions =
  co_Address :: string
  co_Database :: string
  co_User :: string
  co_Password :: string
  co_TLS :: bool
  co_LZ4 :: bool

text \<open>The client, the clock and the files. An insert names the table and, for each column, its buffer
  (\<open>input.Into\<close>). Creating a file and writing to it may fail separately; a file that was read is given
  with the error of the read.\<close>

record ('f, 'c) ChConn =
  cc_Dial :: "ChOptions \<Rightarrow> 'c \<Rightarrow> GoErr option \<times> 'c"
  cc_IsClosed :: "'c \<Rightarrow> bool"
  cc_Ping :: "'c \<Rightarrow> GoErr option \<times> 'c"
  cc_Do :: "string \<Rightarrow> 'c \<Rightarrow> GoErr option \<times> 'c"
  cc_Insert :: "string \<Rightarrow> 'f ColInput gomap \<Rightarrow> 'c \<Rightarrow> GoErr option \<times> 'c"
  cc_now :: "'c \<Rightarrow> 64 word \<times> 'c"
  cc_Open :: "string \<Rightarrow> 'c \<Rightarrow> GoErr option"
  cc_IsNotExist :: "GoErr \<Rightarrow> bool"
  cc_ReadAll :: "string \<Rightarrow> 'c \<Rightarrow> string res"
  cc_Create :: "string \<Rightarrow> 'c \<Rightarrow> GoErr option \<times> 'c"
  cc_WriteString :: "string \<Rightarrow> string \<Rightarrow> 'c \<Rightarrow> GoErr option \<times> 'c"

record ('f, 'c) ChEnv =
  ce_conn :: "('f, 'c) ChConn"
  ce_descs :: Descs
  ce_floats :: "'f Floats"
  ce_NewCursor :: "string \<Rightarrow> Cursor res"
  ce_schemaName :: string
  ce_dsn :: DSN
  ce_dialect :: BaseDialect
  ce_sinkInfoFolder :: string
  ce_cursorFilePath :: string

record ('f, 'c) ChDatabase =
  dh_conn :: 'c
  dh_cached :: bool
  dh_accumulators :: "'f ChAccumulator gomap"
  dh_useProtoOptions :: bool

text \<open>An option is a text \<open>name=value\<close>; without the value the index is out of range, a panic.\<close>

definition apply_option :: "string \<Rightarrow> ChOptions \<Rightarrow> ChOptions Ret" where
  "apply_option option opts =
     (let parts = split_string ''='' option;
          second = (\<lambda>f. case parts of _ # v # _ \<Rightarrow> f v | _ \<Rightarrow> Panics)
      in if parts ! 0 = ''secure''
         then second (\<lambda>v. Returns (if v = ''true'' then opts\<lparr>co_TLS := True\<rparr> else opts))
         else if parts ! 0 = ''username'' then second (\<lambda>v. Returns (opts\<lparr>co_User := v\<rparr>))
         else if parts ! 0 = ''password'' then second (\<lambda>v. Returns (opts\<lparr>co_Password := v\<rparr>))
         else if parts ! 0 = ''compress''
         then second (\<lambda>v. Returns (if v = ''true'' then opts\<lparr>co_LZ4 := True\<rparr> else opts))
         else Returns opts)"

definition client_options :: "DSN \<Rightarrow> ChOptions Ret" where
  "client_options dsn =
     ret_fold apply_option (Options dsn)
       \<lparr>co_Address = Host dsn @ '':'' @ decZ (Port dsn), co_Database = Database dsn, co_User = Username dsn,
        co_Password = Password dsn, co_TLS = False, co_LZ4 = False\<rparr>"

definition newClient :: "('f, 'c) ChEnv \<Rightarrow> 'c \<Rightarrow> Outcome \<times> 'c" where
  "newClient env c =
     (case client_options (ce_dsn env) of
        Returns opts \<Rightarrow>
          (case cc_Dial (ce_conn env) opts c of
             (Some e, c') \<Rightarrow> (Fail (Wrapf ''dialing clickhouse: %w'' [] e), c')
           | (None, c') \<Rightarrow> (Done, c'))
      | _ \<Rightarrow> (Panicked, c))"

text \<open>The client that is kept, or a new one when there is none or it is closed\<close>

definition client :: "('f, 'c) ChEnv \<Rightarrow> ('f, 'c) ChDatabase \<Rightarrow> Outcome \<times> ('f, 'c) ChDatabase" where
  "client env d =
     (if \<not> dh_cached d \<or> cc_IsClosed (ce_conn env) (dh_conn d)
      then (case newClient env (dh_conn d) of
              (Done, c) \<Rightarrow> (Done, d\<lparr>dh_conn := c, dh_cached := True\<rparr>)
            | (Fail e, c) \<Rightarrow> (Fail (Wrapf ''creating clickhouse client: %w'' [] e), d\<lparr>dh_conn := c\<rparr>)
            | (Panicked, c) \<Rightarrow> (Panicked, d\<lparr>dh_conn := c\<rparr>))
      else (Done, d))"

definition ch_do :: "('f, 'c) ChEnv \<Rightarrow> string \<Rightarrow> GoArg list \<Rightarrow> string \<Rightarrow> ('f, 'c) ChDatabase \<Rightarrow> Outcome \<times> ('f, 'c) ChDatabase" where
  "ch_do env msg as q d =
     (case cc_Do (ce_conn env) q (dh_conn d) of
        (Some e, c) \<Rightarrow> (Fail (Wrapf msg as e), d\<lparr>dh_conn := c\<rparr>)
      | (None, c) \<Rightarrow> (Done, d\<lparr>dh_conn := c\<rparr>))"

section \<open>Opening and creating\<close>

definition ch_NewDatabase ::
    "('f, 'c) ChEnv \<Rightarrow> Schema \<Rightarrow> DSN \<Rightarrow> string \<Rightarrow> string \<Rightarrow> bool \<Rightarrow> 'c \<Rightarrow> (('f, 'c) ChEnv \<times> ('f, 'c) ChDatabase) Ret" where
  "ch_NewDatabase env sc dsn sinkInfoFolder cursorFilePath useOptions c =
     ret_bind (ret_wrap ''creating dialect: %w'' [] (NewDialectClickHouse sc)) (\<lambda>dialect.
     ret_bind (ret_wrap ''creating accumulator inserter: %w'' [] (ret_wrap ''creating accumulators: %w'' [] (createAccumulators dialect))) (\<lambda>accs.
     Returns (env\<lparr>ce_schemaName := sc_Name sc, ce_dsn := dsn, ce_dialect := dialect, ce_sinkInfoFolder := sinkInfoFolder,
                  ce_cursorFilePath := cursorFilePath\<rparr>,
              \<lparr>dh_conn = c, dh_cached = False, dh_accumulators = accs, dh_useProtoOptions = useOptions\<rparr>)))"

definition ch_Open :: "('f, 'c) ChDatabase \<Rightarrow> GoErr option \<times> ('f, 'c) ChDatabase" where
  "ch_Open d = (None, d)"

definition staticSqlCreatDatabase :: "string \<Rightarrow> string" where
  "staticSqlCreatDatabase sn = [CHR 0x0A, CHR 0x09] @ ''CREATE DATABASE IF NOT EXISTS '' @ sn @ '';'' @ [CHR 0x0A]"

definition staticSqlCreateBlock :: "string \<Rightarrow> string" where
  "staticSqlCreateBlock sn =
     (let nl = [CHR 0x0A, CHR 0x09]; nl2 = [CHR 0x0A, CHR 0x09, CHR 0x09] in
      nl @ ''CREATE TABLE IF NOT EXISTS '' @ sn @ ''._blocks_  ('' @ nl2 @ ''number    UInt64,'' @ nl2 @ ''hash      text,''
      @ nl2 @ ''timestamp timestamp,'' @ nl2 @ ''version Int64,'' @ nl2 @ ''deleted bool'' @ [CHR 0x0A] @ nl @ '')''
      @ nl @ ''ENGINE = ReplacingMergeTree(version)'' @ nl @ ''PARTITION BY (toYYYYMM(timestamp))''
      @ nl @ ''PRIMARY KEY (number)'' @ nl @ ''ORDER BY (number);'' @ [CHR 0x0A])"

fun ch_create_tables :: "('f, 'c) ChEnv \<Rightarrow> string list \<Rightarrow> ('f, 'c) ChDatabase \<Rightarrow> Outcome \<times> ('f, 'c) ChDatabase" where
  "ch_create_tables env [] d = (Done, d)"
| "ch_create_tables env (q # qs) d =
     and_then (ch_do env ''executing create table sql: %w %q'' [AStr q] q d) (ch_create_tables env qs)"

definition ch_CreateDatabase :: "('f, 'c) ChEnv \<Rightarrow> bool \<Rightarrow> ('f, 'c) ChDatabase \<Rightarrow> Outcome \<times> ('f, 'c) ChDatabase" where
  "ch_CreateDatabase env useConstraints d =
     and_then (wrap_outcome ''creating clickhouse client: %w'' [] (client env d)) (\<lambda>d1.
     and_then (case cc_Ping (ce_conn env) (dh_conn d1) of
                 (Some e, c) \<Rightarrow> (Fail (Wrapf ''pinging clickhouse: %w'' [] e), d1\<lparr>dh_conn := c\<rparr>)
               | (None, c) \<Rightarrow> (Done, d1\<lparr>dh_conn := c\<rparr>)) (\<lambda>d2.
     and_then (wrap_outcome ''getting clickhouse client: %w'' [] (client env d2)) (\<lambda>d3.
     and_then (ch_do env ''executing create database sql: %w'' [] (staticSqlCreatDatabase (ce_schemaName env)) d3) (\<lambda>d4.
     and_then (ch_do env ''executing create block sql: %w'' [] (staticSqlCreateBlock (ce_schemaName env)) d4)
       (ch_create_tables env (map snd (CreateTableSql (ce_dialect env))))))))"

section \<open>Rows\<close>

definition ch_Insert :: "string \<Rightarrow> 'f Value list \<Rightarrow> ('f, 'c) ChDatabase \<Rightarrow> Outcome \<times> ('f, 'c) ChDatabase" where
  "ch_Insert table values d =
     (case map_of (dh_accumulators d) table of
        None \<Rightarrow> (Fail (Errorf ''accumulator not found for table %q'' [AStr table]), d)
      | Some acc \<Rightarrow>
          (case append_values table 0 values acc of
             (r, acc') \<Rightarrow> (r, d\<lparr>dh_accumulators := AList.update table acc' (dh_accumulators d)\<rparr>)))"

definition ch_walk_env :: "('f, 'c) ChEnv \<Rightarrow> bool \<Rightarrow> ('f, ('f, 'c) ChDatabase) WalkEnv" where
  "ch_walk_env env useOptions =
     \<lparr>we_descs = ce_descs env, we_floats = ce_floats env, UseVersionField = True, UseDeletedField = True,
      we_tables = GetTable (ce_dialect env), useProtoOptions = useOptions,
      we_now = (\<lambda>d. case cc_now (ce_conn env) (dh_conn d) of (t, c) \<Rightarrow> (t, d\<lparr>dh_conn := c\<rparr>)), we_Insert = ch_Insert\<rparr>"

definition ch_WalkMessageDescriptorAndInsert ::
    "('f, 'c) ChEnv \<Rightarrow> 'f Message option \<Rightarrow> u64 \<Rightarrow> int \<times> int \<Rightarrow> 'f Parent option \<Rightarrow> ('f, 'c) ChDatabase
     \<Rightarrow> Outcome \<times> ('f, 'c) ChDatabase" where
  "ch_WalkMessageDescriptorAndInsert env dm blockNum blockTimestamp parent d =
     walk_insert (ch_walk_env env (dh_useProtoOptions d)) blockNum blockTimestamp parent dm d"

definition ch_InsertBlock ::
    "('f, 'c) ChEnv \<Rightarrow> u64 \<Rightarrow> string \<Rightarrow> int \<times> int \<Rightarrow> ('f, 'c) ChDatabase \<Rightarrow> Outcome \<times> ('f, 'c) ChDatabase" where
  "ch_InsertBlock env blockNum hash timestamp d =
     (case cc_now (ce_conn env) (dh_conn d) of
        (t, c) \<Rightarrow>
          wrap_outcome ''inserting block %d: %w'' [ANat (unat blockNum)]
            (ch_Insert ''_blocks_'' [V_uint64 blockNum, V_string hash, V_time timestamp, V_int64 t, V_bool False] (d\<lparr>dh_conn := c\<rparr>)))"

text \<open>The columns in the text of an error, in the order of the map, with a comma before all but number 0\<close>

definition debugTableAndColumns :: "'f ChAccumulator \<Rightarrow> string" where
  "debugTableAndColumns acc =
     ca_tableName acc @ '' ('' @ concat (map (\<lambda>(idx, col). (if 0 < idx then '', '' else []) @ col) (ca_columns acc)) @ '')''"

text \<open>Every accumulator is sent, in the order of the ordinals, also an empty one; after the last one they are made anew.\<close>

fun send_accumulators :: "('f, 'c) ChEnv \<Rightarrow> 'f ChAccumulator list \<Rightarrow> ('f, 'c) ChDatabase \<Rightarrow> Outcome \<times> ('f, 'c) ChDatabase" where
  "send_accumulators env [] d = (Done, d)"
| "send_accumulators env (acc # accs) d =
     (case cc_Insert (ce_conn env) (ca_tableName acc) (ca_input acc) (dh_conn d) of
        (Some e, c) \<Rightarrow>
          (Fail (Wrapf ''clickhouse accumulator inserter: executing query on %q: %w'' [AStr (debugTableAndColumns acc)] e),
           d\<lparr>dh_conn := c\<rparr>)
      | (None, c) \<Rightarrow> send_accumulators env accs (d\<lparr>dh_conn := c\<rparr>))"

definition flush_accumulated :: "('f, 'c) ChEnv \<Rightarrow> ('f, 'c) ChDatabase \<Rightarrow> Outcome \<times> ('f, 'c) ChDatabase" where
  "flush_accumulated env d =
     and_then (wrap_outcome ''clickhouse accumulator inserter: creating client: %w'' [] (client env d)) (\<lambda>d1.
     and_then (send_accumulators env (sort_key ca_ordinal (map snd (dh_accumulators d))) d1) (\<lambda>d2.
       case createAccumulators (ce_dialect env) of
         Returns accs \<Rightarrow> (Done, d2\<lparr>dh_accumulators := accs\<rparr>)
       | Fails e \<Rightarrow> (Fail (Wrapf ''clickhouse accumulator inserter: creating accumulators: %w'' [] e), d2)
       | Panics \<Rightarrow> (Panicked, d2)))"

definition ch_FlushRows :: "('f, 'c) ChEnv \<Rightarrow> ('f, 'c) ChDatabase \<Rightarrow> Outcome \<times> ('f, 'c) ChDatabase" where
  "ch_FlushRows env d = wrap_outcome ''flushing: %w'' [] (flush_accumulated env d)"

section \<open>Files\<close>

text \<open>\<open>path.Clean\<close> and \<open>path.Join\<close>\<close>

fun clean_parts :: "bool \<Rightarrow> string list \<Rightarrow> string list \<Rightarrow> string list" where
  "clean_parts rooted [] stack = rev stack"
| "clean_parts rooted (p # ps) stack =
     (if p = [] \<or> p = ''.'' then clean_parts rooted ps stack
      else if p = ''..''
      then (case stack of
              x # xs \<Rightarrow> if x = ''..'' then clean_parts rooted ps (p # stack) else clean_parts rooted ps xs
            | [] \<Rightarrow> clean_parts rooted ps (if rooted then [] else [p]))
      else clean_parts rooted ps (p # stack))"

definition path_Clean :: "string \<Rightarrow> string" where
  "path_Clean p =
     (let rooted = hasPrefix ''/'' p; cleaned = joinS ''/'' (clean_parts rooted (split_string ''/'' p) [])
      in if rooted then ''/'' @ cleaned else if cleaned = [] then ''.'' else cleaned)"

definition path_Join :: "string list \<Rightarrow> string" where
  "path_Join ps = (let qs = filter (\<lambda>p. p \<noteq> []) ps in if qs = [] then [] else path_Clean (joinS ''/'' qs))"

text \<open>\<open>fmt.Fscanf(file, "%s", &s)\<close>: spaces are skipped, a line break before the word is an error.\<close>

definition scan_word :: "string \<Rightarrow> string res" where
  "scan_word text =
     (let space = (\<lambda>c. c \<in> {CHR 0x09, CHR 0x0B, CHR 0x0C, CHR 0x0D, CHR 0x20}); rest = dropWhile space text in
      case rest of
        [] \<Rightarrow> Inl (ExternalErr ''unexpected EOF'')
      | c # cs \<Rightarrow>
          if c = CHR 0x0A then Inl (ExternalErr ''unexpected newline'')
          else Inr (takeWhile (\<lambda>c. \<not> space c \<and> c \<noteq> CHR 0x0A) rest))"

definition sink_info_path :: "('f, 'c) ChEnv \<Rightarrow> string \<Rightarrow> string" where
  "sink_info_path env sn = path_Join [ce_sinkInfoFolder env, sn @ ''_schema_hash.txt'']"

definition ch_FetchSinkInfo :: "('f, 'c) ChEnv \<Rightarrow> string \<Rightarrow> ('f, 'c) ChDatabase \<Rightarrow> string option res \<times> ('f, 'c) ChDatabase" where
  "ch_FetchSinkInfo env sn d =
     (let p = sink_info_path env sn in
      ((case cc_Open (ce_conn env) p (dh_conn d) of
          Some e \<Rightarrow>
            if cc_IsNotExist (ce_conn env) e then Inr None else Inl (Wrapf ''opening schema hash file: %w'' [] e)
        | None \<Rightarrow>
            (case (case cc_ReadAll (ce_conn env) p (dh_conn d) of Inl e \<Rightarrow> Inl e | Inr text \<Rightarrow> scan_word text) of
               Inl e \<Rightarrow> Inl (Wrapf ''reading schema hash from file: %w'' [] e)
             | Inr w \<Rightarrow> Inr (Some w))), d))"

text \<open>Creating a file and writing a text to it\<close>

definition store_file :: "('f, 'c) ChEnv \<Rightarrow> string \<Rightarrow> string \<Rightarrow> string \<Rightarrow> string \<Rightarrow> ('f, 'c) ChDatabase \<Rightarrow> Outcome \<times> ('f, 'c) ChDatabase" where
  "store_file env creating writing p text d =
     (case cc_Create (ce_conn env) p (dh_conn d) of
        (Some e, c) \<Rightarrow> (Fail (Wrapf creating [] e), d\<lparr>dh_conn := c\<rparr>)
      | (None, c) \<Rightarrow>
          (case cc_WriteString (ce_conn env) p text c of
             (Some e, c') \<Rightarrow> (Fail (Wrapf writing [] e), d\<lparr>dh_conn := c'\<rparr>)
           | (None, c') \<Rightarrow> (Done, d\<lparr>dh_conn := c'\<rparr>)))"

definition ch_StoreSinkInfo :: "('f, 'c) ChEnv \<Rightarrow> string \<Rightarrow> string \<Rightarrow> ('f, 'c) ChDatabase \<Rightarrow> Outcome \<times> ('f, 'c) ChDatabase" where
  "ch_StoreSinkInfo env sn schemaHash d =
     store_file env ''creating schema hash file: %w'' ''writing schema hash to file: %w'' (sink_info_path env sn) schemaHash d"

definition ch_UpdateSinkInfoHash :: "string \<Rightarrow> string \<Rightarrow> ('f, 'c) ChDatabase \<Rightarrow> Outcome \<times> ('f, 'c) ChDatabase" where
  "ch_UpdateSinkInfoHash sn newHash d = (Panicked, d)"

definition ch_DatabaseHash :: "string \<Rightarrow> ('f, 'c) ChDatabase \<Rightarrow> u64 Ret \<times> ('f, 'c) ChDatabase" where
  "ch_DatabaseHash sn d = (Panics, d)"

definition ch_FetchCursor :: "('f, 'c) ChEnv \<Rightarrow> ('f, 'c) ChDatabase \<Rightarrow> Cursor option res \<times> ('f, 'c) ChDatabase" where
  "ch_FetchCursor env d =
     (let p = ce_cursorFilePath env in
      ((if p = [] then Inl (Errorf ''cursor file path is not set'' [])
        else case cc_Open (ce_conn env) p (dh_conn d) of
          Some e \<Rightarrow> if cc_IsNotExist (ce_conn env) e then Inr None else Inl (Wrapf ''opening cursor file: %w'' [] e)
        | None \<Rightarrow>
            (case cc_ReadAll (ce_conn env) p (dh_conn d) of
               Inl e \<Rightarrow> Inl (Wrapf ''reading cursor file: %w'' [] e)
             | Inr text \<Rightarrow>
                 (case ce_NewCursor env text of
                    Inl e \<Rightarrow> Inl (Wrapf ''parsing cursor: %w'' [] e)
                  | Inr cursor \<Rightarrow> Inr (Some cursor)))), d))"

definition ch_StoreCursor :: "('f, 'c) ChEnv \<Rightarrow> Cursor \<Rightarrow> ('f, 'c) ChDatabase \<Rightarrow> Outcome \<times> ('f, 'c) ChDatabase" where
  "ch_StoreCursor env cursor d =
     (if ce_cursorFilePath env = [] then (Fail (Errorf ''cursor file path is not set'' []), d)
      else store_file env ''creating cursor file: %w'' ''writing cursor to file: %w'' (ce_cursorFilePath env) (c_string cursor) d)"

section \<open>Transactions and undo\<close>

definition ch_BeginTransaction :: "('f, 'c) ChDatabase \<Rightarrow> Outcome \<times> ('f, 'c) ChDatabase" where
  "ch_BeginTransaction d = (Done, d)"

definition ch_CommitTransaction :: "('f, 'c) ChDatabase \<Rightarrow> Outcome \<times> ('f, 'c) ChDatabase" where
  "ch_CommitTransaction d = (Done, d)"

definition ch_RollbackTransaction :: "('f, 'c) ChDatabase \<Rightarrow> Outcome \<times> ('f, 'c) ChDatabase" where
  "ch_RollbackTransaction d = (Done, d)"

definition undo_blocks_query :: "string \<Rightarrow> 64 word \<Rightarrow> u64 \<Rightarrow> string" where
  "undo_blocks_query sn version lastValidBlockNum =
     (let nl = [CHR 0x0A, CHR 0x09, CHR 0x09] in
      nl @ ''INSERT INTO '' @ sn @ ''._blocks_'' @ nl @ ''SELECT number, hash, timestamp, '' @ format_int (sint version) @ '', true''
      @ nl @ ''FROM '' @ sn @ ''._blocks_ WHERE number > '' @ dec (unat lastValidBlockNum) @ nl)"

text \<open>The columns that the undo of a table selects after the deletion mark\<close>

definition undo_fields :: "Column option \<Rightarrow> Table \<Rightarrow> string list" where
  "undo_fields parent table = (case parent of Some f \<Rightarrow> [cl_Name f] | None \<Rightarrow> []) @ map cl_Name (tb_Columns table)"

definition undo_table_query :: "string \<Rightarrow> 64 word \<Rightarrow> u64 \<Rightarrow> string list \<Rightarrow> Table \<Rightarrow> string" where
  "undo_table_query sn version lastValidBlockNum fs table =
     (let nl = [CHR 0x0A, CHR 0x09, CHR 0x09, CHR 0x09]; tn = FullTableName sn table in
      nl @ ''INSERT INTO '' @ tn
      @ nl @ ''SELECT _block_number_, _block_timestamp_, '' @ format_int (sint version) @ '', true '' @ concat (map (\<lambda>n. '', '' @ n) fs)
      @ nl @ ''FROM '' @ tn @ '' WHERE _block_number_ > '' @ dec (unat lastValidBlockNum) @ nl)"

fun undo_tables :: "('f, 'c) ChEnv \<Rightarrow> 64 word \<Rightarrow> u64 \<Rightarrow> Table list \<Rightarrow> ('f, 'c) ChDatabase \<Rightarrow> Outcome \<times> ('f, 'c) ChDatabase" where
  "undo_tables env version lastValidBlockNum [] d = (Done, d)"
| "undo_tables env version lastValidBlockNum (table # ts) d =
     (case parent_field (ce_dialect env) table of
        Inl e \<Rightarrow> (Fail e, d)
      | Inr parent \<Rightarrow>
          and_then (ch_do env ''deleting block from %d: %w'' [ANat (unat lastValidBlockNum)]
              (undo_table_query (ce_schemaName env) version lastValidBlockNum (undo_fields parent table) table) d)
            (undo_tables env version lastValidBlockNum ts))"

definition ch_HandleBlocksUndo :: "('f, 'c) ChEnv \<Rightarrow> u64 \<Rightarrow> ('f, 'c) ChDatabase \<Rightarrow> Outcome \<times> ('f, 'c) ChDatabase" where
  "ch_HandleBlocksUndo env lastValidBlockNum d =
     and_then (wrap_outcome ''creating clickhouse client: %w'' [] (client env d)) (\<lambda>d1.
     and_then (wrap_outcome ''begin transaction: %w'' [] (ch_BeginTransaction d1)) (\<lambda>d2.
       case cc_now (ce_conn env) (dh_conn d2) of
         (version, c) \<Rightarrow>
           and_then (ch_do env ''deleting block from %d: %w'' [ANat (unat lastValidBlockNum)]
               (undo_blocks_query (ce_schemaName env) version lastValidBlockNum) (d2\<lparr>dh_conn := c\<rparr>)) (\<lambda>d3.
           and_then (undo_tables env version lastValidBlockNum
               (sort_key (\<lambda>t. - int (tb_Ordinal t)) (GetTables (ce_dialect env))) d3) (\<lambda>d4.
             wrap_outcome ''committing transaction: %w'' [] (ch_CommitTransaction d4)))))"

definition ch_Clone :: "('f, 'c) ChDatabase \<Rightarrow> ('f, 'c) ChDatabase" where
  "ch_Clone d = d\<lparr>dh_useProtoOptions := False\<rparr>"

definition ch_dialect_hash :: "('f, 'c) ChEnv \<Rightarrow> ('f, 'c) ChDatabase \<Rightarrow> string" where
  "ch_dialect_hash env d = ch_SchemaHash (ce_dialect env)"

definition ch_DatabaseI :: "('f, 'c) ChEnv \<Rightarrow> ('f, ('f, 'c) ChDatabase) DatabaseI" where
  "ch_DatabaseI env =
     \<lparr>pd_FetchCursor = ch_FetchCursor env, pd_HandleBlocksUndo = ch_HandleBlocksUndo env,
      pd_BeginTransaction = ch_BeginTransaction, pd_CommitTransaction = ch_CommitTransaction,
      pd_RollbackTransaction = ch_RollbackTransaction, pd_Flush = ch_FlushRows env,
      pd_StoreCursor = ch_StoreCursor env, pd_InsertBlock = ch_InsertBlock env,
      pd_WalkAndInsert = ch_WalkMessageDescriptorAndInsert env, pd_Clone = ch_Clone,
      pd_FetchSinkInfo = ch_FetchSinkInfo env, pd_StoreSinkInfo = ch_StoreSinkInfo env,
      pd_UpdateSinkInfoHash = ch_UpdateSinkInfoHash, pd_CreateDatabase = ch_CreateDatabase env,
      pd_DatabaseHash = ch_DatabaseHash, pd_SchemaHash = ch_dialect_hash env, pd_Open = ch_Open\<rparr>"

end
