(* ===== verification/ProtoFactory.thy ===== *)
theory ProtoFactory
  imports ProtoRw ProtoChDb
begin

text \<open>
  The factory of the sink of messages (\<open>src/db_proto/sinker_factory.go\<close>): the connection string is parsed, the schema
  derived, the database of its driver built, and its tables created unless a schema hash is stored already.
  \<open>setup_sink\<close> is the part that is the same for all databases.
\<close>

record SinkerFactoryOptions =
  UseProtoOption :: bool
  UseConstraints :: bool
  UseTransactions :: bool
  BlockBatchSize :: int
  Parallel :: bool
  SinkInfoFolder :: string
  CursorFilePath :: string

definition Defaults :: "SinkerFactoryOptions \<Rightarrow> SinkerFactoryOptions" where
  "Defaults opts = opts\<lparr>BlockBatchSize := (if BlockBatchSize opts \<le> 0 then 25 else BlockBatchSize opts), UseTransactions := True\<rparr>"

text \<open>Outcomes as results: an error after which the transaction is rolled back\<close>

definition or_rollback :: "('f, 'd) DatabaseI \<Rightarrow> Outcome \<times> 'd \<Rightarrow> Outcome \<times> 'd" where
  "or_rollback db r =
     (case r of
        (Fail e, d) \<Rightarrow> and_then (pd_RollbackTransaction db d) (\<lambda>d'. (Fail e, d'))
      | _ \<Rightarrow> r)"

text \<open>The first start: the database is created and the hash of the schema is stored. The error of the commit
  is not looked at.\<close>

definition create_sink :: "('f, 'd) DatabaseI \<Rightarrow> string \<Rightarrow> bool \<Rightarrow> 'd \<Rightarrow> Outcome \<times> 'd" where
  "create_sink db target useConstraints d =
     and_then (wrap_outcome ''begin transaction: %w'' [] (pd_BeginTransaction db d)) (\<lambda>d1.
     and_then (or_rollback db (wrap_outcome ''creating database: %w'' [] (pd_CreateDatabase db useConstraints d1))) (\<lambda>d2.
     and_then (or_rollback db (wrap_outcome ''storing sink info: %w'' [] (pd_StoreSinkInfo db target (pd_SchemaHash db d2) d2))) (\<lambda>d3.
       case pd_CommitTransaction db d3 of
         (Panicked, d4) \<Rightarrow> (Panicked, d4)
       | (_, d4) \<Rightarrow> (Done, d4))))"

text \<open>What a query gives is used in the rest.\<close>

definition with_hash :: "string \<Rightarrow> GoArg list \<Rightarrow> u64 Ret \<times> 'd \<Rightarrow> (u64 \<Rightarrow> 'd \<Rightarrow> Outcome \<times> 'd) \<Rightarrow> Outcome \<times> 'd" where
  "with_hash msg as r f =
     (case r of
        (Returns h, d) \<Rightarrow> f h d
      | (Fails e, d) \<Rightarrow> (Fail (Wrapf msg as e), d)
      | (Panics, d) \<Rightarrow> (Panicked, d))"

text \<open>A start with another schema than the stored one: if a schema whose name ends with the new hash is there, and
  the database finds it equal to the current one, its hash becomes the stored one; if there is none,
  nothing happens.\<close>

definition migrate_sink :: "('f, 'd) DatabaseI \<Rightarrow> string \<Rightarrow> string \<Rightarrow> 'd \<Rightarrow> Outcome \<times> 'd" where
  "migrate_sink db sn target d =
     (let temp = sn @ ''_'' @ pd_SchemaHash db d in
      case pd_FetchSinkInfo db temp d of
        (Inl e, d1) \<Rightarrow> (Fail (Wrapf ''fetching temp schema sink info: %w'' [] e), d1)
      | (Inr None, d1) \<Rightarrow> (Done, d1)
      | (Inr (Some tempHash), d1) \<Rightarrow>
          with_hash ''fetching schema %q hash: %w'' [AStr sn] (pd_DatabaseHash db sn d1) (\<lambda>hash d2.
          with_hash ''fetching temp schema %q hash: %w'' [AStr temp] (pd_DatabaseHash db temp d2) (\<lambda>dbTempHash d3.
            if hash \<noteq> dbTempHash
            then (Fail (Errorf ''schema %s and temp schema %s have different hash'' [AStr sn, AStr temp]), d3)
            else and_then (wrap_outcome ''begin transaction: %w'' [] (pd_BeginTransaction db d3)) (\<lambda>d4.
                 and_then (or_rollback db (wrap_outcome ''updating sink info hash: %w'' []
                             (pd_UpdateSinkInfoHash db target tempHash d4))) (\<lambda>d5.
                   wrap_outcome ''commit transaction: %w'' [] (pd_CommitTransaction db d5))))))"

definition setup_sink :: "('f, 'd) DatabaseI \<Rightarrow> string \<Rightarrow> string \<Rightarrow> bool \<Rightarrow> 'd \<Rightarrow> Outcome \<times> 'd" where
  "setup_sink db sn target useConstraints d =
     and_then
       (case pd_FetchSinkInfo db sn d of
          (Inl e, d1) \<Rightarrow> (Fail (Wrapf ''fetching sink info: %w'' [] e), d1)
        | (Inr None, d1) \<Rightarrow> create_sink db target useConstraints d1
        | (Inr (Some h), d1) \<Rightarrow> if h \<noteq> pd_SchemaHash db d1 then migrate_sink db sn target d1 else (Done, d1))
       (\<lambda>d2. case pd_Open db d2 of
               (Some e, d3) \<Rightarrow> (Fail (Wrapf ''opening database: %w'' [] e), d3)
             | (None, d3) \<Rightarrow> (Done, d3))"

text \<open>A sink and the database it has: the environment of the database and the state of the sink\<close>

datatype ('f, 'c, 'h) AnySink =
    PostgresSink "('f, 'c) PgEnv" "'c PgDatabase ProtoSinker"
  | RisingwaveSink "('f, 'c) PgEnv" "'c PgDatabase ProtoSinker"
  | ClickhouseSink "('f, 'h) ChEnv" "('f, 'h) ChDatabase ProtoSinker"

definition start_sink ::
    "('f, 'd) DatabaseI \<Rightarrow> string \<Rightarrow> string \<Rightarrow> SinkerFactoryOptions \<Rightarrow> 'd \<Rightarrow> 'd ProtoSinker Ret" where
  "start_sink db sn target opts d =
     (case setup_sink db sn target (UseConstraints opts) d of
        (Done, d') \<Rightarrow> Returns (proto_NewSinker d' (UseTransactions opts) (BlockBatchSize opts) (Parallel opts))
      | (Fail e, d') \<Rightarrow> Fails e
      | (Panicked, d') \<Rightarrow> Panics)"

text \<open>What the factory is given: the parser of connection strings, the driver of PostgreSQL, the environments in
  which databases are built, and the state of the ClickHouse client\<close>

record ('f, 'c, 'h) FactoryEnv =
  fe_ParseDSN :: "string \<Rightarrow> DSN res"
  fe_WrapMessage :: "GoErr option"
  fe_descs :: Descs
  fe_rootName :: string
  fe_driver :: "'c Driver"
  fe_PgEnv :: "('f, 'c) PgEnv"
  fe_ChEnv :: "('f, 'h) ChEnv"
  fe_ChConn :: 'h

definition build_sink ::
    "('f, 'c, 'h) FactoryEnv \<Rightarrow> SinkerFactoryOptions \<Rightarrow> DSN \<Rightarrow> Schema \<Rightarrow> string \<Rightarrow> ('f, 'c, 'h) AnySink Ret" where
  "build_sink fe opts dsn sc target =
     (if driver dsn = ''postgres''
      then ret_bind (ret_wrap ''creating postgres database: %w'' []
               (pg_NewDatabase (fe_driver fe) (fe_PgEnv fe) sc dsn (UseProtoOption opts) (UseConstraints opts))) (\<lambda>(env, d).
             ret_bind (start_sink (pg_DatabaseI env) (sc_Name sc) target opts d) (\<lambda>sk. Returns (PostgresSink env sk)))
      else if driver dsn = ''risingwave''
      then ret_bind (ret_wrap ''creating risingwave database: %w'' []
               (rw_NewDatabase (fe_driver fe) (fe_PgEnv fe) sc dsn (UseProtoOption opts) (UseConstraints opts))) (\<lambda>(env, d).
             ret_bind (start_sink (rw_DatabaseI env) (sc_Name sc) target opts d) (\<lambda>sk. Returns (RisingwaveSink env sk)))
      else if driver dsn = ''clickhouse''
      then ret_bind (ret_wrap ''creating clickhouse database: %w'' []
               (ch_NewDatabase (fe_ChEnv fe) sc dsn (SinkInfoFolder opts) (CursorFilePath opts) True (fe_ChConn fe))) (\<lambda>(env, d).
             ret_bind (start_sink (ch_DatabaseI env) (sc_Name sc) target opts d) (\<lambda>sk. Returns (ClickhouseSink env sk)))
      else Panics)"

text \<open>\<open>None\<close> is a derivation of the schema that does not end.\<close>

definition SinkerFactory ::
    "('f, 'c, 'h) FactoryEnv \<Rightarrow> SinkerFactoryOptions \<Rightarrow> string \<Rightarrow> string \<Rightarrow> ('f, 'c, 'h) AnySink Ret option" where
  "SinkerFactory fe opts dsnString target =
     (case fe_ParseDSN fe dsnString of
        Inl e \<Rightarrow> Some (Fails (Wrapf ''parsing dsn: %w'' [] e))
      | Inr dsn \<Rightarrow>
          (case fe_WrapMessage fe of
             Some e \<Rightarrow> Some (Fails (Wrapf ''wrapping message descriptor: %w'' [] e))
           | None \<Rightarrow>
               map_option (\<lambda>r. ret_bind (ret_wrap ''creating schema: %w'' [] r) (\<lambda>sc. build_sink fe opts dsn sc target))
                 (NewSchema (fe_descs fe) target (fe_rootName fe) (UseProtoOption opts))))"

end
