(* ===== verification/ProtoFacts.thy ===== *)
theory ProtoFacts
  imports ProtoSinker
begin

text \<open>
  Lemmas on the sink of messages: the rows of a message, independently of the inserter they are sent to; what
  the inserters of PostgreSQL do with them; and the contract of a connection with transactions, under
  which a batch of blocks is committed with its cursor or not at all.
\<close>

section \<open>The rows of a message\<close>

type_synonym 'f Row = "string \<times> 'f Value list"

text \<open>The walk with an inserter that writes down the rows\<close>

definition recording :: "('f, 's) WalkEnv \<Rightarrow> ('f, 'f Row list) WalkEnv" where
  "recording env =
     \<lparr>we_descs = we_descs env, we_floats = we_floats env, UseVersionField = UseVersionField env,
      UseDeletedField = UseDeletedField env, we_tables = we_tables env, useProtoOptions = useProtoOptions env,
      we_now = (\<lambda>l. (0, l)), we_Insert = (\<lambda>table values l. (Done, l @ [(table, values)]))\<rparr>"

definition message_rows :: "('f, 's) WalkEnv \<Rightarrow> u64 \<Rightarrow> int \<times> int \<Rightarrow> 'f Parent option \<Rightarrow> 'f Message option \<Rightarrow> 'f Row list" where
  "message_rows env bn ts p dm = snd (walk_insert (recording env) bn ts p dm [])"

lemma recording_same [simp]:
  "we_descs (recording env) = we_descs env" "UseVersionField (recording env) = UseVersionField env"
  "useProtoOptions (recording env) = useProtoOptions env" "we_tables (recording env) = we_tables env"
  "we_floats (recording env) = we_floats env" "UseDeletedField (recording env) = UseDeletedField env"
  "we_Insert (recording env) t vs l = (Done, l @ [(t, vs)])"
  by (simp_all add: recording_def)

lemma message_values_recording [simp]:
  "message_values (recording env) bn ts version p ti dm = message_values env bn ts version p ti dm"
  "message_table (recording env) ti = message_table env ti"
  "children_parent (recording env) md table key childs p = children_parent env md table key childs p"
  by (simp_all add: message_values_def row_head_def message_table_def children_parent_def cong: option.case_cong)

text \<open>An inserter that has a relation to the rows it was sent ends a walk in relation to the rows of the
  message, if it takes them all.\<close>

definition tracks :: "('s \<Rightarrow> 'f Row list \<Rightarrow> bool) \<Rightarrow> (string \<Rightarrow> 'f Value list \<Rightarrow> 's \<Rightarrow> Outcome \<times> 's) \<Rightarrow> bool" where
  "tracks R ins \<longleftrightarrow> (\<forall>t vs s s' l. R s l \<longrightarrow> ins t vs s = (Done, s') \<longrightarrow> R s' (l @ [(t, vs)]))"

lemma tracksD: "tracks R ins \<Longrightarrow> R s l \<Longrightarrow> ins t vs s = (Done, s') \<Longrightarrow> R s' (l @ [(t, vs)])"
  by (auto simp: tracks_def)

lemma insert_row_recording:
  assumes nv: "\<not> UseVersionField env" and R: "R s l"
    and step: "tracks R (we_Insert env)"
    and run: "insert_row env bn ts p dm s = (Done, x, s')"
  shows "\<exists>rows. (\<forall>l. insert_row (recording env) bn ts p dm l = (Done, x, l @ rows)) \<and> R s' (l @ rows)"
proof -
  have v: "walk_version env s = (0, s)" "\<And>l. walk_version (recording env) l = (0, l)"
    using nv by (simp_all add: walk_version_def)
  obtain ti vals key childs where
    r: "ret_bind (table_info (useProtoOptions env) (we_descs env (msg_type dm))) (\<lambda>ti.
          ret_bind (message_values env bn ts 0 p ti dm) (\<lambda>r. Returns (ti, r))) = Returns (ti, vals, key, childs)"
    using run unfolding insert_row_def Let_def v(1) by (auto split: Ret.splits)
  show ?thesis
  proof (cases "message_table env ti")
    case None
    with run r R show ?thesis unfolding insert_row_def Let_def v by (intro exI [of _ "[]"]) auto
  next
    case (Some table)
    then obtain s2 where i: "we_Insert env (tb_Name table) vals s = (Done, s2)"
      using run r unfolding insert_row_def Let_def v by (auto split: prod.splits Outcome.splits)
    from run r Some i have "s2 = s'" unfolding insert_row_def Let_def v by (auto split: sum.splits)
    with run r Some i tracksD [OF step R i] show ?thesis unfolding insert_row_def Let_def v
      by (intro exI [of _ "[(tb_Name table, vals)]"]) (auto split: sum.splits)
  qed
qed

lemma walk_recording:
  assumes nv: "\<not> UseVersionField env"
    and step: "tracks R (we_Insert env)"
  shows "R s l \<Longrightarrow> walk_insert env bn ts p dm s = (Done, s') \<Longrightarrow>
           \<exists>rows. (\<forall>l. walk_insert (recording env) bn ts p dm l = (Done, l @ rows)) \<and> R s' (l @ rows)"
    and "R s l \<Longrightarrow> walk_children env bn ts p ms s = (Done, s') \<Longrightarrow>
           \<exists>rows. (\<forall>l. walk_children (recording env) bn ts p ms l = (Done, l @ rows)) \<and> R s' (l @ rows)"
  using nv step
proof (induction env bn ts p dm s and env bn ts p ms s arbitrary: s' l and s' l rule: walk_insert_walk_children.induct)
  case (2 env bn ts p dm s)
  then obtain childs q s1 where i: "insert_row env bn ts p dm s = (Done, (childs, q), s1)"
    and w: "walk_children env bn ts q childs s1 = (Done, s')"
    by (auto split: prod.splits Outcome.splits)
  from insert_row_recording [OF 2(4) 2(2) 2(5) i] obtain rows where
    a: "\<And>l. insert_row (recording env) bn ts p dm l = (Done, (childs, q), l @ rows)" "R s1 (l @ rows)" by auto
  from 2(1) [OF i [symmetric] refl refl refl a(2) w 2(4,5)] obtain rows' where
    b: "\<And>l. walk_children (recording env) bn ts q childs l = (Done, l @ rows')" "R s' ((l @ rows) @ rows')" by auto
  from a(1) b show ?case by (intro exI [of _ "rows @ rows'"]) simp
next
  case (4 env bn ts p fm fms s)
  then obtain s1 where i: "walk_insert env bn ts p fm s = (Done, s1)"
    and w: "walk_children env bn ts p fms s1 = (Done, s')"
    by (auto split: prod.splits Outcome.splits option.splits)
  from 4(1) [OF 4(3) i 4(5,6)] obtain rows where
    a: "\<And>l. walk_insert (recording env) bn ts p fm l = (Done, l @ rows)" "R s1 (l @ rows)" by auto
  from 4(2) [OF i [symmetric] refl a(2) w 4(5,6)] obtain rows' where
    b: "\<And>l. walk_children (recording env) bn ts p fms l = (Done, l @ rows')" "R s' ((l @ rows) @ rows')" by auto
  from a(1) b show ?case by (intro exI [of _ "rows @ rows'"]) simp
qed (auto intro: exI [of _ "[]"])

text \<open>What every call of the inserter keeps, whatever its outcome, the walk keeps.\<close>

definition keeps :: "('s \<Rightarrow> bool) \<Rightarrow> (string \<Rightarrow> 'f Value list \<Rightarrow> 's \<Rightarrow> Outcome \<times> 's) \<Rightarrow> bool" where
  "keeps Q ins \<longleftrightarrow> (\<forall>t vs s r s'. Q s \<longrightarrow> ins t vs s = (r, s') \<longrightarrow> Q s')"

lemma keepsD: "keeps Q ins \<Longrightarrow> Q s \<Longrightarrow> ins t vs s = (r, s') \<Longrightarrow> Q s'"
  by (auto simp: keeps_def)

lemma insert_row_keeps:
  assumes nv: "\<not> UseVersionField env" and keeps: "keeps Q (we_Insert env)" and Q: "Q s"
    and run: "insert_row env bn ts p dm s = (r, x, s')"
  shows "Q s'"
proof -
  have v: "walk_version env s = (0, s)" using nv by (simp add: walk_version_def)
  show ?thesis using run Q unfolding insert_row_def Let_def v
    by (auto split: Ret.splits option.splits prod.splits Outcome.splits sum.splits dest: keepsD [OF keeps Q])
qed

lemma walk_keeps:
  shows "\<not> UseVersionField env \<Longrightarrow> keeps Q (we_Insert env) \<Longrightarrow> Q s \<Longrightarrow> walk_insert env bn ts p dm s = (r, s') \<Longrightarrow> Q s'"
    and "\<not> UseVersionField env \<Longrightarrow> keeps Q (we_Insert env) \<Longrightarrow> Q s \<Longrightarrow> walk_children env bn ts p ms s = (r, s') \<Longrightarrow> Q s'"
proof (induction env bn ts p dm s and env bn ts p ms s arbitrary: r s' and r s' rule: walk_insert_walk_children.induct)
  case (2 env bn ts p dm s)
  obtain r1 childs q s1 where i: "insert_row env bn ts p dm s = (r1, (childs, q), s1)" by (metis prod.collapse)
  from insert_row_keeps [OF 2(2-4) i] have "Q s1" .
  with 2(1) [OF i [symmetric] _ refl refl 2(2,3)] 2(5) i show ?case by (cases r1) auto
next
  case (4 env bn ts p fm fms s)
  obtain r1 s1 where i: "walk_insert env bn ts p fm s = (r1, s1)" by force
  from 4(1) [OF 4(3-5) i] have "Q s1" .
  with 4(2) [OF i [symmetric] _ 4(3,4)] 4(6) i show ?case by (cases r1) (auto split: option.splits)
qed auto

section \<open>What the inserters send\<close>

definition row_statement :: "'f Floats \<Rightarrow> string gomap \<Rightarrow> 'f Row \<Rightarrow> string \<times> 'f Value list" where
  "row_statement fl iqs = (\<lambda>(t, vs). (the (map_of iqs t), the (those (map (pg_row_argument fl) vs))))"

text \<open>The texts of the rows of a table, and an accumulator with rows added\<close>

definition row_texts :: "'f Floats \<Rightarrow> string \<Rightarrow> 'f Row list \<Rightarrow> string list list" where
  "row_texts fl n rws = map (\<lambda>(t, vs). the (those (map (pg_ValueToString fl) vs))) (filter (\<lambda>(t, vs). t = n \<and> t \<noteq> ''_cursor_'') rws)"

definition with_rows :: "'f Floats \<Rightarrow> Accumulator gomap \<Rightarrow> 'f Row list \<Rightarrow> Accumulator gomap" where
  "with_rows fl accs rws = map (\<lambda>(n, acc). (n, acc\<lparr>ac_rowValues := ac_rowValues acc @ row_texts fl n rws\<rparr>)) accs"

text \<open>The statements for the rows of a batch, without that of the cursor: one for each row, or one for each
  table that has rows. A table with the name of the cursor table is not accumulated.\<close>

definition acc_statements :: "Accumulator gomap \<Rightarrow> (string \<times> 'f Value list) list" where
  "acc_statements accs = map (\<lambda>(n, acc). (acc_statement acc, [])) (filter (\<lambda>(n, acc). ac_rowValues acc \<noteq> []) accs)"

definition direct_statements :: "string \<Rightarrow> 'f Row list \<Rightarrow> (string \<times> 'f Value list) list" where
  "direct_statements cq rws = map (\<lambda>(t, vs). (cq, vs)) (filter (\<lambda>(t, vs). t = ''_cursor_'') rws)"

fun batch_statements :: "'f Floats \<Rightarrow> Inserter \<Rightarrow> 'f Row list \<Rightarrow> (string \<times> 'f Value list) list" where
  "batch_statements fl NoInserter rws = []"
| "batch_statements fl (RowInserter iqs) rws = map (row_statement fl iqs) rws"
| "batch_statements fl (AccumulatorInserter accs cq) rws =
     direct_statements cq rws @ acc_statements (with_rows fl accs rws)"

text \<open>The statement of the cursor, as each inserter sends it\<close>

fun cursor_statement :: "Inserter \<Rightarrow> Cursor \<Rightarrow> string \<times> 'f Value list" where
  "cursor_statement NoInserter c = ([], [])"
| "cursor_statement (RowInserter iqs) c =
     (the (map_of iqs ''_cursor_''), [V_string ''cursor'', V_string (c_string c)])"
| "cursor_statement (AccumulatorInserter accs cq) c = (cq, [V_string ''cursor'', V_string (c_string c)])"

text \<open>An inserter between two batches: nothing is accumulated.\<close>

fun settled :: "Inserter \<Rightarrow> bool" where
  "settled NoInserter = True"
| "settled (RowInserter iqs) = True"
| "settled (AccumulatorInserter accs cq) = (wf_map accs \<and> (\<forall>(n, acc) \<in> set accs. ac_rowValues acc = []))"

lemma update_with_rows:
  assumes "wf_map accs" "map_of (with_rows fl accs l) t = Some acc" "t \<noteq> ''_cursor_''"
  shows "AList.update t (acc\<lparr>ac_rowValues := ac_rowValues acc @ [the (those (map (pg_ValueToString fl) vs))]\<rparr>) (with_rows fl accs l)
    = with_rows fl accs (l @ [(t, vs)])"
  using assms
proof (induction accs)
  case (Cons a accs)
  obtain n acc0 where a: "a = (n, acc0)" by force
  have d: "n \<notin> fst ` set accs" "wf_map accs" using Cons.prems(1) a by (auto simp: wf_map_def)
  show ?case
  proof (cases "n = t")
    case True
    have "with_rows fl accs (l @ [(t, vs)]) = with_rows fl accs l"
      using d(1) True by (force simp: with_rows_def row_texts_def)
    with True Cons.prems(2,3) a show ?thesis by (auto simp: with_rows_def row_texts_def)
  next
    case False
    with Cons a d show ?thesis by (auto simp: with_rows_def row_texts_def)
  qed
qed (simp add: with_rows_def)

section \<open>Transactions\<close>

text \<open>The contract of a connection: what is committed, and what a transaction has done so far. A statement in a
  transaction commits nothing; a rollback commits nothing; a commit that reports success has
  committed the statements of the transaction, and one that fails has committed them or nothing.\<close>

locale sql_transactions =
  fixes conn :: "('f, 'c) Conn"
    and committed :: "'c \<Rightarrow> (string \<times> 'f Value list) list"
    and pending :: "nat \<Rightarrow> 'c \<Rightarrow> (string \<times> 'f Value list) list option"
  assumes begin_committed: "co_Begin conn c = (b, c') \<Longrightarrow> committed c' = committed c"
    and begin_pending: "co_Begin conn c = (Inr h, c') \<Longrightarrow> pending h c' = Some []"
    and exec_committed: "co_Exec conn (Some h) q args c = (x, c') \<Longrightarrow> committed c' = committed c"
    and exec_pending: "pending h c = Some sts \<Longrightarrow> co_Exec conn (Some h) q args c = (Inr n, c') \<Longrightarrow>
          pending h c' = Some (sts @ [(q, args)])"
    and rollback_committed: "co_Rollback conn h c = (y, c') \<Longrightarrow> committed c' = committed c"
    and commit_done: "pending h c = Some sts \<Longrightarrow> co_Commit conn h c = (None, c') \<Longrightarrow>
          committed c' = committed c @ sts"
    and commit_failed: "pending h c = Some sts \<Longrightarrow> co_Commit conn h c = (Some e, c') \<Longrightarrow>
          committed c' = committed c \<or> committed c' = committed c @ sts"
begin

text \<open>The transaction is open and nothing was committed.\<close>

definition open_tx :: "(string \<times> 'f Value list) list \<Rightarrow> nat \<Rightarrow> 'c PgDatabase \<Rightarrow> bool" where
  "open_tx c0 h d \<longleftrightarrow> committed (dp_conn d) = c0 \<and> dp_tx d = Some h"

text \<open>The state after rows were sent: what is pending and what is accumulated\<close>

definition sent :: "'f Floats \<Rightarrow> (string \<times> 'f Value list) list \<Rightarrow> nat \<Rightarrow> bool \<Rightarrow> Inserter \<Rightarrow> 'c PgDatabase \<Rightarrow> 'f Row list \<Rightarrow> bool" where
  "sent fl c0 h u ins0 d l \<longleftrightarrow> open_tx c0 h d \<and> dp_useProtoOptions d = u \<and>
     (case ins0 of
        NoInserter \<Rightarrow> False
      | RowInserter iqs \<Rightarrow>
          pending h (dp_conn d) = Some (map (row_statement fl iqs) l) \<and> dp_inserter d = RowInserter iqs
      | AccumulatorInserter accs cq \<Rightarrow>
          wf_map accs \<and> pending h (dp_conn d) = Some (direct_statements cq l)
          \<and> dp_inserter d = AccumulatorInserter (with_rows fl accs l) cq)"

lemma exec_on_open:
  assumes "pe_conn env = conn" "open_tx c0 h d" "exec_on env (dp_tx d) q args d = (r, d')"
  shows "open_tx c0 h d'" "dp_inserter d' = dp_inserter d" "dp_useProtoOptions d' = dp_useProtoOptions d"
    "r = None \<Longrightarrow> pending h (dp_conn d) = Some sts \<Longrightarrow> pending h (dp_conn d') = Some (sts @ [(q, args)])"
  using assms exec_committed [of h q args "dp_conn d"] exec_pending [of h "dp_conn d" sts q args]
  by (auto simp: exec_on_def open_tx_def split: prod.splits sum.splits)

lemma insert_open:
  assumes "pe_conn env = conn"
  shows "keeps (open_tx c0 h) (pg_Insert env)"
  unfolding keeps_def
proof (intro allI impI)
  fix t vs d r d'
  assume ot: "open_tx c0 h d" and i: "pg_Insert env t vs d = (r, d')"
  show "open_tx c0 h d'"
    using i exec_on_open(1) [OF assms ot] ot
    by (auto simp: pg_Insert_def RowInserter_insert_def AccumulatorInserter_insert_def open_tx_def
             split: Inserter.splits option.splits prod.splits if_splits)
qed

lemma insert_sent:
  assumes "pe_conn env = conn"
  shows "tracks (sent (pe_floats env) c0 h u ins0) (pg_Insert env)"
  unfolding tracks_def
proof (intro allI impI)
  fix t vs d d' l
  assume s: "sent (pe_floats env) c0 h u ins0 d l" and i: "pg_Insert env t vs d = (Done, d')"
  then have ot: "open_tx c0 h d" by (simp add: sent_def)
  show "sent (pe_floats env) c0 h u ins0 d' (l @ [(t, vs)])"
  proof (cases ins0)
    case NoInserter
    with s show ?thesis by (simp add: sent_def)
  next
    case (RowInserter iqs)
    with s i obtain q args where qa: "map_of iqs t = Some q" "those (map (pg_row_argument (pe_floats env)) vs) = Some args"
      and e: "exec_on env (dp_tx d) q args d = (None, d')"
      by (auto simp: sent_def pg_Insert_def RowInserter_insert_def split: option.splits prod.splits)
    from exec_on_open [OF assms ot e] s RowInserter qa show ?thesis
      by (simp add: sent_def row_statement_def)
  next
    case (AccumulatorInserter accs cq)
    show ?thesis
    proof (cases "t = ''_cursor_''")
      case True
      with s i AccumulatorInserter have e: "exec_on env (dp_tx d) cq vs d = (None, d')"
        by (auto simp: sent_def pg_Insert_def AccumulatorInserter_insert_def split: option.splits prod.splits)
      from exec_on_open [OF assms ot e] s AccumulatorInserter True show ?thesis
        by (simp add: sent_def direct_statements_def with_rows_def row_texts_def)
    next
      case False
      with s i AccumulatorInserter obtain v acc where va: "those (map (pg_ValueToString (pe_floats env)) vs) = Some v"
          "map_of (with_rows (pe_floats env) accs l) t = Some acc"
        and d': "d' = d\<lparr>dp_inserter := AccumulatorInserter
          (AList.update t (acc\<lparr>ac_rowValues := ac_rowValues acc @ [v]\<rparr>) (with_rows (pe_floats env) accs l)) cq\<rparr>"
        by (auto simp: sent_def pg_Insert_def AccumulatorInserter_insert_def split: option.splits prod.splits)
      have "wf_map accs" using s AccumulatorInserter by (simp add: sent_def)
      from update_with_rows [OF this va(2) False, of vs] va(1) d' s AccumulatorInserter False show ?thesis
        by (simp add: sent_def direct_statements_def open_tx_def)
    qed
  qed
qed

end

section \<open>The rows of a batch\<close>

definition holder_rows :: "('f, 'd) ProtoEnv \<Rightarrow> ('f, 'c) PgEnv \<Rightarrow> bool \<Rightarrow> Holder \<Rightarrow> 'f Row list" where
  "holder_rows env penv u h =
     (let b = h_data h; ts = AsTime (pb_timestamp b) in
      if pb_value b = [] then []
      else case pn_unmarshal env (pb_value b) of
        Inl e \<Rightarrow> []
      | Inr dm \<Rightarrow> (''_blocks_'', [V_uint64 (pb_number b), V_string (pb_id b), V_time ts])
                  # message_rows (pg_walk_env penv u) (pb_number b) ts None (Some dm))"

lemma wrap_outcome_Done [simp]: "wrap_outcome f as x = (Done, d) \<longleftrightarrow> x = (Done, d)"
  by (cases x; cases "fst x") (auto simp: wrap_outcome_def)

lemma wrap_outcome_state: "wrap_outcome f as x = (r, d) \<Longrightarrow> \<exists>r'. x = (r', d)"
  by (cases x; cases "fst x") (auto simp: wrap_outcome_def)

lemma and_then_Done [simp]: "and_then x f = (Done, d) \<longleftrightarrow> (\<exists>d1. x = (Done, d1) \<and> f d1 = (Done, d))"
  by (cases x; cases "fst x") (auto simp: and_then_def)

lemma and_then_state: "and_then x f = (r, d) \<Longrightarrow> x = (r, d) \<or> (\<exists>d1. x = (Done, d1) \<and> f d1 = (r, d))"
  by (cases x; cases "fst x") (auto simp: and_then_def)

lemma and_then_cases:
  assumes "and_then x f = (r, d)"
  obtains (stopped) "x = (r, d)" "r \<noteq> Done" | (went_on) d1 where "x = (Done, d1)" "f d1 = (r, d)"
  using assms by (cases x; cases "fst x") (auto simp: and_then_def)

lemma wrap_outcome_cases:
  assumes "wrap_outcome f as x = (r, d)"
  obtains r' where "x = (r', d)" "r = Done \<longleftrightarrow> r' = Done"
  using assms by (cases x; cases "fst x") (auto simp: wrap_outcome_def)

context sql_transactions begin

text \<open>The statements that flush the accumulators\<close>

lemma flush_accumulators_open:
  assumes "pe_conn env = conn"
  shows "open_tx c0 h d \<Longrightarrow> flush_accumulators env accs d = (r, accs', d') \<Longrightarrow>
    open_tx c0 h d' \<and> dp_useProtoOptions d' = dp_useProtoOptions d \<and>
    (r = Done \<longrightarrow> pending h (dp_conn d) = Some sts \<longrightarrow>
       pending h (dp_conn d') = Some (sts @ acc_statements accs)
       \<and> accs' = map (\<lambda>(n, acc). (n, acc\<lparr>ac_rowValues := []\<rparr>)) accs)"
proof (induction accs arbitrary: r accs' d d' sts)
  case Nil
  then show ?case by (simp add: acc_statements_def)
next
  case (Cons a accs)
  obtain n acc where a: "a = (n, acc)" by force
  show ?case
  proof (cases "ac_rowValues acc = []")
    case True
    with Cons.prems a obtain r1 accs1 where f: "flush_accumulators env accs d = (r1, accs1, d')"
      "r = r1" "accs' = (n, acc) # accs1" by (auto split: prod.splits)
    from Cons.IH [OF Cons.prems(1) f(1)] True a f(2,3) show ?thesis
      by (auto simp: acc_statements_def)
  next
    case False
    have tx: "dp_tx d \<noteq> None" using Cons.prems(1) by (simp add: open_tx_def)
    obtain x d1 where e: "exec_on env (dp_tx d) (acc_statement acc) [] d = (x, d1)" by force
    note o1 = exec_on_open [OF assms Cons.prems(1) e]
    show ?thesis
    proof (cases x)
      case (Some e')
      with Cons.prems a False tx e have "d' = d1" "r \<noteq> Done" by auto
      with o1 show ?thesis by simp
    next
      case None
      obtain r1 accs1 d2 where f: "flush_accumulators env accs d1 = (r1, accs1, d2)" by (metis prod.collapse)
      with Cons.prems a False tx e None have x: "r = r1" "d' = d2" "accs' = (n, acc\<lparr>ac_rowValues := []\<rparr>) # accs1" by auto
      from Cons.IH [OF o1(1) f] o1(2-) None a False x show ?thesis by (auto simp: acc_statements_def)
    qed
  qed
qed

lemma flush_open:
  assumes "pe_conn env = conn" "open_tx c0 h d" "pg_FlushRows env d = (r, d')"
  shows "open_tx c0 h d'"
proof (cases "dp_inserter d")
  case (AccumulatorInserter accs cq)
  obtain r1 accs' d1 where f: "flush_accumulators env accs d = (r1, accs', d1)" by (metis prod.collapse)
  from flush_accumulators_open [OF assms(1,2) f] assms(3) f AccumulatorInserter show ?thesis
    by (auto simp: pg_FlushRows_def open_tx_def)
qed (use assms in \<open>auto simp: pg_FlushRows_def\<close>)

lemma clear_with_rows:
  "settled (AccumulatorInserter accs cq) \<Longrightarrow>
   map (\<lambda>(n, acc). (n, acc\<lparr>ac_rowValues := []\<rparr>)) (with_rows fl accs l) = accs"
  by (rule nth_equalityI) (force simp: with_rows_def in_set_conv_nth split: prod.splits)+

lemma flush_sent:
  assumes "pe_conn env = conn" "sent (pe_floats env) c0 h u ins0 d l" "settled ins0" "pg_FlushRows env d = (Done, d')"
  shows "open_tx c0 h d'" "dp_useProtoOptions d' = u" "dp_inserter d' = ins0" "ins0 \<noteq> NoInserter"
    "pending h (dp_conn d') = Some (batch_statements (pe_floats env) ins0 l)"
proof -
  have ot: "open_tx c0 h d" using assms(2) by (simp add: sent_def)
  show "open_tx c0 h d'" by (rule flush_open [OF assms(1) ot assms(4)])
  have "dp_useProtoOptions d' = u \<and> dp_inserter d' = ins0 \<and> ins0 \<noteq> NoInserter
    \<and> pending h (dp_conn d') = Some (batch_statements (pe_floats env) ins0 l)"
  proof (cases ins0)
    case (AccumulatorInserter accs cq)
    obtain r1 accs' d1 where f: "flush_accumulators env (with_rows (pe_floats env) accs l) d = (r1, accs', d1)"
      by (metis prod.collapse)
    with assms AccumulatorInserter have x: "r1 = Done" "d' = d1\<lparr>dp_inserter := AccumulatorInserter accs' cq\<rparr>"
      by (auto simp: sent_def pg_FlushRows_def split: Outcome.splits)
    from flush_accumulators_open [OF assms(1) ot f] x(1) assms(2,3) AccumulatorInserter
    have "accs' = accs" "pending h (dp_conn d1) =
        Some (direct_statements cq l @ acc_statements (with_rows (pe_floats env) accs l))"
      "dp_useProtoOptions d1 = u"
      using clear_with_rows [of accs cq "pe_floats env" l] by (auto simp: sent_def)
    with x AccumulatorInserter show ?thesis by simp
  qed (use assms in \<open>auto simp: sent_def pg_FlushRows_def\<close>)
  then show "dp_useProtoOptions d' = u" "dp_inserter d' = ins0" "ins0 \<noteq> NoInserter"
    "pending h (dp_conn d') = Some (batch_statements (pe_floats env) ins0 l)" by auto
qed

lemma store_cursor_open:
  assumes "pe_conn env = conn" "open_tx c0 h d" "pg_StoreCursor env c d = (r, d')"
  shows "open_tx c0 h d'"
    "r = Done \<Longrightarrow> pending h (dp_conn d) = Some sts \<Longrightarrow>
       pending h (dp_conn d') = Some (sts @ [cursor_statement (dp_inserter d) c])"
    "r = Done \<Longrightarrow> dp_inserter d' = dp_inserter d"
    "r = Done \<Longrightarrow> dp_useProtoOptions d' = dp_useProtoOptions d"
proof -
  obtain r1 where i: "pg_Insert env ''_cursor_'' [V_string ''cursor'', V_string (c_string c)] d = (r1, d')"
    using wrap_outcome_state [OF assms(3) [unfolded pg_StoreCursor_def]] by blast
  show "open_tx c0 h d'" using keepsD [OF insert_open [OF assms(1)] assms(2) i] .
  assume "r = Done"
  with assms(3) have i: "pg_Insert env ''_cursor_'' [V_string ''cursor'', V_string (c_string c)] d = (Done, d')"
    by (simp add: pg_StoreCursor_def)
  obtain q where e: "exec_on env (dp_tx d) q [V_string ''cursor'', V_string (c_string c)] d = (None, d')"
    and c: "cursor_statement (dp_inserter d) c = (q, [V_string ''cursor'', V_string (c_string c)] :: 'f Value list)"
    using i by (auto simp: pg_Insert_def RowInserter_insert_def AccumulatorInserter_insert_def pg_row_argument_def
                     split: Inserter.splits option.splits prod.splits)
  from exec_on_open [OF assms(1,2) e] c
  show "dp_inserter d' = dp_inserter d" "dp_useProtoOptions d' = dp_useProtoOptions d"
    "pending h (dp_conn d) = Some sts \<Longrightarrow>
       pending h (dp_conn d') = Some (sts @ [cursor_statement (dp_inserter d) c])" by simp_all
qed

end

context sql_transactions begin

lemma holder_open:
  assumes "pe_conn penv = conn" "pn_db env = pg_DatabaseI penv" "open_tx c0 h d" "processHolder env ho d = (r, d')"
  shows "open_tx c0 h d'"
proof -
  have k: "keeps (open_tx c0 h) (we_Insert (pg_walk_env penv u))" for u
    using insert_open [OF assms(1)] by (simp add: pg_walk_env_def)
  have nv: "\<not> UseVersionField (pg_walk_env penv u)" for u by (simp add: pg_walk_env_def)
  show ?thesis
    using assms(2-4)
    by (auto simp: processHolder_def Let_def processMessage_def pg_DatabaseI_def pg_InsertBlock_def
          pg_WalkMessageDescriptorAndInsert_def split: if_splits sum.splits
        simp del: walk_insert.simps
        dest!: wrap_outcome_state and_then_state
        dest: keepsD [OF insert_open [OF assms(1)]] walk_keeps(1) [OF nv k])
qed

lemma process_all_open:
  assumes "pe_conn penv = conn" "pn_db env = pg_DatabaseI penv"
  shows "open_tx c0 h d \<Longrightarrow> process_all env hs d = (r, d') \<Longrightarrow> open_tx c0 h d'"
proof (induction hs arbitrary: d)
  case (Cons ho hs)
  then show ?case by (auto dest!: and_then_state dest: holder_open [OF assms])
qed simp

lemma holder_sent:
  assumes "pe_conn penv = conn" "pn_db env = pg_DatabaseI penv"
    and s: "sent (pe_floats penv) c0 h u ins0 d l" and p: "processHolder env ho d = (Done, d')"
  shows "sent (pe_floats penv) c0 h u ins0 d' (l @ holder_rows env penv u ho)"
proof (cases "pb_value (h_data ho) = []")
  case True
  with s p show ?thesis by (simp add: processHolder_def holder_rows_def)
next
  case False
  let ?b = "h_data ho" and ?ts = "AsTime (pb_timestamp (h_data ho))" and ?R = "sent (pe_floats penv) c0 h u ins0"
  note t = insert_sent [OF assms(1), of c0 h u ins0]
  from False p assms(2) obtain dm d1 where dm: "pn_unmarshal env (pb_value ?b) = Inr dm"
    and i: "pg_Insert penv ''_blocks_'' [V_uint64 (pb_number ?b), V_string (pb_id ?b), V_time ?ts] d = (Done, d1)"
    and w: "walk_insert (pg_walk_env penv (dp_useProtoOptions d1)) (pb_number ?b) ?ts None (Some dm) d1 = (Done, d')"
    by (auto simp: processHolder_def Let_def processMessage_def pg_DatabaseI_def pg_InsertBlock_def
          pg_WalkMessageDescriptorAndInsert_def split: sum.splits)
  from tracksD [OF t s i] have s1: "?R d1 (l @ [(''_blocks_'', [V_uint64 (pb_number ?b), V_string (pb_id ?b), V_time ?ts])])" .
  then have u: "dp_useProtoOptions d1 = u" by (simp add: sent_def)
  have nv: "\<not> UseVersionField (pg_walk_env penv u)" and t': "tracks ?R (we_Insert (pg_walk_env penv u))"
    using t by (simp_all add: pg_walk_env_def)
  from walk_recording(1) [OF nv t' s1 w [unfolded u]] obtain rws where
    r: "\<And>l. walk_insert (recording (pg_walk_env penv u)) (pb_number ?b) ?ts None (Some dm) l = (Done, l @ rws)"
    and s2: "?R d' ((l @ [(''_blocks_'', [V_uint64 (pb_number ?b), V_string (pb_id ?b), V_time ?ts])]) @ rws)" by blast
  from r [of "[]"] have "message_rows (pg_walk_env penv u) (pb_number ?b) ?ts None (Some dm) = rws"
    by (simp add: message_rows_def)
  with s2 False dm show ?thesis by (simp add: holder_rows_def Let_def)
qed

lemma process_all_sent:
  assumes "pe_conn penv = conn" "pn_db env = pg_DatabaseI penv"
  shows "sent (pe_floats penv) c0 h u ins0 d l \<Longrightarrow> process_all env hs d = (Done, d') \<Longrightarrow>
    sent (pe_floats penv) c0 h u ins0 d' (l @ concat (map (holder_rows env penv u) hs))"
proof (induction hs arbitrary: d l)
  case (Cons ho hs)
  then obtain d1 where d1: "processHolder env ho d = (Done, d1)" "process_all env hs d1 = (Done, d')" by auto
  from Cons.IH [OF holder_sent [OF assms Cons.prems(1) d1(1)] d1(2)] show ?case by simp
qed simp

lemma begin_sent:
  assumes "pe_conn penv = conn" "pg_BeginTransaction penv d = (r, d')"
  shows "committed (dp_conn d') = committed (dp_conn d)"
    "r = Done \<Longrightarrow> settled (dp_inserter d) \<Longrightarrow> dp_inserter d \<noteq> NoInserter \<Longrightarrow>
       \<exists>h. sent fl (committed (dp_conn d)) h (dp_useProtoOptions d) (dp_inserter d) d' []"
proof -
  show "committed (dp_conn d') = committed (dp_conn d)"
    using assms by (auto simp: pg_BeginTransaction_def begin_committed split: prod.splits sum.splits)
  assume r: "r = Done" and s: "settled (dp_inserter d)" "dp_inserter d \<noteq> NoInserter"
  with assms obtain h c where b: "co_Begin conn (dp_conn d) = (Inr h, c)" "d' = d\<lparr>dp_conn := c, dp_tx := Some h\<rparr>"
    by (auto simp: pg_BeginTransaction_def split: prod.splits sum.splits)
  have w: "with_rows fl accs [] = accs" for accs
    by (simp add: with_rows_def row_texts_def)
  show "\<exists>h. sent fl (committed (dp_conn d)) h (dp_useProtoOptions d) (dp_inserter d) d' []"
    using b begin_committed [OF b(1)] begin_pending [OF b(1)] s
    by (intro exI [of _ h]) (auto simp: sent_def open_tx_def w direct_statements_def split: Inserter.splits)
qed

lemma commit_open:
  assumes "pe_conn penv = conn" "open_tx c0 h d" "pending h (dp_conn d) = Some sts" "pg_CommitTransaction penv d = (r, d')"
  shows "committed (dp_conn d') = c0 \<or> committed (dp_conn d') = c0 @ sts"
    "r = Done \<Longrightarrow> committed (dp_conn d') = c0 @ sts"
    "dp_inserter d' = dp_inserter d" "dp_useProtoOptions d' = dp_useProtoOptions d"
  using assms commit_done [OF assms(3)] commit_failed [OF assms(3)]
  by (auto simp: pg_CommitTransaction_def open_tx_def split: prod.splits option.splits)

lemma rollback_open:
  assumes "pe_conn penv = conn" "open_tx c0 h d" "pg_RollbackTransaction penv d = (r, d')"
  shows "committed (dp_conn d') = c0"
  using assms by (auto simp: pg_RollbackTransaction_def open_tx_def rollback_committed split: prod.splits option.splits)

end

context sql_transactions begin

text \<open>Rows and their flush in an open transaction: nothing is committed; when all went well the rows are pending.\<close>

lemma process_batch_open:
  assumes "pe_conn penv = conn" "pn_db env = pg_DatabaseI penv" "in_transaction sk" "open_tx c0 h d"
    and p: "process_batch env sk d = (r, d')"
  shows "committed (dp_conn d') = c0" "r = Done \<Longrightarrow> process_all env (holding sk) d = (Done, d') \<and> open_tx c0 h d'"
proof -
  have np: "\<not> ps_parallel sk" "ps_useTransaction sk" using assms(3) by (auto simp: in_transaction_def)
  obtain r1 d1 where a: "process_all env (holding sk) d = (r1, d1)" by force
  have ot: "open_tx c0 h d1" by (rule process_all_open [OF assms(1,2,4) a])
  then have c: "committed (dp_conn d1) = c0" by (simp add: open_tx_def)
  have rb: "\<And>r2 d2. pd_RollbackTransaction (pn_db env) d1 = (r2, d2) \<Longrightarrow> committed (dp_conn d2) = c0"
    using rollback_open [OF assms(1) ot] assms(2) by (simp add: pg_DatabaseI_def)
  show "committed (dp_conn d') = c0"
    using p np a c rb by (auto simp: process_batch_def split: Outcome.splits elim: and_then_cases)
  show "r = Done \<Longrightarrow> process_all env (holding sk) d = (Done, d') \<and> open_tx c0 h d'"
    using p np a ot by (auto simp: process_batch_def split: Outcome.splits)
qed

lemma apply_batch_atomic:
  assumes "pe_conn penv = conn" "pn_db env = pg_DatabaseI penv" "in_transaction sk"
    and st: "settled (dp_inserter (ps_db sk))" "dp_inserter (ps_db sk) \<noteq> NoInserter"
    and run: "apply_batch env data cursor sk = (r, sk')"
    and stored: "stored = committed (dp_conn (ps_db sk))
      @ batch_statements (pe_floats penv) (dp_inserter (ps_db sk))
          (concat (map (holder_rows env penv (dp_useProtoOptions (ps_db sk))) (holding sk)))
      @ [cursor_statement (dp_inserter (ps_db sk)) cursor]"
  shows "(committed (dp_conn (ps_db sk')) = committed (dp_conn (ps_db sk)) \<or> committed (dp_conn (ps_db sk')) = stored)
    \<and> (r = Done \<longrightarrow> committed (dp_conn (ps_db sk')) = stored \<and> holding sk' = []
         \<and> dp_inserter (ps_db sk') = dp_inserter (ps_db sk)
         \<and> dp_useProtoOptions (ps_db sk') = dp_useProtoOptions (ps_db sk))"
proof -
  let ?d0 = "ps_db sk" and ?ins = "dp_inserter (ps_db sk)" and ?u = "dp_useProtoOptions (ps_db sk)"
  let ?c0 = "committed (dp_conn (ps_db sk))" and ?rows = "concat (map (holder_rows env penv ?u) (holding sk))"
  note io = assms(2)
  obtain r3 d3 where f: "and_then (and_then (begin_if env ''begin tx: %w'' sk) (process_batch env sk))
      (\<lambda>d. wrap_outcome ''flushing: %w'' [] (pd_Flush (pn_db env) d)) = (r3, d3)" by force
  show ?thesis
  proof (cases "r3 = Done")
    case False
    have "committed (dp_conn d3) = ?c0"
      using f
    proof (cases rule: and_then_cases)
      case stopped
      from stopped(1) show ?thesis
      proof (cases rule: and_then_cases)
        case stopped
        then obtain r1 where "pg_BeginTransaction penv ?d0 = (r1, d3)"
          using assms(2,3) by (auto simp: begin_if_def pg_DatabaseI_def elim: wrap_outcome_cases)
        from begin_sent(1) [OF assms(1) this] show ?thesis .
      next
        case (went_on d1)
        then have b: "pg_BeginTransaction penv ?d0 = (Done, d1)"
          using assms(2,3) by (simp add: begin_if_def pg_DatabaseI_def)
        from begin_sent(2) [OF assms(1) b refl st, of "pe_floats penv"] obtain h where
          "open_tx ?c0 h d1" by (auto simp: sent_def)
        from process_batch_open(1) [OF assms(1-3) this went_on(2)] show ?thesis .
      qed
    next
      case (went_on d2)
      then obtain d1 where b: "pg_BeginTransaction penv ?d0 = (Done, d1)" and pb: "process_batch env sk d1 = (Done, d2)"
        using assms(2,3) by (auto simp: begin_if_def pg_DatabaseI_def)
      from begin_sent(2) [OF assms(1) b refl st, of "pe_floats penv"] obtain h where
        "open_tx ?c0 h d1" by (auto simp: sent_def)
      from process_batch_open(2) [OF assms(1-3) this pb refl] have o2: "open_tx ?c0 h d2" by simp
      obtain r' where "pg_FlushRows penv d2 = (r', d3)"
        using went_on(2) assms(2) by (auto simp: pg_DatabaseI_def elim: wrap_outcome_cases)
      from flush_open [OF assms(1) o2 this] show ?thesis by (simp add: open_tx_def)
    qed
    with False f run show ?thesis by (auto simp: apply_batch_def split: Outcome.splits)
  next
    case True
    with f io assms(3) obtain d1 d2 where b: "pg_BeginTransaction penv ?d0 = (Done, d1)"
      and pb: "process_batch env sk d1 = (Done, d2)" and fl: "pg_FlushRows penv d2 = (Done, d3)"
      by (auto simp: begin_if_def pg_DatabaseI_def)
    from begin_sent(2) [OF assms(1) b refl st, of "pe_floats penv"] obtain h where
      s1: "sent (pe_floats penv) ?c0 h ?u ?ins d1 []" by blast
    then have o1: "open_tx ?c0 h d1" by (simp add: sent_def)
    from process_batch_open(2) [OF assms(1-3) o1 pb refl] have pa: "process_all env (holding sk) d1 = (Done, d2)" ..
    from process_all_sent [OF assms(1,2) s1 pa] have s2: "sent (pe_floats penv) ?c0 h ?u ?ins d2 ?rows" by simp
    note f3 = flush_sent [OF assms(1) s2 st(1) fl]
    obtain r5 d5 where x: "and_then (wrap_outcome ''inserting cursor: %w'' [] (pd_StoreCursor (pn_db env) cursor d3))
        (commit_if env ''commit tx: %w'' sk) = (r5, d5)" by force
    have res: "r = r5" "ps_db sk' = d5" "r5 = Done \<Longrightarrow> holding sk' = []"
      using run f True x by (auto simp: apply_batch_def Let_def split: Outcome.splits)
    have "(committed (dp_conn d5) = ?c0 \<or> committed (dp_conn d5) = stored)
      \<and> (r5 = Done \<longrightarrow> committed (dp_conn d5) = stored \<and> dp_inserter d5 = ?ins \<and> dp_useProtoOptions d5 = ?u)"
      using x
    proof (cases rule: and_then_cases)
      case stopped
      then obtain r4 where "pg_StoreCursor penv cursor d3 = (r4, d5)"
        using assms(2) by (auto simp: pg_DatabaseI_def elim: wrap_outcome_cases)
      from store_cursor_open(1) [OF assms(1) f3(1) this] stopped(2) show ?thesis by (simp add: open_tx_def)
    next
      case (went_on d4)
      then have sc: "pg_StoreCursor penv cursor d3 = (Done, d4)" using assms(2) by (simp add: pg_DatabaseI_def)
      note s4 = store_cursor_open [OF assms(1) f3(1) sc]
      obtain r6 where cm: "pg_CommitTransaction penv d4 = (r6, d5)" "r5 = Done \<longleftrightarrow> r6 = Done"
        using went_on(2) assms(2,3) by (auto simp: commit_if_def pg_DatabaseI_def elim: wrap_outcome_cases)
      have "pending h (dp_conn d4) = Some (batch_statements (pe_floats penv) ?ins ?rows @ [cursor_statement ?ins cursor])"
        using s4(2) [OF refl f3(5)] f3(3) by simp
      from commit_open [OF assms(1) s4(1) this cm(1)] s4(3,4) f3(2,3) cm(2) show ?thesis
        by (simp add: stored)
    qed
    with res show ?thesis by simp
  qed
qed

end

section \<open>A connection in memory\<close>

text \<open>It keeps the statements it was sent, and refuses those that \<open>bad\<close> says.\<close>

record 'f MemConn =
  mc_committed :: "(string \<times> 'f Value list) list"
  mc_open :: "(nat \<times> (string \<times> 'f Value list) list) list"
  mc_next :: nat

definition mem_conn :: "(string \<Rightarrow> bool) \<Rightarrow> ('f, 'f MemConn) Conn" where
  "mem_conn bad =
     \<lparr>co_Begin = (\<lambda>c. (Inr (mc_next c), c\<lparr>mc_open := AList.update (mc_next c) [] (mc_open c), mc_next := mc_next c + 1\<rparr>)),
      co_Commit = (\<lambda>h c. (case map_of (mc_open c) h of
          None \<Rightarrow> (Some (ExternalErr ''sql: transaction has already been committed or rolled back''), c)
        | Some sts \<Rightarrow> (None, c\<lparr>mc_committed := mc_committed c @ sts, mc_open := AList.delete h (mc_open c)\<rparr>))),
      co_Rollback = (\<lambda>h c. (case map_of (mc_open c) h of
          None \<Rightarrow> (Some (ExternalErr ''sql: transaction has already been committed or rolled back''), c)
        | Some sts \<Rightarrow> (None, c\<lparr>mc_open := AList.delete h (mc_open c)\<rparr>))),
      co_Exec = (\<lambda>h q args c.
        if bad q then (Inl (ExternalErr ''refused''), c)
        else case h of
          None \<Rightarrow> (Inr (Inr 1), c\<lparr>mc_committed := mc_committed c @ [(q, args)]\<rparr>)
        | Some h \<Rightarrow>
            (case map_of (mc_open c) h of
               None \<Rightarrow> (Inl (ExternalErr ''sql: transaction has already been committed or rolled back''), c)
             | Some sts \<Rightarrow> (Inr (Inr 1), c\<lparr>mc_open := AList.update h (sts @ [(q, args)]) (mc_open c)\<rparr>))),
      co_Prepare = (\<lambda>q c. (None, c)),
      co_QueryBool = (\<lambda>q c. (Inr False, c)), co_QueryText = (\<lambda>q c. (Inr [], c)),
      co_QueryRows = (\<lambda>q args c. (Inr [], c)), co_QueryTable = (\<lambda>q c. (TableRows [], c))\<rparr>"

interpretation mem_tx: sql_transactions "mem_conn bad" mc_committed "\<lambda>h c. map_of (mc_open c) h" for bad
  by unfold_locales (auto simp: mem_conn_def update_conv' split: if_splits option.splits)

end
