(* ===== verification/ProtoExamples.thy ===== *)
theory ProtoExamples
  imports ProtoFacts
begin

text \<open>
  A concrete message type, database and sink, on which the properties of \<open>ProtoProperties\<close> are instantiated: an
  order with its lines, a table for each, and the connection in memory.
\<close>

definition ex_field :: "string \<Rightarrow> string \<Rightarrow> FieldType \<Rightarrow> string \<Rightarrow> bool \<Rightarrow> PbColumn option \<Rightarrow> FieldDesc" where
  "ex_field owner nam t m repeated opt =
     \<lparr>fd_FullName = owner @ ''.'' @ nam, fd_Name = nam, fd_Type = t, fd_MessageType = m, fd_IsRepeated = repeated,
      fd_InOneOf = False, fd_IsExtension = False, fd_Options = opt\<rparr>"

definition ex_key :: PbColumn where
  "ex_key = \<lparr>pc_Name = None, pc_ForeignKey = None, pc_Unique = False, pc_PrimaryKey = True,
             pc_SemanticType = None, pc_FormatHint = None\<rparr>"

definition ex_order :: MessageDesc where
  "ex_order = \<lparr>md_FullName = ''shop.Order'', md_Name = ''Order'',
     md_Fields = [ex_field ''shop.Order'' ''id'' TYPE_STRING [] False (Some ex_key),
                  ex_field ''shop.Order'' ''lines'' TYPE_MESSAGE ''shop.Line'' True None,
                  ex_field ''shop.Order'' ''total'' TYPE_UINT64 [] False None],
     md_Options = Some \<lparr>pt_Name = ''orders'', pt_ChildOf = None, pt_Clickhouse = None\<rparr>\<rparr>"

definition ex_line :: MessageDesc where
  "ex_line = \<lparr>md_FullName = ''shop.Line'', md_Name = ''Line'',
     md_Fields = [ex_field ''shop.Line'' ''sku'' TYPE_STRING [] False None,
                  ex_field ''shop.Line'' ''tags'' TYPE_STRING [] True None],
     md_Options = Some \<lparr>pt_Name = ''lines'', pt_ChildOf = Some ''orders on id'', pt_Clickhouse = None\<rparr>\<rparr>"

text \<open>A message that contains itself\<close>

definition ex_tree :: MessageDesc where
  "ex_tree = \<lparr>md_FullName = ''shop.Tree'', md_Name = ''Tree'',
     md_Fields = [ex_field ''shop.Tree'' ''label'' TYPE_STRING [] False None,
                  ex_field ''shop.Tree'' ''left'' TYPE_MESSAGE ''shop.Tree'' False None],
     md_Options = None\<rparr>"

text \<open>Messages without options\<close>

definition ex_tag :: MessageDesc where
  "ex_tag = \<lparr>md_FullName = ''shop.Tag'', md_Name = ''Tag'',
     md_Fields = [ex_field ''shop.Tag'' ''label'' TYPE_STRING [] False None], md_Options = None\<rparr>"

definition ex_cart :: MessageDesc where
  "ex_cart = \<lparr>md_FullName = ''shop.Cart'', md_Name = ''Cart'',
     md_Fields = [ex_field ''shop.Cart'' ''id'' TYPE_UINT64 [] False (Some ex_key),
                  ex_field ''shop.Cart'' ''tags'' TYPE_MESSAGE ''shop.Tag'' True None], md_Options = None\<rparr>"

definition ex_descs :: Descs where
  "ex_descs n = (if n = ''shop.Order'' then ex_order else if n = ''shop.Line'' then ex_line
     else if n = ''shop.Cart'' then ex_cart else if n = ''shop.Tag'' then ex_tag else ex_tree)"

text \<open>The tables of the two messages, as \<open>NewTable\<close> makes them\<close>

definition ex_column :: "bool \<Rightarrow> FieldDesc \<Rightarrow> Column" where
  "ex_column key fd = \<lparr>cl_Name = fd_Name fd, cl_ForeignKey = None, cl_Field = fd, cl_IsPrimaryKey = key,
     cl_IsUnique = False, cl_IsRepeated = fd_IsRepeated fd, cl_IsExtension = False, cl_IsMessage = False, cl_Message = []\<rparr>"

definition ex_orders_table :: Table where
  "ex_orders_table = (let fds = md_Fields ex_order in
     \<lparr>tb_Name = ''orders'',
      tb_PrimaryKey = Some \<lparr>pk_Name = ''id'', pk_Field = fds ! 0, pk_Index = 0\<rparr>, tb_ChildOf = None,
      tb_Columns = [ex_column True (fds ! 0), ex_column False (fds ! 2)], tb_Ordinal = 0,
      tb_Info = \<lparr>pt_Name = ''orders'', pt_ChildOf = None, pt_Clickhouse = None\<rparr>\<rparr>)"

definition ex_lines_table :: Table where
  "ex_lines_table = \<lparr>tb_Name = ''lines'', tb_PrimaryKey = None,
      tb_ChildOf = Some \<lparr>ParentTable = ''orders'', ParentTableField = ''id''\<rparr>,
      tb_Columns = map (ex_column False) (md_Fields ex_line), tb_Ordinal = 1,
      tb_Info = \<lparr>pt_Name = ''lines'', pt_ChildOf = Some ''orders on id'', pt_Clickhouse = None\<rparr>\<rparr>"

definition ex_dialect :: BaseDialect where
  "ex_dialect = NewBaseDialect [(''lines'', ex_lines_table), (''orders'', ex_orders_table)]"

definition ex_floats :: "unit Floats" where
  "ex_floats = \<lparr>ParseFloat = \<lambda>_. Inr (), float_to_int64 = \<lambda>_. 0, FormatFloat = \<lambda>_ _. ''0''\<rparr>"

definition ex_penv :: "(unit, unit MemConn) PgEnv" where
  "ex_penv = \<lparr>pe_conn = mem_conn (\<lambda>_. False), pe_descs = ex_descs, pe_floats = ex_floats, pe_printable = \<lambda>_. True,
     pe_schemaName = ''shop'', pe_dialect = ex_dialect, pe_useConstraints = True,
     pe_NewCursor = \<lambda>s. Inr \<lparr>c_string = s, c_num = 0, c_id = []\<rparr>\<rparr>"

text \<open>An order with two lines, and its block\<close>

definition ex_line_msg :: "string \<Rightarrow> string list \<Rightarrow> unit Message" where
  "ex_line_msg sku tags = Message ''shop.Line'' [(''sku'', (True, V_string sku)), (''tags'', (True, V_list (map V_string tags)))]"

definition ex_order_msg :: "unit Message" where
  "ex_order_msg = Message ''shop.Order''
     [(''id'', (True, V_string ''o1'')), (''total'', (True, V_uint64 7)),
      (''lines'', (True, V_list [V_message (Some (ex_line_msg ''pen'' [''red''])), V_message (Some (ex_line_msg ''cup'' [])) ]))]"

definition ex_penv_sink :: "(unit, unit MemConn PgDatabase) ProtoEnv" where
  "ex_penv_sink = \<lparr>pn_db = pg_DatabaseI ex_penv, pn_moduleName = ''map_orders'', pn_unmarshal = \<lambda>_. Inr ex_order_msg,
     pn_reachedEndBlock = \<lambda>_. True, pn_flushTook = \<lambda>_. 0, pn_now = \<lambda>_. 0, pn_schedule = []\<rparr>"

definition ex_cursor :: "u64 \<Rightarrow> Cursor" where
  "ex_cursor n = \<lparr>c_string = ''c'' @ dec (unat n), c_num = n, c_id = ''b'' @ dec (unat n)\<rparr>"

definition ex_block :: "u64 \<Rightarrow> ProtoBlock \<times> bool option \<times> Cursor" where
  "ex_block n = (\<lparr>pb_outputName = ''map_orders'', pb_value = ''x'', pb_number = n, pb_id = ''b'' @ dec (unat n),
                  pb_timestamp = (0, 0)\<rparr>, Some False, ex_cursor n)"

definition ex_opened :: "unit MemConn PgDatabase" where
  "ex_opened = snd (pg_Open ex_penv (NewPgDatabase True \<lparr>mc_committed = [], mc_open = [], mc_next = 0\<rparr>))"

definition ex_sink :: "unit MemConn PgDatabase ProtoSinker" where
  "ex_sink = proto_NewSinker ex_opened True 1 False"

text \<open>The table of the orders is that of the code.\<close>

lemma ex_tables:
  "NewTable ex_descs ex_order \<lparr>pt_Name = ''orders'', pt_ChildOf = None, pt_Clickhouse = None\<rparr> 0 = Inr (Some ex_orders_table)"
  by code_simp

end
