(* ===== verification/ProtoProperties.thy ===== *)
theory ProtoProperties
  imports ProtoExamples
begin

text \<open>
  The properties of the second way of reading a module: the schema that is derived from a message type, the rows
  that a message becomes, and what the sink commits.
\<close>

section \<open>Blocks\<close>

text \<open>A run of the sink: blocks are handed over one after the other until a handler fails.\<close>

definition holder_of :: "ProtoBlock \<times> bool option \<times> Cursor \<Rightarrow> Holder" where
  "holder_of = (\<lambda>(data, isLive, cursor). \<lparr>h_data = data, h_isLive = isLive, h_cursor = cursor\<rparr>)"

fun feed :: "('f, 'd) ProtoEnv \<Rightarrow> (ProtoBlock \<times> bool option \<times> Cursor) list \<Rightarrow> 'd ProtoSinker \<Rightarrow> Outcome \<times> 'd ProtoSinker" where
  "feed env [] sk = (Done, sk)"
| "feed env ((data, isLive, cursor) # bs) sk =
     and_then (proto_HandleBlockScopedData env data isLive cursor sk) (feed env bs)"

text \<open>What a batch of held blocks puts into the database: their rows, and the cursor of the last of them\<close>

definition stored_batch ::
    "('f, 'd) ProtoEnv \<Rightarrow> ('f, 'c) PgEnv \<Rightarrow> bool \<Rightarrow> Inserter \<Rightarrow> Holder list \<Rightarrow> (string \<times> 'f Value list) list" where
  "stored_batch env penv u ins hs =
     batch_statements (pe_floats penv) ins (concat (map (holder_rows env penv u) hs))
     @ [cursor_statement ins (h_cursor (last hs))]"

lemma apply_batch_flags:
  assumes "apply_batch env data cursor sk = (r, sk')"
  shows "in_transaction sk' = in_transaction sk"
  using assms by (auto simp: apply_batch_def in_transaction_def Let_def split: prod.splits Outcome.splits)

lemma handle_block_atomic:
  assumes c: "sql_transactions conn committed pend"
    and env: "pe_conn penv = conn" "pn_db env = pg_DatabaseI penv"
    and tx: "in_transaction sk"
    and st: "settled (dp_inserter (ps_db sk))" "dp_inserter (ps_db sk) \<noteq> NoInserter"
    and run: "proto_HandleBlockScopedData env data isLive cursor sk = (r, sk')"
    and hs: "hs = holding sk @ [holder_of (data, isLive, cursor)]"
  shows "(committed (dp_conn (ps_db sk')) = committed (dp_conn (ps_db sk)) \<and> (r = Done \<longrightarrow> holding sk' = hs)
        \<or> committed (dp_conn (ps_db sk')) = committed (dp_conn (ps_db sk))
            @ stored_batch env penv (dp_useProtoOptions (ps_db sk)) (dp_inserter (ps_db sk)) hs
          \<and> (r = Done \<longrightarrow> holding sk' = []))
    \<and> (r = Done \<longrightarrow> in_transaction sk' \<and> dp_inserter (ps_db sk') = dp_inserter (ps_db sk)
         \<and> dp_useProtoOptions (ps_db sk') = dp_useProtoOptions (ps_db sk))"
proof -
  define sk1 where "sk1 = sk\<lparr>holding := hs\<rparr>"
  have tx1: "in_transaction sk1" and same: "ps_db sk1 = ps_db sk" "holding sk1 = hs"
    using tx by (simp_all add: sk1_def in_transaction_def)
  have last: "h_cursor (last hs) = cursor" by (simp add: hs holder_of_def)
  show ?thesis
  proof (cases "pb_outputName data = pn_moduleName env \<and> proto_flush_due sk1 data isLive")
    case True
    with run have a: "apply_batch env data cursor sk1 = (r, sk')"
      by (simp add: proto_HandleBlockScopedData_def Let_def sk1_def hs holder_of_def)
    from sql_transactions.apply_batch_atomic [OF c env tx1 _ _ a refl] apply_batch_flags [OF a] tx1 st last same
    show ?thesis by (auto simp: stored_batch_def)
  next
    case False
    with run have "ps_db sk' = ps_db sk" "r = Done \<Longrightarrow> holding sk' = hs" "r = Done \<Longrightarrow> in_transaction sk'"
      using tx1 by (auto simp: proto_HandleBlockScopedData_def Let_def sk1_def hs holder_of_def split: if_splits)
    then show ?thesis by auto
  qed
qed

text \<open>The batches before a block, given those after it\<close>

lemma batches_step:
  assumes "c1 = c0 \<and> held = hs \<or> c1 = c0 @ S hs \<and> held = []" "hs \<noteq> []"
    and "concat batches @ rest = held @ ys" "[] \<notin> set batches" "cn = c1 @ concat (map S batches)"
  shows "\<exists>batches. concat batches @ rest = hs @ ys \<and> [] \<notin> set batches \<and> cn = c0 @ concat (map S batches)"
  using assms(1)
proof (elim disjE conjE)
  assume "c1 = c0" "held = hs"
  with assms(3-) show ?thesis by blast
next
  assume "c1 = c0 @ S hs" "held = []"
  with assms(2-) show ?thesis by (intro exI [of _ "hs # batches"]) simp
qed

text \<open>
  C26. Every block is stored once, with its cursor. Take any connection that keeps the contract of transactions,
  and let the sink work in transactions on a PostgreSQL database whose inserter is opened and has
  nothing accumulated. Hand it any blocks, live or not, until a handler fails or the blocks are
  over. Then what has been committed since is a sequence of whole batches, and each batch is the
  rows of its blocks, each row once and, for the row inserter, in order, followed by the cursor of the batch's last block; the blocks of the
  batches are the first of the blocks that were held and handed over, none missing and none twice.
  When no handler has failed, the blocks that are not in a batch are exactly those the sink holds.
\<close>

theorem blocks_are_stored_once:
  assumes c: "sql_transactions conn committed pend"
    and env: "pe_conn penv = conn" "pn_db env = pg_DatabaseI penv"
    and tx: "in_transaction sk"
    and st: "settled (dp_inserter (ps_db sk))" "dp_inserter (ps_db sk) \<noteq> NoInserter"
    and run: "feed env bs sk = (r, sk')"
  shows "\<exists>batches rest. concat batches @ rest = holding sk @ map holder_of bs \<and> [] \<notin> set batches
    \<and> committed (dp_conn (ps_db sk')) = committed (dp_conn (ps_db sk))
        @ concat (map (stored_batch env penv (dp_useProtoOptions (ps_db sk)) (dp_inserter (ps_db sk))) batches)
    \<and> (r = Done \<longrightarrow> rest = holding sk')"
  using tx st run
proof (induction bs arbitrary: sk)
  case Nil
  then show ?case by (intro exI [of _ "[]"] exI [of _ "holding sk"]) simp
next
  case (Cons b bs)
  obtain data isLive cursor where b: "b = (data, isLive, cursor)" by (cases b) auto
  define hs where "hs = holding sk @ [holder_of b]"
  let ?db = "ps_db sk"
  let ?S = "stored_batch env penv (dp_useProtoOptions ?db) (dp_inserter ?db)"
  have hs: "hs \<noteq> []" "hs @ map holder_of bs = holding sk @ map holder_of (b # bs)" by (simp_all add: hs_def)
  from Cons.prems(4) b have "and_then (proto_HandleBlockScopedData env data isLive cursor sk) (feed env bs) = (r, sk')"
    by simp
  then show ?case
  proof (cases rule: and_then_cases)
    case stopped
    let ?c1 = "committed (dp_conn (ps_db sk'))"
    from handle_block_atomic [OF c env Cons.prems(1-3) stopped(1) hs_def [unfolded b]] obtain held where
      "?c1 = committed (dp_conn ?db) \<and> held = hs \<or> ?c1 = committed (dp_conn ?db) @ ?S hs \<and> held = []" by blast
    then have "\<exists>batches. concat batches @ (held @ map holder_of bs) = hs @ map holder_of bs \<and> [] \<notin> set batches
        \<and> ?c1 = committed (dp_conn ?db) @ concat (map ?S batches)"
      by (rule batches_step [where batches = "[]", OF _ hs(1)]) simp_all
    with stopped(2) show ?thesis unfolding hs(2) by blast
  next
    case (went_on sk1)
    note h = handle_block_atomic [OF c env Cons.prems(1-3) went_on(1) hs_def [unfolded b]]
    then have k: "in_transaction sk1" "dp_inserter (ps_db sk1) = dp_inserter ?db"
      "dp_useProtoOptions (ps_db sk1) = dp_useProtoOptions ?db" by simp_all
    from Cons.IH [OF k(1) _ _ went_on(2)] k(2,3) Cons.prems(2,3) obtain batches rest where
      i: "concat batches @ rest = holding sk1 @ map holder_of bs" "[] \<notin> set batches"
        "committed (dp_conn (ps_db sk')) = committed (dp_conn (ps_db sk1)) @ concat (map ?S batches)"
        "r = Done \<longrightarrow> rest = holding sk'" by auto
    from h have "committed (dp_conn (ps_db sk1)) = committed (dp_conn ?db) \<and> holding sk1 = hs
      \<or> committed (dp_conn (ps_db sk1)) = committed (dp_conn ?db) @ ?S hs \<and> holding sk1 = []" by auto
    from batches_step [where S = ?S, OF this hs(1) i(1-3)] i(4) show ?thesis unfolding hs(2) by blast
  qed
qed

text \<open>A block with an order of two lines: the block, three rows and the cursor\<close>

theorem blocks_are_stored_once_witness:
  "\<exists>batches. concat batches = map holder_of [ex_block 5]
     \<and> mc_committed (dp_conn (ps_db (snd (feed ex_penv_sink [ex_block 5] ex_sink))))
       = concat (map (stored_batch ex_penv_sink ex_penv True (dp_inserter ex_opened)) batches)
     \<and> length (mc_committed (dp_conn (ps_db (snd (feed ex_penv_sink [ex_block 5] ex_sink))))) = 5"
proof -
  define result where "result = feed ex_penv_sink [ex_block 5] ex_sink"
  have e: "in_transaction ex_sink" "settled (dp_inserter (ps_db ex_sink))" "dp_inserter (ps_db ex_sink) \<noteq> NoInserter"
    "holding ex_sink = []" "mc_committed (dp_conn (ps_db ex_sink)) = []" "dp_useProtoOptions (ps_db ex_sink) = True"
    by code_simp+
  have "case feed ex_penv_sink [ex_block 5] ex_sink of
      (r, sk) \<Rightarrow> r = Done \<and> holding sk = [] \<and> length (mc_committed (dp_conn (ps_db sk))) = 5" by code_simp
  then have r: "fst result = Done \<and> holding (snd result) = [] \<and> length (mc_committed (dp_conn (ps_db (snd result)))) = 5"
    by (simp add: result_def split: prod.splits)
  have c: "pe_conn ex_penv = mem_conn (\<lambda>_. False)" "pn_db ex_penv_sink = pg_DatabaseI ex_penv" "ps_db ex_sink = ex_opened"
    by (simp_all add: ex_penv_def ex_penv_sink_def ex_sink_def proto_NewSinker_def)
  have p: "feed ex_penv_sink [ex_block 5] ex_sink = (fst result, snd result)" by (simp add: result_def)
  from blocks_are_stored_once [OF mem_tx.sql_transactions_axioms c(1,2) e(1-3) p] e(4-) r c(3)
  show ?thesis unfolding result_def [symmetric] by auto
qed

section \<open>The schema\<close>

lemma NewSchema_Returns:
  assumes "NewSchema descs name rootName withOption = Some (Returns sc)"
  shows "walk_fields descs (register descs withOption) (descs rootName) (md_Fields (descs rootName)) 0 []
    = Some (Returns (TableRegistry sc))"
  using assms by (auto simp: NewSchema_def Schema_init_def walkMessageDescriptor_def Let_def ret_bind_Returns)

text \<open>
  C31. A schema is derived from message types of finite depth only. If the root type and the types it is built from
  have a finite depth, the walk over the descriptors returns; and whenever a schema is derived the root
  type has a finite depth. So for a message type that contains itself, directly or through others, no
  schema is ever derived: the walk has no end.
\<close>

theorem schema_needs_finite_types:
  "(unfolds descs (descs rootName) \<longrightarrow> NewSchema descs name rootName withOption \<noteq> None)
   \<and> ((\<exists>sc. NewSchema descs name rootName withOption = Some (Returns sc)) \<longrightarrow> unfolds descs (descs rootName))"
proof (intro conjI impI)
  assume "unfolds descs (descs rootName)"
  from walk_returns [OF this] show "NewSchema descs name rootName withOption \<noteq> None"
    by (simp add: NewSchema_def Schema_init_def walkMessageDescriptor_def Let_def)
next
  assume "\<exists>sc. NewSchema descs name rootName withOption = Some (Returns sc)"
  then obtain sc where "NewSchema descs name rootName withOption = Some (Returns sc)" by blast
  from walk_fields_unfolds [OF NewSchema_Returns [OF this] refl] show "unfolds descs (descs rootName)"
    by (auto intro: unfolds_intro)
qed

text \<open>Orders with their lines, and a tree\<close>

theorem schema_needs_finite_types_witness:
  "NewSchema ex_descs ''shop'' ''shop.Order'' True \<noteq> None
   \<and> (\<forall>sc. NewSchema ex_descs ''shop'' ''shop.Tree'' False \<noteq> Some (Returns sc))"
proof
  have l: "unfolds ex_descs ex_line"
    by (rule unfolds_intro) (auto simp: ex_line_def ex_field_def)
  have "unfolds ex_descs (ex_descs ''shop.Order'')"
    by (rule unfolds_intro) (auto simp: ex_order_def ex_field_def ex_descs_def intro: l)
  with schema_needs_finite_types [of ex_descs "''shop.Order''" "''shop''" True]
  show "NewSchema ex_descs ''shop'' ''shop.Order'' True \<noteq> None" by blast
  have "\<not> unfolds ex_descs ex_tree"
  proof
    assume "unfolds ex_descs ex_tree"
    from unfolds_no_cycle [OF this, of "ex_field ''shop.Tree'' ''left'' TYPE_MESSAGE ''shop.Tree'' False None"]
    show False by (auto simp: ex_tree_def ex_field_def ex_descs_def intro: contains_refl)
  qed
  with schema_needs_finite_types [of ex_descs "''shop.Tree''" "''shop''" False]
  show "\<forall>sc. NewSchema ex_descs ''shop'' ''shop.Tree'' False \<noteq> Some (Returns sc)"
    by (auto simp: ex_descs_def)
qed

text \<open>A registry whose tables are those of messages: each has the columns of its message's fields, in order.\<close>

definition table_of_message :: "Descs \<Rightarrow> bool \<Rightarrow> MessageDesc \<Rightarrow> string \<Rightarrow> Table \<Rightarrow> bool" where
  "table_of_message descs withOption md n t \<longleftrightarrow>
     (\<exists>ti. table_info withOption md = Returns (Some ti) \<and> pt_Name ti = n \<and> tb_Name t = n
        \<and> (tb_ChildOf t = None \<longleftrightarrow> pt_ChildOf ti = None))
     \<and> traverse (NewColumn descs) (column_fields descs (md_Fields md)) = Inr (tb_Columns t) \<and> tb_Columns t \<noteq> []
     \<and> key_of_columns (tb_Columns t) (tb_PrimaryKey t)"

lemma register_Returns:
  assumes "register descs withOption md k reg = Returns reg'"
  obtains "table_info withOption md = Returns None" "reg' = reg"
  | ti where "table_info withOption md = Returns (Some ti)" "map_of reg (pt_Name ti) \<noteq> None" "reg' = reg"
  | ti where "table_info withOption md = Returns (Some ti)" "NewTable descs md ti k = Inr None" "reg' = reg"
  | ti t where "table_info withOption md = Returns (Some ti)" "map_of reg (pt_Name ti) = None"
      "NewTable descs md ti k = Inr (Some t)" "reg' = AList.update (pt_Name ti) t reg"
proof -
  from assms obtain x where x: "table_info withOption md = Returns x"
    and r: "(case x of None \<Rightarrow> Returns reg
      | Some ti \<Rightarrow> if map_of reg (pt_Name ti) \<noteq> None then Returns reg
          else (case NewTable descs md ti k of
                  Inl e \<Rightarrow> Fails (Wrapf ''creating table message descriptor: %w'' [] e)
                | Inr None \<Rightarrow> Returns reg
                | Inr (Some t) \<Rightarrow> Returns (AList.update (pt_Name ti) t reg))) = Returns reg'"
    unfolding register_def ret_bind_Returns by blast
  show ?thesis
  proof (cases x)
    case None
    with r have "reg' = reg" by simp
    with x None show ?thesis by (intro that(1)) simp_all
  next
    case (Some ti)
    note ti = x [unfolded Some]
    show ?thesis
    proof (cases "map_of reg (pt_Name ti) = None")
      case False
      with r Some have "reg' = reg" by simp
      from that(2) [OF ti False this] show ?thesis .
    next
      case True
      with r Some obtain y where y: "NewTable descs md ti k = Inr y"
        by (cases "NewTable descs md ti k") simp_all
      show ?thesis
      proof (cases y)
        case None
        with r Some True y have "reg' = reg" by simp
        from that(3) [OF ti y [unfolded None] this] show ?thesis .
      next
        case (Some t)
        with r \<open>x = Some ti\<close> True y have "reg' = AList.update (pt_Name ti) t reg" by simp
        from that(4) [OF ti True y [unfolded Some] this] show ?thesis .
      qed
    qed
  qed
qed

text \<open>
  C33. A schema has the tables of its messages and no others. In a schema that was derived, every table is the table
  of a message that the root message contains: it has the name and the parent of the message's table
  info, its columns are the message's fields that are not skipped, in their order, and its primary key is
  the only column marked as key. And every contained message that has a table info, columns and no
  timestamp type has its name in the registry.
\<close>

theorem schema_has_its_tables:
  assumes "NewSchema descs name rootName withOption = Some (Returns sc)"
  shows "(\<forall>n t. map_of (TableRegistry sc) n = Some t \<longrightarrow>
            (\<exists>md. contains descs (descs rootName) md \<and> table_of_message descs withOption md n t))
    \<and> (\<forall>md ti. contains descs (descs rootName) md \<and> table_info withOption md = Returns (Some ti) \<and> \<not> is_Timestamp md
          \<and> column_fields descs (md_Fields md) \<noteq> [] \<longrightarrow> map_of (TableRegistry sc) (pt_Name ti) \<noteq> None)"
proof
  let ?reg = "register descs withOption" and ?root = "descs rootName"
  note w = NewSchema_Returns [OF assms]
  define Q where "Q reg \<longleftrightarrow> (\<forall>n t. map_of reg n = Some t \<longrightarrow>
      (\<exists>md. contains descs ?root md \<and> table_of_message descs withOption md n t))" for reg
  have "Q (TableRegistry sc)"
  proof (rule walk_fields_invariant [OF w refl order_refl contains_refl])
    fix m k a b
    assume m: "contains descs ?root m" and q: "Q a" and r: "?reg m k a = Returns b"
    from r show "Q b"
    proof (cases rule: register_Returns)
      case (4 ti t)
      have "table_of_message descs withOption m (pt_Name ti) t"
        using 4 NewTable_Some [OF 4(3)] by (auto simp: table_of_message_def)
      with m q 4(4) show ?thesis by (auto simp: Q_def update_conv' split: if_splits)
    qed (use q in auto)
  qed (simp add: Q_def)
  then show "\<forall>n t. map_of (TableRegistry sc) n = Some t \<longrightarrow>
    (\<exists>md. contains descs ?root md \<and> table_of_message descs withOption md n t)" by (simp add: Q_def)
  define D where "D md reg \<longleftrightarrow> (\<forall>ti. table_info withOption md = Returns (Some ti) \<and> \<not> is_Timestamp md
      \<and> column_fields descs (md_Fields md) \<noteq> [] \<longrightarrow> map_of reg (pt_Name ti) \<noteq> None)" for md and reg :: "Table gomap"
  have new: "D m b" if "?reg m k a = Returns b" for m k a b
    using that
  proof (cases rule: register_Returns)
    case (3 ti)
    then have "is_Timestamp m \<or> column_fields descs (md_Fields m) = []"
      using NewTable_None by blast
    then show ?thesis by (auto simp: D_def)
  qed (auto simp: D_def update_conv')
  have keep: "D m b" if "D m a" "?reg m' k a = Returns b" for m m' k a b
    using that(2,1) by (cases rule: register_Returns) (auto simp: D_def update_conv')
  from walk_fields_visits [OF w refl, of D] new keep
  have "D ?root (TableRegistry sc)" "\<forall>fd \<in> set (md_Fields ?root). fd_Type fd = TYPE_MESSAGE \<longrightarrow>
     (\<forall>m. contains descs (descs (fd_MessageType fd)) m \<longrightarrow> D m (TableRegistry sc))" by blast+
  then have "contains descs ?root md \<Longrightarrow> D md (TableRegistry sc)" for md by (auto elim: contains.cases)
  then show "\<forall>md ti. contains descs ?root md \<and> table_info withOption md = Returns (Some ti) \<and> \<not> is_Timestamp md
          \<and> column_fields descs (md_Fields md) \<noteq> [] \<longrightarrow> map_of (TableRegistry sc) (pt_Name ti) \<noteq> None"
    unfolding D_def by blast
qed

text \<open>A cart with tags: two tables\<close>

theorem schema_has_its_tables_witness:
  "\<exists>sc t. NewSchema ex_descs ''shop'' ''shop.Cart'' False = Some (Returns sc)
     \<and> map_of (TableRegistry sc) ''Tag'' = Some t
     \<and> (\<exists>md. contains ex_descs (ex_descs ''shop.Cart'') md \<and> table_of_message ex_descs False md ''Tag'' t)"
proof -
  have "case NewSchema ex_descs ''shop'' ''shop.Cart'' False of
      Some (Returns sc) \<Rightarrow> map_of (TableRegistry sc) ''Tag'' \<noteq> None | _ \<Rightarrow> False" by code_simp
  then obtain sc t where s: "NewSchema ex_descs ''shop'' ''shop.Cart'' False = Some (Returns sc)"
    and t: "map_of (TableRegistry sc) ''Tag'' = Some t" by (auto split: option.splits Ret.splits)
  from schema_has_its_tables [OF s] t s show ?thesis by blast
qed

section \<open>Rows and columns\<close>

text \<open>The columns of an insert after its head, as both inserters of PostgreSQL and RisingWave list them\<close>

definition data_columns :: "Table \<Rightarrow> Column list" where
  "data_columns t =
     filter (\<lambda>f. \<not> (case tb_PrimaryKey t of Some pk \<Rightarrow> cl_Name f = pk_Name pk | None \<Rightarrow> False)
                 \<and> \<not> cl_IsExtension f \<and> \<not> (cl_IsRepeated f \<and> cl_IsMessage f)) (tb_Columns t)"

lemma acc_columns_data:
  "acc_columns printable bn bt t = insert_head bn bt t @ map (QuotedName printable) (data_columns t)"
  by (simp add: acc_columns_def insert_fields_def data_columns_def)

text \<open>The value of a column for the value of its field: normalized, element by element in a list\<close>

definition column_value :: "'f Floats \<Rightarrow> FieldDesc \<Rightarrow> 'f Value \<Rightarrow> 'f Value \<Rightarrow> bool" where
  "column_value fl fd x v =
     (case x of
        V_list vs \<Rightarrow> (case traverse (NormalizeValue fl fd) vs of Inr ns \<Rightarrow> v = V_list ns | Inl e \<Rightarrow> False)
      | _ \<Rightarrow> NormalizeValue fl fd x = Inr v)"

text \<open>The values of a message are those of its type: a message in a message field, and none in a column.\<close>

definition message_valued :: "'f Value \<Rightarrow> bool" where
  "message_valued x = (case x of V_message m \<Rightarrow> True | V_list vs \<Rightarrow> vs = [] \<or> is_message (hd vs) | _ \<Rightarrow> False)"

definition conforms :: "Table \<Rightarrow> MessageDesc \<Rightarrow> 'f Message \<Rightarrow> bool" where
  "conforms t md dm \<longleftrightarrow> (\<forall>fd \<in> set (md_Fields md).
     if fd \<in> set (map cl_Field (tb_Columns t)) then message_valued (GetField dm fd) \<longrightarrow> GetField dm fd = V_list []
     else fd_Type fd = TYPE_MESSAGE \<longrightarrow> leaves_out (Some t) dm fd \<or> message_valued (GetField dm fd))"

definition is_key_field :: "Table \<Rightarrow> FieldDesc \<Rightarrow> bool" where
  "is_key_field t fd = (case tb_PrimaryKey t of None \<Rightarrow> False | Some k \<Rightarrow> fd = pk_Field k)"

lemma field_output_column:
  assumes "field_output fl md dm fd = Inr (ms, vs)" "\<not> message_valued (GetField dm fd)"
  shows "\<exists>v. vs = [v] \<and> column_value fl fd (GetField dm fd) v"
  using assms
  by (cases "GetField dm fd")
    (auto simp: field_output_def message_valued_def column_value_def split: if_splits sum.splits)

lemma field_output_message:
  assumes "field_output fl md dm fd = Inr (ms, vs)" "message_valued (GetField dm fd)"
  shows "vs = []"
  using assms
  by (cases "GetField dm fd")
    (auto simp: field_output_def message_valued_def split: if_splits sum.splits option.splits)

lemma fields_output_columns:
  assumes cols: "\<forall>fd \<in> set fds. fd \<in> set (map cl_Field (tb_Columns t)) \<longrightarrow> \<not> fd_InOneOf fd"
    and conf: "\<forall>fd \<in> set fds.
      if fd \<in> set (map cl_Field (tb_Columns t)) then message_valued (GetField dm fd) \<longrightarrow> GetField dm fd = V_list []
      else fd_Type fd = TYPE_MESSAGE \<longrightarrow> leaves_out (Some t) dm fd \<or> message_valued (GetField dm fd)"
    and out: "traverse (\<lambda>fd. if leaves_out (Some t) dm fd then Inr ([], []) else field_output fl md dm fd) fds = Inr outs"
  shows "list_all2 (\<lambda>fd v. column_value fl fd (GetField dm fd) v)
    (filter (\<lambda>fd. fd \<in> set (map cl_Field (tb_Columns t)) \<and> \<not> is_key_field t fd \<and> GetField dm fd \<noteq> V_list []) fds)
    (concat (map snd outs))"
  using assms
proof (induction fds arbitrary: outs)
  case (Cons fd fds)
  then obtain w1 outs' where w1: "(if leaves_out (Some t) dm fd then Inr ([], []) else field_output fl md dm fd) = Inr w1"
    and r: "traverse (\<lambda>fd. if leaves_out (Some t) dm fd then Inr ([], []) else field_output fl md dm fd) fds = Inr outs'"
    and outs: "outs = w1 # outs'" by (auto split: sum.splits)
  have IH: "list_all2 (\<lambda>fd v. column_value fl fd (GetField dm fd) v)
    (filter (\<lambda>fd. fd \<in> set (map cl_Field (tb_Columns t)) \<and> \<not> is_key_field t fd \<and> GetField dm fd \<noteq> V_list []) fds)
    (concat (map snd outs'))" using Cons.IH [OF _ _ r] Cons.prems(1,2) by simp
  show ?case
  proof (cases "fd \<in> set (map cl_Field (tb_Columns t))")
    case True
    then have lo: "leaves_out (Some t) dm fd \<longleftrightarrow> is_key_field t fd"
      using Cons.prems(1) by (auto simp: leaves_out_def is_key_field_def split: option.splits)
    show ?thesis
    proof (cases "is_key_field t fd \<or> GetField dm fd = V_list []")
      case skip: True
      then have "snd w1 = []" using w1 lo
        by (auto simp: field_output_def split: if_splits)
      with IH outs skip show ?thesis by auto
    next
      case False
      with Cons.prems(2) True have nm: "\<not> message_valued (GetField dm fd)" by auto
      obtain ms vs where mv: "w1 = (ms, vs)" by force
      from w1 lo False mv have "field_output fl md dm fd = Inr (ms, vs)" by (simp split: if_splits)
      from field_output_column [OF this nm] IH outs True False mv show ?thesis by auto
    qed
  next
    case False
    obtain ms vs where mv: "w1 = (ms, vs)" by force
    have "vs = []"
    proof (cases "leaves_out (Some t) dm fd")
      case True
      with w1 mv show ?thesis by simp
    next
      case nl: False
      then have "fd_Type fd = TYPE_MESSAGE" using False by (auto simp: leaves_out_def)
      with Cons.prems(2) False nl have "message_valued (GetField dm fd)" by auto
      moreover from w1 nl mv have "field_output fl md dm fd = Inr (ms, vs)" by simp
      ultimately show ?thesis using field_output_message by blast
    qed
    with IH outs False mv show ?thesis by auto
  qed
qed simp

lemma table_fields:
  assumes "table_of_message descs wo md n t"
  shows "map cl_Field (tb_Columns t) = column_fields descs (md_Fields md)"
    "filter (\<lambda>fd. fd \<in> set (map cl_Field (tb_Columns t))) (md_Fields md) = map cl_Field (tb_Columns t)"
    "\<forall>c \<in> set (tb_Columns t). \<not> (cl_IsRepeated c \<and> cl_IsMessage c) \<and> \<not> fd_InOneOf (cl_Field c)"
proof -
  have t: "traverse (NewColumn descs) (column_fields descs (md_Fields md)) = Inr (tb_Columns t)"
    using assms by (simp add: table_of_message_def)
  show f: "map cl_Field (tb_Columns t) = column_fields descs (md_Fields md)"
    by (rule traverse_NewColumn_fields [OF t])
  show "filter (\<lambda>fd. fd \<in> set (map cl_Field (tb_Columns t))) (md_Fields md) = map cl_Field (tb_Columns t)"
    unfolding f by (auto simp: column_fields_def intro: filter_cong)
  show "\<forall>c \<in> set (tb_Columns t). \<not> (cl_IsRepeated c \<and> cl_IsMessage c) \<and> \<not> fd_InOneOf (cl_Field c)"
  proof
    fix c
    assume c: "c \<in> set (tb_Columns t)"
    then have "cl_Field c \<in> set (column_fields descs (md_Fields md))" using f by (metis image_eqI set_map)
    moreover from t c obtain fd where "NewColumn descs fd = Inr c"
      by (auto simp: traverse_Inr_iff list_all2_conv_all_nth in_set_conv_nth)
    ultimately show "\<not> (cl_IsRepeated c \<and> cl_IsMessage c) \<and> \<not> fd_InOneOf (cl_Field c)"
      using NewColumn_Inr by (auto simp: column_fields_def skips_field_def)
  qed
qed

text \<open>The key is found by its field when the row is made and by its name when the columns are listed.\<close>

lemma key_by_name_or_field:
  assumes "key_of_columns cols (tb_PrimaryKey t)" "distinct (map cl_Name cols)" "distinct (map cl_Field cols)"
    and "c \<in> set cols"
  shows "is_key_field t (cl_Field c) \<longleftrightarrow> (case tb_PrimaryKey t of Some pk \<Rightarrow> cl_Name c = pk_Name pk | None \<Rightarrow> False)"
proof (cases "tb_PrimaryKey t")
  case (Some k)
  with assms(1) obtain c' where c: "filter cl_IsPrimaryKey cols = [c']" "pk_Name k = cl_Name c'" "pk_Field k = cl_Field c'"
    by (auto simp: key_of_columns_def map_eq_Cons_conv)
  from c(1) have "c' \<in> set (filter cl_IsPrimaryKey cols)" by simp
  then have "c' \<in> set cols" by simp
  with c(2,3) Some assms(2-4) show ?thesis
    by (auto simp: is_key_field_def distinct_map dest: inj_onD)
qed (simp add: is_key_field_def)

lemma data_columns_fields:
  assumes t: "table_of_message descs wo md n t"
    and "distinct (map cl_Name (tb_Columns t))" "distinct (md_Fields md)"
    and "\<forall>c \<in> set (tb_Columns t). \<not> cl_IsExtension c"
  shows "filter (\<lambda>fd. fd \<in> set (map cl_Field (tb_Columns t)) \<and> \<not> is_key_field t fd \<and> P fd) (md_Fields md)
    = map cl_Field (filter (\<lambda>c. P (cl_Field c)) (data_columns t))"
proof -
  have d: "distinct (map cl_Field (tb_Columns t))"
    using assms(3) by (simp add: table_fields(1) [OF t] column_fields_def)
  have k: "key_of_columns (tb_Columns t) (tb_PrimaryKey t)" using t by (simp add: table_of_message_def)
  have "filter (\<lambda>fd. fd \<in> set (map cl_Field (tb_Columns t)) \<and> \<not> is_key_field t fd \<and> P fd) (md_Fields md)
    = filter (\<lambda>fd. \<not> is_key_field t fd \<and> P fd) (map cl_Field (tb_Columns t))"
    using table_fields(2) [OF t] by (metis (no_types, lifting) filter_cong filter_filter)
  also have "\<dots> = map cl_Field (filter (\<lambda>c. \<not> is_key_field t (cl_Field c) \<and> P (cl_Field c)) (tb_Columns t))"
    by (simp add: filter_map comp_def)
  also have "filter (\<lambda>c. \<not> is_key_field t (cl_Field c) \<and> P (cl_Field c)) (tb_Columns t)
    = filter (\<lambda>c. P (cl_Field c)) (data_columns t)"
    using key_by_name_or_field [OF k assms(2) d] assms(4) table_fields(3) [OF t]
    by (auto simp: data_columns_def intro!: filter_cong)
  finally show ?thesis .
qed

text \<open>
  C34. The values of a row are those of its columns, in the order of the columns. Take a message whose values are those
  of its type and whose table is the one its type gives, with different names for its columns. When a row is made
  of it, the row starts with block, time, key and parent, one value for each of the first columns of the insert,
  and then has the normalized value of every other column of the insert in turn, except for the columns whose field is an
  empty list: these are left out. So a row has as many values as its insert has columns exactly when no such field
  is empty; if one is, the values after it belong to other columns than they stand in.
\<close>

theorem row_follows_columns:
  assumes t: "table_of_message descs wo md n t" "message_table env ti = Some t" "we_descs env (msg_type dm) = md"
    and flags: "\<not> UseVersionField env" "\<not> UseDeletedField env"
    and names: "distinct (map cl_Name (tb_Columns t))" "distinct (md_Fields md)" "\<forall>c \<in> set (tb_Columns t). \<not> cl_IsExtension c"
    and parent: "parent = None \<longleftrightarrow> tb_ChildOf t = None"
    and conf: "conforms t md dm"
    and row: "message_values env bn ts version parent ti dm = Returns (vals, key, childs)"
  shows "\<exists>head rest. vals = head @ rest \<and> length head = length (insert_head nb nt t)
    \<and> list_all2 (\<lambda>c v. column_value (we_floats env) (cl_Field c) (GetField dm (cl_Field c)) v)
        (filter (\<lambda>c. GetField dm (cl_Field c) \<noteq> V_list []) (data_columns t)) rest
    \<and> (length vals = length (acc_columns printable nb nt t)
        \<longleftrightarrow> (\<forall>c \<in> set (data_columns t). GetField dm (cl_Field c) \<noteq> V_list []))"
proof -
  let ?P = "\<lambda>fd. GetField dm fd \<noteq> V_list []" and ?R = "\<lambda>fd v. column_value (we_floats env) fd (GetField dm fd) v"
  from row t(2,3) have k: "key_value md (case ti of Some t \<Rightarrow> pt_Name t | None \<Rightarrow> []) (Some t) dm = Returns key"
    and "\<exists>rest. fields_output (we_floats env) md (Some t) dm = Inr (childs, rest)
        \<and> vals = row_head env bn ts version key parent @ rest"
    by (auto simp: message_values_def Let_def ret_bind_Returns)
  then obtain rest where f: "fields_output (we_floats env) md (Some t) dm = Inr (childs, rest)"
    and vals: "vals = row_head env bn ts version key parent @ rest" by blast
  from f obtain outs where o: "traverse (\<lambda>fd. if leaves_out (Some t) dm fd then Inr ([], [])
      else field_output (we_floats env) md dm fd) (md_Fields md) = Inr outs" and rest: "rest = concat (map snd outs)"
    by (auto simp: fields_output_def split: sum.splits)
  from k have key: "key = None \<longleftrightarrow> tb_PrimaryKey t = None"
    by (auto simp: key_value_def split: option.splits Value.splits)
  have head: "length (row_head env bn ts version key parent) = length (insert_head nb nt t)"
    using key parent flags by (auto simp: row_head_def insert_head_def split: option.splits)
  have cols: "\<forall>fd \<in> set (md_Fields md). fd \<in> set (map cl_Field (tb_Columns t)) \<longrightarrow> \<not> fd_InOneOf fd"
    using table_fields(3) [OF t(1)] by auto
  have "list_all2 ?R (map cl_Field (filter (\<lambda>c. ?P (cl_Field c)) (data_columns t))) rest"
    using fields_output_columns [OF cols conf [unfolded conforms_def] o]
    unfolding rest data_columns_fields [OF t(1) names, of ?P] .
  then have r: "list_all2 (\<lambda>c. ?R (cl_Field c)) (filter (\<lambda>c. ?P (cl_Field c)) (data_columns t)) rest"
    by (simp add: list_all2_map1)
  have "length rest = length (filter (\<lambda>c. ?P (cl_Field c)) (data_columns t))"
    using list_all2_lengthD [OF r] by simp
  then have "length vals = length (acc_columns printable nb nt t) \<longleftrightarrow>
      length (filter (\<lambda>c. ?P (cl_Field c)) (data_columns t)) = length (data_columns t)"
    by (simp add: vals acc_columns_data head)
  also have "\<dots> \<longleftrightarrow> (\<forall>c \<in> set (data_columns t). ?P (cl_Field c))"
    using length_filter_less [of _ "data_columns t" "\<lambda>c. ?P (cl_Field c)"] by (fastforce simp: filter_id_conv)
  finally show ?thesis using vals head r by blast
qed

text \<open>A line of an order with a tag\<close>

theorem row_follows_columns_witness:
  "\<exists>vals key childs. message_values (pg_walk_env ex_penv True) 5 (0, 0) 0 (Some \<lparr>pr_field = ''order'', pr_id = V_string ''o1''\<rparr>)
       (Some \<lparr>pt_Name = ''lines'', pt_ChildOf = Some ''orders on id'', pt_Clickhouse = None\<rparr>) (ex_line_msg ''pen'' [''red'']) = Returns (vals, key, childs)
     \<and> length vals = length (acc_columns (\<lambda>_. True) ''_block_number_'' ''_block_timestamp_'' ex_lines_table)"
proof -
  let ?m = "message_values (pg_walk_env ex_penv True) 5 (0, 0) 0 (Some \<lparr>pr_field = ''order'', pr_id = V_string ''o1''\<rparr>)
       (Some \<lparr>pt_Name = ''lines'', pt_ChildOf = Some ''orders on id'', pt_Clickhouse = None\<rparr>) (ex_line_msg ''pen'' [''red''])"
  have "traverse (NewColumn ex_descs) (column_fields ex_descs (md_Fields ex_line)) = Inr (tb_Columns ex_lines_table)"
    "table_info True ex_line = Returns (Some \<lparr>pt_Name = ''lines'', pt_ChildOf = Some ''orders on id'', pt_Clickhouse = None\<rparr>)"
    "key_of_columns (tb_Columns ex_lines_table) (tb_PrimaryKey ex_lines_table)" by code_simp+
  then have t: "table_of_message ex_descs True ex_line ''lines'' ex_lines_table"
    by (simp add: table_of_message_def ex_lines_table_def ex_line_def)
  have e: "message_table (pg_walk_env ex_penv True) (Some \<lparr>pt_Name = ''lines'', pt_ChildOf = Some ''orders on id'', pt_Clickhouse = None\<rparr>) = Some ex_lines_table"
    "we_descs (pg_walk_env ex_penv True) (msg_type (ex_line_msg ''pen'' [''red''])) = ex_line"
    "\<not> UseVersionField (pg_walk_env ex_penv True)" "\<not> UseDeletedField (pg_walk_env ex_penv True)"
    "distinct (map cl_Name (tb_Columns ex_lines_table))" "distinct (md_Fields ex_line)"
    "\<forall>c \<in> set (tb_Columns ex_lines_table). \<not> cl_IsExtension c"
    "conforms ex_lines_table ex_line (ex_line_msg ''pen'' [''red''])"
    "\<forall>c \<in> set (data_columns ex_lines_table). GetField (ex_line_msg ''pen'' [''red'']) (cl_Field c) \<noteq> V_list []" by code_simp+
  have p: "Some \<lparr>pr_field = ''order'', pr_id = V_string ''o1'' :: unit Value\<rparr> = None \<longleftrightarrow> tb_ChildOf ex_lines_table = None"
    by (simp add: ex_lines_table_def)
  have "case ?m of Returns r \<Rightarrow> True | _ \<Rightarrow> False" by code_simp
  then obtain vals key childs where m: "?m = Returns (vals, key, childs)" by (auto split: Ret.splits)
  from row_follows_columns [OF t e(1-7) p e(8) m, of "''_block_number_''" "''_block_timestamp_''" "\<lambda>_. True"] e(9) m
  show ?thesis by blast
qed

end
