(* ===== verification/ProtoDbProperties.thy ===== *)
theory ProtoDbProperties
  imports ProtoFactory ProtoProperties
begin

text \<open>
  The properties of the databases of messages: the columns that are created are those that are inserted, the keys that
  RisingWave gives to tables, the columns of ClickHouse and its undo, and the first start of a sink.
\<close>

section \<open>Columns created and inserted\<close>

text \<open>A list of definitions, one per column, with a comma after each: what the loops over columns write\<close>

definition column_list :: "string list \<Rightarrow> string list \<Rightarrow> string" where
  "column_list cols types = concat (map2 (\<lambda>c t. c @ t @ '','') cols types)"

lemma column_list_append:
  "length cols = length types \<Longrightarrow> column_list (cols @ cols') (types @ types') = column_list cols types @ column_list cols' types'"
  by (simp add: column_list_def)

lemma column_list_simps [simp]:
  "column_list [] ts = []" "column_list (c # cs) (t # ts) = c @ t @ '','' @ column_list cs ts"
  by (simp_all add: column_list_def)

text \<open>Without the last comma it is the list separated by commas.\<close>

lemma butlast_column_list:
  assumes "length cols = length types" "cols \<noteq> []"
  shows "butlast (column_list cols types) = joinS '','' (map2 (@) cols types)"
  using assms
proof (induction cols types rule: list_induct2)
  case (Cons c cs t ts)
  show ?case
  proof (cases "cs = []")
    case True
    with Cons show ?thesis by (simp add: butlast_append)
  next
    case False
    with Cons.hyps obtain c' cs' t' ts' where x: "cs = c' # cs'" "ts = t' # ts'"
      by (cases cs; cases ts) auto
    have "column_list cs ts \<noteq> []" using x by simp
    with Cons.IH False x show ?thesis by (simp add: butlast_append)
  qed
qed simp

lemma ret_type_Returns [simp]: "ret_type x = Returns t \<longleftrightarrow> x = Some t"
  by (simp add: ret_type_def split: option.splits)

text \<open>A loop that appends a definition for some of the columns\<close>

lemma ret_fold_columns:
  assumes "ret_fold f cs b = Returns b'"
    and "\<And>c x y. c \<in> set cs \<Longrightarrow> f c x = Returns y \<Longrightarrow>
           (if P c then \<exists>t. g y = g x @ nm c @ t @ '','' else g y = g x)"
  shows "\<exists>types. length types = length (filter P cs) \<and> g b' = g b @ column_list (map nm (filter P cs)) types"
  using assms
proof (induction cs arbitrary: b)
  case Nil
  then show ?case by simp
next
  case (Cons c cs)
  from Cons.prems(1) obtain x where x: "f c b = Returns x" "ret_fold f cs x = Returns b'"
    by (auto simp: ret_bind_Returns)
  from Cons.IH [OF x(2)] Cons.prems(2) obtain types where
    t: "length types = length (filter P cs)" "g b' = g x @ column_list (map nm (filter P cs)) types" by fastforce
  from Cons.prems(2) [OF _ x(1)] have s: "if P c then \<exists>t. g x = g b @ nm c @ t @ '','' else g x = g b" by simp
  show ?case
  proof (cases "P c")
    case True
    with s obtain ty where "g x = g b @ nm c @ ty @ '',''" by auto
    with t True show ?thesis by (intro exI [of _ "ty # types"]) simp
  next
    case False
    with s t show ?thesis by auto
  qed
qed

lemma pg_add_column_text:
  assumes "pg_add_column printable sn tn table f b = Returns b'"
    and "cl_IsMessage f \<longrightarrow> cl_IsRepeated f \<or> pg_IsWellKnownType (cl_Field f)"
  shows "if cl_Name f \<noteq> (case tb_PrimaryKey table of Some pk \<Rightarrow> pk_Name pk | None \<Rightarrow> [])
    then \<exists>t. snd b' = snd b @ QuotedName printable f @ t @ '','' else snd b' = snd b"
proof -
  have add: "pg_column_text printable tn table f b0 = Returns y \<Longrightarrow>
      \<exists>t. snd y = snd b0 @ QuotedName printable f @ t @ '',''" for b0 y
    by (auto simp: pg_column_text_def ret_bind_Returns)
  show ?thesis
    using assms by (auto simp: pg_add_column_def Let_def dest!: add split: if_splits option.splits)
qed

lemma pg_add_key_text:
  "pg_add_key tn table b = Returns b' \<Longrightarrow>
     \<exists>types. length types = length (case tb_PrimaryKey table of Some pk \<Rightarrow> [pk_Name pk] | None \<Rightarrow> [])
       \<and> snd b' = snd b @ column_list (case tb_PrimaryKey table of Some pk \<Rightarrow> [pk_Name pk] | None \<Rightarrow> []) types"
  by (auto simp: pg_add_key_def ret_bind_Returns intro: exI [of _ "['' '' @ x]" for x] split: option.splits)

lemma pg_add_parent_text:
  assumes "pg_add_parent sn tn table b = Returns b'"
  shows "\<exists>types. length types = length (case tb_ChildOf table of Some co \<Rightarrow> [ParentTableField co] | None \<Rightarrow> [])
       \<and> snd b' = snd b @ column_list (case tb_ChildOf table of Some co \<Rightarrow> [ParentTableField co] | None \<Rightarrow> []) types"
proof (cases "tb_ChildOf table")
  case None
  with assms show ?thesis by (auto simp: pg_add_parent_def)
next
  case (Some co)
  with assms obtain pt :: Table and pf ty where f: "find (\<lambda>f. cl_Name f = ParentTableField co) (tb_Columns pt) = Some pf"
    and b: "snd b' = snd b @ cl_Name pf @ '' '' @ ty @ '' NOT NULL,''"
    by (auto simp: pg_add_parent_def ret_bind_Returns split: option.splits)
  from f have "cl_Name pf = ParentTableField co" by (auto simp: find_Some_iff)
  with b Some show ?thesis by (intro exI [of _ "['' '' @ ty @ '' NOT NULL'']"]) simp
qed

text \<open>The statement that creates a table is the list of the columns of the insert, each with a type\<close>

lemma pg_createTable_columns:
  assumes t: "table_of_message descs wo md n t"
    and create: "pg_createTable printable sn t d = Returns d'"
    and cols: "\<forall>c \<in> set (tb_Columns t). cl_Name c \<noteq> [] \<and> \<not> cl_IsExtension c \<and> (cl_IsMessage c \<longrightarrow> pg_IsWellKnownType (cl_Field c))"
    and head: "opening = ''CREATE TABLE IF NOT EXISTS '' @ FullTableName sn t @ '' (''"
    and acc: "names = acc_columns printable '' _block_number_'' '' _block_timestamp_'' t"
  obtains types q b where "length types = length names" "snd b = opening @ column_list names types"
    "d' = AddCreateTableSql (tb_Name t) (butlast (snd b) @ '');'' @ [CHR 0x0A]) (AddForeignKeySql (FullTableName sn t) q (fst b))"
proof -
  let ?tn = "FullTableName sn t" and ?key = "\<lambda>c. cl_Name c = (case tb_PrimaryKey t of Some pk \<Rightarrow> pk_Name pk | None \<Rightarrow> [])"
  from create obtain b1 b2 b3 where
    1: "pg_add_key ?tn t (d, (''CREATE TABLE IF NOT EXISTS '' @ ?tn @ '' ('') @ '' _block_number_ INTEGER NOT NULL,'' @ '' _block_timestamp_ TIMESTAMP NOT NULL,'') = Returns b1"
    and 2: "pg_add_parent sn ?tn t b1 = Returns b2"
    and 3: "ret_fold (pg_add_column printable sn ?tn t) (tb_Columns t) b2 = Returns b3"
    and d': "d' = AddCreateTableSql (tb_Name t) (butlast (snd b3) @ '');'' @ [CHR 0x0A])
           (AddForeignKeySql ?tn
              (''ALTER TABLE '' @ ?tn @ '' ADD CONSTRAINT fk_block FOREIGN KEY (_block_number_) REFERENCES ''
               @ sn @ ''._blocks_(number) ON DELETE CASCADE'') (fst b3))"
    by (auto simp: pg_createTable_def Let_def ret_bind_Returns)
  obtain ts3 where 3: "length ts3 = length (filter (\<lambda>c. \<not> ?key c) (tb_Columns t))"
    "snd b3 = snd b2 @ column_list (map (QuotedName printable) (filter (\<lambda>c. \<not> ?key c) (tb_Columns t))) ts3"
    using ret_fold_columns [OF 3, of "\<lambda>c. \<not> ?key c" snd "QuotedName printable"] pg_add_column_text cols by blast
  obtain ts1 ts2 where
    t1: "length ts1 = length (case tb_PrimaryKey t of Some pk \<Rightarrow> [pk_Name pk] | None \<Rightarrow> [])"
      "snd b1 = (opening @ '' _block_number_ INTEGER NOT NULL,'' @ '' _block_timestamp_ TIMESTAMP NOT NULL,'')
         @ column_list (case tb_PrimaryKey t of Some pk \<Rightarrow> [pk_Name pk] | None \<Rightarrow> []) ts1"
    and t2: "length ts2 = length (case tb_ChildOf t of Some co \<Rightarrow> [ParentTableField co] | None \<Rightarrow> [])"
      "snd b2 = snd b1 @ column_list (case tb_ChildOf t of Some co \<Rightarrow> [ParentTableField co] | None \<Rightarrow> []) ts2"
    using pg_add_key_text [OF 1] pg_add_parent_text [OF 2] unfolding head by auto
  have fields: "insert_fields printable (\<lambda>f. case tb_PrimaryKey t of Some pk \<Rightarrow> cl_Name f = pk_Name pk | None \<Rightarrow> False) t
      = map (QuotedName printable) (filter (\<lambda>c. \<not> ?key c) (tb_Columns t))"
    unfolding insert_fields_def
    using cols table_fields(3) [OF t]
    by (intro arg_cong [of _ _ "map (QuotedName printable)"] filter_cong) (auto split: option.splits)
  define types where "types = ['' INTEGER NOT NULL'', '' TIMESTAMP NOT NULL''] @ ts1 @ ts2 @ ts3"
  have "length types = length names"
    by (simp add: types_def acc acc_columns_def insert_head_def fields t1 t2 3 split: option.splits)
  moreover have "snd b3 = opening @ column_list names types"
    unfolding types_def acc acc_columns_def insert_head_def fields
    by (simp add: 3 t1 t2 column_list_append del: append_assoc) (simp add: column_list_append t1 t2 3)
  ultimately show thesis using that d' by blast
qed

text \<open>
  C35. The columns that PostgreSQL creates are those that are inserted. When a table of a schema, whose column names are
  not empty and whose message columns are timestamps, is created, the statement defines exactly the columns
  that the insert of the table lists, in the same order: block, time, key, parent and the other columns.
\<close>

theorem created_columns_are_inserted:
  assumes t: "table_of_message descs wo md n t"
    and create: "pg_createTable printable sn t d = Returns d'"
    and cols: "\<forall>c \<in> set (tb_Columns t). cl_Name c \<noteq> [] \<and> \<not> cl_IsExtension c \<and> (cl_IsMessage c \<longrightarrow> pg_IsWellKnownType (cl_Field c))"
  shows "\<exists>types. length types = length (acc_columns printable '' _block_number_'' '' _block_timestamp_'' t)
    \<and> GetCreateTableSql d' (tb_Name t) = ''CREATE TABLE IF NOT EXISTS '' @ FullTableName sn t @ '' (''
        @ joinS '','' (map2 (@) (acc_columns printable '' _block_number_'' '' _block_timestamp_'' t) types) @ '');'' @ [CHR 0x0A]
    \<and> pg_createInsertFromDescriptorAcc printable sn t = ''INSERT INTO '' @ FullTableName sn t @ '' (''
        @ joinS '', '' (acc_columns printable ''_block_number_'' ''_block_timestamp_'' t) @ '') VALUES ''"
proof -
  let ?names = "acc_columns printable '' _block_number_'' '' _block_timestamp_'' t"
  obtain types q b where len: "length types = length ?names"
    and b: "snd b = (''CREATE TABLE IF NOT EXISTS '' @ FullTableName sn t @ '' ('') @ column_list ?names types"
    and d': "d' = AddCreateTableSql (tb_Name t) (butlast (snd b) @ '');'' @ [CHR 0x0A]) (AddForeignKeySql (FullTableName sn t) q (fst b))"
    by (rule pg_createTable_columns [OF t create cols refl refl])
  have "column_list ?names types \<noteq> []"
    using len by (cases types) (simp_all add: acc_columns_def insert_head_def)
  then have "butlast (snd b) = (''CREATE TABLE IF NOT EXISTS '' @ FullTableName sn t @ '' ('') @ joinS '','' (map2 (@) ?names types)"
    using butlast_column_list [OF len [symmetric]] unfolding b by (simp add: butlast_append acc_columns_def insert_head_def)
  with len show ?thesis
    by (intro exI [of _ types])
      (simp add: d' AddCreateTableSql_def GetCreateTableSql_def getS_def update_conv'
         pg_createInsertFromDescriptorAcc_def acc_insert_def)
qed

text \<open>The table of the orders\<close>

lemma ex_orders_of_message: "table_of_message ex_descs True ex_order ''orders'' ex_orders_table"
proof -
  have "traverse (NewColumn ex_descs) (column_fields ex_descs (md_Fields ex_order)) = Inr (tb_Columns ex_orders_table)"
    "table_info True ex_order = Returns (Some \<lparr>pt_Name = ''orders'', pt_ChildOf = None, pt_Clickhouse = None\<rparr>)"
    "key_of_columns (tb_Columns ex_orders_table) (tb_PrimaryKey ex_orders_table)" by code_simp+
  then show ?thesis by (simp add: table_of_message_def ex_orders_table_def Let_def ex_order_def)
qed

theorem created_columns_are_inserted_witness:
  "\<exists>d' types. pg_createTable (\<lambda>_. True) ''shop'' ex_orders_table ex_dialect = Returns d' \<and> length types = 4
     \<and> GetCreateTableSql d' (tb_Name ex_orders_table) = ''CREATE TABLE IF NOT EXISTS '' @ FullTableName ''shop'' ex_orders_table @ '' (''
        @ joinS '','' (map2 (@) (acc_columns (\<lambda>_. True) '' _block_number_'' '' _block_timestamp_'' ex_orders_table) types)
        @ '');'' @ [CHR 0x0A]"
proof -
  have "case pg_createTable (\<lambda>_. True) ''shop'' ex_orders_table ex_dialect of Returns d \<Rightarrow> True | _ \<Rightarrow> False" by code_simp
  then obtain d' where d': "pg_createTable (\<lambda>_. True) ''shop'' ex_orders_table ex_dialect = Returns d'"
    by (auto split: Ret.splits)
  have e: "\<forall>c \<in> set (tb_Columns ex_orders_table). cl_Name c \<noteq> [] \<and> \<not> cl_IsExtension c
      \<and> (cl_IsMessage c \<longrightarrow> pg_IsWellKnownType (cl_Field c))"
    "length (acc_columns (\<lambda>_. True) '' _block_number_'' '' _block_timestamp_'' ex_orders_table) = 4" by code_simp+
  note p = created_columns_are_inserted [OF ex_orders_of_message d' e(1), unfolded e(2)]
  from d' p show ?thesis by blast
qed

section \<open>Keys of RisingWave\<close>

lemma rw_createTable_key:
  assumes "rw_createTable printable sn t d = Returns d'" "tb_PrimaryKey t = None"
  shows "\<exists>start keycols. GetCreateTableSql d' (tb_Name t)
        = start @ '', PRIMARY KEY ('' @ joinS '', '' keycols @ '')'' @ [CHR 0x0A] @ '');'' @ [CHR 0x0A]
      \<and> set keycols \<subseteq> set (insert_head ''block_number'' ''block_timestamp'' t)"
proof -
  from assms obtain b1 b2 b3 pks where p: "rw_add_parent d t b1 = Returns (b2, pks)"
    and d': "d' = AddCreateTableSql (tb_Name t) (butlast (fst b3)
      @ ('', PRIMARY KEY ('' @ joinS '', '' (''block_number'' # pks) @ '')'') @ [CHR 0x0A] @ '');'' @ [CHR 0x0A]) d"
    by (auto simp: rw_createTable_def Let_def ret_bind_Returns)
  have "set pks \<subseteq> (case tb_ChildOf t of Some co \<Rightarrow> {ParentTableField co} | None \<Rightarrow> {})"
    using p by (auto simp: rw_add_parent_def ret_bind_Returns find_Some_iff split: option.splits if_splits)
  then have "set (''block_number'' # pks) \<subseteq> set (insert_head ''block_number'' ''block_timestamp'' t)"
    by (auto simp: insert_head_def split: option.splits)
  then show ?thesis
    by (intro exI [of _ "butlast (fst b3)"] exI [of _ "''block_number'' # pks"])
      (simp add: d' AddCreateTableSql_def GetCreateTableSql_def getS_def update_conv' del: joinS.simps)
qed

text \<open>
  C38. In RisingWave the rows that a block gives to a table without a key of its own replace each other. When such a
  table is created, its primary key is made of columns that the insert fills with the block number and the
  key of the parent only. So any two messages of the table, in one block and, for a child table, of one
  parent, become rows that agree in all the columns of the primary key, whatever is in the messages.
\<close>

theorem rw_rows_share_their_key:
  assumes create: "rw_createTable printable sn t d = Returns d'" and nokey: "tb_PrimaryKey t = None"
    and env: "message_table env ti = Some t" "\<not> UseVersionField env" "\<not> UseDeletedField env"
    and parent: "parent = None \<longleftrightarrow> tb_ChildOf t = None"
    and rws: "message_values env bn ts v parent ti dm = Returns (vals, key, childs)"
      "message_values env bn ts v' parent ti dm' = Returns (vals', key', childs')"
    and n: "n = length (insert_head ''block_number'' ''block_timestamp'' t)"
  shows "\<exists>start keycols. GetCreateTableSql d' (tb_Name t)
        = start @ '', PRIMARY KEY ('' @ joinS '', '' keycols @ '')'' @ [CHR 0x0A] @ '');'' @ [CHR 0x0A]
    \<and> set keycols \<subseteq> set (take n (row_columns printable ''block_number'' ''block_timestamp'' t))
    \<and> n \<le> length vals \<and> take n vals = take n vals'"
proof -
  have h: "\<exists>rest. vals = row_head env bn ts v None parent @ rest"
    if "message_values env bn ts v parent ti dm = Returns (vals, key, childs)" for v dm vals key childs
    using that env nokey by (auto simp: message_values_def Let_def ret_bind_Returns key_value_def)
  have e: "row_head env bn ts v None parent = row_head env bn ts v' None parent"
    using env by (simp add: row_head_def)
  have l: "length (row_head env bn ts v None parent) = length (insert_head ''block_number'' ''block_timestamp'' t)"
    using parent env nokey by (auto simp: row_head_def insert_head_def split: option.splits)
  from rw_createTable_key [OF create nokey] obtain start keycols where
    k: "GetCreateTableSql d' (tb_Name t)
        = start @ '', PRIMARY KEY ('' @ joinS '', '' keycols @ '')'' @ [CHR 0x0A] @ '');'' @ [CHR 0x0A]"
      "set keycols \<subseteq> set (insert_head ''block_number'' ''block_timestamp'' t)" by blast
  have "take n (row_columns printable ''block_number'' ''block_timestamp'' t) = insert_head ''block_number'' ''block_timestamp'' t"
    by (simp add: row_columns_def n)
  moreover from h [OF rws(1)] h [OF rws(2)] l e n have "n \<le> length vals" "take n vals = take n vals'"
    by auto
  ultimately show ?thesis using k by (intro exI [of _ start] exI [of _ keycols]) simp
qed

text \<open>The two lines of an order\<close>

theorem rw_rows_share_their_key_witness:
  "\<exists>d' start keycols (vals :: unit Value list) vals'. rw_createTable (\<lambda>_. True) ''shop'' ex_lines_table ex_dialect = Returns d'
     \<and> GetCreateTableSql d' (tb_Name ex_lines_table) = start @ '', PRIMARY KEY ('' @ joinS '', '' keycols @ '')'' @ [CHR 0x0A] @ '');'' @ [CHR 0x0A]
     \<and> vals \<noteq> vals' \<and> take 3 vals = take 3 vals'
     \<and> set keycols \<subseteq> set (take 3 (row_columns (\<lambda>_. True) ''block_number'' ''block_timestamp'' ex_lines_table))"
proof -
  let ?m = "\<lambda>dm. message_values (rw_walk_env ex_penv True) 5 (0, 0) 0 (Some \<lparr>pr_field = ''order'', pr_id = V_string ''o1''\<rparr>)
       (Some \<lparr>pt_Name = ''lines'', pt_ChildOf = Some ''orders on id'', pt_Clickhouse = None\<rparr>) dm"
  have "case rw_createTable (\<lambda>_. True) ''shop'' ex_lines_table ex_dialect of Returns d \<Rightarrow> True | _ \<Rightarrow> False" by code_simp
  then obtain d' where d': "rw_createTable (\<lambda>_. True) ''shop'' ex_lines_table ex_dialect = Returns d'"
    by (auto split: Ret.splits)
  have "case (?m (ex_line_msg ''pen'' [''red'']), ?m (ex_line_msg ''cup'' [''blue''])) of
      (Returns (a, _), Returns (b, _)) \<Rightarrow> a \<noteq> b | _ \<Rightarrow> False" by code_simp
  then obtain vals k c vals' k' c' where m: "?m (ex_line_msg ''pen'' [''red'']) = Returns (vals, k, c)"
    "?m (ex_line_msg ''cup'' [''blue'']) = Returns (vals', k', c')" "vals \<noteq> vals'" by (auto split: Ret.splits)
  have e: "tb_PrimaryKey ex_lines_table = None"
    "message_table (rw_walk_env ex_penv True)
       (Some \<lparr>pt_Name = ''lines'', pt_ChildOf = Some ''orders on id'', pt_Clickhouse = None\<rparr>) = Some ex_lines_table"
    "\<not> UseVersionField (rw_walk_env ex_penv True)" "\<not> UseDeletedField (rw_walk_env ex_penv True)" by code_simp+
  have p: "Some \<lparr>pr_field = ''order'', pr_id = V_string ''o1'' :: unit Value\<rparr> = None \<longleftrightarrow> tb_ChildOf ex_lines_table = None"
    by (simp add: ex_lines_table_def)
  have n: "3 = length (insert_head ''block_number'' ''block_timestamp'' ex_lines_table)" by code_simp
  from rw_rows_share_their_key [OF d' e(1-4) p m(1,2) n] obtain start keycols where
    k: "GetCreateTableSql d' (tb_Name ex_lines_table)
        = start @ '', PRIMARY KEY ('' @ joinS '', '' keycols @ '')'' @ [CHR 0x0A] @ '');'' @ [CHR 0x0A]"
      "set keycols \<subseteq> set (take 3 (row_columns (\<lambda>_. True) ''block_number'' ''block_timestamp'' ex_lines_table))"
      "take 3 vals = take 3 vals'" by (elim exE conjE) (rule that)
  show ?thesis
    by (rule exI [of _ d'], rule exI [of _ start], rule exI [of _ keycols], rule exI [of _ vals], rule exI [of _ vals'])
      (intro conjI d' k m(3))
qed

section \<open>Columns of ClickHouse\<close>















section \<open>The undo of ClickHouse\<close>

text \<open>The columns of a table after block, time, version and deletion mark\<close>

definition created_fields :: "Column option \<Rightarrow> Table \<Rightarrow> string list" where
  "created_fields parent t =
     (case tb_PrimaryKey t of Some k \<Rightarrow> [pk_Name k] | None \<Rightarrow> [])
     @ (case parent of Some f \<Rightarrow> [cl_Name f] | None \<Rightarrow> [])
     @ map cl_Name (filter (\<lambda>c. cl_Name c \<noteq> ch_key_name t) (tb_Columns t))"

definition ch_head :: "string list" where
  "ch_head = ['' _block_number_'', '' _block_timestamp_'', '' _version_'', '' _deleted_'']"

lemma ch_createTable_columns:
  assumes create: "ch_createTable sn t d = Returns d'" and parent: "parent_field d t = Inr parent"
  shows "\<exists>types rest. length types = length (ch_head @ created_fields parent t)
    \<and> GetCreateTableSql d' (tb_Name t) = ''CREATE TABLE IF NOT EXISTS '' @ FullTableName sn t @ '' (''
        @ joinS '','' (map2 (@) (ch_head @ created_fields parent t) types) @ rest"
proof -
  let ?open = "''CREATE TABLE IF NOT EXISTS '' @ FullTableName sn t @ '' (''"
  let ?start = "''CREATE TABLE IF NOT EXISTS '' @ FullTableName sn t @ '' ('' @ '' _block_number_ UInt64 NOT NULL,''
      @ '' _block_timestamp_ timestamp NOT NULL,'' @ '' _version_ Int64 NOT NULL,'' @ '' _deleted_ bool NOT NULL,''"
  obtain s1 s2 s3 rest where
    1: "(case tb_PrimaryKey t of None \<Rightarrow> Returns ?start
         | Some pk \<Rightarrow> ret_bind (ret_type (ch_MapFieldType (pk_Field pk))) (\<lambda>t. Returns (?start @ pk_Name pk @ '' '' @ t @ '',''))) = Returns s1"
    and 2: "(case parent of None \<Rightarrow> Returns s1
         | Some f \<Rightarrow> ret_bind (ret_type (ch_MapFieldType (cl_Field f))) (\<lambda>t. Returns (s1 @ cl_Name f @ '' '' @ t @ '' NOT NULL,''))) = Returns s2"
    and 3: "ret_fold (ch_add_column t) (tb_Columns t) s2 = Returns s3"
    and d': "d' = AddCreateTableSql (tb_Name t) (butlast s3 @ rest) d"
    using create unfolding ch_createTable_def Let_def ret_bind_Returns ret_of_Returns parent sum.inject Ret.inject
    by (elim exE conjE) (hypsubst, rule that; (assumption | rule refl))
  have "\<exists>ts. length ts = length (case tb_PrimaryKey t of Some k \<Rightarrow> [pk_Name k] | None \<Rightarrow> [])
      \<and> s1 = ?start @ column_list (case tb_PrimaryKey t of Some k \<Rightarrow> [pk_Name k] | None \<Rightarrow> []) ts"
    using 1 by (auto simp: ret_bind_Returns intro: exI [of _ "['' '' @ x]" for x] split: option.splits)
  then obtain ts1 where t1: "length ts1 = length (case tb_PrimaryKey t of Some k \<Rightarrow> [pk_Name k] | None \<Rightarrow> [])"
    "s1 = ?start @ column_list (case tb_PrimaryKey t of Some k \<Rightarrow> [pk_Name k] | None \<Rightarrow> []) ts1" by blast
  have "\<exists>ts. length ts = length (case parent of Some f \<Rightarrow> [cl_Name f] | None \<Rightarrow> [])
      \<and> s2 = s1 @ column_list (case parent of Some f \<Rightarrow> [cl_Name f] | None \<Rightarrow> []) ts"
    using 2 by (auto simp: ret_bind_Returns intro: exI [of _ "['' '' @ x @ '' NOT NULL'']" for x] split: option.splits)
  then obtain ts2 where t2: "length ts2 = length (case parent of Some f \<Rightarrow> [cl_Name f] | None \<Rightarrow> [])"
    "s2 = s1 @ column_list (case parent of Some f \<Rightarrow> [cl_Name f] | None \<Rightarrow> []) ts2" by blast
  have "\<exists>ts. length ts = length (filter (\<lambda>c. cl_Name c \<noteq> ch_key_name t) (tb_Columns t))
      \<and> id s3 = id s2 @ column_list (map cl_Name (filter (\<lambda>c. cl_Name c \<noteq> ch_key_name t) (tb_Columns t))) ts"
    by (rule ret_fold_columns [OF 3])
      (auto simp: ch_add_column_def ret_bind_Returns intro: exI [of _ "'' '' @ x" for x] split: if_splits)
  then obtain ts3 where t3: "length ts3 = length (filter (\<lambda>c. cl_Name c \<noteq> ch_key_name t) (tb_Columns t))"
    "s3 = s2 @ column_list (map cl_Name (filter (\<lambda>c. cl_Name c \<noteq> ch_key_name t) (tb_Columns t))) ts3" by auto
  define types where "types = ['' UInt64 NOT NULL'', '' timestamp NOT NULL'', '' Int64 NOT NULL'', '' bool NOT NULL''] @ ts1 @ ts2 @ ts3"
  have len: "length types = length (ch_head @ created_fields parent t)"
    by (simp add: types_def ch_head_def created_fields_def t1(1) t2(1) t3(1))
  have s3: "s3 = ?open @ column_list (ch_head @ created_fields parent t) types"
    unfolding types_def ch_head_def created_fields_def t3(2) t2(2) t1(2)
    by (simp add: column_list_append t1(1) t2(1) t3(1))
  have "butlast s3 = ?open @ joinS '','' (map2 (@) (ch_head @ created_fields parent t) types)"
    unfolding s3 using butlast_column_list [OF len [symmetric]]
    by (simp add: butlast_append types_def ch_head_def)
  with len show ?thesis
    by (intro exI [of _ types] exI [of _ rest])
      (simp add: d' AddCreateTableSql_def GetCreateTableSql_def getS_def update_conv')
qed

text \<open>
  C40. The undo of ClickHouse copies a row into its own columns only if the key comes first and there is no parent. The
  undo of a table inserts into it, by position, what it selects from it. For a table of a schema with distinct
  column names, the columns that it selects are those that the statement of the table defines exactly when
  the table has no key, or its key is its first column and there is no parent's key besides; otherwise the copied
  rows, marked as deleted, have their values in other columns.
\<close>

theorem undo_lines_up_iff:
  assumes t: "table_of_message descs wo md n t"
    and create: "ch_createTable sn t d = Returns d'" and parent: "parent_field d t = Inr parent"
    and names: "distinct (map cl_Name (tb_Columns t))" "[] \<notin> set (map cl_Name (tb_Columns t))"
  shows "\<exists>types rest. GetCreateTableSql d' (tb_Name t) = ''CREATE TABLE IF NOT EXISTS '' @ FullTableName sn t @ '' (''
        @ joinS '','' (map2 (@) (ch_head @ created_fields parent t) types) @ rest
    \<and> (undo_fields parent t = created_fields parent t \<longleftrightarrow>
        (\<forall>k. tb_PrimaryKey t = Some k \<longrightarrow> cl_Name (hd (tb_Columns t)) = pk_Name k
           \<and> (\<forall>f. parent = Some f \<longrightarrow> cl_Name f = pk_Name k)))"
proof -
  have ne: "tb_Columns t \<noteq> []" and key: "key_of_columns (tb_Columns t) (tb_PrimaryKey t)"
    using t by (auto simp: table_of_message_def)
  let ?names = "map cl_Name (tb_Columns t)"
  have fm: "map cl_Name (filter (\<lambda>c. cl_Name c \<noteq> x) cs) = filter (\<lambda>y. y \<noteq> x) (map cl_Name cs)" for x cs
    by (induction cs) auto
  have "undo_fields parent t = created_fields parent t \<longleftrightarrow>
      (\<forall>k. tb_PrimaryKey t = Some k \<longrightarrow> hd ?names = pk_Name k \<and> (\<forall>f. parent = Some f \<longrightarrow> cl_Name f = pk_Name k))"
  proof (cases "tb_PrimaryKey t")
    case None
    have "filter (\<lambda>y. y \<noteq> []) ?names = ?names" using names(2) by (intro filter_True ballI) metis
    with None show ?thesis by (simp add: undo_fields_def created_fields_def ch_key_name_def fm)
  next
    case (Some k)
    from ne obtain y ys where ys: "?names = y # ys" by (cases "tb_Columns t") auto
    have f: "filter (\<lambda>x. x \<noteq> y) ys = ys" using names(1) unfolding ys by (intro filter_True) auto
    show ?thesis
      using f Some
      by (cases parent) (auto simp: undo_fields_def created_fields_def ch_key_name_def fm ys)
  qed
  moreover have "hd ?names = cl_Name (hd (tb_Columns t))" using ne by (simp add: hd_map)
  ultimately show ?thesis using ch_createTable_columns [OF create parent] by auto
qed

text \<open>The orders, whose key is their first column\<close>

theorem undo_lines_up_iff_witness:
  "\<exists>d' types rest. ch_createTable ''shop'' ex_orders_table ex_dialect = Returns d'
     \<and> GetCreateTableSql d' ''orders'' = ''CREATE TABLE IF NOT EXISTS '' @ FullTableName ''shop'' ex_orders_table @ '' (''
         @ joinS '','' (map2 (@) (ch_head @ [''id'', ''total'']) types) @ rest
     \<and> undo_fields None ex_orders_table = [''id'', ''total'']"
proof -
  have "case ch_createTable ''shop'' ex_orders_table ex_dialect of Returns d \<Rightarrow> True | _ \<Rightarrow> False" by code_simp
  then obtain d' where d': "ch_createTable ''shop'' ex_orders_table ex_dialect = Returns d'"
    by (auto split: Ret.splits)
  have e: "parent_field ex_dialect ex_orders_table = Inr None" "distinct (map cl_Name (tb_Columns ex_orders_table))"
    "[] \<notin> set (map cl_Name (tb_Columns ex_orders_table))" "tb_Name ex_orders_table = ''orders''"
    "created_fields None ex_orders_table = [''id'', ''total'']"
    "tb_PrimaryKey ex_orders_table \<noteq> None \<and> cl_Name (hd (tb_Columns ex_orders_table)) = pk_Name (the (tb_PrimaryKey ex_orders_table))"
    by code_simp+
  from e(6) have k: "\<forall>k. tb_PrimaryKey ex_orders_table = Some k \<longrightarrow> cl_Name (hd (tb_Columns ex_orders_table)) = pk_Name k
      \<and> (\<forall>f. (None :: Column option) = Some f \<longrightarrow> cl_Name f = pk_Name k)" by auto
  note p = undo_lines_up_iff [OF ex_orders_of_message d' e(1-3), unfolded e(4,5)]
  from p obtain types rest where
    "GetCreateTableSql d' ''orders'' = ''CREATE TABLE IF NOT EXISTS '' @ FullTableName ''shop'' ex_orders_table @ '' (''
         @ joinS '','' (map2 (@) (ch_head @ [''id'', ''total'']) types) @ rest"
    "undo_fields None ex_orders_table = [''id'', ''total'']" using k by (elim exE conjE) (rule that, assumption, simp only: simp_thms)
  with d' show ?thesis by (intro exI conjI)
qed

section \<open>The first start\<close>

text \<open>What creates a database: its schema, its tables and, with constraints, the constraints\<close>

definition creation_statements :: "('f, 'c) PgEnv \<Rightarrow> bool \<Rightarrow> string list" where
  "creation_statements env useConstraints =
     postgresStaticSql (pe_schemaName env) # map snd (CreateTableSql (pe_dialect env))
     @ (if useConstraints
        then map cn_Sql (PrimaryKeySql (pe_dialect env)) @ map cn_Sql (UniqueConstraintSql (pe_dialect env))
          @ map cn_Sql (ForeignKeySql (pe_dialect env))
        else [])"

context sql_transactions begin

text \<open>A call that stays in the transaction, and has executed the statements \<open>l\<close> when it returns\<close>

definition ran :: "(string \<times> 'f Value list) list \<Rightarrow> nat \<Rightarrow> (string \<times> 'f Value list) list \<Rightarrow> Outcome \<times> 'c PgDatabase \<Rightarrow> bool" where
  "ran c0 h l x \<longleftrightarrow> open_tx c0 h (snd x) \<and> (fst x = Done \<longrightarrow> pending h (dp_conn (snd x)) = Some l)"

lemma ran_and_then:
  assumes "ran c0 h l x" "\<And>d. ran c0 h l (Done, d) \<Longrightarrow> ran c0 h l' (f d)"
  shows "ran c0 h l' (and_then x f)"
  using assms by (cases x; cases "fst x") (auto simp: ran_def and_then_def)

lemma ran_wrap [simp]: "ran c0 h l (wrap_outcome m as x) = ran c0 h l x"
  by (cases x; cases "fst x") (auto simp: ran_def wrap_outcome_def)

lemma ran_statements:
  assumes "pe_conn env = conn" "ran c0 h l (Done, d)"
  shows "ran c0 h (l @ map (\<lambda>q. (q, [])) qs) (tx_statements env msg qs d)"
  using assms(2)
proof (induction qs arbitrary: d l)
  case (Cons q qs)
  obtain e d1 where e: "exec_on env (dp_tx d) q [] d = (e, d1)" by force
  from Cons.prems have d: "open_tx c0 h d" "pending h (dp_conn d) = Some l" by (simp_all add: ran_def)
  note o1 = exec_on_open [OF assms(1) d(1) e]
  show ?case
  proof (cases e)
    case None
    with o1(1) o1(4) [OF None d(2)] have "ran c0 h (l @ [(q, [])]) (Done, d1)" by (simp add: ran_def)
    from Cons.IH [OF this] None e d(1) show ?thesis by (simp add: open_tx_def)
  next
    case (Some x)
    with e d o1(1) show ?thesis by (simp add: open_tx_def ran_def)
  qed
qed simp

lemma ran_creation:
  assumes "pe_conn env = conn" "ran c0 h l (Done, d)"
  shows "ran c0 h (l @ map (\<lambda>q. (q, [])) (creation_statements env uc)) (pg_CreateDatabase env uc d)"
proof -
  note st = ran_statements [OF assms(1)]
  let ?s = "\<lambda>qs. map (\<lambda>q. (q, [])) qs"
  have c: "ran c0 h (l @ ?s [postgresStaticSql (pe_schemaName env)] @ ?s (map snd (CreateTableSql (pe_dialect env))))
      (pg_createDatabase env d)"
    unfolding pg_createDatabase_def append_assoc [symmetric] by (rule ran_and_then [OF st [OF assms(2)] st])
  have a: "ran c0 h (l' @ ?s (map cn_Sql (PrimaryKeySql (pe_dialect env)))
      @ ?s (map cn_Sql (UniqueConstraintSql (pe_dialect env))) @ ?s (map cn_Sql (ForeignKeySql (pe_dialect env))))
      (pg_applyConstraints env d')" if "ran c0 h l' (Done, d')" for l' d'
    unfolding pg_applyConstraints_def append_assoc [symmetric]
    by (rule ran_and_then [OF ran_and_then [OF st [OF that] st] st])
  show ?thesis
    unfolding pg_CreateDatabase_def
    by (rule ran_and_then [of c0 h "l @ ?s [postgresStaticSql (pe_schemaName env)] @ ?s (map snd (CreateTableSql (pe_dialect env)))"])
      (use c in simp, use a in \<open>force simp: creation_statements_def\<close>)
qed

lemma ran_store:
  assumes "pe_conn env = conn" "ran c0 h l (Done, d)"
  shows "ran c0 h (l @ [(''INSERT INTO '' @ sn @ ''._sink_info_ (schema_hash) VALUES ($1)'', [V_string hash])])
    (pg_StoreSinkInfo env sn hash d)"
proof -
  let ?q = "''INSERT INTO '' @ sn @ ''._sink_info_ (schema_hash) VALUES ($1)''"
  obtain e d1 where e: "exec_on env (dp_tx d) ?q [V_string hash] d = (e, d1)" by force
  from assms(2) have d: "open_tx c0 h d" "pending h (dp_conn d) = Some l" by (simp_all add: ran_def)
  note o1 = exec_on_open [OF assms(1) d(1) e]
  show ?thesis
    using o1(1) o1(4) [OF _ d(2)] d(1) e
    by (cases e) (simp_all add: pg_StoreSinkInfo_def tx_exec_def open_tx_def ran_def del: append.simps)
qed

text \<open>A failed call is rolled back.\<close>

lemma or_rollback_ran:
  assumes "pe_conn env = conn" "ran c0 h l x" "or_rollback (pg_DatabaseI env) x = (r, d)"
  shows "committed (dp_conn d) = c0" "r = Done \<Longrightarrow> ran c0 h l (Done, d)"
proof -
  obtain r0 d0 where x: "x = (r0, d0)" by force
  have "committed (dp_conn d) = c0 \<and> (r = Done \<longrightarrow> ran c0 h l (Done, d))"
  proof (cases r0)
    case (Fail e)
    obtain y d1 where y: "pg_RollbackTransaction env d0 = (y, d1)" by force
    from rollback_open [OF assms(1) _ y, of c0 h] assms(2) x have "committed (dp_conn d1) = c0" by (simp add: ran_def)
    with assms(3) Fail x y show ?thesis
      by (cases y) (auto simp: or_rollback_def pg_DatabaseI_def and_then_def)
  qed (use assms x in \<open>auto simp: or_rollback_def ran_def open_tx_def\<close>)
  then show "committed (dp_conn d) = c0" "r = Done \<Longrightarrow> ran c0 h l (Done, d)" by auto
qed

lemma create_sink_atomic:
  assumes env: "pe_conn env = conn" and run: "create_sink (pg_DatabaseI env) target uc d = (r, d')"
  shows "committed (dp_conn d') = committed (dp_conn d)
    \<or> r = Done \<and> committed (dp_conn d') = committed (dp_conn d)
        @ map (\<lambda>q. (q, [])) (creation_statements env uc)
        @ [(''INSERT INTO '' @ target @ ''._sink_info_ (schema_hash) VALUES ($1)'', [V_string (SchemaHash (pe_dialect env))])]"
proof -
  let ?c0 = "committed (dp_conn d)" and ?db = "pg_DatabaseI env"
  let ?l1 = "map (\<lambda>q. (q, [])) (creation_statements env uc)"
  let ?l2 = "?l1 @ [(''INSERT INTO '' @ target @ ''._sink_info_ (schema_hash) VALUES ($1)'', [V_string (SchemaHash (pe_dialect env))])]"
  have I: "pd_BeginTransaction ?db = pg_BeginTransaction env" "pd_CreateDatabase ?db = pg_CreateDatabase env"
    "pd_StoreSinkInfo ?db = pg_StoreSinkInfo env" "pd_SchemaHash ?db x = SchemaHash (pe_dialect env)"
    "pd_CommitTransaction ?db = pg_CommitTransaction env" for x
    by (simp_all add: pg_DatabaseI_def pg_SchemaHash_def)
  from run [unfolded create_sink_def I] show ?thesis
  proof (cases rule: and_then_cases)
    case stopped
    then show ?thesis using begin_sent(1) [OF env] by (auto elim!: wrap_outcome_cases)
  next
    case (went_on d1)
    then obtain h c where b: "co_Begin conn (dp_conn d) = (Inr h, c)" "d1 = d\<lparr>dp_conn := c, dp_tx := Some h\<rparr>"
      using env by (auto simp: pg_BeginTransaction_def split: prod.splits sum.splits)
    then have "ran ?c0 h [] (Done, d1)"
      using begin_committed [OF b(1)] begin_pending [OF b(1)] by (simp add: ran_def open_tx_def)
    from ran_creation [OF env this, of uc] have x2: "ran ?c0 h ?l1 (wrap_outcome ''creating database: %w'' [] (pg_CreateDatabase env uc d1))"
      by simp
    from went_on(2) show ?thesis
    proof (cases rule: and_then_cases)
      case stopped
      from or_rollback_ran(1) [OF env x2 stopped(1)] show ?thesis ..
    next
      case (went_on d2)
      from ran_store [OF env or_rollback_ran(2) [OF env x2 went_on(1) refl]]
      have x3: "ran ?c0 h ?l2 (wrap_outcome ''storing sink info: %w'' [] (pg_StoreSinkInfo env target (SchemaHash (pe_dialect env)) d2))"
        by (simp only: ran_wrap)
      from went_on(2) show ?thesis
      proof (cases rule: and_then_cases)
        case stopped
        from or_rollback_ran(1) [OF env x3 stopped(1)] show ?thesis ..
      next
        case (went_on d3)
        from or_rollback_ran(2) [OF env x3 went_on(1) refl] have o3: "open_tx ?c0 h d3" "pending h (dp_conn d3) = Some ?l2"
          by (simp_all only: ran_def fst_conv snd_conv)
        obtain y d4 where y: "pg_CommitTransaction env d3 = (y, d4)" by force
        note cm = commit_open(1) [OF env o3 y]
        have "d' = d4" "y \<noteq> Panicked \<Longrightarrow> r = Done" using went_on(2) y by (auto split: Outcome.splits)
        moreover have "y = Panicked \<Longrightarrow> False" using y o3(1) by (auto simp: pg_CommitTransaction_def open_tx_def split: prod.splits option.splits)
        ultimately show ?thesis using cm by blast
      qed
    qed
  qed
qed

end

definition ex_database :: "unit MemConn PgDatabase" where
  "ex_database = NewPgDatabase True \<lparr>mc_committed = [], mc_open = [], mc_next = 0\<rparr>"

text \<open>
  C36. The first start creates everything or nothing. On any connection that keeps the contract of transactions, let
  the first start create a PostgreSQL database. If it is refused, nothing has been committed. If it returns,
  the commit has failed and nothing is committed, or what is committed is exactly, in this order, the schema,
  the tables, with constraints also the constraints, and last the hash of the schema. The two cases of a start
  that returns cannot be told apart by its result: the error of the commit is dropped.
\<close>

theorem first_start_is_atomic:
  assumes c: "sql_transactions conn committed pend" and env: "pe_conn env = conn"
    and run: "create_sink (pg_DatabaseI env) target uc d = (r, d')"
  shows "committed (dp_conn d') = committed (dp_conn d)
    \<or> r = Done \<and> committed (dp_conn d') = committed (dp_conn d)
        @ map (\<lambda>q. (q, [])) (creation_statements env uc)
        @ [(''INSERT INTO '' @ target @ ''._sink_info_ (schema_hash) VALUES ($1)'', [V_string (SchemaHash (pe_dialect env))])]"
  by (rule sql_transactions.create_sink_atomic [OF c env run])

text \<open>The shop, on a connection in memory\<close>

theorem first_start_is_atomic_witness:
  "\<exists>d'. create_sink (pg_DatabaseI ex_penv) ''shop'' True ex_database = (Done, d')
     \<and> mc_committed (dp_conn d') = map (\<lambda>q. (q, [])) (creation_statements ex_penv True)
         @ [(''INSERT INTO '' @ ''shop'' @ ''._sink_info_ (schema_hash) VALUES ($1)'', [V_string (SchemaHash (pe_dialect ex_penv))])]"
proof -
  define d1 where "d1 = snd (pg_BeginTransaction ex_penv ex_database)"
  define d2 where "d2 = snd (pg_CreateDatabase ex_penv True d1)"
  have "case pg_BeginTransaction ex_penv ex_database of (r, d1) \<Rightarrow> r = Done
      \<and> (case pg_CreateDatabase ex_penv True d1 of (r, d2) \<Rightarrow>
           r = Done \<and> dp_tx d2 = Some 0 \<and> map_of (mc_open (dp_conn d2)) 0 \<noteq> None)" by code_simp
  then have s: "pg_BeginTransaction ex_penv ex_database = (Done, d1)" "pg_CreateDatabase ex_penv True d1 = (Done, d2)"
      "dp_tx d2 = Some 0" "\<exists>sts. map_of (mc_open (dp_conn d2)) 0 = Some sts"
    unfolding d1_def d2_def by (auto split: prod.splits)
  have "pe_conn ex_penv = mem_conn (\<lambda>_. False)" by (simp add: ex_penv_def)
  with s obtain d' where r: "create_sink (pg_DatabaseI ex_penv) ''shop'' True ex_database = (Done, d')"
    and ne: "mc_committed (dp_conn d') \<noteq> []"
    by (auto simp: create_sink_def pg_DatabaseI_def pg_SchemaHash_def or_rollback_def wrap_outcome_def and_then_def
          pg_StoreSinkInfo_def tx_exec_def exec_on_def mem_conn_def pg_CommitTransaction_def update_conv')
  have c: "pe_conn ex_penv = mem_conn (\<lambda>_. False)" "mc_committed (dp_conn ex_database) = []"
    by (simp_all add: ex_penv_def ex_database_def NewPgDatabase_def)
  from first_start_is_atomic [OF mem_tx.sql_transactions_axioms c(1) r] ne c(2) r show ?thesis by auto
qed

end
