(* ===== verification/ProtoRestart.thy ===== *)
theory ProtoRestart
  imports ProtoDbProperties
begin

text \<open>
  The files of the ClickHouse database: what the files must keep is the contract \<open>file_store\<close>, which files in memory
  keep. In it the stored cursor and the stored hash of the schema are read back, so that a sink which is started
  again finds its database and goes on from its cursor.
\<close>

section \<open>The contract of the files\<close>

locale file_store =
  fixes conn :: "('f, 'c) ChConn" and content :: "string \<Rightarrow> 'c \<Rightarrow> string option"
  assumes missing: "content p c = None \<Longrightarrow> \<exists>e. cc_Open conn p c = Some e \<and> cc_IsNotExist conn e"
    and opens: "content p c = Some t \<Longrightarrow> cc_Open conn p c = None"
    and reads: "content p c = Some t \<Longrightarrow> cc_ReadAll conn p c = Inr t"
    and creates: "cc_Create conn p c = (None, c') \<Longrightarrow> content p c' = Some []"
    and writes: "content p c = Some t \<Longrightarrow> cc_WriteString conn p s c = (None, c') \<Longrightarrow> content p c' = Some (t @ s)"
begin

lemma store_file_content:
  assumes "ce_conn env = conn" "store_file env m1 m2 p s d = (Done, d')"
  shows "content p (dh_conn d') = Some s"
proof -
  from assms obtain c1 c2 where c: "cc_Create conn p (dh_conn d) = (None, c1)"
    "cc_WriteString conn p s c1 = (None, c2)" "dh_conn d' = c2"
    by (auto simp: store_file_def split: prod.splits option.splits)
  from writes [OF creates [OF c(1)] c(2)] c(3) show ?thesis by simp
qed

lemma cursor_read:
  assumes "ce_conn env = conn" "content (ce_cursorFilePath env) (dh_conn d) = Some s" "ce_cursorFilePath env \<noteq> []"
    "ce_NewCursor env s = Inr cursor"
  shows "ch_FetchCursor env d = (Inr (Some cursor), d)"
  using assms opens [OF assms(2)] reads [OF assms(2)] by (simp add: ch_FetchCursor_def Let_def)

lemma cursor_stored:
  assumes "ce_conn env = conn" "ch_StoreCursor env cursor d = (Done, d')"
  shows "content (ce_cursorFilePath env) (dh_conn d') = Some (c_string cursor)" "ce_cursorFilePath env \<noteq> []"
  using assms store_file_content [OF assms(1)] by (auto simp: ch_StoreCursor_def split: if_splits)

lemma info_read:
  assumes "ce_conn env = conn" "content (sink_info_path env sn) (dh_conn d) = Some s"
  shows "ch_FetchSinkInfo env sn d =
    ((case scan_word s of Inl e \<Rightarrow> Inl (Wrapf ''reading schema hash from file: %w'' [] e) | Inr w \<Rightarrow> Inr (Some w)), d)"
  using assms opens [OF assms(2)] reads [OF assms(2)] by (simp add: ch_FetchSinkInfo_def Let_def)

end

section \<open>The hash of a schema is a word\<close>

lemma hexdigit_word:
  assumes "n < 16"
  shows "hexdigit n \<notin> {CHR 0x09, CHR 0x0A, CHR 0x0B, CHR 0x0C, CHR 0x0D, CHR 0x20}"
proof -
  have "hexval CHR 0x09 = None" "hexval CHR 0x0A = None" "hexval CHR 0x0B = None" "hexval CHR 0x0C = None"
    "hexval CHR 0x0D = None" "hexval CHR 0x20 = None" by code_simp+
  with hexval_hexdigit [OF assms] show ?thesis by auto
qed

lemma scan_hex:
  assumes "0 < n"
  shows "scan_word (hex_digits n r) = Inr (hex_digits n r)"
proof -
  have w: "c \<notin> {CHR 0x09, CHR 0x0A, CHR 0x0B, CHR 0x0C, CHR 0x0D, CHR 0x20}" if "c \<in> set (hex_digits n r)" for c
    using that hexdigit_word by (auto simp: hex_digits_def)
  from assms obtain c cs where h: "hex_digits n r = c # cs" by (cases "hex_digits n r") (auto simp: hex_digits_def)
  have "takeWhile (\<lambda>c. c \<notin> {CHR 0x09, CHR 0x0B, CHR 0x0C, CHR 0x0D, CHR 0x20} \<and> c \<noteq> CHR 0x0A) (hex_digits n r) = hex_digits n r"
    unfolding takeWhile_eq_all_conv using w by blast
  moreover have "dropWhile (\<lambda>c. c \<in> {CHR 0x09, CHR 0x0B, CHR 0x0C, CHR 0x0D, CHR 0x20}) (hex_digits n r) = hex_digits n r"
    "c \<noteq> CHR 0x0A" using w [of c] by (auto simp: h)
  ultimately show ?thesis by (simp add: scan_word_def Let_def h)
qed

context file_store begin

lemma created_sink_stored:
  assumes env: "ce_conn env = conn" and run: "create_sink (ch_DatabaseI env) sn uc d = (Done, d')"
  shows "content (sink_info_path env sn) (dh_conn d') = Some (ch_SchemaHash (ce_dialect env))"
proof -
  from run obtain d2 d3 where "or_rollback (ch_DatabaseI env)
      (wrap_outcome ''storing sink info: %w'' [] (ch_StoreSinkInfo env sn (ch_SchemaHash (ce_dialect env)) d2)) = (Done, d3)" "d' = d3"
    by (auto simp: create_sink_def ch_DatabaseI_def ch_CommitTransaction_def ch_dialect_hash_def)
  then have "ch_StoreSinkInfo env sn (ch_SchemaHash (ce_dialect env)) d2 = (Done, d')"
    by (auto simp: or_rollback_def ch_DatabaseI_def ch_RollbackTransaction_def and_then_def wrap_outcome_def
             split: prod.splits Outcome.splits)
  with store_file_content [OF env] show ?thesis by (auto simp: ch_StoreSinkInfo_def)
qed

lemma info_read_hash:
  assumes "ce_conn env = conn" "content (sink_info_path env sn) (dh_conn d) = Some (ch_SchemaHash (ce_dialect env))"
  shows "ch_FetchSinkInfo env sn d = (Inr (Some (ch_SchemaHash (ce_dialect env))), d)"
  using info_read [OF assms] scan_hex [of 16] by (simp add: ch_SchemaHash_def Let_def)

lemma restart:
  assumes env: "ce_conn env = conn" and first: "content (sink_info_path env sn) (dh_conn d) = None"
    and run: "setup_sink (ch_DatabaseI env) sn sn uc d = (Done, d')"
    and again: "dh_conn d2 = dh_conn d'"
  shows "setup_sink (ch_DatabaseI env) sn sn uc' d2 = (Done, d2)"
proof -
  from missing [OF first] env have "ch_FetchSinkInfo env sn d = (Inr None, d)"
    by (auto simp: ch_FetchSinkInfo_def Let_def)
  with run have "create_sink (ch_DatabaseI env) sn uc d = (Done, d')"
    by (auto simp: setup_sink_def ch_DatabaseI_def ch_Open_def)
  from created_sink_stored [OF env this] again
  have "content (sink_info_path env sn) (dh_conn d2) = Some (ch_SchemaHash (ce_dialect env))" by simp
  from info_read_hash [OF env this] show ?thesis
    by (simp add: setup_sink_def ch_DatabaseI_def ch_dialect_hash_def ch_Open_def and_then_def)
qed

end

section \<open>Files in memory\<close>

text \<open>A client that answers every query, and files that can all be created\<close>

record 'f MemFiles =
  mf_files :: "string gomap"
  mf_queries :: "string list"
  mf_inserted :: "(string \<times> 'f ColInput gomap) list"

definition mem_files :: "('f, 'f MemFiles) ChConn" where
  "mem_files =
     \<lparr>cc_Dial = (\<lambda>opts c. (None, c)), cc_IsClosed = (\<lambda>c. False), cc_Ping = (\<lambda>c. (None, c)),
      cc_Do = (\<lambda>q c. (None, c\<lparr>mf_queries := mf_queries c @ [q]\<rparr>)),
      cc_Insert = (\<lambda>t i c. (None, c\<lparr>mf_inserted := mf_inserted c @ [(t, i)]\<rparr>)),
      cc_now = (\<lambda>c. (0, c)),
      cc_Open = (\<lambda>p c. if map_of (mf_files c) p = None then Some (ExternalErr ''file does not exist'') else None),
      cc_IsNotExist = (\<lambda>e. True),
      cc_ReadAll = (\<lambda>p c. case map_of (mf_files c) p of None \<Rightarrow> Inl (ExternalErr ''read'') | Some t \<Rightarrow> Inr t),
      cc_Create = (\<lambda>p c. (None, c\<lparr>mf_files := AList.update p [] (mf_files c)\<rparr>)),
      cc_WriteString = (\<lambda>p s c. (None, c\<lparr>mf_files := AList.update p (getS (mf_files c) p @ s) (mf_files c)\<rparr>))\<rparr>"

interpretation files: file_store mem_files "\<lambda>p c. map_of (mf_files c) p"
  by unfold_locales (auto simp: mem_files_def update_conv' getS_def)

section \<open>Starting again\<close>

text \<open>
  C37. A ClickHouse sink that is started again finds what the first start made. Let the files keep what is written to
  them. When a first start, of a database without a stored hash, has returned, then starting again on the files
  it left, with the same schema, returns without a query, a file or any other change; and when a cursor was stored,
  the one that is fetched later is this cursor.
\<close>

theorem clickhouse_restart:
  assumes c: "file_store conn content" and env: "ce_conn env = conn"
    and first: "content (sink_info_path env sn) (dh_conn d) = None"
    and run: "setup_sink (ch_DatabaseI env) sn sn uc d = (Done, d')" "dh_conn d2 = dh_conn d'"
    and cursor: "ch_StoreCursor env cur d3 = (Done, d4)" "dh_conn d5 = dh_conn d4" "ce_NewCursor env (c_string cur) = Inr cur"
  shows "setup_sink (ch_DatabaseI env) sn sn uc' d2 = (Done, d2) \<and> ch_FetchCursor env d5 = (Inr (Some cur), d5)"
proof
  show "setup_sink (ch_DatabaseI env) sn sn uc' d2 = (Done, d2)" by (rule file_store.restart [OF c env first run])
  from file_store.cursor_stored [OF c env cursor(1)] cursor(2,3)
  show "ch_FetchCursor env d5 = (Inr (Some cur), d5)" by (intro file_store.cursor_read [OF c env]) simp_all
qed

text \<open>A shop on files in memory\<close>

definition ex_chenv :: "BaseDialect \<Rightarrow> (unit, unit MemFiles) ChEnv" where
  "ex_chenv dial = \<lparr>ce_conn = mem_files, ce_descs = ex_descs, ce_floats = ex_floats,
     ce_NewCursor = \<lambda>s. Inr \<lparr>c_string = s, c_num = 0, c_id = []\<rparr>, ce_schemaName = ''shop'',
     ce_dsn = \<lparr>driver = ''clickhouse'', original = [], Host = ''localhost'', Port = 9, Username = ''sink'', Password = [],
       Database = ''shop'', dsn_schema = ''shop'', Options = [''secure=true'']\<rparr>,
     ce_dialect = dial, ce_sinkInfoFolder = ''/data'', ce_cursorFilePath = ''/data/cursor''\<rparr>"

definition ex_chdb :: "(unit, unit MemFiles) ChDatabase" where
  "ex_chdb = \<lparr>dh_conn = \<lparr>mf_files = [], mf_queries = [], mf_inserted = []\<rparr>, dh_cached = False, dh_accumulators = [],
     dh_useProtoOptions = True\<rparr>"

definition ex_schema :: Schema where
  "ex_schema = \<lparr>sc_Name = ''shop'', TableRegistry = [(''lines'', ex_lines_table), (''orders'', ex_orders_table)],
     rootMessage = ''shop.Order'', withProtoOption = True\<rparr>"

lemma mem_create_tables:
  "ce_conn env = mem_files \<Longrightarrow> \<exists>d'. ch_create_tables env qs d = (Done, d')"
  by (induction qs arbitrary: d) (auto simp: ch_do_def mem_files_def and_then_def)

lemma mem_create_database:
  assumes "ce_conn env = mem_files" "client_options (ce_dsn env) = Returns opts"
  shows "\<exists>d'. ch_CreateDatabase env uc d = (Done, d')"
proof -
  have c: "client env x = (Done, x\<lparr>dh_cached := True\<rparr>)" for x
    using assms by (cases x) (auto simp: client_def newClient_def mem_files_def)
  show ?thesis
    using mem_create_tables [OF assms(1)] assms(1)
    by (simp add: ch_CreateDatabase_def c ch_do_def wrap_outcome_def and_then_def mem_files_def)
qed

theorem clickhouse_restart_witness:
  "\<exists>dial d1 d2. NewDialectClickHouse ex_schema = Returns dial
     \<and> setup_sink (ch_DatabaseI (ex_chenv dial)) ''shop'' ''shop'' True ex_chdb = (Done, d1)
     \<and> setup_sink (ch_DatabaseI (ex_chenv dial)) ''shop'' ''shop'' False d1 = (Done, d1)
     \<and> ch_StoreCursor (ex_chenv dial) \<lparr>c_string = ''c1'', c_num = 0, c_id = []\<rparr> d1 = (Done, d2)
     \<and> ch_FetchCursor (ex_chenv dial) d2 = (Inr (Some \<lparr>c_string = ''c1'', c_num = 0, c_id = []\<rparr>), d2)"
proof -
  have "case NewDialectClickHouse ex_schema of Returns d \<Rightarrow> True | _ \<Rightarrow> False" by code_simp
  then obtain dial where dial: "NewDialectClickHouse ex_schema = Returns dial" by (auto split: Ret.splits)
  let ?env = "ex_chenv dial"
  have "case client_options \<lparr>driver = ''clickhouse'', original = [], Host = ''localhost'', Port = 9, Username = ''sink'', Password = [],
       Database = ''shop'', dsn_schema = ''shop'', Options = [''secure=true'']\<rparr> of Returns x \<Rightarrow> True | _ \<Rightarrow> False" by code_simp
  then obtain opts where opts: "client_options (ce_dsn ?env) = Returns opts"
    by (auto simp: ex_chenv_def split: Ret.splits)
  have conn: "ce_conn ?env = mem_files" by (simp add: ex_chenv_def)
  have first: "map_of (mf_files (dh_conn ex_chdb)) (sink_info_path ?env ''shop'') = None" by (simp add: ex_chdb_def)
  from mem_create_database [OF conn opts, of True ex_chdb] obtain da where
    da: "ch_CreateDatabase ?env True ex_chdb = (Done, da)" by blast
  have fetch: "ch_FetchSinkInfo ?env ''shop'' ex_chdb = (Inr None, ex_chdb)"
    using files.missing [OF first] conn by (auto simp: ch_FetchSinkInfo_def Let_def)
  obtain db where db: "ch_StoreSinkInfo ?env ''shop'' (ch_SchemaHash dial) da = (Done, db)"
    using conn by (simp add: ch_StoreSinkInfo_def store_file_def mem_files_def)
  have "ce_dialect ?env = dial" by (simp add: ex_chenv_def)
  with fetch da db have run: "setup_sink (ch_DatabaseI ?env) ''shop'' ''shop'' True ex_chdb = (Done, db)"
    by (simp add: setup_sink_def create_sink_def ch_DatabaseI_def ch_BeginTransaction_def ch_CommitTransaction_def
          ch_dialect_hash_def ch_Open_def or_rollback_def wrap_outcome_def and_then_def)
  obtain d2 where d2: "ch_StoreCursor ?env \<lparr>c_string = ''c1'', c_num = 0, c_id = []\<rparr> db = (Done, d2)"
    by (simp add: ch_StoreCursor_def store_file_def mem_files_def ex_chenv_def)
  have nc: "ce_NewCursor ?env (c_string \<lparr>c_string = ''c1'', c_num = 0, c_id = []\<rparr>) = Inr \<lparr>c_string = ''c1'', c_num = 0, c_id = []\<rparr>"
    by (simp add: ex_chenv_def)
  from clickhouse_restart [OF files.file_store_axioms conn first run refl d2 refl nc, of False] dial run d2
  show ?thesis by blast
qed

end
