(* ===== verification/InjectCsv.thy ===== *)
theory InjectCsv
  imports Csv
begin

text \<open>
  The injection of CSV files into PostgreSQL (\<open>src/cmd/substreams-sink-sql/inject_csv.go\<close>): the files of a table are
  found by the block range in their names, the columns are read from the first line of the first file, and
  each file is sent with COPY. The object store and the connections are parameters.
\<close>

section \<open>Reading a record\<close>

text \<open>\<open>Read\<close> of \<open>encoding/csv\<close> with its defaults: the fields of one record and the rest of the text. A quote opens a
  quoted field only at its start.\<close>

datatype CsvMode = FieldStart | Unquoted | Quoted | AfterQuote

definition ErrBareQuote :: GoErr where
  "ErrBareQuote = Errorf ''bare %q in non-quoted-field'' [AStr [CHR 0x22]]"

definition ErrQuote :: GoErr where
  "ErrQuote = Errorf ''extraneous or missing %q in quoted-field'' [AStr [CHR 0x22]]"

definition cons_field :: "string \<Rightarrow> (string list \<times> string) res \<Rightarrow> (string list \<times> string) res" where
  "cons_field f r = (case r of Inl e \<Rightarrow> Inl e | Inr (fs, rest) \<Rightarrow> Inr (f # fs, rest))"

fun read_record :: "CsvMode \<Rightarrow> string \<Rightarrow> string \<Rightarrow> (string list \<times> string) res" where
  "read_record mode acc [] = (if mode = Quoted then Inl ErrQuote else Inr ([acc], []))"
| "read_record mode acc (c # cs) =
     (case mode of
        Quoted \<Rightarrow> if c = CHR 0x22 then read_record AfterQuote acc cs else read_record Quoted (acc @ [c]) cs
      | AfterQuote \<Rightarrow>
          if c = CHR 0x22 then read_record Quoted (acc @ [c]) cs
          else if c = CHR '','' then cons_field acc (read_record FieldStart [] cs)
          else if c = CHR 0x0A then Inr ([acc], cs)
          else Inl ErrQuote
      | _ \<Rightarrow>
          if c = CHR 0x22 then (if mode = FieldStart then read_record Quoted [] cs else Inl ErrBareQuote)
          else if c = CHR '','' then cons_field acc (read_record FieldStart [] cs)
          else if c = CHR 0x0A then Inr ([acc], cs)
          else read_record Unquoted (acc @ [c]) cs)"

text \<open>A line that ends with a carriage return and a line feed ends with the line feed; a carriage return at the
  end of the text is dropped. Empty lines before the record are skipped.\<close>

fun normalize_lines :: "string \<Rightarrow> string" where
  "normalize_lines [] = []"
| "normalize_lines [c] = (if c = CHR 0x0D then [] else [c])"
| "normalize_lines (c # d # cs) =
     (if c = CHR 0x0D \<and> d = CHR 0x0A then normalize_lines (d # cs) else c # normalize_lines (d # cs))"

definition csv_Read :: "string \<Rightarrow> string list res" where
  "csv_Read content =
     (case dropWhile (\<lambda>c. c = CHR 0x0A) (normalize_lines content) of
        [] \<Rightarrow> Inl (ExternalErr ''EOF'')
      | body \<Rightarrow> map_sum id fst (read_record FieldStart [] body))"

definition extractFieldsFromReader :: "string \<Rightarrow> string list res" where
  "extractFieldsFromReader content = wrap_err ''read csv first line: %w'' [] (csv_Read content)"

definition extractColumnsFromBytes :: "string \<Rightarrow> string list res" where
  "extractColumnsFromBytes data = extractFieldsFromReader data"

section \<open>The files\<close>

text \<open>The leftmost match of \<open>(\d{10})-(\d{10})\<close>\<close>

definition range_here :: "string \<Rightarrow> bool" where
  "range_here s \<longleftrightarrow> 21 \<le> length s \<and> list_all is_digit (take 10 s) \<and> s ! 10 = CHR ''-'' \<and> list_all is_digit (take 10 (drop 11 s))"

fun blockRangeRegex :: "string \<Rightarrow> (string \<times> string) option" where
  "blockRangeRegex s =
     (if range_here s then Some (take 10 s, take 10 (drop 11 s))
      else case s of [] \<Rightarrow> None | _ # t \<Rightarrow> blockRangeRegex t)"

declare blockRangeRegex.simps [simp del]

text \<open>The errors of the conversions are dropped.\<close>

definition getBlockRange :: "string \<Rightarrow> (u64 \<times> u64) res" where
  "getBlockRange filename =
     (case blockRangeRegex filename of
        None \<Rightarrow> Inl (Errorf ''no block range in filename: %s'' [AStr filename])
      | Some (a, b) \<Rightarrow> Inr (of_nat (fst (ParseUint 64 a)), of_nat (fst (ParseUint 64 b))))"

text \<open>The visit of the files in the order of the store; a file that starts at the stop block or after it ends it.\<close>

fun visit_files :: "u64 \<Rightarrow> u64 \<Rightarrow> string list \<Rightarrow> string list \<Rightarrow> (string list \<times> bool) res" where
  "visit_files stop desired [] out = Inr (out, False)"
| "visit_files stop desired (filename # fs) out =
     (case getBlockRange filename of
        Inl e \<Rightarrow> Inl (Wrapf ''fail reading block range in %q: %w'' [AStr filename] e)
      | Inr (startBlockNum, endBlockNum) \<Rightarrow>
          if stop \<noteq> 0 \<and> startBlockNum \<ge> stop then Inr (out, True)
          else if endBlockNum < desired then visit_files stop desired fs out
          else visit_files stop desired fs (out @ [filename]))"

record ObjReader =
  or_Walk :: "string \<Rightarrow> string list \<times> GoErr option"
  or_Open :: "string \<Rightarrow> string res"
  or_ReadAll :: "string \<Rightarrow> string res"
  or_IsNotFound :: "GoErr \<Rightarrow> bool"
  or_BaseURL :: string

definition findFilesToLoad :: "ObjReader \<Rightarrow> string \<Rightarrow> u64 \<Rightarrow> u64 \<Rightarrow> string list res" where
  "findFilesToLoad store tn stop desired =
     (case or_Walk store (tn @ ''/'') of
        (names, e) \<Rightarrow>
          (case visit_files stop desired names [] of
             Inl err \<Rightarrow> Inl err
           | Inr (out, stopped) \<Rightarrow>
               (case e of None \<Rightarrow> Inr out | Some err \<Rightarrow> if stopped then Inr out else Inl err)))"

section \<open>The filler of a table\<close>

record TableFiller =
  tf_pqSchema :: string
  tf_tblName :: string
  tf_start :: u64
  tf_stop :: u64
  tf_cursorTableName :: string

definition NewTableFiller :: "string \<Rightarrow> string \<Rightarrow> u64 \<Rightarrow> u64 \<Rightarrow> string \<Rightarrow> TableFiller" where
  "NewTableFiller pqSchema tblName startBlockNum stopBlockNum cursorTab =
     \<lparr>tf_pqSchema = pqSchema, tf_tblName = tblName, tf_start = startBlockNum, tf_stop = stopBlockNum,
      tf_cursorTableName = cursorTab\<rparr>"

text \<open>The pool of connections: COPY sends a text to a table.\<close>

record 'c Pool =
  po_Acquire :: "'c \<Rightarrow> GoErr option \<times> 'c"
  po_CopyFrom :: "string \<Rightarrow> string \<Rightarrow> 'c \<Rightarrow> GoErr option \<times> 'c"

definition copy_query :: "TableFiller \<Rightarrow> string list \<Rightarrow> string" where
  "copy_query t dbColumns =
     ''COPY '' @ EscapeIdentifier (tf_pqSchema t) @ ''.'' @ EscapeIdentifier (tf_tblName t) @ '' ('' @ [CHR 0x22]
     @ joinS ([CHR 0x22] @ '','' @ [CHR 0x22]) dbColumns @ [CHR 0x22] @ '') FROM STDIN WITH (FORMAT CSV, HEADER)''"

definition injectCSVFromReader :: "'c Pool \<Rightarrow> TableFiller \<Rightarrow> string \<Rightarrow> string list \<Rightarrow> 'c \<Rightarrow> GoErr option \<times> 'c" where
  "injectCSVFromReader pool t content dbColumns c =
     (case po_Acquire pool c of
        (Some e, c1) \<Rightarrow> (Some (Wrapf ''pool acquire: %w'' [] e), c1)
      | (None, c1) \<Rightarrow>
          (case po_CopyFrom pool content (copy_query t dbColumns) c1 of
             (Some e, c2) \<Rightarrow> (Some (Wrapf ''failed COPY FROM for %q: %w'' [AStr (tf_tblName t)] e), c2)
           | (None, c2) \<Rightarrow> (None, c2)))"

definition injectCSVFromFile ::
    "ObjReader \<Rightarrow> 'c Pool \<Rightarrow> TableFiller \<Rightarrow> string \<Rightarrow> string list \<Rightarrow> 'c \<Rightarrow> GoErr option \<times> 'c" where
  "injectCSVFromFile store pool t filename dbColumns c =
     (case or_Open store filename of
        Inl e \<Rightarrow> (Some (Wrapf ''opening csv: %w'' [] e), c)
      | Inr content \<Rightarrow> injectCSVFromReader pool t content dbColumns c)"

definition extractFieldsFromFirstLine :: "ObjReader \<Rightarrow> string \<Rightarrow> string list res" where
  "extractFieldsFromFirstLine store filename =
     (case or_Open store filename of
        Inl e \<Rightarrow> Inl (Wrapf ''opening csv: %w'' [] e)
      | Inr content \<Rightarrow> extractFieldsFromReader content)"

fun inject_files :: "ObjReader \<Rightarrow> 'c Pool \<Rightarrow> TableFiller \<Rightarrow> string list \<Rightarrow> string list \<Rightarrow> 'c \<Rightarrow> GoErr option \<times> 'c" where
  "inject_files store pool t dbFields [] c = (None, c)"
| "inject_files store pool t dbFields (filename # fs) c =
     (case injectCSVFromFile store pool t filename dbFields c of
        (Some e, c') \<Rightarrow> (Some (Wrapf ''failed to inject file %q: %w'' [AStr filename] e), c')
      | (None, c') \<Rightarrow> inject_files store pool t dbFields fs c')"

definition injectCursorsTable :: "ObjReader \<Rightarrow> 'c Pool \<Rightarrow> TableFiller \<Rightarrow> 'c \<Rightarrow> GoErr option \<times> 'c" where
  "injectCursorsTable store pool t c =
     (let path = tf_cursorTableName t @ ''/'' @ ''last_cursor'' in
      case or_Open store path of
        Inl e \<Rightarrow>
          (Some (if or_IsNotFound store e
                 then Errorf ''trying to inject %q table but the last cursor filename %q was not found in %s''
                        [AStr (tf_cursorTableName t), AStr path, AStr (or_BaseURL store)]
                 else Wrapf ''open object %q: %w'' [AStr ''last_cursor''] e), c)
      | Inr _ \<Rightarrow>
          (case or_ReadAll store path of
             Inl e \<Rightarrow> (Some (Wrapf ''read object %q: %w'' [AStr ''last_cursor''] e), c)
           | Inr content \<Rightarrow>
               (case extractColumnsFromBytes content of
                  Inl e \<Rightarrow> (Some (Wrapf ''extracting fields from first csv line: %w'' [] e), c)
                | Inr dbColumns \<Rightarrow>
                    (case injectCSVFromReader pool t content dbColumns c of
                       (Some e, c') \<Rightarrow> (Some (Wrapf ''failed to inject %q table content: %w'' [AStr (tf_cursorTableName t)] e), c')
                     | (None, c') \<Rightarrow> (None, c')))))"

definition filler_Run :: "ObjReader \<Rightarrow> 'c Pool \<Rightarrow> TableFiller \<Rightarrow> 'c \<Rightarrow> GoErr option \<times> 'c" where
  "filler_Run store pool t c =
     (if tf_tblName t = tf_cursorTableName t then injectCursorsTable store pool t c
      else case findFilesToLoad store (tf_tblName t) (tf_stop t) (tf_start t) of
        Inl e \<Rightarrow> (Some (Wrapf ''listing files: %w'' [] e), c)
      | Inr loadFiles \<Rightarrow>
          if loadFiles = [] then (Some (Errorf ''no file to process'' []), c)
          else (case extractFieldsFromFirstLine store (hd loadFiles) of
             Inl e \<Rightarrow> (Some (Wrapf ''extracting fields from first csv line: %w'' [] e), c)
           | Inr dbFields \<Rightarrow> inject_files store pool t dbFields loadFiles c))"

end
