(* ===== verification/ProtoCsv.thy ===== *)
theory ProtoCsv
  imports ProtoFactory Csv
begin

text \<open>
  The generator of CSV files from messages (\<open>src/cmd/substreams-sink-sql/from_proto_generate_csv.go\<close>): the file with the
  statements that create the schema, the metadata of the tables, and, instead of the rows that the walk over a
  message inserts in a database, lines in the files of a bundler per table. The caches of columns and
  the pool of row buffers hold what is computed here each time.
\<close>

section \<open>The dialect\<close>

datatype DialectKind = PostgresKind | RisingwaveKind | ClickhouseKind

record ProtoDialect =
  pl_kind :: DialectKind
  pl_base :: BaseDialect

definition pl_UseVersionField :: "DialectKind \<Rightarrow> bool" where
  "pl_UseVersionField k = (k = ClickhouseKind)"

definition pl_UseDeletedField :: "DialectKind \<Rightarrow> bool" where
  "pl_UseDeletedField k = (k = ClickhouseKind)"

definition pl_SchemaHash :: "ProtoDialect \<Rightarrow> string" where
  "pl_SchemaHash d =
     (case pl_kind d of
        PostgresKind \<Rightarrow> SchemaHash (pl_base d)
      | RisingwaveKind \<Rightarrow> rw_SchemaHash (pl_base d)
      | ClickhouseKind \<Rightarrow> ch_SchemaHash (pl_base d))"

definition pl_driver :: "DialectKind \<Rightarrow> string" where
  "pl_driver k = (case k of PostgresKind \<Rightarrow> ''postgres'' | RisingwaveKind \<Rightarrow> ''risingwave'' | ClickhouseKind \<Rightarrow> ''clickhouse'')"

text \<open>The dialect for the driver of a connection string\<close>

definition new_dialect :: "(nat \<Rightarrow> bool) \<Rightarrow> string \<Rightarrow> Schema \<Rightarrow> ProtoDialect Ret" where
  "new_dialect printable drv sc =
     (if drv = ''postgres''
      then ret_bind (ret_wrap ''creating postgres dialect: %w'' [] (NewDialectPostgres printable sc)) (\<lambda>d.
             Returns \<lparr>pl_kind = PostgresKind, pl_base = d\<rparr>)
      else if drv = ''risingwave''
      then ret_bind (ret_wrap ''creating risingwave dialect: %w'' [] (NewDialectRisingwave printable (sc_Name sc) (TableRegistry sc))) (\<lambda>d.
             Returns \<lparr>pl_kind = RisingwaveKind, pl_base = d\<rparr>)
      else if drv = ''clickhouse''
      then ret_bind (ret_wrap ''creating clickhouse dialect: %w'' [] (NewDialectClickHouse sc)) (\<lambda>d.
             Returns \<lparr>pl_kind = ClickhouseKind, pl_base = d\<rparr>)
      else Fails (Errorf ''unsupported driver: %s'' [AStr drv]))"

section \<open>The file with the schema\<close>

text \<open>The text after an opening parenthesis, up to the one that closes it, and the rest from that one on; double
  quotes are skipped.\<close>

fun find_close :: "nat \<Rightarrow> bool \<Rightarrow> string \<Rightarrow> (string \<times> string) option" where
  "find_close depth inQuotes [] = None"
| "find_close depth inQuotes (ch # cs) =
     (let inQuotes = (if ch = CHR 0x22 then \<not> inQuotes else inQuotes);
          go = (\<lambda>depth. map_option (\<lambda>(a, b). (ch # a, b)) (find_close depth inQuotes cs))
      in if inQuotes then go depth
         else if ch = CHR ''('' then go (depth + 1)
         else if ch = CHR '')'' then (if depth = 1 then Some ([], ch # cs) else go (depth - 1))
         else go depth)"

text \<open>The parts between the commas outside quotes and parentheses, trimmed, without the empty ones\<close>

definition add_part :: "string \<Rightarrow> string list \<Rightarrow> string list" where
  "add_part cur parts = (let s = TrimSpace cur in if s \<noteq> [] then s # parts else parts)"

fun split_columns :: "nat \<Rightarrow> bool \<Rightarrow> string \<Rightarrow> string \<Rightarrow> string list" where
  "split_columns depth inQuotes cur [] = add_part cur []"
| "split_columns depth inQuotes cur (ch # cs) =
     (if ch = CHR 0x22 then split_columns depth (\<not> inQuotes) (cur @ [ch]) cs
      else if inQuotes then split_columns depth inQuotes (cur @ [ch]) cs
      else if ch = CHR ''('' then split_columns (depth + 1) inQuotes (cur @ [ch]) cs
      else if ch = CHR '')'' then split_columns (depth - 1) inQuotes (cur @ [ch]) cs
      else if ch = CHR '','' \<and> depth = 0 then add_part cur (split_columns depth inQuotes [] cs)
      else split_columns depth inQuotes (cur @ [ch]) cs)"

definition prettyFormatCreateTable :: "string \<Rightarrow> string" where
  "prettyFormatCreateTable sql =
     (case dropWhile (\<lambda>c. c \<noteq> CHR ''('') sql of
        [] \<Rightarrow> sql
      | paren # rest \<Rightarrow>
          (case find_close 1 False rest of
             None \<Rightarrow> sql
           | Some (columnsSeg, suffix) \<Rightarrow>
               (let prefix = takeWhile (\<lambda>c. c \<noteq> CHR ''('') sql @ [paren]; parts = split_columns 0 False [] columnsSeg
                in prefix
                   @ (if parts = [] then []
                      else [CHR 0x0A] @ joinS ('','' @ [CHR 0x0A]) (map (\<lambda>p. ''    '' @ p) parts) @ [CHR 0x0A])
                   @ suffix)))"

definition getStaticSQL :: "DialectKind \<Rightarrow> string \<Rightarrow> string" where
  "getStaticSQL k sn =
     (let nl = [CHR 0x0A]; nl4 = [CHR 0x0A] @ ''    ''; q = [CHR 0x22] @ sn @ [CHR 0x22] in
      case k of
        PostgresKind \<Rightarrow>
          ''CREATE SCHEMA IF NOT EXISTS '' @ q @ '';'' @ nl
          @ nl @ ''CREATE TABLE IF NOT EXISTS '' @ q @ ''._sink_info_ ('' @ nl4 @ ''schema_hash TEXT PRIMARY KEY'' @ nl @ '');'' @ nl
          @ nl @ ''CREATE TABLE IF NOT EXISTS '' @ q @ ''._cursor_ ('' @ nl4 @ ''name TEXT PRIMARY KEY,'' @ nl4 @ ''cursor TEXT NOT NULL''
          @ nl @ '');'' @ nl
          @ nl @ ''CREATE TABLE IF NOT EXISTS '' @ q @ ''._blocks_ ('' @ nl4 @ ''number integer,'' @ nl4 @ ''hash TEXT NOT NULL,''
          @ nl4 @ ''timestamp TIMESTAMP NOT NULL'' @ nl @ '');''
      | RisingwaveKind \<Rightarrow>
          ''CREATE SCHEMA IF NOT EXISTS '' @ q @ '';'' @ nl
          @ nl @ ''CREATE TABLE IF NOT EXISTS '' @ q @ ''._sink_info_ ('' @ nl4 @ ''schema_hash VARCHAR PRIMARY KEY'' @ nl @ '');'' @ nl
          @ nl @ ''CREATE TABLE IF NOT EXISTS '' @ q @ ''._cursor_ ('' @ nl4 @ ''name VARCHAR PRIMARY KEY,'' @ nl4 @ ''cursor VARCHAR''
          @ nl @ '');'' @ nl
          @ nl @ ''CREATE TABLE IF NOT EXISTS '' @ q @ ''._blocks_ ('' @ nl4 @ ''number INTEGER PRIMARY KEY,'' @ nl4 @ ''hash VARCHAR,''
          @ nl4 @ ''timestamp TIMESTAMP WITH TIME ZONE'' @ nl @ '');''
      | ClickhouseKind \<Rightarrow>
          ''CREATE DATABASE IF NOT EXISTS '' @ sn @ '';'' @ nl
          @ nl @ ''CREATE TABLE IF NOT EXISTS '' @ sn @ ''._blocks_  ('' @ nl4 @ ''number    UInt64,'' @ nl4 @ ''hash      text,''
          @ nl4 @ ''timestamp timestamp,'' @ nl4 @ ''version   Int64,'' @ nl4 @ ''deleted   bool''
          @ nl @ '')'' @ nl @ ''ENGINE = ReplacingMergeTree(version)'' @ nl @ ''PARTITION BY (toYYYYMM(timestamp))''
          @ nl @ ''PRIMARY KEY (number)'' @ nl @ ''ORDER BY (number);'')"

definition seed_statement :: "ProtoDialect \<Rightarrow> string \<Rightarrow> string" where
  "seed_statement d sn =
     (let q = [CHR 0x22]; insert = ''INSERT INTO '' @ q @ sn @ q @ ''.'' @ q @ ''_sink_info_'' @ q @ '' (schema_hash) VALUES ('' @ [CHR 0x27]
              @ pl_SchemaHash d @ [CHR 0x27] @ '')'' in
      case pl_kind d of
        PostgresKind \<Rightarrow> ''-- Seed'' @ [CHR 0x0A] @ insert @ '' ON CONFLICT (schema_hash) DO NOTHING;'' @ [CHR 0x0A]
      | RisingwaveKind \<Rightarrow> ''-- Seed'' @ [CHR 0x0A] @ insert @ '';'' @ [CHR 0x0A]
      | ClickhouseKind \<Rightarrow> [])"

text \<open>The whole file, given the time of its header\<close>

definition schema_file :: "ProtoDialect \<Rightarrow> Schema \<Rightarrow> bool \<Rightarrow> int \<Rightarrow> string" where
  "schema_file d sc useConstraints now =
     (let nl = [CHR 0x0A]; base = pl_base d;
          statics = TrimSpace (getStaticSQL (pl_kind d) (sc_Name sc));
          constraints = map cn_Sql (PrimaryKeySql base) @ map cn_Sql (UniqueConstraintSql base) @ map cn_Sql (ForeignKeySql base)
      in ''-- Generated by substreams-sink-sql from-proto-generate-csv'' @ nl
         @ ''-- Dialect: '' @ pl_driver (pl_kind d) @ nl
         @ ''-- Schema: '' @ sc_Name sc @ nl
         @ ''-- Generated at: '' @ format_RFC3339 0 now @ nl
         @ ''-- Schema hash: '' @ pl_SchemaHash d @ nl @ nl
         @ (if statics \<noteq> [] then ''-- System Tables'' @ nl @ statics @ nl @ nl else [])
         @ (if CreateTableSql base \<noteq> []
            then ''-- User Tables'' @ nl
              @ concat (map (\<lambda>n. prettyFormatCreateTable (TrimSpace (GetCreateTableSql base n)) @ nl @ nl) (sort (keys (CreateTableSql base))))
            else [])
         @ (if useConstraints \<and> constraints \<noteq> []
            then ''-- Constraints'' @ nl @ concat (map (\<lambda>c. TrimSpace c @ nl) constraints) @ nl
            else [])
         @ seed_statement d (sc_Name sc))"

definition exportSQLSchema ::
    "(string \<Rightarrow> string \<Rightarrow> GoErr option) \<Rightarrow> ProtoDialect \<Rightarrow> Schema \<Rightarrow> bool \<Rightarrow> int \<Rightarrow> string \<Rightarrow> GoErr option" where
  "exportSQLSchema WriteFile d sc useConstraints now outputPath = WriteFile outputPath (schema_file d sc useConstraints now)"

section \<open>The metadata\<close>

definition dialectBlockNumberName :: "DialectKind \<Rightarrow> string" where
  "dialectBlockNumberName k = (if k = RisingwaveKind then ''block_number'' else ''_block_number_'')"

definition dialectBlockTimestampName :: "DialectKind \<Rightarrow> string" where
  "dialectBlockTimestampName k = (if k = RisingwaveKind then ''block_timestamp'' else ''_block_timestamp_'')"

definition computeCSVColumnOrder :: "DialectKind \<Rightarrow> Table \<Rightarrow> string list" where
  "computeCSVColumnOrder k table =
     [dialectBlockNumberName k, dialectBlockTimestampName k]
     @ (if pl_UseVersionField k then [''_version_''] else [])
     @ (if pl_UseDeletedField k then [''_deleted_''] else [])
     @ (case tb_PrimaryKey table of None \<Rightarrow> [] | Some pk \<Rightarrow> [pk_Name pk])
     @ (case tb_ChildOf table of None \<Rightarrow> [] | Some co \<Rightarrow> [ParentTableField co])
     @ filter (\<lambda>n. \<not> (case tb_PrimaryKey table of Some pk \<Rightarrow> n = pk_Name pk | None \<Rightarrow> False)
                  \<and> \<not> (case tb_ChildOf table of Some co \<Rightarrow> n = ParentTableField co | None \<Rightarrow> False))
         (map cl_Name (tb_Columns table))"

record ColumnMetadata =
  cm_Name :: string
  cm_SQLType :: string
  cm_Position :: nat
  cm_Nullable :: bool
  cm_SemanticType :: "string option"

record TableMetadata =
  tm_Name :: string
  tm_Columns :: "ColumnMetadata list"
  tm_ColumnOrder :: "string list"
  tm_PrimaryKey :: "string option"

record SchemaMetadata =
  sm_Version :: string
  sm_GeneratedAt :: int
  sm_Dialect :: string
  sm_SchemaHash :: string
  sm_SchemaName :: string
  sm_Tables :: "TableMetadata list"
  sm_UseConstraints :: bool

definition getColumnSQLType :: "DialectKind \<Rightarrow> Column \<Rightarrow> string Ret" where
  "getColumnSQLType k col =
     ret_type (case k of
        PostgresKind \<Rightarrow> pg_MapFieldType (cl_Field col)
      | ClickhouseKind \<Rightarrow> ch_MapFieldType (cl_Field col)
      | RisingwaveKind \<Rightarrow> rw_MapFieldType (cl_Field col))"

definition table_metadata :: "DialectKind \<Rightarrow> Table \<Rightarrow> TableMetadata Ret" where
  "table_metadata k table =
     ret_bind (ret_fold (\<lambda>(i, col) cols. ret_bind (getColumnSQLType k col) (\<lambda>t.
           Returns (cols @ [\<lparr>cm_Name = cl_Name col, cm_SQLType = t, cm_Position = i, cm_Nullable = True,
               cm_SemanticType = None\<rparr>])))
         (List.enumerate 0 (tb_Columns table)) []) (\<lambda>cols.
     Returns \<lparr>tm_Name = tb_Name table, tm_Columns = cols, tm_ColumnOrder = computeCSVColumnOrder k table,
              tm_PrimaryKey = map_option pk_Name (tb_PrimaryKey table)\<rparr>)"

definition schema_metadata :: "ProtoDialect \<Rightarrow> Schema \<Rightarrow> int \<Rightarrow> SchemaMetadata Ret" where
  "schema_metadata d sc now =
     ret_bind (ret_fold (\<lambda>table tms. ret_bind (table_metadata (pl_kind d) table) (\<lambda>tm. Returns (tms @ [tm])))
         (GetTables (pl_base d)) []) (\<lambda>tms.
     Returns \<lparr>sm_Version = ''1.0'', sm_GeneratedAt = now, sm_Dialect = pl_driver (pl_kind d), sm_SchemaHash = pl_SchemaHash d,
              sm_SchemaName = sc_Name sc, sm_Tables = tms, sm_UseConstraints = False\<rparr>)"

text \<open>\<open>json.MarshalIndent\<close> of the record is the library's.\<close>

definition exportSchemaMetadata ::
    "(SchemaMetadata \<Rightarrow> string res) \<Rightarrow> (string \<Rightarrow> string \<Rightarrow> GoErr option) \<Rightarrow> ProtoDialect \<Rightarrow> Schema \<Rightarrow> int \<Rightarrow> string \<Rightarrow> Outcome" where
  "exportSchemaMetadata MarshalIndent WriteFile d sc now outputPath =
     (case schema_metadata d sc now of
        Panics \<Rightarrow> Panicked
      | Fails e \<Rightarrow> Fail e
      | Returns metadata \<Rightarrow>
          (case MarshalIndent metadata of
             Inl e \<Rightarrow> Fail (Wrapf ''marshaling metadata: %w'' [] e)
           | Inr data \<Rightarrow> (case WriteFile outputPath data of Some e \<Rightarrow> Fail e | None \<Rightarrow> Done)))"

section \<open>The rows of a message\<close>

definition computeColumnsForTable :: "DialectKind \<Rightarrow> Table \<Rightarrow> string list" where
  "computeColumnsForTable k table =
     [dialectBlockNumberName k, dialectBlockTimestampName k]
     @ (if pl_UseVersionField k then [''_version_''] else [])
     @ (if pl_UseDeletedField k then [''_deleted_''] else [])
     @ (case tb_PrimaryKey table of None \<Rightarrow> [] | Some pk \<Rightarrow> [pk_Name pk])
     @ (case tb_ChildOf table of None \<Rightarrow> [] | Some co \<Rightarrow> [ParentTableField co])
     @ filter (\<lambda>n. \<not> (case tb_PrimaryKey table of Some pk \<Rightarrow> n = pk_Name pk | None \<Rightarrow> False)
                  \<and> \<not> (case tb_ChildOf table of Some co \<Rightarrow> n = ParentTableField co | None \<Rightarrow> False))
         (map cl_Name (tb_Columns table))"

text \<open>The positions of the columns: of two with one name the last\<close>

definition column_index :: "string list \<Rightarrow> string \<Rightarrow> nat option" where
  "column_index cols = map_of (rev (zip cols [0..<length cols]))"

definition assignRowValue :: "string list \<Rightarrow> string \<Rightarrow> 'f Value \<Rightarrow> 'f Value list \<Rightarrow> 'f Value list" where
  "assignRowValue cols column v row =
     (case column_index cols column of
        None \<Rightarrow> row
      | Some idx \<Rightarrow> if idx \<ge> length row then row else row[idx := v])"

text \<open>The column of a field: the last that is registered for it, else the name of the field\<close>

definition columnNameForField :: "Table \<Rightarrow> FieldDesc \<Rightarrow> string" where
  "columnNameForField table fd =
     (case map_of (rev (map (\<lambda>c. (cl_Field c, cl_Name c)) (tb_Columns table))) fd of
        Some n \<Rightarrow> n
      | None \<Rightarrow> fd_Name fd)"

text \<open>What the generator has: descriptors, floating point, the option, the dialect, and the clock\<close>

record ('f, 'c) GenEnv =
  gn_descs :: Descs
  gn_floats :: "'f Floats"
  gn_FormatFloatG :: "'f Value \<Rightarrow> string"
  gn_Sprint :: "'f Value \<Rightarrow> string"
  gn_useProtoOptions :: bool
  gn_dialect :: ProtoDialect
  gn_now :: "'c \<Rightarrow> 64 word \<times> 'c"

text \<open>What a field gives: the messages to write after the row, and the cells of the row that it assigns\<close>

definition native_list :: "MessageDesc \<Rightarrow> FieldDesc \<Rightarrow> GoErr" where
  "native_list md fd =
     Errorf ''Repeated fields with native values not supported yet in 'from-proto' mode. message %q, field %q''
       [AStr (md_FullName md), AStr (fd_Name fd)]"

definition csv_field ::
    "'f Floats \<Rightarrow> MessageDesc \<Rightarrow> Table option \<Rightarrow> 'f Message \<Rightarrow> FieldDesc \<Rightarrow> ('f Message option list \<times> (string \<times> 'f Value) list) res" where
  "csv_field fl md table dm fd =
     (if fd_InOneOf fd \<and> \<not> HasField dm fd
         \<or> (case Option.bind table tb_PrimaryKey of None \<Rightarrow> False | Some k \<Rightarrow> fd = pk_Field k)
      then Inr ([], [])
      else case GetField dm fd of
        V_list v \<Rightarrow>
          (case traverse (\<lambda>c. case c of V_message m \<Rightarrow> Inr m | _ \<Rightarrow> Inl (native_list md fd)) v of
             Inl e \<Rightarrow> Inl e
           | Inr ms \<Rightarrow> Inr (ms, []))
      | V_message None \<Rightarrow> Inr ([], [])
      | V_message (Some fm) \<Rightarrow> Inr ([Some fm], [])
      | fv \<Rightarrow>
          (case table of
             None \<Rightarrow> Inr ([], [])
           | Some t \<Rightarrow>
               (case NormalizeValue fl fd fv of
                  Inl e \<Rightarrow> Inl (Wrapf ''normalizing field %q: %w'' [AStr (fd_Name fd)] e)
                | Inr converted \<Rightarrow> Inr ([], [(columnNameForField t fd, converted)]))))"

definition csv_fields ::
    "'f Floats \<Rightarrow> MessageDesc \<Rightarrow> Table option \<Rightarrow> 'f Message \<Rightarrow> ('f Message option list \<times> (string \<times> 'f Value) list) res" where
  "csv_fields fl md table dm =
     (case traverse (csv_field fl md table dm) (md_Fields md) of
        Inl e \<Rightarrow> Inl e
      | Inr outs \<Rightarrow> Inr (concat (map fst outs), concat (map snd outs)))"

text \<open>The cells that are assigned before the fields\<close>

definition csv_head ::
    "DialectKind \<Rightarrow> Table \<Rightarrow> u64 \<Rightarrow> int \<times> int \<Rightarrow> 64 word \<Rightarrow> 'f Value option \<Rightarrow> 'f Parent option \<Rightarrow> (string \<times> 'f Value) list" where
  "csv_head k table blockNum blockTimestamp version key parent =
     [(dialectBlockNumberName k, V_uint64 blockNum), (dialectBlockTimestampName k, V_time blockTimestamp)]
     @ (if pl_UseVersionField k then [(''_version_'', V_int64 version)] else [])
     @ (if pl_UseDeletedField k then [(''_deleted_'', V_bool False)] else [])
     @ (case tb_PrimaryKey table of None \<Rightarrow> []
        | Some pk \<Rightarrow> [(pk_Name pk, case key of Some v \<Rightarrow> v | None \<Rightarrow> V_nil)])
     @ (case (parent, tb_ChildOf table) of (Some p, Some co) \<Rightarrow> [(ParentTableField co, pr_id p)] | _ \<Rightarrow> [])"

definition fill_row :: "string list \<Rightarrow> (string \<times> 'f Value) list \<Rightarrow> 'f Value list" where
  "fill_row cols cells = fold (\<lambda>(column, v) row. assignRowValue cols column v row) cells (replicate (length cols) V_nil)"

text \<open>The row of a message: its table and cells, the messages after it and their parent\<close>

definition collect_row ::
    "('f, 'c) GenEnv \<Rightarrow> u64 \<Rightarrow> int \<times> int \<Rightarrow> 64 word \<Rightarrow> 'f Parent option \<Rightarrow> PbTable option \<Rightarrow> 'f Message
     \<Rightarrow> ((string \<times> 'f Value list) list \<times> 'f Message option list \<times> 'f Parent option) Ret" where
  "collect_row env blockNum blockTimestamp version parent ti dm =
     (let md = gn_descs env (msg_type dm); k = pl_kind (gn_dialect env);
          table = Option.bind ti (\<lambda>t. GetTable (pl_base (gn_dialect env)) (pt_Name t)) in
      ret_bind (key_value md (case ti of Some t \<Rightarrow> pt_Name t | None \<Rightarrow> []) table dm) (\<lambda>key.
      ret_bind (ret_of (csv_fields (gn_floats env) md table dm)) (\<lambda>(childs, cells).
        case table of
          None \<Rightarrow> Returns ([], childs, None)
        | Some t \<Rightarrow>
            if childs \<noteq> [] \<and> gn_useProtoOptions env \<and> tb_PrimaryKey t = None
            then Fails (Errorf ''table %q has no primary key and has %d associated children table'' [AStr (tb_Name t), ANat (length childs)])
            else Returns ([(tb_Name t, fill_row (computeColumnsForTable k t)
                              (csv_head k t blockNum blockTimestamp version key parent @ cells))],
                          childs,
                          if childs \<noteq> [] \<and> gn_useProtoOptions env
                          then Some \<lparr>pr_field = lower_name (md_Name md), pr_id = (case key of Some v \<Rightarrow> v | None \<Rightarrow> V_nil)\<rparr>
                          else None))))"

definition csv_version :: "('f, 'c) GenEnv \<Rightarrow> PbTable option \<Rightarrow> 'c \<Rightarrow> 64 word \<times> 'c" where
  "csv_version env ti c =
     (if pl_UseVersionField (pl_kind (gn_dialect env))
         \<and> Option.bind ti (\<lambda>t. GetTable (pl_base (gn_dialect env)) (pt_Name t)) \<noteq> None
      then gn_now env c else (0, c))"

definition collect_message ::
    "('f, 'c) GenEnv \<Rightarrow> u64 \<Rightarrow> int \<times> int \<Rightarrow> 'f Parent option \<Rightarrow> 'f Message \<Rightarrow> 'c
     \<Rightarrow> ((string \<times> 'f Value list) list \<times> 'f Message option list \<times> 'f Parent option) Ret \<times> 'c" where
  "collect_message env blockNum blockTimestamp parent dm c =
     (case table_info (gn_useProtoOptions env) (gn_descs env (msg_type dm)) of
        Returns ti \<Rightarrow>
          (case csv_version env ti c of
             (version, c') \<Rightarrow> (collect_row env blockNum blockTimestamp version parent ti dm, c'))
      | Fails e \<Rightarrow> (Fails e, c)
      | Panics \<Rightarrow> (Panics, c))"

lemma csv_field_size:
  assumes "csv_field fl md table dm fd = Inr (ms, cells)" "m \<in> set ms"
  shows "depth_measure m < size dm"
proof -
  have pos: "0 < size dm" by (cases dm) simp
  have sub: "V_message m = GetField dm fd \<or> (\<exists>vs. GetField dm fd = V_list vs \<and> V_message m \<in> set vs)"
  proof (cases "GetField dm fd")
    case (V_list xs)
    with assms have "traverse (\<lambda>c. case c of V_message m \<Rightarrow> Inr m | _ \<Rightarrow> Inl (native_list md fd)) xs = Inr ms"
      by (auto simp: csv_field_def split: if_splits sum.splits)
    then have "list_all2 (\<lambda>c m. (case c of V_message m \<Rightarrow> Inr m | _ \<Rightarrow> Inl (native_list md fd)) = Inr m) xs ms"
      by (simp add: traverse_Inr_iff)
    with assms(2) have "\<exists>c \<in> set xs. (case c of V_message m \<Rightarrow> Inr m | _ \<Rightarrow> Inl (native_list md fd)) = Inr m"
      unfolding list_all2_conv_all_nth in_set_conv_nth by (metis nth_mem)
    then obtain c where c: "c \<in> set xs" "(case c of V_message m \<Rightarrow> Inr m | _ \<Rightarrow> Inl (native_list md fd)) = Inr m" by blast
    from c(2) have "c = V_message m" by (cases c) simp_all
    with c(1) have "V_message m \<in> set xs" by simp
    with V_list show ?thesis by blast
  qed (use assms in \<open>auto simp: csv_field_def split: if_splits option.splits sum.splits\<close>)
  then show ?thesis
  proof
    assume "V_message m = GetField dm fd"
    then have "size (V_message m) < size dm" using GetField_size [of dm fd] by auto
    with pos show ?thesis by (cases m) (auto simp: depth_measure_def)
  next
    assume "\<exists>vs. GetField dm fd = V_list vs \<and> V_message m \<in> set vs"
    then obtain xs where x: "GetField dm fd = V_list xs" "V_message m \<in> set xs" by blast
    then have "size (V_list xs) < size dm" using GetField_size [of dm fd] by auto
    moreover have "size (V_message m) < size (V_list xs)"
      using x(2) by (auto dest!: split_list simp: size_list_append)
    ultimately show ?thesis using pos by (cases m) (auto simp: depth_measure_def)
  qed
qed

lemma collect_message_size:
  assumes "collect_message env bn ts parent dm c = (Returns (rs, childs, p), c')" "m \<in> set childs"
  shows "depth_measure m < size dm"
proof -
  from assms obtain table cells where f: "csv_fields (gn_floats env) (gn_descs env (msg_type dm)) table dm = Inr (childs, cells)"
    by (auto simp: collect_message_def collect_row_def Let_def ret_bind_Returns split: Ret.splits prod.splits option.splits if_splits)
  then obtain outs where o: "traverse (csv_field (gn_floats env) (gn_descs env (msg_type dm)) table dm)
      (md_Fields (gn_descs env (msg_type dm))) = Inr outs" and c: "childs = concat (map fst outs)"
    by (auto simp: csv_fields_def split: sum.splits)
  from assms(2) c obtain ms vs where m: "(ms, vs) \<in> set outs" "m \<in> set ms" by auto
  with o obtain fd where "csv_field (gn_floats env) (gn_descs env (msg_type dm)) table dm fd = Inr (ms, vs)"
    by (auto simp: traverse_Inr_iff list_all2_conv_all_nth in_set_conv_nth)
  from csv_field_size [OF this m(2)] show ?thesis .
qed

lemma collect_message_measure:
  assumes "collect_message env bn ts parent dm c = (Returns (rs, childs, p), c')"
  shows "foldr max (map depth_measure childs) 0 < depth_measure (Some dm)"
proof -
  have "\<forall>m \<in> set ms. depth_measure m < n \<Longrightarrow> 0 < n \<Longrightarrow> foldr max (map depth_measure ms) 0 < n"
    for ms :: "'a Message option list" and n by (induction ms) auto
  from this [of childs "size dm"] collect_message_size [OF assms] show ?thesis
    by (cases dm) (auto simp: depth_measure_def)
qed

text \<open>The rows in the order of the walk: a message before the messages in it\<close>

function walkMessageAndCollectRows ::
    "('f, 'c) GenEnv \<Rightarrow> u64 \<Rightarrow> int \<times> int \<Rightarrow> 'f Parent option \<Rightarrow> 'f Message option \<Rightarrow> 'c \<Rightarrow> (string \<times> 'f Value list) list Ret \<times> 'c"
  and collect_children ::
    "('f, 'c) GenEnv \<Rightarrow> u64 \<Rightarrow> int \<times> int \<Rightarrow> 'f Parent option \<Rightarrow> 'f Message option list \<Rightarrow> 'c \<Rightarrow> (string \<times> 'f Value list) list Ret \<times> 'c"
where
  "walkMessageAndCollectRows env bn ts parent None c = (Fails (Errorf ''received a nil message'' []), c)"
| "walkMessageAndCollectRows env bn ts parent (Some dm) c =
     (case collect_message env bn ts parent dm c of
        (Returns (rs, childs, p), c') \<Rightarrow>
          (case collect_children env bn ts p childs c' of
             (r, c'') \<Rightarrow> (ret_bind r (\<lambda>rs'. Returns (rs @ rs')), c''))
      | (Fails e, c') \<Rightarrow> (Fails e, c')
      | (Panics, c') \<Rightarrow> (Panics, c'))"
| "collect_children env bn ts p [] c = (Returns [], c)"
| "collect_children env bn ts p (fm # fms) c =
     (case walkMessageAndCollectRows env bn ts p fm c of
        (Returns rs, c') \<Rightarrow>
          (case collect_children env bn ts p fms c' of
             (r, c'') \<Rightarrow> (ret_bind r (\<lambda>rs'. Returns (rs @ rs')), c''))
      | (Fails e, c') \<Rightarrow>
          (case fm of
             None \<Rightarrow> (Panics, c')
           | Some m \<Rightarrow> (Fails (Wrapf ''processing child %q: %w'' [AStr (md_FullName (gn_descs env (msg_type m)))] e), c'))
      | (Panics, c') \<Rightarrow> (Panics, c'))"
  by pat_completeness auto
termination
proof (relation "measures
    [\<lambda>x. case x of Inl (_, _, _, _, m, _) \<Rightarrow> depth_measure m
                 | Inr (_, _, _, _, ms, _) \<Rightarrow> foldr max (map depth_measure ms) 0,
     \<lambda>x. case x of Inl _ \<Rightarrow> 0 | Inr (_, _, _, _, ms, _) \<Rightarrow> length ms]")
qed (auto simp: max_def intro: collect_message_measure dest: sym)

section \<open>Lines\<close>

text \<open>\<open>fmt.Sprint\<close>; of instants, floating point numbers and composite values it is a parameter.\<close>

definition go_Sprint :: "('f Value \<Rightarrow> string) \<Rightarrow> 'f Value \<Rightarrow> string" where
  "go_Sprint other v =
     (case v of
        V_nil \<Rightarrow> ''<nil>''
      | V_string s \<Rightarrow> s
      | V_number s \<Rightarrow> s
      | V_bool b \<Rightarrow> (if b then ''true'' else ''false'')
      | V_int32 n \<Rightarrow> format_int (sint n)
      | V_int64 n \<Rightarrow> format_int (sint n)
      | V_uint32 n \<Rightarrow> dec (unat n)
      | V_uint64 n \<Rightarrow> dec (unat n)
      | V_bytes b \<Rightarrow> ''['' @ joinS '' '' (map (\<lambda>c. dec (of_char c)) b) @ '']''
      | _ \<Rightarrow> other v)"

definition formatTimestamp :: "DialectKind \<Rightarrow> int \<times> int \<Rightarrow> string" where
  "formatTimestamp k t = (if k = RisingwaveKind then format_RisingWave (fst t) (snd t) else format_RFC3339 0 (fst t))"

definition formatIntegral :: "'f Value \<Rightarrow> string option" where
  "formatIntegral v =
     (case v of
        V_int32 n \<Rightarrow> Some (format_int (sint n))
      | V_int64 n \<Rightarrow> Some (format_int (sint n))
      | V_uint32 n \<Rightarrow> Some (dec (unat n))
      | V_uint64 n \<Rightarrow> Some (dec (unat n))
      | _ \<Rightarrow> None)"

definition escapeCSVValue :: "string \<Rightarrow> string" where
  "escapeCSVValue s =
     (if list_ex (\<lambda>c. c \<in> {CHR '','', CHR 0x22, CHR 0x0A, CHR 0x0D}) s
      then [CHR 0x22] @ replaceAll [CHR 0x22] [CHR 0x22, CHR 0x22] s @ [CHR 0x22] else s)"

definition formatBinaryData :: "DialectKind \<Rightarrow> string \<Rightarrow> string" where
  "formatBinaryData k data =
     (if k = ClickhouseKind then b64_encode data
      else [CHR 0x5C] @ ''x'' @ concat (map (\<lambda>c. hex_digits 2 (of_char c)) data))"

text \<open>A value of a column that is no column of the system and no reference by its name\<close>

definition format_typed :: "('f, 'c) GenEnv \<Rightarrow> 'f Value \<Rightarrow> string" where
  "format_typed env v =
     (let k = pl_kind (gn_dialect env) in
      case v of
        V_nil \<Rightarrow> []
      | V_string s \<Rightarrow> escapeCSVValue s
      | V_bytes b \<Rightarrow> formatBinaryData k b
      | V_bool b \<Rightarrow> (if b then ''true'' else ''false'')
      | V_time t \<Rightarrow> formatTimestamp k t
      | V_ptime None \<Rightarrow> []
      | V_ptime (Some t) \<Rightarrow> formatTimestamp k t
      | V_int32 n \<Rightarrow> format_int (sint n)
      | V_int64 n \<Rightarrow> format_int (sint n)
      | V_uint32 n \<Rightarrow> dec (unat n)
      | V_uint64 n \<Rightarrow> dec (unat n)
      | V_float32 _ \<Rightarrow> gn_FormatFloatG env v
      | V_float64 _ \<Rightarrow> gn_FormatFloatG env v
      | V_timestamp None \<Rightarrow> []
      | V_message None \<Rightarrow> []
      | _ \<Rightarrow> escapeCSVValue (go_Sprint (gn_Sprint env) v))"

definition formatValue :: "('f, 'c) GenEnv \<Rightarrow> 'f Value \<Rightarrow> string \<Rightarrow> Table \<Rightarrow> string" where
  "formatValue env v columnName table =
     (let k = pl_kind (gn_dialect env); sprint = go_Sprint (gn_Sprint env);
          others = (if hasSuffix ''_id'' columnName then escapeCSVValue (sprint v)
                    else if columnName \<notin> set (map cl_Name (tb_Columns table)) then escapeCSVValue (sprint v)
                    else format_typed env v)
      in case v of
           V_nil \<Rightarrow> []
         | _ \<Rightarrow>
             if columnName = ''_block_number_'' \<or> columnName = ''block_number'' \<or> columnName = ''_version_''
             then (case formatIntegral v of Some s \<Rightarrow> s | None \<Rightarrow> sprint v)
             else if columnName = ''_block_timestamp_'' \<or> columnName = ''block_timestamp''
             then (case v of V_time t \<Rightarrow> formatTimestamp k t | _ \<Rightarrow> others)
             else if columnName = ''_deleted_''
             then (case v of V_bool b \<Rightarrow> (if b then ''true'' else ''false'') | _ \<Rightarrow> others)
             else others)"

definition formatRowForCSV :: "('f, 'c) GenEnv \<Rightarrow> 'f Value list \<Rightarrow> Table \<Rightarrow> string" where
  "formatRowForCSV env row table =
     (let columns = computeColumnsForTable (pl_kind (gn_dialect env)) table in
      joinS '','' (map (\<lambda>(i, col). formatValue env (if i < length row then row ! i else V_nil) col table) (List.enumerate 0 columns))
      @ [CHR 0x0A])"

section \<open>The generator\<close>

text \<open>The bundlers of the tables, the file with the last cursor that was written, and whether the bundlers are shut
  down\<close>

record 'w Generator =
  gr_bundlers :: "'w Bundler gomap"
  gr_bundleSize :: u64
  gr_lastCursor :: "string option"
  gr_closed :: bool

definition csv_header :: "string list \<Rightarrow> string" where
  "csv_header columns = joinS '','' columns @ [CHR 0x0A]"

text \<open>The bundler of a table, started at the first block\<close>

definition table_bundler ::
    "'w WriterI \<Rightarrow> (string \<Rightarrow> 'w) \<Rightarrow> (string \<Rightarrow> GoErr option) \<Rightarrow> DialectKind \<Rightarrow> u64 \<Rightarrow> u64 \<Rightarrow> u64 \<Rightarrow> string \<Rightarrow> Table
     \<Rightarrow> ('w Bundler) res" where
  "table_bundler wi newWriter SubStore k bundleSiz startBlock stop tn table =
     (case SubStore tn of
        Some e \<Rightarrow> Inl (Wrapf ''creating substore for table %s: %w'' [AStr tn] e)
      | None \<Rightarrow>
          (case Bundler_Start wi startBlock
                  (NewBundler bundleSiz stop (newWriter tn) (csv_header (computeColumnsForTable k table))) of
             (Some e, b) \<Rightarrow> Inl (Wrapf ''starting bundler for table %s: %w'' [AStr tn] e)
           | (None, b) \<Rightarrow> Inr b))"

text \<open>Directories and the object store are those of the system.\<close>

record GenFiles =
  gf_MkdirAll :: "string \<Rightarrow> GoErr option"
  gf_NewStore :: "string \<Rightarrow> GoErr option"
  gf_SubStore :: "string \<Rightarrow> GoErr option"

definition newProtoAwareCSVGenerator ::
    "'w WriterI \<Rightarrow> (string \<Rightarrow> 'w) \<Rightarrow> GenFiles \<Rightarrow> GoErr option \<Rightarrow> (u64 \<times> u64 option) option \<Rightarrow> ProtoDialect
     \<Rightarrow> string \<Rightarrow> string \<Rightarrow> u64 \<Rightarrow> string \<Rightarrow> ('w Generator) res" where
  "newProtoAwareCSVGenerator wi newWriter files WrapMessage blockRange d outputDir workDir bundleSiz cursorsTab =
     (case WrapMessage of
        Some e \<Rightarrow> Inl (Wrapf ''wrapping root message descriptor: %w'' [] e)
      | None \<Rightarrow> (case gf_MkdirAll files outputDir of
        Some e \<Rightarrow> Inl (Wrapf ''creating output directory: %w'' [] e)
      | None \<Rightarrow> (case gf_MkdirAll files workDir of
        Some e \<Rightarrow> Inl (Wrapf ''creating working directory: %w'' [] e)
      | None \<Rightarrow> (case gf_NewStore files outputDir of
        Some e \<Rightarrow> Inl (Wrapf ''creating output store: %w'' [] e)
      | None \<Rightarrow> (case blockRange of
        Some (startBlock, Some stop) \<Rightarrow>
          (case traverse (\<lambda>(n, table). map_sum id (\<lambda>b. (n, b))
                  (table_bundler wi newWriter (gf_SubStore files) (pl_kind d) bundleSiz startBlock stop n table))
                (bd_TableRegistry (pl_base d)) of
             Inl e \<Rightarrow> Inl e
           | Inr bs \<Rightarrow>
               (case gf_SubStore files cursorsTab of
                  Some e \<Rightarrow> Inl (Wrapf ''creating cursors substore: %w'' [] e)
                | None \<Rightarrow> Inr \<lparr>gr_bundlers = bs, gr_bundleSize = bundleSiz, gr_lastCursor = None, gr_closed = False\<rparr>))
      | _ \<Rightarrow> Inl (Errorf ''sink must have a stop block defined'' []))))))"

text \<open>A line of a row, and before the first one of a boundary the header\<close>

definition write_line :: "'w WriterI \<Rightarrow> string \<Rightarrow> string \<Rightarrow> 'w Bundler \<Rightarrow> Outcome \<times> 'w Bundler" where
  "write_line wi tn line b =
     (case (if HeaderWritten b then ((0, None), boundaryWriter b) else wi_Write wi (Header b) (boundaryWriter b)) of
        ((_, Some e), w) \<Rightarrow> (Fail (Wrapf ''writing header for table %s: %w'' [AStr tn] e), b\<lparr>boundaryWriter := w\<rparr>)
      | ((_, None), w) \<Rightarrow>
          (case wi_Write wi line w of
             ((_, Some e), w') \<Rightarrow>
               (Fail (Wrapf ''writing row to table %s: %w'' [AStr tn] e), b\<lparr>boundaryWriter := w', HeaderWritten := True\<rparr>)
           | ((_, None), w') \<Rightarrow> (Done, b\<lparr>boundaryWriter := w', HeaderWritten := True\<rparr>)))"

text \<open>A row of a table without bundler is left out with a warning.\<close>

fun write_lines ::
    "'w WriterI \<Rightarrow> ('f, 'c) GenEnv \<Rightarrow> (string \<times> 'f Value list) list \<Rightarrow> 'w Bundler gomap \<Rightarrow> Outcome \<times> 'w Bundler gomap" where
  "write_lines wi env [] bs = (Done, bs)"
| "write_lines wi env ((tn, row) # rs) bs =
     (case (map_of bs tn, GetTable (pl_base (gn_dialect env)) tn) of
        (Some b, Some table) \<Rightarrow>
          (case write_line wi tn (formatRowForCSV env row table) b of
             (Done, b') \<Rightarrow> write_lines wi env rs (AList.update tn b' bs)
           | (r, b') \<Rightarrow> (r, AList.update tn b' bs))
      | _ \<Rightarrow> write_lines wi env rs bs)"

text \<open>The bundlers are rolled one by one, up to the first error other than the stop block.\<close>

fun roll_all :: "'w WriterI \<Rightarrow> u64 \<Rightarrow> 'w Bundler gomap \<Rightarrow> Outcome \<times> 'w Bundler gomap" where
  "roll_all wi n [] = (Done, [])"
| "roll_all wi n ((t, b) # bs) =
     (case Roll wi n b of
        None \<Rightarrow> (Panicked, (t, b) # bs)
      | Some (r, b') \<Rightarrow>
          if is_ok r \<or> r = Inl ErrStopBlockReached
          then (case roll_all wi n bs of (x, bs') \<Rightarrow> (x, (t, b') # bs'))
          else (Fail (Wrapf ''rolling bundler for table %s: %w'' [AStr t] (case r of Inl e \<Rightarrow> e)), (t, b') # bs))"

text \<open>The handler of a block; the output of the module may be missing.\<close>

definition gen_HandleBlockScopedData ::
    "'w WriterI \<Rightarrow> ('f, 'c) GenEnv \<Rightarrow> (string \<Rightarrow> 'f Message res) \<Rightarrow> u64 \<Rightarrow> int \<times> int \<Rightarrow> string option \<Rightarrow> 'w Generator \<times> 'c
     \<Rightarrow> Outcome \<times> 'w Generator \<times> 'c" where
  "gen_HandleBlockScopedData wi env Unmarshal blockNum timestamp output s =
     (case (output, s) of
        (None, s) \<Rightarrow> (Done, s)
      | (Some value, (g, c)) \<Rightarrow>
          (case Unmarshal value of
             Inl e \<Rightarrow> (Fail (Wrapf ''unmarshaling message: %w'' [] e), (g, c))
           | Inr msg \<Rightarrow>
               (case walkMessageAndCollectRows env blockNum (AsTime timestamp) None (Some msg) c of
                  (Panics, c') \<Rightarrow> (Panicked, (g, c'))
                | (Fails e, c') \<Rightarrow> (Fail (Wrapf ''walking message: %w'' [] e), (g, c'))
                | (Returns allRows, c') \<Rightarrow>
                    (case write_lines wi env allRows (gr_bundlers g) of
                       (Done, bs) \<Rightarrow>
                         (case roll_all wi blockNum bs of (r, bs') \<Rightarrow> (r, (g\<lparr>gr_bundlers := bs'\<rparr>, c')))
                     | (r, bs) \<Rightarrow> (r, (g\<lparr>gr_bundlers := bs\<rparr>, c'))))))"

definition gen_HandleBlockUndoSignal :: "'w Generator \<Rightarrow> Outcome \<times> 'w Generator" where
  "gen_HandleBlockUndoSignal g = (Done, g)"

text \<open>The queues are drained and nothing more is put in them.\<close>

definition gen_close :: "'w Generator \<Rightarrow> 'w Generator" where
  "gen_close g = g\<lparr>gr_closed := True\<rparr>"

text \<open>The last roll: its errors are logged only.\<close>

fun final_roll :: "'w WriterI \<Rightarrow> u64 \<Rightarrow> 'w Bundler gomap \<Rightarrow> Outcome \<times> 'w Bundler gomap" where
  "final_roll wi n [] = (Done, [])"
| "final_roll wi n ((t, b) # bs) =
     (case Roll wi n b of
        None \<Rightarrow> (Panicked, (t, b) # bs)
      | Some (r, b') \<Rightarrow> (case final_roll wi n bs of (x, bs') \<Rightarrow> (x, (t, b') # bs')))"

definition gen_HandleBlockRangeCompletion ::
    "'w WriterI \<Rightarrow> (string \<Rightarrow> string \<Rightarrow> GoErr option) \<Rightarrow> Cursor \<Rightarrow> 'w Generator \<Rightarrow> Outcome \<times> 'w Generator" where
  "gen_HandleBlockRangeCompletion wi WriteObject cursor g =
     (let file = ''name,cursor'' @ [CHR 0x0A] @ ''cursor,'' @ c_string cursor @ [CHR 0x0A] in
      case WriteObject ''last_cursor'' file of
        Some e \<Rightarrow> (Fail (Wrapf ''write last cursor file: %w'' [] e), g)
      | None \<Rightarrow>
          (let g1 = g\<lparr>gr_lastCursor := Some file\<rparr>; final = c_num cursor in
           if gr_bundleSize g = 0 then (Panicked, g1)
           else let trigger = final - final mod gr_bundleSize g + gr_bundleSize g in
             case final_roll wi trigger (gr_bundlers g1) of
               (Panicked, bs) \<Rightarrow> (Panicked, g1\<lparr>gr_bundlers := bs\<rparr>)
             | (_, bs) \<Rightarrow> (Done, gen_close (g1\<lparr>gr_bundlers := bs\<rparr>))))"

text \<open>The stream of the client calls the handlers; how it ended is not looked at.\<close>

definition gen_Run :: "('w Generator \<times> 'c \<Rightarrow> 'w Generator \<times> 'c) \<Rightarrow> 'w Generator \<times> 'c \<Rightarrow> GoErr option \<times> 'w Generator \<times> 'c" where
  "gen_Run stream s = (None, apfst gen_close (stream s))"

end
