(* ===== verification/ProtoCsvProperties.thy ===== *)
theory ProtoCsvProperties
  imports ProtoCsv ProtoProperties
begin

text \<open>
  The rows of the CSV files of a message are the rows that its walk inserts in a database, and every row that
  is written reaches a file.
\<close>

section \<open>A row\<close>

lemma messages_of_list:
  "traverse (\<lambda>c. case c of V_message m \<Rightarrow> Inr m | _ \<Rightarrow> Inl (f c)) vs = Inr ms \<longleftrightarrow> vs = map V_message ms"
proof -
  have "(case c of V_message m \<Rightarrow> Inr m | _ \<Rightarrow> Inl (f c)) = Inr m \<longleftrightarrow> c = V_message m" for c m by (cases c) auto
  then have "traverse (\<lambda>c. case c of V_message m \<Rightarrow> Inr m | _ \<Rightarrow> Inl (f c)) vs = Inr ms \<longleftrightarrow> list_all2 (\<lambda>c m. c = V_message m) vs ms"
    by (simp add: traverse_Inr_iff)
  also have "\<dots> \<longleftrightarrow> list_all2 (=) vs (map V_message ms)" by (simp add: list_all2_map2)
  finally show ?thesis by (simp add: list.rel_eq)
qed

text \<open>What a field has when it is no message field: no messages\<close>

definition no_messages :: "'f Value \<Rightarrow> bool" where
  "no_messages x = (case x of V_message m \<Rightarrow> False | V_list vs \<Rightarrow> list_all (\<lambda>v. \<not> is_message v) vs | _ \<Rightarrow> True)"

definition has_column :: "Table \<Rightarrow> FieldDesc \<Rightarrow> bool" where
  "has_column t fd \<longleftrightarrow> fd \<in> set (map cl_Field (tb_Columns t))"

text \<open>The value of a field fits its column: one value in a column, messages in a message field, and no
  message elsewhere.\<close>

definition fits :: "Table \<Rightarrow> 'f Message \<Rightarrow> FieldDesc \<Rightarrow> bool" where
  "fits t dm fd \<longleftrightarrow>
     (if has_column t fd then \<not> fd_InOneOf fd \<and> \<not> message_valued (GetField dm fd)
      else if fd_Type fd = TYPE_MESSAGE then leaves_out (Some t) dm fd \<or> message_valued (GetField dm fd)
      else no_messages (GetField dm fd))"

lemma csv_skips:
  "(fd_InOneOf fd \<and> \<not> HasField dm fd \<or> (case Option.bind (Some t) tb_PrimaryKey of None \<Rightarrow> False | Some k \<Rightarrow> fd = pk_Field k))
   \<longleftrightarrow> (fd_InOneOf fd \<and> \<not> HasField dm fd \<or> is_key_field t fd)"
  by (simp add: is_key_field_def)

lemma leaves_out_iff:
  "leaves_out (Some t) dm fd \<longleftrightarrow>
     fd_InOneOf fd \<and> \<not> HasField dm fd \<or> is_key_field t fd \<or> fd_Type fd \<noteq> TYPE_MESSAGE \<and> \<not> has_column t fd"
  by (simp add: leaves_out_def is_key_field_def has_column_def)

lemma csv_field_children:
  assumes "csv_field fl md table dm fd = Inr (ms, cells)" "field_output fl md dm fd = Inr (ms', vs)"
    and "\<not> (fd_InOneOf fd \<and> \<not> HasField dm fd)" "\<not> (case Option.bind table tb_PrimaryKey of None \<Rightarrow> False | Some k \<Rightarrow> fd = pk_Field k)"
  shows "ms = ms' \<and> (is_message (GetField dm fd) \<or> (\<exists>vs. GetField dm fd = V_list vs) \<longrightarrow> cells = [] \<and> vs = [])"
proof (cases "GetField dm fd")
  case (V_list xs)
  with assms have x: "xs = map V_message ms" "cells = []"
    by (auto simp: csv_field_def messages_of_list split: sum.splits)
  show ?thesis
  proof (cases ms)
    case Nil
    with x V_list assms(2) show ?thesis by (simp add: field_output_def)
  next
    case (Cons m ms1)
    have c: "list_children md fd xs = Inr ms" unfolding list_children_def messages_of_list x(1) ..
    from Cons x(1) have h: "xs \<noteq> []" "is_message (hd xs)" by (simp_all add: is_message_def)
    from assms(2) have "(ms', vs) = (ms, [])" unfolding field_output_def V_list by (simp add: h c)
    with x(2) show ?thesis by simp
  qed
next
  case (V_message m)
  with assms show ?thesis by (cases m) (auto simp: csv_field_def field_output_def)
qed (use assms in \<open>auto simp: csv_field_def field_output_def is_message_def split: option.splits sum.splits\<close>)

lemma no_column_name: "fd \<notin> cl_Field ` set cols \<Longrightarrow> map_of (rev (map (\<lambda>c. (cl_Field c, cl_Name c)) cols)) fd = None"
  by (force simp: map_of_eq_None_iff)

lemma csv_field_fits:
  assumes csv: "csv_field fl md (Some t) dm fd = Inr (ms, cells)"
    and db: "(if leaves_out (Some t) dm fd then Inr ([], []) else field_output fl md dm fd) = Inr (ms', vs)"
    and fits: "fits t dm fd"
  shows "ms = ms' \<and> (if has_column t fd \<and> \<not> is_key_field t fd
    then cells = map (Pair (columnNameForField t fd)) vs \<and> length vs = 1
    else vs = [] \<and> (\<forall>n \<in> set (map fst cells). \<not> has_column t fd \<and> n = fd_Name fd))"
proof (cases "fd_InOneOf fd \<and> \<not> HasField dm fd \<or> is_key_field t fd")
  case True
  then have "cells = []" "ms = []" using csv unfolding csv_field_def csv_skips by auto
  moreover have "vs = []" "ms' = []" using db True unfolding leaves_out_iff by auto
  moreover have "\<not> (has_column t fd \<and> \<not> is_key_field t fd)" using True fits by (auto simp: fits_def)
  ultimately show ?thesis by simp
next
  case False
  then have skip: "\<not> (fd_InOneOf fd \<and> \<not> HasField dm fd)"
    "\<not> (case Option.bind (Some t) tb_PrimaryKey of None \<Rightarrow> False | Some k \<Rightarrow> fd = pk_Field k)"
    by (auto simp: is_key_field_def)
  show ?thesis
  proof (cases "has_column t fd \<or> fd_Type fd = TYPE_MESSAGE")
    case True
    with False db have f: "field_output fl md dm fd = Inr (ms', vs)" by (auto simp: leaves_out_iff)
    note c = csv_field_children [OF csv f skip]
    show ?thesis
    proof (cases "has_column t fd")
      case True
      then have nm: "\<not> message_valued (GetField dm fd)" using fits by (simp add: fits_def)
      have nl: "GetField dm fd \<noteq> V_list xs" for xs
      proof
        assume l: "GetField dm fd = V_list xs"
        then have "traverse (\<lambda>c. case c of V_message m \<Rightarrow> Inr m | _ \<Rightarrow> Inl (native_list md fd)) xs = Inr ms"
          using csv skip by (auto simp: csv_field_def split: sum.splits)
        then have "xs = map V_message ms" by (simp add: messages_of_list)
        with nm l show False by (cases ms) (simp_all add: message_valued_def is_message_def)
      qed
      from nm have "GetField dm fd \<noteq> V_message m" for m by (auto simp: message_valued_def)
      with nl csv f skip have "\<exists>v. cells = [(columnNameForField t fd, v)] \<and> vs = [v]"
        by (cases "GetField dm fd") (auto simp: csv_field_def field_output_def split: sum.splits)
      with c True False show ?thesis by auto
    next
      case nc: False
      with True have "fd_Type fd = TYPE_MESSAGE" by simp
      with nc fits False have "message_valued (GetField dm fd)" by (auto simp: fits_def leaves_out_iff)
      then have "is_message (GetField dm fd) \<or> (\<exists>xs. GetField dm fd = V_list xs)"
        by (cases "GetField dm fd") (auto simp: message_valued_def is_message_def)
      with c nc show ?thesis by simp
    qed
  next
    case nc: False
    with db have d: "ms' = []" "vs = []" by (auto simp: leaves_out_iff split: if_splits)
    from nc fits have nm: "no_messages (GetField dm fd)" by (simp add: fits_def)
    have name: "columnNameForField t fd = fd_Name fd"
      unfolding columnNameForField_def using nc by (simp add: no_column_name has_column_def)
    have "ms = [] \<and> (\<forall>n \<in> set (map fst cells). n = fd_Name fd)"
    proof (cases "GetField dm fd")
      case (V_list xs)
      with csv skip have "xs = map V_message ms" "cells = []"
        by (auto simp: csv_field_def messages_of_list split: sum.splits)
      with nm V_list show ?thesis by (cases ms) (auto simp: no_messages_def is_message_def)
    next
      case (V_message m)
      with nm show ?thesis by (simp add: no_messages_def)
    qed (use csv skip name in \<open>auto simp: csv_field_def split: sum.splits\<close>)
    with d nc show ?thesis by auto
  qed
qed

lemma csv_fields_fit:
  assumes "traverse (csv_field fl md (Some t) dm) fds = Inr outs"
    and "traverse (\<lambda>fd. if leaves_out (Some t) dm fd then Inr ([], []) else field_output fl md dm fd) fds = Inr outs'"
    and "\<forall>fd \<in> set fds. fits t dm fd"
    and "\<forall>fd \<in> set fds. if has_column t fd then columnNameForField t fd \<in> set cols else fd_Name fd \<notin> set cols"
  shows "concat (map fst outs) = concat (map fst outs')
    \<and> length (filter (\<lambda>fd. has_column t fd \<and> \<not> is_key_field t fd) fds) = length (concat (map snd outs'))
    \<and> filter (\<lambda>c. fst c \<in> set cols) (concat (map snd outs))
       = zip (map (columnNameForField t) (filter (\<lambda>fd. has_column t fd \<and> \<not> is_key_field t fd) fds)) (concat (map snd outs'))"
  using assms
proof (induction fds arbitrary: outs outs')
  case (Cons fd fds)
  from Cons.prems(1) obtain w os where w: "csv_field fl md (Some t) dm fd = Inr w"
    "traverse (csv_field fl md (Some t) dm) fds = Inr os" "outs = w # os" by (auto split: sum.splits)
  from Cons.prems(2) obtain w' os' where w': "(if leaves_out (Some t) dm fd then Inr ([], []) else field_output fl md dm fd) = Inr w'"
    "traverse (\<lambda>fd. if leaves_out (Some t) dm fd then Inr ([], []) else field_output fl md dm fd) fds = Inr os'" "outs' = w' # os'"
    by (auto split: sum.splits)
  note IH = Cons.IH [OF w(2) w'(2)]
  obtain ms cells ms' vs where p: "w = (ms, cells)" "w' = (ms', vs)" by force
  have "fits t dm fd" using Cons.prems(3) by simp
  note fit = csv_field_fits [OF w(1) [unfolded p] w'(1) [unfolded p] this]
  have f: "ms = ms'" "if has_column t fd \<and> \<not> is_key_field t fd
    then cells = map (Pair (columnNameForField t fd)) vs \<and> length vs = 1
    else vs = [] \<and> (\<forall>n \<in> set (map fst cells). \<not> has_column t fd \<and> n = fd_Name fd)" using fit by (rule conjunct1, rule conjunct2)
  show ?case
  proof (cases "has_column t fd \<and> \<not> is_key_field t fd")
    case True
    with f(2) obtain v where "vs = [v]" "cells = [(columnNameForField t fd, v)]" by (auto simp: length_Suc_conv)
    with True IH f(1) Cons.prems(3,4) show ?thesis by (simp add: w(3) w'(3) p)
  next
    case False
    with f(2) Cons.prems(4) have "vs = []" "filter (\<lambda>c. fst c \<in> set cols) cells = []" by (auto simp: filter_empty_conv)
    with False IH f(1) Cons.prems(3,4) show ?thesis by (auto simp: w(3) w'(3) p)
  qed
qed simp

lemma column_index_nth:
  assumes "distinct cols" "i < length cols"
  shows "column_index cols (cols ! i) = Some i"
proof -
  have "map fst (rev (zip cols [0..<length cols])) = rev cols" by (simp add: rev_map [symmetric])
  then have "distinct (map fst (rev (zip cols [0..<length cols])))" using assms(1) by simp
  moreover have "(cols ! i, i) \<in> set (rev (zip cols [0..<length cols]))"
    using assms(2) by (auto simp: in_set_zip)
  ultimately show ?thesis unfolding column_index_def by (rule map_of_is_SomeI)
qed

lemma column_index_None: "n \<notin> set cols \<Longrightarrow> column_index cols n = None"
  unfolding column_index_def map_of_eq_None_iff by (auto dest: set_zip_leftD)

text \<open>The cells of a row, each column once and in order, make the row of their values; cells of other columns are
  left out.\<close>

lemma fill_row_values:
  fixes vs :: "'f Value list"
  assumes "distinct cols" "length vs = length cols" "filter (\<lambda>c. fst c \<in> set cols) cells = zip cols vs"
  shows "fill_row cols cells = vs"
proof -
  let ?f = "\<lambda>(column, v) row. assignRowValue cols column v row"
  have drop: "fold ?f cs row = fold ?f (filter (\<lambda>c. fst c \<in> set cols) cs) row" for cs row
    by (induction cs arbitrary: row) (auto simp: assignRowValue_def column_index_None)
  have steps: "k \<le> length cols \<Longrightarrow> fold ?f (map (\<lambda>i. (cols ! i, vs ! i)) [0..<k]) (replicate (length cols) V_nil)
      = take k vs @ replicate (length cols - k) V_nil" for k
  proof (induction k)
    case (Suc k)
    let ?row = "take k vs @ replicate (length cols - k) V_nil"
    have k: "k < length cols" "length (take k vs) = k" "length ?row = length cols" using Suc.prems assms(2) by simp_all
    have r: "replicate (length cols - k) (V_nil :: 'f Value) = V_nil # replicate (length cols - Suc k) V_nil"
      using k(1) by (metis Suc_diff_Suc replicate_Suc)
    have "assignRowValue cols (cols ! k) (vs ! k) ?row = ?row[k := vs ! k]"
      using k by (simp add: assignRowValue_def column_index_nth [OF assms(1)])
    also have "\<dots> = take k vs @ vs ! k # replicate (length cols - Suc k) V_nil"
      by (metis k(2) list_update_length r)
    also have "\<dots> = take (Suc k) vs @ replicate (length cols - Suc k) V_nil"
      using k(1) assms(2) by (simp add: take_Suc_conv_app_nth)
    finally show ?case using Suc by simp
  qed simp
  have "zip cols vs = map (\<lambda>i. (cols ! i, vs ! i)) [0..<length cols]"
    using assms(2) by (intro nth_equalityI) simp_all
  with steps [of "length cols"] have "fold ?f (zip cols vs) (replicate (length cols) V_nil) = vs" by (simp add: assms(2))
  then show ?thesis unfolding fill_row_def using drop [of cells] assms(3) by metis
qed

text \<open>What the table of a message must be like for its columns to have different names in both: no column has the
  name of the parent's, and a field without a column has the name of none.\<close>

definition clear_columns :: "DialectKind \<Rightarrow> Table \<Rightarrow> FieldDesc list \<Rightarrow> bool" where
  "clear_columns k t fds \<longleftrightarrow>
     distinct (computeColumnsForTable k t) \<and> distinct (map cl_Name (tb_Columns t)) \<and> distinct fds
     \<and> (\<forall>c \<in> set (tb_Columns t). \<not> cl_IsExtension c)
     \<and> (case tb_ChildOf t of None \<Rightarrow> True | Some co \<Rightarrow> ParentTableField co \<notin> set (map cl_Name (tb_Columns t)))
     \<and> (\<forall>fd \<in> set fds. has_column t fd \<or> fd_Name fd \<notin> set (computeColumnsForTable k t))"

definition system_columns :: "DialectKind \<Rightarrow> Table \<Rightarrow> string list" where
  "system_columns k t =
     [dialectBlockNumberName k, dialectBlockTimestampName k]
     @ (if pl_UseVersionField k then [''_version_''] else [])
     @ (if pl_UseDeletedField k then [''_deleted_''] else [])
     @ (case tb_PrimaryKey t of None \<Rightarrow> [] | Some pk \<Rightarrow> [pk_Name pk])
     @ (case tb_ChildOf t of None \<Rightarrow> [] | Some co \<Rightarrow> [ParentTableField co])"

lemma columns_split:
  assumes "table_of_message descs wo md n t" "clear_columns k t (md_Fields md)"
  shows "computeColumnsForTable k t = system_columns k t @ map cl_Name (data_columns t)"
proof -
  have parent: "cl_Name c \<noteq> ParentTableField co" if "c \<in> set (tb_Columns t)" "tb_ChildOf t = Some co" for c co
    using assms(2) that unfolding clear_columns_def by (metis (no_types, lifting) image_eqI list.set_map option.simps(5))
  have ext: "\<forall>c \<in> set (tb_Columns t). \<not> cl_IsExtension c" using assms(2) by (simp add: clear_columns_def)
  have "filter (\<lambda>n. \<not> (case tb_PrimaryKey t of Some pk \<Rightarrow> n = pk_Name pk | None \<Rightarrow> False)
          \<and> \<not> (case tb_ChildOf t of Some co \<Rightarrow> n = ParentTableField co | None \<Rightarrow> False)) (map cl_Name (tb_Columns t))
      = map cl_Name (data_columns t)"
    using ext table_fields(3) [OF assms(1)] unfolding data_columns_def filter_map
    by (intro arg_cong [of _ _ "map cl_Name"] filter_cong refl) (auto dest: parent split: option.splits)
  then show ?thesis unfolding computeColumnsForTable_def system_columns_def by simp
qed

lemma columnNameForField_column:
  assumes "distinct (map cl_Field (tb_Columns t))" "c \<in> set (tb_Columns t)"
  shows "columnNameForField t (cl_Field c) = cl_Name c"
proof -
  have "map_of (rev (map (\<lambda>c. (cl_Field c, cl_Name c)) (tb_Columns t))) (cl_Field c) = Some (cl_Name c)"
    using assms by (intro map_of_is_SomeI) (auto simp: rev_map [symmetric] comp_def)
  then show ?thesis by (simp add: columnNameForField_def)
qed

text \<open>The column of every field with one is among the columns of the row.\<close>

lemma field_columns:
  assumes t: "table_of_message descs wo md n t" and c: "clear_columns k t (md_Fields md)"
  shows "\<forall>fd \<in> set (md_Fields md). if has_column t fd then columnNameForField t fd \<in> set (computeColumnsForTable k t)
      else fd_Name fd \<notin> set (computeColumnsForTable k t)"
    and "map (columnNameForField t) (filter (\<lambda>fd. has_column t fd \<and> \<not> is_key_field t fd) (md_Fields md))
      = map cl_Name (data_columns t)"
proof -
  have d: "distinct (map cl_Field (tb_Columns t))"
    using c by (simp add: table_fields(1) [OF t] column_fields_def clear_columns_def)
  note name = columnNameForField_column [OF d]
  have all: "cl_Name x \<in> set (computeColumnsForTable k t)" if "x \<in> set (tb_Columns t)" for x
    using that by (auto simp: computeColumnsForTable_def split: option.splits)
  show "\<forall>fd \<in> set (md_Fields md). if has_column t fd then columnNameForField t fd \<in> set (computeColumnsForTable k t)
      else fd_Name fd \<notin> set (computeColumnsForTable k t)"
    using c name all by (auto simp: clear_columns_def has_column_def)
  have "filter (\<lambda>fd. has_column t fd \<and> \<not> is_key_field t fd) (md_Fields md) = map cl_Field (data_columns t)"
    using data_columns_fields [OF t, of "\<lambda>_. True"] c by (simp add: clear_columns_def has_column_def)
  moreover have "set (data_columns t) \<subseteq> set (tb_Columns t)" by (auto simp: data_columns_def)
  ultimately show "map (columnNameForField t) (filter (\<lambda>fd. has_column t fd \<and> \<not> is_key_field t fd) (md_Fields md))
      = map cl_Name (data_columns t)" using name by auto
qed

text \<open>A database and a generator for the same messages, tables and options\<close>

definition same_sink :: "('f, 's) WalkEnv \<Rightarrow> ('f, 'c) GenEnv \<Rightarrow> bool" where
  "same_sink env g \<longleftrightarrow>
     we_descs env = gn_descs g \<and> we_floats env = gn_floats g \<and> we_tables env = GetTable (pl_base (gn_dialect g))
     \<and> useProtoOptions env = gn_useProtoOptions g \<and> UseVersionField env = pl_UseVersionField (pl_kind (gn_dialect g))
     \<and> UseDeletedField env = pl_UseDeletedField (pl_kind (gn_dialect g))"

lemma csv_row_values:
  assumes same: "same_sink env g" and md: "md = gn_descs g (msg_type dm)"
    and t: "table_of_message descs wo md n t" "message_table env ti = Some t"
    and c: "clear_columns (pl_kind (gn_dialect g)) t (md_Fields md)" and fits: "\<forall>fd \<in> set (md_Fields md). fits t dm fd"
    and parent: "parent = None \<longleftrightarrow> tb_ChildOf t = None"
    and db: "message_values env bn ts version parent ti dm = Returns (vals, key, childs)"
    and csv: "collect_row g bn ts version parent ti dm = Returns (rs, childs', p)"
  shows "rs = [(tb_Name t, vals)] \<and> childs' = childs
    \<and> (childs \<noteq> [] \<longrightarrow> (if useProtoOptions env then children_parent env md t key childs parent = Inr p else p = None))"
proof -
  let ?k = "pl_kind (gn_dialect g)" and ?cols = "computeColumnsForTable (pl_kind (gn_dialect g)) t"
  have tab: "Option.bind ti (\<lambda>t. GetTable (pl_base (gn_dialect g)) (pt_Name t)) = Some t"
    using t(2) same by (simp add: message_table_def same_sink_def)
  let ?name = "case ti of Some t \<Rightarrow> pt_Name t | None \<Rightarrow> []"
  from db t(2) same md obtain rest where key: "key_value md ?name (Some t) dm = Returns key"
    and f: "fields_output (gn_floats g) md (Some t) dm = Inr (childs, rest)"
    and vals: "vals = row_head env bn ts version key parent @ rest"
    by (auto simp: message_values_def Let_def ret_bind_Returns same_sink_def)
  from csv key obtain cells where f': "csv_fields (gn_floats g) md (Some t) dm = Inr (childs', cells)"
    and pk: "\<not> (childs' \<noteq> [] \<and> gn_useProtoOptions g \<and> tb_PrimaryKey t = None)"
    and rs: "rs = [(tb_Name t, fill_row ?cols (csv_head ?k t bn ts version key parent @ cells))]"
    and p: "p = (if childs' \<noteq> [] \<and> gn_useProtoOptions g
      then Some \<lparr>pr_field = lower_name (md_Name md), pr_id = (case key of Some v \<Rightarrow> v | None \<Rightarrow> V_nil)\<rparr> else None)"
    unfolding collect_row_def Let_def md [symmetric] tab by (auto simp: ret_bind_Returns split: if_split_asm)
  from f obtain outs' where o': "traverse (\<lambda>fd. if leaves_out (Some t) dm fd then Inr ([], []) else field_output (gn_floats g) md dm fd)
      (md_Fields md) = Inr outs'" "childs = concat (map fst outs')" "rest = concat (map snd outs')"
    by (auto simp: fields_output_def split: sum.splits)
  from f' obtain outs where o: "traverse (csv_field (gn_floats g) md (Some t) dm) (md_Fields md) = Inr outs"
    "childs' = concat (map fst outs)" "cells = concat (map snd outs)"
    by (auto simp: csv_fields_def split: sum.splits)
  note cs = csv_fields_fit [OF o(1) o'(1) fits field_columns(1) [OF t(1) c]]
  have ch: "childs' = childs" using cs o(2) o'(2) by simp
  have data: "filter (\<lambda>c. fst c \<in> set ?cols) cells = zip (map cl_Name (data_columns t)) rest"
    "length rest = length (data_columns t)"
    using cs o(3) o'(3) field_columns(2) [OF t(1) c] by (metis, metis length_map)
  from key have kn: "key = None \<longleftrightarrow> tb_PrimaryKey t = None"
    by (auto simp: key_value_def split: option.splits Value.splits)
  have cols: "?cols = system_columns ?k t @ map cl_Name (data_columns t)" by (rule columns_split [OF t(1) c])
  have head: "csv_head ?k t bn ts version key parent = zip (system_columns ?k t) (row_head env bn ts version key parent)"
    "length (row_head env bn ts version key parent) = length (system_columns ?k t)"
    using kn parent same
    by (auto simp: csv_head_def system_columns_def row_head_def same_sink_def split: option.splits)
  have "fst ` set (csv_head ?k t bn ts version key parent) \<subseteq> set ?cols"
    unfolding head(1) cols by (auto dest: set_zip_leftD)
  then have "filter (\<lambda>c. fst c \<in> set ?cols) (csv_head ?k t bn ts version key parent) = csv_head ?k t bn ts version key parent"
    by (auto simp: filter_id_conv)
  then have "filter (\<lambda>c. fst c \<in> set ?cols) (csv_head ?k t bn ts version key parent @ cells) = zip ?cols vals"
    using data head by (simp add: cols vals)
  moreover have "distinct ?cols" "length vals = length ?cols" using c data(2) head(2) by (simp_all add: clear_columns_def cols vals)
  ultimately have "fill_row ?cols (csv_head ?k t bn ts version key parent @ cells) = vs" if "vs = vals" for vs
    unfolding that by (intro fill_row_values)
  with rs ch pk p same show ?thesis by (auto simp: children_parent_def same_sink_def)
qed

section \<open>A message\<close>

lemma csv_fields_without_table:
  assumes "csv_fields fl md None dm = Inr (ms, cells)" "fields_output fl md None dm = Inr (ms', vs)"
  shows "ms = ms'"
proof -
  have *: "traverse (csv_field fl md None dm) fds = Inr outs \<Longrightarrow>
      traverse (\<lambda>fd. if leaves_out None dm fd then Inr ([], []) else field_output fl md dm fd) fds = Inr outs' \<Longrightarrow>
      concat (map fst outs) = concat (map fst outs')" for fds outs outs'
  proof (induction fds arbitrary: outs outs')
    case (Cons fd fds)
    from Cons.prems(1) obtain w os where w: "csv_field fl md None dm fd = Inr w"
      "traverse (csv_field fl md None dm) fds = Inr os" "outs = w # os" by (auto split: sum.splits)
    from Cons.prems(2) obtain w' os' where w': "(if leaves_out None dm fd then Inr ([], []) else field_output fl md dm fd) = Inr w'"
      "traverse (\<lambda>fd. if leaves_out None dm fd then Inr ([], []) else field_output fl md dm fd) fds = Inr os'" "outs' = w' # os'"
      by (auto split: sum.splits)
    have "fst w = fst w'"
    proof (cases "fd_InOneOf fd \<and> \<not> HasField dm fd")
      case True
      with w(1) w'(1) show ?thesis by (auto simp: csv_field_def leaves_out_def)
    next
      case False
      with w(1) w'(1) csv_field_children [of fl md None dm fd "fst w" "snd w" "fst w'" "snd w'"] show ?thesis
        by (simp add: leaves_out_def)
    qed
    with Cons.IH [OF w(2) w'(2)] w(3) w'(3) show ?case by simp
  qed simp
  show ?thesis using assms * by (auto simp: csv_fields_def fields_output_def split: sum.splits)
qed

text \<open>A message with its parent that both sinks treat alike: its values fit its table and the names of its columns
  are clear; it has a parent exactly when its table is a child of another, and without options or table it has none.\<close>

definition mirrored :: "('f, 's) WalkEnv \<Rightarrow> ('f, 'c) GenEnv \<Rightarrow> 'f Parent option \<Rightarrow> 'f Message \<Rightarrow> bool" where
  "mirrored env g p dm \<longleftrightarrow>
     (let md = we_descs env (msg_type dm) in
      case table_info (useProtoOptions env) md of
        Returns ti \<Rightarrow>
          (case message_table env ti of
             None \<Rightarrow> p = None
           | Some t \<Rightarrow> table_of_message (we_descs env) (useProtoOptions env) md (tb_Name t) t
               \<and> clear_columns (pl_kind (gn_dialect g)) t (md_Fields md) \<and> (\<forall>fd \<in> set (md_Fields md). fits t dm fd)
               \<and> (p = None \<longleftrightarrow> tb_ChildOf t = None) \<and> (useProtoOptions env \<or> p = None))
      | _ \<Rightarrow> True)"

lemma mirrored_step:
  assumes same: "same_sink env g" and nv: "\<not> UseVersionField env" and m: "mirrored env g p dm"
    and db: "insert_row (recording env) bn ts p dm l = (Done, (childs, q), l')"
    and csv: "collect_message g bn ts p dm c = (Returns (rs, childs', p'), c')"
  shows "l' = l @ rs \<and> childs' = childs \<and> (childs \<noteq> [] \<longrightarrow> p' = q)"
proof -
  let ?md = "we_descs env (msg_type dm)"
  from csv obtain ti where ti: "table_info (gn_useProtoOptions g) (gn_descs g (msg_type dm)) = Returns ti"
    by (auto simp: collect_message_def split: Ret.splits)
  have tab: "Option.bind ti (\<lambda>t. GetTable (pl_base (gn_dialect g)) (pt_Name t)) = message_table env ti"
    using same by (simp add: message_table_def same_sink_def)
  have md: "?md = gn_descs g (msg_type dm)" and opt: "useProtoOptions env = gn_useProtoOptions g"
    using same by (simp_all add: same_sink_def)
  have ti': "table_info (useProtoOptions env) ?md = Returns ti" using ti by (simp add: md opt)
  have row: "collect_row g bn ts 0 p ti dm = Returns (rs, childs', p')"
    using csv ti nv same by (auto simp: collect_message_def csv_version_def same_sink_def)
  obtain vals key ch where mv: "message_values env bn ts 0 p ti dm = Returns (vals, key, ch)"
    using db ti' by (auto simp: insert_row_def walk_version_def nv Let_def ret_bind_Returns split: Ret.splits)
  show ?thesis
  proof (cases "message_table env ti")
    case None
    with m ti' have p: "p = None" by (simp add: mirrored_def)
    have d: "l' = l" "childs = ch" "q = p"
      using db ti' mv None by (auto simp: insert_row_def walk_version_def nv Let_def)
    from mv None have "\<exists>vs. fields_output (gn_floats g) ?md None dm = Inr (ch, vs)"
      using same by (auto simp: message_values_def Let_def ret_bind_Returns same_sink_def)
    moreover from row have "rs = [] \<and> p' = None \<and> (\<exists>cells. csv_fields (gn_floats g) ?md None dm = Inr (childs', cells))"
      unfolding collect_row_def Let_def tab None md by (auto simp: ret_bind_Returns)
    ultimately show ?thesis using csv_fields_without_table d p by blast
  next
    case (Some t)
    with m ti' have t: "table_of_message (we_descs env) (useProtoOptions env) ?md (tb_Name t) t"
      "clear_columns (pl_kind (gn_dialect g)) t (md_Fields ?md)" "\<forall>fd \<in> set (md_Fields ?md). fits t dm fd"
      "p = None \<longleftrightarrow> tb_ChildOf t = None" "useProtoOptions env \<or> p = None" by (auto simp: mirrored_def Let_def)
    from db ti' mv Some have d: "l' = l @ [(tb_Name t, vals)]" "children_parent env ?md t key ch p = Inr q" "childs = ch"
      by (auto simp: insert_row_def walk_version_def nv Let_def split: sum.splits)
    note r = csv_row_values [OF same md t(1) Some t(2-4) mv row]
    show ?thesis using r d t(5) by (auto simp: children_parent_def split: if_split_asm)
  qed
qed

text \<open>The messages that a walk comes to, with their parents\<close>

inductive visits :: "('f, 's) WalkEnv \<Rightarrow> u64 \<Rightarrow> int \<times> int \<Rightarrow> 'f Parent option \<Rightarrow> 'f Message \<Rightarrow> 'f Parent option \<Rightarrow> 'f Message \<Rightarrow> bool"
  for env bn ts p0 dm0 where
  start: "visits env bn ts p0 dm0 p0 dm0"
| child: "visits env bn ts p0 dm0 p dm \<Longrightarrow> insert_row (recording env) bn ts p dm l = (Done, (childs, q), l') \<Longrightarrow>
    Some fm \<in> set childs \<Longrightarrow> visits env bn ts p0 dm0 q fm"

lemma walk_mirrored:
  assumes same: "same_sink env g" and nv: "\<not> UseVersionField env"
    and Q: "\<forall>p dm. Q p dm \<longrightarrow> mirrored env g p dm"
    and closed: "\<forall>p dm l childs q l' fm. Q p dm \<longrightarrow> insert_row (recording env) bn ts p dm l = (Done, (childs, q), l') \<longrightarrow>
      Some fm \<in> set childs \<longrightarrow> Q q fm"
  shows "walkMessageAndCollectRows g bn ts p m c = (Returns rs, c') \<Longrightarrow> walk_insert (recording env) bn ts p m l = (Done, l') \<Longrightarrow>
      \<forall>dm. m = Some dm \<longrightarrow> Q p dm \<Longrightarrow> l' = l @ rs"
    and "collect_children g bn ts p ms c = (Returns rs, c') \<Longrightarrow> walk_children (recording env) bn ts p ms l = (Done, l') \<Longrightarrow>
      \<forall>dm. Some dm \<in> set ms \<longrightarrow> Q p dm \<Longrightarrow> l' = l @ rs"
  using assms
proof (induction g bn ts p m c and g bn ts p ms c arbitrary: rs c' l l' and rs c' l l'
    rule: walkMessageAndCollectRows_collect_children.induct)
  case (2 g bn ts p dm c)
  from 2(2) obtain r1 childs p1 c1 r2 where a: "collect_message g bn ts p dm c = (Returns (r1, childs, p1), c1)"
    and b: "collect_children g bn ts p1 childs c1 = (Returns r2, c')" "rs = r1 @ r2"
    by (auto simp: ret_bind_Returns split: prod.splits Ret.splits)
  from 2(3) obtain childs' q l1 where i: "insert_row (recording env) bn ts p dm l = (Done, (childs', q), l1)"
    and w: "walk_children (recording env) bn ts q childs' l1 = (Done, l')"
    by (auto split: prod.splits Outcome.splits)
  have Qp: "Q p dm" using 2(4) by simp
  with 2(7) have m: "mirrored env g p dm" by blast
  note step = mirrored_step [OF 2(5,6) m i a]
  show ?case
  proof (cases "childs = []")
    case True
    with step b w show ?thesis by simp
  next
    case False
    with step have e: "childs = childs'" "p1 = q" by auto
    have "\<forall>fm. Some fm \<in> set childs \<longrightarrow> Q p1 fm" using 2(8) Qp i unfolding e by blast
    from 2(1) [OF a [symmetric] refl refl refl b(1) w [folded e] this 2(5-8)] step b(2) show ?thesis by simp
  qed
next
  case (4 g bn ts p fm fms c)
  from 4(3) obtain r1 c1 r2 where a: "walkMessageAndCollectRows g bn ts p fm c = (Returns r1, c1)"
    and b: "collect_children g bn ts p fms c1 = (Returns r2, c')" "rs = r1 @ r2"
    by (auto simp: ret_bind_Returns split: prod.splits Ret.splits option.splits)
  from 4(4) obtain l1 where i: "walk_insert (recording env) bn ts p fm l = (Done, l1)"
    and w: "walk_children (recording env) bn ts p fms l1 = (Done, l')"
    by (auto split: prod.splits Outcome.splits option.splits)
  have "l1 = l @ r1" by (rule 4(1) [OF a i _ 4(6-9)]) (use 4(5) in auto)
  moreover have "l' = l1 @ r2" by (rule 4(2) [OF a [symmetric] refl b(1) w _ 4(6-9)]) (use 4(5) in auto)
  ultimately show ?case using b(2) by simp
qed simp_all

text \<open>
  C28. The CSV files get the rows that the database gets: take a database and a generator for the same messages, tables
  and options, without a column for versions, and a message all of whose parts (the messages its walk comes to, with
  their parents) fit their tables, where no column is hidden by the name of another. When the walk inserts the
  message and the generator collects it, both without error, then the generator has collected the inserted rows, table by
  table and value by value in the order of the columns, and nothing else.
\<close>

theorem csv_rows_are_database_rows:
  assumes "same_sink env g" "\<not> UseVersionField env"
    and "\<forall>p dm. visits env bn ts p0 dm0 p dm \<longrightarrow> mirrored env g p dm"
    and db: "walk_insert env bn ts p0 (Some dm0) s = (Done, s')"
    and csv: "walkMessageAndCollectRows g bn ts p0 (Some dm0) c = (Returns rs, c')"
  shows "rs = message_rows env bn ts p0 (Some dm0)"
proof -
  have "tracks (\<lambda>_ _. True) (we_Insert env)" by (simp add: tracks_def)
  from walk_recording(1) [OF assms(2) this TrueI db] obtain rows where
    w: "walk_insert (recording env) bn ts p0 (Some dm0) [] = (Done, rows)" by auto
  have "rows = [] @ rs"
    by (rule walk_mirrored(1) [OF assms(1-3) _ csv w]) (auto intro: visits.intros)
  with w show ?thesis by (simp add: message_rows_def)
qed

text \<open>An order whose lines have one value per column\<close>

definition ex_item :: MessageDesc where
  "ex_item = ex_line\<lparr>md_Fields := [ex_field ''shop.Line'' ''sku'' TYPE_STRING [] False None,
                                    ex_field ''shop.Line'' ''note'' TYPE_STRING [] False None]\<rparr>"

definition ex_shop :: Descs where
  "ex_shop n = (if n = ''shop.Order'' then ex_order else ex_item)"

definition ex_items_table :: Table where
  "ex_items_table = ex_lines_table\<lparr>tb_Columns := map (ex_column False) (md_Fields ex_item)\<rparr>"

definition ex_genv :: "(unit, nat) GenEnv" where
  "ex_genv = \<lparr>gn_descs = ex_shop, gn_floats = ex_floats, gn_FormatFloatG = \<lambda>_. ''0'', gn_Sprint = \<lambda>_. ''0'',
     gn_useProtoOptions = True,
     gn_dialect = \<lparr>pl_kind = PostgresKind, pl_base = NewBaseDialect [(''lines'', ex_items_table), (''orders'', ex_orders_table)]\<rparr>,
     gn_now = \<lambda>c. (of_nat c, Suc c)\<rparr>"

definition ex_wenv :: "(unit, unit) WalkEnv" where
  "ex_wenv = \<lparr>we_descs = ex_shop, we_floats = ex_floats, UseVersionField = False, UseDeletedField = False,
     we_tables = GetTable (pl_base (gn_dialect ex_genv)), useProtoOptions = True, we_now = \<lambda>s. (0, s), we_Insert = \<lambda>_ _ s. (Done, s)\<rparr>"

definition ex_item_msg :: "string \<Rightarrow> string \<Rightarrow> unit Message" where
  "ex_item_msg sku n = Message ''shop.Line'' [(''sku'', (True, V_string sku)), (''note'', (True, V_string n))]"

definition ex_sale :: "unit Message" where
  "ex_sale = Message ''shop.Order''
     [(''id'', (True, V_string ''o1'')), (''total'', (True, V_uint64 7)),
      (''lines'', (True, V_list [V_message (Some (ex_item_msg ''pen'' ''a,b'')), V_message (Some (ex_item_msg ''cup'' []))]))]"

definition ex_sale_parent :: "unit Parent" where
  "ex_sale_parent = \<lparr>pr_field = ''order'', pr_id = V_string ''o1''\<rparr>"

lemma recording_idem [simp]: "recording (recording env) = recording env"
  by (simp add: recording_def)

lemma insert_row_from_start:
  assumes "\<not> UseVersionField env" "insert_row (recording env) bn ts p dm l = (Done, x, l')"
  shows "\<exists>rows. insert_row (recording env) bn ts p dm [] = (Done, x, rows)"
  using insert_row_recording [of "recording env" "\<lambda>_ _. True" l l bn ts p dm x l'] assms by (auto simp: tracks_def)

lemma ex_visits:
  "visits ex_wenv 5 (0, 0) None ex_sale p dm \<Longrightarrow>
     p = None \<and> dm = ex_sale \<or> p = Some ex_sale_parent \<and> dm \<in> {ex_item_msg ''pen'' ''a,b'', ex_item_msg ''cup'' []}"
proof (induction rule: visits.induct)
  case (child p dm l childs q l' fm)
  have "\<not> UseVersionField ex_wenv" by (simp add: ex_wenv_def)
  from insert_row_from_start [OF this child.hyps(2)] obtain rows where
    i: "insert_row (recording ex_wenv) 5 (0, 0) p dm [] = (Done, (childs, q), rows)" by blast
  have e: "fst (snd (insert_row (recording ex_wenv) 5 (0, 0) None ex_sale []))
      = ([Some (ex_item_msg ''pen'' ''a,b''), Some (ex_item_msg ''cup'' [])], Some ex_sale_parent)"
    "fst (fst (snd (insert_row (recording ex_wenv) 5 (0, 0) (Some ex_sale_parent) (ex_item_msg ''pen'' ''a,b'') []))) = []"
    "fst (fst (snd (insert_row (recording ex_wenv) 5 (0, 0) (Some ex_sale_parent) (ex_item_msg ''cup'' []) []))) = []"
    by code_simp+
  from child.IH i e child.hyps(3) show ?case by auto
qed simp

lemma ex_mirrored:
  "mirrored ex_wenv ex_genv None ex_sale" "mirrored ex_wenv ex_genv (Some ex_sale_parent) (ex_item_msg ''pen'' ''a,b'')"
  "mirrored ex_wenv ex_genv (Some ex_sale_parent) (ex_item_msg ''cup'' [])"
proof -
  let ?ok = "\<lambda>t fds dm. clear_columns PostgresKind t fds \<and> list_all (fits t dm) fds"
  have t: "traverse (NewColumn ex_shop) (column_fields ex_shop (md_Fields ex_order)) = Inr (tb_Columns ex_orders_table)"
    "traverse (NewColumn ex_shop) (column_fields ex_shop (md_Fields ex_item)) = Inr (tb_Columns ex_items_table)"
    "key_of_columns (tb_Columns ex_orders_table) (tb_PrimaryKey ex_orders_table)"
    "key_of_columns (tb_Columns ex_items_table) (tb_PrimaryKey ex_items_table)"
    "tb_Columns ex_orders_table \<noteq> []" "tb_Columns ex_items_table \<noteq> []"
    "tb_ChildOf ex_orders_table = None" "tb_ChildOf ex_items_table \<noteq> None"
    "tb_Name ex_orders_table = ''orders''" "tb_Name ex_items_table = ''lines''" by code_simp+
  have i: "table_info True ex_order = Returns (Some \<lparr>pt_Name = ''orders'', pt_ChildOf = None, pt_Clickhouse = None\<rparr>)"
    "table_info True ex_item = Returns (Some \<lparr>pt_Name = ''lines'', pt_ChildOf = Some ''orders on id'', pt_Clickhouse = None\<rparr>)"
    by code_simp+
  have m: "message_table ex_wenv (Some \<lparr>pt_Name = ''orders'', pt_ChildOf = None, pt_Clickhouse = None\<rparr>) = Some ex_orders_table"
    "message_table ex_wenv (Some \<lparr>pt_Name = ''lines'', pt_ChildOf = Some ''orders on id'', pt_Clickhouse = None\<rparr>) = Some ex_items_table"
    by code_simp+
  have f: "?ok ex_orders_table (md_Fields ex_order) ex_sale"
    "?ok ex_items_table (md_Fields ex_item) (ex_item_msg ''pen'' ''a,b'')"
    "?ok ex_items_table (md_Fields ex_item) (ex_item_msg ''cup'' [])" by code_simp+
  have d: "ex_shop (msg_type ex_sale) = ex_order" "ex_shop (msg_type (ex_item_msg a b)) = ex_item"
    "we_descs ex_wenv = ex_shop" "useProtoOptions ex_wenv" "pl_kind (gn_dialect ex_genv) = PostgresKind" for a b
    by (simp_all add: ex_wenv_def ex_shop_def ex_sale_def ex_item_msg_def ex_genv_def)
  have tm: "table_of_message ex_shop True ex_order ''orders'' ex_orders_table" "table_of_message ex_shop True ex_item ''lines'' ex_items_table"
    using t i by (simp_all add: table_of_message_def)
  show "mirrored ex_wenv ex_genv None ex_sale" "mirrored ex_wenv ex_genv (Some ex_sale_parent) (ex_item_msg ''pen'' ''a,b'')"
    "mirrored ex_wenv ex_genv (Some ex_sale_parent) (ex_item_msg ''cup'' [])"
    using f t(7-10) tm by (simp_all add: mirrored_def Let_def d i m list_all_iff)
qed

theorem csv_rows_are_database_rows_witness:
  "fst (walkMessageAndCollectRows ex_genv 5 (0, 0) None (Some ex_sale) 0) = Returns (message_rows ex_wenv 5 (0, 0) None (Some ex_sale))"
proof -
  have "case walkMessageAndCollectRows ex_genv 5 (0, 0) None (Some ex_sale) 0 of (Returns rs, c) \<Rightarrow> True | _ \<Rightarrow> False" by code_simp
  then obtain rs c where g: "walkMessageAndCollectRows ex_genv 5 (0, 0) None (Some ex_sale) 0 = (Returns rs, c)"
    by (auto split: prod.splits Ret.splits)
  have "walk_insert ex_wenv 5 (0, 0) None (Some ex_sale) () = (Done, ())" by code_simp
  from csv_rows_are_database_rows [OF _ _ _ this g] ex_visits ex_mirrored g show ?thesis
    by (auto simp: same_sink_def ex_wenv_def ex_genv_def pl_UseVersionField_def pl_UseDeletedField_def)
qed

end
