(* ===== verification/InjectProperties.thy ===== *)
theory InjectProperties
  imports InjectCsv ProtoCsvProperties
begin

text \<open>
  What the files of the generators mean to the injection: a file is found by the block range in its name, its first line
  gives the columns it was written with, and its lines are read back as the cells that were written.
\<close>

section \<open>Files are found by their names\<close>

lemma length_dec: "n < 10 ^ k \<Longrightarrow> 0 < k \<Longrightarrow> length (dec n) \<le> k"
proof (induction k arbitrary: n)
  case (Suc k)
  show ?case
  proof (cases "n < 10")
    case True
    then show ?thesis by (simp add: dec.simps [of n])
  next
    case False
    with Suc.prems have "n div 10 < 10 ^ k" "0 < k" by (auto simp: less_mult_imp_div_less mult.commute intro: gr0I)
    from Suc.IH [OF this] False show ?thesis by (simp add: dec.simps [of n])
  qed
qed simp

lemma pad10_digits:
  assumes "unat n < 10 ^ 10"
  shows "length (pad10 n) = 10" "list_all is_digit (pad10 n)" "ParseUint 64 (pad10 n) = (unat n, None)"
proof -
  have d: "pad10 n = replicate (10 - length (dec (unat n))) (CHR ''0'') @ dec (unat n)"
    by (simp add: pad10_def padded_def Let_def)
  have len: "length (dec (unat n)) \<le> 10" using length_dec [OF assms] by simp
  with d show "length (pad10 n) = 10" by simp
  have z: "is_digit (CHR ''0'')" "digit_val (CHR ''0'') = 0" by (simp_all add: is_digit_def digit_val_def)
  with d dec_digits [of "unat n"] show digits: "list_all is_digit (pad10 n)" by (auto simp: list_all_iff)
  have "foldl (\<lambda>a c. 10 * a + digit_val c) 0 (replicate k (CHR ''0'')) = 0" for k
    by (induction k) (simp_all add: z)
  then have v: "foldl (\<lambda>a c. 10 * a + digit_val c) 0 (pad10 n) = unat n"
    using undec_dec [of "unat n"] by (simp add: d undec_def)
  have "pad10 n \<noteq> []" using \<open>length (pad10 n) = 10\<close> by auto
  moreover have "unat n \<le> 2 ^ 64 - 1" using assms by simp
  ultimately show "ParseUint 64 (pad10 n) = (unat n, None)"
    using parse_digits_append [of "pad10 n" 0 "2 ^ 64 - 1"] digits v by (simp add: ParseUint_def list_all_iff)
qed

lemma not_range_here:
  assumes "xs \<noteq> []" "CHR ''-'' \<notin> set xs" "length a = 10" "list_all is_digit a"
  shows "\<not> range_here (xs @ a @ rest)"
proof
  assume "range_here (xs @ a @ rest)"
  then have "(xs @ a @ rest) ! 10 = CHR ''-''" by (simp add: range_here_def)
  moreover have "(xs @ a @ rest) ! 10 \<in> set (xs @ a)"
    using assms(1,3) by (cases xs) (auto simp: nth_append simp flip: append_assoc)
  moreover have "CHR ''-'' \<notin> set a" using assms(4) by (auto simp: list_all_iff is_digit_def)
  ultimately show False using assms(2) by auto
qed

lemma blockRangeRegex_skip:
  assumes "CHR ''-'' \<notin> set xs" "length a = 10" "list_all is_digit a" "length b = 10" "list_all is_digit b"
  shows "blockRangeRegex (xs @ a @ ''-'' @ b @ rest) = Some (a, b)"
  using assms(1)
proof (induction xs)
  case Nil
  have "range_here (a @ ''-'' @ b @ rest)"
    using assms(2-5) by (simp add: range_here_def nth_append)
  with assms(2,4) show ?case by (simp add: blockRangeRegex.simps)
next
  case (Cons x xs)
  from not_range_here [OF _ Cons.prems assms(2,3), of "''-'' @ b @ rest"]
  have "\<not> range_here ((x # xs) @ a @ ''-'' @ b @ rest)" by simp
  with Cons show ?case by (subst blockRangeRegex.simps) simp
qed

text \<open>The name under which the store gives a file of a table: the store is opened for the extension \<open>csv\<close>, which it takes
  off the names it walks over and puts back when it opens one.\<close>

definition stored_name :: "string \<Rightarrow> Range \<Rightarrow> string" where
  "stored_name tn r = tn @ ''/'' @ range_filename r"

definition proper_range :: "Range \<Rightarrow> bool" where
  "proper_range r \<longleftrightarrow> StartBlock r < EndBlock r \<and> unat (EndBlock r) \<le> 10 ^ 10"

lemma getBlockRange_name:
  assumes "CHR ''-'' \<notin> set tn" "proper_range r"
  shows "getBlockRange (stored_name tn r) = Inr (StartBlock r, EndBlock r - 1)"
proof -
  have s: "unat (StartBlock r) < 10 ^ 10" using assms(2) by (simp add: proper_range_def word_less_nat_alt)
  have "0 < EndBlock r" using assms(2) by (auto simp: proper_range_def intro: le_less_trans)
  then have "unat (EndBlock r - 1) = unat (EndBlock r) - 1" by (simp add: unat_sub word_le_nat_alt word_less_nat_alt)
  with assms(2) \<open>0 < EndBlock r\<close> have e: "unat (EndBlock r - 1) < 10 ^ 10"
    unfolding proper_range_def word_less_nat_alt by linarith
  have "stored_name tn r = (tn @ ''/'') @ pad10 (StartBlock r) @ ''-'' @ pad10 (EndBlock r - 1) @ []"
    by (simp add: stored_name_def range_filename_def)
  with blockRangeRegex_skip [where xs = "tn @ ''/''" and rest = "[]"] pad10_digits [OF s] pad10_digits [OF e] assms(1)
  have "blockRangeRegex (stored_name tn r) = Some (pad10 (StartBlock r), pad10 (EndBlock r - 1))" by simp
  with pad10_digits(3) [OF s] pad10_digits(3) [OF e] show ?thesis by (simp add: getBlockRange_def)
qed

text \<open>Whether a file may hold a block from \<open>desired\<close> on and below \<open>stop\<close>\<close>

definition wanted :: "u64 \<Rightarrow> u64 \<Rightarrow> Range \<Rightarrow> bool" where
  "wanted desired stop r \<longleftrightarrow> \<not> EndBlock r - 1 < desired \<and> (stop = 0 \<or> StartBlock r < stop)"

lemma wanted_iff:
  assumes "StartBlock r < EndBlock r" "stop = 0 \<or> desired < stop"
  shows "wanted desired stop r \<longleftrightarrow> (\<exists>b. range_Contains r b \<and> desired \<le> b \<and> (stop = 0 \<or> b < stop))"
proof -
  have "0 < EndBlock r" using assms(1) by (auto intro: le_less_trans)
  then have le: "\<not> EndBlock r - 1 < desired \<longleftrightarrow> desired < EndBlock r"
    by (simp add: not_less word_le_nat_alt word_less_nat_alt unat_sub)
      (metis One_nat_def Suc_pred le_less_Suc_eq less_Suc_eq_le not_less_eq nat_less_le)
  show ?thesis
  proof
    assume "wanted desired stop r"
    then have "range_Contains r (max (StartBlock r) desired) \<and> desired \<le> max (StartBlock r) desired
        \<and> (stop = 0 \<or> max (StartBlock r) desired < stop)"
      using assms le by (auto simp: wanted_def range_Contains_def max_def)
    then show "\<exists>b. range_Contains r b \<and> desired \<le> b \<and> (stop = 0 \<or> b < stop)" by blast
  qed (use le in \<open>auto simp: wanted_def range_Contains_def intro: le_less_trans\<close>)
qed

lemma visit_files_wanted:
  assumes "CHR ''-'' \<notin> set tn" "\<forall>r \<in> set rs. proper_range r" "sorted_wrt (\<lambda>r r'. StartBlock r \<le> StartBlock r') rs"
  shows "\<exists>b. visit_files stop desired (map (stored_name tn) rs) out = Inr (out @ map (stored_name tn) (filter (wanted desired stop) rs), b)"
  using assms(2,3)
proof (induction rs arbitrary: out)
  case Nil
  then show ?case by (intro exI [of _ False]) simp
next
  case (Cons r rs)
  note name = getBlockRange_name [OF assms(1), of r]
  show ?case
  proof (cases "stop \<noteq> 0 \<and> StartBlock r \<ge> stop")
    case True
    with Cons.prems(2) have "\<forall>r' \<in> set (r # rs). \<not> wanted desired stop r'"
      by (auto simp: wanted_def not_less intro: order_trans)
    then have none: "filter (wanted desired stop) (r # rs) = []" by (simp add: filter_empty_conv)
    from True name Cons.prems(1) show ?thesis unfolding none by (intro exI [of _ True]) simp
  next
    case False
    obtain b where b: "visit_files stop desired (map (stored_name tn) rs) (out @ (if wanted desired stop r then [stored_name tn r] else []))
        = Inr ((out @ (if wanted desired stop r then [stored_name tn r] else []))
            @ map (stored_name tn) (filter (wanted desired stop) rs), b)"
      using Cons.IH Cons.prems by fastforce
    from False have w: "wanted desired stop r \<longleftrightarrow> \<not> EndBlock r - 1 < desired" by (auto simp: wanted_def not_less)
    from False name Cons.prems(1) b w show ?thesis by (cases "wanted desired stop r") auto
  qed
qed

section \<open>Cells\<close>

text \<open>A text that needs no quotes\<close>

definition clean :: "string \<Rightarrow> bool" where
  "clean s \<longleftrightarrow> (\<forall>c \<in> {CHR '','', CHR 0x22, CHR 0x0A, CHR 0x0D}. c \<notin> set s)"

lemma escape_clean: "clean s \<Longrightarrow> escapeCSVValue s = s"
  by (auto simp: clean_def escapeCSVValue_def list_ex_iff)

lemma read_clean:
  "clean s \<Longrightarrow> mode \<noteq> Quoted \<Longrightarrow> mode \<noteq> AfterQuote \<Longrightarrow>
   read_record mode acc (s @ CHR '','' # rest) = cons_field (acc @ s) (read_record FieldStart [] rest)
   \<and> read_record mode acc (s @ CHR 0x0A # rest) = Inr ([acc @ s], rest)"
  by (induction s arbitrary: mode acc) (auto simp: clean_def split: CsvMode.splits)

lemma read_doubled: "read_record Quoted acc (double_quote CHR 0x22 s @ CHR 0x22 # rest) = read_record AfterQuote (acc @ s) rest"
  by (induction s arbitrary: acc) (auto simp: double_quote_def)

text \<open>A cell followed by a comma or the end of the line is read back, whatever is in it.\<close>

lemma read_cell:
  "read_record FieldStart [] (escapeCSVValue s @ CHR '','' # rest) = cons_field s (read_record FieldStart [] rest)"
  "read_record FieldStart [] (escapeCSVValue s @ CHR 0x0A # rest) = Inr ([s], rest)"
proof -
  have "escapeCSVValue s = CHR 0x22 # double_quote CHR 0x22 s @ [CHR 0x22]" if "\<not> clean s"
    using that by (auto simp: escapeCSVValue_def clean_def list_ex_iff replaceAll_double)
  then show "read_record FieldStart [] (escapeCSVValue s @ CHR '','' # rest) = cons_field s (read_record FieldStart [] rest)"
    "read_record FieldStart [] (escapeCSVValue s @ CHR 0x0A # rest) = Inr ([s], rest)"
    using read_clean [of s FieldStart "[]" rest] by (cases "clean s"; simp add: escape_clean read_doubled)+
qed

lemma read_line:
  "ts \<noteq> [] \<Longrightarrow> read_record FieldStart [] (joinS '','' (map escapeCSVValue ts) @ CHR 0x0A # rest) = Inr (ts, rest)"
proof (induction ts)
  case (Cons t ts)
  then show ?case by (cases ts) (simp_all add: read_cell cons_field_def)
qed simp

section \<open>The first line\<close>

lemma normalize_append: "CHR 0x0D \<notin> set s \<Longrightarrow> normalize_lines (s @ CHR 0x0A # rest) = s @ normalize_lines (CHR 0x0A # rest)"
proof (induction s)
  case (Cons c s)
  then show ?case by (cases s) auto
qed simp

lemma normalize_newline: "\<exists>body. normalize_lines (CHR 0x0A # rest) = CHR 0x0A # body"
  by (cases rest) auto

lemma csv_Read_header:
  assumes "cols \<noteq> []" "hd cols \<noteq> []" "\<forall>n \<in> set cols. clean n"
  shows "csv_Read (csv_header cols @ body) = Inr cols"
proof -
  let ?s = "joinS '','' cols"
  have joined: "set (joinS '','' ns) \<subseteq> insert (CHR '','') (\<Union> (set ` set ns))" for ns
    by (induction ns rule: induct_list012) auto
  then have "CHR 0x0D \<notin> set ?s" using assms(3) by (auto simp: clean_def dest!: subsetD)
  from normalize_append [OF this] obtain b where b: "normalize_lines (csv_header cols @ body) = ?s @ CHR 0x0A # b"
    using normalize_newline [of body] by (auto simp: csv_header_def)
  obtain c n ns where c: "cols = (c # n) # ns" using assms(1,2) by (metis hd_Cons_tl)
  then obtain s where s: "?s = c # s" by (cases ns) auto
  have "c \<noteq> CHR 0x0A" using c assms(3) by (auto simp: clean_def)
  then have d: "dropWhile (\<lambda>c. c = CHR 0x0A) (normalize_lines (csv_header cols @ body)) = ?s @ CHR 0x0A # b"
    by (simp add: b s)
  have "map escapeCSVValue cols = cols" using assms(3) by (intro map_idI) (simp add: escape_clean)
  with read_line [OF assms(1), of b] d s show ?thesis unfolding csv_Read_def by simp
qed

section \<open>The files of a range are loaded\<close>

lemma inject_files_all:
  assumes "\<forall>c. fst (po_Acquire pool c) = None" "\<forall>x q c. fst (po_CopyFrom pool x q c) = None"
    and "\<forall>r \<in> set rs. or_Open store (stored_name tn r) = Inr (content r)"
  shows "inject_files store pool t cols (map (stored_name tn) rs) c
    = (None, fold (\<lambda>r c. snd (po_CopyFrom pool (content r) (copy_query t cols) (snd (po_Acquire pool c)))) rs c)"
  using assms(3)
proof (induction rs arbitrary: c)
  case (Cons r rs)
  have a: "po_Acquire pool c = (None, snd (po_Acquire pool c))" for c using assms(1) by (simp add: prod_eq_iff)
  have b: "po_CopyFrom pool x q c = (None, snd (po_CopyFrom pool x q c))" for x q c using assms(2) by (simp add: prod_eq_iff)
  have "injectCSVFromFile store pool t (stored_name tn r) cols c
      = (None, snd (po_CopyFrom pool (content r) (copy_query t cols) (snd (po_Acquire pool c))))"
    using Cons.prems by (subst (1) injectCSVFromFile_def) (simp add: injectCSVFromReader_def, subst a, simp, subst b, simp)
  with Cons show ?case by simp
qed simp

text \<open>
  C30. The injection of a table selects files by the ranges in their names. When the store has files for the table named
  as the generator names them, after ranges, and gives them in the order of their starts, and each begins with the same
  header, then each file whose range has a block from the start on and below the stop (0 is no stop) is sent with a
  COPY into the columns of that header, in that order, and no other; when there is none the run fails and
  nothing is sent. In particular the file whose range ends right before the start is not sent: the rows of a block that
  begins a range are in that file when a generator has written it (C25), so those of the start block are not loaded
  when the start begins a range.
\<close>

theorem injection_selects_the_range:
  fixes store pool t c content cols rs
  defines "w \<equiv> filter (wanted (tf_start t) (tf_stop t)) rs"
  assumes tn: "tf_tblName t \<noteq> tf_cursorTableName t" "CHR ''-'' \<notin> set (tf_tblName t)"
    and walk: "or_Walk store (tf_tblName t @ ''/'') = (map (stored_name (tf_tblName t)) rs, None)"
    and rs: "\<forall>r \<in> set rs. proper_range r" "sorted_wrt (\<lambda>r r'. StartBlock r \<le> StartBlock r') rs"
    and files: "\<forall>r \<in> set rs. or_Open store (stored_name (tf_tblName t) r) = Inr (csv_header cols @ body r)"
    and cols: "cols \<noteq> []" "hd cols \<noteq> []" "\<forall>n \<in> set cols. clean n"
    and pool: "\<forall>c. fst (po_Acquire pool c) = None" "\<forall>x q c. fst (po_CopyFrom pool x q c) = None"
    and range: "tf_stop t = 0 \<or> tf_start t < tf_stop t"
  shows "filler_Run store pool t c =
      (if w = [] then (Some (Errorf ''no file to process'' []), c)
       else (None, fold (\<lambda>r c. snd (po_CopyFrom pool (csv_header cols @ body r) (copy_query t cols) (snd (po_Acquire pool c)))) w c))
    \<and> (\<forall>r \<in> set rs. r \<in> set w \<longleftrightarrow>
         (\<exists>b. range_Contains r b \<and> tf_start t \<le> b \<and> (tf_stop t = 0 \<or> b < tf_stop t)))
    \<and> (\<forall>r \<in> set rs. EndBlock r = tf_start t \<longrightarrow> r \<notin> set w)"
proof (intro conjI)
  obtain b where "visit_files (tf_stop t) (tf_start t) (map (stored_name (tf_tblName t)) rs) []
      = Inr (map (stored_name (tf_tblName t)) w, b)"
    using visit_files_wanted [OF tn(2) rs, of "tf_stop t" "tf_start t" "[]"] unfolding w_def by auto
  then have found: "findFilesToLoad store (tf_tblName t) (tf_stop t) (tf_start t) = Inr (map (stored_name (tf_tblName t)) w)"
    by (simp add: findFilesToLoad_def walk)
  show "filler_Run store pool t c =
      (if w = [] then (Some (Errorf ''no file to process'' []), c)
       else (None, fold (\<lambda>r c. snd (po_CopyFrom pool (csv_header cols @ body r) (copy_query t cols) (snd (po_Acquire pool c)))) w c))"
  proof (cases w)
    case Nil
    then show ?thesis using tn(1) found by (simp add: filler_Run_def)
  next
    case (Cons r rs')
    have sub: "set w \<subseteq> set rs" unfolding w_def by auto
    with Cons files have "or_Open store (stored_name (tf_tblName t) r) = Inr (csv_header cols @ body r)" by auto
    then have "extractFieldsFromFirstLine store (stored_name (tf_tblName t) r) = Inr cols"
      using csv_Read_header [OF cols, of "body r"]
      by (simp add: extractFieldsFromFirstLine_def extractFieldsFromReader_def)
    moreover have "inject_files store pool t cols (map (stored_name (tf_tblName t)) w) c
        = (None, fold (\<lambda>r c. snd (po_CopyFrom pool (csv_header cols @ body r) (copy_query t cols) (snd (po_Acquire pool c)))) w c)"
      by (rule inject_files_all [OF pool]) (use files sub in auto)
    ultimately show ?thesis using tn(1) found Cons by (simp add: filler_Run_def)
  qed
  show "\<forall>r \<in> set rs. r \<in> set w \<longleftrightarrow>
      (\<exists>b. range_Contains r b \<and> tf_start t \<le> b \<and> (tf_stop t = 0 \<or> b < tf_stop t))"
    using wanted_iff [OF _ range] rs(1) by (auto simp: w_def proper_range_def)
  have less: "EndBlock r - 1 < EndBlock r" if "r \<in> set rs" for r
  proof -
    have "unat (StartBlock r) < unat (EndBlock r)" using rs(1) that by (auto simp: proper_range_def word_less_nat_alt)
    then have "EndBlock r \<noteq> 0" by auto
    then show ?thesis unfolding word_less_nat_alt by (rule measure_unat)
  qed
  show "\<forall>r \<in> set rs. EndBlock r = tf_start t \<longrightarrow> r \<notin> set w"
  proof (intro ballI impI)
    fix r
    assume "r \<in> set rs" "EndBlock r = tf_start t"
    with less [of r] show "r \<notin> set w" by (simp add: w_def wanted_def)
  qed
qed

text \<open>A store of three files and a pool that keeps what is copied\<close>

definition ex_ranges :: "Range list" where
  "ex_ranges = map (\<lambda>n. \<lparr>StartBlock = n, EndBlock = n + 10\<rparr>) [0, 10, 20]"

definition ex_body :: "Range \<Rightarrow> string" where
  "ex_body r = dec64 (StartBlock r) @ '',x'' @ [CHR 0x0A]"

definition ex_store :: ObjReader where
  "ex_store = \<lparr>or_Walk = (\<lambda>p. (map (stored_name ''xfer'') ex_ranges, None)),
     or_Open = (\<lambda>p. case map_of (map (\<lambda>r. (stored_name ''xfer'' r, csv_header [''id'', ''note''] @ ex_body r)) ex_ranges) p of
       None \<Rightarrow> Inl (Errorf ''not found'' []) | Some x \<Rightarrow> Inr x),
     or_ReadAll = (\<lambda>p. Inr []), or_IsNotFound = (\<lambda>e. True), or_BaseURL = []\<rparr>"

definition ex_pool :: "((string \<times> string) list) Pool" where
  "ex_pool = \<lparr>po_Acquire = (\<lambda>c. (None, c)), po_CopyFrom = (\<lambda>x q c. (None, c @ [(q, x)]))\<rparr>"

theorem injection_selects_the_range_witness:
  "map snd (snd (filler_Run ex_store ex_pool (NewTableFiller ''s'' ''xfer'' 12 20 ''cursors'') []))
     = [csv_header [''id'', ''note''] @ ''10,x'' @ [CHR 0x0A]]"
proof -
  let ?t = "NewTableFiller ''s'' ''xfer'' 12 20 ''cursors''"
  have opens: "\<forall>r \<in> set ex_ranges. or_Open ex_store (stored_name (tf_tblName ?t) r) = Inr (csv_header [''id'', ''note''] @ ex_body r)"
    by code_simp
  have w: "filter (wanted (tf_start ?t) (tf_stop ?t)) ex_ranges = [\<lparr>StartBlock = 10, EndBlock = 20\<rparr>]" by code_simp
  have d: "ex_body \<lparr>StartBlock = 10, EndBlock = 20\<rparr> = ''10,x'' @ [CHR 0x0A]" by code_simp
  have "filler_Run ex_store ex_pool ?t [] = (None, fold (\<lambda>r c. snd (po_CopyFrom ex_pool (csv_header [''id'', ''note''] @ ex_body r)
      (copy_query ?t [''id'', ''note'']) (snd (po_Acquire ex_pool c)))) (filter (wanted (tf_start ?t) (tf_stop ?t)) ex_ranges) [])"
    using conjunct1 [OF injection_selects_the_range [of ?t ex_store ex_ranges "[''id'', ''note'']" ex_body ex_pool "[]"]] opens w
    by (simp add: NewTableFiller_def ex_store_def ex_pool_def ex_ranges_def proper_range_def clean_def)
  then show ?thesis unfolding w by (simp add: ex_pool_def d)
qed

section \<open>Rows are read back\<close>

text \<open>Cells of the columns of the system hold what the generator puts in them: a value whose text needs no quotes\<close>

definition plain_system_cell :: "('f, 'c) GenEnv \<Rightarrow> 'f Value \<Rightarrow> string \<Rightarrow> bool" where
  "plain_system_cell env v col \<longleftrightarrow>
     (col \<in> {''_block_number_'', ''block_number'', ''_version_''} \<longrightarrow>
        v = V_nil \<or> formatIntegral v \<noteq> None \<or> clean (go_Sprint (gn_Sprint env) v))"

lemma clean_simps [simp]:
  "clean []" "clean (c # s) \<longleftrightarrow> c \<notin> {CHR '','', CHR 0x22, CHR 0x0A, CHR 0x0D} \<and> clean s"
  "clean (a @ b) \<longleftrightarrow> clean a \<and> clean b" "clean (replicate n c) \<longleftrightarrow> n = 0 \<or> c \<notin> {CHR '','', CHR 0x22, CHR 0x0A, CHR 0x0D}"
  "clean (concat ss) \<longleftrightarrow> (\<forall>s \<in> set ss. clean s)"
  by (auto simp: clean_def)

lemma clean_dec [simp]: "clean (dec n)"
  using dec_digits [of n] by (auto simp: clean_def list_all_iff is_digit_def)

lemma clean_numbers [simp]: "clean (format_int i)" "clean (padded k i)"
  by (simp_all add: format_int_def padded_def Let_def)

lemma clean_format_times [simp]: "clean (formatTimestamp k t)"
  by (simp add: formatTimestamp_def format_RisingWave_def format_RFC3339_def format_date_def format_clock_def Let_def split: prod.split)

lemma char_of_clean: "44 < n \<Longrightarrow> n < 256 \<Longrightarrow> char_of n \<notin> {CHR '','', CHR 0x22, CHR 0x0A, CHR 0x0D}" for n :: nat
  by (auto simp: char_of_eq_iff take_bit_eq_mod)

lemma clean_hexdigit: "n < 16 \<Longrightarrow> hexdigit n \<notin> {CHR '','', CHR 0x22, CHR 0x0A, CHR 0x0D}"
  unfolding hexdigit_def using char_of_clean [of "48 + n"] char_of_clean [of "87 + n"] by (cases "n < 10") auto

lemma clean_hex [simp]: "clean (hex_digits w n)"
  using clean_hexdigit unfolding clean_def hex_digits_def by (metis (no_types, lifting) ex_map_conv mod_less_divisor zero_less_numeral)

lemma clean_b64_char: "n < 64 \<Longrightarrow> b64_char n \<notin> {CHR '','', CHR 0x22, CHR 0x0A, CHR 0x0D}"
proof -
  assume n: "n < 64"
  consider "n < 26" | "\<not> n < 26" "n < 52" | "\<not> n < 52" "n < 62" | "\<not> n < 62" by fastforce
  then show ?thesis
  proof cases
    case 3
    then have "44 < n - 4" by arith
    with 3 char_of_clean [of "n - 4"] show ?thesis by (simp add: b64_char_def)
  qed (use n char_of_clean [of "65 + n"] char_of_clean [of "71 + n"] in \<open>simp_all add: b64_char_def\<close>)
qed

lemma clean_b64 [simp]: "clean (b64_encode s)"
proof -
  have "b64_char n \<notin> {CHR '','', CHR 0x22, CHR 0x0A, CHR 0x0D}" for n
    using clean_b64_char [of n] by (cases "n < 64") (simp_all add: b64_char_def)
  then show ?thesis by (induction s rule: b64_encode.induct) (simp_all add: Let_def)
qed

lemma format_typed_escapes:
  assumes "\<forall>v. clean (gn_FormatFloatG env v)"
  shows "\<exists>t. format_typed env v = escapeCSVValue t \<and> (\<forall>s. v = V_string s \<longrightarrow> t = s)"
proof -
  have c: "\<exists>t. x = escapeCSVValue t" if "clean x" for x using escape_clean [OF that] by metis
  show ?thesis
    by (cases v) (use assms in \<open>simp_all add: format_typed_def formatBinaryData_def Let_def c split: option.split\<close>, blast+)
qed

lemma nested_choice:
  "x = (if A then I else if B then t else if C then u else w) \<Longrightarrow> t \<in> {w, f} \<Longrightarrow> u \<in> {w, f} \<Longrightarrow> w = e \<or> w = f \<Longrightarrow>
   x = e \<or> x = f \<or> A \<and> x = I"
  by (cases A; cases B; cases C) auto

lemma formatValue_forms:
  assumes "v \<noteq> V_nil"
  shows "formatValue env v col table = escapeCSVValue (go_Sprint (gn_Sprint env) v)
    \<or> formatValue env v col table = format_typed env v
    \<or> col \<in> {''_block_number_'', ''block_number'', ''_version_''}
       \<and> formatValue env v col table = (case formatIntegral v of Some s \<Rightarrow> s | None \<Rightarrow> go_Sprint (gn_Sprint env) v)"
proof -
  define other where "other = (if hasSuffix ''_id'' col then escapeCSVValue (go_Sprint (gn_Sprint env) v)
      else if col \<notin> set (map cl_Name (tb_Columns table)) then escapeCSVValue (go_Sprint (gn_Sprint env) v) else format_typed env v)"
  have o: "other = escapeCSVValue (go_Sprint (gn_Sprint env) v) \<or> other = format_typed env v" by (simp add: other_def)
  let ?sys = "col = ''_block_number_'' \<or> col = ''block_number'' \<or> col = ''_version_''"
  have "formatValue env v col table = (if ?sys then (case formatIntegral v of Some s \<Rightarrow> s | None \<Rightarrow> go_Sprint (gn_Sprint env) v)
      else if col = ''_block_timestamp_'' \<or> col = ''block_timestamp''
      then (case v of V_time t \<Rightarrow> formatTimestamp (pl_kind (gn_dialect env)) t | _ \<Rightarrow> other)
      else if col = ''_deleted_'' then (case v of V_bool b \<Rightarrow> (if b then ''true'' else ''false'') | _ \<Rightarrow> other) else other)"
    using assms unfolding formatValue_def Let_def other_def by (cases v) (simp_all only: Value.simps not_True_eq_False, blast)
  from nested_choice [OF this _ _ o] have "formatValue env v col table = escapeCSVValue (go_Sprint (gn_Sprint env) v)
      \<or> formatValue env v col table = format_typed env v
      \<or> ?sys \<and> formatValue env v col table = (case formatIntegral v of Some s \<Rightarrow> s | None \<Rightarrow> go_Sprint (gn_Sprint env) v)"
    by (cases v) (simp_all add: format_typed_def Let_def)
  then show ?thesis unfolding insert_iff empty_iff simp_thms .
qed

lemma clean_integral: "formatIntegral v = Some s \<Longrightarrow> clean s"
  by (cases v) (auto simp: formatIntegral_def)

lemma formatValue_escapes:
  assumes "\<forall>v. clean (gn_FormatFloatG env v)" "plain_system_cell env v col"
  shows "\<exists>t. formatValue env v col table = escapeCSVValue t \<and> (\<forall>s. v = V_string s \<longrightarrow> t = s) \<and> (v = V_nil \<longrightarrow> t = [])"
proof (cases "v = V_nil")
  case True
  then show ?thesis by (intro exI [of _ "[]"]) (simp add: formatValue_def escapeCSVValue_def)
next
  case False
  from formatValue_forms [OF False, of env col table] show ?thesis
  proof (elim disjE conjE)
    assume "formatValue env v col table = escapeCSVValue (go_Sprint (gn_Sprint env) v)"
    then show ?thesis using False by (intro exI [of _ "go_Sprint (gn_Sprint env) v"]) (simp add: go_Sprint_def)
  next
    assume "formatValue env v col table = format_typed env v"
    then show ?thesis using False format_typed_escapes [OF assms(1), of v] by simp
  next
    assume c: "col \<in> {''_block_number_'', ''block_number'', ''_version_''}"
      and f: "formatValue env v col table = (case formatIntegral v of Some s \<Rightarrow> s | None \<Rightarrow> go_Sprint (gn_Sprint env) v)"
    have "clean (formatValue env v col table)"
      using f False c assms(2) clean_integral by (auto simp: plain_system_cell_def split: option.split)
    moreover have "\<forall>s. v = V_string s \<longrightarrow> formatValue env v col table = s"
      using f by (auto simp: formatIntegral_def go_Sprint_def)
    ultimately show ?thesis using False escape_clean by (intro exI [of _ "formatValue env v col table"]) simp
  qed
qed

text \<open>
  C29. A line of CSV gives back the cells it was made of: whatever the values of a row hold, line breaks, quotes and commas
  included, a reader of CSV that starts at the line finds one field per column, and goes on with what follows the
  line; the field of a value is the text of the value without quoting (of a string the string itself), and no value
  gives an empty field. The texts of floating point numbers need no quotes, and the columns of the block number and of
  the version hold numbers, or texts that need no quotes: those are written as they are.
\<close>

theorem csv_rows_read_back:
  fixes env :: "('f, 'c) GenEnv" and row :: "'f Value list" and table :: Table
  defines "cols \<equiv> computeColumnsForTable (pl_kind (gn_dialect env)) table"
  assumes floats: "\<forall>v. clean (gn_FormatFloatG env v)"
    and row: "length row = length cols" "\<forall>i < length row. plain_system_cell env (row ! i) (cols ! i)"
  shows "\<exists>ts. read_record FieldStart [] (formatRowForCSV env row table @ rest) = Inr (ts, rest) \<and> length ts = length cols
    \<and> (\<forall>i < length cols. formatValue env (row ! i) (cols ! i) table = escapeCSVValue (ts ! i)
          \<and> (\<forall>s. row ! i = V_string s \<longrightarrow> ts ! i = s) \<and> (row ! i = V_nil \<longrightarrow> ts ! i = []))"
proof -
  have "\<forall>i. \<exists>t. i < length cols \<longrightarrow> formatValue env (row ! i) (cols ! i) table = escapeCSVValue t
      \<and> (\<forall>s. row ! i = V_string s \<longrightarrow> t = s) \<and> (row ! i = V_nil \<longrightarrow> t = [])"
    using formatValue_escapes [OF floats] row by metis
  then obtain f where f: "\<forall>i < length cols. formatValue env (row ! i) (cols ! i) table = escapeCSVValue (f i)
      \<and> (\<forall>s. row ! i = V_string s \<longrightarrow> f i = s) \<and> (row ! i = V_nil \<longrightarrow> f i = [])" by metis
  let ?ts = "map f [0..<length cols]"
  have "map (\<lambda>(i, col). formatValue env (if i < length row then row ! i else V_nil) col table) (List.enumerate 0 cols)
      = map escapeCSVValue ?ts"
    using f row(1) by (intro nth_equalityI) (auto simp: nth_enumerate_eq)
  moreover have "?ts \<noteq> []" by (simp add: cols_def computeColumnsForTable_def)
  ultimately have "read_record FieldStart [] (formatRowForCSV env row table @ rest) = Inr (?ts, rest)"
    using read_line [of ?ts rest] by (simp add: formatRowForCSV_def Let_def flip: cols_def)
  then show ?thesis using f by (intro exI [of _ ?ts]) simp
qed

text \<open>A line with a quote, commas and a line break in a cell\<close>

definition ex_row :: "unit Value list" where
  "ex_row = [V_uint64 5, V_time (0, 0), V_string ''o,1'', V_string ([CHR 0x22] @ ''x'' @ [CHR 0x0A] @ '',''), V_nil]"

theorem csv_rows_read_back_witness:
  "\<exists>ts. read_record FieldStart [] (formatRowForCSV ex_genv ex_row ex_items_table @ ''6,rest'') = Inr (ts, ''6,rest'')
     \<and> ts ! 2 = ''o,1'' \<and> ts ! 3 = [CHR 0x22] @ ''x'' @ [CHR 0x0A] @ '','' \<and> ts ! 4 = []"
proof -
  have cols: "computeColumnsForTable (pl_kind (gn_dialect ex_genv)) ex_items_table
      = [''_block_number_'', ''_block_timestamp_'', ''id'', ''sku'', ''note'']" by code_simp
  have sys: "\<forall>i < length ex_row. plain_system_cell ex_genv (ex_row ! i) ([''_block_number_'', ''_block_timestamp_'', ''id'', ''sku'', ''note''] ! i)"
    by (simp add: ex_row_def less_Suc_eq plain_system_cell_def formatIntegral_def)
  from csv_rows_read_back [of ex_genv ex_row ex_items_table "''6,rest''", unfolded cols] sys
  obtain ts where ts: "read_record FieldStart [] (formatRowForCSV ex_genv ex_row ex_items_table @ ''6,rest'') = Inr (ts, ''6,rest'')"
    "\<forall>i < 5. (\<forall>s. ex_row ! i = V_string s \<longrightarrow> ts ! i = s) \<and> (ex_row ! i = V_nil \<longrightarrow> ts ! i = [])"
    by (auto simp: ex_genv_def ex_row_def)
  from ts(2) have "ts ! 2 = ''o,1''" "ts ! 3 = [CHR 0x22] @ ''x'' @ [CHR 0x0A] @ '',''" "ts ! 4 = []"
    by (simp_all add: ex_row_def)
  with ts(1) show ?thesis by blast
qed

end
