(* ===== verification/DeliveryProperties.thy ===== *)
theory DeliveryProperties
  imports ProtoCsvProperties CsvProperties
begin

text \<open>
  The files of the generator over a whole run: every line of a table that a handled block gives is, after the completion
  of the range, in exactly one of the files that were queued for the table, in order.
\<close>

section \<open>What a bundler holds\<close>

text \<open>The text of a file of lines; nothing is written for none\<close>

definition file_text :: "string \<Rightarrow> string list \<Rightarrow> string" where
  "file_text h ls = (if ls = [] then [] else h @ concat ls)"

text \<open>The texts of the files that were queued between two states of a bundler, read after the second\<close>

definition new_data :: "(Uploadeable \<Rightarrow> 'w \<Rightarrow> string) \<Rightarrow> 'w Bundler \<Rightarrow> 'w Bundler \<Rightarrow> string list" where
  "new_data data b b' = map (\<lambda>f. data (bf_file f) (boundaryWriter b')) (drop (length (uploadQueue b)) (uploadQueue b'))"

text \<open>A bundler whose active boundary, the one of a block up to \<open>n\<close>, holds the lines \<open>cur\<close>\<close>

definition filling ::
    "'w WriterI \<Rightarrow> ('w \<Rightarrow> string \<Rightarrow> bool) \<Rightarrow> u64 \<Rightarrow> u64 \<Rightarrow> string \<Rightarrow> u64 \<Rightarrow> string list \<Rightarrow> 'w Bundler \<Rightarrow> bool" where
  "filling wi holds sz stop h n cur b \<longleftrightarrow>
     blockCount b = sz \<and> bn_stopBlock b = stop \<and> Header b = h
     \<and> (\<exists>m. m \<le> n \<and> m < stop \<and> activeBoundary b = Some (newBoundary sz stop m))
     \<and> holds (boundaryWriter b) (file_text h cur) \<and> HeaderWritten b = (cur \<noteq> []) \<and> wi_IsWritten wi (boundaryWriter b) = (cur \<noteq> [])"

lemma filling_mono: "filling wi holds sz stop h n cur b \<Longrightarrow> n \<le> n' \<Longrightarrow> filling wi holds sz stop h n' cur b"
  unfolding filling_def using order_trans by blast

context boundary_writer
begin

lemma write_line_ok:
  assumes "filling wi holds sz stop h n cur b" "write_line wi t x b = (Done, b')"
  shows "filling wi holds sz stop h n (cur @ [x]) b' \<and> uploadQueue b' = uploadQueue b"
proof -
  have b: "holds (boundaryWriter b) (file_text h cur)" "Header b = h" "HeaderWritten b = (cur \<noteq> [])"
    using assms(1) by (simp_all add: filling_def)
  show ?thesis
  proof (cases "cur = []")
    case True
    obtain k r w where w: "wi_Write wi h (boundaryWriter b) = ((k, r), w)" by (metis surj_pair)
    with assms(2) b True have r: "r = None" by (auto simp: write_line_def split: option.splits)
    obtain k' r' w' where w': "wi_Write wi x w = ((k', r'), w')" by (metis surj_pair)
    with assms(2) b True w r have r': "r' = None" "b' = b\<lparr>boundaryWriter := w', HeaderWritten := True\<rparr>"
      by (auto simp: write_line_def split: option.splits)
    have "holds w h" using write_ok [OF b(1) w [unfolded r]] True by (simp add: file_text_def)
    from write_ok [OF this w' [unfolded r'(1)]] assms(1) r'(2) True show ?thesis by (auto simp: filling_def file_text_def)
  next
    case False
    obtain k' r' w' where w': "wi_Write wi x (boundaryWriter b) = ((k', r'), w')" by (metis surj_pair)
    with assms(2) b False have r': "r' = None" "b' = b\<lparr>boundaryWriter := w', HeaderWritten := True\<rparr>"
      by (auto simp: write_line_def split: option.splits)
    from write_ok [OF b(1) w' [unfolded r'(1)]] assms(1) r'(2) False show ?thesis by (auto simp: filling_def file_text_def)
  qed
qed

text \<open>A roll to a later block queues the lines that are held as one file, or keeps them.\<close>

lemma roll_filling:
  assumes f: "filling wi holds sz stop h n0 cur b" and n: "n0 \<le> n" "n < stop" "0 < sz" "unat stop + 2 * unat sz < 2 ^ 64"
    and r: "Roll wi n b = Some (res, b')" "is_ok res \<or> res = Inl ErrStopBlockReached"
  shows "\<exists>fs cur'. filling wi holds sz stop h n cur' b' \<and> new_data data b b' = map (file_text h) fs \<and> [] \<notin> set fs
    \<and> concat fs @ cur' = cur"
proof -
  obtain m where m: "m \<le> n0" "m < stop" "activeBoundary b = Some (newBoundary sz stop m)" using f by (auto simp: filling_def)
  show ?thesis
  proof (cases "range_Contains (newBoundary sz stop m) n")
    case True
    with r m have "b' = b" by (simp add: Roll_def)
    with filling_mono [OF f n(1)] show ?thesis by (intro exI [of _ "[]"] exI [of _ cur]) (simp add: new_data_def)
  next
    case False
    from f have h: "holds (boundaryWriter b) (file_text h cur)" "bn_stopBlock b = stop" by (simp_all add: filling_def)
    from roll_ok [OF h(1) m(3) False r] n(2) h(2) obtain u where u: "data u (boundaryWriter b') = file_text h cur"
      "uploadQueue b' = uploadQueue b @ (if wi_IsWritten wi (boundaryWriter b)
         then [\<lparr>bf_name = newBoundary sz stop m, bf_file = u\<rparr>] else [])"
      "holds (boundaryWriter b') []" "\<not> wi_IsWritten wi (boundaryWriter b')"
      "activeBoundary b' = Some (newBoundary (blockCount b) (bn_stopBlock b) n)"
      "\<not> HeaderWritten b'" "Header b' = Header b" "blockCount b' = blockCount b" "bn_stopBlock b' = bn_stopBlock b" by auto
    have "filling wi holds sz stop h n [] b'" using f u n(2) by (auto simp: filling_def file_text_def)
    moreover have "new_data data b b' = map (file_text h) (if cur = [] then [] else [cur])"
      using f u(1,2) by (simp add: new_data_def filling_def)
    ultimately show ?thesis by (intro exI [of _ "if cur = [] then [] else [cur]"] exI [of _ "[]"]) simp
  qed
qed

end

section \<open>A block\<close>

text \<open>The lines of a table among collected rows, and those of the output of a block; the clock goes on.\<close>

definition csv_lines :: "('f, 'c) GenEnv \<Rightarrow> string \<Rightarrow> (string \<times> 'f Value list) list \<Rightarrow> string list" where
  "csv_lines env t rs =
     (case GetTable (pl_base (gn_dialect env)) t of
        None \<Rightarrow> []
      | Some table \<Rightarrow> map (\<lambda>r. formatRowForCSV env (snd r) table) (filter (\<lambda>r. fst r = t) rs))"

type_synonym GenBlock = "u64 \<times> (int \<times> int) \<times> string option"

definition block_lines ::
    "('f, 'c) GenEnv \<Rightarrow> (string \<Rightarrow> 'f Message res) \<Rightarrow> string \<Rightarrow> GenBlock \<Rightarrow> 'c \<Rightarrow> string list \<times> 'c" where
  "block_lines env Unmarshal t blk c =
     (case blk of
        (n, ts, None) \<Rightarrow> ([], c)
      | (n, ts, Some value) \<Rightarrow>
          (case Unmarshal value of
             Inl e \<Rightarrow> ([], c)
           | Inr msg \<Rightarrow>
               (case walkMessageAndCollectRows env n (AsTime ts) None (Some msg) c of
                  (Returns rs, c') \<Rightarrow> (csv_lines env t rs, c')
                | (r, c') \<Rightarrow> ([], c'))))"

context boundary_writer
begin

lemma write_lines_at:
  assumes "write_lines wi env rs bs = (Done, bs')" "map_of bs t = Some b" "filling wi holds sz stop h n cur b"
  shows "map fst bs' = map fst bs \<and> (\<exists>b'. map_of bs' t = Some b' \<and> uploadQueue b' = uploadQueue b
    \<and> filling wi holds sz stop h n (cur @ csv_lines env t rs) b')"
  using assms
proof (induction rs arbitrary: bs b cur)
  case Nil
  then show ?case by (simp add: csv_lines_def split: option.split)
next
  case (Cons r rs)
  obtain tn row where r: "r = (tn, row)" by force
  show ?case
  proof (cases "map_of bs tn = None \<or> GetTable (pl_base (gn_dialect env)) tn = None")
    case True
    then have "write_lines wi env rs bs = (Done, bs')" using Cons.prems(1) r by (auto split: option.splits)
    moreover have "csv_lines env t (r # rs) = csv_lines env t rs"
      using True Cons.prems(2) r by (auto simp: csv_lines_def split: option.split)
    ultimately show ?thesis using Cons.IH [OF _ Cons.prems(2,3)] by simp
  next
    case False
    then obtain b1 table where b1: "map_of bs tn = Some b1" "GetTable (pl_base (gn_dialect env)) tn = Some table" by auto
    obtain x b2 where x: "write_line wi tn (formatRowForCSV env row table) b1 = (x, b2)" by force
    have xd: "x = Done" using Cons.prems(1) b1 x r by (cases x) auto
    have w: "write_lines wi env rs (AList.update tn b2 bs) = (Done, bs')" using Cons.prems(1) b1 x xd r by simp
    have k: "map fst (AList.update tn b2 bs) = map fst bs"
      using b1(1) by (metis map_of_eq_None_iff option.distinct(1) set_map update_keys)
    show ?thesis
    proof (cases "tn = t")
      case True
      with b1 Cons.prems(2) have "b1 = b" by simp
      from write_line_ok [OF Cons.prems(3) x [unfolded xd this]] have f:
        "filling wi holds sz stop h n (cur @ [formatRowForCSV env row table]) b2" "uploadQueue b2 = uploadQueue b" by simp_all
      from Cons.IH [OF w _ f(1)] True f(2) k b1(2) r show ?thesis by (simp add: update_conv' csv_lines_def)
    next
      case False
      then have "csv_lines env t (r # rs) = csv_lines env t rs" using r by (simp add: csv_lines_def split: option.split)
      with Cons.IH [OF w _ Cons.prems(3)] Cons.prems(2) False k show ?thesis by (simp add: update_conv')
    qed
  qed
qed

lemma roll_all_at:
  "roll_all wi n bs = (Done, bs') \<Longrightarrow> map_of bs t = Some b \<Longrightarrow>
   map fst bs' = map fst bs \<and> (\<exists>res b'. Roll wi n b = Some (res, b') \<and> (is_ok res \<or> res = Inl ErrStopBlockReached) \<and> map_of bs' t = Some b')"
proof (induction bs arbitrary: bs')
  case (Cons p bs)
  obtain s c where p: "p = (s, c)" by force
  from Cons.prems(1) p obtain res c' where r: "Roll wi n c = Some (res, c')" "is_ok res \<or> res = Inl ErrStopBlockReached"
    by (auto split: option.splits if_splits)
  obtain x bs1 where x: "roll_all wi n bs = (x, bs1)" by force
  then have b: "x = Done" "bs' = (s, c') # bs1" using Cons.prems(1) p r by auto
  have keys: "roll_all wi n zs = (Done, zs') \<Longrightarrow> map fst zs' = map fst zs" for zs zs'
    by (induction zs arbitrary: zs') (auto split: option.splits if_splits prod.splits)
  show ?case using Cons p r b x keys by (auto split: if_splits)
qed simp

text \<open>A handled block: every table keeps its lines, in files or in the bundler, and gets those of the block.\<close>

lemma handle_block_filling:
  assumes run: "gen_HandleBlockScopedData wi env Unmarshal n ts out (g, c) = (Done, (g', c'))"
    and t: "map_of (gr_bundlers g) t = Some b" "filling wi holds sz stop h n0 cur b"
    and n: "n0 \<le> n" "n < stop" "0 < sz" "unat stop + 2 * unat sz < 2 ^ 64"
  shows "snd (block_lines env Unmarshal t (n, ts, out) c) = c' \<and> map fst (gr_bundlers g') = map fst (gr_bundlers g)
    \<and> gr_bundleSize g' = gr_bundleSize g
    \<and> (\<exists>b' fs cur'. map_of (gr_bundlers g') t = Some b' \<and> filling wi holds sz stop h n cur' b'
      \<and> new_data data b b' = map (file_text h) fs \<and> [] \<notin> set fs
      \<and> concat fs @ cur' = cur @ fst (block_lines env Unmarshal t (n, ts, out) c))"
proof (cases out)
  case None
  with run have "g' = g" "c' = c" by (auto simp: gen_HandleBlockScopedData_def)
  then show ?thesis using t None filling_mono [OF t(2) n(1)]
    by (auto simp: block_lines_def new_data_def intro!: exI [of _ b] exI [of _ "[]"] exI [of _ cur])
next
  case (Some v)
  with run obtain msg where m: "Unmarshal v = Inr msg" by (auto simp: gen_HandleBlockScopedData_def split: sum.splits)
  obtain x c1 where x: "walkMessageAndCollectRows env n (AsTime ts) None (Some msg) c = (x, c1)" by force
  obtain rs where rs: "x = Returns rs" using run Some m x by (cases x) (auto simp: gen_HandleBlockScopedData_def)
  obtain y bs where y: "write_lines wi env rs (gr_bundlers g) = (y, bs)" by force
  have yd: "y = Done" using run Some m x rs y by (cases y) (auto simp: gen_HandleBlockScopedData_def)
  obtain z bs' where z: "roll_all wi n bs = (z, bs')" by force
  have zd: "z = Done" "g' = g\<lparr>gr_bundlers := bs'\<rparr>" "c' = c1"
    using run Some m x rs y yd z by (auto simp: gen_HandleBlockScopedData_def)
  have lines: "block_lines env Unmarshal t (n, ts, out) c = (csv_lines env t rs, c1)"
    by (simp add: block_lines_def Some m x rs del: walkMessageAndCollectRows.simps)
  from write_lines_at [OF y [unfolded yd] t] obtain b1 where b1: "map fst bs = map fst (gr_bundlers g)" "map_of bs t = Some b1"
    "uploadQueue b1 = uploadQueue b" "filling wi holds sz stop h n0 (cur @ csv_lines env t rs) b1" by blast
  from roll_all_at [OF z [unfolded zd(1)] b1(2)] obtain res b' where r: "map fst bs' = map fst bs"
    "Roll wi n b1 = Some (res, b')" "is_ok res \<or> res = Inl ErrStopBlockReached" "map_of bs' t = Some b'" by blast
  from roll_filling [OF b1(4) n r(2,3)] b1 r zd lines show ?thesis by (auto simp: new_data_def)
qed

end

section \<open>The completion of the range\<close>

lemma floor_unat:
  fixes m sz :: u64
  assumes "0 < sz"
  shows "unat (m - m mod sz) = unat sz * (unat m div unat sz)"
proof -
  have "m mod sz \<le> m" by (simp add: word_le_nat_alt unat_mod_distrib)
  then have "unat (m - m mod sz) = unat m - unat m mod unat sz" by (simp add: unat_sub unat_mod_distrib)
  then show ?thesis by (simp add: minus_mod_eq_mult_div)
qed

lemma boundary_before_trigger:
  fixes m final sz :: u64
  assumes "0 < sz" "m \<le> final" "unat final + 2 * unat sz < 2 ^ 64"
  shows "EndBlock (newBoundary sz stop m) \<le> final - final mod sz + sz"
    "unat (final - final mod sz + sz) + unat sz < 2 ^ 64" "final < final - final mod sz + sz"
proof -
  have pos: "0 < unat sz" using assms(1) by (simp add: word_less_nat_alt)
  have ml: "unat m \<le> unat final" using assms(2) by (simp add: word_le_nat_alt)
  have fl: "unat sz * (unat x div unat sz) \<le> unat x" for x :: u64 by simp
  have up: "unat (x - x mod sz + sz) = unat sz * (unat x div unat sz) + unat sz" if "unat x \<le> unat final" for x
  proof -
    have "unat sz * (unat x div unat sz) + unat sz < 2 ^ 64" using assms(3) that fl [of x] by linarith
    then show ?thesis unfolding unat_word_ariths(1) floor_unat [OF assms(1)] by simp
  qed
  have "unat sz * (unat m div unat sz) \<le> unat sz * (unat final div unat sz)" using ml div_le_mono by simp
  then have "m - m mod sz + sz \<le> final - final mod sz + sz" using up [OF ml] up [of final] by (simp add: word_le_nat_alt)
  moreover have "EndBlock (newBoundary sz stop m) \<le> m - m mod sz + sz" by (auto simp: newBoundary_def Let_def)
  ultimately show "EndBlock (newBoundary sz stop m) \<le> final - final mod sz + sz" by (rule order_trans [rotated])
  show "unat (final - final mod sz + sz) + unat sz < 2 ^ 64" using up [of final] fl [of final] assms(3) by linarith
  have "unat final < unat sz * (unat final div unat sz) + unat sz"
    using pos mod_less_divisor [OF pos, of "unat final"] mult_div_mod_eq [of "unat sz" "unat final"] by linarith
  then show "final < final - final mod sz + sz" using up [of final] by (simp add: word_less_nat_alt)
qed

context boundary_writer
begin

text \<open>Past the last block the roll always comes back and queues what is held.\<close>

lemma final_roll_filling:
  assumes f: "filling wi holds sz stop h n cur b" and n: "n \<le> final" "0 < sz" "unat final + 2 * unat sz < 2 ^ 64"
    and close: "\<And>w d. holds w d \<Longrightarrow> \<exists>u w'. wi_CloseBoundary wi w = (Some (Inr u), w')"
  shows "\<exists>res b'. Roll wi (final - final mod sz + sz) b = Some (res, b')
    \<and> new_data data b b' = map (file_text h) (if cur = [] then [] else [cur])"
proof -
  let ?n = "final - final mod sz + sz"
  obtain m where m: "m \<le> n" "activeBoundary b = Some (newBoundary sz stop m)" using f by (auto simp: filling_def)
  let ?r = "newBoundary sz stop m"
  from f have b: "holds (boundaryWriter b) (file_text h cur)" "blockCount b = sz" "bn_stopBlock b = stop" by (simp_all add: filling_def)
  note t = boundary_before_trigger [OF n(2) order_trans [OF m(1) n(1)] n(3)]
  have out: "\<not> range_Contains ?r ?n" using t(1) [of stop] by (auto simp: range_Contains_def)
  have "EndBlock ?r \<le> ?n + sz" "unat (EndBlock ?r) + unat sz < 2 ^ 64"
  proof -
    have e: "unat (EndBlock ?r) \<le> unat ?n" using t(1) [of stop] by (simp add: word_le_nat_alt)
    with t(2) show "unat (EndBlock ?r) + unat sz < 2 ^ 64" by linarith
    have "unat (?n + sz) = unat ?n + unat sz" using t(2) by (intro unat_add_lem [THEN iffD1]) simp
    with e show "EndBlock ?r \<le> ?n + sz" by (simp only: word_le_nat_alt)
  qed
  from skip_from_tiles [OF n(2) t(2) this] obtain rs where rs: "boundariesToSkip ?r ?n sz = Some rs"
    by (auto simp: boundariesToSkip_def)
  obtain u w where c: "wi_CloseBoundary wi (boundaryWriter b) = (Some (Inr u), w)" using close [OF b(1)] by blast
  then obtain b1 where b1: "Bundler_stop wi b = Some (None, b1)" by (simp add: Bundler_stop_def Let_def)
  from stop_ok [OF b(1) b1] have i1: "idle (boundaryWriter b1)" "bn_stopBlock b1 = stop" using b(3) by auto
  from skip_boundaries_ok [OF i1(1), of rs] i1(2) obtain b2 where b2: "skip_boundaries wi rs b1 = Some (None, b2)"
    "idle (boundaryWriter b2)" by auto
  obtain w3 where w3: "wi_StartBoundary wi (newBoundary (blockCount b2) (bn_stopBlock b2) ?n) (boundaryWriter b2) = (None, w3)"
    using start_ok [OF b2(2)] by blast
  have "\<exists>res b'. Roll wi ?n b = Some (res, b') \<and> (is_ok res \<or> res = Inl ErrStopBlockReached)"
    using m(2) out b(2) n(2) rs b1 b2(1) w3 by (simp add: Roll_def Bundler_Start_def Let_def word_gt_0)
  then obtain res b' where r: "Roll wi ?n b = Some (res, b')" "is_ok res \<or> res = Inl ErrStopBlockReached" by blast
  from roll_ok [OF b(1) m(2) out r] obtain v where "data v (boundaryWriter b') = file_text h cur"
    "uploadQueue b' = uploadQueue b @ (if wi_IsWritten wi (boundaryWriter b) then [\<lparr>bf_name = ?r, bf_file = v\<rparr>] else [])" by blast
  then have "new_data data b b' = map (file_text h) (if cur = [] then [] else [cur])"
    using f by (simp add: new_data_def filling_def)
  with r(1) show ?thesis by blast
qed

lemma final_roll_at:
  assumes "\<forall>b \<in> snd ` set bs. \<exists>res b'. Roll wi n b = Some (res, b')" "map_of bs t = Some b" "Roll wi n b = Some (res, b')"
  shows "\<exists>bs'. final_roll wi n bs = (Done, bs') \<and> map_of bs' t = Some b'"
proof -
  have total: "\<forall>b \<in> snd ` set bs. \<exists>res b'. Roll wi n b = Some (res, b') \<Longrightarrow> \<exists>bs'. final_roll wi n bs = (Done, bs')" for bs
    by (induction bs) fastforce+
  show ?thesis using assms
  proof (induction bs)
    case (Cons p bs)
    obtain s c where p: "p = (s, c)" by force
    from Cons.prems(1) p obtain r1 c1 where c1: "Roll wi n c = Some (r1, c1)" by auto
    from Cons.prems(1) total [of bs] obtain bs1 where t: "final_roll wi n bs = (Done, bs1)" by auto
    show ?case using Cons p c1 t by (cases "s = t") auto
  qed simp
qed

end

section \<open>A run\<close>

text \<open>The files that a step queued for a table\<close>

definition delivered :: "(Uploadeable \<Rightarrow> 'w \<Rightarrow> string) \<Rightarrow> string \<Rightarrow> 'w Generator \<Rightarrow> 'w Generator \<Rightarrow> string list" where
  "delivered data t g g' =
     (case (map_of (gr_bundlers g) t, map_of (gr_bundlers g') t) of (Some b, Some b') \<Rightarrow> new_data data b b' | _ \<Rightarrow> [])"

text \<open>Blocks that are handled one after the other up to the first error, with the files they queue for a table\<close>

fun gen_run ::
    "'w WriterI \<Rightarrow> (Uploadeable \<Rightarrow> 'w \<Rightarrow> string) \<Rightarrow> ('f, 'c) GenEnv \<Rightarrow> (string \<Rightarrow> 'f Message res) \<Rightarrow> string \<Rightarrow> GenBlock list
     \<Rightarrow> 'w Generator \<times> 'c \<Rightarrow> Outcome \<times> ('w Generator \<times> 'c) \<times> string list" where
  "gen_run wi data env Unmarshal t [] s = (Done, s, [])"
| "gen_run wi data env Unmarshal t ((n, ts, out) # blks) s =
     (case gen_HandleBlockScopedData wi env Unmarshal n ts out s of
        (Done, s') \<Rightarrow>
          (case gen_run wi data env Unmarshal t blks s' of (r, s'', fs) \<Rightarrow> (r, s'', delivered data t (fst s) (fst s') @ fs))
      | (r, s') \<Rightarrow> (r, s', []))"

fun run_lines :: "('f, 'c) GenEnv \<Rightarrow> (string \<Rightarrow> 'f Message res) \<Rightarrow> string \<Rightarrow> GenBlock list \<Rightarrow> 'c \<Rightarrow> string list" where
  "run_lines env Unmarshal t [] c = []"
| "run_lines env Unmarshal t (blk # blks) c =
     (case block_lines env Unmarshal t blk c of (ls, c') \<Rightarrow> ls @ run_lines env Unmarshal t blks c')"

lemma gen_run_state:
  "gen_run wi data env Unmarshal t blks s = (r, s', fs) \<Longrightarrow> \<exists>fs'. gen_run wi data env Unmarshal t' blks s = (r, s', fs')"
proof (induction blks arbitrary: s fs)
  case (Cons blk blks)
  obtain n ts out where b: "blk = (n, ts, out)" by (metis surj_pair)
  obtain x s1 where x: "gen_HandleBlockScopedData wi env Unmarshal n ts out s = (x, s1)" by (metis surj_pair)
  show ?case
  proof (cases x)
    case Done
    obtain r2 s2 fs2 where r: "gen_run wi data env Unmarshal t blks s1 = (r2, s2, fs2)" by (metis surj_pair)
    from Cons.prems b x Done r have e: "r2 = r" "s2 = s'" by simp_all
    from Cons.IH [OF r [unfolded e]] obtain fs' where "gen_run wi data env Unmarshal t' blks s1 = (r, s', fs')" by blast
    with b x Done show ?thesis by simp
  qed (use Cons.prems b x in auto)
qed simp

context boundary_writer
begin

lemma run_filling:
  assumes "0 < sz" "unat stop + 2 * unat sz < 2 ^ 64"
  shows "gen_run wi data env Unmarshal t blks (g, c) = (Done, (g', c'), fs) \<Longrightarrow> map_of (gr_bundlers g) t = Some b \<Longrightarrow>
    filling wi holds sz stop h n0 cur b \<Longrightarrow> sorted_wrt (\<le>) (n0 # map fst blks @ [final]) \<Longrightarrow> \<forall>blk \<in> set blks. fst blk < stop \<Longrightarrow>
    map fst (gr_bundlers g') = map fst (gr_bundlers g) \<and> gr_bundleSize g' = gr_bundleSize g
    \<and> (\<exists>b' lss cur'. map_of (gr_bundlers g') t = Some b' \<and> filling wi holds sz stop h final cur' b'
        \<and> fs = map (file_text h) lss \<and> [] \<notin> set lss \<and> concat lss @ cur' = cur @ run_lines env Unmarshal t blks c)"
proof (induction blks arbitrary: g c fs b n0 cur)
  case Nil
  then show ?case using filling_mono [of wi holds sz stop h n0 cur b final]
    by (auto intro!: exI [of _ b] exI [of _ "[]"] exI [of _ cur])
next
  case (Cons blk blks)
  obtain n ts out where b: "blk = (n, ts, out)" by (metis surj_pair)
  obtain x g1 c1 where x: "gen_HandleBlockScopedData wi env Unmarshal n ts out (g, c) = (x, (g1, c1))" by (metis surj_pair)
  obtain r2 s2 fs2 where r: "gen_run wi data env Unmarshal t blks (g1, c1) = (r2, s2, fs2)" by (metis surj_pair)
  have xd: "x = Done" using Cons.prems(1) b x by (cases x) simp_all
  with Cons.prems(1) b x r have rd: "r2 = Done" "s2 = (g', c')" "fs = delivered data t g g1 @ fs2" by simp_all
  have n: "n0 \<le> n" "n < stop" using Cons.prems(4,5) b by auto
  from handle_block_filling [OF x [unfolded xd] Cons.prems(2,3) n assms] obtain b1 fs1 cur1 where h:
    "snd (block_lines env Unmarshal t (n, ts, out) c) = c1" "map fst (gr_bundlers g1) = map fst (gr_bundlers g)"
    "gr_bundleSize g1 = gr_bundleSize g" "map_of (gr_bundlers g1) t = Some b1" "filling wi holds sz stop h n cur1 b1"
    "new_data data b b1 = map (file_text h) fs1" "[] \<notin> set fs1"
    "concat fs1 @ cur1 = cur @ fst (block_lines env Unmarshal t (n, ts, out) c)" by blast
  have "sorted_wrt (\<le>) (n # map fst blks @ [final])" "\<forall>blk \<in> set blks. fst blk < stop" using Cons.prems(4,5) b by auto
  from Cons.IH [OF r [unfolded rd(1,2)] h(4,5) this] obtain b' lss cur' where t:
    "map fst (gr_bundlers g') = map fst (gr_bundlers g1)" "gr_bundleSize g' = gr_bundleSize g1"
    "map_of (gr_bundlers g') t = Some b'" "filling wi holds sz stop h final cur' b'" "fs2 = map (file_text h) lss"
    "[] \<notin> set lss" "concat lss @ cur' = cur1 @ run_lines env Unmarshal t blks c1" by blast
  have "fs = map (file_text h) (fs1 @ lss)" using rd(3) h(4,6) t(5) Cons.prems(2) by (simp add: delivered_def)
  moreover have "concat (fs1 @ lss) @ cur' = cur @ run_lines env Unmarshal t (blk # blks) c"
  proof -
    have e: "run_lines env Unmarshal t (blk # blks) c
        = fst (block_lines env Unmarshal t (n, ts, out) c) @ run_lines env Unmarshal t blks c1"
      using h(1) b by (cases "block_lines env Unmarshal t (n, ts, out) c") simp
    have "concat (fs1 @ lss) @ cur' = (concat fs1 @ cur1) @ run_lines env Unmarshal t blks c1" using t(7) by simp
    then show ?thesis unfolding h(8) e by simp
  qed
  ultimately show ?case using t h by (intro conjI exI [of _ b'] exI [of _ "fs1 @ lss"] exI [of _ cur']) auto
qed

text \<open>A bundler that was just started\<close>

lemma table_bundler_filling:
  assumes "idle (newWriter t)" "table_bundler wi newWriter SubStore k sz start stop t table = Inr b" "start < stop"
  shows "filling wi holds sz stop (csv_header (computeColumnsForTable k table)) start [] b \<and> uploadQueue b = []"
proof -
  obtain w where w: "wi_StartBoundary wi (newBoundary sz stop start) (newWriter t) = (None, w)" "holds w []" "\<not> wi_IsWritten wi w"
    using start_ok [OF assms(1)] by blast
  with assms(2,3) show ?thesis
    by (auto simp: table_bundler_def Bundler_Start_def NewBundler_def filling_def file_text_def Let_def split: option.splits)
qed

end

lemma bio_Close_total:
  assumes "os_ok os" "\<forall>p. os_Close os p = None" "bio_holds w d"
  shows "\<exists>u w'. wi_CloseBoundary (bio_writer os) w = (Some (Inr u), w')"
proof -
  obtain a where a: "activeFile (fst w) = Some a" "bufio_ok (af_writer a)" "bw_err (af_writer a) = None"
    using assms(3) by (auto simp: bio_holds_def active_def bufio_ok_def)
  obtain b f where f: "bufio_Flush os (af_writer a) (snd w) = (None, b, f)" using bufio_Flush_total [OF assms(1) a(3)] by blast
  show ?thesis using a f assms(2) MemoryData_held [OF a(2)]
    by (cases w) (auto simp: bio_writer_def CloseBoundary_def Let_def AllDataFitInMemory_def LazyFile_Close_def)
qed

section \<open>Delivery\<close>

lemma map_of_rel:
  "list_all2 (\<lambda>(n, x) (m, y). n = m \<and> Q n x y) xs ys \<Longrightarrow> rel_option (Q k) (map_of xs k) (map_of ys k)"
  by (induction rule: list_all2_induct) auto

lemma new_generator:
  assumes "newProtoAwareCSVGenerator wi newWriter files wrap (Some (start, Some stop)) d outputDir workDir sz cursorsTab = Inr g"
  shows "gr_bundleSize g = sz" "map fst (gr_bundlers g) = map fst (bd_TableRegistry (pl_base d))"
    "\<And>t b. map_of (gr_bundlers g) t = Some b \<Longrightarrow> \<exists>table. GetTable (pl_base d) t = Some table
      \<and> table_bundler wi newWriter (gf_SubStore files) (pl_kind d) sz start stop t table = Inr b"
    "\<And>t table. GetTable (pl_base d) t = Some table \<Longrightarrow> \<exists>b. map_of (gr_bundlers g) t = Some b
      \<and> table_bundler wi newWriter (gf_SubStore files) (pl_kind d) sz start stop t table = Inr b"
proof -
  let ?tb = "\<lambda>(n, table). map_sum id (\<lambda>b. (n, b)) (table_bundler wi newWriter (gf_SubStore files) (pl_kind d) sz start stop n table)"
  from assms have t: "traverse ?tb (bd_TableRegistry (pl_base d)) = Inr (gr_bundlers g)" and "gr_bundleSize g = sz"
    by (auto simp: newProtoAwareCSVGenerator_def split: option.splits sum.splits)
  then show "gr_bundleSize g = sz" by simp
  have all: "list_all2 (\<lambda>(n, table) (m, b). n = m \<and> table_bundler wi newWriter (gf_SubStore files) (pl_kind d) sz start stop n table = Inr b)
      (bd_TableRegistry (pl_base d)) (gr_bundlers g)"
    using t unfolding traverse_Inr_iff by (rule list_all2_mono) (auto simp: map_sum_def split: sum.splits)
  then show "map fst (gr_bundlers g) = map fst (bd_TableRegistry (pl_base d))"
    by (induction rule: list_all2_induct) auto
  have rel: "rel_option (\<lambda>table b. table_bundler wi newWriter (gf_SubStore files) (pl_kind d) sz start stop t table = Inr b)
      (GetTable (pl_base d) t) (map_of (gr_bundlers g) t)" for t
    unfolding GetTable_def by (rule map_of_rel [OF all])
  show "\<exists>table. GetTable (pl_base d) t = Some table
      \<and> table_bundler wi newWriter (gf_SubStore files) (pl_kind d) sz start stop t table = Inr b"
    if "map_of (gr_bundlers g) t = Some b" for t b
    using rel [of t] that by (auto simp: option_rel_Some2)
  show "\<exists>b. map_of (gr_bundlers g) t = Some b
      \<and> table_bundler wi newWriter (gf_SubStore files) (pl_kind d) sz start stop t table = Inr b"
    if "GetTable (pl_base d) t = Some table" for t table
    using rel [of t] that by (auto simp: option_rel_Some1)
qed

text \<open>The bundler of a table after a run from the start of the generator\<close>

lemma run_of_generator:
  assumes start: "newProtoAwareCSVGenerator (bio_writer os) newWriter files wrap (Some (start, Some stop)) (gn_dialect env)
        outputDir workDir sz cursorsTab = Inr g0" "\<forall>t. bio_idle (newWriter t)"
    and range: "0 < sz" "start < stop" "unat stop + 2 * unat sz < 2 ^ 64"
    and run: "gen_run (bio_writer os) bio_data env Unmarshal t blks (g0, c0) = (Done, (g, c), fs)"
      "sorted_wrt (\<le>) (start # map fst blks @ [final])" "\<forall>blk \<in> set blks. fst blk < stop"
    and t: "GetTable (pl_base (gn_dialect env)) t = Some table"
    and h: "h = csv_header (computeColumnsForTable (pl_kind (gn_dialect env)) table)"
  shows "\<exists>b lss cur. map_of (gr_bundlers g) t = Some b \<and> filling (bio_writer os) bio_holds sz stop h final cur b
      \<and> fs = map (file_text h) lss \<and> [] \<notin> set lss \<and> concat lss @ cur = run_lines env Unmarshal t blks c0
      \<and> map fst (gr_bundlers g) = map fst (gr_bundlers g0) \<and> gr_bundleSize g = sz"
proof -
  from new_generator(4) [OF start(1) t] obtain b where b: "map_of (gr_bundlers g0) t = Some b"
    "table_bundler (bio_writer os) newWriter (gf_SubStore files) (pl_kind (gn_dialect env)) sz start stop t table = Inr b" by blast
  from bio.table_bundler_filling [OF _ b(2) range(2)] start(2)
  have f: "filling (bio_writer os) bio_holds sz stop h start [] b" unfolding h by blast
  from bio.run_filling [OF range(1,3) run(1) b(1) f run(2,3)] new_generator(1) [OF start(1)] show ?thesis by auto
qed

text \<open>After it the last roll of every bundler comes back.\<close>

lemma final_rolls_return:
  assumes os: "os_ok os" "\<forall>p. os_Close os p = None"
    and start: "newProtoAwareCSVGenerator (bio_writer os) newWriter files wrap (Some (start, Some stop)) (gn_dialect env)
        outputDir workDir sz cursorsTab = Inr g0" "\<forall>t. bio_idle (newWriter t)" "distinct (map fst (bd_TableRegistry (pl_base (gn_dialect env))))"
    and range: "0 < sz" "start < stop" "unat stop + 2 * unat sz < 2 ^ 64"
    and run: "gen_run (bio_writer os) bio_data env Unmarshal t blks (g0, c0) = (Done, (g, c), fs)"
      "sorted_wrt (\<le>) (start # map fst blks @ [final])" "\<forall>blk \<in> set blks. fst blk < stop" "unat final + 2 * unat sz < 2 ^ 64"
    and keys: "map fst (gr_bundlers g) = map fst (gr_bundlers g0)"
  shows "\<forall>x \<in> snd ` set (gr_bundlers g). \<exists>res b'. Roll (bio_writer os) (final - final mod sz + sz) x = Some (res, b')"
proof
  fix x
  assume "x \<in> snd ` set (gr_bundlers g)"
  then obtain s where s: "(s, x) \<in> set (gr_bundlers g)" by auto
  have "distinct (map fst (gr_bundlers g))" using start(3) keys new_generator(2) [OF start(1)] by simp
  with s have m: "map_of (gr_bundlers g) s = Some x" by (intro map_of_is_SomeI)
  with keys obtain y where "map_of (gr_bundlers g0) s = Some y" by (metis domI domD dom_map_of_conv_image_fst set_map)
  from new_generator(3) [OF start(1) this] obtain tab where tab: "GetTable (pl_base (gn_dialect env)) s = Some tab" by blast
  from gen_run_state [OF run(1)] obtain fs' where
    r: "gen_run (bio_writer os) bio_data env Unmarshal s blks (g0, c0) = (Done, (g, c), fs')" by blast
  from run_of_generator [OF start(1,2) range r run(2,3) tab refl] m obtain h cur where
    "filling (bio_writer os) bio_holds sz stop h final cur x" by auto
  from bio.final_roll_filling [OF this order_refl range(1) run(4)] bio_Close_total [OF os]
  show "\<exists>res b'. Roll (bio_writer os) (final - final mod sz + sz) x = Some (res, b')" by blast
qed

text \<open>
  C27. Every row is delivered: start the generator for a range of blocks, on a file system without failures, let it
  handle blocks of the range in order without an error, and complete the range. Then the completion succeeds, and
  the files that were queued for a table in the course of it are, one after the other, the header of the table and one line or
  more each; and their lines are the lines of the rows of the table in all the blocks, each once and in order: none is
  left in a buffer, and none is written twice.
\<close>

theorem every_row_reaches_a_file:
  assumes os: "os_ok os" "\<forall>p. os_Close os p = None"
    and start: "newProtoAwareCSVGenerator (bio_writer os) newWriter files wrap (Some (start, Some stop)) (gn_dialect env)
        outputDir workDir sz cursorsTab = Inr g0" "\<forall>t. bio_idle (newWriter t)" "distinct (map fst (bd_TableRegistry (pl_base (gn_dialect env))))"
    and range: "0 < sz" "start < stop" "unat stop + 2 * unat sz < 2 ^ 64"
    and run: "gen_run (bio_writer os) bio_data env Unmarshal t blks (g0, c0) = (Done, (g, c), fs)"
      "sorted_wrt (\<le>) (start # map fst blks @ [c_num cursor])" "\<forall>blk \<in> set blks. fst blk < stop" "c_num cursor < stop"
    and object: "\<forall>n d. WriteObject n d = None" and t: "GetTable (pl_base (gn_dialect env)) t = Some table"
  shows "\<exists>g' lss. gen_HandleBlockRangeCompletion (bio_writer os) WriteObject cursor g = (Done, g') \<and> gr_closed g'
    \<and> fs @ delivered bio_data t g g'
       = map (\<lambda>ls. csv_header (computeColumnsForTable (pl_kind (gn_dialect env)) table) @ concat ls) lss
    \<and> [] \<notin> set lss \<and> concat lss = run_lines env Unmarshal t blks c0"
proof -
  define h where "h = csv_header (computeColumnsForTable (pl_kind (gn_dialect env)) table)"
  let ?wi = "bio_writer os" and ?n = "c_num cursor - c_num cursor mod sz + sz"
  have final: "unat (c_num cursor) + 2 * unat sz < 2 ^ 64" using run(4) range(3) unfolding word_less_nat_alt by linarith
  from run_of_generator [OF start(1,2) range run(1-3) t h_def] obtain b lss cur where b: "map_of (gr_bundlers g) t = Some b"
    "filling ?wi bio_holds sz stop h (c_num cursor) cur b" "fs = map (file_text h) lss" "[] \<notin> set lss"
    "concat lss @ cur = run_lines env Unmarshal t blks c0"
    "map fst (gr_bundlers g) = map fst (gr_bundlers g0)" "gr_bundleSize g = sz" by blast
  from bio.final_roll_filling [OF b(2) order_refl range(1) final] bio_Close_total [OF os] obtain res b' where r:
    "Roll ?wi ?n b = Some (res, b')" "new_data bio_data b b' = map (file_text h) (if cur = [] then [] else [cur])" by blast
  note total = final_rolls_return [OF os start range run(1-3) final b(6)]
  from bio.final_roll_at [OF total b(1) r(1)] obtain bs' where
    bs': "final_roll ?wi ?n (gr_bundlers g) = (Done, bs')" "map_of bs' t = Some b'" by blast
  let ?g = "gen_close (g\<lparr>gr_lastCursor := Some (''name,cursor'' @ [CHR 0x0A] @ ''cursor,'' @ c_string cursor @ [CHR 0x0A]), gr_bundlers := bs'\<rparr>)"
  let ?lss = "lss @ (if cur = [] then [] else [cur])"
  have g: "gen_HandleBlockRangeCompletion ?wi WriteObject cursor g = (Done, ?g)"
    using object b(7) range(1) bs'(1) by (simp add: gen_HandleBlockRangeCompletion_def Let_def word_gt_0)
  have "fs @ delivered bio_data t g ?g = map (file_text h) ?lss"
    using b(1,3) bs'(2) r(2) by (simp add: delivered_def gen_close_def)
  also have "\<dots> = map (\<lambda>ls. h @ concat ls) ?lss" using b(4) by (intro map_cong refl) (auto simp: file_text_def split: if_splits)
  finally have files: "fs @ delivered bio_data t g ?g = map (\<lambda>ls. h @ concat ls) ?lss" .
  have "[] \<notin> set ?lss" "concat ?lss = run_lines env Unmarshal t blks c0"
    using b(4,5) by (cases "cur = []"; auto)+
  moreover have "gr_closed ?g" by (simp add: gen_close_def)
  ultimately show ?thesis using g files unfolding h_def by blast
qed

text \<open>Two blocks with a line each, in bundles of two blocks: the first ends the bundle before it\<close>

definition ex_gen_files :: GenFiles where
  "ex_gen_files = \<lparr>gf_MkdirAll = \<lambda>_. None, gf_NewStore = \<lambda>_. None, gf_SubStore = \<lambda>_. None\<rparr>"

definition ex_gen_blocks :: "GenBlock list" where
  "ex_gen_blocks = [(2, (0, 0), Some ''x''), (3, (0, 0), Some ''x'')]"

definition ex_gen_start :: "(BufferedIO \<times> Files) Generator" where
  "ex_gen_start = (case newProtoAwareCSVGenerator (bio_writer ex_os) (\<lambda>t. (NewBufferedIO 75 t ''csv'', [])) ex_gen_files None
     (Some (0, Some 4)) (gn_dialect ex_genv) ''out'' ''work'' 2 ''cursors'' of Inr g \<Rightarrow> g)"

theorem every_row_reaches_a_file_witness:
  "\<exists>g c fs g' lss. gen_run (bio_writer ex_os) bio_data ex_genv (\<lambda>_. Inr (ex_item_msg ''pen'' ''a,b'')) ''lines'' ex_gen_blocks (ex_gen_start, 0) = (Done, (g, c), fs)
     \<and> gen_HandleBlockRangeCompletion (bio_writer ex_os) (\<lambda>_ _. None) \<lparr>c_string = ''c'', c_num = 3, c_id = ''b''\<rparr> g = (Done, g')
     \<and> fs @ delivered bio_data ''lines'' g g'
       = map (\<lambda>ls. csv_header (computeColumnsForTable PostgresKind ex_items_table) @ concat ls) lss
     \<and> length (concat lss) = 2"
proof -
  let ?run = "\<lambda>t. gen_run (bio_writer ex_os) bio_data ex_genv (\<lambda>_. Inr (ex_item_msg ''pen'' ''a,b'')) t ex_gen_blocks (ex_gen_start, 0)"
  have os: "os_ok ex_os" "\<forall>p. os_Close ex_os p = None" by (simp_all add: os_ok_def ex_os_def)
  have "fst (?run []) = Done" by code_simp
  then obtain g c fs0 where "?run [] = (Done, (g, c), fs0)" by (metis surj_pair fst_conv)
  then obtain fs where run: "?run ''lines'' = (Done, (g, c), fs)" by (blast dest: gen_run_state)
  have "case newProtoAwareCSVGenerator (bio_writer ex_os) (\<lambda>t. (NewBufferedIO 75 t ''csv'', [])) ex_gen_files None
     (Some (0, Some 4)) (gn_dialect ex_genv) ''out'' ''work'' 2 ''cursors'' of Inr g \<Rightarrow> True | _ \<Rightarrow> False" by code_simp
  then have start: "newProtoAwareCSVGenerator (bio_writer ex_os) (\<lambda>t. (NewBufferedIO 75 t ''csv'', [])) ex_gen_files None
     (Some (0, Some 4)) (gn_dialect ex_genv) ''out'' ''work'' 2 ''cursors'' = Inr ex_gen_start"
    by (auto simp: ex_gen_start_def split: sum.splits)
  have idle: "\<forall>t. bio_idle (NewBufferedIO 75 t ''csv'', [])" by (simp add: bio_idle_def NewBufferedIO_def)
  have more: "distinct (map fst (bd_TableRegistry (pl_base (gn_dialect ex_genv))))"
    "GetTable (pl_base (gn_dialect ex_genv)) ''lines'' = Some ex_items_table" "pl_kind (gn_dialect ex_genv) = PostgresKind"
    "length (run_lines ex_genv (\<lambda>_. Inr (ex_item_msg ''pen'' ''a,b'')) ''lines'' ex_gen_blocks 0) = 2" by code_simp+
  let ?c = "\<lparr>c_string = ''c'', c_num = 3, c_id = ''b''\<rparr>"
  have "sorted_wrt (\<le>) (0 # map fst ex_gen_blocks @ [c_num ?c])" "\<forall>blk \<in> set ex_gen_blocks. fst blk < 4" "c_num ?c < 4"
    by (simp_all add: ex_gen_blocks_def)
  from every_row_reaches_a_file [OF os start idle more(1) _ _ _ run this _ more(2), of "\<lambda>_ _. None"]
  obtain g' lss where "gen_HandleBlockRangeCompletion (bio_writer ex_os) (\<lambda>_ _. None) ?c g = (Done, g')"
    "fs @ delivered bio_data ''lines'' g g' = map (\<lambda>ls. csv_header (computeColumnsForTable PostgresKind ex_items_table) @ concat ls) lss"
    "concat lss = run_lines ex_genv (\<lambda>_. Inr (ex_item_msg ''pen'' ''a,b'')) ''lines'' ex_gen_blocks 0"
    unfolding more(3) by auto
  with run more(4) show ?thesis by metis
qed

end
