(* ===== verification/Descriptors.thy ===== *)
theory Descriptors
  imports ProtoSchema
begin

text \<open>
  The descriptors of a package (\<open>src/db_proto/proto/utils.go\<close>, \<open>src/shared.go\<close>, \<open>src/services/runner.go\<close>): the files of
  protobuf definitions that a package brings are turned into descriptors, each after the files it imports, and the
  one with the type of the module's output is chosen. The library that builds a descriptor is a parameter.
\<close>

section \<open>Packages\<close>

text \<open>A file has a name, the names of the files it imports, and the rest of it.\<close>

record FileProto =
  fp_Name :: string
  fp_Dependency :: "string list"
  fp_Content :: string

text \<open>A module and the type of its output; a store has no output.\<close>

record Module =
  mo_Name :: string
  mo_OutputType :: "string option"

record Package =
  pk_ProtoFiles :: "FileProto list"
  pk_Modules :: "Module list"
  pk_SinkConfig :: "(string \<times> string) option"
  pk_Network :: string

text \<open>The library of descriptors: a descriptor is built from a file and descriptors of the files it imports.\<close>

record 'd DescLib =
  dl_Create :: "FileProto \<Rightarrow> 'd list \<Rightarrow> 'd res"
  dl_Name :: "'d \<Rightarrow> string"
  dl_Messages :: "'d \<Rightarrow> string list"
  dl_Dependencies :: "'d \<Rightarrow> string list"

section \<open>Resolution\<close>

text \<open>The loop over the imports of a file, with the descriptors built so far. A file that imports itself, through
  others or not, never ends.\<close>

partial_function (option) resolve_names ::
    "'d DescLib \<Rightarrow> FileProto gomap \<Rightarrow> string list \<Rightarrow> 'd gomap \<Rightarrow> 'd gomap res option" where
  "resolve_names lib files ns deps =
     (case ns of
        [] \<Rightarrow> Some (Inr deps)
      | n # rest \<Rightarrow>
          (case map_of files n of
             None \<Rightarrow> Some (Inl (Errorf ''could not find proto file for dependency %q'' [AStr n]))
           | Some p \<Rightarrow>
               if map_of deps (fp_Name p) \<noteq> None then resolve_names lib files rest deps
               else Option.bind (resolve_names lib files (fp_Dependency p) deps)
                 (\<lambda>r. case r of
                        Inl e \<Rightarrow> Some (Inl (Wrapf ''error resolving dependencies: %w'' [] e))
                      | Inr deps1 \<Rightarrow>
                          (case dl_Create lib p (map snd deps1) of
                             Inl e \<Rightarrow> Some (Inl (Wrapf ''error resolving dependencies: %w'' []
                                                 (Wrapf ''creating file descriptor: %w'' [] e)))
                           | Inr d \<Rightarrow> resolve_names lib files rest (AList.update (fp_Name p) d deps1)))))"

declare resolve_names.simps [code]

definition resolveDependencies ::
    "'d DescLib \<Rightarrow> FileProto gomap \<Rightarrow> FileProto \<Rightarrow> 'd gomap \<Rightarrow> 'd gomap res option" where
  "resolveDependencies lib files p deps =
     (if map_of deps (fp_Name p) \<noteq> None then Some (Inr deps)
      else Option.bind (resolve_names lib files (fp_Dependency p) deps)
        (\<lambda>r. case r of
               Inl e \<Rightarrow> Some (Inl e)
             | Inr deps1 \<Rightarrow>
                 (case dl_Create lib p (map snd deps1) of
                    Inl e \<Rightarrow> Some (Inl (Wrapf ''creating file descriptor: %w'' [] e))
                  | Inr d \<Rightarrow> Some (Inr (AList.update (fp_Name p) d deps1)))))"

fun resolve_files :: "'d DescLib \<Rightarrow> FileProto gomap \<Rightarrow> FileProto list \<Rightarrow> 'd gomap \<Rightarrow> 'd gomap res option" where
  "resolve_files lib files [] out = Some (Inr out)"
| "resolve_files lib files (p # ps) out =
     Option.bind (resolveDependencies lib files p out)
       (\<lambda>r. case r of
              Inl e \<Rightarrow> Some (Inl (Wrapf ''error resolving dependencies: %w'' [] e))
            | Inr out' \<Rightarrow> resolve_files lib files ps out')"

definition ResolveDependencies :: "'d DescLib \<Rightarrow> FileProto gomap \<Rightarrow> 'd gomap res option" where
  "ResolveDependencies lib files = resolve_files lib files (map snd files) []"

section \<open>The descriptor of an output\<close>

text \<open>A module without an output of the name asked for panics.\<close>

fun module_type :: "string \<Rightarrow> Module list \<Rightarrow> string Ret" where
  "module_type n [] = Returns []"
| "module_type n (m # ms) =
     (if mo_Name m = n
      then (case mo_OutputType m of None \<Rightarrow> Panics | Some t \<Rightarrow> Returns (trimPrefix ''proto:'' t))
      else module_type n ms)"

definition ModuleOutputType :: "Package \<Rightarrow> string \<Rightarrow> string Ret" where
  "ModuleOutputType spkg moduleName = module_type moduleName (pk_Modules spkg)"

fun find_file :: "'d DescLib \<Rightarrow> FileProto list \<Rightarrow> 'd list \<Rightarrow> string \<Rightarrow> 'd res" where
  "find_file lib [] deps outputType = Inl (Errorf ''could not find file descriptor'' [])"
| "find_file lib (p # ps) deps outputType =
     (case dl_Create lib p deps of
        Inl e \<Rightarrow> Inl (Wrapf ''creating file descriptor: %w'' [] e)
      | Inr fd \<Rightarrow> if outputType \<in> set (dl_Messages lib fd) then Inr fd else find_file lib ps deps outputType)"

definition FileDescriptorForOutputType :: "'d DescLib \<Rightarrow> Package \<Rightarrow> 'd gomap \<Rightarrow> string \<Rightarrow> 'd res" where
  "FileDescriptorForOutputType lib spkg deps outputType = find_file lib (pk_ProtoFiles spkg) (map snd deps) outputType"

section \<open>Services\<close>

definition typeUrlPrefix :: string where "typeUrlPrefix = ''type.googleapis.com/''"

definition deprecated_supportedDeployableService :: string where
  "deprecated_supportedDeployableService = ''sf.substreams.sink.sql.v1.Service''"

definition supportedDeployableService :: string where
  "supportedDeployableService = ''sf.substreams.sink.sql.service.v1.Service''"

text \<open>The service of a sink: its schema, the front ends it asks for, and its dbt configuration, if enabled\<close>

record Service =
  sv_Schema :: string
  sv_HasuraFrontend :: bool
  sv_PostgraphileFrontend :: bool
  sv_RestFrontend :: bool
  sv_DbtEnabled :: "bool option"

definition ExtractSinkService :: "(string \<Rightarrow> Service res) \<Rightarrow> Package \<Rightarrow> Service res" where
  "ExtractSinkService Unmarshal pkg =
     (case pk_SinkConfig pkg of
        None \<Rightarrow> Inl (Errorf ''no sink config found in spkg'' [])
      | Some (typeUrl, v) \<Rightarrow>
          if trimPrefix typeUrlPrefix typeUrl \<in> {deprecated_supportedDeployableService, supportedDeployableService}
          then wrap_err ''failed to proto unmarshal: %w'' [] (Unmarshal v)
          else Inl (Errorf ''invalid config type %q, supported configs are %q''
                 [AStr typeUrl, AStr (joinS '', '' [deprecated_supportedDeployableService])]))"

text \<open>Whether the loop that runs dbt is started\<close>

definition services_Run :: "Service \<Rightarrow> bool Ret" where
  "services_Run service =
     (if sv_HasuraFrontend service \<or> sv_PostgraphileFrontend service \<or> sv_RestFrontend service then Panics
      else Returns (sv_DbtEnabled service = Some True))"

text \<open>What the commands for messages read from a package: the type of the module's output, its file, and whether
  the file imports the options of tables.\<close>

definition options_file :: string where "options_file = ''sf/substreams/sink/sql/schema/v1/schema.proto''"

definition package_descriptor ::
    "'d DescLib \<Rightarrow> (string \<Rightarrow> Service res) \<Rightarrow> Package \<Rightarrow> string \<Rightarrow> (string \<times> 'd \<times> bool) Ret option" where
  "package_descriptor lib Unmarshal spkg moduleName =
     (case ModuleOutputType spkg moduleName of
        Panics \<Rightarrow> Some Panics
      | Fails e \<Rightarrow> Some (Fails e)
      | Returns outputType \<Rightarrow>
          if outputType = [] then Some (Fails (Errorf ''could not find output type for module %s'' [AStr moduleName]))
          else if services_Run (case ExtractSinkService Unmarshal spkg of
                 Inr service \<Rightarrow> service
               | Inl _ \<Rightarrow> \<lparr>sv_Schema = [], sv_HasuraFrontend = False, sv_PostgraphileFrontend = False,
                           sv_RestFrontend = False, sv_DbtEnabled = None\<rparr>) = Panics then Some Panics
          else Option.bind (ResolveDependencies lib (fold (\<lambda>p m. AList.update (fp_Name p) p m) (pk_ProtoFiles spkg) []))
            (\<lambda>r. Some (case r of
                   Inl e \<Rightarrow> Fails (Wrapf ''resolving dependencies: %w'' [] e)
                 | Inr deps \<Rightarrow>
                     (case FileDescriptorForOutputType lib spkg deps outputType of
                        Inl e \<Rightarrow> Fails (Wrapf ''finding file descriptor for output type %q: %w'' [AStr outputType] e)
                      | Inr fd \<Rightarrow> Returns (outputType, fd, options_file \<in> set (dl_Dependencies lib fd))))))"

end
