(* ===== verification/DescriptorProperties.thy ===== *)
theory DescriptorProperties
  imports Descriptors
begin

text \<open>
  The resolution of the imports of a package: it ends with a descriptor for every file, each built after those it
  imports, exactly when the imports are all there and have no cycle.
\<close>

section \<open>Imports\<close>

definition names :: "'a gomap \<Rightarrow> string set" where
  "names m = fst ` set m"

lemma names_simps:
  "names [] = {}" "names (AList.update n x m) = insert n (names m)" "map_of m n = None \<longleftrightarrow> n \<notin> names m"
  "set (map fst m) = names m"
  by (induction m) (auto simp: names_def)

lemma map_of_names: "map_of m n = Some x \<Longrightarrow> n \<in> names m"
  using names_simps(3) [of m n] by auto

text \<open>The files under their names\<close>

definition keyed :: "FileProto gomap \<Rightarrow> bool" where
  "keyed files \<longleftrightarrow> distinct (map fst files) \<and> (\<forall>(n, p) \<in> set files. fp_Name p = n)"

definition imports_of :: "FileProto gomap \<Rightarrow> (string \<times> string) set" where
  "imports_of files = {(d, n). \<exists>p. map_of files n = Some p \<and> d \<in> set (fp_Dependency p)}"

definition closed_imports :: "FileProto gomap \<Rightarrow> bool" where
  "closed_imports files \<longleftrightarrow> (\<forall>(n, p) \<in> set files. set (fp_Dependency p) \<subseteq> names files)"

text \<open>What the library documents: a descriptor has the name of its file and needs those of its imports, and a valid
  file asks for nothing more.\<close>

definition builds :: "'d DescLib \<Rightarrow> FileProto gomap \<Rightarrow> bool" where
  "builds lib files \<longleftrightarrow>
     (\<forall>(n, p) \<in> set files. \<forall>ds. is_ok (dl_Create lib p ds) \<longleftrightarrow> set (fp_Dependency p) \<subseteq> dl_Name lib ` set ds)
   \<and> (\<forall>p ds d. dl_Create lib p ds = Inr d \<longrightarrow> dl_Name lib d = fp_Name p)"

text \<open>Every name comes after its imports.\<close>

definition in_order :: "FileProto gomap \<Rightarrow> string list \<Rightarrow> bool" where
  "in_order files ns \<longleftrightarrow>
     (\<forall>i < length ns. \<forall>p. map_of files (ns ! i) = Some p \<longrightarrow> set (fp_Dependency p) \<subseteq> set (take i ns))"

definition resolved :: "'d DescLib \<Rightarrow> FileProto gomap \<Rightarrow> 'd gomap \<Rightarrow> bool" where
  "resolved lib files deps \<longleftrightarrow>
     distinct (map fst deps) \<and> in_order files (map fst deps)
     \<and> (\<forall>(n, d) \<in> set deps. dl_Name lib d = n \<and> n \<in> names files)"

lemma in_order_snoc:
  "in_order files (ns @ [n]) \<longleftrightarrow> in_order files ns \<and> (\<forall>p. map_of files n = Some p \<longrightarrow> set (fp_Dependency p) \<subseteq> set ns)"
proof -
  have "(ns @ [n]) ! i = ns ! i \<and> take i (ns @ [n]) = take i ns" if "i < length ns" for i
    using that by (simp add: nth_append)
  then show ?thesis by (force simp: in_order_def less_Suc_eq)
qed

lemma resolved_Nil: "resolved lib files []"
  by (simp add: resolved_def in_order_def)

lemma keyed_name: "keyed files \<Longrightarrow> map_of files n = Some p \<Longrightarrow> fp_Name p = n"
  by (auto simp: keyed_def dest!: map_of_SomeD)

lemma update_keys: "map fst (AList.update n d m) = (if n \<in> names m then map fst m else map fst m @ [n])"
  by (induction m) (auto simp: names_def)

lemma update_values: "set (AList.update n d m) \<subseteq> insert (n, d) (set m)"
  by (induction m) auto

lemma resolved_update:
  assumes "keyed files" "map_of files n = Some p" "resolved lib files deps" "set (fp_Dependency p) \<subseteq> names deps" "dl_Name lib d = n"
  shows "resolved lib files (AList.update n d deps)"
proof -
  have "in_order files (map fst deps @ [n])"
    using assms(2-4) unfolding in_order_snoc names_simps(4) by (simp add: resolved_def)
  moreover have "\<forall>(m, x) \<in> set (AList.update n d deps). dl_Name lib x = m \<and> m \<in> names files"
    using assms(3,5) map_of_names [OF assms(2)] update_values [of n d deps] unfolding resolved_def by fast
  ultimately show ?thesis
    using assms(3) names_simps(4) [of deps] by (auto simp: resolved_def update_keys)
qed

section \<open>What a resolution gives\<close>

lemma resolve_names_resolved:
  "resolve_names lib files ns deps = Some r \<Longrightarrow> r = Inr deps' \<Longrightarrow> keyed files \<Longrightarrow> builds lib files \<Longrightarrow> resolved lib files deps \<Longrightarrow>
    resolved lib files deps' \<and> set ns \<union> names deps \<subseteq> names deps'"
proof (induction lib files ns deps r arbitrary: deps' rule: resolve_names.raw_induct [rotated, consumes 1, case_names step])
  case (step w lib files ns deps r)
  show ?case
  proof (cases ns)
    case Nil
    with step.hyps step.prems show ?thesis by simp
  next
    case (Cons n rest)
    with step.hyps step.prems(1) obtain p where p: "map_of files n = Some p" by (auto split: option.splits)
    note name = keyed_name [OF step.prems(2) p]
    show ?thesis
    proof (cases "map_of deps n")
      case None
      with step.hyps step.prems(1) Cons p name obtain deps1 d where
        a: "w lib files (fp_Dependency p) deps = Some (Inr deps1)" and d: "dl_Create lib p (map snd deps1) = Inr d"
        and b: "w lib files rest (AList.update n d deps1) = Some (Inr deps')"
        by (auto split: bind_splits sum.splits)
      from step.IH [OF a refl step.prems(2-4)]
      have 1: "resolved lib files deps1" "set (fp_Dependency p) \<union> names deps \<subseteq> names deps1" by simp_all
      have "dl_Name lib d = n" using d step.prems(3) name by (auto simp: builds_def)
      from resolved_update [OF step.prems(2) p 1(1) _ this] 1(2)
      have 2: "resolved lib files (AList.update n d deps1)" by simp
      from step.IH [OF b refl step.prems(2,3) 2] 1(2) show ?thesis using Cons unfolding names_simps(2) by auto
    next
      case (Some d)
      with step.hyps step.prems(1) Cons p name have b: "w lib files rest deps = Some (Inr deps')" by simp
      have "n \<in> names deps" by (rule map_of_names [OF Some])
      with step.IH [OF b refl step.prems(2-4)] show ?thesis using Cons by auto
    qed
  qed
qed

text \<open>Without a cycle it ends, and when all imports are there it succeeds.\<close>

definition resolves :: "'d DescLib \<Rightarrow> FileProto gomap \<Rightarrow> string list \<Rightarrow> 'd gomap \<Rightarrow> bool" where
  "resolves lib files ns deps \<longleftrightarrow>
     (\<exists>r. resolve_names lib files ns deps = Some r
        \<and> (closed_imports files \<and> resolved lib files deps \<and> set ns \<subseteq> names files \<longrightarrow> is_ok r))"

lemma is_ok_iff: "is_ok r \<longleftrightarrow> (\<exists>x. r = Inr x)"
  by (cases r) auto

lemma file_created:
  assumes "builds lib files" "map_of files n = Some p" "resolved lib files deps" "set (fp_Dependency p) \<subseteq> names deps"
  shows "\<exists>d. dl_Create lib p (map snd deps) = Inr d"
proof -
  have "names deps \<subseteq> dl_Name lib ` set (map snd deps)" using assms(3) by (force simp: resolved_def names_def)
  with assms show ?thesis by (auto simp: builds_def is_ok_iff dest!: map_of_SomeD)
qed

lemma resolve_names_ends:
  assumes "keyed files" "builds lib files"
    and "\<And>n p ds. n \<in> set ns \<Longrightarrow> map_of files n = Some p \<Longrightarrow> resolves lib files (fp_Dependency p) ds"
  shows "resolves lib files ns deps"
  using assms(3)
proof (induction ns arbitrary: deps)
  case Nil
  then show ?case by (simp add: resolves_def resolve_names.simps)
next
  case (Cons n rest deps)
  show ?case
  proof (cases "map_of files n")
    case None
    then show ?thesis by (simp add: resolves_def resolve_names.simps [of lib files "n # rest"] flip: names_simps(3))
  next
    case (Some p)
    note name = keyed_name [OF assms(1) Some]
    have rest: "resolves lib files rest ds" for ds by (rule Cons.IH [OF Cons.prems]) auto
    show ?thesis
    proof (cases "map_of deps n")
      case (Some d)
      with \<open>map_of files n = Some p\<close> name rest [of deps] show ?thesis
        by (auto simp: resolves_def resolve_names.simps [of lib files "n # rest"])
    next
      case None
      from Cons.prems [OF _ Some, of deps] obtain r where r: "resolve_names lib files (fp_Dependency p) deps = Some r"
        "closed_imports files \<and> resolved lib files deps \<longrightarrow> is_ok r"
        using Some by (fastforce simp: resolves_def closed_imports_def dest: map_of_SomeD)
      show ?thesis
      proof (cases r)
        case (Inl e)
        with r None Some name show ?thesis by (auto simp: resolves_def resolve_names.simps [of lib files "n # rest"])
      next
        case (Inr deps1)
        have ok: "resolved lib files deps1 \<and> set (fp_Dependency p) \<subseteq> names deps1" if "resolved lib files deps"
          using resolve_names_resolved [OF r(1) Inr assms(1,2) that] by auto
        show ?thesis
        proof (cases "dl_Create lib p (map snd deps1)")
          case (Inl e)
          with ok file_created [OF assms(2) Some] have "\<not> resolved lib files deps" by fastforce
          with r(1) Inr Inl None Some name show ?thesis by (simp add: resolves_def resolve_names.simps [of lib files "n # rest"])
        next
          case (Inr d)
          have "dl_Name lib d = n" using Inr assms(2) name by (auto simp: builds_def)
          with resolved_update [OF assms(1) Some _ _ this] ok
          have "resolved lib files deps \<Longrightarrow> resolved lib files (AList.update n d deps1)" by blast
          with rest [of "AList.update n d deps1"] r(1) \<open>r = Inr deps1\<close> Inr None Some name show ?thesis
            by (auto simp: resolves_def resolve_names.simps [of lib files "n # rest"])
        qed
      qed
    qed
  qed
qed

lemma finite_imports: "finite (imports_of files)"
proof -
  have "imports_of files \<subseteq> (\<Union>(n, p) \<in> set files. (\<lambda>d. (d, n)) ` set (fp_Dependency p))"
    by (force simp: imports_of_def dest: map_of_SomeD)
  then show ?thesis by (rule finite_subset) auto
qed

lemma resolves_all:
  assumes "keyed files" "builds lib files" "acyclic (imports_of files)"
  shows "resolves lib files ns deps"
proof -
  have "wf (imports_of files)" by (rule finite_acyclic_wf [OF finite_imports assms(3)])
  then have "\<forall>p deps. map_of files n = Some p \<longrightarrow> resolves lib files (fp_Dependency p) deps" for n
  proof (induction n rule: wf_induct_rule)
    case (less n)
    show ?case
    proof (intro allI impI)
      fix p deps
      assume p: "map_of files n = Some p"
      show "resolves lib files (fp_Dependency p) deps"
      proof (rule resolve_names_ends [OF assms(1,2)])
        fix d q ds
        assume d: "d \<in> set (fp_Dependency p)" "map_of files d = Some q"
        with p have "(d, n) \<in> imports_of files" unfolding imports_of_def by blast
        from less [OF this] d(2) show "resolves lib files (fp_Dependency q) ds" by blast
      qed
    qed
  qed
  then show ?thesis using resolve_names_ends [OF assms(1,2)] by simp
qed

lemma in_order_acyclic:
  assumes "distinct ns" "in_order files ns" "set ns = names files"
  shows "acyclic (imports_of files)"
proof -
  let ?f = "\<lambda>n. length (takeWhile (\<lambda>m. m \<noteq> n) ns)"
  have at: "?f (ns ! i) = i" if "i < length ns" for i
  proof -
    have "takeWhile (\<lambda>m. m \<noteq> ns ! i) ns = take i ns"
      by (rule takeWhile_eq_take_P_nth) (use that assms(1) in \<open>auto simp: nth_eq_iff_index_eq\<close>)
    then show ?thesis using that by simp
  qed
  have "?f d < ?f n" if "(d, n) \<in> imports_of files" for d n
  proof -
    from that obtain p where p: "map_of files n = Some p" "d \<in> set (fp_Dependency p)" by (auto simp: imports_of_def)
    then have "n \<in> set ns" using assms(3) by (auto intro: map_of_names)
    then obtain i where i: "i < length ns" "ns ! i = n" by (auto simp: in_set_conv_nth)
    with p assms(2) have "d \<in> set (take i ns)" by (auto simp: in_order_def)
    then obtain j where "j < i" "j < length ns" "ns ! j = d" by (auto simp: in_set_conv_nth)
    with at i show ?thesis by auto
  qed
  then have "imports_of files \<subseteq> measure ?f" by auto
  then show ?thesis by (rule acyclic_subset [OF wf_acyclic [OF wf_measure]])
qed

text \<open>Resolving the files one after the other is resolving their names.\<close>

lemma resolve_files_names:
  assumes "keyed files" "\<forall>p \<in> set ps. map_of files (fp_Name p) = Some p"
  shows "resolve_files lib files ps deps = resolve_names lib files (map fp_Name ps) deps"
  using assms(2)
proof (induction ps arbitrary: deps)
  case Nil
  then show ?case by (simp add: resolve_names.simps)
next
  case (Cons p ps)
  show ?case
  proof (cases "map_of deps (fp_Name p)")
    case None
    with Cons show ?thesis
      by (cases "resolve_names lib files (fp_Dependency p) deps")
        (auto simp: resolveDependencies_def resolve_names.simps [of lib files "fp_Name p # map fp_Name ps"] split: sum.split)
  next
    case (Some d)
    with Cons show ?thesis
      by (simp add: resolveDependencies_def resolve_names.simps [of lib files "fp_Name p # map fp_Name ps"])
  qed
qed

lemma ResolveDependencies_names:
  assumes "keyed files"
  shows "ResolveDependencies lib files = resolve_names lib files (map fst files) []"
proof -
  have "map_of files n = Some p \<and> fp_Name p = n" if "(n, p) \<in> set files" for n p
    using that assms by (auto simp: keyed_def)
  then have "\<forall>p \<in> set (map snd files). map_of files (fp_Name p) = Some p" "map fp_Name (map snd files) = map fst files"
    by auto
  then show ?thesis using resolve_files_names [OF assms, of "map snd files" lib "[]"] unfolding ResolveDependencies_def by metis
qed

text \<open>
  C32. The descriptors of a package are resolved exactly when its imports are complete and have no cycle: for files under
  their names and a library that builds a descriptor when it is given those of the imports, the resolution returns
  a result if and only if every imported file is there and no file imports itself through others; without a cycle it ends in any
  case; and a result has one descriptor for every file, under its name, in an order in which each file comes after those it imports.
\<close>

theorem imports_resolve:
  assumes "keyed files" "builds lib files"
  shows "((\<exists>out. ResolveDependencies lib files = Some (Inr out)) \<longleftrightarrow> closed_imports files \<and> acyclic (imports_of files))
    \<and> (acyclic (imports_of files) \<longrightarrow> ResolveDependencies lib files \<noteq> None)
    \<and> (\<forall>out. ResolveDependencies lib files = Some (Inr out) \<longrightarrow>
         distinct (map fst out) \<and> names out = names files \<and> in_order files (map fst out) \<and> (\<forall>(n, d) \<in> set out. dl_Name lib d = n))"
proof -
  let ?r = "ResolveDependencies lib files"
  note names = ResolveDependencies_names [OF assms(1), of lib]
  have result: "resolved lib files out \<and> names out = names files" if "?r = Some (Inr out)" for out
    using resolve_names_resolved [OF that [unfolded names] refl assms resolved_Nil]
    by (auto simp: resolved_def names_simps names_def)
  have ends: "\<exists>r. ?r = Some r \<and> (closed_imports files \<longrightarrow> is_ok r)" if "acyclic (imports_of files)"
    using resolves_all [OF assms that, of "map fst files" "[]"] resolved_Nil [of lib files]
    unfolding resolves_def names names_simps(4) by blast
  have "closed_imports files \<and> acyclic (imports_of files)" if out: "?r = Some (Inr out)" for out
  proof -
    from result [OF out] have r: "distinct (map fst out)" "in_order files (map fst out)" "set (map fst out) = names files"
      by (simp_all add: resolved_def names_def)
    have "set (fp_Dependency p) \<subseteq> names files" if "(n, p) \<in> set files" for n p
    proof -
      have p: "map_of files n = Some p" using that assms(1) by (simp add: keyed_def)
      then obtain i where i: "i < length (map fst out)" "map fst out ! i = n"
        using r(3) map_of_names [OF p] by (metis in_set_conv_nth)
      with r(2) p have "set (fp_Dependency p) \<subseteq> set (take i (map fst out))" by (simp add: in_order_def)
      then show ?thesis using set_take_subset [of i "map fst out"] r(3) by blast
    qed
    then show ?thesis using in_order_acyclic [OF r] by (auto simp: closed_imports_def)
  qed
  then show ?thesis using ends result by (auto simp: is_ok_iff resolved_def)
qed

text \<open>Three files, listed before the ones they import\<close>

definition ex_lib :: "(string \<times> string list) DescLib" where
  "ex_lib = \<lparr>dl_Create = \<lambda>p ds. if set (fp_Dependency p) \<subseteq> fst ` set ds then Inr (fp_Name p, fp_Dependency p)
                               else Inl (Errorf ''missing import'' []),
     dl_Name = fst, dl_Messages = \<lambda>d. [], dl_Dependencies = snd\<rparr>"

definition ex_files :: "FileProto gomap" where
  "ex_files = map (\<lambda>(n, ds). (n, \<lparr>fp_Name = n, fp_Dependency = ds, fp_Content = []\<rparr>))
     [(''a'', [''b'', ''c'']), (''b'', [''c'']), (''c'', [])]"

theorem imports_resolve_witness:
  "\<exists>out. ResolveDependencies ex_lib ex_files = Some (Inr out) \<and> distinct (map fst out) \<and> names out = {''a'', ''b'', ''c''}"
proof -
  have k: "keyed ex_files" "closed_imports ex_files" "names ex_files = {''a'', ''b'', ''c''}"
    by (auto simp: keyed_def ex_files_def closed_imports_def names_def)
  have "builds ex_lib ex_files" unfolding builds_def ex_lib_def by (auto split: if_splits)
  note c = imports_resolve [OF k(1) this]
  have "in_order ex_files [''c'', ''b'', ''a'']"
    unfolding in_order_def by (simp add: ex_files_def less_Suc_eq)
  then have "acyclic (imports_of ex_files)" by (intro in_order_acyclic) (auto simp: k(3))
  with c k(2) obtain out where "ResolveDependencies ex_lib ex_files = Some (Inr out)" by blast
  with c k(3) show ?thesis by metis
qed

end
