(* ===== verification/Commands.thy ===== *)
theory Commands
  imports Sinker Setup Csv InjectCsv ProtoCsv Descriptors
begin

text \<open>
  The commands (\<open>src/cmd/substreams-sink-sql\<close>) and the functions that build a sink of database changes from its options
  (\<open>src/db_changes/sinker/factory.go\<close>, \<open>setup.go\<close>): each reads its flags, parses the connection string, builds the
  loader and calls the operations of the other theories. Flags, the environment, manifests, the drivers and the client are
  parameters. Printed lines are given where they tell what was done.
\<close>

section \<open>How a command ends\<close>

text \<open>It returns, it quits the process with a message, or it panics.\<close>

datatype CmdEnd = Returned "GoErr option" | Quit string | Crashed

text \<open>The text flags that commands declare (\<open>common_flags.go\<close>, \<open>tools.go\<close>, \<open>main.go\<close>), each with its default, those of
  the commands above them included. (Flags that the client library adds to \<open>generate-csv\<close> are left out: none of them is read
  here.)\<close>

definition root_flags :: "string gomap" where
  "root_flags = [(''metrics-listen-addr'', ''localhost:9102''), (''pprof-listen-addr'', ''localhost:6060'')]"

definition AddCommonSinkerFlags :: "string gomap" where
  "AddCommonSinkerFlags = [(''on-module-hash-mistmatch'', ''error'')]"

definition AddCommonDatabaseChangesFlags :: "string gomap" where
  "AddCommonDatabaseChangesFlags = [(''cursors-table'', ''cursors''), (''history-table'', ''substreams_history''), (''clickhouse-cluster'', [])]"

definition tools_cursor_flags :: "string gomap" where
  "tools_cursor_flags = [(''cursors-table'', ''cursors''), (''history-table'', ''substreams_history''), (''clickhouse-cluster'', []),
     (''dsn'', [])] @ root_flags"

definition database_flags :: "string gomap" where
  "database_flags = AddCommonDatabaseChangesFlags @ root_flags"

definition generate_csv_flags :: "string gomap" where
  "generate_csv_flags = AddCommonSinkerFlags @ AddCommonDatabaseChangesFlags @ root_flags"

text \<open>What a command is given. \<open>sflags.MustGetString\<close>, called with the flags that the command declares and the name of one,
  gives the value that the flag has, or panics (\<open>None\<close>).\<close>

record 's CmdEnv =
  ce_MustGetString :: "string gomap \<Rightarrow> string \<Rightarrow> string option"
  ce_envsubst :: "string \<Rightarrow> string res"
  ce_url_Parse :: "string \<Rightarrow> URL res"
  ce_sql_Open :: "string \<Rightarrow> string \<Rightarrow> string res"
  ce_reads :: SchemaReads
  ce_db :: "'s Db"
  ce_iface :: "Dialect \<Rightarrow> 's DialectI"
  ce_newCursor :: "string \<Rightarrow> Cursor res"
  ce_blockString :: "Cursor \<Rightarrow> string"

text \<open>\<open>errors.As\<close> for an error about the system tables\<close>

fun as_system_error :: "GoErr \<Rightarrow> GoErr option" where
  "as_system_error (SystemTableError e) = Some (SystemTableError e)"
| "as_system_error (Wrapf f as e) = as_system_error e"
| "as_system_error _ = None"

section \<open>Construction of the sink of database changes\<close>

record ChangesOptions =
  fo_CursorTableName :: string
  fo_HistoryTableName :: string
  fo_ClickhouseCluster :: string
  fo_BatchBlockFlushInterval :: int
  fo_BatchRowFlushInterval :: int
  fo_LiveBlockFlushInterval :: int
  fo_OnModuleHashMismatch :: string
  fo_HandleReorgs :: bool
  fo_FlushRetryCount :: int
  fo_FlushRetryDelay :: int

definition changes_SinkerFactory :: "'s CmdEnv \<Rightarrow> ChangesOptions \<Rightarrow> string \<Rightarrow> Sinker res" where
  "changes_SinkerFactory env opts dsnString =
     (case ParseDSN (ce_envsubst env) (ce_url_Parse env) dsnString of
        Inl e \<Rightarrow> Inl (Wrapf ''parsing dsn: %w'' [] e)
      | Inr dsn \<Rightarrow>
          (case NewLoader (ce_sql_Open env) dsn (fo_CursorTableName opts) (fo_HistoryTableName opts) (fo_ClickhouseCluster opts)
                  (fo_BatchBlockFlushInterval opts) (fo_BatchRowFlushInterval opts) (fo_LiveBlockFlushInterval opts)
                  (fo_OnModuleHashMismatch opts) (Some (fo_HandleReorgs opts)) of
             Inl e \<Rightarrow> Inl (Wrapf ''creating loader: %w'' [] e)
           | Inr l \<Rightarrow>
               (case LoadTables (ce_reads env) (dsn_schema (ldsn l)) (fo_CursorTableName opts) (fo_HistoryTableName opts) l of
                  (Some e, l') \<Rightarrow>
                    (case as_system_error e of
                       Some se \<Rightarrow> Inl (Wrapf ''error validating the system table: %w. Did you run setup?'' [] se)
                     | None \<Rightarrow> Inl (Wrapf ''load psql table: %w'' [] e))
                | (None, l') \<Rightarrow> Inr (NewSinker l' (fo_FlushRetryCount opts) (fo_FlushRetryDelay opts)))))"

text \<open>The options of \<open>run\<close>: numbers and durations are read as such.\<close>

record RunFlags =
  rf_batchBlock :: int
  rf_flushInterval :: int
  rf_batchRow :: int
  rf_liveBlock :: int
  rf_retryCount :: int
  rf_retryDelay :: int
  rf_undoBufferSize :: int
  rf_cursorsTable :: string
  rf_historyTable :: string
  rf_cluster :: string
  rf_onMismatch :: string

definition run_options :: "RunFlags \<Rightarrow> ChangesOptions" where
  "run_options f =
     \<lparr>fo_CursorTableName = rf_cursorsTable f, fo_HistoryTableName = rf_historyTable f, fo_ClickhouseCluster = rf_cluster f,
      fo_BatchBlockFlushInterval = (if rf_flushInterval f \<noteq> 0 then rf_flushInterval f else rf_batchBlock f),
      fo_BatchRowFlushInterval = rf_batchRow f, fo_LiveBlockFlushInterval = rf_liveBlock f,
      fo_OnModuleHashMismatch = rf_onMismatch f, fo_HandleReorgs = (rf_undoBufferSize f = 0),
      fo_FlushRetryCount = rf_retryCount f, fo_FlushRetryDelay = rf_retryDelay f\<rparr>"

section \<open>Setup\<close>

record SetupOptions =
  so_CursorTableName :: string
  so_HistoryTableName :: string
  so_ClickhouseCluster :: string
  so_OnModuleHashMismatch :: string
  so_SystemTablesOnly :: bool
  so_IgnoreDuplicateTableErrors :: bool
  so_Postgraphile :: bool

text \<open>The code of an error of PostgreSQL, if the error is or wraps one, is a parameter.\<close>

definition isDuplicateTableError :: "(GoErr \<Rightarrow> string option) \<Rightarrow> GoErr \<Rightarrow> bool" where
  "isDuplicateTableError pqCode e = (pqCode e = Some ''42P07'')"

definition SinkerSetup ::
    "'s CmdEnv \<Rightarrow> (string \<Rightarrow> Service res) \<Rightarrow> (Dialect \<Rightarrow> 's SetupI) \<Rightarrow> (GoErr \<Rightarrow> string option) \<Rightarrow> string \<Rightarrow> Package
     \<Rightarrow> SetupOptions \<Rightarrow> 's \<Rightarrow> Outcome \<times> 's" where
  "SinkerSetup env Unmarshal iface pqCode dsnString pkg opts s =
     (case ExtractSinkService Unmarshal pkg of
        Inl e \<Rightarrow> (Fail (Wrapf ''extract sink config: %w'' [] e), s)
      | Inr sinkConfig \<Rightarrow>
          (case ParseDSN (ce_envsubst env) (ce_url_Parse env) dsnString of
             Inl e \<Rightarrow> (Fail (Wrapf ''parse dsn: %w'' [] e), s)
           | Inr dsn \<Rightarrow>
               (case NewLoader (ce_sql_Open env) dsn (so_CursorTableName opts) (so_HistoryTableName opts) (so_ClickhouseCluster opts)
                       0 0 0 (so_OnModuleHashMismatch opts) (Some False) of
                  Inl e \<Rightarrow> (Fail (Wrapf ''creating loader: %w'' [] e), s)
                | Inr l \<Rightarrow>
                    (case Loader_Setup (iface (dialect l)) (db_Exec (ce_db env)) (dsn_schema (ldsn l))
                            (if so_SystemTablesOnly opts then [] else sv_Schema sinkConfig) (so_Postgraphile opts) s of
                       (Fail e, s') \<Rightarrow>
                         if isDuplicateTableError pqCode e \<and> so_IgnoreDuplicateTableErrors opts then (Done, s')
                         else (Fail (Wrapf ''setup: %w'' [] e), s')
                     | r \<Rightarrow> r))))"

definition sinkSetupE ::
    "'s CmdEnv \<Rightarrow> (string \<Rightarrow> GoErr option) \<Rightarrow> (string \<Rightarrow> Package res) \<Rightarrow> (string \<Rightarrow> Service res)
     \<Rightarrow> (Dialect \<Rightarrow> 's SetupI) \<Rightarrow> (GoErr \<Rightarrow> string option) \<Rightarrow> string \<Rightarrow> string \<Rightarrow> SetupOptions \<Rightarrow> 's \<Rightarrow> Outcome \<times> 's" where
  "sinkSetupE env NewReader Read Unmarshal iface pqCode dsnString manifestPath opts s =
     (case NewReader manifestPath of
        Some e \<Rightarrow> (Fail (Wrapf ''setup manifest reader: %w'' [] e), s)
      | None \<Rightarrow> (case Read manifestPath of
        Inl e \<Rightarrow> (Fail (Wrapf ''read manifest: %w'' [] e), s)
      | Inr pkg \<Rightarrow> SinkerSetup env Unmarshal iface pqCode dsnString pkg opts s))"

section \<open>Users\<close>

text \<open>At most so many attempts, until one succeeds; the sleeps between them only take time. Without any the error is
  nil.\<close>

fun retry_loop :: "('s \<Rightarrow> Outcome \<times> 's) \<Rightarrow> nat \<Rightarrow> Outcome \<Rightarrow> 's \<Rightarrow> Outcome \<times> 's" where
  "retry_loop f 0 err s = (err, s)"
| "retry_loop f (Suc n) err s =
     (case f s of
        (Done, s') \<Rightarrow> (Done, s')
      | (Panicked, s') \<Rightarrow> (Panicked, s')
      | (Fail e, s') \<Rightarrow> retry_loop f n (Fail e) s')"

definition retry :: "('s \<Rightarrow> Outcome \<times> 's) \<Rightarrow> int \<Rightarrow> 's \<Rightarrow> Outcome \<times> 's" where
  "retry f retries s = retry_loop f (nat retries) Done s"

text \<open>The error of \<open>NewLoader\<close> is overwritten: a loader that could not be built is nil and its method panics.\<close>

definition create_user_once ::
    "'s CmdEnv \<Rightarrow> DSN \<Rightarrow> string \<Rightarrow> string \<Rightarrow> string \<Rightarrow> string \<Rightarrow> string \<Rightarrow> string \<Rightarrow> bool \<Rightarrow> 's \<Rightarrow> Outcome \<times> 's" where
  "create_user_once env dsn cursorTab historyTab clust username password database readOnly s =
     (case NewLoader (ce_sql_Open env) dsn cursorTab historyTab clust 0 0 0
             (OnModuleHashMismatch_String OnModuleHashMismatchError) (Some False) of
        Inl e \<Rightarrow> (Panicked, s)
      | Inr l \<Rightarrow>
          (case Loader_CreateUser (ce_db env) None (ce_iface env (dialect l)) l username password database readOnly s of
             (Some e, l', s') \<Rightarrow> (Fail (Wrapf ''create user: %w'' [] e), s')
           | (None, l', s') \<Rightarrow> (Done, s')))"

definition createUserE ::
    "'s CmdEnv \<Rightarrow> (string \<Rightarrow> string) \<Rightarrow> string \<Rightarrow> string \<Rightarrow> string \<Rightarrow> bool \<Rightarrow> string \<Rightarrow> int \<Rightarrow> 's \<Rightarrow> CmdEnd \<times> 's" where
  "createUserE env Getenv dsnString username database readOnly passwordEnv retries s =
     (case (ce_MustGetString env database_flags ''cursors-table'', ce_MustGetString env database_flags ''history-table'') of
        (Some cursorTab, Some historyTab) \<Rightarrow>
          if passwordEnv = [] then (Returned (Some (Errorf ''password-env is required'' [])), s)
          else let password = Getenv passwordEnv in
          if password = [] then (Returned (Some (Errorf ''non-empty password is required'' [])), s)
          else (case ParseDSN (ce_envsubst env) (ce_url_Parse env) dsnString of
             Inl e \<Rightarrow> (Returned (Some (Wrapf ''parsing dsn: %w'' [] e)), s)
           | Inr dsn \<Rightarrow>
               (case retry (\<lambda>s. case ce_MustGetString env database_flags ''clickhouse-cluster'' of
                          None \<Rightarrow> (Panicked, s)
                        | Some clust \<Rightarrow> create_user_once env dsn cursorTab historyTab clust username password database readOnly s)
                       retries s of
                  (Done, s') \<Rightarrow> (Returned None, s')
                | (Fail e, s') \<Rightarrow> (Returned (Some (Wrapf ''create user: %w'' [] e)), s')
                | (Panicked, s') \<Rightarrow> (Crashed, s')))
      | _ \<Rightarrow> (Crashed, s))"

section \<open>Tools for cursors\<close>

definition toolsCreateLoader :: "'s CmdEnv \<Rightarrow> string \<Rightarrow> CmdEnd + Loader" where
  "toolsCreateLoader env dsnString =
     (case (ce_MustGetString env tools_cursor_flags ''cursors-table'', ce_MustGetString env tools_cursor_flags ''history-table'') of
        (Some cursorTab, Some historyTab) \<Rightarrow>
          (case ParseDSN (ce_envsubst env) (ce_url_Parse env) dsnString of
             Inl e \<Rightarrow> Inl (Returned (Some (Wrapf ''parse dsn: %w'' [] e)))
           | Inr dsn \<Rightarrow>
               (case (ce_MustGetString env tools_cursor_flags ''clickhouse-cluster'', ce_MustGetString env tools_cursor_flags ''on-module-hash-mistmatch'') of
                  (Some clust, Some mismatch) \<Rightarrow>
                    (case NewLoader (ce_sql_Open env) dsn cursorTab historyTab clust 0 0 0 mismatch (Some False) of
                       Inl e \<Rightarrow> Inl (Returned (Some (Wrapf ''creating loader: %w'' [] e)))
                     | Inr l \<Rightarrow>
                         (case LoadTables (ce_reads env) (dsn_schema (ldsn l)) cursorTab historyTab l of
                            (Some e, l') \<Rightarrow>
                              Inl (Quit (if as_system_error e \<noteq> None then ''Did you run setup ?''
                                         else ''Unable to load table information from database''))
                          | (None, l') \<Rightarrow> Inr l'))
                | _ \<Rightarrow> Inl Crashed))
      | _ \<Rightarrow> Inl Crashed)"

definition cursorToShortString :: "Cursor \<Rightarrow> string" where
  "cursorToShortString c =
     (let s = c_string c in
      if length s > 12 then take 6 s @ ''...'' @ drop (length s - 6) s else s)"

text \<open>The lines that are printed, one for each cursor\<close>

definition toolsReadCursorE :: "'s CmdEnv \<Rightarrow> string \<Rightarrow> 's \<Rightarrow> (CmdEnd \<times> string list) \<times> 's" where
  "toolsReadCursorE env dsnString s =
     (case toolsCreateLoader env dsnString of
        Inl r \<Rightarrow> ((r, []), s)
      | Inr l \<Rightarrow>
          (case GetAllCursors (ce_db env) (ce_iface env (dialect l)) (ce_newCursor env) l s of
             (Inl e, s') \<Rightarrow> ((Quit ''Unable to get all cursors'', []), s')
           | (Inr out, s') \<Rightarrow>
               ((Returned None,
                 if out = [] then [''No cursor(s) present in the database'']
                 else map (\<lambda>(h, c). ''Module '' @ h @ '': Block '' @ ce_blockString env c @ '' ['' @ cursorToShortString c @ '']'') out), s')))"

text \<open>Without a transaction a statement is executed on the connection (\<open>runModifiyQuery\<close>). After a cursor is written
  its parts are printed, which is left out.\<close>

definition no_tx :: "'s Db \<Rightarrow> 's Tx" where
  "no_tx db = \<lparr>tx_Rollback = (\<lambda>s. (None, s)), tx_Commit = (\<lambda>s. (None, s)), tx_Exec = db_Exec db, tx_Query = db_Query db\<rparr>"

definition write_cursor :: "'s Db \<Rightarrow> 's DialectI \<Rightarrow> Loader \<Rightarrow> string \<Rightarrow> Cursor \<Rightarrow> 's \<Rightarrow> CmdEnd \<times> 's" where
  "write_cursor db di l moduleHash cursor s =
     (case UpdateCursor di l (no_tx db) moduleHash cursor s of
        (None, s') \<Rightarrow> (Returned None, s')
      | (Some e, s') \<Rightarrow>
          if errors_Is e ErrCursorNotFound
          then (case InsertCursor db l moduleHash cursor s' of
                  (Some _, s'') \<Rightarrow> (Quit ''Unable to insert cursor'', s'')
                | (None, s'') \<Rightarrow> (Returned None, s''))
          else (Quit ''Unable to update cursor'', s'))"

definition toolsWriteCursorE :: "'s CmdEnv \<Rightarrow> string \<Rightarrow> string list \<Rightarrow> 's \<Rightarrow> CmdEnd \<times> 's" where
  "toolsWriteCursorE env dsnString args s =
     (case toolsCreateLoader env dsnString of
        Inl r \<Rightarrow> (r, s)
      | Inr l \<Rightarrow>
          (case args of
             moduleHash # opaqueCursor # _ \<Rightarrow>
               if moduleHash = [] then (Quit ''The <module_hash> cannot be empty'', s)
               else if length moduleHash \<noteq> 40 then (Quit ''The <module_hash> must be exactly 40 characters long'', s)
               else (case ce_newCursor env opaqueCursor of
                       Inl e \<Rightarrow> (Quit ''The <cursor> is invalid'', s)
                     | Inr cursor \<Rightarrow> write_cursor (ce_db env) (ce_iface env (dialect l)) l moduleHash cursor s)
           | _ \<Rightarrow> (Crashed, s)))"

text \<open>The hash that is checked is a variable of an inner block: the one that is looked at afterwards is empty.\<close>

definition toolsDeleteCursorE :: "'s CmdEnv \<Rightarrow> string \<Rightarrow> bool \<Rightarrow> string list \<Rightarrow> 's \<Rightarrow> (CmdEnd \<times> string list) \<times> 's" where
  "toolsDeleteCursorE env dsnString deleteAll args s =
     (case toolsCreateLoader env dsnString of
        Inl r \<Rightarrow> ((r, []), s)
      | Inr l \<Rightarrow>
          (let moduleHash = [] in
           case (if deleteAll then None
                 else if length args \<noteq> 1
                 then Some ''Module hash is required, if you want to delete all cursors, use --all to avoid specifying a module's hash''
                 else let inner = hd args in
                   if inner = [] then Some ''The <module_hash> cannot be empty''
                   else if length inner \<noteq> 40 then Some ''The <module_hash> must be exactly 40 characters long'' else None) of
             Some msg \<Rightarrow> ((Quit msg, []), s)
           | None \<Rightarrow>
               if moduleHash = []
               then (case DeleteAllCursors (ce_db env) (ce_iface env (dialect l)) l s of
                       ((_, Some e), s') \<Rightarrow> ((Quit ''Unable to delete cursor'', []), s')
                     | ((n, None), s') \<Rightarrow> ((Returned None, [''Deleted '' @ decZ n @ '' cursor(s) successfully'']), s'))
               else (case DeleteCursor (ce_db env) (ce_iface env (dialect l)) l moduleHash s of
                       (Some e, s') \<Rightarrow>
                         if errors_Is e ErrCursorNotFound then ((Returned None, [''Cursor delete successfully'']), s')
                         else ((Quit ''Unable to delete cursor'', []), s')
                     | (None, s') \<Rightarrow> ((Returned None, [''Cursor delete successfully'']), s'))))"

section \<open>Injection\<close>

text \<open>A range without an end is dereferenced.\<close>

definition injectCSVE ::
    "'s CmdEnv \<Rightarrow> (string \<Rightarrow> (u64 \<times> u64 option) res) \<Rightarrow> (string \<Rightarrow> ObjReader res) \<Rightarrow> (string \<Rightarrow> ('c Pool) res)
     \<Rightarrow> string \<Rightarrow> string \<Rightarrow> string \<Rightarrow> string \<Rightarrow> 'c \<Rightarrow> CmdEnd \<times> 'c" where
  "injectCSVE env readBlockRange NewStore Connect psqlDSN inputPath tn rangeArg c =
     (case ce_MustGetString env database_flags ''cursors-table'' of
        None \<Rightarrow> (Crashed, c)
      | Some cursorTab \<Rightarrow>
          (case readBlockRange rangeArg of
             Inl e \<Rightarrow> (Returned (Some (Wrapf ''invalid block range %q: %w'' [AStr rangeArg] e)), c)
           | Inr (startBlock, endBlock) \<Rightarrow>
               (case ParseDSN (ce_envsubst env) (ce_url_Parse env) psqlDSN of
                  Inl e \<Rightarrow> (Returned (Some (Wrapf ''invalid sql DSN %q: %w'' [AStr psqlDSN] e)), c)
                | Inr dsn \<Rightarrow>
                    if driver dsn \<noteq> ''postgres''
                    then (Returned (Some (Errorf ''inject-csv only supports postgresql DSNs, got %q'' [AStr (driver dsn)])), c)
                    else (case NewStore inputPath of
                       Inl e \<Rightarrow> (Returned (Some (Wrapf ''unable to create input store: %w'' [] e)), c)
                     | Inr store \<Rightarrow>
                         (case Connect (fst (ConnString dsn)) of
                            Inl e \<Rightarrow> (Returned (Some (Wrapf ''connecting to database: %w'' [] e)), c)
                          | Inr pool \<Rightarrow>
                              (case endBlock of
                                 None \<Rightarrow> (Crashed, c)
                               | Some stop \<Rightarrow>
                                   (case filler_Run store pool (NewTableFiller (dsn_schema dsn) tn startBlock stop cursorTab) c of
                                      (Some e, c') \<Rightarrow> (Returned (Some (Wrapf ''table filler %q: %w'' [AStr tn] e)), c')
                                    | (None, c') \<Rightarrow> (Returned None, c'))))))))"

section \<open>Generation of CSV files\<close>

definition generateCsvE ::
    "'s CmdEnv \<Rightarrow> ((u64 \<times> u64 option) option) res \<Rightarrow> 'w WriterI \<Rightarrow> (string \<Rightarrow> 'w) \<Rightarrow> (string \<Rightarrow> GoErr option) \<Rightarrow> FileStateStore
     \<Rightarrow> u64 \<Rightarrow> string \<Rightarrow> (CmdEnd + 'w CsvSinker)" where
  "generateCsvE env newSink wi newWriter subStore ss bundleSiz dsnString =
     (case (ce_MustGetString env generate_csv_flags ''cursors-table'', ce_MustGetString env generate_csv_flags ''history-table'') of
        (Some cursorTab, Some historyTab) \<Rightarrow>
          (case newSink of
             Inl e \<Rightarrow> Inl (Returned (Some (Wrapf ''new base sinker: %w'' [] e)))
           | Inr blockRange \<Rightarrow>
               (case ParseDSN (ce_envsubst env) (ce_url_Parse env) dsnString of
                  Inl e \<Rightarrow> Inl (Returned (Some (Wrapf ''parse dsn: %w'' [] e)))
                | Inr dsn \<Rightarrow>
                    (case (ce_MustGetString env generate_csv_flags ''clickhouse-cluster'', ce_MustGetString env generate_csv_flags ''on-module-hash-mistmatch'') of
                       (Some clust, Some mismatch) \<Rightarrow>
                         (case NewLoader (ce_sql_Open env) dsn cursorTab historyTab clust 0 0 0 mismatch (Some False) of
                            Inl e \<Rightarrow> Inl (Returned (Some (Wrapf ''creating loader: %w'' [] e)))
                          | Inr l \<Rightarrow>
                              (case LoadTables (ce_reads env) (dsn_schema (ldsn l)) cursorTab historyTab l of
                                 (Some e, l') \<Rightarrow>
                                   Inl (Returned (Some (case as_system_error e of
                                      Some se \<Rightarrow> se | None \<Rightarrow> Wrapf ''load psql table: %w'' [] e)))
                               | (None, l') \<Rightarrow>
                                   (case NewGenerateCSVSinker wi newWriter subStore blockRange cursorTab bundleSiz l' ''last_cursor'' ss of
                                      Inl e \<Rightarrow> Inl (Returned (Some (Wrapf ''unable to setup generate csv sinker: %w'' [] e)))
                                    | Inr sinker \<Rightarrow> Inr sinker)))
                     | _ \<Rightarrow> Inl Crashed)))
      | _ \<Rightarrow> Inl Crashed)"

section \<open>Messages\<close>

text \<open>The range of blocks that the flags give, unless an argument gives it\<close>

definition flags_range :: "string \<Rightarrow> string \<Rightarrow> string" where
  "flags_range startBlock endBlock = startBlock @ '':'' @ (if endBlock \<noteq> ''0'' then endBlock else [])"

text \<open>The arguments after the connection string and the manifest: the module (none is inferred) and the range\<close>

definition csv_arguments :: "string list \<Rightarrow> string option \<times> string" where
  "csv_arguments args =
     (case args of
        [arg] \<Rightarrow> if containsS '':'' arg then (None, arg) else (Some arg, [])
      | [m, r] \<Rightarrow> (Some m, r)
      | _ \<Rightarrow> (None, []))"

text \<open>What the client is built with: the type, the module and the range\<close>

record MessageEnv =
  me_ParseDSN :: "string \<Rightarrow> DSN res"
  me_ReadManifest :: "string \<Rightarrow> string option \<Rightarrow> (Package \<times> string) res"
  me_Unmarshal :: "string \<Rightarrow> Service res"
  me_NewSink :: "string \<Rightarrow> string \<Rightarrow> string \<Rightarrow> (u64 \<times> u64 option) option res"

definition fromProtoE ::
    "MessageEnv \<Rightarrow> 'd DescLib \<Rightarrow> (string \<Rightarrow> 'd \<Rightarrow> ('f, 'c, 'h) FactoryEnv) \<Rightarrow> SinkerFactoryOptions
     \<Rightarrow> string \<Rightarrow> string \<Rightarrow> string option \<Rightarrow> string \<times> string \<Rightarrow> ('f, 'c, 'h) AnySink Ret option" where
  "fromProtoE me lib factoryEnv opts dsnString manifestPath moduleName rng =
     (case me_ParseDSN me dsnString of
        Inl e \<Rightarrow> Some (Fails (Wrapf ''parsing dsn: %w'' [] e))
      | Inr dsn \<Rightarrow>
          (case me_ReadManifest me manifestPath moduleName of
             Inl e \<Rightarrow> Some (Fails (Wrapf ''reading manifest: %w'' [] e))
           | Inr (spkg, moduleN) \<Rightarrow>
               Option.bind (package_descriptor lib (me_Unmarshal me) spkg moduleN)
                 (\<lambda>r. case r of
                        Panics \<Rightarrow> Some Panics
                      | Fails e \<Rightarrow> Some (Fails e)
                      | Returns (outputType, fd, useProtoOption) \<Rightarrow>
                          (case me_NewSink me outputType moduleN (flags_range (fst rng) (snd rng)) of
                             Inl e \<Rightarrow> Some (Fails (Wrapf ''new base sinker: %w'' [] e))
                           | Inr _ \<Rightarrow>
                               map_option (ret_wrap ''creating sinker: %w'' [])
                                 (SinkerFactory (factoryEnv outputType fd)
                                    (opts\<lparr>UseProtoOption := useProtoOption,
                                          UseConstraints := UseConstraints opts \<and> useProtoOption,
                                          UseTransactions := True, Parallel := False\<rparr>)
                                    dsnString (dsn_schema dsn))))))"

text \<open>The flags of the generator of CSV files, and what is given by the system\<close>

record CsvFlags =
  cf_useConstraints :: bool
  cf_startBlock :: string
  cf_stopBlock :: string
  cf_schemaOutput :: string
  cf_schemaMetadata :: string
  cf_outputDir :: string
  cf_workingDir :: string
  cf_bundleSize :: u64
  cf_cursorsTable :: string

record 'd CsvSystem =
  sy_descs :: "'d \<Rightarrow> Descs"
  sy_printable :: "nat \<Rightarrow> bool"
  sy_now :: int
  sy_MarshalIndent :: "SchemaMetadata \<Rightarrow> string res"
  sy_WriteFile :: "string \<Rightarrow> string \<Rightarrow> GoErr option"
  sy_WrapMessage :: "GoErr option"

text \<open>The dialect and the generator, once the schema and its metadata are written\<close>

definition export_schema :: "'d CsvSystem \<Rightarrow> CsvFlags \<Rightarrow> ProtoDialect \<Rightarrow> Schema \<Rightarrow> bool \<Rightarrow> Outcome" where
  "export_schema sy fl d sc useConstraints =
     (case exportSQLSchema (sy_WriteFile sy) d sc useConstraints (sy_now sy) (cf_schemaOutput fl) of
        Some e \<Rightarrow> Fail (Wrapf ''exporting SQL schema: %w'' [] e)
      | None \<Rightarrow>
          (case exportSchemaMetadata (sy_MarshalIndent sy) (sy_WriteFile sy) d sc (sy_now sy) (cf_schemaMetadata fl) of
             Fail e \<Rightarrow> Fail (Wrapf ''exporting schema metadata: %w'' [] e)
           | r \<Rightarrow> r))"

definition build_generator ::
    "MessageEnv \<Rightarrow> 'd CsvSystem \<Rightarrow> 'w WriterI \<Rightarrow> (string \<Rightarrow> 'w) \<Rightarrow> GenFiles \<Rightarrow> CsvFlags \<Rightarrow> DSN \<Rightarrow> string \<Rightarrow> string
     \<Rightarrow> string \<Rightarrow> bool \<Rightarrow> Schema \<Rightarrow> (ProtoDialect \<times> 'w Generator) Ret" where
  "build_generator me sy wi newWriter files fl dsn outputType moduleN blockRange useProtoOption sc =
     ret_bind (new_dialect (sy_printable sy) (driver dsn) sc) (\<lambda>d.
     (case export_schema sy fl d sc (cf_useConstraints fl \<and> useProtoOption) of
        Panicked \<Rightarrow> Panics
      | Fail e \<Rightarrow> Fails e
      | Done \<Rightarrow>
          (case me_NewSink me outputType moduleN blockRange of
             Inl e \<Rightarrow> Fails (Wrapf ''new base sinker: %w'' [] e)
           | Inr sinkRange \<Rightarrow>
               (case newProtoAwareCSVGenerator wi newWriter files (sy_WrapMessage sy) sinkRange d
                       (cf_outputDir fl) (cf_workingDir fl) (cf_bundleSize fl) (cf_cursorsTable fl) of
                  Inl e \<Rightarrow> Fails (Wrapf ''creating CSV generator: %w'' [] e)
                | Inr g \<Rightarrow> Returns (d, g)))))"

definition fromProtoGenerateCsvE ::
    "MessageEnv \<Rightarrow> 'd DescLib \<Rightarrow> 'd CsvSystem \<Rightarrow> 'w WriterI \<Rightarrow> (string \<Rightarrow> 'w) \<Rightarrow> GenFiles \<Rightarrow> CsvFlags
     \<Rightarrow> string \<Rightarrow> string \<Rightarrow> string list \<Rightarrow> (ProtoDialect \<times> 'w Generator) Ret option" where
  "fromProtoGenerateCsvE me lib sy wi newWriter files fl dsnString manifestPath args =
     (let (moduleName, rangeArg) = csv_arguments args;
          blockRange = (if rangeArg = [] then flags_range (cf_startBlock fl) (cf_stopBlock fl) else rangeArg) in
      case me_ParseDSN me dsnString of
        Inl e \<Rightarrow> Some (Fails (Wrapf ''parsing dsn: %w'' [] e))
      | Inr dsn \<Rightarrow>
          (case me_ReadManifest me manifestPath moduleName of
             Inl e \<Rightarrow> Some (Fails (Wrapf ''reading manifest: %w'' [] e))
           | Inr (spkg, moduleN) \<Rightarrow>
               Option.bind (package_descriptor lib (me_Unmarshal me) spkg moduleN)
                 (\<lambda>r. case r of
                        Panics \<Rightarrow> Some Panics
                      | Fails e \<Rightarrow> Some (Fails e)
                      | Returns (outputType, fd, useProtoOption) \<Rightarrow>
                          map_option (\<lambda>r. ret_bind (ret_wrap ''creating schema: %w'' [] r)
                              (build_generator me sy wi newWriter files fl dsn outputType moduleN blockRange useProtoOption))
                            (NewSchema (sy_descs sy fd) (dsn_schema dsn) outputType useProtoOption))))"

end
