(* ===== verification/CommandProperties.thy ===== *)
theory CommandProperties
  imports Commands SetupProperties
begin

text \<open>
  The cursors of a database that keeps the cursor table: what the loader updates or inserts is what it finds again. And the
  commands for cursors, which never get to it.
\<close>

section \<open>The contract of the cursor table\<close>

definition cursor_row :: "string \<Rightarrow> Cursor \<Rightarrow> CursorRow" where
  "cursor_row h c = \<lparr>cr_ID = h, cr_Cursor = c_string c, cr_BlockNum = c_num c, cr_BlockID = c_id c\<rparr>"

definition insert_cursor_text :: "string \<Rightarrow> string \<Rightarrow> Cursor \<Rightarrow> string" where
  "insert_cursor_text table h c =
     ''INSERT INTO '' @ table @ '' (id, cursor, block_num, block_id) values ('' @ [CHR 0x27] @ h @ [CHR 0x27] @ '', ''
     @ [CHR 0x27] @ c_string c @ [CHR 0x27] @ '', '' @ dec64 (c_num c) @ '', '' @ [CHR 0x27] @ c_id c @ [CHR 0x27] @ '')''"

definition row_of :: "CursorRow list \<Rightarrow> string \<Rightarrow> CursorRow option" where
  "row_of rs h = List.find (\<lambda>r. cr_ID r = h) rs"

lemma row_of_replaced:
  "row_of (map (\<lambda>r. if cr_ID r = h then cursor_row h c else r) rs) k
   = (if k = h \<and> h \<in> cr_ID ` set rs then Some (cursor_row h c) else row_of rs k)"
  by (induction rs) (auto simp: row_of_def cursor_row_def)

lemma row_of_added: "row_of (rs @ [cursor_row h c]) k = (case row_of rs k of None \<Rightarrow> if k = h then Some (cursor_row h c) else None | r \<Rightarrow> r)"
  by (induction rs) (auto simp: row_of_def cursor_row_def)

lemma row_of_None: "row_of rs h = None \<longleftrightarrow> h \<notin> cr_ID ` set rs"
  by (auto simp: row_of_def find_None_iff)

lemma row_of_in: "distinct (map cr_ID rs) \<Longrightarrow> r \<in> set rs \<Longrightarrow> row_of rs (cr_ID r) = Some r"
  by (induction rs) (auto simp: row_of_def)

lemma row_of_mem: "row_of rs h = Some r \<Longrightarrow> r \<in> set rs"
  by (induction rs) (auto simp: row_of_def split: if_splits)

text \<open>What is read of the table: a cursor for every module\<close>

lemma collect_cursors_rows:
  assumes "distinct (map cr_ID rs)" "\<forall>r \<in> set rs. is_ok (newCursor (cr_Cursor r))"
  shows "\<exists>cs. collect_cursors newCursor (map Inr rs) out = Inr cs
    \<and> (\<forall>h. map_of cs h = (case row_of rs h of None \<Rightarrow> map_of out h
                           | Some r \<Rightarrow> (case newCursor (cr_Cursor r) of Inr c \<Rightarrow> Some c | Inl _ \<Rightarrow> None)))"
  using assms
proof (induction rs arbitrary: out)
  case (Cons r rs)
  from Cons.prems(2) obtain c where c: "newCursor (cr_Cursor r) = Inr c" by (cases "newCursor (cr_Cursor r)") auto
  have none: "row_of rs (cr_ID r) = None" using Cons.prems(1) by (simp add: row_of_None)
  obtain cs where cs: "collect_cursors newCursor (map Inr rs) (AList.update (cr_ID r) c out) = Inr cs"
    "\<forall>h. map_of cs h = (case row_of rs h of None \<Rightarrow> map_of (AList.update (cr_ID r) c out) h
        | Some r \<Rightarrow> (case newCursor (cr_Cursor r) of Inr c \<Rightarrow> Some c | Inl _ \<Rightarrow> None))"
    using Cons.IH [of "AList.update (cr_ID r) c out"] Cons.prems by auto
  have "row_of (r # rs) h = (if h = cr_ID r then Some r else row_of rs h)" for h by (simp add: row_of_def)
  then show ?case using cs c none by (auto simp: update_conv' split: option.splits)
qed (simp add: row_of_def)

text \<open>The texts are put between quotes as they are, so they must have none.\<close>

definition unquoted :: "string \<Rightarrow> Cursor \<Rightarrow> bool" where
  "unquoted h c \<longleftrightarrow> CHR 0x27 \<notin> set h \<and> CHR 0x27 \<notin> set (c_string c) \<and> CHR 0x27 \<notin> set (c_id c)"

locale cursor_rows =
  fixes db :: "'s Db" and di :: "'s DialectI" and table :: string and stored :: "'s \<Rightarrow> CursorRow list"
  assumes counts: "di_DriverSupportRowsAffected di"
    and update: "unquoted h c \<Longrightarrow>
      \<exists>s'. db_Exec db (di_GetUpdateCursorQuery di table h c) s = (Inr (Inr (int (length (filter (\<lambda>r. cr_ID r = h) (stored s))))), s')
         \<and> stored s' = map (\<lambda>r. if cr_ID r = h then cursor_row h c else r) (stored s)"
    and insert: "unquoted h c \<Longrightarrow> h \<notin> cr_ID ` set (stored s) \<Longrightarrow>
      \<exists>s'. db_Exec db (insert_cursor_text table h c) s = (Inr (Inr 1), s') \<and> stored s' = stored s @ [cursor_row h c]"
    and delete_all: "\<exists>s'. db_Exec db (''DELETE FROM '' @ table) s = (Inr (Inr (int (length (stored s)))), s') \<and> stored s' = []"
    and all_rows: "db_QueryCursors db (di_GetAllCursorsQuery di table) s = (Inr \<lparr>r_rows = map Inr (stored s), r_err = None\<rparr>, s)"
begin

lemma updated:
  assumes "unquoted h c" "cursor_identifier l = table" "tx_Exec tx = db_Exec db"
  shows "\<exists>s'. UpdateCursor di l tx h c s = (if row_of (stored s) h = None then Some ErrCursorNotFound else None, s')
    \<and> stored s' = map (\<lambda>r. if cr_ID r = h then cursor_row h c else r) (stored s)"
proof -
  obtain s1 where u: "db_Exec db (di_GetUpdateCursorQuery di table h c) s = (Inr (Inr (int (length (filter (\<lambda>r. cr_ID r = h) (stored s))))), s1)"
    "stored s1 = map (\<lambda>r. if cr_ID r = h then cursor_row h c else r) (stored s)"
    using update [OF assms(1)] by blast
  have "row_of (stored s) h = None \<longleftrightarrow> filter (\<lambda>r. cr_ID r = h) (stored s) = []"
    by (auto simp: row_of_None filter_empty_conv)
  with u assms(2,3) counts show ?thesis by (simp add: UpdateCursor_def runModifiyQuery_def)
qed

lemma inserted:
  assumes "unquoted h c" "cursor_identifier l = table" "row_of (stored s) h = None"
  shows "\<exists>s'. InsertCursor db l h c s = (None, s') \<and> stored s' = stored s @ [cursor_row h c]"
  using insert [OF assms(1), of s] assms(2,3) by (auto simp: row_of_None InsertCursor_def insert_cursor_text_def Let_def)

text \<open>The sink finds the cursor of its module.\<close>

lemma found:
  assumes "cursor_identifier l = table" "distinct (map cr_ID (stored s))" "\<forall>r \<in> set (stored s). is_ok (newCursor (cr_Cursor r))"
    and "row_of (stored s) h = Some r" "newCursor (cr_Cursor r) = Inr c"
  shows "GetCursor db di newCursor blank l h s = (Some (Some c, False, None), s)"
proof -
  from collect_cursors_rows [OF assms(2,3), of "[]"] obtain cs where
    cs: "collect_cursors newCursor (map Inr (stored s)) [] = Inr cs" "map_of cs h = Some c"
    using assms(4,5) by auto
  then have "cs \<noteq> []" by auto
  with cs show ?thesis by (simp add: GetCursor_def GetAllCursors_def all_rows assms(1))
qed

lemma emptied:
  assumes "cursor_identifier l = table"
  shows "\<exists>s'. DeleteAllCursors db di l s = ((int (length (stored s)), None), s') \<and> stored s' = []
    \<and> (\<forall>h newCursor blank. GetCursor db di newCursor blank l h s' = (Some (Some blank, False, Some ErrCursorNotFound), s'))"
proof -
  obtain s' where d: "db_Exec db (''DELETE FROM '' @ table) s = (Inr (Inr (int (length (stored s)))), s')" "stored s' = []"
    using delete_all by blast
  with counts assms show ?thesis
    by (cases "stored s") (simp_all add: DeleteAllCursors_def runModifiyQuery_def GetCursor_def GetAllCursors_def all_rows)
qed

end

section \<open>A cursor table in memory\<close>

text \<open>A connection that reads the statements of PostgreSQL for one table: the texts between quotes up to the next
  quote\<close>

definition strip :: "string \<Rightarrow> string \<Rightarrow> string option" where
  "strip p s = (if take (length p) s = p then Some (drop (length p) s) else None)"

definition to_quote :: "string \<Rightarrow> string \<times> string" where
  "to_quote s = (takeWhile (\<lambda>c. c \<noteq> CHR 0x27) s, dropWhile (\<lambda>c. c \<noteq> CHR 0x27) s)"

definition to_number :: "string \<Rightarrow> u64 \<times> string" where
  "to_number s = (of_nat (undec (takeWhile is_digit s)), dropWhile is_digit s)"

definition read_update :: "string \<Rightarrow> string \<Rightarrow> CursorRow option" where
  "read_update table s =
     Option.bind (strip (''UPDATE '' @ table @ '' set cursor = '' @ [CHR 0x27]) s) (\<lambda>s.
     case to_quote s of (c, s) \<Rightarrow> Option.bind (strip ([CHR 0x27] @ '', block_num = '') s) (\<lambda>s.
     case to_number s of (n, s) \<Rightarrow> Option.bind (strip ('', block_id = '' @ [CHR 0x27]) s) (\<lambda>s.
     case to_quote s of (i, s) \<Rightarrow> Option.bind (strip ([CHR 0x27] @ '' WHERE id = '' @ [CHR 0x27]) s) (\<lambda>s.
     case to_quote s of (h, s) \<Rightarrow>
       if s = [CHR 0x27] @ '';'' then Some \<lparr>cr_ID = h, cr_Cursor = c, cr_BlockNum = n, cr_BlockID = i\<rparr> else None))))"

definition read_insert :: "string \<Rightarrow> string \<Rightarrow> CursorRow option" where
  "read_insert table s =
     Option.bind (strip (''INSERT INTO '' @ table @ '' (id, cursor, block_num, block_id) values ('' @ [CHR 0x27]) s) (\<lambda>s.
     case to_quote s of (h, s) \<Rightarrow> Option.bind (strip ([CHR 0x27] @ '', '' @ [CHR 0x27]) s) (\<lambda>s.
     case to_quote s of (c, s) \<Rightarrow> Option.bind (strip ([CHR 0x27] @ '', '') s) (\<lambda>s.
     case to_number s of (n, s) \<Rightarrow> Option.bind (strip ('', '' @ [CHR 0x27]) s) (\<lambda>s.
     case to_quote s of (i, s) \<Rightarrow>
       if s = [CHR 0x27] @ '')'' then Some \<lparr>cr_ID = h, cr_Cursor = c, cr_BlockNum = n, cr_BlockID = i\<rparr> else None))))"

definition table_Exec :: "string \<Rightarrow> string \<Rightarrow> CursorRow list \<Rightarrow> ExecResult res \<times> CursorRow list" where
  "table_Exec table q rs =
     (case read_update table q of
        Some row \<Rightarrow> (Inr (Inr (int (length (filter (\<lambda>r. cr_ID r = cr_ID row) rs)))), map (\<lambda>r. if cr_ID r = cr_ID row then row else r) rs)
      | None \<Rightarrow>
          (case read_insert table q of
             Some row \<Rightarrow>
               if cr_ID row \<in> cr_ID ` set rs then (Inl (ExternalErr ''duplicate key''), rs) else (Inr (Inr 1), rs @ [row])
           | None \<Rightarrow>
               if q = ''DELETE FROM '' @ table then (Inr (Inr (int (length rs))), [])
               else (Inl (ExternalErr ''syntax error''), rs)))"

definition table_Db :: "string \<Rightarrow> (CursorRow list) Db" where
  "table_Db table =
     \<lparr>db_Begin = (\<lambda>s. (Inl (ExternalErr ''no transactions''), s)), db_Exec = table_Exec table, db_Query = (\<lambda>q s. (Inr None, s)),
      db_QueryCursors = (\<lambda>q s. if q = pg_GetAllCursorsQuery table then (Inr \<lparr>r_rows = map Inr s, r_err = None\<rparr>, s)
        else (Inl (ExternalErr ''syntax error''), s))\<rparr>"

lemma strip_append [simp]: "strip p (p @ s) = Some s"
  by (simp add: strip_def)

lemma to_quote_append [simp]: "CHR 0x27 \<notin> set a \<Longrightarrow> to_quote (a @ CHR 0x27 # s) = (a, CHR 0x27 # s)"
  by (induction a) (auto simp: to_quote_def)

lemma to_number_append [simp]: "\<not> is_digit c \<Longrightarrow> to_number (dec64 n @ c # s) = (n, c # s)"
proof -
  assume c: "\<not> is_digit c"
  have d: "\<forall>x \<in> set (dec (unat n)). is_digit x" using dec_digits [of "unat n"] by (simp add: list_all_iff)
  have "takeWhile is_digit (dec (unat n) @ c # s) = dec (unat n)" "dropWhile is_digit (dec (unat n) @ c # s) = c # s"
    using c d by (simp_all add: takeWhile_append2 dropWhile_append2)
  then show ?thesis by (simp add: to_number_def dec64_def)
qed

lemma update_text:
  "pg_GetUpdateCursorQuery id table h c =
     ''UPDATE '' @ table @ '' set cursor = '' @ [CHR 0x27] @ c_string c @ [CHR 0x27] @ '', block_num = '' @ dec64 (c_num c)
     @ '', block_id = '' @ [CHR 0x27] @ c_id c @ [CHR 0x27] @ '' WHERE id = '' @ [CHR 0x27] @ h @ [CHR 0x27] @ '';''"
proof -
  have "trimSpace pg_cursor_template = ''UPDATE %s set cursor = '' @ [CHR 0x27] @ ''%s'' @ [CHR 0x27]
     @ '', block_num = %d, block_id = '' @ [CHR 0x27] @ ''%s'' @ [CHR 0x27] @ '' WHERE id = '' @ [CHR 0x27] @ ''%s'' @ [CHR 0x27] @ '';''"
    by code_simp
  then show ?thesis by (simp add: pg_GetUpdateCursorQuery_def query_def)
qed

lemma read_update_text:
  assumes "unquoted h c"
  shows "read_update table (pg_GetUpdateCursorQuery id table h c) = Some (cursor_row h c)"
proof -
  let ?q = "[CHR 0x27]"
  have e: "pg_GetUpdateCursorQuery id table h c =
      (''UPDATE '' @ table @ '' set cursor = '' @ ?q) @ c_string c @ CHR 0x27 # '', block_num = '' @ dec64 (c_num c)
      @ CHR '','' # '' block_id = '' @ ?q @ c_id c @ CHR 0x27 # '' WHERE id = '' @ ?q @ h @ CHR 0x27 # '';''"
    by (simp add: update_text)
  have s: "strip (?q @ '', block_num = '') (CHR 0x27 # '', block_num = '' @ r) = Some r"
    "strip ('', block_id = '' @ ?q) (CHR '','' # '' block_id = '' @ ?q @ r) = Some r"
    "strip (?q @ '' WHERE id = '' @ ?q) (CHR 0x27 # '' WHERE id = '' @ ?q @ r) = Some r" for r
    by (simp_all add: strip_def)
  have d: "\<not> is_digit (CHR '','')" by (simp add: is_digit_def)
  show ?thesis using assms unfolding read_update_def e strip_append
    by (simp add: s d unquoted_def cursor_row_def del: append.simps)
qed

lemma strip_head: "c \<noteq> d \<Longrightarrow> strip (c # p) (d # s) = None"
  by (simp add: strip_def)

lemma read_insert_text:
  assumes "unquoted h c"
  shows "read_update table (insert_cursor_text table h c) = None" "read_insert table (insert_cursor_text table h c) = Some (cursor_row h c)"
proof -
  let ?q = "[CHR 0x27]"
  show "read_update table (insert_cursor_text table h c) = None"
    by (simp add: read_update_def insert_cursor_text_def strip_head)
  have e: "insert_cursor_text table h c =
      (''INSERT INTO '' @ table @ '' (id, cursor, block_num, block_id) values ('' @ ?q) @ h @ CHR 0x27 # '', '' @ ?q @ c_string c
      @ CHR 0x27 # '', '' @ dec64 (c_num c) @ CHR '','' # '' '' @ ?q @ c_id c @ CHR 0x27 # '')''"
    by (simp add: insert_cursor_text_def)
  have s: "strip (?q @ '', '' @ ?q) (CHR 0x27 # '', '' @ ?q @ r) = Some r" "strip (?q @ '', '') (CHR 0x27 # '', '' @ r) = Some r"
    "strip ('', '' @ ?q) (CHR '','' # '' '' @ ?q @ r) = Some r" for r
    by (simp_all add: strip_def)
  have d: "\<not> is_digit (CHR '','')" by (simp add: is_digit_def)
  show "read_insert table (insert_cursor_text table h c) = Some (cursor_row h c)"
    using assms unfolding read_insert_def e strip_append
    by (simp add: s d unquoted_def cursor_row_def del: append.simps)
qed

lemma read_delete_text: "read_update table (''DELETE FROM '' @ table) = None" "read_insert table (''DELETE FROM '' @ table) = None"
  by (simp_all add: read_update_def read_insert_def strip_head)

interpretation pg_cursors: cursor_rows "table_Db table" "pg_iface (NewPostgresDialect sch cursorTab historyTab) zone id" table "\<lambda>s. s"
proof unfold_locales
  show "di_DriverSupportRowsAffected (pg_iface (NewPostgresDialect sch cursorTab historyTab) zone id)"
    by (simp add: pg_iface_def NewPostgresDialect_def)
  show "unquoted h c \<Longrightarrow> \<exists>s'. db_Exec (table_Db table) (di_GetUpdateCursorQuery (pg_iface (NewPostgresDialect sch cursorTab historyTab) zone id) table h c) s
       = (Inr (Inr (int (length (filter (\<lambda>r. cr_ID r = h) s)))), s') \<and> s' = map (\<lambda>r. if cr_ID r = h then cursor_row h c else r) s" for h c s
    by (simp add: table_Db_def table_Exec_def pg_iface_def read_update_text) (simp add: cursor_row_def)
  show "unquoted h c \<Longrightarrow> h \<notin> cr_ID ` set s \<Longrightarrow>
      \<exists>s'. db_Exec (table_Db table) (insert_cursor_text table h c) s = (Inr (Inr 1), s') \<and> s' = s @ [cursor_row h c]" for h c s
    by (simp add: table_Db_def table_Exec_def read_insert_text) (simp add: cursor_row_def)
  show "\<exists>s'. db_Exec (table_Db table) (''DELETE FROM '' @ table) s = (Inr (Inr (int (length s))), s') \<and> s' = []" for s
    unfolding table_Db_def Db.simps table_Exec_def read_delete_text by simp
  show "db_QueryCursors (table_Db table) (di_GetAllCursorsQuery (pg_iface (NewPostgresDialect sch cursorTab historyTab) zone id) table) s
      = (Inr \<lparr>r_rows = map Inr s, r_err = None\<rparr>, s)" for s
    by (simp add: table_Db_def pg_iface_def)
qed

section \<open>The cursor of a module\<close>

text \<open>
  C9. The cursor that the loader writes for a module is the one it finds for it. On a database that keeps the cursor table,
  for a cursor without quotes in its texts: updating the cursor of a module that has none reports just that and changes
  nothing, and inserting it then succeeds; updating the cursor of a module that has one succeeds. Then \<open>GetCursor\<close>
  gives this cursor for the module, without a mismatch, and every other module keeps the one it had. Deleting all cursors
  says how many there were, and then no module has one. (The update is sent in a transaction, whose statements are executed by
  the same database.)
\<close>

theorem stored_cursor_is_found:
  assumes table: "cursor_rows db di (cursor_identifier l) stored" and tx: "tx_Exec tx = db_Exec db" and c: "unquoted h c"
    and rows: "distinct (map cr_ID (stored s))" "\<forall>r \<in> set (stored s). is_ok (newCursor (cr_Cursor r))" "newCursor (c_string c) = Inr c"
  shows "\<exists>s'. (if row_of (stored s) h = None
        then \<exists>s1. UpdateCursor di l tx h c s = (Some ErrCursorNotFound, s1) \<and> stored s1 = stored s \<and> InsertCursor db l h c s1 = (None, s')
        else UpdateCursor di l tx h c s = (None, s'))
    \<and> GetCursor db di newCursor blank l h s' = (Some (Some c, False, None), s')
    \<and> (\<forall>h'. h' \<noteq> h \<longrightarrow> row_of (stored s') h' = row_of (stored s) h')
    \<and> (\<exists>s''. DeleteAllCursors db di l s' = ((int (length (stored s')), None), s'')
         \<and> (\<forall>h'. GetCursor db di newCursor blank l h' s'' = (Some (Some blank, False, Some ErrCursorNotFound), s'')))"
proof -
  from cursor_rows.updated [OF table c refl tx, of s] obtain s1 where
    u: "UpdateCursor di l tx h c s = (if row_of (stored s) h = None then Some ErrCursorNotFound else None, s1)"
      "stored s1 = map (\<lambda>r. if cr_ID r = h then cursor_row h c else r) (stored s)" by blast
  have "\<exists>s'. (if row_of (stored s) h = None
        then UpdateCursor di l tx h c s = (Some ErrCursorNotFound, s1) \<and> stored s1 = stored s \<and> InsertCursor db l h c s1 = (None, s')
        else UpdateCursor di l tx h c s = (None, s'))
      \<and> row_of (stored s') = (row_of (stored s))(h \<mapsto> cursor_row h c) \<and> distinct (map cr_ID (stored s'))"
  proof (cases "row_of (stored s) h = None")
    case True
    then have same: "stored s1 = stored s" unfolding u(2) by (intro map_idI) (auto simp: row_of_None)
    from cursor_rows.inserted [OF table c refl True [folded same]] obtain s2 where
      "InsertCursor db l h c s1 = (None, s2)" "stored s2 = stored s @ [cursor_row h c]" unfolding same by blast
    moreover from True rows(1) have "distinct (map cr_ID (stored s @ [cursor_row h c]))"
      by (auto simp: row_of_None cursor_row_def)
    ultimately show ?thesis using u(1) same True
      by (intro exI [of _ s2]) (auto simp: row_of_added fun_eq_iff split: option.split)
  next
    case False
    moreover have "map cr_ID (stored s1) = map cr_ID (stored s)" unfolding u(2) by (simp add: cursor_row_def)
    moreover have "row_of (stored s1) = (row_of (stored s))(h \<mapsto> cursor_row h c)"
      using False unfolding u(2) by (simp add: row_of_replaced row_of_None fun_eq_iff)
    ultimately show ?thesis using u(1) rows(1) by (intro exI [of _ s1]) auto
  qed
  then obtain s' where s': "if row_of (stored s) h = None
        then UpdateCursor di l tx h c s = (Some ErrCursorNotFound, s1) \<and> stored s1 = stored s \<and> InsertCursor db l h c s1 = (None, s')
        else UpdateCursor di l tx h c s = (None, s')"
    and w: "row_of (stored s') = (row_of (stored s))(h \<mapsto> cursor_row h c)" "distinct (map cr_ID (stored s'))" by blast
  have "is_ok (newCursor (cr_Cursor r))" if r: "r \<in> set (stored s')" for r
  proof -
    have "((row_of (stored s))(h \<mapsto> cursor_row h c)) (cr_ID r) = Some r" using row_of_in [OF w(2) r] w(1) by simp
    then have "r = cursor_row h c \<or> r \<in> set (stored s)" by (cases "cr_ID r = h") (auto dest: row_of_mem)
    then show ?thesis using rows(2,3) by (auto simp: cursor_row_def)
  qed
  then have g: "GetCursor db di newCursor blank l h s' = (Some (Some c, False, None), s')"
    using w rows(3) by (intro cursor_rows.found [OF table refl w(2)]) (auto simp: cursor_row_def)
  from cursor_rows.emptied [OF table refl, of s'] s' w(1) g show ?thesis by (intro exI [of _ s']) auto
qed

text \<open>A table with the cursors of two modules: one of them is updated, and a third is added.\<close>

definition ex_cursor_rows :: "CursorRow list" where
  "ex_cursor_rows = map (\<lambda>h. \<lparr>cr_ID = h, cr_Cursor = ''x'', cr_BlockNum = 7, cr_BlockID = ''b''\<rparr>) [''m0'', ''m1'']"

definition ex_cursors :: "(CursorRow list) Db" where
  "ex_cursors = table_Db []"

theorem stored_cursor_is_found_witness:
  "\<exists>s' s''. UpdateCursor (pg_iface ex_pg id id) ex_loader (no_tx ex_cursors) ''m1'' \<lparr>c_string = ''y'', c_num = 7, c_id = ''b''\<rparr> ex_cursor_rows
       = (None, s')
    \<and> row_of s' ''m0'' = row_of ex_cursor_rows ''m0''
    \<and> InsertCursor ex_cursors ex_loader ''m2'' \<lparr>c_string = ''z'', c_num = 7, c_id = ''b''\<rparr>
        (snd (UpdateCursor (pg_iface ex_pg id id) ex_loader (no_tx ex_cursors) ''m2'' \<lparr>c_string = ''z'', c_num = 7, c_id = ''b''\<rparr> ex_cursor_rows))
       = (None, s'')"
proof -
  let ?c = "\<lambda>s. \<lparr>c_string = s, c_num = 7, c_id = ''b''\<rparr> :: Cursor"
  have pg: "ex_pg = NewPostgresDialect ''public'' ''cursors'' ''substreams_history''" "cursor_identifier ex_loader = []"
    by (simp_all add: ex_pg_def ex_loader_def cursor_identifier_def)
  have t: "cursor_rows ex_cursors (pg_iface ex_pg id id) (cursor_identifier ex_loader) (\<lambda>s. s)"
    unfolding pg ex_cursors_def by (rule pg_cursors.cursor_rows_axioms)
  have tx: "tx_Exec (no_tx ex_cursors) = db_Exec ex_cursors" by (simp add: no_tx_def)
  have q: "unquoted ''m1'' (?c ''y'')" "unquoted ''m2'' (?c ''z'')" "distinct (map cr_ID ex_cursor_rows)"
    "row_of ex_cursor_rows ''m1'' \<noteq> None" "row_of ex_cursor_rows ''m2'' = None" by code_simp+
  have ok: "\<forall>r \<in> set ex_cursor_rows. is_ok (Inr (?c (cr_Cursor r)) :: Cursor res)" by simp
  from stored_cursor_is_found [OF t tx q(1,3), of "\<lambda>s. Inr (?c s)"] stored_cursor_is_found [OF t tx q(2,3), of "\<lambda>s. Inr (?c s)"]
    ok q(4,5)
  show ?thesis by fastforce
qed

section \<open>The commands\<close>

text \<open>
  C10. No command for cursors ever gets to the cursors: each of them builds its loader with the value of the flag
  \<open>on-module-hash-mistmatch\<close>, which none of them declares. Reading a flag panics when it is not declared, and only then; so
  whatever flags and arguments are given, \<open>tools cursor read\<close>, \<open>write\<close> and \<open>delete\<close> end with the error of a connection string that
  cannot be parsed, or else crash, print nothing and leave the database as it was. A command that declares the flag, as
  \<open>generate-csv\<close> does, reads its value.
\<close>

theorem cursor_commands_crash:
  fixes env :: "'s CmdEnv" and dsnString :: string and s :: 's
  assumes flags: "\<forall>fs name. ce_MustGetString env fs name = None \<longleftrightarrow> map_of fs name = None"
  defines "ending \<equiv> (case ParseDSN (ce_envsubst env) (ce_url_Parse env) dsnString of
      Inl e \<Rightarrow> Returned (Some (Wrapf ''parse dsn: %w'' [] e)) | Inr _ \<Rightarrow> Crashed)"
  shows "toolsReadCursorE env dsnString s = ((ending, []), s)
    \<and> toolsWriteCursorE env dsnString args s = (ending, s)
    \<and> toolsDeleteCursorE env dsnString deleteAll args s = ((ending, []), s)
    \<and> ce_MustGetString env generate_csv_flags ''on-module-hash-mistmatch'' \<noteq> None"
proof -
  have f: "ce_MustGetString env tools_cursor_flags ''on-module-hash-mistmatch'' = None"
    "ce_MustGetString env tools_cursor_flags ''cursors-table'' \<noteq> None"
    "ce_MustGetString env tools_cursor_flags ''history-table'' \<noteq> None"
    "ce_MustGetString env generate_csv_flags ''on-module-hash-mistmatch'' \<noteq> None"
    using flags by (simp_all add: tools_cursor_flags_def generate_csv_flags_def AddCommonSinkerFlags_def root_flags_def)
  then have "toolsCreateLoader env dsnString = Inl ending"
    by (auto simp: toolsCreateLoader_def ending_def split: option.split sum.split)
  with f(4) show ?thesis by (simp add: toolsReadCursorE_def toolsWriteCursorE_def toolsDeleteCursorE_def)
qed

text \<open>The flags have their defaults and the connection string is one of PostgreSQL.\<close>

definition ex_psql_url :: URL where
  "ex_psql_url = \<lparr>url_Scheme = ''psql'', url_Host = ''host'', url_Hostname = ''host'', url_Port = [],
     url_Username = ''u'', url_Password = ''p'', url_EscapedPath = ''/db'', url_Query = []\<rparr>"

definition ex_cmd :: "(CursorRow list) CmdEnv" where
  "ex_cmd = \<lparr>ce_MustGetString = map_of,
     ce_envsubst = Inr, ce_url_Parse = (\<lambda>_. Inr ex_psql_url), ce_sql_Open = (\<lambda>_ _. Inr ''*pq.Driver''), ce_reads = ex_reads,
     ce_db = ex_cursors, ce_iface = (\<lambda>d. pg_iface ex_pg id id),
     ce_newCursor = (\<lambda>s. Inr \<lparr>c_string = s, c_num = 7, c_id = ''b''\<rparr>), ce_blockString = c_id\<rparr>"

theorem cursor_commands_crash_witness:
  "toolsReadCursorE ex_cmd ''dsn'' ex_cursor_rows = ((Crashed, []), ex_cursor_rows)
   \<and> toolsDeleteCursorE ex_cmd ''dsn'' True [] ex_cursor_rows = ((Crashed, []), ex_cursor_rows)"
proof -
  have "case ParseDSN Inr (\<lambda>_. Inr ex_psql_url) ''dsn'' of Inl e \<Rightarrow> False | Inr d \<Rightarrow> True" by code_simp
  then obtain d where "ParseDSN (ce_envsubst ex_cmd) (ce_url_Parse ex_cmd) ''dsn'' = Inr d"
    by (auto simp: ex_cmd_def split: sum.splits)
  moreover have "\<forall>fs name. ce_MustGetString ex_cmd fs name = None \<longleftrightarrow> map_of fs name = None" by (simp add: ex_cmd_def)
  ultimately show ?thesis using cursor_commands_crash [of ex_cmd "''dsn''" ex_cursor_rows "[]" True] by simp
qed

end
