(* ===== verification/ProtoSemantic.thy ===== *)
theory ProtoSemantic
  imports ProtoCsv
begin

text \<open>
  The conversion of values by their semantic types (\<open>ConvertSemanticValue\<close> and its converters in \<open>types.go\<close> of
  \<open>src/db_proto/sql/postgres\<close>, \<open>risingwave\<close> and \<open>click_house\<close>) and \<open>ValueToString\<close> of ClickHouse. The sinks do not call them:
  values go through \<open>NormalizeValue\<close> and the inserters.
\<close>

section \<open>Hexadecimal texts\<close>

definition hex_text :: "string \<Rightarrow> string" where
  "hex_text v = concat (map (\<lambda>c. hex_digits 2 (of_char c)) v)"

text \<open>\<open>strconv.ParseUint(s, 16, 64)\<close>, without its errors\<close>

fun parse_hex :: "nat \<Rightarrow> string \<Rightarrow> nat option" where
  "parse_hex n [] = Some n"
| "parse_hex n (c # cs) =
     (case hexval c of
        None \<Rightarrow> None
      | Some d \<Rightarrow> if n * 16 + d \<ge> 2 ^ 64 then None else parse_hex (n * 16 + d) cs)"

definition parse_hex64 :: "string \<Rightarrow> nat option" where
  "parse_hex64 s = (if s = [] then None else parse_hex 0 s)"

definition quoted0x :: "string \<Rightarrow> string" where
  "quoted0x v = single_quoted (''0x'' @ v)"

text \<open>The values that \<open>case int64, uint64, int32, uint32\<close> takes\<close>

definition cannot_convert :: "string \<Rightarrow> 'f Value \<Rightarrow> GoErr" where
  "cannot_convert t v = Errorf (''cannot convert %T to '' @ t) [AStr (go_type v)]"

section \<open>PostgreSQL\<close>

definition convertToNumeric :: "'f Value \<Rightarrow> string \<Rightarrow> string res" where
  "convertToNumeric v formatHint =
     (case v of
        V_string s \<Rightarrow>
          Inr (if hasPrefix ''0x'' s
               then (case parse_hex64 (drop 2 s) of Some n \<Rightarrow> dec n | None \<Rightarrow> single_quoted s)
               else if formatHint = ''hex''
               then (case parse_hex64 s of Some n \<Rightarrow> dec n | None \<Rightarrow> single_quoted s)
               else single_quoted s)
      | V_bytes b \<Rightarrow> Inr (case parse_hex64 (hex_text b) of Some n \<Rightarrow> dec n | None \<Rightarrow> quoted0x (hex_text b))
      | _ \<Rightarrow> (case formatIntegral v of Some n \<Rightarrow> Inr n | None \<Rightarrow> Inl (cannot_convert ''numeric'' v)))"

definition convertToAddress :: "'f Value \<Rightarrow> string res" where
  "convertToAddress v =
     (case v of
        V_string s \<Rightarrow>
          if hasPrefix ''0x'' s
          then (if length (drop 2 s) = 40 then Inr (single_quoted s)
                else Inl (Errorf ''invalid address format: %s (expected 40 hex chars after 0x)'' [AStr s]))
          else if length s = 40 then Inr (quoted0x s)
          else Inl (Errorf ''invalid address format: %s (expected 40 or 42 chars)'' [AStr s])
      | V_bytes b \<Rightarrow>
          if length b = 20 then Inr (quoted0x (hex_text b))
          else Inl (Errorf ''invalid address byte length: %d (expected 20)'' [ANat (length b)])
      | _ \<Rightarrow> Inl (cannot_convert ''address'' v))"

definition convertToHash :: "'f Value \<Rightarrow> string res" where
  "convertToHash v =
     (case v of
        V_string s \<Rightarrow>
          if length s = 66 \<and> hasPrefix ''0x'' s then Inr (single_quoted s)
          else if length s = 64 then Inr (quoted0x s)
          else Inl (Errorf ''invalid hash format: %s (expected 64 or 66 chars)'' [AStr s])
      | V_bytes b \<Rightarrow>
          if length b = 32 then Inr (quoted0x (hex_text b))
          else Inl (Errorf ''invalid hash byte length: %d (expected 32)'' [ANat (length b)])
      | _ \<Rightarrow> Inl (cannot_convert ''hash'' v))"

definition convertToHexString :: "'f Value \<Rightarrow> string res" where
  "convertToHexString v =
     (case v of
        V_string s \<Rightarrow> Inr (if hasPrefix ''0x'' s then single_quoted s else quoted0x s)
      | V_bytes b \<Rightarrow> Inr (quoted0x (hex_text b))
      | _ \<Rightarrow> Inl (cannot_convert ''hex string'' v))"

definition convertToDecimal :: "('f Value \<Rightarrow> string) \<Rightarrow> 'f Value \<Rightarrow> string res" where
  "convertToDecimal sprint v =
     (case v of
        V_string s \<Rightarrow> Inr (single_quoted s)
      | V_float64 _ \<Rightarrow> Inr (sprint v)
      | V_float32 _ \<Rightarrow> Inr (sprint v)
      | _ \<Rightarrow> (case formatIntegral v of Some n \<Rightarrow> Inr n | None \<Rightarrow> Inl (cannot_convert ''decimal'' v)))"

definition convertToJSONB :: "'f Value \<Rightarrow> string res" where
  "convertToJSONB v =
     (case v of
        V_string s \<Rightarrow> Inr (single_quoted (replaceAll [CHR 0x27] [CHR 0x27, CHR 0x27] s) @ ''::jsonb'')
      | _ \<Rightarrow> Inl (cannot_convert ''JSONB'' v))"

definition convertToUUID :: "'f Value \<Rightarrow> string res" where
  "convertToUUID v =
     (case v of
        V_string s \<Rightarrow>
          if length s = 36 then Inr (single_quoted s @ ''::uuid'')
          else Inl (Errorf ''invalid UUID format: %s (expected 36 chars)'' [AStr s])
      | _ \<Rightarrow> Inl (cannot_convert ''UUID'' v))"

text \<open>The instant of a number of seconds or milliseconds, the same in the three dialects\<close>

definition unix_instant :: "'f Value \<Rightarrow> bool \<Rightarrow> (int \<times> int) res" where
  "unix_instant v isMilliseconds =
     (case v of
        V_int64 n \<Rightarrow> Inr (unixToTime n isMilliseconds)
      | V_uint64 n \<Rightarrow>
          Inr (if isMilliseconds then time_Unix (sint (n div 1000)) (sint (n mod 1000 * 1000000)) else time_Unix (sint n) 0)
      | V_string s \<Rightarrow>
          (case ParseInt 64 s of
             (i, None) \<Rightarrow> Inr (unixToTime (word_of_int i) isMilliseconds)
           | (_, Some _) \<Rightarrow> Inl (Errorf ''cannot parse timestamp string: %s'' [AStr s]))
      | _ \<Rightarrow> Inl (cannot_convert ''timestamp'' v))"

definition convertUnixTimestamp :: "'f Value \<Rightarrow> bool \<Rightarrow> string res" where
  "convertUnixTimestamp v isMilliseconds =
     map_sum id (\<lambda>t. single_quoted (format_RFC3339 0 (fst t))) (unix_instant v isMilliseconds)"

text \<open>A type without a converter falls back to the text of the value, which may panic.\<close>

definition value_ret :: "string option \<Rightarrow> string Ret" where
  "value_ret t = (case t of None \<Rightarrow> Panics | Some s \<Rightarrow> Returns s)"

definition pg_ConvertSemanticValue :: "'f Floats \<Rightarrow> string \<Rightarrow> 'f Value \<Rightarrow> string \<Rightarrow> string Ret" where
  "pg_ConvertSemanticValue fl semanticType v formatHint =
     (if semanticType \<in> {''uint256'', ''int256''} then ret_of (convertToNumeric v formatHint)
      else if semanticType = ''address'' then ret_of (convertToAddress v)
      else if semanticType = ''hash'' then ret_of (convertToHash v)
      else if semanticType \<in> {''signature'', ''pubkey'', ''hex''} then ret_of (convertToHexString v)
      else if semanticType = ''json'' then ret_of (convertToJSONB v)
      else if semanticType = ''uuid'' then ret_of (convertToUUID v)
      else if semanticType = ''unix_timestamp'' then ret_of (convertUnixTimestamp v False)
      else if semanticType = ''unix_timestamp_ms'' then ret_of (convertUnixTimestamp v True)
      else if semanticType = ''block_timestamp'' then ret_of (convertUnixTimestamp v False)
      else value_ret (pg_ValueToString fl v))"

section \<open>RisingWave\<close>

definition rw_big :: "string \<Rightarrow> 'f Value \<Rightarrow> string \<Rightarrow> string res" where
  "rw_big t v formatHint =
     (case v of
        V_string s \<Rightarrow>
          Inr ((if hasPrefix ''0x'' s then single_quoted s
                else if formatHint = ''hex'' then quoted0x s
                else single_quoted s) @ ''::'' @ t)
      | V_bytes b \<Rightarrow> Inr (quoted0x (hex_text b) @ ''::'' @ t)
      | _ \<Rightarrow> (case formatIntegral v of Some n \<Rightarrow> Inr (single_quoted n @ ''::'' @ t) | None \<Rightarrow> Inl (cannot_convert t v)))"

definition convertToRwUint256 :: "'f Value \<Rightarrow> string \<Rightarrow> string res" where
  "convertToRwUint256 = rw_big ''rw_uint256''"

definition convertToRwInt256 :: "'f Value \<Rightarrow> string \<Rightarrow> string res" where
  "convertToRwInt256 = rw_big ''rw_int256''"

text \<open>The converters of addresses, hashes and hexadecimal strings are those of PostgreSQL, word for word.\<close>

definition rw_convertToAddress :: "'f Value \<Rightarrow> string res" where
  "rw_convertToAddress v = convertToAddress v"

definition rw_convertToHash :: "'f Value \<Rightarrow> string res" where
  "rw_convertToHash v = convertToHash v"

definition rw_convertToHexString :: "'f Value \<Rightarrow> string res" where
  "rw_convertToHexString v = convertToHexString v"

definition convertToJSON :: "'f Value \<Rightarrow> string res" where
  "convertToJSON v =
     (case v of
        V_string s \<Rightarrow> Inr (single_quoted (replaceAll [CHR 0x27] [CHR 0x27, CHR 0x27] s) @ ''::jsonb'')
      | _ \<Rightarrow> Inl (cannot_convert ''JSON'' v))"

definition rw_convertToUUID :: "'f Value \<Rightarrow> string res" where
  "rw_convertToUUID v =
     (case v of
        V_string s \<Rightarrow>
          if length s = 36 then Inr (single_quoted s)
          else Inl (Errorf ''invalid UUID format: %s (expected 36 chars)'' [AStr s])
      | _ \<Rightarrow> Inl (cannot_convert ''UUID'' v))"

definition rw_convertUnixTimestamp :: "'f Value \<Rightarrow> bool \<Rightarrow> string res" where
  "rw_convertUnixTimestamp v isMilliseconds =
     map_sum id (\<lambda>t. single_quoted (format_RisingWave (fst t) (snd t))) (unix_instant v isMilliseconds)"

definition rw_ConvertSemanticValue :: "'f Floats \<Rightarrow> string \<Rightarrow> 'f Value \<Rightarrow> string \<Rightarrow> string Ret" where
  "rw_ConvertSemanticValue fl semanticType v formatHint =
     (if semanticType = ''uint256'' then ret_of (convertToRwUint256 v formatHint)
      else if semanticType = ''int256'' then ret_of (convertToRwInt256 v formatHint)
      else if semanticType = ''address'' then ret_of (rw_convertToAddress v)
      else if semanticType = ''hash'' then ret_of (rw_convertToHash v)
      else if semanticType \<in> {''signature'', ''pubkey'', ''hex''} then ret_of (rw_convertToHexString v)
      else if semanticType = ''json'' then ret_of (convertToJSON v)
      else if semanticType = ''uuid'' then ret_of (rw_convertToUUID v)
      else if semanticType = ''unix_timestamp'' then ret_of (rw_convertUnixTimestamp v False)
      else if semanticType = ''unix_timestamp_ms'' then ret_of (rw_convertUnixTimestamp v True)
      else if semanticType = ''block_timestamp'' then ret_of (rw_convertUnixTimestamp v False)
      else value_ret (rw_ValueToString fl v))"

section \<open>ClickHouse\<close>

definition format_DateTime :: "int \<Rightarrow> string" where
  "format_DateTime i = format_date (i div 86400) @ '' '' @ format_clock (i mod 86400)"

text \<open>Lists have no text here.\<close>

definition ch_ValueToString :: "'f Floats \<Rightarrow> 'f Value \<Rightarrow> string option" where
  "ch_ValueToString fl v =
     (case v of
        V_list _ \<Rightarrow> None
      | _ \<Rightarrow> value_text fl (\<lambda>b. single_quoted (b64_encode b)) (\<lambda>t. format_DateTime (fst t)) v)"

definition ch_big :: "string \<Rightarrow> 'f Value \<Rightarrow> string \<Rightarrow> string res" where
  "ch_big t v formatHint =
     (case v of
        V_string s \<Rightarrow> Inr (if hasPrefix ''0x'' s then s else if formatHint = ''hex'' then ''0x'' @ s else s)
      | V_bytes b \<Rightarrow> Inr (''0x'' @ hex_text b)
      | _ \<Rightarrow> (case formatIntegral v of Some n \<Rightarrow> Inr n | None \<Rightarrow> Inl (cannot_convert t v)))"

definition convertToUInt256 :: "'f Value \<Rightarrow> string \<Rightarrow> string res" where
  "convertToUInt256 = ch_big ''UInt256''"

definition convertToInt256 :: "'f Value \<Rightarrow> string \<Rightarrow> string res" where
  "convertToInt256 = ch_big ''Int256''"

definition convertToFixedStringAddress :: "'f Value \<Rightarrow> string res" where
  "convertToFixedStringAddress v = convertToAddress v"

definition convertToFixedStringHash :: "'f Value \<Rightarrow> string res" where
  "convertToFixedStringHash v = convertToHash v"

definition convertToString :: "('f Value \<Rightarrow> string) \<Rightarrow> 'f Value \<Rightarrow> string res" where
  "convertToString sprint v =
     (case v of
        V_string s \<Rightarrow> Inr (escape_text s)
      | V_bytes b \<Rightarrow> Inr (quoted0x (hex_text b))
      | _ \<Rightarrow> Inr (single_quoted (go_Sprint sprint v)))"

definition ch_convertToDecimal :: "('f Value \<Rightarrow> string) \<Rightarrow> 'f Value \<Rightarrow> string res" where
  "ch_convertToDecimal sprint v =
     (case v of
        V_string s \<Rightarrow> Inr s
      | V_float64 _ \<Rightarrow> Inr (sprint v)
      | V_float32 _ \<Rightarrow> Inr (sprint v)
      | _ \<Rightarrow> (case formatIntegral v of Some n \<Rightarrow> Inr n | None \<Rightarrow> Inl (cannot_convert ''decimal'' v)))"

definition ch_convertUnixTimestamp :: "'f Value \<Rightarrow> bool \<Rightarrow> string res" where
  "ch_convertUnixTimestamp v isMilliseconds =
     map_sum id (\<lambda>t. single_quoted (format_DateTime (fst t)
         @ (if isMilliseconds then ''.'' @ padded 3 (snd t div 1000000) else []))) (unix_instant v isMilliseconds)"

definition ch_ConvertSemanticValue :: "'f Floats \<Rightarrow> ('f Value \<Rightarrow> string) \<Rightarrow> string \<Rightarrow> 'f Value \<Rightarrow> string \<Rightarrow> string Ret" where
  "ch_ConvertSemanticValue fl sprint semanticType v formatHint =
     (if semanticType \<in> {''uint256'', ''int256''} then ret_of (convertToString sprint v)
      else if semanticType = ''address'' then ret_of (convertToFixedStringAddress v)
      else if semanticType = ''hash'' then ret_of (convertToFixedStringHash v)
      else if semanticType \<in> {''signature'', ''pubkey'', ''hex'', ''json'', ''uuid''} then ret_of (convertToString sprint v)
      else if semanticType \<in> {''unix_timestamp'', ''block_timestamp''} then ret_of (ch_convertUnixTimestamp v False)
      else if semanticType = ''unix_timestamp_ms'' then ret_of (ch_convertUnixTimestamp v True)
      else value_ret (ch_ValueToString fl v))"

section \<open>Instants agree with the sinks\<close>

text \<open>A number of seconds or milliseconds is converted to the text of the instant that the sinks store for it.\<close>

lemma converted_instant_is_stored:
  assumes "semanticType \<in> {''unix_timestamp'', ''unix_timestamp_ms'', ''block_timestamp''}"
  shows "pg_ConvertSemanticValue fl semanticType (V_int64 n) hint
      = value_ret (pg_ValueToString fl (V_time (unixToTime n (semanticType = ''unix_timestamp_ms''))))"
    "rw_ConvertSemanticValue fl semanticType (V_int64 n) hint
      = value_ret (rw_ValueToString fl (V_time (unixToTime n (semanticType = ''unix_timestamp_ms''))))"
  using assms
  by (auto simp: pg_ConvertSemanticValue_def rw_ConvertSemanticValue_def convertUnixTimestamp_def rw_convertUnixTimestamp_def
      unix_instant_def value_ret_def pg_ValueToString_def rw_ValueToString_def)

end
