(* ===== verification/Spec2Isabelle.thy ===== *)
theory Spec2Isabelle
  imports SinkerProperties DialectProperties ChProperties SetupProperties CsvProperties ProtoRestart
    InjectProperties DeliveryProperties DescriptorProperties CommandProperties ProtoSemantic
begin

text \<open>
  Verification of the substreams SQL sink.

  The program receives the output of a Substreams module block by block and stores it in a SQL
  database or in CSV files. It has two ways of reading that output. In the first, the module emits
  database changes, rows to create, update, upsert or delete (\<open>src/db_changes\<close>); in the second, the
  sink derives the tables from the protobuf type of the output and inserts the messages themselves
  (\<open>src/db_proto\<close>).

  \<^bold>\<open>Database changes.\<close> The handlers of \<open>sinker/sinker.go\<close> (theory \<open>Sinker\<close>) give every change of a
  block to the loader of \<open>db/db.go\<close>, \<open>ops.go\<close> (\<open>Loader\<close>, on the operations of \<open>Operations\<close>), which keeps
  one pending operation per row in insertion-ordered maps (\<open>OrderedMaps\<close>) until the sinker decides to flush.
  A flush (\<open>Flush\<close>) begins a transaction (\<open>Tx\<close>), asks the dialect for the statements, updates the cursor and
  commits. The dialects are \<open>dialect_postgres.go\<close> (\<open>PgDialect\<close>, \<open>Flush\<close>), \<open>dialect_risingwave.go\<close>
  (\<open>RwDialect\<close>) and \<open>dialect_clickhouse.go\<close> (\<open>ChDialect\<close>); with history enabled every statement also
  records how to undo it, and an undo signal reverts the rows above the last valid block. \<open>Setup\<close> holds the
  creation of the schema and the discovery of the tables, \<open>Tables\<close> the tables themselves and the modes for a module
  hash mismatch, \<open>Dsn\<close> the connection strings. The CSV sink of \<open>generate_csv_sinker.go\<close> (\<open>Csv\<close>) writes the same
  changes through the bundlers of \<open>bundler/bundler.go\<close> (\<open>Bundler\<close>), which cut a table into files of a
  number of blocks with the buffered writer of \<open>bundler/writer\<close> (\<open>Writer\<close>), and keeps its cursor in the state
  file of \<open>state/file.go\<close> (\<open>Csv\<close>).

  \<^bold>\<open>Messages.\<close> In the second way \<open>db_proto/sql/schema\<close> derives a table per message type (\<open>ProtoSchema\<close>), the dialects
  of \<open>db_proto/sql/postgres\<close> and \<open>risingwave\<close> give columns their types and values their texts and write the statements
  that create the tables (\<open>ProtoPg\<close>), \<open>db_proto/sql/database.go\<close> walks a message and inserts a row for it and for
  every message in it (\<open>ProtoWalk\<close>) with the values of \<open>value_normalizer.go\<close> (\<open>ProtoValue\<close>), and the database of
  \<open>postgres/database.go\<close> executes the rows one by one or gathers them until a flush (\<open>ProtoDb\<close>). The handlers of
  \<open>db_proto/sinker.go\<close> hold the blocks of a batch, then insert them, flush and store the cursor in one
  transaction (\<open>ProtoSinker\<close>). The databases are three records of the interface \<open>DatabaseI\<close>: \<open>pg_DatabaseI\<close>, the
  one of \<open>risingwave\<close> (\<open>ProtoRw\<close>: dialect, inserters, database, without transactions) and the one of \<open>click_house\<close>
  (\<open>ProtoCh\<close>: types and dialect; \<open>ProtoChDb\<close>: the accumulators of columns, the client, and the files that hold the cursor and
  the hash). \<open>sinker_factory.go\<close> (\<open>ProtoFactory\<close>) builds one of them from a connection string, creates its tables on
  the first start and compares the hash of the schema later. \<open>ProtoFacts\<close> computes what a batch executes,
  \<open>ProtoProperties\<close>, \<open>ProtoDbProperties\<close> and \<open>ProtoRestart\<close> have the claims and \<open>ProtoExamples\<close> their examples.

  \<^bold>\<open>Messages to CSV files and back.\<close> The command of \<open>cmd/substreams-sink-sql/from_proto_generate_csv.go\<close> (\<open>ProtoCsv\<close>) walks
  the same messages but writes each row as a line in the files of its table, through the bundlers of \<open>Bundler\<close>, and
  writes the statements that create the schema and its metadata to files; \<open>inject_csv.go\<close> (\<open>InjectCsv\<close>) finds the files
  of a table by the block range in their names and sends them to PostgreSQL with COPY. \<open>ProtoCsvProperties\<close> compares the
  rows of the generator with those of the database, \<open>InjectProperties\<close> shows that the names, the headers and the lines
  it writes are read back, and \<open>DeliveryProperties\<close> that every line comes to a file that is queued for the upload.

  \<^bold>\<open>Commands.\<close> \<open>Descriptors\<close> has the resolution of the descriptors of a package (\<open>db_proto/proto/utils.go\<close>, \<open>shared.go\<close>,
  \<open>services/runner.go\<close>) and \<open>Commands\<close> the commands of \<open>cmd/substreams-sink-sql\<close> that compose the parts: \<open>run\<close>, \<open>setup\<close>,
  \<open>create-user\<close>, \<open>generate-csv\<close>, \<open>inject-csv\<close>, \<open>from-proto\<close>, \<open>from-proto-generate-csv\<close> and the tools for cursors, with the factory and
  the setup of \<open>db_changes/sinker\<close>. \<open>DescriptorProperties\<close> shows when the resolution succeeds, \<open>CommandProperties\<close> that
  the loader finds the cursor it has stored, and that the tools for cursors crash because of a flag they do not declare. \<open>ProtoSemantic\<close> has the converters of semantic types in the three \<open>types.go\<close>, which the sinks do not call.

  The state of each part is a record with the fields of the Go structure (\<open>Loader\<close>, \<open>Sinker\<close>, \<open>Bundler\<close>,
  \<open>BufferedIO\<close>, \<open>CsvSinker\<close>), and a method is a function that returns the results and the state after.
  Errors are values (\<open>GoErr\<close>, with the format and the arguments of \<open>fmt.Errorf\<close>), panics are the result
  \<open>Panicked\<close> of \<open>Outcome\<close> or \<open>None\<close>. Strings are lists of bytes, \<open>uint64\<close> is \<open>64 word\<close>. A Go map is an association
  list in the order in which one iteration visits it: a statement that holds for every list holds for every
  iteration order.

  \<^bold>\<open>Shared theories.\<close> \<open>Prelude\<close>, \<open>SqlText\<close>, \<open>Json\<close>, \<open>Strconv\<close> and \<open>GoTime\<close> are the parts of Go's standard library
  the source calls, written as that library has them: strings, quoting, JSON with its escapes, decimal numbers
  at a width, dates.

  \<^bold>\<open>What the lemmas show.\<close> \<open>Batch\<close> specifies the batch as a map from rows to pending operations and proves that the
  loader implements it and keeps its invariant; \<open>Transparent\<close> proves that the pending operation of a
  row does what its changes would have done one by one, and in which one case the database refuses it instead. \<open>FlushFacts\<close> computes what a flush and a revert send, for any transaction that
  meets the contract \<open>tx_log\<close>. \<open>Engine\<close> gives the statements a syntax and \<open>pg_engine\<close> the contract of
  PostgreSQL for them; \<open>History\<close> and \<open>Restore\<close> prove from it that a revert undoes the flushes, and \<open>MemEngine\<close> meets the
  contract with an executable database in memory. \<open>SinkerFacts\<close> computes what the handlers do. The
  claims are in \<open>ChangesProperties\<close>, \<open>SinkerProperties\<close>, \<open>DialectProperties\<close>, \<open>ChProperties\<close>, \<open>SetupProperties\<close>,
  \<open>Writer\<close>, \<open>CsvProperties\<close>, the theories of messages and, where they span the parts, here. \<open>Examples\<close> holds the concrete data of the
  examples.

  \<^bold>\<open>Interfaces.\<close> The locale \<open>ordered_map\<close> (third-party ordered maps) is interpreted on the association lists of the
  model, \<open>tx_log\<close> on the transaction of the tests and on every watched transaction, \<open>pg_engine\<close> on the database
  in memory, \<open>boundary_writer\<close> on \<open>BufferedIO\<close>, \<open>sql_transactions\<close> on a connection in memory that
  may refuse statements, \<open>file_store\<close> on files in memory, \<open>cursor_rows\<close> on a cursor table in memory that reads the statements.

  \<^bold>\<open>Bounds and fuel.\<close> The parser of \<open>Json\<close> takes the length of its input as fuel, which is enough because every
  step consumes a byte. \<open>trim_left\<close> takes the length of the text. The loop over skipped boundaries is a partial
  function, because it does not end for a bundle size of 0, and so are the walk over
  message types, which does not end for a recursive type, and the resolution of imports, which does not end for a cycle. The walk over a message ends because a message is finite.

  \<^bold>\<open>Parameters.\<close> The database drivers and the database (records of methods over an arbitrary state), SHA-256,
  \<open>strconv.ParseFloat\<close>, \<open>cli.Dedent\<close>, the ClickHouse SQL parser, the URL parser and the expansion of environment variables,
  YAML, protobuf descriptors and dynamic messages (records and a datatype), the table of printable runes, the schedule of
  goroutines, the native ClickHouse client with its files, the driver that opens a connection, the object store, the operating system, the clock, and the Substreams client that calls the handlers, and the library that reads the flags of a command.

  \<^bold>\<open>Not modelled.\<close> Logging, metrics and statistics that only feed logs (except the flush durations, on which a
  decision depends); the declaration of the commands and of
  flags that are not texts, the reading of manifests and of the network's endpoint (\<open>main.go\<close>), the goroutines that supervise a
  command; the caches of columns and pools of row buffers of the CSV generator; the generated
  accessors of \<open>src/pb\<close>; enumeration numbers in the options that have no name; \<open>services/dbt.go\<close>,
  which unpacks files and starts processes; \<open>bundler/stats.go\<close> and \<open>metrics.go\<close>.
\<close>

section \<open>Undoing blocks\<close>

text \<open>
  C1. Reverting restores every row. Take any database that meets the contract of PostgreSQL
  (\<open>pg_engine\<close>), whose history has no row of a block after \<open>v\<close>, and flush any number of
  batches whose operations belong to blocks after \<open>v\<close>, a row changing at most once per block.
  Then what the code sends is the text of those statements; the rows that the history query
  gives are undone one by one by the statements that \<open>revertOp\<close> builds, in any order the query
  may give rows of the same block; none of them fails; and at the end every row of every table
  is what it was before, with no history left after \<open>v\<close>.
\<close>

theorem flush_then_revert_restores:
  assumes engine: "pg_engine d key_cols exec row_at is_row to_json hist hquery"
    and ops: "\<forall>(ops, final) \<in> set fs. final \<le> v \<and> (\<forall>oper \<in> set ops. restorable d key_cols zone v oper)"
    and order: "sorted_wrt (\<lambda>a b. op_key a = op_key b \<longrightarrow> op_block a < op_block b) (concat (map fst fs))"
    and old: "\<forall>h \<in> set (hist db). \<not> v < h_block h"
    and texts: "flushes_texts d zone fs = Inr qs"
    and stmts: "flushes_stmts zone fs = Inr sts"
    and run: "run exec sts db = Some db'"
  shows "(\<exists>sss. qs = map (render_all d) sss \<and> sts = concat sss) \<and>
    (\<exists>rsts db''. list_all2 (\<lambda>h q. pg_revertQuery (h_op h) (h_table h) (h_pk h) (prev_value h) = Some (Inr q))
         (hquery db' v) (map (render d) rsts)
       \<and> run exec (rsts @ [PruneAbove v]) db' = Some db''
       \<and> row_at db'' = row_at db \<and> (\<forall>h \<in> set (hist db''). \<not> v < h_block h))"
proof -
  have old': "pg_engine.recent hist v db = []"
    unfolding pg_engine.recent_def [OF engine] using old by (simp add: filter_empty_conv)
  obtain rsts db'' where r: "list_all2 (\<lambda>h st. revert_stmt h = Some st) (hquery db' v) rsts"
    "run exec (rsts @ [PruneAbove v]) db' = Some db''" "row_at db'' = row_at db" "pg_engine.recent hist v db'' = []"
    using pg_engine.revert_restores [OF engine ops order old' stmts run] by blast
  have "\<forall>h \<in> set (hist db''). \<not> v < h_block h"
    using r(4) unfolding pg_engine.recent_def [OF engine] by (simp add: filter_empty_conv)
  then show ?thesis
    using flushes_texts_stmts [OF texts] stmts revert_texts [OF r(1), of d] r(2,3) by auto
qed

text \<open>The example of \<open>Examples\<close>: rows inserted, changed and deleted in two batches\<close>

theorem flush_then_revert_restores_witness:
  "\<exists>rsts db''. length rsts = 4 \<and> run (mem_exec ex_pg ex_pk) (rsts @ [PruneAbove 10]) ex_db' = Some db''
     \<and> mem_row_at ex_pk db'' = mem_row_at ex_pk ex_db"
proof -
  have ops: "\<forall>(ops, final) \<in> set ex_flushes. final \<le> 10 \<and> (\<forall>oper \<in> set ops. restorable ex_pg ex_pk id 10 oper)"
    by code_simp
  have order: "sorted_wrt (\<lambda>a b. op_key a = op_key b \<longrightarrow> op_block a < op_block b) (concat (map fst ex_flushes))"
    by code_simp
  have run: "\<forall>h \<in> set (m_hist ex_db). \<not> 10 < h_block h" "flushes_texts ex_pg id ex_flushes = Inr ex_texts"
    "flushes_stmts id ex_flushes = Inr ex_stmts" "run (mem_exec ex_pg ex_pk) ex_stmts ex_db = Some ex_db'"
    by code_simp+
  have n: "length (mem_query ex_db' 10) = 4" by code_simp
  from flush_then_revert_restores [OF mem.pg_engine_axioms ops order run] n show ?thesis
    by (fastforce dest: list_all2_lengthD)
qed

end
